(* ===== verification/Py_Prelude.thy ===== *)
theory Py_Prelude
  imports Complex_Main "HOL-Library.AList"
begin

text \<open>
  Shared vocabulary of the development: Python values and exceptions, results of fallible
  calls, dictionaries as insertion-ordered association lists, the string operations the
  sources use, and the generic contracts several components share, stated as locales.

  Python strings are lists of code points up to U+00FF; Isabelle's \<open>string\<close> has exactly
  these 256 characters. No rule of the sources distinguishes larger code points, and
  \<open>utf8_len\<close> counts the bytes their UTF-8 encoding takes.
\<close>

section \<open>Automation collections\<close>

named_theorems dict_simps \<open>lookup and key sets after an update of a Python dictionary\<close>
named_theorems result_simps \<open>chaining of fallible calls\<close>

section \<open>Exceptions and results\<close>

text \<open>
  One constructor per exception class the modelled sources raise, with its message. The
  message of an f-string is built by the model too.
\<close>

datatype exn =
    AdapterFault string
  | AggregationFault string
  | RuntimeModelError string
  | RuntimeStatusError string
  | InvalidTransition string
  | ValueError string
  | TypeError string
  | RuntimeError string
  | TimeoutError
  | AssertionError
  | KeyError
  | AttributeError
  | OverflowError
  | ZeroDivisionError
  | OSError string
  | FileExistsError
  | FinalizationConflict string
  | ValidationFailure string string
  | OtherException string

type_synonym 'a result = "exn + 'a"

text \<open>\<open>RuntimeStatusError\<close> is a subclass of \<open>ValueError\<close> in the sources.\<close>

fun is_ValueError :: "exn \<Rightarrow> bool" where
  "is_ValueError (ValueError _) = True"
| "is_ValueError (RuntimeStatusError _) = True"
| "is_ValueError (InvalidTransition _) = True"
| "is_ValueError _ = False"

text \<open>\<open>TimeoutError\<close> and \<open>FileExistsError\<close> are subclasses of \<open>OSError\<close>.\<close>

fun is_OSError :: "exn \<Rightarrow> bool" where
  "is_OSError (OSError _) = True"
| "is_OSError TimeoutError = True"
| "is_OSError FileExistsError = True"
| "is_OSError _ = False"

definition rbind :: "'a result \<Rightarrow> ('a \<Rightarrow> 'b result) \<Rightarrow> 'b result" where
  "rbind r f = (case r of Inl e \<Rightarrow> Inl e | Inr x \<Rightarrow> f x)"

definition guard :: "bool \<Rightarrow> exn \<Rightarrow> unit result" where
  "guard bad e = (if bad then Inl e else Inr ())"

lemma rbind_simps [simp, result_simps]:
  "rbind (Inl e) f = Inl e"
  "rbind (Inr x) f = f x"
  by (simp_all add: rbind_def)

lemma rbind_eq_Inr [simp, result_simps]:
  "rbind r f = Inr y \<longleftrightarrow> (\<exists>x. r = Inr x \<and> f x = Inr y)"
  by (cases r) simp_all

lemma guard_eq_Inr [simp, result_simps]: "guard bad e = Inr u \<longleftrightarrow> \<not> bad"
  by (simp add: guard_def)

lemma guard_simps [simp, result_simps]:
  "guard False e = Inr ()"
  "guard True e = Inl e"
  by (simp_all add: guard_def)

section \<open>Python values\<close>

text \<open>
  A Python \<open>float\<close>: the rational value of a finite binary64 number, or one of the three
  special values. The sign of zero is not kept.
\<close>

datatype pyfloat = Fin rat | PosInf | NegInf | NaN

fun isfinite :: "pyfloat \<Rightarrow> bool" where
  "isfinite (Fin _) = True"
| "isfinite _ = False"

text \<open>
  Values whose type the sources test at run time. \<open>VObj c\<close> is an instance of a class
  \<open>c\<close> that no test of the sources accepts.
\<close>

datatype pyval =
    VNone
  | VBool bool
  | VInt int
  | VFloat pyfloat
  | VStr string
  | VBytes string
  | VTuple "pyval list"
  | VList "pyval list"
  | VDict "(pyval \<times> pyval) list"
  | VObj string

text \<open>\<open>type(value) is int\<close> and the equivalent \<open>isinstance\<close> test that excludes \<open>bool\<close>.\<close>

fun strict_int :: "pyval \<Rightarrow> int option" where
  "strict_int (VInt i) = Some i"
| "strict_int _ = None"

fun strict_bool :: "pyval \<Rightarrow> bool option" where
  "strict_bool (VBool b) = Some b"
| "strict_bool _ = None"

fun strict_str :: "pyval \<Rightarrow> string option" where
  "strict_str (VStr s) = Some s"
| "strict_str _ = None"

text \<open>A finite \<open>int\<close> or \<open>float\<close> that is not a \<open>bool\<close>.\<close>

fun finite_number :: "pyval \<Rightarrow> bool" where
  "finite_number (VInt _) = True"
| "finite_number (VFloat f) = isfinite f"
| "finite_number _ = False"

text \<open>
  Membership in a \<open>set\<close> hashes the value: lists and dictionaries, and tuples that hold
  them, raise \<open>TypeError\<close>.
\<close>

fun hashable :: "pyval \<Rightarrow> bool" where
  "hashable (VList _) = False"
| "hashable (VDict _) = False"
| "hashable (VTuple xs) = list_all hashable xs"
| "hashable _ = True"

lemma strict_int_eq_Some [simp]: "strict_int v = Some i \<longleftrightarrow> v = VInt i"
  by (cases v) auto

lemma strict_bool_eq_Some [simp]: "strict_bool v = Some b \<longleftrightarrow> v = VBool b"
  by (cases v) auto

lemma strict_str_eq_Some [simp]: "strict_str v = Some s \<longleftrightarrow> v = VStr s"
  by (cases v) auto

section \<open>Strings\<close>

definition utf8_len :: "string \<Rightarrow> nat" where
  "utf8_len s = sum_list (map (\<lambda>c. if (of_char c :: nat) < 128 then 1 else 2) s)"

text \<open>A string between single quotes, as messages write it.\<close>

definition quoted :: "string \<Rightarrow> string" where
  "quoted s = CHR 0x27 # s @ [CHR 0x27]"

definition is_digit :: "char \<Rightarrow> bool" where
  "is_digit c \<longleftrightarrow> 48 \<le> (of_char c :: nat) \<and> (of_char c :: nat) \<le> 57"

definition digit_val :: "char \<Rightarrow> nat" where
  "digit_val c = of_char c - 48"

definition digit_char :: "nat \<Rightarrow> char" where
  "digit_char d = char_of (48 + d)"

fun str_nat :: "nat \<Rightarrow> string" where
  "str_nat n = (if n < 10 then [digit_char n] else str_nat (n div 10) @ [digit_char (n mod 10)])"

declare str_nat.simps [simp del]

text \<open>Python's \<open>str\<close> of an integer.\<close>

definition str_int :: "int \<Rightarrow> string" where
  "str_int i = (if i < 0 then CHR ''-'' # str_nat (nat (- i)) else str_nat (nat i))"

text \<open>UTF-8 of code points up to U+00FF: one byte below 128, two from there.\<close>

definition utf8_encode :: "string \<Rightarrow> string" where
  "utf8_encode s = concat (map (\<lambda>c. let k = of_char c :: nat in
     if k < 128 then [c] else [char_of (192 + k div 64), char_of (128 + k mod 64)]) s)"

text \<open>Python's \<open>str.split\<close> with a one-character separator.\<close>

fun split_on :: "char \<Rightarrow> string \<Rightarrow> string list" where
  "split_on c [] = [[]]"
| "split_on c (x # xs) =
     (if x = c then [] # split_on c xs
      else (case split_on c xs of [] \<Rightarrow> [[x]] | w # ws \<Rightarrow> (x # w) # ws))"

text \<open>Python's \<open>sep.join\<close> with a one-character separator.\<close>

fun join_with :: "char \<Rightarrow> string list \<Rightarrow> string" where
  "join_with c [] = []"
| "join_with c [w] = w"
| "join_with c (w # ws) = w @ c # join_with c ws"

text \<open>
  Python's \<open>int(text)\<close> in base ten: surrounding white space, one sign, digits with single
  underscores between them, and at most 4300 digits. \<open>None\<close> stands for \<open>ValueError\<close>.
\<close>

definition is_space :: "char \<Rightarrow> bool" where
  "is_space c \<longleftrightarrow> (of_char c :: nat) \<in> {9, 10, 11, 12, 13, 28, 29, 30, 31, 32, 133, 160}"

definition strip :: "string \<Rightarrow> string" where
  "strip s = rev (dropWhile is_space (rev (dropWhile is_space s)))"

fun int_digits :: "nat \<Rightarrow> bool \<Rightarrow> string \<Rightarrow> nat option" where
  "int_digits acc after_digit [] = (if after_digit then Some acc else None)"
| "int_digits acc after_digit (c # cs) =
     (if is_digit c then int_digits (10 * acc + digit_val c) True cs
      else if c = CHR ''_'' \<and> after_digit then int_digits acc False cs
      else None)"

definition int_max_str_digits :: nat where
  "int_max_str_digits = 4300"

definition int_of_str :: "string \<Rightarrow> int option" where
  "int_of_str s =
     (let t = strip s in
      if int_max_str_digits < length (filter is_digit t) then None
      else case t of
          [] \<Rightarrow> None
        | c # cs \<Rightarrow>
            if c = CHR ''-'' then map_option (\<lambda>n. - int n) (int_digits 0 False cs)
            else if c = CHR ''+'' then map_option int (int_digits 0 False cs)
            else map_option int (int_digits 0 False t))"

text \<open>
  \<open>str(UUID(value)) == value\<close>: exactly the 36-character lowercase form with hyphens at
  positions 8, 13, 18 and 23. \<open>UUID\<close> accepts other spellings, but prints only this one.
\<close>

definition is_lower_hex :: "char \<Rightarrow> bool" where
  "is_lower_hex c \<longleftrightarrow> is_digit c \<or> 97 \<le> (of_char c :: nat) \<and> (of_char c :: nat) \<le> 102"

definition canonical_uuid :: "string \<Rightarrow> bool" where
  "canonical_uuid s \<longleftrightarrow> map length (split_on (CHR ''-'') s) = [8, 4, 4, 4, 12]
     \<and> list_all is_lower_hex (filter (\<lambda>c. c \<noteq> CHR ''-'') s)"

section \<open>Facts on strings\<close>

lemma split_on_not_Nil [simp]: "split_on c s \<noteq> []"
  by (cases s) (auto split: list.splits)

lemma join_with_split_on [simp]: "join_with c (split_on c s) = s"
proof (induction s)
  case Nil
  then show ?case by simp
next
  case (Cons x xs)
  obtain w ws where w: "split_on c xs = w # ws"
    by (cases "split_on c xs") auto
  with Cons.IH show ?case by (cases ws) auto
qed

lemma split_on_no_sep: "c \<notin> set s \<Longrightarrow> split_on c s = [s]"
  by (induction s) auto

lemma split_on_append: "c \<notin> set w \<Longrightarrow> split_on c (w @ c # s) = w # split_on c s"
  by (induction w) auto

lemma split_on_parts: "w \<in> set (split_on c s) \<Longrightarrow> c \<notin> set w"
  by (induction s arbitrary: w) (auto split: list.splits if_splits)

lemma is_digit_digit_char: "d < 10 \<Longrightarrow> is_digit (digit_char d)"
  by (simp add: is_digit_def digit_char_def)

lemma digit_val_digit_char [simp]: "d < 10 \<Longrightarrow> digit_val (digit_char d) = d"
  by (simp add: digit_val_def digit_char_def)

lemma str_nat_digits: "c \<in> set (str_nat n) \<Longrightarrow> is_digit c"
proof (induction n rule: str_nat.induct)
  case (1 n)
  then show ?case
    by (auto simp: str_nat.simps [of n] is_digit_digit_char split: if_splits)
qed

lemma str_nat_not_Nil [simp]: "str_nat n \<noteq> []"
  by (subst str_nat.simps) simp

lemma int_digits_append:
  "(\<And>c. c \<in> set xs \<Longrightarrow> is_digit c) \<Longrightarrow> xs \<noteq> [] \<Longrightarrow>
     int_digits acc b (xs @ ys) =
     (case int_digits acc b xs of None \<Rightarrow> None | Some a \<Rightarrow> int_digits a True ys)"
proof (induction xs arbitrary: acc b)
  case Nil
  then show ?case by simp
next
  case (Cons x xs)
  then show ?case by (cases "xs = []") auto
qed

lemma int_digits_str_nat: "int_digits 0 b (str_nat n) = Some n"
proof (induction n rule: str_nat.induct)
  case (1 n)
  show ?case
  proof (cases "n < 10")
    case True
    then show ?thesis by (simp add: str_nat.simps [of n] is_digit_digit_char)
  next
    case False
    then show ?thesis
      using "1.IH" by (simp add: str_nat.simps [of n] int_digits_append str_nat_digits
          is_digit_digit_char)
  qed
qed

lemma digit_not_space: "is_digit c \<Longrightarrow> \<not> is_space c"
  by (auto simp: is_digit_def is_space_def)

lemma strip_str_nat [simp]: "strip (str_nat n) = str_nat n"
proof -
  have d: "dropWhile is_space xs = xs" if "\<And>c. c \<in> set xs \<Longrightarrow> is_digit c" for xs
    using that by (cases xs) (auto dest: digit_not_space)
  have "dropWhile is_space (str_nat n) = str_nat n"
    by (rule d) (rule str_nat_digits)
  moreover have "dropWhile is_space (rev (str_nat n)) = rev (str_nat n)"
    by (rule d) (auto intro: str_nat_digits)
  ultimately show ?thesis by (simp add: strip_def)
qed

text \<open>Parsing a printed nonnegative integer of at most 4300 digits returns the integer.\<close>

lemma int_of_str_str_int:
  assumes "0 \<le> i" and "length (str_int i) \<le> int_max_str_digits"
  shows "int_of_str (str_int i) = Some i"
proof -
  have s: "str_int i = str_nat (nat i)"
    using assms(1) by (simp add: str_int_def)
  obtain c cs where cs: "str_nat (nat i) = c # cs"
    by (cases "str_nat (nat i)") auto
  have "is_digit c"
    using str_nat_digits [of c "nat i"] cs by simp
  then have sign: "c \<noteq> CHR ''-''" "c \<noteq> CHR ''+''"
    by (auto simp: is_digit_def)
  have "length (filter is_digit (str_nat (nat i))) \<le> int_max_str_digits"
    using assms(2) s by (metis length_filter_le order_trans)
  then have "int_of_str (str_int i) = map_option int (int_digits 0 False (str_nat (nat i)))"
    unfolding int_of_str_def Let_def s strip_str_nat using sign by (simp add: cs)
  also have "\<dots> = Some i"
    using assms(1) by (simp add: int_digits_str_nat)
  finally show ?thesis .
qed

lemma str_nat_inj: "str_nat m = str_nat n \<Longrightarrow> m = n"
  by (metis int_digits_str_nat option.inject)

lemma str_int_inj [simp]: "0 \<le> i \<Longrightarrow> 0 \<le> j \<Longrightarrow> str_int i = str_int j \<longleftrightarrow> i = j"
  by (auto simp: str_int_def dest: str_nat_inj)

lemma str_int_chars: "0 \<le> i \<Longrightarrow> c \<in> set (str_int i) \<Longrightarrow> is_digit c"
  by (auto simp: str_int_def intro: str_nat_digits)

text \<open>A run identity for the concrete instances of the development.\<close>

definition sample_run_id :: string where
  "sample_run_id = ''61d59d63-23b6-4323-a4e7-b0c2b95d2044''"

lemma canonical_sample_run_id [simp]: "canonical_uuid sample_run_id"
  by (simp add: sample_run_id_def canonical_uuid_def is_lower_hex_def is_digit_def)

section \<open>Grids of time\<close>

text \<open>Rounding up to a multiple of a period, as the sources compute it.\<close>

lemma div_eq_interval:
  fixes p :: int
  assumes "0 < p"
  shows "x div p = k \<longleftrightarrow> k * p \<le> x \<and> x < (k + 1) * p"
proof
  assume "x div p = k"
  moreover have "x = x div p * p + x mod p" "0 \<le> x mod p" "x mod p < p"
    using assms by simp_all
  ultimately show "k * p \<le> x \<and> x < (k + 1) * p"
    by (auto simp: distrib_right)
next
  assume "k * p \<le> x \<and> x < (k + 1) * p"
  then show "x div p = k"
    using assms by (intro int_div_pos_eq [of x p k "x - k * p"]) (auto simp: algebra_simps)
qed

lemma round_up_interval:
  fixes p :: int
  assumes "0 < p"
  shows "((u + p - 1) div p) * p = k * p \<longleftrightarrow> (k - 1) * p < u \<and> u \<le> k * p"
proof -
  have "((u + p - 1) div p) * p = k * p \<longleftrightarrow> (u + p - 1) div p = k"
    using assms by simp
  also have "\<dots> \<longleftrightarrow> (k - 1) * p < u \<and> u \<le> k * p"
    unfolding div_eq_interval [OF assms] by (auto simp: algebra_simps)
  finally show ?thesis .
qed

section \<open>Dictionaries\<close>

text \<open>
  A Python dictionary is an association list in insertion order with distinct keys:
  assigning to a present key keeps its place and a new key goes to the end, as
  \<open>AList.update\<close> does, and \<open>AList.delete\<close> removes a key.
\<close>

type_synonym ('k, 'v) dict = "('k \<times> 'v) list"

abbreviation (input) dict_keys :: "('k, 'v) dict \<Rightarrow> 'k list" where
  "dict_keys d \<equiv> map fst d"

abbreviation (input) dict_ok :: "('k, 'v) dict \<Rightarrow> bool" where
  "dict_ok d \<equiv> distinct (map fst d)"

lemmas [dict_simps] = update_conv' delete_conv' dom_update delete_keys update_keys

lemma dict_ok_update [simp, intro]: "dict_ok d \<Longrightarrow> dict_ok (AList.update k v d)"
  by (rule distinct_update)

lemma dict_ok_delete [simp, intro]: "dict_ok d \<Longrightarrow> dict_ok (AList.delete k d)"
  by (rule distinct_delete)

lemma dict_ok_filter [simp, intro]: "dict_ok d \<Longrightarrow> dict_ok (filter P d)"
  by (induction d) auto

lemma map_of_eq_Some_key: "map_of d k = Some v \<Longrightarrow> k \<in> set (dict_keys d)"
  by (metis map_of_SomeD fst_conv image_eqI set_map)

lemma set_update_keys [simp, dict_simps]:
  "set (dict_keys (AList.update k v d)) = insert k (set (dict_keys d))"
  by (induction d) auto

lemma set_delete_keys [simp, dict_simps]:
  "set (dict_keys (AList.delete k d)) = set (dict_keys d) - {k}"
  by (induction d) auto

lemma update_new: "k \<notin> set (dict_keys d) \<Longrightarrow> AList.update k v d = d @ [(k, v)]"
  by (induction d) auto

lemma map_of_filter_key:
  "map_of (filter (\<lambda>(k, v). P k) d) x = (if P x then map_of d x else None)"
  by (induction d) auto

section \<open>Runs of operations\<close>

text \<open>
  A component is a step function on its state: an operation returns a value (a
  \<open>result\<close> where it may raise) and the state it leaves, which a raising call may have
  changed too. \<open>run_ops\<close> performs operations in order, whether or not one raises.
\<close>

fun run_ops :: "('op \<Rightarrow> 's \<Rightarrow> 'a \<times> 's) \<Rightarrow> 'op list \<Rightarrow> 's \<Rightarrow> 'a list \<times> 's" where
  "run_ops f [] s = ([], s)"
| "run_ops f (x # xs) s =
     (fst (f x s) # fst (run_ops f xs (snd (f x s))), snd (run_ops f xs (snd (f x s))))"

lemma run_ops_append:
  "run_ops f (xs @ ys) s =
     (fst (run_ops f xs s) @ fst (run_ops f ys (snd (run_ops f xs s))),
      snd (run_ops f ys (snd (run_ops f xs s))))"
  by (induction xs arbitrary: s) auto

lemma length_run_ops [simp]: "length (fst (run_ops f xs s)) = length xs"
  by (induction xs arbitrary: s) auto

text \<open>The items of the calls of a run that returned, in order.\<close>

fun returned :: "'a list result list \<Rightarrow> 'a list" where
  "returned [] = []"
| "returned (Inl _ # rs) = returned rs"
| "returned (Inr xs # rs) = xs @ returned rs"

lemma returned_Inl [simp]: "returned (replicate n (Inl e)) = []"
  by (induction n) simp_all

text \<open>The contract of an invariant: every operation keeps it, so every run does.\<close>

locale invariant_machine =
  fixes step :: "'op \<Rightarrow> 's \<Rightarrow> 'a \<times> 's"
    and invar :: "'s \<Rightarrow> bool"
  assumes step_invar: "invar s \<Longrightarrow> invar (snd (step x s))"
begin

lemma run_invar: "invar s \<Longrightarrow> invar (snd (run_ops step xs s))"
  by (induction xs arbitrary: s) (auto dest: step_invar)

end

text \<open>The same contract for a step relation: an invariant holds in every reachable state.\<close>

locale transition_invariant =
  fixes step :: "'s \<Rightarrow> 's \<Rightarrow> bool"
    and invar :: "'s \<Rightarrow> bool"
  assumes step_keeps: "invar s \<Longrightarrow> step s s' \<Longrightarrow> invar s'"
begin

lemma reach_invar: "rtranclp step s s' \<Longrightarrow> invar s \<Longrightarrow> invar s'"
  by (induction rule: rtranclp_induct) (auto intro: step_keeps)

end

text \<open>
  The contract of a latched fault. A component that has latched a reason answers every
  later call with an \<open>AdapterFault\<close> of that reason and keeps its state
  (\<open>fault_sticky\<close>); in \<open>fault_latch\<close> every call that raises an \<open>AdapterFault\<close>
  latches its reason.
\<close>

locale fault_sticky =
  fixes step :: "'op \<Rightarrow> 's \<Rightarrow> 'a result \<times> 's"
    and fault :: "'s \<Rightarrow> string option"
  assumes latched: "fault s = Some r \<Longrightarrow> step x s = (Inl (AdapterFault r), s)"
begin

lemma run_latched:
  "fault s = Some r \<Longrightarrow> run_ops step xs s = (replicate (length xs) (Inl (AdapterFault r)), s)"
  by (induction xs) (simp_all add: latched)

end

locale fault_latch = fault_sticky +
  assumes latches: "step x s = (Inl (AdapterFault r), s') \<Longrightarrow> fault s' = Some r"
begin

lemma fault_is_final:
  assumes "step x s = (Inl (AdapterFault r), s')"
  shows "run_ops step (x # xs) s = (replicate (Suc (length xs)) (Inl (AdapterFault r)), s')"
  using assms run_latched [OF latches [OF assms], of xs] by simp

end

end
