(* ===== verification/Run_Lifecycle.thy ===== *)
theory Run_Lifecycle
  imports Py_Prelude
begin

text \<open>
  The run lifecycle of the host controller, \<open>orchestration/lifecycle.py\<close>: eight states,
  eight events and one transition function. The record \<open>run_lifecycle\<close> is the frozen
  dataclass \<open>RunLifecycle\<close>, \<open>apply\<close> its only operation. The theory also gives the
  reachable lifecycles as an inductive predicate, their invariant, and the exact event
  sequences that end in each terminal state.
\<close>

datatype lifecycle_state =
  CREATED | STARTING | READY | RUNNING | FINALIZING | COMPLETED | FAILED | ABORTED

datatype lifecycle_event =
    START | MODULES_READY | CLOCK_STARTED | COMPLETE | FAIL | ABORT
  | ARTIFACTS_FINALIZED | FINALIZATION_FAILED

fun state_name :: "lifecycle_state \<Rightarrow> string" where
  "state_name CREATED = ''CREATED''"
| "state_name STARTING = ''STARTING''"
| "state_name READY = ''READY''"
| "state_name RUNNING = ''RUNNING''"
| "state_name FINALIZING = ''FINALIZING''"
| "state_name COMPLETED = ''COMPLETED''"
| "state_name FAILED = ''FAILED''"
| "state_name ABORTED = ''ABORTED''"

fun event_name :: "lifecycle_event \<Rightarrow> string" where
  "event_name START = ''START''"
| "event_name MODULES_READY = ''MODULES_READY''"
| "event_name CLOCK_STARTED = ''CLOCK_STARTED''"
| "event_name COMPLETE = ''COMPLETE''"
| "event_name FAIL = ''FAIL''"
| "event_name ABORT = ''ABORT''"
| "event_name ARTIFACTS_FINALIZED = ''ARTIFACTS_FINALIZED''"
| "event_name FINALIZATION_FAILED = ''FINALIZATION_FAILED''"

record run_lifecycle =
  lc_run_id :: string
  lc_state :: lifecycle_state
  lc_pending_terminal :: "lifecycle_state option"
  lc_reason :: string

definition created :: "string \<Rightarrow> run_lifecycle" where
  "created rid = \<lparr>lc_run_id = rid, lc_state = CREATED, lc_pending_terminal = None, lc_reason = ''''\<rparr>"

text \<open>The lookup table of the three forward transitions.\<close>

fun forward_transition :: "lifecycle_state \<Rightarrow> lifecycle_event \<Rightarrow> lifecycle_state option" where
  "forward_transition CREATED START = Some STARTING"
| "forward_transition STARTING MODULES_READY = Some READY"
| "forward_transition READY CLOCK_STARTED = Some RUNNING"
| "forward_transition _ _ = None"

definition apply_event :: "run_lifecycle \<Rightarrow> lifecycle_event \<Rightarrow> string \<Rightarrow> run_lifecycle result" where
  "apply_event lc event why =
     (case forward_transition (lc_state lc) event of
        Some s \<Rightarrow> Inr \<lparr>lc_run_id = lc_run_id lc, lc_state = s, lc_pending_terminal = None, lc_reason = why\<rparr>
      | None \<Rightarrow>
          if lc_state lc \<in> {STARTING, READY, RUNNING} \<and> event \<in> {FAIL, ABORT} then
            Inr \<lparr>lc_run_id = lc_run_id lc, lc_state = FINALIZING,
                 lc_pending_terminal = Some (if event = FAIL then FAILED else ABORTED),
                 lc_reason = why\<rparr>
          else if lc_state lc = RUNNING \<and> event = COMPLETE then
            Inr \<lparr>lc_run_id = lc_run_id lc, lc_state = FINALIZING, lc_pending_terminal = Some COMPLETED,
                 lc_reason = why\<rparr>
          else if lc_state lc = FINALIZING \<and> event = ARTIFACTS_FINALIZED
                  \<and> lc_pending_terminal lc \<noteq> None then
            Inr \<lparr>lc_run_id = lc_run_id lc, lc_state = the (lc_pending_terminal lc),
                 lc_pending_terminal = None, lc_reason = lc_reason lc\<rparr>
          else if lc_state lc = FINALIZING \<and> event = FINALIZATION_FAILED then
            Inr \<lparr>lc_run_id = lc_run_id lc, lc_state = FAILED, lc_pending_terminal = None, lc_reason = why\<rparr>
          else Inl (InvalidTransition (''cannot apply state '' @ state_name (lc_state lc)
                      @ '' event '' @ event_name event)))"

text \<open>A sequence of events with their reasons; it stops at the first rejected event.\<close>

fun apply_all :: "run_lifecycle \<Rightarrow> (lifecycle_event \<times> string) list \<Rightarrow> run_lifecycle result" where
  "apply_all lc [] = Inr lc"
| "apply_all lc ((e, why) # es) = rbind (apply_event lc e why) (\<lambda>lc'. apply_all lc' es)"

definition terminal_states :: "lifecycle_state set" where
  "terminal_states = {COMPLETED, FAILED, ABORTED}"

inductive reachable :: "string \<Rightarrow> run_lifecycle \<Rightarrow> bool" for rid where
  reach_created: "reachable rid (created rid)"
| reach_apply: "reachable rid lc \<Longrightarrow> apply_event lc e why = Inr lc' \<Longrightarrow> reachable rid lc'"

text \<open>
  What the code keeps true between the fields: a pending terminal state exists exactly
  while the run is finalizing, and it is one of the three terminal states.
\<close>

definition lifecycle_inv :: "run_lifecycle \<Rightarrow> bool" where
  "lifecycle_inv lc \<longleftrightarrow>
     (lc_pending_terminal lc \<noteq> None \<longleftrightarrow> lc_state lc = FINALIZING)
     \<and> (\<forall>t. lc_pending_terminal lc = Some t \<longrightarrow> t \<in> terminal_states)"

section \<open>One step\<close>

text \<open>A characterisation of the accepted steps as a graph of states.\<close>

lemma apply_event_cases:
  assumes "apply_event lc e why = Inr lc'"
  obtains
    (forward) s where "forward_transition (lc_state lc) e = Some s" "lc_state lc' = s"
      "lc_pending_terminal lc' = None" "lc_reason lc' = why"
  | (stop) "lc_state lc \<in> {STARTING, READY, RUNNING}" "e = FAIL \<or> e = ABORT"
      "lc_state lc' = FINALIZING"
      "lc_pending_terminal lc' = Some (if e = FAIL then FAILED else ABORTED)" "lc_reason lc' = why"
  | (complete) "lc_state lc = RUNNING" "e = COMPLETE" "lc_state lc' = FINALIZING"
      "lc_pending_terminal lc' = Some COMPLETED" "lc_reason lc' = why"
  | (finalized) t where "lc_state lc = FINALIZING" "e = ARTIFACTS_FINALIZED"
      "lc_pending_terminal lc = Some t" "lc_state lc' = t" "lc_pending_terminal lc' = None"
      "lc_reason lc' = lc_reason lc"
  | (broken) "lc_state lc = FINALIZING" "e = FINALIZATION_FAILED" "lc_state lc' = FAILED"
      "lc_pending_terminal lc' = None" "lc_reason lc' = why"
  using assms
  by (auto simp: apply_event_def split: option.splits if_splits)

lemma apply_event_run_id: "apply_event lc e why = Inr lc' \<Longrightarrow> lc_run_id lc' = lc_run_id lc"
  by (auto simp: apply_event_def split: option.splits if_splits)

lemma forward_transition_state:
  "forward_transition s e = Some t \<Longrightarrow> t \<in> {STARTING, READY, RUNNING}"
  by (induction s e rule: forward_transition.induct) auto

lemma apply_event_inv:
  assumes "lifecycle_inv lc" and "apply_event lc e why = Inr lc'"
  shows "lifecycle_inv lc'"
  using assms(2)
proof (cases rule: apply_event_cases)
  case (forward s)
  then show ?thesis
    by (auto simp: lifecycle_inv_def dest: forward_transition_state)
next
  case (finalized t)
  then have "t \<in> terminal_states"
    using assms(1) by (simp add: lifecycle_inv_def)
  with finalized show ?thesis by (auto simp: lifecycle_inv_def terminal_states_def)
qed (auto simp: lifecycle_inv_def terminal_states_def)

lemma reachable_inv: "reachable rid lc \<Longrightarrow> lifecycle_inv lc \<and> lc_run_id lc = rid"
proof (induction rule: reachable.induct)
  case reach_created
  then show ?case by (simp add: lifecycle_inv_def created_def)
next
  case (reach_apply lc e why lc')
  then show ?case by (auto dest: apply_event_inv apply_event_run_id)
qed

lemma apply_all_reachable:
  "reachable rid lc \<Longrightarrow> apply_all lc es = Inr lc' \<Longrightarrow> reachable rid lc'"
proof (induction es arbitrary: lc)
  case Nil
  then show ?case by simp
next
  case (Cons x es)
  obtain e why where x: "x = (e, why)" by (cases x)
  with Cons.prems obtain m where "apply_event lc e why = Inr m" "apply_all m es = Inr lc'"
    by auto
  with Cons show ?case by (blast intro: reach_apply)
qed

section \<open>Which event sequences reach which state\<close>

text \<open>
  From a state, the event names of the accepted sequences that end in a given state. The
  lemmas peel one event off the front, so the sequences that end in \<open>COMPLETED\<close> are
  computed by chaining them.
\<close>

lemma apply_all_terminal:
  "lc_state lc \<in> terminal_states \<Longrightarrow> apply_all lc es = Inr lc' \<longleftrightarrow> es = [] \<and> lc' = lc"
  by (cases es) (auto simp: terminal_states_def apply_event_def)

lemma finalizing_trace:
  assumes "lc_state lc = FINALIZING" and "lc_pending_terminal lc = Some t" and "t \<in> terminal_states"
    and "apply_all lc es = Inr lc'" and "lc_state lc' \<in> terminal_states"
  shows "(map fst es = [ARTIFACTS_FINALIZED] \<and> lc_state lc' = t)
       \<or> (map fst es = [FINALIZATION_FAILED] \<and> lc_state lc' = FAILED)"
proof (cases es)
  case Nil
  with assms show ?thesis by (auto simp: terminal_states_def)
next
  case (Cons x xs)
  then obtain e why m where x: "x = (e, why)" and m: "apply_event lc e why = Inr m"
      "apply_all m xs = Inr lc'"
    using assms(4) by (cases x) auto
  have "(e = ARTIFACTS_FINALIZED \<and> lc_state m = t) \<or> (e = FINALIZATION_FAILED \<and> lc_state m = FAILED)"
    using m(1) assms(1,2) by (cases rule: apply_event_cases) auto
  moreover from this have "lc_state m \<in> terminal_states"
    using assms(3) by (auto simp: terminal_states_def)
  then have "xs = []" "lc' = m"
    using m(2) by (simp_all add: apply_all_terminal)
  ultimately show ?thesis using Cons x by auto
qed

lemma running_completed_trace:
  assumes "lc_state lc = RUNNING" and "apply_all lc es = Inr lc'" and "lc_state lc' = COMPLETED"
  shows "map fst es = [COMPLETE, ARTIFACTS_FINALIZED]"
proof (cases es)
  case Nil
  with assms show ?thesis by simp
next
  case (Cons x xs)
  then obtain e why m where x: "x = (e, why)" and m: "apply_event lc e why = Inr m"
      "apply_all m xs = Inr lc'"
    using assms(2) by (cases x) auto
  obtain t where t: "lc_state m = FINALIZING" "lc_pending_terminal m = Some t" "t \<in> terminal_states"
      "t = COMPLETED \<longrightarrow> e = COMPLETE"
    using m(1) assms(1) by (cases rule: apply_event_cases) (auto simp: terminal_states_def)
  have "lc_state lc' \<in> terminal_states" using assms(3) by (simp add: terminal_states_def)
  from finalizing_trace [OF t(1,2,3) m(2) this] assms(3) t(4) Cons x
  show ?thesis by auto
qed

lemma forward_completed_trace:
  assumes "lc_state lc \<in> {CREATED, STARTING, READY}"
    and "apply_all lc es = Inr lc'" and "lc_state lc' = COMPLETED"
  obtains e why xs m where "es = (e, why) # xs" and "apply_event lc e why = Inr m"
    and "forward_transition (lc_state lc) e = Some (lc_state m)" and "apply_all m xs = Inr lc'"
proof (cases es)
  case Nil
  with assms show ?thesis by auto
next
  case (Cons x xs)
  then obtain e why m where x: "x = (e, why)" and m: "apply_event lc e why = Inr m"
      "apply_all m xs = Inr lc'"
    using assms(2) by (cases x) auto
  have fin: "lc_state lc' \<in> terminal_states" using assms(3) by (simp add: terminal_states_def)
  from m(1) show ?thesis
  proof (cases rule: apply_event_cases)
    case (forward s)
    then show ?thesis using that Cons x m by simp
  next
    case stop
    then have "(if e = FAIL then FAILED else ABORTED) \<in> terminal_states"
      by (simp add: terminal_states_def)
    from finalizing_trace [OF stop(3,4) this m(2) fin] assms(3) show ?thesis
      by (auto split: if_splits)
  qed (use assms(1) in auto)
qed

lemma created_completed_trace:
  assumes "apply_all (created rid) es = Inr lc" and "lc_state lc = COMPLETED"
  shows "map fst es = [START, MODULES_READY, CLOCK_STARTED, COMPLETE, ARTIFACTS_FINALIZED]"
proof -
  have "lc_state (created rid) = CREATED" by (simp add: created_def)
  with assms obtain e1 w1 x1 m1 where 1: "es = (e1, w1) # x1"
      "forward_transition CREATED e1 = Some (lc_state m1)" "apply_all m1 x1 = Inr lc"
    by (metis forward_completed_trace insertI1)
  from 1(2) have s1: "e1 = START" "lc_state m1 = STARTING" by (cases e1; simp)+
  with 1(3) assms(2) obtain e2 w2 x2 m2 where 2: "x1 = (e2, w2) # x2"
      "forward_transition STARTING e2 = Some (lc_state m2)" "apply_all m2 x2 = Inr lc"
    by (metis forward_completed_trace insertI1 insertI2)
  from 2(2) have s2: "e2 = MODULES_READY" "lc_state m2 = READY" by (cases e2; simp)+
  with 2(3) assms(2) obtain e3 w3 x3 m3 where 3: "x2 = (e3, w3) # x3"
      "forward_transition READY e3 = Some (lc_state m3)" "apply_all m3 x3 = Inr lc"
    by (metis forward_completed_trace insertI1 insertI2)
  from 3(2) have s3: "e3 = CLOCK_STARTED" "lc_state m3 = RUNNING" by (cases e3; simp)+
  from running_completed_trace [OF s3(2) 3(3) assms(2)] 1 2 3 s1 s2 s3
  show ?thesis by simp
qed

section \<open>Properties\<close>

text \<open>
  C35. Success has exactly one shape. Applying a sequence of lifecycle events to a created
  run ends in \<open>COMPLETED\<close> if and only if the events are START, MODULES_READY,
  CLOCK_STARTED, COMPLETE and ARTIFACTS_FINALIZED, in this order and with nothing else.
\<close>

theorem completed_iff_exact_sequence:
  "(\<exists>lc. apply_all (created rid) es = Inr lc \<and> lc_state lc = COMPLETED) \<longleftrightarrow>
   map fst es = [START, MODULES_READY, CLOCK_STARTED, COMPLETE, ARTIFACTS_FINALIZED]"
proof
  assume "\<exists>lc. apply_all (created rid) es = Inr lc \<and> lc_state lc = COMPLETED"
  then show "map fst es = [START, MODULES_READY, CLOCK_STARTED, COMPLETE, ARTIFACTS_FINALIZED]"
    using created_completed_trace by blast
next
  assume "map fst es = [START, MODULES_READY, CLOCK_STARTED, COMPLETE, ARTIFACTS_FINALIZED]"
  then show "\<exists>lc. apply_all (created rid) es = Inr lc \<and> lc_state lc = COMPLETED"
    by (auto simp: map_eq_Cons_conv apply_event_def created_def)
qed

text \<open>
  In every reachable lifecycle a terminal state is pending exactly while the run is
  FINALIZING, the pending state is one of COMPLETED, FAILED and ABORTED, the run identity
  never changes, and a terminal state rejects every further event.
\<close>

theorem reachable_lifecycle_sound:
  assumes "reachable rid lc"
  shows "lifecycle_inv lc \<and> lc_run_id lc = rid
     \<and> (lc_state lc \<in> terminal_states \<longrightarrow> (\<forall>e why. \<exists>m. apply_event lc e why = Inl (InvalidTransition m)))"
  using reachable_inv [OF assms] by (auto simp: terminal_states_def apply_event_def)

theorem reachable_lifecycle_sound_witness:
  "\<exists>lc. reachable ''r'' lc \<and> lc_state lc = FAILED \<and> lifecycle_inv lc
      \<and> (\<exists>m. apply_event lc START '''' = Inl (InvalidTransition m))"
proof -
  let ?lc = "\<lparr>lc_run_id = ''r'', lc_state = FAILED, lc_pending_terminal = None, lc_reason = ''x''\<rparr>"
  have "apply_all (created ''r'') [(START, ''''), (ABORT, ''y''), (FINALIZATION_FAILED, ''x'')]
      = Inr ?lc"
    by (simp add: created_def apply_event_def)
  then have r: "reachable ''r'' ?lc"
    by (rule apply_all_reachable [OF reach_created])
  show ?thesis
    using r reachable_lifecycle_sound [OF r] by (intro exI [of _ ?lc]) (simp add: terminal_states_def)
qed

end
