(* ===== verification/Gz_Adapter_Model.thy ===== *)
theory Gz_Adapter_Model
  imports Py_Prelude
begin

text \<open>
  The pure validation and sequencing of Gazebo samples, \<open>gazebo/ros_adapter/model.py\<close>:
  the range sequence, one camera sequence per stream, and the adapter that pairs two
  camera streams with one ground-truth sample. Arguments the code inspects at run time are
  \<open>pyval\<close>; a sample of another class than the expected one is \<open>None\<close>.
\<close>

section \<open>Constants and argument checks\<close>

definition FRAME_INTERVAL_NS :: int where
  "FRAME_INTERVAL_NS = 50000000"

definition UNMATCHED_FRAME_CAPACITY :: nat where
  "UNMATCHED_FRAME_CAPACITY = 20"

definition PENDING_PAIR_CAPACITY :: nat where
  "PENDING_PAIR_CAPACITY = 20"

definition APPROVED_IMAGE_GEOMETRIES :: "(int \<times> int) set" where
  "APPROVED_IMAGE_GEOMETRIES = {(320, 240), (640, 480)}"

definition adapter_canonical_run_id :: "pyval \<Rightarrow> string result" where
  "adapter_canonical_run_id v =
     (case strict_str v of
        Some s \<Rightarrow> if canonical_uuid s then Inr s
                 else Inl (AdapterFault ''run_id must be a canonical UUID'')
      | None \<Rightarrow> Inl (AdapterFault ''run_id must be a canonical UUID''))"

definition positive_integer :: "pyval \<Rightarrow> string \<Rightarrow> int result" where
  "positive_integer v field =
     (case strict_int v of
        Some i \<Rightarrow> if i \<le> 0 then Inl (AdapterFault (field @ '' must be a positive integer'')) else Inr i
      | None \<Rightarrow> Inl (AdapterFault (field @ '' must be a positive integer'')))"

definition nonnegative_integer :: "pyval \<Rightarrow> string \<Rightarrow> int result" where
  "nonnegative_integer v field =
     (case strict_int v of
        Some i \<Rightarrow> if i < 0 then Inl (AdapterFault (field @ '' must be a nonnegative integer'')) else Inr i
      | None \<Rightarrow> Inl (AdapterFault (field @ '' must be a nonnegative integer'')))"

text \<open>The two streams; \<open>_validate_stream\<close> maps the two accepted strings to them.\<close>

datatype stream = onboard | observer

fun stream_name :: "stream \<Rightarrow> string" where
  "stream_name onboard = ''onboard''"
| "stream_name observer = ''observer''"

definition validate_stream :: "pyval \<Rightarrow> stream result" where
  "validate_stream v =
     (if v = VStr ''onboard'' then Inr onboard
      else if v = VStr ''observer'' then Inr observer
      else Inl (AdapterFault (''stream must be exactly '' @ quoted ''onboard'' @ '' or '' @ quoted ''observer'')))"

definition image_geometry :: "pyval \<Rightarrow> pyval \<Rightarrow> (int \<times> int) result" where
  "image_geometry w h =
     (case (strict_int w, strict_int h) of
        (Some wi, Some hi) \<Rightarrow>
          if (wi, hi) \<in> APPROVED_IMAGE_GEOMETRIES then Inr (wi, hi)
          else Inl (AdapterFault ''image geometry must be exactly 320x240 or 640x480'')
      | _ \<Rightarrow> Inl (AdapterFault ''image geometry must be exactly 320x240 or 640x480''))"

section \<open>Samples\<close>

record native_image =
  ni_sim_timestamp_ns :: pyval
  ni_width :: pyval
  ni_height :: pyval
  ni_encoding :: pyval
  ni_step :: pyval
  ni_data :: pyval

record public_frame =
  pf_run_id :: string
  pf_stream :: stream
  pf_frame_id :: int
  pf_sim_timestamp_ns :: int
  pf_header_timestamp_ns :: int
  pf_width :: pyval
  pf_height :: pyval
  pf_encoding :: pyval
  pf_step :: pyval
  pf_data :: pyval

record native_ground_truth =
  ng_sim_timestamp_ns :: pyval
  ng_position_xyz :: pyval
  ng_orientation_xyzw :: pyval
  ng_linear_velocity_xyz :: pyval
  ng_angular_velocity_xyz :: pyval
  ng_in_contact :: pyval

record public_ground_truth =
  pg_run_id :: string
  pg_vehicle_id :: string
  pg_sim_timestamp_ns :: int
  pg_position_xyz :: pyval
  pg_orientation_xyzw :: pyval
  pg_linear_velocity_xyz :: pyval
  pg_angular_velocity_xyz :: pyval
  pg_in_contact :: pyval

record adapter_summary =
  as_onboard_frames :: int
  as_observer_frames :: int
  as_paired_frames :: int
  as_ground_truth_samples :: int
  as_first_sim_timestamp_ns :: "int option"
  as_last_sim_timestamp_ns :: "int option"

fun bytes_len :: "pyval \<Rightarrow> int option" where
  "bytes_len (VBytes b) = Some (int (length b))"
| "bytes_len _ = None"

text \<open>The validated image comes back with its timestamp as an integer.\<close>

definition validate_native_image ::
    "native_image option \<Rightarrow> int \<Rightarrow> int \<Rightarrow> (native_image \<times> int) result" where
  "validate_native_image sample width_px height_px =
     (case sample of
        None \<Rightarrow> Inl (AdapterFault ''camera input must be a NativeImage'')
      | Some im \<Rightarrow>
          rbind (positive_integer (ni_sim_timestamp_ns im) ''sim_timestamp_ns'') (\<lambda>ts.
            if strict_int (ni_width im) \<noteq> Some width_px
               \<or> strict_int (ni_height im) \<noteq> Some height_px
               \<or> ni_encoding im \<noteq> VStr ''rgb8''
               \<or> strict_int (ni_step im) \<noteq> Some (width_px * 3)
               \<or> bytes_len (ni_data im) \<noteq> Some (width_px * height_px * 3)
            then Inl (AdapterFault (''camera sample must be '' @ str_int width_px @ ''x''
                   @ str_int height_px @ '' rgb8 with step '' @ str_int (width_px * 3) @ '' and ''
                   @ str_int (width_px * height_px * 3) @ '' immutable bytes''))
            else Inr (im, ts)))"

definition validate_vector :: "pyval \<Rightarrow> string \<Rightarrow> nat \<Rightarrow> pyval list result" where
  "validate_vector v field n =
     (case v of
        VTuple xs \<Rightarrow>
          if length xs \<noteq> n then
            Inl (AdapterFault (field @ '' must be an immutable tuple of length '' @ str_int (int n)))
          else if \<not> list_all finite_number xs then
            Inl (AdapterFault (field @ '' values must be finite numbers''))
          else Inr xs
      | _ \<Rightarrow> Inl (AdapterFault (field @ '' must be an immutable tuple of length '' @ str_int (int n))))"

definition validate_native_ground_truth ::
    "native_ground_truth option \<Rightarrow> (native_ground_truth \<times> int) result" where
  "validate_native_ground_truth sample =
     (case sample of
        None \<Rightarrow> Inl (AdapterFault ''ground-truth input must be a NativeGroundTruth'')
      | Some g \<Rightarrow>
          rbind (positive_integer (ng_sim_timestamp_ns g) ''sim_timestamp_ns'') (\<lambda>ts.
          rbind (validate_vector (ng_position_xyz g) ''position_xyz'' 3) (\<lambda>_.
          rbind (validate_vector (ng_orientation_xyzw g) ''orientation_xyzw'' 4) (\<lambda>_.
          rbind (validate_vector (ng_linear_velocity_xyz g) ''linear_velocity_xyz'' 3) (\<lambda>_.
          rbind (validate_vector (ng_angular_velocity_xyz g) ''angular_velocity_xyz'' 3) (\<lambda>_.
            if strict_bool (ng_in_contact g) = None
            then Inl (AdapterFault ''in_contact must be a boolean'')
            else Inr (g, ts)))))))"

section \<open>RangeSequence\<close>

record range_sequence =
  rs_expected_samples :: int
  rs_interval_ns :: int
  rs_accepted_samples :: int
  rs_fault_reason :: "string option"

definition RangeSequence :: "pyval \<Rightarrow> pyval \<Rightarrow> range_sequence result" where
  "RangeSequence expected_samples interval_ns =
     rbind (positive_integer expected_samples ''expected_samples'') (\<lambda>n.
     rbind (positive_integer interval_ns ''interval_ns'') (\<lambda>i.
       Inr \<lparr>rs_expected_samples = n, rs_interval_ns = i, rs_accepted_samples = 0,
            rs_fault_reason = None\<rparr>))"

text \<open>The body of the \<open>try\<close> of \<open>RangeSequence.accept\<close>, without its state change.\<close>

definition range_check :: "range_sequence \<Rightarrow> pyval \<Rightarrow> unit result" where
  "range_check s v =
     rbind (positive_integer v ''sim_timestamp_ns'') (\<lambda>timestamp_ns.
       if rs_accepted_samples s = rs_expected_samples s then
         Inl (AdapterFault ''downward range sample overrun'')
       else if timestamp_ns \<noteq> (rs_accepted_samples s + 1) * rs_interval_ns s then
         (if rs_accepted_samples s = 0 then
            Inl (AdapterFault (''first range sample must be exactly ''
                   @ str_int (rs_interval_ns s) @ '' ns''))
          else
            Inl (AdapterFault (''downward range timestamps must advance by exactly ''
                   @ str_int (rs_interval_ns s) @ '' ns'')))
       else Inr ())"

definition range_accept :: "pyval \<Rightarrow> range_sequence \<Rightarrow> unit result \<times> range_sequence" where
  "range_accept v s =
     (case rs_fault_reason s of
        Some r \<Rightarrow> (Inl (AdapterFault r), s)
      | None \<Rightarrow>
          (case range_check s v of
             Inr _ \<Rightarrow> (Inr (), s\<lparr>rs_accepted_samples := rs_accepted_samples s + 1\<rparr>)
           | Inl (AdapterFault m) \<Rightarrow>
               (let r = ''range sequence faulted: '' @ m
                in (Inl (AdapterFault r), s\<lparr>rs_fault_reason := Some r\<rparr>))
           | Inl e \<Rightarrow> (Inl e, s)))"

section \<open>CameraSequence\<close>

record camera_sequence =
  cs_run_id :: string
  cs_stream :: stream
  cs_expected_frames :: int
  cs_width_px :: int
  cs_height_px :: int
  cs_accepted_frames :: int
  cs_first_sim_timestamp_ns :: "int option"
  cs_last_sim_timestamp_ns :: "int option"
  cs_fault_reason :: "string option"

definition CameraSequence ::
    "pyval \<Rightarrow> pyval \<Rightarrow> pyval \<Rightarrow> pyval \<Rightarrow> pyval \<Rightarrow> camera_sequence result" where
  "CameraSequence rid strm expected_frames width_px height_px =
     rbind (adapter_canonical_run_id rid) (\<lambda>r.
     rbind (validate_stream strm) (\<lambda>st.
     rbind (positive_integer expected_frames ''expected_frames'') (\<lambda>n.
     rbind (image_geometry width_px height_px) (\<lambda>(w, h).
       Inr \<lparr>cs_run_id = r, cs_stream = st, cs_expected_frames = n, cs_width_px = w,
            cs_height_px = h, cs_accepted_frames = 0, cs_first_sim_timestamp_ns = None,
            cs_last_sim_timestamp_ns = None, cs_fault_reason = None\<rparr>))))"

definition camera_complete :: "camera_sequence \<Rightarrow> bool" where
  "camera_complete s \<longleftrightarrow> cs_fault_reason s = None \<and> cs_accepted_frames s = cs_expected_frames s"

definition camera_latch :: "string \<Rightarrow> camera_sequence \<Rightarrow> 'a result \<times> camera_sequence" where
  "camera_latch m s =
     (let r = (case cs_fault_reason s of
                 Some old \<Rightarrow> old
               | None \<Rightarrow> stream_name (cs_stream s) @ '' camera sequence faulted: '' @ m)
      in (Inl (AdapterFault r), s\<lparr>cs_fault_reason := Some r\<rparr>))"

text \<open>The body of the \<open>try\<close> of \<open>_preflight\<close>.\<close>

definition camera_check ::
    "camera_sequence \<Rightarrow> native_image option \<Rightarrow> (native_image \<times> int) result" where
  "camera_check s sample =
     rbind (validate_native_image sample (cs_width_px s) (cs_height_px s)) (\<lambda>(im, ts).
       if cs_accepted_frames s = cs_expected_frames s then
         Inl (AdapterFault (stream_name (cs_stream s) @ '' camera frame overrun''))
       else (case cs_last_sim_timestamp_ns s of
               Some l \<Rightarrow>
                 if ts - l \<noteq> FRAME_INTERVAL_NS then
                   Inl (AdapterFault (stream_name (cs_stream s)
                     @ '' camera timestamps must advance by exactly ''
                     @ str_int FRAME_INTERVAL_NS @ '' ns''))
                 else Inr (im, ts)
             | None \<Rightarrow> Inr (im, ts)))"

definition camera_preflight ::
    "native_image option \<Rightarrow> camera_sequence \<Rightarrow> (native_image \<times> int) result \<times> camera_sequence" where
  "camera_preflight sample s =
     (case cs_fault_reason s of
        Some r \<Rightarrow> (Inl (AdapterFault r), s)
      | None \<Rightarrow>
          (case camera_check s sample of
             Inr v \<Rightarrow> (Inr v, s)
           | Inl (AdapterFault m) \<Rightarrow> camera_latch m s
           | Inl e \<Rightarrow> (Inl e, s)))"

definition camera_accept ::
    "native_image option \<Rightarrow> camera_sequence \<Rightarrow> public_frame result \<times> camera_sequence" where
  "camera_accept sample s =
     (case camera_preflight sample s of
        (Inl e, s') \<Rightarrow> (Inl e, s')
      | (Inr (im, ts), s') \<Rightarrow>
          (Inr \<lparr>pf_run_id = cs_run_id s', pf_stream = cs_stream s',
                pf_frame_id = cs_accepted_frames s', pf_sim_timestamp_ns = ts,
                pf_header_timestamp_ns = ts, pf_width = ni_width im, pf_height = ni_height im,
                pf_encoding = ni_encoding im, pf_step = ni_step im, pf_data = ni_data im\<rparr>,
           s'\<lparr>cs_first_sim_timestamp_ns :=
                (case cs_first_sim_timestamp_ns s' of None \<Rightarrow> Some ts | Some f \<Rightarrow> Some f),
              cs_last_sim_timestamp_ns := Some ts,
              cs_accepted_frames := cs_accepted_frames s' + 1\<rparr>))"

section \<open>AdapterModel\<close>

record adapter_model =
  am_run_id :: string
  am_expected_frames :: int
  am_sequences :: "stream \<Rightarrow> camera_sequence"
  am_unmatched_frames :: "stream \<Rightarrow> public_frame list"
  am_pending_pairs :: "(int \<times> int) list"
  am_paired_frames :: int
  am_ground_truth_samples :: int
  am_first_sim_timestamp_ns :: "int option"
  am_last_sim_timestamp_ns :: "int option"
  am_last_ground_truth_timestamp_ns :: "int option"
  am_summary :: "adapter_summary option"
  am_fault_reason :: "string option"

definition AdapterModel :: "pyval \<Rightarrow> pyval \<Rightarrow> pyval \<Rightarrow> pyval \<Rightarrow> adapter_model result" where
  "AdapterModel rid expected_frames width_px height_px =
     rbind (adapter_canonical_run_id rid) (\<lambda>r.
     rbind (positive_integer expected_frames ''expected_frames'') (\<lambda>n.
     rbind (image_geometry width_px height_px) (\<lambda>(w, h).
     rbind (CameraSequence (VStr r) (VStr ''onboard'') (VInt n) (VInt w) (VInt h)) (\<lambda>on.
     rbind (CameraSequence (VStr r) (VStr ''observer'') (VInt n) (VInt w) (VInt h)) (\<lambda>ob.
       Inr \<lparr>am_run_id = r, am_expected_frames = n,
            am_sequences = (\<lambda>st. case st of onboard \<Rightarrow> on | observer \<Rightarrow> ob),
            am_unmatched_frames = (\<lambda>_. []), am_pending_pairs = [], am_paired_frames = 0,
            am_ground_truth_samples = 0, am_first_sim_timestamp_ns = None,
            am_last_sim_timestamp_ns = None, am_last_ground_truth_timestamp_ns = None,
            am_summary = None, am_fault_reason = None\<rparr>)))))"

definition adapter_complete :: "adapter_model \<Rightarrow> bool" where
  "adapter_complete s \<longleftrightarrow>
     am_fault_reason s = None
     \<and> camera_complete (am_sequences s onboard) \<and> camera_complete (am_sequences s observer)
     \<and> am_paired_frames s = am_expected_frames s
     \<and> am_ground_truth_samples s = am_expected_frames s
     \<and> am_pending_pairs s = []
     \<and> am_unmatched_frames s onboard = [] \<and> am_unmatched_frames s observer = []"

definition adapter_latch :: "exn \<Rightarrow> adapter_model \<Rightarrow> 'a result \<times> adapter_model" where
  "adapter_latch e s =
     (case e of
        AdapterFault m \<Rightarrow>
          (let r = (case am_fault_reason s of
                      Some old \<Rightarrow> old | None \<Rightarrow> ''adapter processing fault: '' @ m)
           in (Inl (AdapterFault r), s\<lparr>am_fault_reason := Some r\<rparr>))
      | _ \<Rightarrow> (Inl e, s))"

definition adapter_require_open :: "adapter_model \<Rightarrow> unit result" where
  "adapter_require_open s =
     (case am_fault_reason s of
        Some r \<Rightarrow> Inl (AdapterFault r)
      | None \<Rightarrow> guard (am_summary s \<noteq> None) (AdapterFault ''adapter is frozen''))"

fun other_stream :: "stream \<Rightarrow> stream" where
  "other_stream onboard = observer"
| "other_stream observer = onboard"

text \<open>The two checks on the other stream's oldest unmatched frame, if there is one.\<close>

definition pair_check :: "public_frame list \<Rightarrow> camera_sequence \<Rightarrow> int \<Rightarrow> unit result" where
  "pair_check others sequence ts =
     (case others of
        [] \<Rightarrow> Inr ()
      | other # _ \<Rightarrow>
          if pf_frame_id other \<noteq> cs_accepted_frames sequence then
            Inl (AdapterFault ''camera pair IDs do not match'')
          else if pf_sim_timestamp_ns other \<noteq> ts then
            Inl (AdapterFault ''camera pair timestamps do not match'')
          else Inr ())"

definition accept_frame_body ::
    "pyval \<Rightarrow> native_image option \<Rightarrow> adapter_model \<Rightarrow> public_frame result \<times> adapter_model" where
  "accept_frame_body strm sample s =
     (case validate_stream strm of
        Inl e \<Rightarrow> (Inl e, s)
      | Inr st \<Rightarrow>
        if length (am_pending_pairs s) = PENDING_PAIR_CAPACITY then
          (Inl (AdapterFault ''camera-pair lookahead buffer is full''), s)
        else if length (am_unmatched_frames s st) = UNMATCHED_FRAME_CAPACITY then
          (Inl (AdapterFault (stream_name st @ '' camera lookahead buffer is full'')), s)
        else
        (case camera_preflight sample (am_sequences s st) of
           (Inl e, sq) \<Rightarrow> (Inl e, s\<lparr>am_sequences := (am_sequences s)(st := sq)\<rparr>)
         | (Inr (im, ts), sq) \<Rightarrow>
           (let others = am_unmatched_frames s (other_stream st) in
            case pair_check others sq ts of
              Inl e \<Rightarrow> (Inl e, s)
            | Inr _ \<Rightarrow>
              (case camera_accept (Some im) sq of
                 (Inl e, sq') \<Rightarrow> (Inl e, s\<lparr>am_sequences := (am_sequences s)(st := sq')\<rparr>)
               | (Inr frame, sq') \<Rightarrow>
                 (let s1 = s\<lparr>am_sequences := (am_sequences s)(st := sq')\<rparr>;
                      frames = am_unmatched_frames s st @ [frame]
                  in if others = []
                     then (Inr frame,
                           s1\<lparr>am_unmatched_frames := (am_unmatched_frames s)(st := frames)\<rparr>)
                     else (Inr frame,
                           s1\<lparr>am_pending_pairs := am_pending_pairs s
                                @ [(pf_frame_id frame, pf_sim_timestamp_ns frame)],
                              am_unmatched_frames := (am_unmatched_frames s)
                                (st := tl frames, other_stream st := tl others)\<rparr>))))))"

definition accept_frame ::
    "pyval \<Rightarrow> native_image option \<Rightarrow> adapter_model \<Rightarrow> public_frame result \<times> adapter_model" where
  "accept_frame strm sample s =
     (case adapter_require_open s of
        Inl e \<Rightarrow> (Inl e, s)
      | Inr _ \<Rightarrow>
          (case accept_frame_body strm sample s of
             (Inl e, s') \<Rightarrow> adapter_latch e s'
           | (Inr frame, s') \<Rightarrow> (Inr frame, s')))"

definition camera_pair_complete :: "pyval \<Rightarrow> pyval \<Rightarrow> adapter_model \<Rightarrow> bool result" where
  "camera_pair_complete frame_id stamp_ns s =
     rbind (nonnegative_integer frame_id ''frame_id'') (\<lambda>i.
     rbind (positive_integer stamp_ns ''stamp_ns'') (\<lambda>t.
       Inr ((i, t) \<in> set (am_pending_pairs s))))"

definition accept_ground_truth_body ::
    "native_ground_truth option \<Rightarrow> adapter_model \<Rightarrow> public_ground_truth result \<times> adapter_model" where
  "accept_ground_truth_body sample s =
     (case validate_native_ground_truth sample of
        Inl e \<Rightarrow> (Inl e, s)
      | Inr (g, ts) \<Rightarrow>
        if (case am_last_ground_truth_timestamp_ns s of None \<Rightarrow> False | Some l \<Rightarrow> ts \<le> l) then
          (Inl (AdapterFault ''ground-truth timestamps must increase''), s)
        else (case am_pending_pairs s of
          [] \<Rightarrow> (Inl (AdapterFault ''ground truth requires one aligned camera pair''), s)
        | (_, pair_stamp_ns) # rest \<Rightarrow>
          if ts \<noteq> pair_stamp_ns then
            (Inl (AdapterFault ''ground truth timestamp does not match camera pair''), s)
          else
            (Inr \<lparr>pg_run_id = am_run_id s, pg_vehicle_id = ''iris'', pg_sim_timestamp_ns = ts,
                  pg_position_xyz = ng_position_xyz g,
                  pg_orientation_xyzw = ng_orientation_xyzw g,
                  pg_linear_velocity_xyz = ng_linear_velocity_xyz g,
                  pg_angular_velocity_xyz = ng_angular_velocity_xyz g,
                  pg_in_contact = ng_in_contact g\<rparr>,
             s\<lparr>am_pending_pairs := rest,
               am_paired_frames := am_paired_frames s + 1,
               am_ground_truth_samples := am_ground_truth_samples s + 1,
               am_last_ground_truth_timestamp_ns := Some ts,
               am_first_sim_timestamp_ns :=
                 (case am_first_sim_timestamp_ns s of None \<Rightarrow> Some ts | Some f \<Rightarrow> Some f),
               am_last_sim_timestamp_ns := Some ts\<rparr>)))"

definition accept_ground_truth ::
    "native_ground_truth option \<Rightarrow> adapter_model \<Rightarrow> public_ground_truth result \<times> adapter_model" where
  "accept_ground_truth sample s =
     (case adapter_require_open s of
        Inl e \<Rightarrow> (Inl e, s)
      | Inr _ \<Rightarrow>
          (case accept_ground_truth_body sample s of
             (Inl e, s') \<Rightarrow> adapter_latch e s'
           | (Inr g, s') \<Rightarrow> (Inr g, s')))"

definition adapter_freeze :: "adapter_model \<Rightarrow> adapter_summary result \<times> adapter_model" where
  "adapter_freeze s =
     (case am_summary s of
        Some sm \<Rightarrow> (Inr sm, s)
      | None \<Rightarrow>
        (case am_fault_reason s of
           Some r \<Rightarrow> (Inl (AdapterFault r), s)
         | None \<Rightarrow>
           if \<not> adapter_complete s then
             (Inl (AdapterFault ''adapter completion requires exactly the expected aligned pairs''), s)
           else
             (let sm = \<lparr>as_onboard_frames = cs_accepted_frames (am_sequences s onboard),
                        as_observer_frames = cs_accepted_frames (am_sequences s observer),
                        as_paired_frames = am_paired_frames s,
                        as_ground_truth_samples = am_ground_truth_samples s,
                        as_first_sim_timestamp_ns = am_first_sim_timestamp_ns s,
                        as_last_sim_timestamp_ns = am_last_sim_timestamp_ns s\<rparr>
              in (Inr sm, s\<lparr>am_summary := Some sm\<rparr>))))"

text \<open>The operations of the adapter as one step function, for runs.\<close>

datatype adapter_op =
    AcceptFrame pyval "native_image option"
  | AcceptGroundTruth "native_ground_truth option"
  | Freeze

datatype adapter_output =
    OutFrame public_frame | OutGroundTruth public_ground_truth | OutSummary adapter_summary

fun adapter_step :: "adapter_op \<Rightarrow> adapter_model \<Rightarrow> adapter_output result \<times> adapter_model" where
  "adapter_step (AcceptFrame st im) s = apfst (map_sum id OutFrame) (accept_frame st im s)"
| "adapter_step (AcceptGroundTruth g) s =
     apfst (map_sum id OutGroundTruth) (accept_ground_truth g s)"
| "adapter_step Freeze s = apfst (map_sum id OutSummary) (adapter_freeze s)"

section \<open>The range sequence\<close>

lemma positive_integer_eq_Inr [simp]:
  "positive_integer v f = Inr i \<longleftrightarrow> v = VInt i \<and> 0 < i"
  by (cases v) (auto simp: positive_integer_def)

lemma positive_integer_fault: "positive_integer v f = Inl e \<Longrightarrow> \<exists>m. e = AdapterFault m"
  by (auto simp: positive_integer_def split: option.splits if_splits)

lemma range_check_fault: "range_check s v = Inl e \<Longrightarrow> \<exists>m. e = AdapterFault m"
  by (auto simp: range_check_def rbind_def dest: positive_integer_fault
      split: sum.splits if_splits)

lemma range_check_Inr:
  "range_check s v = Inr u \<longleftrightarrow>
     rs_accepted_samples s \<noteq> rs_expected_samples s
     \<and> v = VInt ((rs_accepted_samples s + 1) * rs_interval_ns s)
     \<and> 0 < (rs_accepted_samples s + 1) * rs_interval_ns s"
  by (auto simp: range_check_def)

interpretation range_latch: fault_latch range_accept rs_fault_reason
proof unfold_locales
  fix s :: range_sequence and r v
  assume "rs_fault_reason s = Some r"
  then show "range_accept v s = (Inl (AdapterFault r), s)"
    by (simp add: range_accept_def)
next
  fix v r and s s' :: range_sequence
  assume "range_accept v s = (Inl (AdapterFault r), s')"
  then show "rs_fault_reason s' = Some r"
    by (auto simp: range_accept_def Let_def split: option.splits sum.splits exn.splits)
qed

lemma range_accept_ok:
  "rs_fault_reason s = None \<Longrightarrow>
   (\<exists>u. fst (range_accept v s) = Inr u) \<longleftrightarrow> (\<exists>u. range_check s v = Inr u)"
  by (auto simp: range_accept_def Let_def dest: range_check_fault
      split: sum.splits exn.splits)

lemma range_accept_ok_state:
  "rs_fault_reason s = None \<Longrightarrow> range_check s v = Inr u \<Longrightarrow>
   snd (range_accept v s) = s\<lparr>rs_accepted_samples := rs_accepted_samples s + 1\<rparr>"
  by (simp add: range_accept_def)

text \<open>From any unfaulted state: the run succeeds exactly on the next points of the grid.\<close>

lemma range_run_exact:
  assumes "rs_fault_reason s = None" and "0 < rs_interval_ns s"
    and "0 \<le> rs_accepted_samples s" and "rs_accepted_samples s \<le> rs_expected_samples s"
  shows "(\<forall>r \<in> set (fst (run_ops range_accept vs s)). \<exists>u. r = Inr u) \<longleftrightarrow>
     rs_accepted_samples s + int (length vs) \<le> rs_expected_samples s
     \<and> vs = map (\<lambda>k. VInt ((rs_accepted_samples s + 1 + int k) * rs_interval_ns s)) [0..<length vs]"
  using assms
proof (induction vs arbitrary: s)
  case Nil
  then show ?case by simp
next
  case (Cons v vs)
  let ?a = "rs_accepted_samples s" and ?i = "rs_interval_ns s"
  have pos: "0 < (?a + 1) * ?i" using Cons.prems by simp
  have shift: "map (\<lambda>k. VInt ((?a + 1 + int k) * ?i)) [0..<length (v # vs)] =
      VInt ((?a + 1) * ?i) # map (\<lambda>k. VInt ((?a + 1 + 1 + int k) * ?i)) [0..<length vs]"
    by (simp add: upt_conv_Cons map_Suc_upt [symmetric] del: upt_Suc)
  show ?case
  proof (cases "\<exists>u. range_check s v = Inr u")
    case True
    then have v: "?a \<noteq> rs_expected_samples s" "v = VInt ((?a + 1) * ?i)"
      by (auto simp: range_check_Inr)
    let ?s = "s\<lparr>rs_accepted_samples := ?a + 1\<rparr>"
    have "snd (range_accept v s) = ?s" "\<exists>u. fst (range_accept v s) = Inr u"
      using True Cons.prems(1) range_accept_ok range_accept_ok_state by blast+
    moreover have "(\<forall>r \<in> set (fst (run_ops range_accept vs ?s)). \<exists>u. r = Inr u) \<longleftrightarrow>
        ?a + 1 + int (length vs) \<le> rs_expected_samples s
        \<and> vs = map (\<lambda>k. VInt ((?a + 1 + 1 + int k) * ?i)) [0..<length vs]"
      using Cons.IH [of ?s] Cons.prems v(1) by simp
    ultimately show ?thesis
      unfolding shift using v(2) by auto
  next
    case False
    then have "\<not> (\<exists>u. fst (range_accept v s) = Inr u)"
      using Cons.prems(1) range_accept_ok by blast
    moreover have "?a = rs_expected_samples s \<or> v \<noteq> VInt ((?a + 1) * ?i)"
      using False pos by (auto simp: range_check_Inr)
    ultimately show ?thesis
      unfolding shift by auto
  qed
qed

section \<open>One camera stream\<close>

text \<open>The timestamps of a stream lie on a grid that starts at its first frame.\<close>

definition first_stamp :: "camera_sequence \<Rightarrow> int" where
  "first_stamp s = (case cs_first_sim_timestamp_ns s of None \<Rightarrow> 0 | Some f \<Rightarrow> f)"

definition frame_key :: "public_frame \<Rightarrow> int \<times> int" where
  "frame_key f = (pf_frame_id f, pf_sim_timestamp_ns f)"

definition grid :: "int \<Rightarrow> int \<Rightarrow> int \<Rightarrow> (int \<times> int) list" where
  "grid f a b = map (\<lambda>i. (i, f + i * FRAME_INTERVAL_NS)) [a..b]"

definition camera_inv :: "camera_sequence \<Rightarrow> bool" where
  "camera_inv s \<longleftrightarrow>
     0 \<le> cs_accepted_frames s \<and> cs_accepted_frames s \<le> cs_expected_frames s
     \<and> (if cs_accepted_frames s = 0
        then cs_first_sim_timestamp_ns s = None \<and> cs_last_sim_timestamp_ns s = None
        else \<exists>f > 0. cs_first_sim_timestamp_ns s = Some f
          \<and> cs_last_sim_timestamp_ns s =
              Some (f + (cs_accepted_frames s - 1) * FRAME_INTERVAL_NS))"

lemma grid_empty [simp]: "b < a \<Longrightarrow> grid f a b = []"
  by (simp add: grid_def)

lemma grid_snoc: "a \<le> b \<Longrightarrow> grid f a b = grid f a (b - 1) @ [(b, f + b * FRAME_INTERVAL_NS)]"
  by (simp add: grid_def upto_rec2)

lemma grid_Cons: "a \<le> b \<Longrightarrow> grid f a b = (a, f + a * FRAME_INTERVAL_NS) # grid f (a + 1) b"
  by (simp add: grid_def upto_rec1)

lemma grid_single [simp]: "grid f a a = [(a, f + a * FRAME_INTERVAL_NS)]"
  by (simp add: grid_def)

lemma grid_eq_Nil [simp]: "grid f a b = [] \<longleftrightarrow> b < a"
  by (simp add: grid_def)

lemma length_grid [simp]: "length (grid f a b) = nat (b - a + 1)"
  by (simp add: grid_def)

lemma grid_nth:
  "i < nat (b - a + 1) \<Longrightarrow> grid f a b ! i = (a + int i, f + (a + int i) * FRAME_INTERVAL_NS)"
  by (simp add: grid_def)

lemma validate_native_image_fault:
  "validate_native_image sample w h = Inl e \<Longrightarrow> \<exists>m. e = AdapterFault m"
  by (auto simp: validate_native_image_def rbind_def dest: positive_integer_fault
      split: option.splits sum.splits if_splits)

lemma validate_native_image_ok:
  "validate_native_image sample w h = Inr (im, ts) \<Longrightarrow> sample = Some im \<and> 0 < ts"
  by (auto simp: validate_native_image_def split: option.splits if_splits)

lemma camera_check_fault: "camera_check s sample = Inl e \<Longrightarrow> \<exists>m. e = AdapterFault m"
  by (auto simp: camera_check_def rbind_def dest: validate_native_image_fault
      split: sum.splits if_splits option.splits)

lemma camera_check_ok:
  assumes "camera_check s sample = Inr (im, ts)"
  shows "sample = Some im \<and> 0 < ts \<and> cs_accepted_frames s \<noteq> cs_expected_frames s
    \<and> (\<forall>l. cs_last_sim_timestamp_ns s = Some l \<longrightarrow> ts = l + FRAME_INTERVAL_NS)"
  using assms validate_native_image_ok
  by (auto simp: camera_check_def split: if_splits option.splits)

lemma camera_preflight_ok:
  "camera_preflight sample s = (Inr v, s') \<longleftrightarrow>
     s' = s \<and> cs_fault_reason s = None \<and> camera_check s sample = Inr v"
  by (auto simp: camera_preflight_def camera_latch_def Let_def
      split: option.splits sum.splits exn.splits)

text \<open>A rejected sample changes the fault reason at most.\<close>

lemma camera_preflight_fault:
  assumes "camera_preflight sample s = (Inl e, s')"
  shows "(\<exists>r. e = AdapterFault r \<and> s' = s\<lparr>cs_fault_reason := Some r\<rparr>)"
  using assms camera_check_fault
  by (fastforce simp: camera_preflight_def camera_latch_def Let_def
      split: option.splits sum.splits exn.splits)

text \<open>An accepted frame gets the next identifier and the next point of the grid.\<close>

lemma camera_accept_ok:
  assumes inv: "camera_inv s" and acc: "camera_accept (Some im) s = (Inr frame, s')"
  shows "camera_inv s'" and "cs_accepted_frames s' = cs_accepted_frames s + 1"
    and "cs_expected_frames s' = cs_expected_frames s"
    and "frame_key frame =
      (cs_accepted_frames s, first_stamp s' + cs_accepted_frames s * FRAME_INTERVAL_NS)"
    and "cs_accepted_frames s \<noteq> 0 \<Longrightarrow> first_stamp s' = first_stamp s"
    and "pf_run_id frame = cs_run_id s" and "pf_stream frame = cs_stream s"
    and "pf_header_timestamp_ns frame = pf_sim_timestamp_ns frame"
    and "cs_stream s' = cs_stream s"
proof -
  obtain im' ts where pre: "camera_check s (Some im) = Inr (im', ts)"
      and frame: "frame = \<lparr>pf_run_id = cs_run_id s, pf_stream = cs_stream s,
        pf_frame_id = cs_accepted_frames s, pf_sim_timestamp_ns = ts,
        pf_header_timestamp_ns = ts, pf_width = ni_width im', pf_height = ni_height im',
        pf_encoding = ni_encoding im', pf_step = ni_step im', pf_data = ni_data im'\<rparr>"
      and s': "s' = s\<lparr>cs_first_sim_timestamp_ns :=
          (case cs_first_sim_timestamp_ns s of None \<Rightarrow> Some ts | Some f \<Rightarrow> Some f),
        cs_last_sim_timestamp_ns := Some ts, cs_accepted_frames := cs_accepted_frames s + 1\<rparr>"
    using acc by (auto simp: camera_accept_def camera_preflight_ok split: prod.splits sum.splits)
  from camera_check_ok [OF pre] have ts: "0 < ts"
      "cs_accepted_frames s \<noteq> cs_expected_frames s"
      "\<And>l. cs_last_sim_timestamp_ns s = Some l \<Longrightarrow> ts = l + FRAME_INTERVAL_NS"
    by auto
  have stamp: "ts = first_stamp s' + cs_accepted_frames s * FRAME_INTERVAL_NS"
  proof (cases "cs_accepted_frames s = 0")
    case True
    then show ?thesis using inv s' by (simp add: camera_inv_def first_stamp_def)
  next
    case False
    then have "first_stamp s' = first_stamp s" "ts = first_stamp s
        + (cs_accepted_frames s - 1) * FRAME_INTERVAL_NS + FRAME_INTERVAL_NS"
      using inv s' ts(3) by (auto simp: camera_inv_def first_stamp_def)
    then show ?thesis by (simp add: algebra_simps)
  qed
  show "cs_accepted_frames s' = cs_accepted_frames s + 1"
    "cs_expected_frames s' = cs_expected_frames s"
    using s' by simp_all
  show first: "cs_accepted_frames s \<noteq> 0 \<Longrightarrow> first_stamp s' = first_stamp s"
    using inv s' by (auto simp: camera_inv_def first_stamp_def)
  show "frame_key frame =
      (cs_accepted_frames s, first_stamp s' + cs_accepted_frames s * FRAME_INTERVAL_NS)"
    using frame stamp by (simp add: frame_key_def)
  have bounds: "0 \<le> cs_accepted_frames s" "cs_accepted_frames s + 1 \<le> cs_expected_frames s"
    using inv ts(2) by (auto simp: camera_inv_def)
  show "camera_inv s'"
  proof (cases "cs_accepted_frames s = 0")
    case True
    then show ?thesis using inv s' ts(1) bounds by (simp add: camera_inv_def)
  next
    case False
    then obtain f where f: "cs_first_sim_timestamp_ns s = Some f" "0 < f"
      using inv by (auto simp: camera_inv_def)
    then have "ts = f + cs_accepted_frames s * FRAME_INTERVAL_NS"
      using stamp s' by (simp add: first_stamp_def)
    then show ?thesis using f s' bounds False by (simp add: camera_inv_def)
  qed
  show "pf_run_id frame = cs_run_id s" "pf_stream frame = cs_stream s"
    "pf_header_timestamp_ns frame = pf_sim_timestamp_ns frame" "cs_stream s' = cs_stream s"
    using frame s' by simp_all
qed

end
