(* ===== verification/Gz_Adapter_Inv.thy ===== *)
theory Gz_Adapter_Inv
  imports Gz_Adapter_Model
begin

text \<open>
  The invariant of \<open>AdapterModel\<close>, its preservation by every operation, and the
  properties of runs: gap-free frame numbering on one 50 ms grid, bounded lookahead,
  exactness of the frozen summary, finality of a latched fault, and the exact grid of the
  range sequence.
\<close>

section \<open>The adapter's invariant\<close>

text \<open>
  \<open>exact_summary n sm\<close>: the summary a complete run of \<open>n\<close> frames must report, \<open>n\<close>
  samples of each kind on one 50 ms grid.
\<close>

definition exact_summary :: "int \<Rightarrow> adapter_summary \<Rightarrow> bool" where
  "exact_summary n sm \<longleftrightarrow> (\<exists>f > 0. sm =
     \<lparr>as_onboard_frames = n, as_observer_frames = n, as_paired_frames = n,
      as_ground_truth_samples = n, as_first_sim_timestamp_ns = Some f,
      as_last_sim_timestamp_ns = Some (f + (n - 1) * FRAME_INTERVAL_NS)\<rparr>)"

definition matched :: "adapter_model \<Rightarrow> int" where
  "matched s = am_paired_frames s + int (length (am_pending_pairs s))"

text \<open>
  Per stream: the frames accepted but not yet matched are the frames from number
  \<open>matched\<close> on, in order, on the stream's grid.
\<close>

definition stream_inv :: "adapter_model \<Rightarrow> stream \<Rightarrow> bool" where
  "stream_inv s st \<longleftrightarrow>
     camera_inv (am_sequences s st) \<and> cs_stream (am_sequences s st) = st
     \<and> cs_expected_frames (am_sequences s st) = am_expected_frames s
     \<and> matched s \<le> cs_accepted_frames (am_sequences s st)
     \<and> map frame_key (am_unmatched_frames s st) =
         grid (first_stamp (am_sequences s st)) (matched s)
           (cs_accepted_frames (am_sequences s st) - 1)
     \<and> length (am_unmatched_frames s st) \<le> UNMATCHED_FRAME_CAPACITY"

definition pairs_inv :: "adapter_model \<Rightarrow> bool" where
  "pairs_inv s \<longleftrightarrow>
     0 \<le> am_paired_frames s \<and> am_ground_truth_samples s = am_paired_frames s
     \<and> am_pending_pairs s =
         grid (first_stamp (am_sequences s onboard)) (am_paired_frames s) (matched s - 1)
     \<and> length (am_pending_pairs s) \<le> PENDING_PAIR_CAPACITY
     \<and> (0 < matched s \<longrightarrow>
          first_stamp (am_sequences s onboard) = first_stamp (am_sequences s observer))
     \<and> (if am_paired_frames s = 0
        then am_first_sim_timestamp_ns s = None
        else am_first_sim_timestamp_ns s = Some (first_stamp (am_sequences s onboard))
          \<and> am_last_sim_timestamp_ns s = Some (first_stamp (am_sequences s onboard)
               + (am_paired_frames s - 1) * FRAME_INTERVAL_NS))"

definition adapter_inv :: "adapter_model \<Rightarrow> bool" where
  "adapter_inv s \<longleftrightarrow> 0 < am_expected_frames s
     \<and> stream_inv s onboard \<and> stream_inv s observer \<and> pairs_inv s
     \<and> (\<forall>sm. am_summary s = Some sm \<longrightarrow> exact_summary (am_expected_frames s) sm)"

lemma all_streams: "(\<forall>st. P st) \<longleftrightarrow> P onboard \<and> P observer"
  by (metis stream.exhaust)

lemma adapter_inv_stream: "adapter_inv s \<Longrightarrow> stream_inv s st"
  by (cases st) (auto simp: adapter_inv_def)

lemma adapter_inv_pairs: "adapter_inv s \<Longrightarrow> pairs_inv s"
  by (simp add: adapter_inv_def)

lemma AdapterModel_inv: "AdapterModel rid n w h = Inr s \<Longrightarrow> adapter_inv s"
  by (auto simp: AdapterModel_def CameraSequence_def validate_stream_def adapter_inv_def stream_inv_def pairs_inv_def
      matched_def camera_inv_def UNMATCHED_FRAME_CAPACITY_def PENDING_PAIR_CAPACITY_def)

text \<open>The invariant reads neither the adapter's fault nor a sequence's.\<close>

lemma adapter_inv_fault [simp]: "adapter_inv (s\<lparr>am_fault_reason := r\<rparr>) = adapter_inv s"
  by (simp add: adapter_inv_def stream_inv_def pairs_inv_def matched_def)

lemma camera_inv_fault [simp]: "camera_inv (sq\<lparr>cs_fault_reason := r\<rparr>) = camera_inv sq"
  by (simp add: camera_inv_def)

lemma first_stamp_fault [simp]: "first_stamp (sq\<lparr>cs_fault_reason := r\<rparr>) = first_stamp sq"
  by (simp add: first_stamp_def)

lemma adapter_inv_seq_fault:
  assumes "adapter_inv s"
  shows "adapter_inv (s\<lparr>am_sequences := (am_sequences s)
     (st := (am_sequences s st)\<lparr>cs_fault_reason := r\<rparr>)\<rparr>)"
  using assms
  by (cases st) (simp_all add: adapter_inv_def stream_inv_def pairs_inv_def matched_def)

lemma adapter_latch_inv: "adapter_inv s \<Longrightarrow> adapter_inv (snd (adapter_latch e s))"
  by (cases e) (simp_all add: adapter_latch_def Let_def)

section \<open>Every operation keeps the invariant\<close>

lemma camera_accept_after_preflight:
  assumes "camera_preflight sample sq = (Inr (im, ts), sq')"
  obtains frame sq'' where "sq' = sq" and "sample = Some im"
    and "camera_accept (Some im) sq = (Inr frame, sq'')" and "pf_sim_timestamp_ns frame = ts"
proof -
  from assms have pre: "sq' = sq" "camera_check sq sample = Inr (im, ts)"
    by (auto simp: camera_preflight_ok)
  then have "sample = Some im"
    using camera_check_ok by blast
  with assms pre that show ?thesis
    by (auto simp: camera_accept_def)
qed

lemma accept_frame_body_cases:
  assumes "accept_frame_body strm sample s = (r, s')"
  obtains
    (rejected) m where "r = Inl (AdapterFault m)" "s' = s"
  | (seq_fault) m st where "r = Inl (AdapterFault m)"
      "s' = s\<lparr>am_sequences := (am_sequences s)
         (st := (am_sequences s st)\<lparr>cs_fault_reason := Some m\<rparr>)\<rparr>"
  | (alone) st im frame sq' where "r = Inr frame" "validate_stream strm = Inr st"
      "camera_accept (Some im) (am_sequences s st) = (Inr frame, sq')"
      "length (am_pending_pairs s) \<noteq> PENDING_PAIR_CAPACITY"
      "length (am_unmatched_frames s st) \<noteq> UNMATCHED_FRAME_CAPACITY"
      "am_unmatched_frames s (other_stream st) = []"
      "s' = s\<lparr>am_sequences := (am_sequences s)(st := sq'),
              am_unmatched_frames := (am_unmatched_frames s)
                (st := am_unmatched_frames s st @ [frame])\<rparr>"
  | (paired) st im frame sq' other rest where "r = Inr frame" "validate_stream strm = Inr st"
      "camera_accept (Some im) (am_sequences s st) = (Inr frame, sq')"
      "length (am_pending_pairs s) \<noteq> PENDING_PAIR_CAPACITY"
      "length (am_unmatched_frames s st) \<noteq> UNMATCHED_FRAME_CAPACITY"
      "am_unmatched_frames s (other_stream st) = other # rest"
      "pf_frame_id other = cs_accepted_frames (am_sequences s st)"
      "pf_sim_timestamp_ns other = pf_sim_timestamp_ns frame"
      "s' = s\<lparr>am_sequences := (am_sequences s)(st := sq'),
              am_pending_pairs := am_pending_pairs s
                @ [(pf_frame_id frame, pf_sim_timestamp_ns frame)],
              am_unmatched_frames := (am_unmatched_frames s)
                (st := tl (am_unmatched_frames s st @ [frame]), other_stream st := rest)\<rparr>"
proof -
  note body = assms [unfolded accept_frame_body_def]
  show ?thesis
  proof (cases "validate_stream strm")
    case (Inl e)
    then show ?thesis
      using body rejected by (auto simp: validate_stream_def split: if_splits)
  next
    case st: (Inr st)
    consider (full) "length (am_pending_pairs s) = PENDING_PAIR_CAPACITY
        \<or> length (am_unmatched_frames s st) = UNMATCHED_FRAME_CAPACITY"
      | (room) "length (am_pending_pairs s) \<noteq> PENDING_PAIR_CAPACITY"
          "length (am_unmatched_frames s st) \<noteq> UNMATCHED_FRAME_CAPACITY"
      by blast
    then show ?thesis
    proof cases
      case full
      then show ?thesis
        using body st rejected by (auto split: if_splits)
    next
      case room
      obtain pr sq where pre: "camera_preflight sample (am_sequences s st) = (pr, sq)"
        by (cases "camera_preflight sample (am_sequences s st)")
      show ?thesis
      proof (cases pr)
        case (Inl e)
        then show ?thesis
          using camera_preflight_fault [of sample "am_sequences s st" e sq] pre body st room
            seq_fault by auto
      next
        case (Inr v)
        then obtain im ts where v: "pr = Inr (im, ts)" by (cases v) auto
        from camera_accept_after_preflight [OF pre [unfolded v]]
        obtain frame sq' where fr: "sq = am_sequences s st" "pf_sim_timestamp_ns frame = ts"
            "camera_accept (Some im) (am_sequences s st) = (Inr frame, sq')"
          by blast
        note eqs = pre [unfolded v fr(1)] st room fr(3)
        show ?thesis
        proof (cases "am_unmatched_frames s (other_stream st)")
          case Nil
          then show ?thesis
            using body alone [OF _ st fr(3) room Nil] by (simp add: eqs pair_check_def Let_def)
        next
          case (Cons other rest)
          then show ?thesis
            using body rejected paired [OF _ st fr(3) room Cons]
            by (auto simp: eqs pair_check_def Let_def fr(2) split: if_splits)
        qed
      qed
    qed
  qed
qed

lemma other_stream_neq [simp]: "other_stream st \<noteq> st" "st \<noteq> other_stream st"
  by (cases st; simp)+

lemma other_other [simp]: "other_stream (other_stream st) = st"
  by (cases st) simp_all

text \<open>The invariant, split along one stream and the other.\<close>

lemma adapter_inv_alt:
  "adapter_inv s \<longleftrightarrow> 0 < am_expected_frames s
     \<and> stream_inv s st \<and> stream_inv s (other_stream st) \<and> pairs_inv s
     \<and> (\<forall>sm. am_summary s = Some sm \<longrightarrow> exact_summary (am_expected_frames s) sm)"
  by (cases st) (auto simp: adapter_inv_def)

lemma pairs_inv_first:
  assumes "pairs_inv s" and "0 < matched s"
  shows "first_stamp (am_sequences s st) = first_stamp (am_sequences s onboard)"
  using assms by (cases st) (auto simp: pairs_inv_def)

lemma pairs_inv_idle:
  assumes "pairs_inv s" and "matched s = 0"
  shows "am_pending_pairs s = []" "am_paired_frames s = 0"
  using assms by (auto simp: pairs_inv_def matched_def)

lemma grid_new_first:
  assumes "0 \<le> m" and "m \<le> k" and "k \<noteq> 0 \<Longrightarrow> f' = f"
  shows "grid f m (k - 1) = grid f' m (k - 1)"
  using assms by (cases "k = 0") auto

lemma matched_nonneg: "pairs_inv s \<Longrightarrow> 0 \<le> matched s"
  by (simp add: pairs_inv_def matched_def)

lemma pairs_inv_cong:
  assumes "pairs_inv s" and "am_paired_frames s' = am_paired_frames s"
    and "am_ground_truth_samples s' = am_ground_truth_samples s"
    and "am_pending_pairs s' = am_pending_pairs s"
    and "am_first_sim_timestamp_ns s' = am_first_sim_timestamp_ns s"
    and "am_last_sim_timestamp_ns s' = am_last_sim_timestamp_ns s"
    and "\<And>x. first_stamp (am_sequences s' x) = first_stamp (am_sequences s x)"
  shows "pairs_inv s'"
  using assms(1) unfolding pairs_inv_def matched_def assms(2-7) .

lemma pairs_inv_bound: "pairs_inv s \<Longrightarrow> length (am_pending_pairs s) \<le> PENDING_PAIR_CAPACITY"
  unfolding pairs_inv_def by blast

text \<open>Both kinds of accepted frame, for the stream that took it.\<close>

lemma accepted_stream:
  assumes inv: "adapter_inv s"
    and acc: "camera_accept (Some im) (am_sequences s st) = (Inr frame, sq')"
  shows "camera_inv sq'" "cs_expected_frames sq' = am_expected_frames s \<and> cs_stream sq' = st"
    "cs_accepted_frames sq' = cs_accepted_frames (am_sequences s st) + 1"
    "map frame_key (am_unmatched_frames s st @ [frame]) =
       grid (first_stamp sq') (matched s) (cs_accepted_frames sq' - 1)"
    "0 < matched s \<Longrightarrow> first_stamp sq' = first_stamp (am_sequences s st)"
proof -
  have si: "stream_inv s st" and m0: "0 \<le> matched s"
    using adapter_inv_stream [OF inv] matched_nonneg [OF adapter_inv_pairs [OF inv]] by simp_all
  then have ci: "camera_inv (am_sequences s st)" by (simp add: stream_inv_def)
  note ok = camera_accept_ok [OF ci acc]
  let ?k = "cs_accepted_frames (am_sequences s st)"
  have mk: "matched s \<le> ?k" using si by (simp add: stream_inv_def)
  show "camera_inv sq'" by (rule ok(1))
  show "cs_expected_frames sq' = am_expected_frames s \<and> cs_stream sq' = st"
    using ok(3,9) si by (simp add: stream_inv_def)
  show k: "cs_accepted_frames sq' = ?k + 1" by (rule ok(2))
  have "map frame_key (am_unmatched_frames s st) = grid (first_stamp sq') (matched s) (?k - 1)"
    using si grid_new_first [OF m0 mk ok(5)] by (simp add: stream_inv_def)
  then show "map frame_key (am_unmatched_frames s st @ [frame]) =
       grid (first_stamp sq') (matched s) (cs_accepted_frames sq' - 1)"
    using mk by (simp add: ok(4) k grid_snoc [of "matched s" ?k])
  show "0 < matched s \<Longrightarrow> first_stamp sq' = first_stamp (am_sequences s st)"
    using ok(5) mk by auto
qed

lemma alone_inv:
  assumes inv: "adapter_inv s"
    and acc: "camera_accept (Some im) (am_sequences s st) = (Inr frame, sq')"
    and room: "length (am_unmatched_frames s st) \<noteq> UNMATCHED_FRAME_CAPACITY"
  shows "adapter_inv (s\<lparr>am_sequences := (am_sequences s)(st := sq'),
     am_unmatched_frames := (am_unmatched_frames s)(st := am_unmatched_frames s st @ [frame])\<rparr>)"
    (is "adapter_inv ?s")
proof -
  note st = accepted_stream [OF inv acc]
  have si: "stream_inv s st" "stream_inv s (other_stream st)" and pi: "pairs_inv s"
    using adapter_inv_stream [OF inv] adapter_inv_pairs [OF inv] by simp_all
  have m: "matched ?s = matched s" by (simp add: matched_def)
  have "stream_inv ?s st"
    using si(1) st room by (simp add: stream_inv_def m)
  moreover have "stream_inv ?s (other_stream st)"
    using si(2) by (simp add: stream_inv_def m)
  moreover have "pairs_inv ?s"
  proof (cases "matched s = 0")
    case True
    with pi pairs_inv_idle [OF pi] show ?thesis by (simp add: pairs_inv_def m)
  next
    case False
    then have "0 < matched s" using matched_nonneg [OF pi] by simp
    with pi st(5) have "first_stamp (am_sequences ?s x) = first_stamp (am_sequences s x)" for x
      by simp
    then show ?thesis by (intro pairs_inv_cong [OF pi]) simp_all
  qed
  ultimately show ?thesis
    using inv by (simp add: adapter_inv_alt [of _ st])
qed

lemma paired_inv:
  assumes inv: "adapter_inv s"
    and acc: "camera_accept (Some im) (am_sequences s st) = (Inr frame, sq')"
    and room: "length (am_pending_pairs s) \<noteq> PENDING_PAIR_CAPACITY"
    and other: "am_unmatched_frames s (other_stream st) = other # rest"
    and ids: "pf_frame_id other = cs_accepted_frames (am_sequences s st)"
    and stamps: "pf_sim_timestamp_ns other = pf_sim_timestamp_ns frame"
  shows "adapter_inv (s\<lparr>am_sequences := (am_sequences s)(st := sq'),
     am_pending_pairs := am_pending_pairs s @ [(pf_frame_id frame, pf_sim_timestamp_ns frame)],
     am_unmatched_frames := (am_unmatched_frames s)
       (st := tl (am_unmatched_frames s st @ [frame]), other_stream st := rest)\<rparr>)"
    (is "adapter_inv ?s")
proof -
  note st = accepted_stream [OF inv acc]
  have si: "stream_inv s st" "stream_inv s (other_stream st)" and pi: "pairs_inv s"
    using adapter_inv_stream [OF inv] adapter_inv_pairs [OF inv] by simp_all
  let ?m = "matched s" and ?F = "first_stamp sq'"
    and ?G = "first_stamp (am_sequences s (other_stream st))"
    and ?k = "cs_accepted_frames (am_sequences s (other_stream st))"
  have m: "matched ?s = ?m + 1" by (simp add: matched_def)
  have og: "map frame_key (other # rest) = grid ?G ?m (?k - 1)"
    using si(2) other by (simp add: stream_inv_def)
  then have mk: "?m \<le> ?k - 1"
    by (metis grid_eq_Nil list.distinct(1) list.simps(9) not_less)
  with og have head: "frame_key other = (?m, ?G + ?m * FRAME_INTERVAL_NS)"
      and rest: "map frame_key rest = grid ?G (?m + 1) (?k - 1)"
    by (simp_all add: grid_Cons)
  with ids have km: "cs_accepted_frames (am_sequences s st) = ?m"
    by (simp add: frame_key_def)
  then have "map frame_key (am_unmatched_frames s st) = []"
    using si(1) by (simp add: stream_inv_def)
  then have own: "am_unmatched_frames s st = []" by simp
  have key: "frame_key frame = (?m, ?F + ?m * FRAME_INTERVAL_NS)"
    using st(4) own km st(3) by (simp add: grid_Cons)
  with head stamps have FG: "?F = ?G" by (simp add: frame_key_def)
  have "stream_inv ?s st"
    using si(1) st km own unfolding stream_inv_def m by simp
  moreover have "stream_inv ?s (other_stream st)"
    using si(2) rest mk other unfolding stream_inv_def m by simp
  moreover have "pairs_inv ?s"
  proof -
    have F: "first_stamp (am_sequences ?s x) = ?F" for x
      using FG by (cases x; cases st) simp_all
    have old: "am_pending_pairs s = grid ?F (am_paired_frames s) (?m - 1)"
      "am_paired_frames s \<noteq> 0 \<Longrightarrow> first_stamp (am_sequences s onboard) = ?F"
    proof -
      have p: "am_paired_frames s \<le> ?m" "0 \<le> am_paired_frames s"
        using pi by (simp_all add: matched_def pairs_inv_def)
      show "am_paired_frames s \<noteq> 0 \<Longrightarrow> first_stamp (am_sequences s onboard) = ?F"
        using p st(5) pairs_inv_first [OF pi, of st] by auto
      show "am_pending_pairs s = grid ?F (am_paired_frames s) (?m - 1)"
        using p st(5) pairs_inv_first [OF pi, of st] pi
        by (cases "?m = 0") (auto simp: pairs_inv_def)
    qed
    have le: "am_paired_frames s \<le> ?m" by (simp add: matched_def)
    have "am_pending_pairs s @ [(pf_frame_id frame, pf_sim_timestamp_ns frame)]
        = grid ?F (am_paired_frames s) ?m"
      using old(1) key grid_snoc [OF le, of ?F] by (simp add: frame_key_def)
    moreover have "Suc (length (am_pending_pairs s)) \<le> PENDING_PAIR_CAPACITY"
      using pairs_inv_bound [OF pi] room by simp
    ultimately show ?thesis
      unfolding pairs_inv_def F m using pi old(2) by (auto simp: pairs_inv_def)
  qed
  ultimately show ?thesis
    using inv by (simp add: adapter_inv_alt [of _ st])
qed

lemma accept_frame_body_inv:
  assumes "adapter_inv s" and "accept_frame_body strm sample s = (r, s')"
  shows "adapter_inv s'"
  using assms(2)
proof (cases rule: accept_frame_body_cases)
  case rejected
  with assms(1) show ?thesis by simp
next
  case (seq_fault m st)
  with assms(1) show ?thesis by (simp add: adapter_inv_seq_fault)
next
  case (alone st im frame sq')
  with alone_inv [OF assms(1)] show ?thesis by simp
next
  case (paired st im frame sq' other rest)
  with paired_inv [OF assms(1)] show ?thesis by simp
qed

lemma accept_frame_inv:
  assumes "adapter_inv s"
  shows "adapter_inv (snd (accept_frame strm sample s))"
proof -
  obtain r s' where b: "accept_frame_body strm sample s = (r, s')"
    by (cases "accept_frame_body strm sample s")
  then have "adapter_inv s'" using accept_frame_body_inv assms by blast
  then show ?thesis
    using assms b adapter_latch_inv
    by (auto simp: accept_frame_def split: sum.splits)
qed

lemma validate_native_ground_truth_ok:
  "validate_native_ground_truth sample = Inr (g, ts) \<Longrightarrow> sample = Some g \<and> 0 < ts"
  by (auto simp: validate_native_ground_truth_def split: option.splits if_splits)

text \<open>An accepted ground-truth sample consumes the oldest pending pair.\<close>

lemma accept_ground_truth_body_cases:
  assumes "accept_ground_truth_body sample s = (r, s')"
  obtains (rejected) e where "r = Inl e" "s' = s"
  | (taken) g i ts rest where "r = Inr g" "am_pending_pairs s = (i, ts) # rest"
      "pg_sim_timestamp_ns g = ts" "pg_run_id g = am_run_id s"
      "s' = s\<lparr>am_pending_pairs := rest, am_paired_frames := am_paired_frames s + 1,
         am_ground_truth_samples := am_ground_truth_samples s + 1,
         am_last_ground_truth_timestamp_ns := Some ts,
         am_first_sim_timestamp_ns :=
           (case am_first_sim_timestamp_ns s of None \<Rightarrow> Some ts | Some f \<Rightarrow> Some f),
         am_last_sim_timestamp_ns := Some ts\<rparr>"
proof (cases "\<exists>e. r = Inl e")
  case True
  then show ?thesis
    using assms rejected
    by (auto simp: accept_ground_truth_body_def split: sum.splits list.splits if_splits)
next
  case False
  then obtain g where r: "r = Inr g" by (cases r) auto
  obtain g' ts where v: "validate_native_ground_truth sample = Inr (g', ts)"
    using assms r by (auto simp: accept_ground_truth_body_def split: sum.splits)
  obtain i rest where pend: "am_pending_pairs s = (i, ts) # rest"
    using assms r v by (auto simp: accept_ground_truth_body_def split: list.splits if_splits)
  note eq = assms [unfolded accept_ground_truth_body_def v pend r, simplified]
  have "pg_sim_timestamp_ns g = ts" "pg_run_id g = am_run_id s"
    using eq by (auto split: if_splits)
  then show ?thesis
    by (rule taken [OF r pend]) (use eq in \<open>simp split: if_splits\<close>)
qed

lemma taken_inv:
  assumes inv: "adapter_inv s" and pend: "am_pending_pairs s = (i, ts) # rest"
  shows "adapter_inv (s\<lparr>am_pending_pairs := rest, am_paired_frames := am_paired_frames s + 1,
         am_ground_truth_samples := am_ground_truth_samples s + 1,
         am_last_ground_truth_timestamp_ns := l,
         am_first_sim_timestamp_ns :=
           (case am_first_sim_timestamp_ns s of None \<Rightarrow> Some ts | Some f \<Rightarrow> Some f),
         am_last_sim_timestamp_ns := Some ts\<rparr>)" (is "adapter_inv ?s")
proof -
  have pi: "pairs_inv s" by (rule adapter_inv_pairs [OF inv])
  let ?F = "first_stamp (am_sequences s onboard)" and ?p = "am_paired_frames s"
  have m: "matched ?s = matched s" by (simp add: matched_def pend)
  have le: "?p \<le> matched s - 1" by (simp add: matched_def pend)
  have "(i, ts) # rest = grid ?F ?p (matched s - 1)"
    using pi pend by (simp add: pairs_inv_def)
  with le have g: "ts = ?F + ?p * FRAME_INTERVAL_NS" "rest = grid ?F (?p + 1) (matched s - 1)"
    by (simp_all add: grid_Cons)
  have first: "(case am_first_sim_timestamp_ns s of None \<Rightarrow> Some ts | Some f \<Rightarrow> Some f) = Some ?F"
    using pi g(1) by (cases "?p = 0") (simp_all add: pairs_inv_def)
  have same: "0 < matched s \<longrightarrow> ?F = first_stamp (am_sequences s observer)"
    and p: "0 \<le> ?p" "am_ground_truth_samples s = ?p"
    using pi unfolding pairs_inv_def by blast+
  have "length rest \<le> PENDING_PAIR_CAPACITY"
    using pairs_inv_bound [OF pi] pend by simp
  then have "pairs_inv ?s"
    unfolding pairs_inv_def m using g first same p by simp
  moreover have "stream_inv ?s st" for st
    using adapter_inv_stream [OF inv, of st] unfolding stream_inv_def m by simp
  ultimately show ?thesis using inv by (simp add: adapter_inv_def)
qed

lemma accept_ground_truth_inv:
  assumes "adapter_inv s"
  shows "adapter_inv (snd (accept_ground_truth sample s))"
proof -
  obtain r s' where b: "accept_ground_truth_body sample s = (r, s')"
    by (cases "accept_ground_truth_body sample s")
  then have "adapter_inv s'"
    by (cases rule: accept_ground_truth_body_cases) (use assms taken_inv in auto)
  then show ?thesis
    using assms b adapter_latch_inv
    by (auto simp: accept_ground_truth_def split: sum.splits)
qed

lemma complete_summary_exact:
  assumes inv: "adapter_inv s" and compl: "adapter_complete s"
  shows "exact_summary (am_expected_frames s)
    \<lparr>as_onboard_frames = cs_accepted_frames (am_sequences s onboard),
     as_observer_frames = cs_accepted_frames (am_sequences s observer),
     as_paired_frames = am_paired_frames s,
     as_ground_truth_samples = am_ground_truth_samples s,
     as_first_sim_timestamp_ns = am_first_sim_timestamp_ns s,
     as_last_sim_timestamp_ns = am_last_sim_timestamp_ns s\<rparr>"
proof -
  have n: "0 < am_expected_frames s" "am_paired_frames s = am_expected_frames s"
    using inv compl by (auto simp: adapter_inv_def adapter_complete_def)
  have "camera_inv (am_sequences s onboard)"
    using adapter_inv_stream [OF inv, of onboard] by (simp add: stream_inv_def)
  moreover have acc: "cs_accepted_frames (am_sequences s st) = am_expected_frames s" for st
    using adapter_inv_stream [OF inv, of st] compl
    by (cases st) (auto simp: stream_inv_def adapter_complete_def camera_complete_def)
  ultimately have "0 < first_stamp (am_sequences s onboard)"
    using n(1) by (auto simp: camera_inv_def first_stamp_def)
  with n acc adapter_inv_pairs [OF inv] show ?thesis
    by (auto simp: exact_summary_def pairs_inv_def)
qed

lemma adapter_freeze_inv: "adapter_inv s \<Longrightarrow> adapter_inv (snd (adapter_freeze s))"
  using complete_summary_exact [of s]
  by (auto simp: adapter_freeze_def Let_def adapter_inv_def stream_inv_def pairs_inv_def matched_def
      split: option.splits)

interpretation adapter: invariant_machine adapter_step adapter_inv
proof unfold_locales
  fix s :: adapter_model and x
  assume "adapter_inv s"
  then show "adapter_inv (snd (adapter_step x s))"
    by (cases x) (simp_all add: accept_frame_inv accept_ground_truth_inv adapter_freeze_inv)
qed

section \<open>The frames of a run\<close>

text \<open>The frames a run publishes on one stream, in order.\<close>

fun frames_of :: "stream \<Rightarrow> adapter_output result list \<Rightarrow> public_frame list" where
  "frames_of st [] = []"
| "frames_of st (Inr (OutFrame f) # outs) =
     (if pf_stream f = st then f # frames_of st outs else frames_of st outs)"
| "frames_of st (_ # outs) = frames_of st outs"

lemma frames_of_Cons: "frames_of st (x # xs) = frames_of st [x] @ frames_of st xs"
proof (cases x)
  case (Inr a)
  then show ?thesis by (cases a) simp_all
qed simp

lemma grid_append:
  "a \<le> b \<Longrightarrow> b \<le> c \<Longrightarrow> grid f a (b - 1) @ grid f b (c - 1) = grid f a (c - 1)"
  by (cases "b = c") (simp_all add: grid_def upto_split1 [of a b "c - 1"] flip: map_append)

text \<open>
  What one operation adds to a stream: nothing, or the next frame on the stream's grid.
\<close>

abbreviation acc_of :: "adapter_model \<Rightarrow> stream \<Rightarrow> int" where
  "acc_of s st \<equiv> cs_accepted_frames (am_sequences s st)"

abbreviation origin_of :: "adapter_model \<Rightarrow> stream \<Rightarrow> int" where
  "origin_of s st \<equiv> first_stamp (am_sequences s st)"

definition stream_advance :: "stream \<Rightarrow> adapter_model \<Rightarrow> public_frame list \<Rightarrow> adapter_model \<Rightarrow> bool" where
  "stream_advance st s fs s' \<longleftrightarrow>
     map frame_key fs = grid (origin_of s' st) (acc_of s st) (acc_of s' st - 1)
     \<and> acc_of s st \<le> acc_of s' st
     \<and> (acc_of s st \<noteq> 0 \<longrightarrow> origin_of s' st = origin_of s st)"

lemma stream_advance_refl:
  "acc_of s' st = acc_of s st \<Longrightarrow> origin_of s' st = origin_of s st \<Longrightarrow> stream_advance st s [] s'"
  by (simp add: stream_advance_def)

lemma stream_advance_trans:
  assumes "0 \<le> acc_of s st" "stream_advance st s fs s'" "stream_advance st s' gs s''"
  shows "stream_advance st s (fs @ gs) s''"
proof -
  have "grid (origin_of s' st) (acc_of s st) (acc_of s' st - 1)
      = grid (origin_of s'' st) (acc_of s st) (acc_of s' st - 1)"
    using assms by (intro grid_new_first) (auto simp: stream_advance_def)
  with assms grid_append [of "acc_of s st" "acc_of s' st" "acc_of s'' st"]
  show ?thesis by (auto simp: stream_advance_def)
qed

lemma accept_advance:
  assumes inv: "adapter_inv s"
    and acc: "camera_accept (Some im) (am_sequences s st') = (Inr frame, sq')"
    and s': "am_sequences s' = (am_sequences s)(st' := sq')"
  shows "stream_advance st s (frames_of st [Inr (OutFrame frame)]) s'"
proof -
  have si: "stream_inv s st'" by (rule adapter_inv_stream [OF inv])
  then have ci: "camera_inv (am_sequences s st')" "cs_stream (am_sequences s st') = st'"
    by (simp_all add: stream_inv_def)
  note ok = camera_accept_ok [OF ci(1) acc]
  show ?thesis
  proof (cases "st = st'")
    case True
    then show ?thesis
      using ok(2,4,5,7) ci s' by (simp add: stream_advance_def)
  next
    case False
    then show ?thesis using ok(7) ci s' by (simp add: stream_advance_def)
  qed
qed

lemma adapter_latch_sequences [simp]:
  "am_sequences (snd (adapter_latch e s)) = am_sequences s"
  by (cases e; simp add: adapter_latch_def Let_def)

lemma accept_frame_advance:
  assumes inv: "adapter_inv s"
  shows "stream_advance st s (frames_of st [map_sum id OutFrame (fst (accept_frame strm sample s))])
     (snd (accept_frame strm sample s))"
proof (cases "adapter_require_open s")
  case (Inl e)
  then show ?thesis by (simp add: accept_frame_def stream_advance_refl)
next
  case (Inr u)
  obtain r s' where b: "accept_frame_body strm sample s = (r, s')"
    by (cases "accept_frame_body strm sample s")
  have out: "accept_frame strm sample s =
      (case r of Inl e \<Rightarrow> adapter_latch e s' | Inr f \<Rightarrow> (Inr f, s'))"
    using Inr b by (simp add: accept_frame_def split: sum.splits)
  from b show ?thesis
  proof (cases rule: accept_frame_body_cases)
    case (rejected m)
    then show ?thesis
      by (simp add: out adapter_latch_def Let_def stream_advance_refl)
  next
    case (seq_fault m st')
    then show ?thesis
      by (simp add: out adapter_latch_def Let_def stream_advance_refl)
  next
    case (alone st' im frame sq')
    then show ?thesis
      using accept_advance [OF inv alone(3), of s' st] by (simp add: out)
  next
    case (paired st' im frame sq' other rest)
    then show ?thesis
      using accept_advance [OF inv paired(3), of s' st] by (simp add: out)
  qed
qed

lemma accept_ground_truth_sequences:
  "am_sequences (snd (accept_ground_truth g s)) = am_sequences s"
proof -
  obtain r s' where b: "accept_ground_truth_body g s = (r, s')"
    by (cases "accept_ground_truth_body g s")
  then have "am_sequences s' = am_sequences s"
    by (cases rule: accept_ground_truth_body_cases) simp_all
  then show ?thesis
    using b
    by (auto simp: accept_ground_truth_def split: sum.splits)
qed

lemma adapter_freeze_sequences: "am_sequences (snd (adapter_freeze s)) = am_sequences s"
  by (simp add: adapter_freeze_def Let_def split: option.splits)

lemma frames_of_other [simp]:
  "frames_of st [map_sum id OutGroundTruth r] = []"
  "frames_of st [map_sum id OutSummary r'] = []"
  by (cases r; simp) (cases r'; simp)

lemma adapter_step_advance:
  assumes "adapter_inv s"
  shows "stream_advance st s (frames_of st [fst (adapter_step x s)]) (snd (adapter_step x s))"
proof (cases x)
  case (AcceptFrame strm im)
  then show ?thesis using accept_frame_advance [OF assms] by simp
qed (simp_all add: stream_advance_refl accept_ground_truth_sequences adapter_freeze_sequences)

lemma adapter_run_advance:
  assumes "adapter_inv s"
  shows "stream_advance st s (frames_of st (fst (run_ops adapter_step ops s)))
     (snd (run_ops adapter_step ops s))"
  using assms
proof (induction ops arbitrary: s)
  case Nil
  then show ?case by (simp add: stream_advance_refl)
next
  case (Cons x ops)
  let ?s = "snd (adapter_step x s)"
  have "0 \<le> acc_of s st"
    using adapter_inv_stream [OF Cons.prems, of st] by (simp add: stream_inv_def camera_inv_def)
  moreover note adapter_step_advance [OF Cons.prems, of st x]
  moreover have "adapter_inv ?s"
    by (rule adapter.step_invar [OF Cons.prems])
  then have "stream_advance st ?s (frames_of st (fst (run_ops adapter_step ops ?s)))
     (snd (run_ops adapter_step ops ?s))"
    by (rule Cons.IH)
  ultimately show ?case
    unfolding run_ops.simps fst_conv snd_conv
    by (subst frames_of_Cons) (rule stream_advance_trans)
qed

text \<open>The configured number of frames never changes.\<close>

lemma adapter_latch_expected [simp]:
  "am_expected_frames (snd (adapter_latch e s)) = am_expected_frames s"
  by (cases e) (simp_all add: adapter_latch_def Let_def)

lemma accept_frame_body_expected:
  assumes "accept_frame_body strm im s = (r, s')"
  shows "am_expected_frames s' = am_expected_frames s"
  using assms by (cases rule: accept_frame_body_cases) auto

lemma accept_frame_expected [simp]:
  "am_expected_frames (snd (accept_frame strm im s)) = am_expected_frames s"
  by (auto simp: accept_frame_def dest: accept_frame_body_expected
      split: sum.splits prod.splits)

lemma accept_ground_truth_expected [simp]:
  "am_expected_frames (snd (accept_ground_truth g s)) = am_expected_frames s"
proof -
  have "am_expected_frames s' = am_expected_frames s"
    if "accept_ground_truth_body g s = (r, s')" for r s'
    using that by (auto simp: accept_ground_truth_body_def
        split: sum.splits prod.splits if_splits list.splits)
  then show ?thesis
    by (auto simp: accept_ground_truth_def split: sum.splits prod.splits)
qed

lemma adapter_freeze_expected [simp]:
  "am_expected_frames (snd (adapter_freeze s)) = am_expected_frames s"
  by (simp add: adapter_freeze_def Let_def split: option.splits)

interpretation adapter_config: invariant_machine adapter_step "\<lambda>s. am_expected_frames s = n" for n
proof unfold_locales
  fix s :: adapter_model and x
  assume "am_expected_frames s = n"
  then show "am_expected_frames (snd (adapter_step x s)) = n"
    by (cases x) simp_all
qed

section \<open>A faulted adapter\<close>

text \<open>The two accepting operations share the latch; freezing does not set it.\<close>

fun adapter_accept_step ::
    "pyval \<times> native_image option + native_ground_truth option \<Rightarrow> adapter_model \<Rightarrow>
     adapter_output result \<times> adapter_model" where
  "adapter_accept_step (Inl (st, im)) s = adapter_step (AcceptFrame st im) s"
| "adapter_accept_step (Inr g) s = adapter_step (AcceptGroundTruth g) s"

interpretation adapter_latch: fault_sticky adapter_accept_step am_fault_reason
proof unfold_locales
  fix s :: adapter_model and r x
  assume "am_fault_reason s = Some r"
  then show "adapter_accept_step x s = (Inl (AdapterFault r), s)"
    by (cases x) (auto simp: accept_frame_def accept_ground_truth_def adapter_require_open_def)
qed

lemma validate_vector_fault: "validate_vector v f n = Inl e \<Longrightarrow> \<exists>m. e = AdapterFault m"
  by (auto simp: validate_vector_def split: pyval.splits if_splits)

lemma validate_native_ground_truth_fault:
  "validate_native_ground_truth g = Inl e \<Longrightarrow> \<exists>m. e = AdapterFault m"
  by (auto simp: validate_native_ground_truth_def rbind_def
      dest: validate_vector_fault positive_integer_fault
      split: option.splits sum.splits if_splits)

lemma accept_ground_truth_body_fault:
  "accept_ground_truth_body g s = (Inl e, s') \<Longrightarrow> \<exists>m. e = AdapterFault m"
  by (auto simp: accept_ground_truth_body_def dest: validate_native_ground_truth_fault
      split: sum.splits list.splits if_splits)

lemma accept_frame_body_fault:
  assumes "accept_frame_body strm im s = (Inl e, s')"
  shows "\<exists>m. e = AdapterFault m"
  using assms by (cases rule: accept_frame_body_cases) auto

lemma adapter_accept_latches:
  assumes "am_summary s = None" and "adapter_accept_step x s = (Inl e, s')"
  shows "\<exists>r. e = AdapterFault r \<and> am_fault_reason s' = Some r"
  using assms
  by (cases x)
    (auto simp: accept_frame_def accept_ground_truth_def adapter_require_open_def
      adapter_latch_def Let_def
      dest!: accept_frame_body_fault accept_ground_truth_body_fault
      split: option.splits sum.splits prod.splits)

section \<open>Properties\<close>

text \<open>A complete run of one frame: both cameras, then the truth, then the freeze.\<close>

definition sample_image :: "int \<Rightarrow> native_image" where
  "sample_image ts = \<lparr>ni_sim_timestamp_ns = VInt ts, ni_width = VInt 320, ni_height = VInt 240,
     ni_encoding = VStr ''rgb8'', ni_step = VInt 960,
     ni_data = VBytes (replicate 230400 (CHR ''x''))\<rparr>"

definition sample_truth :: "int \<Rightarrow> native_ground_truth" where
  "sample_truth ts = \<lparr>ng_sim_timestamp_ns = VInt ts,
     ng_position_xyz = VTuple [VInt 0, VInt 0, VInt 1],
     ng_orientation_xyzw = VTuple [VInt 0, VInt 0, VInt 0, VInt 1],
     ng_linear_velocity_xyz = VTuple [VInt 0, VInt 0, VInt 0],
     ng_angular_velocity_xyz = VTuple [VInt 0, VInt 0, VInt 0], ng_in_contact = VBool True\<rparr>"

definition sample_adapter :: adapter_model where
  "sample_adapter =
     (case AdapterModel (VStr sample_run_id) (VInt 1) (VInt 320) (VInt 240) of Inr s \<Rightarrow> s)"

definition sample_ops :: "adapter_op list" where
  "sample_ops = [AcceptFrame (VStr ''onboard'') (Some (sample_image 50000000)),
     AcceptFrame (VStr ''observer'') (Some (sample_image 50000000)),
     AcceptGroundTruth (Some (sample_truth 50000000))]"

lemmas adapter_eval =
  AdapterModel_def CameraSequence_def adapter_canonical_run_id_def validate_stream_def
  image_geometry_def APPROVED_IMAGE_GEOMETRIES_def accept_frame_def accept_frame_body_def
  adapter_require_open_def camera_preflight_def camera_check_def validate_native_image_def
  positive_integer_def camera_accept_def pair_check_def PENDING_PAIR_CAPACITY_def
  UNMATCHED_FRAME_CAPACITY_def accept_ground_truth_def accept_ground_truth_body_def
  validate_native_ground_truth_def validate_vector_def adapter_freeze_def adapter_complete_def
  camera_complete_def FRAME_INTERVAL_NS_def sample_image_def sample_truth_def sample_ops_def
  quoted_def

lemma sample_adapter_eq:
  "AdapterModel (VStr sample_run_id) (VInt 1) (VInt 320) (VInt 240) = Inr sample_adapter"
  unfolding sample_adapter_def by (simp add: adapter_eval)

text \<open>
  C13. Gap-free public frames. Whatever sequence of frames, ground-truth samples and freeze
  calls an adapter receives, the frames it publishes on either stream are numbered 0, 1, 2,
  \<open>\<dots>\<close> without a gap or a repetition, and frame \<open>i\<close> carries the timestamp
  \<open>f + i * 50 ms\<close> for one common \<open>f\<close>.
\<close>

theorem adapter_frames_gap_free:
  assumes "AdapterModel rid n w h = Inr s"
  shows "\<exists>f. \<forall>i < length (frames_of st (fst (run_ops adapter_step ops s))).
     frame_key (frames_of st (fst (run_ops adapter_step ops s)) ! i)
       = (int i, f + int i * FRAME_INTERVAL_NS)"
proof -
  let ?fs = "frames_of st (fst (run_ops adapter_step ops s))"
    and ?s = "snd (run_ops adapter_step ops s)"
  have "acc_of s st = 0"
    using assms by (cases st) (auto simp: AdapterModel_def CameraSequence_def)
  then have k: "map frame_key ?fs = grid (origin_of ?s st) 0 (acc_of ?s st - 1)"
    using adapter_run_advance [OF AdapterModel_inv [OF assms], of st ops]
    by (simp add: stream_advance_def)
  then have len: "length ?fs = nat (acc_of ?s st)"
    using length_map [of frame_key ?fs] by simp
  have "frame_key (?fs ! i) = (int i, origin_of ?s st + int i * FRAME_INTERVAL_NS)"
    if "i < length ?fs" for i
  proof -
    have "frame_key (?fs ! i) = grid (origin_of ?s st) 0 (acc_of ?s st - 1) ! i"
      using that k by (metis nth_map)
    then show ?thesis using that len by (simp add: grid_nth)
  qed
  then show ?thesis by blast
qed

theorem adapter_frames_gap_free_witness:
  "AdapterModel (VStr sample_run_id) (VInt 1) (VInt 320) (VInt 240) = Inr sample_adapter
   \<and> (\<exists>f. \<forall>i < length (frames_of onboard (fst (run_ops adapter_step sample_ops sample_adapter))).
     frame_key (frames_of onboard (fst (run_ops adapter_step sample_ops sample_adapter)) ! i)
       = (int i, f + int i * FRAME_INTERVAL_NS))"
  using adapter_frames_gap_free [OF sample_adapter_eq, of onboard sample_ops] sample_adapter_eq
  by simp

text \<open>
  C10. Exact summary. Whatever operations came before, a freeze that succeeds returns the exact
  summary for the configured number of frames: as many onboard frames, observer frames,
  aligned pairs and ground-truth samples as expected, with the first and the last timestamp
  of one 50 ms grid.
\<close>

theorem adapter_summary_exact:
  assumes "AdapterModel rid (VInt n) w h = Inr s"
    and "fst (adapter_freeze (snd (run_ops adapter_step ops s))) = Inr sm"
  shows "exact_summary n sm"
proof -
  let ?s = "snd (run_ops adapter_step ops s)"
  have "adapter_inv (snd (adapter_freeze ?s))"
    using adapter.run_invar [OF AdapterModel_inv [OF assms(1)], of "ops @ [Freeze]"]
    by (simp add: run_ops_append)
  moreover have "am_expected_frames ?s = n"
    using assms(1) by (intro adapter_config.run_invar) (auto simp: AdapterModel_def)
  moreover have "am_summary (snd (adapter_freeze ?s)) = Some sm"
    using assms(2) by (auto simp: adapter_freeze_def Let_def split: option.splits if_splits)
  ultimately show ?thesis by (simp add: adapter_inv_def)
qed

lemma sample_freeze:
  "fst (adapter_freeze (snd (run_ops adapter_step sample_ops sample_adapter))) = Inr
     \<lparr>as_onboard_frames = 1, as_observer_frames = 1, as_paired_frames = 1,
      as_ground_truth_samples = 1, as_first_sim_timestamp_ns = Some 50000000,
      as_last_sim_timestamp_ns = Some 50000000\<rparr>"
  unfolding sample_adapter_def by (simp add: adapter_eval Let_def)

theorem adapter_summary_exact_witness:
  "exact_summary 1 \<lparr>as_onboard_frames = 1, as_observer_frames = 1, as_paired_frames = 1,
      as_ground_truth_samples = 1, as_first_sim_timestamp_ns = Some 50000000,
      as_last_sim_timestamp_ns = Some 50000000\<rparr>"
  by (rule adapter_summary_exact [OF sample_adapter_eq sample_freeze])

text \<open>
  Bounded lookahead. In every state an adapter reaches, each stream holds at most 20
  unmatched frames, at most 20 camera pairs wait for their ground truth, and neither stream
  has accepted more frames than were expected.
\<close>

theorem adapter_lookahead_bounded:
  assumes "AdapterModel rid n w h = Inr s"
  shows "length (am_unmatched_frames (snd (run_ops adapter_step ops s)) st) \<le> 20
    \<and> length (am_pending_pairs (snd (run_ops adapter_step ops s))) \<le> 20
    \<and> cs_accepted_frames (am_sequences (snd (run_ops adapter_step ops s)) st)
        \<le> am_expected_frames (snd (run_ops adapter_step ops s))"
proof -
  note inv = adapter.run_invar [OF AdapterModel_inv [OF assms], of ops]
  show ?thesis
    using adapter_inv_stream [OF inv, of st] adapter_inv_pairs [OF inv]
    by (auto simp: stream_inv_def pairs_inv_def camera_inv_def UNMATCHED_FRAME_CAPACITY_def
        PENDING_PAIR_CAPACITY_def)
qed

theorem adapter_lookahead_bounded_witness:
  "AdapterModel (VStr sample_run_id) (VInt 1) (VInt 320) (VInt 240) = Inr sample_adapter
   \<and> length (am_unmatched_frames (snd (run_ops adapter_step sample_ops sample_adapter)) observer)
        \<le> 20"
  using adapter_lookahead_bounded [OF sample_adapter_eq, of sample_ops observer] sample_adapter_eq
  by simp

text \<open>
  Final fault. A frame or a ground-truth sample that an open adapter rejects leaves a
  latched reason: every later frame or sample raises the same fault, in every order, and
  leaves the adapter as it was.
\<close>

theorem adapter_fault_final:
  assumes "am_summary s = None" and "adapter_accept_step x s = (Inl e, s')"
  shows "run_ops adapter_accept_step xs s' = (replicate (length xs) (Inl e), s')"
  using adapter_accept_latches [OF assms] adapter_latch.run_latched [of s' _ xs] by auto

theorem adapter_fault_final_witness:
  "run_ops adapter_accept_step [Inr (Some (sample_truth 1))]
     (snd (adapter_accept_step (Inr None) sample_adapter))
   = ([fst (adapter_accept_step (Inr None) sample_adapter)],
      snd (adapter_accept_step (Inr None) sample_adapter))
   \<and> am_summary sample_adapter = None"
proof -
  have open_: "am_summary sample_adapter = None"
    unfolding sample_adapter_def by (simp add: adapter_eval)
  obtain e where "fst (adapter_accept_step (Inr None) sample_adapter) = Inl e"
    unfolding sample_adapter_def by (simp add: adapter_eval adapter_latch_def Let_def)
  then have "adapter_accept_step (Inr None) sample_adapter =
      (Inl e, snd (adapter_accept_step (Inr None) sample_adapter))"
    by (metis prod.collapse)
  from adapter_fault_final [OF open_ this, of "[Inr (Some (sample_truth 1))]"] open_ this
  show ?thesis by simp
qed

text \<open>
  Exact range grid. A fresh range sequence accepts a list of samples without raising
  exactly when they are the first samples \<open>i, 2i, 3i, \<dots>\<close> of its interval \<open>i\<close> and no more
  than the expected number.
\<close>

theorem range_sequence_exact:
  assumes "RangeSequence (VInt n) (VInt i) = Inr s"
  shows "(\<forall>r \<in> set (fst (run_ops range_accept vs s)). \<exists>u. r = Inr u) \<longleftrightarrow>
     int (length vs) \<le> n \<and> vs = map (\<lambda>k. VInt ((1 + int k) * i)) [0..<length vs]"
proof -
  from assms have "0 < n" "0 < i" "s = \<lparr>rs_expected_samples = n, rs_interval_ns = i,
      rs_accepted_samples = 0, rs_fault_reason = None\<rparr>"
    by (auto simp: RangeSequence_def)
  with range_run_exact [of s vs] show ?thesis by simp
qed

theorem range_sequence_exact_witness:
  "list_all (\<lambda>r. \<exists>u. r = Inr u) (fst (run_ops range_accept [VInt 50, VInt 100]
      \<lparr>rs_expected_samples = 2, rs_interval_ns = 50, rs_accepted_samples = 0,
       rs_fault_reason = None\<rparr>))"
proof -
  have "RangeSequence (VInt 2) (VInt 50) = Inr \<lparr>rs_expected_samples = 2, rs_interval_ns = 50,
      rs_accepted_samples = 0, rs_fault_reason = None\<rparr>"
    by (simp add: RangeSequence_def)
  from range_sequence_exact [OF this, of "[VInt 50, VInt 100]"] show ?thesis
    by (simp add: list_all_iff)
qed

end
