(* ===== verification/Gz_Epoch.thy ===== *)
theory Gz_Epoch
  imports Py_Prelude
begin

text \<open>
  The mapping from warm Gazebo time to the public run epoch, \<open>gazebo/ros_adapter/epoch.py\<close>:
  \<open>PublicEpoch\<close>, which rebases a native timestamp, and \<open>OutputEpochGate\<close>, which is
  armed before the configured native epoch and latches it from the reliable clock.
\<close>

section \<open>Definitions\<close>

definition EPOCH_FRAME_INTERVAL_NS :: int where
  "EPOCH_FRAME_INTERVAL_NS = 50000000"

definition EPOCH_LATCH_TOLERANCE_NS :: int where
  "EPOCH_LATCH_TOLERANCE_NS = EPOCH_FRAME_INTERVAL_NS"

definition native_timestamp :: "pyval \<Rightarrow> int result" where
  "native_timestamp v =
     (case strict_int v of
        Some i \<Rightarrow> if i < 0 then Inl (AdapterFault ''native timestamp must be a nonnegative integer'')
                 else Inr i
      | None \<Rightarrow> Inl (AdapterFault ''native timestamp must be a nonnegative integer''))"

text \<open>A \<open>PublicEpoch\<close> is its one field; the constructor checks the camera grid.\<close>

definition PublicEpoch :: "pyval \<Rightarrow> int result" where
  "PublicEpoch v =
     rbind (native_timestamp v) (\<lambda>ts.
       if ts mod EPOCH_FRAME_INTERVAL_NS \<noteq> 0
       then Inl (AdapterFault ''native epoch must lie on the 50 ms camera grid'')
       else Inr ts)"

definition epoch_rebase :: "int \<Rightarrow> pyval \<Rightarrow> int option result" where
  "epoch_rebase native_epoch_ns v =
     rbind (native_timestamp v) (\<lambda>native.
       Inr (if native \<le> native_epoch_ns then None else Some (native - native_epoch_ns)))"

record epoch_gate =
  eg_maximum_public_timestamp_ns :: int
  eg_target_native_epoch_ns :: int
  eg_latest_native_clock_ns :: "int option"
  eg_epoch :: "int option"
  eg_activation_requested :: bool

definition OutputEpochGate :: "pyval \<Rightarrow> pyval \<Rightarrow> epoch_gate result" where
  "OutputEpochGate expected_frames public_epoch_native_ns =
     (case strict_int expected_frames of
        None \<Rightarrow> Inl (AdapterFault ''expected_frames must be a positive integer'')
      | Some n \<Rightarrow>
          if n \<le> 0 then Inl (AdapterFault ''expected_frames must be a positive integer'')
          else rbind (native_timestamp public_epoch_native_ns) (\<lambda>target.
            if target = 0 \<or> target mod EPOCH_FRAME_INTERVAL_NS \<noteq> 0 then
              Inl (AdapterFault
                ''public native epoch must be positive and lie on the 50 ms camera grid'')
            else Inr \<lparr>eg_maximum_public_timestamp_ns = n * EPOCH_FRAME_INTERVAL_NS,
                      eg_target_native_epoch_ns = target, eg_latest_native_clock_ns = None,
                      eg_epoch = None, eg_activation_requested = False\<rparr>))"

definition activation_pending :: "epoch_gate \<Rightarrow> bool" where
  "activation_pending g \<longleftrightarrow> eg_activation_requested g \<and> eg_epoch g = None"

definition request_activation :: "epoch_gate \<Rightarrow> unit result \<times> epoch_gate" where
  "request_activation g =
     (if (case eg_latest_native_clock_ns g of
            None \<Rightarrow> False | Some l \<Rightarrow> eg_target_native_epoch_ns g \<le> l)
      then (Inl (AdapterFault ''public output must activate before the configured native epoch''), g)
      else (Inr (), g\<lparr>eg_activation_requested := True\<rparr>))"

text \<open>A public time beyond the last frame is not exposed.\<close>

definition within_run :: "epoch_gate \<Rightarrow> int option \<Rightarrow> int option" where
  "within_run g public =
     (case public of
        None \<Rightarrow> None
      | Some t \<Rightarrow> if eg_maximum_public_timestamp_ns g < t then None else Some t)"

definition gate_accept_clock :: "pyval \<Rightarrow> epoch_gate \<Rightarrow> int option result \<times> epoch_gate" where
  "gate_accept_clock v g =
     (case native_timestamp v of
        Inl e \<Rightarrow> (Inl e, g)
      | Inr native \<Rightarrow>
        (case eg_epoch g of
           Some epoch \<Rightarrow> (rbind (epoch_rebase epoch (VInt native)) (\<lambda>p. Inr (within_run g p)), g)
         | None \<Rightarrow>
           (let g1 = (if (case eg_latest_native_clock_ns g of
                            None \<Rightarrow> True | Some l \<Rightarrow> l < native)
                      then g\<lparr>eg_latest_native_clock_ns := Some native\<rparr> else g)
            in if \<not> eg_activation_requested g1 then (Inr None, g1)
               else if eg_target_native_epoch_ns g1 + EPOCH_LATCH_TOLERANCE_NS < native then
                 (Inl (AdapterFault ''reliable native clock skipped configured native epoch''), g1)
               else if eg_target_native_epoch_ns g1 \<le> native then
                 (case PublicEpoch (VInt (eg_target_native_epoch_ns g1)) of
                    Inl e \<Rightarrow> (Inl e, g1)
                  | Inr epoch \<Rightarrow> (Inr (Some (native - eg_target_native_epoch_ns g1)),
                                g1\<lparr>eg_epoch := Some epoch\<rparr>))
               else (Inr None, g1))))"

definition rebase_armed :: "epoch_gate \<Rightarrow> pyval \<Rightarrow> int option result" where
  "rebase_armed g v =
     rbind (PublicEpoch (VInt (eg_target_native_epoch_ns g))) (\<lambda>epoch.
     rbind (epoch_rebase epoch v) (\<lambda>p. Inr (within_run g p)))"

definition gate_accept_camera :: "pyval \<Rightarrow> pyval \<Rightarrow> epoch_gate \<Rightarrow> int option result" where
  "gate_accept_camera strm v g =
     (if \<not> hashable strm then Inl (TypeError ''unhashable type'')
      else if strm \<noteq> VStr ''onboard'' \<and> strm \<noteq> VStr ''observer'' then
        Inl (AdapterFault ''camera stream must be onboard or observer'')
      else rbind (native_timestamp v) (\<lambda>native.
        if \<not> eg_activation_requested g then Inr None else rebase_armed g (VInt native)))"

definition rebase_sample :: "pyval \<Rightarrow> epoch_gate \<Rightarrow> int option result" where
  "rebase_sample v g = (if \<not> eg_activation_requested g then Inr None else rebase_armed g v)"

datatype gate_op = RequestActivation | Clock pyval | Camera pyval pyval | Sample pyval

fun gate_step :: "gate_op \<Rightarrow> epoch_gate \<Rightarrow> int option result \<times> epoch_gate" where
  "gate_step RequestActivation g = apfst (map_sum id (\<lambda>_. None)) (request_activation g)"
| "gate_step (Clock v) g = gate_accept_clock v g"
| "gate_step (Camera strm v) g = (gate_accept_camera strm v g, g)"
| "gate_step (Sample v) g = (rebase_sample v g, g)"

fun native_stamp :: "gate_op \<Rightarrow> pyval option" where
  "native_stamp RequestActivation = None"
| "native_stamp (Clock v) = Some v"
| "native_stamp (Camera _ v) = Some v"
| "native_stamp (Sample v) = Some v"

section \<open>The gate's invariant\<close>

text \<open>
  \<open>gate_inv n e\<close>: the gate was built for \<open>n\<close> frames and the native epoch \<open>e\<close>; once
  latched the epoch is \<open>e\<close>, and it is only latched after the gate was armed.
\<close>

definition gate_inv :: "int \<Rightarrow> int \<Rightarrow> epoch_gate \<Rightarrow> bool" where
  "gate_inv n e g \<longleftrightarrow>
     0 < n \<and> 0 < e \<and> e mod EPOCH_FRAME_INTERVAL_NS = 0
     \<and> eg_maximum_public_timestamp_ns g = n * EPOCH_FRAME_INTERVAL_NS
     \<and> eg_target_native_epoch_ns g = e
     \<and> eg_epoch g \<in> {None, Some e}
     \<and> (eg_epoch g \<noteq> None \<longrightarrow> eg_activation_requested g)"

lemma native_timestamp_eq_Inr [simp]:
  "native_timestamp v = Inr i \<longleftrightarrow> v = VInt i \<and> 0 \<le> i"
  by (cases v) (auto simp: native_timestamp_def)

lemma native_timestamp_VInt [simp]: "0 \<le> i \<Longrightarrow> native_timestamp (VInt i) = Inr i"
  by (simp add: native_timestamp_def)

lemma PublicEpoch_eq_Inr [simp]:
  "PublicEpoch v = Inr i \<longleftrightarrow> v = VInt i \<and> 0 \<le> i \<and> i mod EPOCH_FRAME_INTERVAL_NS = 0"
  by (cases v) (auto simp: PublicEpoch_def native_timestamp_def)

lemma epoch_rebase_eq_Inr:
  "epoch_rebase e v = Inr p \<longleftrightarrow>
     (\<exists>i \<ge> 0. v = VInt i \<and> p = (if i \<le> e then None else Some (i - e)))"
  by (auto simp: epoch_rebase_def)

lemma within_run_eq_Some [simp]:
  "within_run g p = Some t \<longleftrightarrow> p = Some t \<and> t \<le> eg_maximum_public_timestamp_ns g"
  by (auto simp: within_run_def split: option.splits)

lemma OutputEpochGate_inv:
  "OutputEpochGate (VInt n) (VInt e) = Inr g \<Longrightarrow> gate_inv n e g"
  by (auto simp: OutputEpochGate_def gate_inv_def split: if_splits)

lemma gate_accept_clock_inv: "gate_inv n e g \<Longrightarrow> gate_inv n e (snd (gate_accept_clock v g))"
  by (auto simp: gate_accept_clock_def gate_inv_def Let_def
      split: sum.splits option.splits)

interpretation gate: invariant_machine gate_step "gate_inv n e" for n e
proof unfold_locales
  fix g :: epoch_gate and x
  assume inv: "gate_inv n e g"
  show "gate_inv n e (snd (gate_step x g))"
  proof (cases x)
    case RequestActivation
    then show ?thesis using inv by (auto simp: request_activation_def gate_inv_def)
  next
    case (Clock v)
    then show ?thesis using inv gate_accept_clock_inv by simp
  qed (use inv in simp_all)
qed

text \<open>Arming is remembered, and happens in \<open>request_activation\<close> only.\<close>

lemma gate_accept_clock_armed [simp]:
  "eg_activation_requested (snd (gate_accept_clock v g)) = eg_activation_requested g"
  by (auto simp: gate_accept_clock_def Let_def split: sum.splits option.splits)

lemma armed_only_by_request:
  "eg_activation_requested (snd (run_ops gate_step ops g)) \<Longrightarrow>
     eg_activation_requested g \<or> RequestActivation \<in> set ops"
proof (induction ops arbitrary: g)
  case (Cons x ops)
  have "x = RequestActivation \<or>
      eg_activation_requested (snd (gate_step x g)) = eg_activation_requested g"
    by (cases x) auto
  with Cons.IH [of "snd (gate_step x g)"] Cons.prems show ?case by auto
qed simp

lemma rebase_armed_Some:
  assumes "gate_inv n e g" and "rebase_armed g v = Inr (Some t)"
  shows "\<exists>i. v = VInt i \<and> t = i - e \<and> 0 < t \<and> t \<le> n * EPOCH_FRAME_INTERVAL_NS"
  using assms
  by (auto simp: rebase_armed_def gate_inv_def epoch_rebase_eq_Inr split: if_splits)

lemma gate_accept_clock_Some:
  assumes inv: "gate_inv n e g" and out: "fst (gate_accept_clock v g) = Inr (Some t)"
  shows "\<exists>i. v = VInt i \<and> t = i - e \<and> 0 \<le> t \<and> t \<le> n * EPOCH_FRAME_INTERVAL_NS
     \<and> eg_activation_requested g"
proof -
  obtain i where i: "v = VInt i" "0 \<le> i"
    using out by (cases "native_timestamp v") (auto simp: gate_accept_clock_def)
  have n: "EPOCH_FRAME_INTERVAL_NS \<le> n * EPOCH_FRAME_INTERVAL_NS"
    using inv by (auto simp: gate_inv_def EPOCH_FRAME_INTERVAL_NS_def)
  show ?thesis
  proof (cases "eg_epoch g")
    case None
    then show ?thesis
      using inv out i n
      by (auto simp: gate_accept_clock_def gate_inv_def Let_def EPOCH_LATCH_TOLERANCE_NS_def
          split: if_splits option.splits sum.splits)
  next
    case (Some a)
    then show ?thesis
      using inv out i
      by (auto simp: gate_accept_clock_def gate_inv_def epoch_rebase_eq_Inr split: if_splits)
  qed
qed

lemma gate_step_Some:
  assumes "gate_inv n e g" and "fst (gate_step x g) = Inr (Some t)"
  shows "\<exists>i. native_stamp x = Some (VInt i) \<and> t = i - e \<and> 0 \<le> t
     \<and> t \<le> n * EPOCH_FRAME_INTERVAL_NS \<and> eg_activation_requested g"
proof (cases x)
  case RequestActivation
  then show ?thesis using assms(2) by (auto simp: request_activation_def split: if_splits)
next
  case (Clock v)
  then show ?thesis using gate_accept_clock_Some [OF assms(1), of v t] assms(2) by simp
next
  case (Camera strm v)
  then have "\<exists>i. v = VInt i \<and> rebase_armed g v = Inr (Some t) \<and> eg_activation_requested g"
    using assms(2) by (auto simp: gate_accept_camera_def split: if_splits)
  then show ?thesis using rebase_armed_Some [OF assms(1), of v t] Camera by auto
next
  case (Sample v)
  then have "rebase_armed g v = Inr (Some t) \<and> eg_activation_requested g"
    using assms(2) by (auto simp: rebase_sample_def split: if_splits)
  then show ?thesis using rebase_armed_Some [OF assms(1), of v t] Sample by auto
qed

section \<open>Latching\<close>

text \<open>An armed gate below its epoch: one tick at most 50 ms past the epoch is accepted.\<close>

lemma armed_tick:
  assumes "gate_inv n e g" and "eg_activation_requested g" and "eg_epoch g = None"
    and "0 \<le> v" and "v \<le> e + EPOCH_LATCH_TOLERANCE_NS"
  shows "fst (gate_accept_clock (VInt v) g) = Inr (if e \<le> v then Some (v - e) else None)"
    and "eg_epoch (snd (gate_accept_clock (VInt v) g)) = (if e \<le> v then Some e else None)"
proof -
  have gate: "eg_target_native_epoch_ns g = e" "PublicEpoch (VInt e) = Inr e"
    "native_timestamp (VInt v) = Inr v"
    using assms by (auto simp: gate_inv_def native_timestamp_def)
  show
    "fst (gate_accept_clock (VInt v) g) = Inr (if e \<le> v then Some (v - e) else None)"
    "eg_epoch (snd (gate_accept_clock (VInt v) g)) = (if e \<le> v then Some e else None)"
    using assms(2,3,5) by (simp_all add: gate gate_accept_clock_def Let_def)
qed

text \<open>A latched gate accepts every native timestamp.\<close>

lemma latched_tick:
  assumes "gate_inv n e g" and "eg_epoch g = Some e" and "0 \<le> v"
  shows "\<exists>p. gate_accept_clock (VInt v) g = (Inr p, g)"
  using assms by (auto simp: gate_accept_clock_def native_timestamp_def epoch_rebase_def)

lemma latched_run:
  assumes "gate_inv n e g" and "eg_epoch g = Some e" and "\<forall>v \<in> set vs. 0 \<le> v"
  shows "snd (run_ops gate_accept_clock (map VInt vs) g) = g
    \<and> list_all (\<lambda>r. \<not> isl r) (fst (run_ops gate_accept_clock (map VInt vs) g))"
  using assms(3)
proof (induction vs)
  case (Cons v vs)
  then obtain p where "gate_accept_clock (VInt v) g = (Inr p, g)"
    using latched_tick [OF assms(1,2)] by fastforce
  with Cons show ?case by simp
qed simp

text \<open>Ticks no more than 50 ms apart, from a tick \<open>u\<close> on.\<close>

fun dense :: "int \<Rightarrow> int list \<Rightarrow> bool" where
  "dense u [] = True"
| "dense u (v # vs) = (u \<le> v \<and> v \<le> u + EPOCH_FRAME_INTERVAL_NS \<and> dense v vs)"

lemma dense_bound: "dense u vs \<Longrightarrow> v \<in> set vs \<Longrightarrow> u \<le> v"
  by (induction u vs rule: dense.induct) auto

lemma armed_run_latches:
  assumes "gate_inv n e g" and "eg_activation_requested g" and "eg_epoch g = None"
    and "0 \<le> u" and "u \<le> e" and "dense u vs" and "\<exists>v \<in> set vs. e \<le> v"
  shows "eg_epoch (snd (run_ops gate_accept_clock (map VInt vs) g)) = Some e
    \<and> list_all (\<lambda>r. \<not> isl r) (fst (run_ops gate_accept_clock (map VInt vs) g))"
  using assms
proof (induction vs arbitrary: g u)
  case (Cons v vs)
  let ?g = "snd (gate_accept_clock (VInt v) g)"
  have v: "0 \<le> v" "v \<le> e + EPOCH_LATCH_TOLERANCE_NS" "u \<le> v" "dense v vs"
    using Cons.prems by (auto simp: EPOCH_LATCH_TOLERANCE_NS_def)
  note tick = armed_tick [OF Cons.prems(1,2,3) v(1,2)]
  have inv: "gate_inv n e ?g"
    by (rule gate_accept_clock_inv [OF Cons.prems(1)])
  show ?case
  proof (cases "e \<le> v")
    case True
    moreover have "\<forall>w \<in> set vs. 0 \<le> w"
      using dense_bound [OF v(4)] v(1) by fastforce
    ultimately show ?thesis
      using tick latched_run [OF inv, of vs] by simp
  next
    case False
    then have "\<exists>w \<in> set vs. e \<le> w" "v \<le> e"
      using Cons.prems(7) by auto
    then show ?thesis
      using Cons.IH [OF inv _ _ v(1) _ v(4)] Cons.prems(2) tick False by simp
  qed
qed simp

section \<open>Properties\<close>

text \<open>
  C36. Public time. Whatever calls a gate built for \<open>n\<close> frames and the native epoch \<open>e\<close>
  received, each timestamp it exposes for a clock tick, a camera image or another sample
  is the native timestamp less \<open>e\<close>, lies between 0 and \<open>n\<close> frame intervals, and is only
  exposed after an activation was requested.
\<close>

theorem gate_exposes_public_time:
  assumes "OutputEpochGate (VInt n) (VInt e) = Inr g"
    and "fst (gate_step x (snd (run_ops gate_step ops g))) = Inr (Some t)"
  shows "native_stamp x = Some (VInt (t + e)) \<and> 0 \<le> t \<and> t \<le> n * EPOCH_FRAME_INTERVAL_NS
    \<and> RequestActivation \<in> set ops"
proof -
  have "\<not> eg_activation_requested g"
    using assms(1) by (auto simp: OutputEpochGate_def split: if_splits)
  with gate_step_Some [OF gate.run_invar [OF OutputEpochGate_inv [OF assms(1)]] assms(2)]
  show ?thesis
    using armed_only_by_request [of ops g] by auto
qed

definition sample_gate :: epoch_gate where
  "sample_gate = \<lparr>eg_maximum_public_timestamp_ns = 50000000, eg_target_native_epoch_ns = 100000000,
     eg_latest_native_clock_ns = None, eg_epoch = None, eg_activation_requested = False\<rparr>"

lemma sample_gate_eq: "OutputEpochGate (VInt 1) (VInt 100000000) = Inr sample_gate"
  by (simp add: OutputEpochGate_def sample_gate_def native_timestamp_def
      EPOCH_FRAME_INTERVAL_NS_def)

theorem gate_exposes_public_time_witness:
  "native_stamp (Camera (VStr ''onboard'') (VInt 150000000)) = Some (VInt (50000000 + 100000000))
   \<and> (50000000 :: int) \<le> 1 * EPOCH_FRAME_INTERVAL_NS"
proof -
  have "fst (gate_step (Camera (VStr ''onboard'') (VInt 150000000))
      (snd (run_ops gate_step [RequestActivation] sample_gate))) = Inr (Some 50000000)"
    by (simp add: sample_gate_def request_activation_def gate_accept_camera_def
        native_timestamp_def rebase_armed_def PublicEpoch_def epoch_rebase_def within_run_def
        EPOCH_FRAME_INTERVAL_NS_def)
  from gate_exposes_public_time [OF sample_gate_eq this] show ?thesis by simp
qed

text \<open>
  The epoch is latched. When a gate is armed first, and then sees native clock ticks from
  below its epoch \<open>e\<close> that are never more than 50 ms apart and reach \<open>e\<close>, no tick is
  rejected and the gate's epoch is exactly \<open>e\<close>.
\<close>

theorem gate_latches_epoch:
  assumes "OutputEpochGate (VInt n) (VInt e) = Inr g"
    and "0 \<le> u" and "u \<le> e" and "dense u vs" and "\<exists>v \<in> set vs. e \<le> v"
  shows "eg_epoch (snd (run_ops gate_accept_clock (map VInt vs) (snd (request_activation g)))) = Some e
    \<and> list_all (\<lambda>r. \<not> isl r)
        (fst (run_ops gate_accept_clock (map VInt vs) (snd (request_activation g))))"
proof -
  have "gate_inv n e (snd (request_activation g))"
    using gate.step_invar [OF OutputEpochGate_inv [OF assms(1)], of RequestActivation] by simp
  moreover have "eg_activation_requested (snd (request_activation g))"
    "eg_epoch (snd (request_activation g)) = None"
    using assms(1) by (auto simp: OutputEpochGate_def request_activation_def split: if_splits)
  ultimately show ?thesis
    using assms by (intro armed_run_latches) auto
qed

theorem gate_latches_epoch_witness:
  "eg_epoch (snd (run_ops gate_accept_clock (map VInt [80000000, 110000000])
     (snd (request_activation sample_gate)))) = Some 100000000"
  using gate_latches_epoch [OF sample_gate_eq, of 40000000 "[80000000, 110000000]"]
  by (simp add: EPOCH_FRAME_INTERVAL_NS_def)

end
