(* ===== verification/Py_Float.thy ===== *)
theory Py_Float
  imports Py_Prelude
begin

text \<open>
  Python's \<open>float\<close> arithmetic as the sources use it: IEEE binary64 with rounding to
  nearest, ties to even, computed on rationals. \<open>round64\<close> rounds a rational to the
  nearest number with a 53-bit significand and an exponent of at least \<open>-1074\<close>, and to
  an infinity from the overflow threshold on. Mixed arithmetic converts the \<open>int\<close>
  operand first, which raises \<open>OverflowError\<close> when it is too large.
\<close>

section \<open>Rounding\<close>

function ilog2 :: "int \<Rightarrow> nat" where
  "ilog2 n = (if n < 2 then 0 else Suc (ilog2 (n div 2)))"
  by pat_completeness auto
termination by (relation "measure nat") auto

declare ilog2.simps [simp del]

definition pow2 :: "int \<Rightarrow> rat" where
  "pow2 e = (if 0 \<le> e then 2 ^ nat e else 1 / 2 ^ nat (- e))"

text \<open>The integer part of the binary logarithm of a positive rational.\<close>

definition exponent :: "rat \<Rightarrow> int" where
  "exponent q =
     (if 1 \<le> q then int (ilog2 \<lfloor>q\<rfloor>) else - int (Suc (ilog2 (\<lceil>1 / q\<rceil> - 1))))"

definition round_half_even :: "rat \<Rightarrow> int" where
  "round_half_even q =
     (let f = \<lfloor>q\<rfloor>; r = q - of_int f in
      if r < 1 / 2 then f else if 1 / 2 < r then f + 1 else if even f then f else f + 1)"

definition ulp_exponent :: "rat \<Rightarrow> int" where
  "ulp_exponent q = max (exponent \<bar>q\<bar> - 52) (- 1074)"

text \<open>The least magnitude that rounds to an infinity, once rounded to 53 bits.\<close>

definition float_limit :: rat where
  "float_limit = 2 ^ 1024"

definition round64 :: "rat \<Rightarrow> pyfloat" where
  "round64 q =
     (if q = 0 then Fin 0
      else let u = pow2 (ulp_exponent q); v = of_int (round_half_even (\<bar>q\<bar> / u)) * u
           in if float_limit \<le> v then (if q < 0 then NegInf else PosInf)
              else Fin (if q < 0 then - v else v))"

section \<open>Arithmetic\<close>

definition float_of_int :: "int \<Rightarrow> pyfloat result" where
  "float_of_int i =
     (case round64 (of_int i) of Fin q \<Rightarrow> Inr (Fin q) | _ \<Rightarrow> Inl OverflowError)"

text \<open>Python's \<open>float(value)\<close> on an \<open>int\<close> or a \<open>float\<close>.\<close>

fun float_of :: "pyval \<Rightarrow> pyfloat result" where
  "float_of (VInt i) = float_of_int i"
| "float_of (VFloat f) = Inr f"
| "float_of _ = Inl (TypeError ''float() argument must be a string or a real number'')"

fun fsub :: "pyfloat \<Rightarrow> pyfloat \<Rightarrow> pyfloat" where
  "fsub (Fin a) (Fin b) = round64 (a - b)"
| "fsub NaN _ = NaN"
| "fsub _ NaN = NaN"
| "fsub PosInf PosInf = NaN"
| "fsub NegInf NegInf = NaN"
| "fsub PosInf _ = PosInf"
| "fsub NegInf _ = NegInf"
| "fsub (Fin _) PosInf = NegInf"
| "fsub (Fin _) NegInf = PosInf"

fun fdiv :: "pyfloat \<Rightarrow> pyfloat \<Rightarrow> pyfloat result" where
  "fdiv a (Fin b) =
     (if b = 0 then Inl ZeroDivisionError
      else Inr (case a of
                  Fin x \<Rightarrow> round64 (x / b)
                | PosInf \<Rightarrow> if 0 < b then PosInf else NegInf
                | NegInf \<Rightarrow> if 0 < b then NegInf else PosInf
                | NaN \<Rightarrow> NaN))"
| "fdiv (Fin a) PosInf = Inr (Fin 0)"
| "fdiv (Fin a) NegInf = Inr (Fin 0)"
| "fdiv _ _ = Inr NaN"

text \<open>Python's \<open>-\<close> on numbers: exact on two integers, on floats otherwise.\<close>

definition py_sub :: "pyval \<Rightarrow> pyval \<Rightarrow> pyval result" where
  "py_sub a b =
     (case (a, b) of
        (VInt x, VInt y) \<Rightarrow> Inr (VInt (x - y))
      | _ \<Rightarrow> rbind (float_of a) (\<lambda>x. rbind (float_of b) (\<lambda>y. Inr (VFloat (fsub x y)))))"

text \<open>Python's \<open>/\<close>: correctly rounded on two integers, on floats otherwise.\<close>

definition int_div :: "int \<Rightarrow> int \<Rightarrow> pyfloat result" where
  "int_div x y =
     (if y = 0 then Inl ZeroDivisionError
      else case round64 (of_int x / of_int y) of Fin q \<Rightarrow> Inr (Fin q) | _ \<Rightarrow> Inl OverflowError)"

definition py_div :: "pyval \<Rightarrow> pyval \<Rightarrow> pyval result" where
  "py_div a b =
     (case (a, b) of
        (VInt x, VInt y) \<Rightarrow> rbind (int_div x y) (\<lambda>q. Inr (VFloat q))
      | _ \<Rightarrow> rbind (float_of a) (\<lambda>x. rbind (float_of b) (\<lambda>y.
              rbind (fdiv x y) (\<lambda>q. Inr (VFloat q)))))"

section \<open>Comparisons and numbers\<close>

fun fabs :: "pyfloat \<Rightarrow> pyfloat" where
  "fabs (Fin q) = Fin \<bar>q\<bar>"
| "fabs NaN = NaN"
| "fabs _ = PosInf"

fun fle :: "pyfloat \<Rightarrow> pyfloat \<Rightarrow> bool" where
  "fle (Fin a) (Fin b) = (a \<le> b)"
| "fle NaN _ = False"
| "fle _ NaN = False"
| "fle NegInf _ = True"
| "fle _ PosInf = True"
| "fle _ _ = False"

definition flt :: "pyfloat \<Rightarrow> pyfloat \<Rightarrow> bool" where
  "flt a b \<longleftrightarrow> fle a b \<and> \<not> fle b a"

text \<open>\<open>w / 2.0\<close>.\<close>

fun half :: "pyfloat \<Rightarrow> pyfloat" where
  "half (Fin q) = round64 (q / 2)"
| "half f = f"

text \<open>\<open>math.isfinite\<close> of a number; an \<open>int\<close> is converted first and may overflow.\<close>

fun py_isfinite :: "pyval \<Rightarrow> bool result" where
  "py_isfinite (VInt i) = rbind (float_of_int i) (\<lambda>_. Inr True)"
| "py_isfinite (VFloat f) = Inr (isfinite f)"
| "py_isfinite _ = Inl (TypeError ''must be real number'')"

fun is_number :: "pyval \<Rightarrow> bool" where
  "is_number (VInt _) = True"
| "is_number (VFloat _) = True"
| "is_number _ = False"

text \<open>The value of a finite number, for comparisons between \<open>int\<close>, \<open>float\<close> and \<open>bool\<close>.\<close>

fun num_value :: "pyval \<Rightarrow> rat option" where
  "num_value (VInt i) = Some (of_int i)"
| "num_value (VFloat (Fin q)) = Some q"
| "num_value (VBool b) = Some (of_bool b)"
| "num_value _ = None"

section \<open>Sums and products\<close>

fun fneg :: "pyfloat \<Rightarrow> pyfloat" where
  "fneg (Fin q) = Fin (- q)"
| "fneg PosInf = NegInf"
| "fneg NegInf = PosInf"
| "fneg NaN = NaN"

definition fadd :: "pyfloat \<Rightarrow> pyfloat \<Rightarrow> pyfloat" where
  "fadd a b = fsub a (fneg b)"

definition fmul :: "pyfloat \<Rightarrow> pyfloat \<Rightarrow> pyfloat" where
  "fmul a b =
     (case (a, b) of
        (Fin x, Fin y) \<Rightarrow> round64 (x * y)
      | _ \<Rightarrow> if a \<in> {NaN, Fin 0} \<or> b \<in> {NaN, Fin 0} then NaN
             else if fle (Fin 0) a = fle (Fin 0) b then PosInf else NegInf)"

text \<open>
  The built-in \<open>sum\<close> on floats, which compensates from Python 3.12 on: \<open>c\<close> collects what
  each addition lost and is added at the end if it is finite and not zero.
\<close>

fun sum_from :: "pyfloat \<Rightarrow> pyfloat \<Rightarrow> pyfloat list \<Rightarrow> pyfloat" where
  "sum_from f c [] = (if c \<noteq> Fin 0 \<and> isfinite c then fadd f c else f)"
| "sum_from f c (x # xs) =
     (let t = fadd f x;
          lost = (if fle (fabs x) (fabs f) then fadd (fsub f t) x else fadd (fsub x t) f)
      in sum_from t (fadd c lost) xs)"

fun py_sum :: "pyfloat list \<Rightarrow> pyfloat" where
  "py_sum [] = Fin 0"
| "py_sum (x # xs) = sum_from x (Fin 0) xs"

section \<open>Accuracy of the rounding\<close>

lemma ilog2_bounds: "0 < n \<Longrightarrow> 2 ^ ilog2 n \<le> n \<and> n < 2 ^ Suc (ilog2 n)"
proof (induction n rule: ilog2.induct)
  case (1 n)
  show ?case
  proof (cases "n < 2")
    case True
    then show ?thesis using "1.prems" by (simp add: ilog2.simps [of n])
  next
    case False
    then have "2 ^ ilog2 (n div 2) \<le> n div 2" "n div 2 < 2 ^ Suc (ilog2 (n div 2))"
      using "1.IH" by auto
    then have "2 ^ Suc (ilog2 (n div 2)) \<le> n" "n < 2 ^ Suc (Suc (ilog2 (n div 2)))"
      unfolding power_Suc by linarith+
    moreover have "ilog2 n = Suc (ilog2 (n div 2))"
      using False by (simp add: ilog2.simps [of n])
    ultimately show ?thesis by (simp only:)
  qed
qed

lemma pow2_pos [simp]: "0 < pow2 e"
  by (simp add: pow2_def)

lemma pow2_nonzero [simp]: "pow2 e \<noteq> 0"
  using pow2_pos [of e] by linarith

lemma pow2_powi: "pow2 e = 2 powi e"
  by (simp add: pow2_def power_int_def field_simps)

lemma pow2_Suc: "pow2 (e + 1) = 2 * pow2 e"
  by (simp add: pow2_powi power_int_add)

lemma pow2_mono: "a \<le> b \<Longrightarrow> pow2 a \<le> pow2 b"
  by (simp add: pow2_powi power_int_increasing)

lemma round_half_even_nearest: "\<bar>of_int (round_half_even q) - q\<bar> \<le> 1 / 2"
proof -
  have "of_int \<lfloor>q\<rfloor> \<le> q" "q < of_int \<lfloor>q\<rfloor> + 1"
    by linarith+
  then show ?thesis by (auto simp: round_half_even_def Let_def)
qed

lemma round_half_even_of_int [simp]: "round_half_even (of_int i) = i"
  by (simp add: round_half_even_def)

text \<open>A finite result is within half a unit in the last place of the exact value.\<close>

lemma round64_nearest:
  assumes "round64 q = Fin v"
  shows "\<bar>v - q\<bar> \<le> pow2 (ulp_exponent q) / 2"
proof (cases "q = 0")
  case True
  then show ?thesis using assms by (simp add: round64_def less_imp_le)
next
  case False
  let ?u = "pow2 (ulp_exponent q)"
  let ?w = "of_int (round_half_even (\<bar>q\<bar> / ?u)) * ?u"
  have v: "v = (if q < 0 then - ?w else ?w)"
    using assms False by (auto simp: round64_def Let_def split: if_splits)
  have "\<bar>of_int (round_half_even (\<bar>q\<bar> / ?u)) - \<bar>q\<bar> / ?u\<bar> * ?u \<le> 1 / 2 * ?u"
    by (intro mult_right_mono round_half_even_nearest) (simp add: less_imp_le)
  also have "\<bar>of_int (round_half_even (\<bar>q\<bar> / ?u)) - \<bar>q\<bar> / ?u\<bar> * ?u = \<bar>?w - \<bar>q\<bar> / ?u * ?u\<bar>"
    by (simp only: abs_mult_pos [OF less_imp_le [OF pow2_pos]] left_diff_distrib)
  also have "\<bar>q\<bar> / ?u * ?u = \<bar>q\<bar>"
    by simp
  finally have "\<bar>?w - \<bar>q\<bar>\<bar> \<le> ?u / 2"
    by simp
  then show ?thesis unfolding v by (auto simp: abs_if split: if_splits)
qed

text \<open>Integers of at most 53 bits are exact.\<close>

lemma exponent_int:
  assumes "1 \<le> i"
  shows "pow2 (exponent (of_int i)) \<le> of_int i" and "0 \<le> exponent (of_int i)"
proof -
  have e: "exponent (of_int i) = int (ilog2 i)"
    using assms by (simp add: exponent_def)
  have "2 ^ ilog2 i \<le> i"
    using assms ilog2_bounds [of i] by simp
  then have "(of_int (2 ^ ilog2 i) :: rat) \<le> of_int i"
    by (simp only: of_int_le_iff)
  then show "pow2 (exponent (of_int i)) \<le> of_int i"
    by (simp add: e pow2_def)
  show "0 \<le> exponent (of_int i)"
    using e by simp
qed

lemma ulp_exponent_int:
  assumes "1 \<le> i" and "i < 2 ^ 53"
  shows "ulp_exponent (of_int i) \<le> 0 \<and> - 52 \<le> ulp_exponent (of_int i)"
proof -
  have "pow2 (exponent (of_int i)) < pow2 53"
    using exponent_int(1) [OF assms(1)] assms(2) by (simp add: pow2_def)
  then have "exponent (of_int i) < 53"
    using pow2_mono [of 53 "exponent (of_int i)"] by linarith
  with exponent_int(2) [OF assms(1)] assms(1) show ?thesis
    by (simp add: ulp_exponent_def)
qed

lemma round64_exact:
  assumes "of_int (round_half_even (\<bar>q\<bar> / pow2 (ulp_exponent q))) * pow2 (ulp_exponent q) = \<bar>q\<bar>"
    and "\<bar>q\<bar> < float_limit"
  shows "round64 q = Fin q"
  unfolding round64_def Let_def assms(1) using assms(2) by (auto simp: abs_if split: if_splits)

lemma round64_int:
  assumes "\<bar>i\<bar> < 2 ^ 53"
  shows "round64 (of_int i) = Fin (of_int i)"
proof (cases "i = 0")
  case True
  then show ?thesis by (simp add: round64_def)
next
  case False
  let ?e = "ulp_exponent (of_int \<bar>i\<bar>)"
  have e: "?e \<le> 0"
    using ulp_exponent_int [of "\<bar>i\<bar>"] False assms by simp
  then have p: "pow2 ?e = 1 / 2 ^ nat (- ?e)"
    by (simp add: pow2_def)
  have q: "\<bar>of_int i\<bar> / pow2 ?e = (of_int (\<bar>i\<bar> * 2 ^ nat (- ?e)) :: rat)"
    unfolding p by simp
  have r: "of_int (round_half_even (\<bar>of_int i\<bar> / pow2 ?e)) * pow2 ?e = (of_int \<bar>i\<bar> :: rat)"
    unfolding q round_half_even_of_int unfolding p by simp
  have u: "ulp_exponent \<bar>of_int i\<bar> = ulp_exponent (of_int i)"
    by (simp add: ulp_exponent_def)
  have "\<bar>i\<bar> < 2 ^ 1024"
    using assms power_increasing [of 53 1024 "2 :: int"] by linarith
  then have "(of_int \<bar>i\<bar> :: rat) < of_int (2 ^ 1024)"
    by (simp only: of_int_less_iff)
  then have "\<bar>of_int i\<bar> < float_limit"
    unfolding float_limit_def by (simp only: of_int_power of_int_numeral of_int_abs)
  then show ?thesis
    using r unfolding of_int_abs u by (intro round64_exact)
qed

text \<open>Sums of integers of at most 53 bits are exact.\<close>

lemma fadd_int:
  assumes "\<bar>a + b\<bar> < 2 ^ 53"
  shows "fadd (Fin (of_int a)) (Fin (of_int b)) = Fin (of_int (a + b))"
  using round64_int [OF assms] by (simp add: fadd_def)

lemma sum_from_int:
  assumes "\<bar>a\<bar> + sum_list (map abs xs) < 2 ^ 53"
  shows "sum_from (Fin (of_int a)) (Fin 0) (map (\<lambda>i. Fin (of_int i)) xs) = Fin (of_int (a + sum_list xs))"
  using assms
proof (induction xs arbitrary: a)
  case (Cons x xs)
  have "0 \<le> sum_list (map abs xs)"
    by (intro sum_list_nonneg) auto
  with Cons.prems have b: "\<bar>a + x\<bar> < 2 ^ 53" "\<bar>a + x\<bar> + sum_list (map abs xs) < 2 ^ 53"
    "\<bar>a - (a + x)\<bar> < 2 ^ 53" "\<bar>x - (a + x)\<bar> < 2 ^ 53"
    by auto
  have t: "fadd (Fin (of_int a)) (Fin (of_int x)) = Fin (of_int (a + x))"
    by (rule fadd_int [OF b(1)])
  have d: "fsub (Fin (of_int a)) (Fin (of_int (a + x))) = Fin (of_int (- x))"
    "fsub (Fin (of_int x)) (Fin (of_int (a + x))) = Fin (of_int (- a))"
    using round64_int [OF b(3)] round64_int [OF b(4)] by simp_all
  have z: "fadd (Fin (of_int (- i))) (Fin (of_int i)) = Fin 0" "fadd (Fin 0) (Fin 0) = Fin 0" for i
    using fadd_int [of "- i" i] fadd_int [of 0 0] by simp_all
  show ?case
    unfolding list.map sum_from.simps Let_def t d z if_cancel using Cons.IH [OF b(2)] by simp
qed simp

lemma py_sum_int:
  assumes "sum_list (map abs xs) < 2 ^ 53"
  shows "py_sum (map (\<lambda>i. Fin (of_int i)) xs) = Fin (of_int (sum_list xs))"
  using assms by (cases xs) (simp_all add: sum_from_int)

section \<open>Evaluation\<close>

text \<open>Rounding of concrete numbers.\<close>

lemma floor_frac: "\<lfloor>numeral a / numeral b :: rat\<rfloor> = numeral a div numeral b"
  using floor_divide_of_int_eq [of "numeral a" "numeral b", where 'a = rat] by simp

lemma ceiling_frac: "\<lceil>numeral a / numeral b :: rat\<rceil> = - (- numeral a div numeral b)"
  unfolding ceiling_def minus_divide_left
  using floor_divide_of_int_eq [of "- numeral a" "numeral b", where 'a = rat] by simp

lemmas rounding = round64_def ulp_exponent_def exponent_def ilog2.simps pow2_def round_half_even_def
  float_limit_def Let_def floor_frac ceiling_frac

end
