(* ===== verification/Gz_Aggregation.thy ===== *)
theory Gz_Aggregation
  imports Gz_Adapter_Model Py_Float
begin

text \<open>
  The bounded alignment of private odometry and contact samples,
  \<open>gazebo/ros_adapter/aggregation.py\<close>: \<open>PrivateTruthAggregator\<close>, which completes one
  ground-truth sample per odometry sample, and \<open>VehicleSupportTracker\<close>, which joins leg
  contacts, odometry and payload support on exact public epochs.

  An argument the code only reads attributes of is a map from attribute names to values.
\<close>

section \<open>Samples\<close>

definition TRUTH_PERIOD_NS :: int where
  "TRUTH_PERIOD_NS = 50000000"

definition COMPLETED_CAPACITY :: nat where
  "COMPLETED_CAPACITY = 20"

record native_odometry =
  no_sim_timestamp_ns :: int
  no_position_xyz :: "pyfloat list"
  no_orientation_xyzw :: "pyfloat list"
  no_linear_velocity_xyz :: "pyfloat list"
  no_angular_velocity_xyz :: "pyfloat list"

type_synonym attrs = "string \<rightharpoonup> pyval"

definition getattr :: "attrs \<Rightarrow> string \<Rightarrow> pyval result" where
  "getattr obj field = (case obj field of Some v \<Rightarrow> Inr v | None \<Rightarrow> Inl AttributeError)"

definition agg_stamp :: "pyval \<Rightarrow> int result" where
  "agg_stamp v =
     (case strict_int v of
        Some i \<Rightarrow> if i \<le> 0 then Inl (AggregationFault ''native timestamp must be a positive integer'')
                 else Inr i
      | None \<Rightarrow> Inl (AggregationFault ''native timestamp must be a positive integer''))"

definition contact_epoch :: "int \<Rightarrow> int" where
  "contact_epoch stamp_ns =
     ((stamp_ns + TRUTH_PERIOD_NS - 1) div TRUTH_PERIOD_NS) * TRUTH_PERIOD_NS"

text \<open>
  The \<open>any\<close> over the components stops at the first that is no finite number; an \<open>int\<close>
  beyond the range of \<open>float\<close> raises \<open>OverflowError\<close> when its turn comes.
\<close>

fun vector_items :: "string \<Rightarrow> pyval list \<Rightarrow> pyfloat list result" where
  "vector_items field [] = Inr []"
| "vector_items field (VInt i # xs) =
     rbind (float_of (VInt i)) (\<lambda>x. rbind (vector_items field xs) (\<lambda>ys. Inr (x # ys)))"
| "vector_items field (VFloat f # xs) =
     (if isfinite f then rbind (vector_items field xs) (\<lambda>ys. Inr (f # ys))
      else Inl (AggregationFault (field @ '' must contain finite numbers'')))"
| "vector_items field (_ # xs) = Inl (AggregationFault (field @ '' must contain finite numbers''))"

definition agg_vector :: "pyval \<Rightarrow> nat \<Rightarrow> string \<Rightarrow> pyfloat list result" where
  "agg_vector v n field =
     (case v of
        VTuple xs \<Rightarrow>
          if length xs \<noteq> n then
            Inl (AggregationFault (field @ '' must be an immutable '' @ str_int (int n) @ ''-tuple''))
          else vector_items field xs
      | _ \<Rightarrow> Inl (AggregationFault (field @ '' must be an immutable '' @ str_int (int n) @ ''-tuple'')))"

definition attr_vector :: "attrs \<Rightarrow> string \<Rightarrow> nat \<Rightarrow> pyfloat list result" where
  "attr_vector obj field n = rbind (getattr obj field) (\<lambda>v. agg_vector v n field)"

definition agg_odometry_fields :: "attrs \<Rightarrow> native_odometry result" where
  "agg_odometry_fields obj =
     rbind (rbind (getattr obj ''sim_timestamp_ns'') agg_stamp) (\<lambda>ts.
     rbind (attr_vector obj ''position_xyz'' 3) (\<lambda>p.
     rbind (attr_vector obj ''orientation_xyzw'' 4) (\<lambda>q.
     rbind (attr_vector obj ''linear_velocity_xyz'' 3) (\<lambda>l.
     rbind (attr_vector obj ''angular_velocity_xyz'' 3) (\<lambda>a.
       Inr \<lparr>no_sim_timestamp_ns = ts, no_position_xyz = p, no_orientation_xyzw = q,
            no_linear_velocity_xyz = l, no_angular_velocity_xyz = a\<rparr>)))))"

definition agg_odometry :: "attrs \<Rightarrow> native_odometry result" where
  "agg_odometry obj =
     (case agg_odometry_fields obj of
        Inl AttributeError \<Rightarrow> Inl (AggregationFault ''odometry sample is incomplete'')
      | r \<Rightarrow> r)"

section \<open>PrivateTruthAggregator\<close>

record truth_aggregator =
  ta_odometry :: "native_odometry option"
  ta_last_odometry_stamp :: "int option"
  ta_contact_epochs :: "(int, bool) dict"
  ta_last_contact_stamp :: "int option"
  ta_completed :: "native_ground_truth list"

definition PrivateTruthAggregator :: truth_aggregator where
  "PrivateTruthAggregator =
     \<lparr>ta_odometry = None, ta_last_odometry_stamp = None, ta_contact_epochs = [],
      ta_last_contact_stamp = None, ta_completed = []\<rparr>"

text \<open>\<open>d[epoch] = d.get(epoch, False) or state\<close>.\<close>

definition or_into :: "int \<Rightarrow> bool \<Rightarrow> (int, bool) dict \<Rightarrow> (int, bool) dict" where
  "or_into epoch state d =
     AList.update epoch ((case map_of d epoch of None \<Rightarrow> False | Some b \<Rightarrow> b) \<or> state) d"

text \<open>\<open>{epoch: state for epoch, state in d.items() if epoch > stamp}\<close>.\<close>

definition epochs_after :: "int \<Rightarrow> (int, bool) dict \<Rightarrow> (int, bool) dict" where
  "epochs_after stamp d = filter (\<lambda>(epoch, _). stamp < epoch) d"

definition completed_truth :: "native_odometry \<Rightarrow> bool \<Rightarrow> native_ground_truth" where
  "completed_truth odo in_contact =
     \<lparr>ng_sim_timestamp_ns = VInt (no_sim_timestamp_ns odo),
      ng_position_xyz = VTuple (map VFloat (no_position_xyz odo)),
      ng_orientation_xyzw = VTuple (map VFloat (no_orientation_xyzw odo)),
      ng_linear_velocity_xyz = VTuple (map VFloat (no_linear_velocity_xyz odo)),
      ng_angular_velocity_xyz = VTuple (map VFloat (no_angular_velocity_xyz odo)),
      ng_in_contact = VBool in_contact\<rparr>"

definition require_completion_capacity :: "truth_aggregator \<Rightarrow> unit result" where
  "require_completion_capacity s =
     guard (length (ta_completed s) = COMPLETED_CAPACITY)
       (AggregationFault ''completed ground truth lookahead is full'')"

definition truth_complete ::
    "native_odometry \<Rightarrow> bool \<Rightarrow> truth_aggregator \<Rightarrow>
     native_ground_truth option result \<times> truth_aggregator" where
  "truth_complete odo in_contact s =
     (case require_completion_capacity s of
        Inl e \<Rightarrow> (Inl e, s)
      | Inr _ \<Rightarrow>
          (let g = completed_truth odo in_contact
           in (Inr (Some g),
               s\<lparr>ta_contact_epochs := epochs_after (no_sim_timestamp_ns odo) (ta_contact_epochs s),
                 ta_completed := ta_completed s @ [g]\<rparr>)))"

definition truth_combine ::
    "truth_aggregator \<Rightarrow> native_ground_truth option result \<times> truth_aggregator" where
  "truth_combine s =
     (case ta_odometry s of
        None \<Rightarrow> (Inr None, s)
      | Some odo \<Rightarrow>
          (let stamp = no_sim_timestamp_ns odo in
           case map_of (ta_contact_epochs s) stamp of
             Some b \<Rightarrow> truth_complete odo b (s\<lparr>ta_odometry := None\<rparr>)
           | None \<Rightarrow>
               if (case ta_last_contact_stamp s of
                     None \<Rightarrow> False | Some l \<Rightarrow> stamp < contact_epoch l)
               then truth_complete odo False (s\<lparr>ta_odometry := None\<rparr>)
               else (Inr None, s)))"

definition truth_accept_odometry ::
    "attrs \<Rightarrow> truth_aggregator \<Rightarrow> native_ground_truth option result \<times> truth_aggregator" where
  "truth_accept_odometry obj s =
     (case rbind (require_completion_capacity s) (\<lambda>_. agg_odometry obj) of
        Inl e \<Rightarrow> (Inl e, s)
      | Inr odo \<Rightarrow>
          if (case ta_last_odometry_stamp s of
                None \<Rightarrow> False | Some l \<Rightarrow> no_sim_timestamp_ns odo \<le> l)
          then (Inl (AggregationFault ''odometry timestamps must advance''), s)
          else
            (let s1 = s\<lparr>ta_last_odometry_stamp := Some (no_sim_timestamp_ns odo),
                        ta_odometry := Some odo\<rparr>
             in case ta_odometry s of
                  Some previous \<Rightarrow> truth_complete previous False s1
                | None \<Rightarrow> truth_combine s1))"

definition truth_accept_contact ::
    "pyval \<Rightarrow> pyval \<Rightarrow> truth_aggregator \<Rightarrow>
     native_ground_truth option result \<times> truth_aggregator" where
  "truth_accept_contact sim_timestamp_ns in_contact s =
     (case strict_bool in_contact of
        None \<Rightarrow> (Inl (AggregationFault ''contact state must be a boolean''), s)
      | Some b \<Rightarrow>
        (case agg_stamp sim_timestamp_ns of
           Inl e \<Rightarrow> (Inl e, s)
         | Inr stamp \<Rightarrow>
             if (case ta_last_contact_stamp s of None \<Rightarrow> False | Some l \<Rightarrow> stamp \<le> l)
             then (Inl (AggregationFault ''contact timestamps must advance''), s)
             else truth_combine
               (s\<lparr>ta_last_contact_stamp := Some stamp,
                  ta_contact_epochs := or_into (contact_epoch stamp) b (ta_contact_epochs s)\<rparr>)))"

definition truth_take ::
    "pyval \<Rightarrow> truth_aggregator \<Rightarrow> native_ground_truth option result \<times> truth_aggregator" where
  "truth_take sim_timestamp_ns s =
     (case agg_stamp sim_timestamp_ns of
        Inl e \<Rightarrow> (Inl e, s)
      | Inr stamp \<Rightarrow>
          (case ta_completed s of
             [] \<Rightarrow> (Inr None, s)
           | g # rest \<Rightarrow>
               if ng_sim_timestamp_ns g \<noteq> VInt stamp
               then (Inl (AggregationFault ''ground truth does not align with the camera pair''), s)
               else (Inr (Some g), s\<lparr>ta_completed := rest\<rparr>)))"

datatype truth_op = TruthOdometry attrs | TruthContact pyval pyval | TruthTake pyval

fun truth_step ::
    "truth_op \<Rightarrow> truth_aggregator \<Rightarrow> native_ground_truth option result \<times> truth_aggregator" where
  "truth_step (TruthOdometry obj) s = truth_accept_odometry obj s"
| "truth_step (TruthContact v b) s = truth_accept_contact v b s"
| "truth_step (TruthTake v) s = truth_take v s"

section \<open>VehicleSupportTracker\<close>

record support_tracker =
  st_payload_ids :: "int list"
  st_interval_ns :: int
  st_leg_epochs :: "(int, bool) dict"
  st_last_leg_stamp :: "int option"
  st_last_odometry_stamp :: "int option"
  st_odometry_epochs :: "(int, native_odometry) dict"
  st_payload_epochs :: "(int, (int, bool) dict) dict"
  st_last_payload_stamps :: "(int, int) dict"

definition VehicleSupportTracker :: "int list \<Rightarrow> pyval \<Rightarrow> support_tracker result" where
  "VehicleSupportTracker payload_ids interval_ns =
     (if payload_ids = [] \<or> \<not> distinct payload_ids then
        Inl (AggregationFault ''payload support IDs must be unique and nonempty'')
      else case strict_int interval_ns of
        None \<Rightarrow> Inl (AggregationFault ''support interval must be a positive integer'')
      | Some i \<Rightarrow>
          if i \<le> 0 then Inl (AggregationFault ''support interval must be a positive integer'')
          else Inr \<lparr>st_payload_ids = payload_ids, st_interval_ns = i, st_leg_epochs = [],
                    st_last_leg_stamp = None, st_last_odometry_stamp = None,
                    st_odometry_epochs = [], st_payload_epochs = [],
                    st_last_payload_stamps = []\<rparr>)"

definition support_epoch :: "int \<Rightarrow> int \<Rightarrow> int" where
  "support_epoch i stamp_ns = ((stamp_ns + i - 1) div i) * i"

text \<open>
  One pass of the loop of \<open>_drain\<close>: \<open>None\<close> is a \<open>break\<close>, otherwise the leg state of the
  epoch.
\<close>

definition drain_leg :: "int \<Rightarrow> support_tracker \<Rightarrow> bool option" where
  "drain_leg epoch s =
     (case map_of (st_leg_epochs s) epoch of
        Some b \<Rightarrow> Some b
      | None \<Rightarrow>
          if \<not> (case st_last_leg_stamp s of
                 None \<Rightarrow> False | Some l \<Rightarrow> epoch < support_epoch (st_interval_ns s) l)
             \<and> \<not> (case st_last_odometry_stamp s of None \<Rightarrow> False | Some l \<Rightarrow> epoch < l)
          then None else Some False)"

fun drain_loop ::
    "int list \<Rightarrow> support_tracker \<Rightarrow> (native_odometry \<times> bool) list \<times> support_tracker" where
  "drain_loop [] s = ([], s)"
| "drain_loop (epoch # epochs) s =
     (case (map_of (st_payload_epochs s) epoch, map_of (st_odometry_epochs s) epoch) of
        (Some payloads, Some odo) \<Rightarrow>
          if set (dict_keys payloads) \<noteq> set (st_payload_ids s) then ([], s)
          else (case drain_leg epoch s of
                  None \<Rightarrow> ([], s)
                | Some leg_contact \<Rightarrow>
                    (let s1 = s\<lparr>st_odometry_epochs := AList.delete epoch (st_odometry_epochs s),
                                st_payload_epochs := AList.delete epoch (st_payload_epochs s),
                                st_leg_epochs := epochs_after epoch (st_leg_epochs s)\<rparr>;
                         (rest, s2) = drain_loop epochs s1
                     in ((odo, leg_contact \<or> (\<exists>b \<in> set (map snd payloads). b)) # rest, s2)))
      | _ \<Rightarrow> ([], s))"

definition support_drain ::
    "support_tracker \<Rightarrow> (native_odometry \<times> bool) list result \<times> support_tracker" where
  "support_drain s =
     (let (output, s1) = drain_loop (sort (dict_keys (st_payload_epochs s))) s in
      if COMPLETED_CAPACITY < length (st_payload_epochs s1)
         \<or> COMPLETED_CAPACITY < length (st_odometry_epochs s1)
      then (Inl (AggregationFault ''payload support lookahead is full''), s1)
      else (Inr output, s1))"

definition support_accept_leg ::
    "pyval \<Rightarrow> pyval \<Rightarrow> support_tracker \<Rightarrow>
     (native_odometry \<times> bool) list result \<times> support_tracker" where
  "support_accept_leg sim_timestamp_ns in_contact s =
     (case agg_stamp sim_timestamp_ns of
        Inl e \<Rightarrow> (Inl e, s)
      | Inr stamp \<Rightarrow>
        (case strict_bool in_contact of
           None \<Rightarrow> (Inl (AggregationFault ''leg contact state must be a boolean''), s)
         | Some b \<Rightarrow>
             if (case st_last_leg_stamp s of None \<Rightarrow> False | Some l \<Rightarrow> stamp \<le> l)
             then (Inl (AggregationFault ''leg contact timestamps must advance''), s)
             else support_drain
               (s\<lparr>st_last_leg_stamp := Some stamp,
                  st_leg_epochs :=
                    or_into (support_epoch (st_interval_ns s) stamp) b (st_leg_epochs s)\<rparr>)))"

definition support_accept_odometry ::
    "attrs \<Rightarrow> support_tracker \<Rightarrow> (native_odometry \<times> bool) list result \<times> support_tracker" where
  "support_accept_odometry obj s =
     (case agg_odometry obj of
        Inl e \<Rightarrow> (Inl e, s)
      | Inr odo \<Rightarrow>
          (let stamp = no_sim_timestamp_ns odo in
           if stamp mod st_interval_ns s \<noteq> 0 then
             (Inl (AggregationFault ''support odometry must align with a public epoch''), s)
           else if (case st_last_odometry_stamp s of None \<Rightarrow> False | Some l \<Rightarrow> stamp \<le> l) then
             (Inl (AggregationFault ''support odometry timestamps must advance''), s)
           else support_drain
             (s\<lparr>st_last_odometry_stamp := Some stamp,
                st_odometry_epochs := AList.update stamp odo (st_odometry_epochs s)\<rparr>)))"

definition payload_support_fields :: "attrs \<Rightarrow> (pyval \<times> pyval \<times> pyval \<times> pyval) result" where
  "payload_support_fields obj =
     (case rbind (getattr obj ''aruco_id'') (\<lambda>marker.
           rbind (getattr obj ''sim_timestamp_ns'') (\<lambda>stamp.
           rbind (getattr obj ''grounded'') (\<lambda>grounded.
           rbind (getattr obj ''attached'') (\<lambda>attached.
             Inr (marker, stamp, grounded, attached))))) of
        Inl _ \<Rightarrow> Inl (AggregationFault ''payload support state is incomplete'')
      | Inr x \<Rightarrow> Inr x)"

text \<open>The checks of \<open>accept_payload\<close> up to its first assignment.\<close>

definition payload_support_check :: "attrs \<Rightarrow> support_tracker \<Rightarrow> (int \<times> int \<times> bool) result" where
  "payload_support_check obj s =
     rbind (payload_support_fields obj) (\<lambda>(marker, stamp, grounded, attached).
       case strict_int marker of
         None \<Rightarrow> Inl (AggregationFault ''payload support ID is unknown'')
       | Some m \<Rightarrow>
           if m \<notin> set (st_payload_ids s) then
             Inl (AggregationFault ''payload support ID is unknown'')
           else rbind (agg_stamp stamp) (\<lambda>t.
             case (strict_bool grounded, strict_bool attached) of
               (Some g, Some a) \<Rightarrow>
                 (case map_of (st_last_payload_stamps s) m of
                    None \<Rightarrow>
                      if t \<noteq> st_interval_ns s then
                        Inl (AggregationFault
                          ''first payload support must match the first public epoch'')
                      else Inr (m, t, g \<and> a)
                  | Some previous \<Rightarrow>
                      if t - previous \<noteq> st_interval_ns s then
                        Inl (AggregationFault
                          ''payload support timestamps must advance by one public epoch'')
                      else Inr (m, t, g \<and> a))
             | _ \<Rightarrow> Inl (AggregationFault ''payload support flags must be boolean'')))"

text \<open>\<open>d.setdefault(stamp, {})[marker] = supported\<close>.\<close>

definition set_payload ::
    "int \<Rightarrow> int \<Rightarrow> bool \<Rightarrow> (int, (int, bool) dict) dict \<Rightarrow> (int, (int, bool) dict) dict" where
  "set_payload stamp marker supported d =
     AList.update stamp
       (AList.update marker supported (case map_of d stamp of None \<Rightarrow> [] | Some x \<Rightarrow> x)) d"

definition support_accept_payload ::
    "attrs \<Rightarrow> support_tracker \<Rightarrow> (native_odometry \<times> bool) list result \<times> support_tracker" where
  "support_accept_payload obj s =
     (case payload_support_check obj s of
        Inl e \<Rightarrow> (Inl e, s)
      | Inr (marker, stamp, supported) \<Rightarrow>
          support_drain
            (s\<lparr>st_last_payload_stamps := AList.update marker stamp (st_last_payload_stamps s),
               st_payload_epochs := set_payload stamp marker supported (st_payload_epochs s)\<rparr>))"

datatype support_op = SupportLeg pyval pyval | SupportOdometry attrs | SupportPayload attrs

fun support_step ::
    "support_op \<Rightarrow> support_tracker \<Rightarrow> (native_odometry \<times> bool) list result \<times> support_tracker" where
  "support_step (SupportLeg v b) s = support_accept_leg v b s"
| "support_step (SupportOdometry obj) s = support_accept_odometry obj s"
| "support_step (SupportPayload obj) s = support_accept_payload obj s"

end
