(* ===== verification/Gz_Truth_Inv.thy ===== *)
theory Gz_Truth_Inv
  imports Gz_Aggregation
begin

text \<open>
  Correctness of \<open>PrivateTruthAggregator\<close>: the contact flag of a completed sample is the
  disjunction of the contacts recorded for its interval by the time it is completed, samples are
  completed and taken in the order of their timestamps, and the lookahead is bounded.
\<close>

section \<open>Epoch dictionaries\<close>

text \<open>
  \<open>or_summary ep cs c d\<close>: for the epochs after \<open>c\<close>, the dictionary \<open>d\<close> holds the
  disjunction of the contact states \<open>cs\<close> recorded for that epoch, and no entry when none
  was recorded. Both aggregators keep their contacts this way.
\<close>

definition contact_in :: "(int \<Rightarrow> int) \<Rightarrow> (int \<times> bool) list \<Rightarrow> int \<Rightarrow> bool" where
  "contact_in ep cs e \<longleftrightarrow> (\<exists>t. (t, True) \<in> set cs \<and> ep t = e)"

definition or_summary :: "(int \<Rightarrow> int) \<Rightarrow> (int \<times> bool) list \<Rightarrow> int \<Rightarrow> (int, bool) dict \<Rightarrow> bool" where
  "or_summary ep cs c d \<longleftrightarrow>
     (\<forall>e > c. map_of d e = (if \<exists>t b. (t, b) \<in> set cs \<and> ep t = e
                           then Some (contact_in ep cs e) else None))"

lemma or_summary_Nil [simp]: "or_summary ep [] c []"
  by (simp add: or_summary_def)

lemma or_summary_lookup:
  assumes "or_summary ep cs c d" and "c < e"
  shows "(case map_of d e of None \<Rightarrow> False | Some b \<Rightarrow> b) = contact_in ep cs e"
  using assms by (auto simp: or_summary_def contact_in_def)

lemma or_summary_or_into:
  assumes "or_summary ep cs c d"
  shows "or_summary ep (cs @ [(t, b)]) c (or_into (ep t) b d)"
  unfolding or_summary_def
proof (intro allI impI)
  fix e assume e: "c < e"
  show "map_of (or_into (ep t) b d) e =
      (if \<exists>u b'. (u, b') \<in> set (cs @ [(t, b)]) \<and> ep u = e
       then Some (contact_in ep (cs @ [(t, b)]) e) else None)"
  proof (cases "ep t = e")
    case True
    then show ?thesis
      using or_summary_lookup [OF assms e]
      by (auto simp: or_into_def update_conv' contact_in_def)
  next
    case False
    then show ?thesis
      using assms e by (auto simp: or_into_def update_conv' contact_in_def or_summary_def)
  qed
qed

lemma or_summary_after:
  "or_summary ep cs c d \<Longrightarrow> c \<le> c' \<Longrightarrow> or_summary ep cs c' (epochs_after c' d)"
  by (auto simp: or_summary_def epochs_after_def map_of_filter_key)

lemma or_summary_weaken: "or_summary ep cs c d \<Longrightarrow> c \<le> c' \<Longrightarrow> or_summary ep cs c' d"
  by (auto simp: or_summary_def)

lemma contact_epoch_interval:
  "contact_epoch u = k * TRUTH_PERIOD_NS \<longleftrightarrow>
     (k - 1) * TRUTH_PERIOD_NS < u \<and> u \<le> k * TRUTH_PERIOD_NS"
  unfolding contact_epoch_def by (rule round_up_interval) (simp add: TRUTH_PERIOD_NS_def)

lemma contact_epoch_mono: "t \<le> u \<Longrightarrow> contact_epoch t \<le> contact_epoch u"
  unfolding contact_epoch_def TRUTH_PERIOD_NS_def by (simp add: zdiv_mono1)

text \<open>The last contact timestamp is the largest recorded one.\<close>

definition last_recorded :: "(int \<times> bool) list \<Rightarrow> int option \<Rightarrow> bool" where
  "last_recorded cs stamp =
     (case stamp of
        None \<Rightarrow> cs = []
      | Some l \<Rightarrow> l \<in> fst ` set cs \<and> (\<forall>t \<in> fst ` set cs. t \<le> l))"

section \<open>The aggregator's invariant\<close>

text \<open>
  The contacts a run records: the valid ones whose timestamp advances. A contact is
  recorded even when completing the pending sample then raises.
\<close>

fun truth_recorded :: "truth_op \<Rightarrow> truth_aggregator \<Rightarrow> (int \<times> bool) list" where
  "truth_recorded (TruthContact (VInt t) (VBool b)) s =
     (if 0 < t \<and> (case ta_last_contact_stamp s of None \<Rightarrow> True | Some l \<Rightarrow> l < t)
      then [(t, b)] else [])"
| "truth_recorded _ s = []"

fun truth_contacts :: "truth_op list \<Rightarrow> truth_aggregator \<Rightarrow> (int \<times> bool) list" where
  "truth_contacts [] s = []"
| "truth_contacts (x # xs) s = truth_recorded x s @ truth_contacts xs (snd (truth_step x s))"

text \<open>
  \<open>truth_inv c cs s\<close>: every sample up to \<open>c\<close> is closed; a pending sample is later than
  \<open>c\<close> and than the epoch of every recorded contact.
\<close>

definition truth_inv :: "int \<Rightarrow> (int \<times> bool) list \<Rightarrow> truth_aggregator \<Rightarrow> bool" where
  "truth_inv c cs s \<longleftrightarrow>
     or_summary contact_epoch cs c (ta_contact_epochs s)
     \<and> (case ta_last_odometry_stamp s of None \<Rightarrow> c = 0 | Some l \<Rightarrow> c \<le> l)
     \<and> (\<forall>odo. ta_odometry s = Some odo \<longrightarrow>
          c < no_sim_timestamp_ns odo
          \<and> ta_last_odometry_stamp s = Some (no_sim_timestamp_ns odo)
          \<and> (\<forall>t \<in> fst ` set cs. contact_epoch t < no_sim_timestamp_ns odo))
     \<and> last_recorded cs (ta_last_contact_stamp s)
     \<and> length (ta_completed s) \<le> COMPLETED_CAPACITY"

lemma agg_stamp_eq_Inr [simp]: "agg_stamp v = Inr i \<longleftrightarrow> v = VInt i \<and> 0 < i"
  by (cases v) (auto simp: agg_stamp_def)

lemma agg_odometry_pos: "agg_odometry obj = Inr odo \<Longrightarrow> 0 < no_sim_timestamp_ns odo"
  by (auto simp: agg_odometry_def agg_odometry_fields_def split: sum.splits exn.splits)

text \<open>
  What completing a sample does: it fails on a full queue, or appends the sample and closes
  its epoch.
\<close>

lemma truth_complete_cases:
  assumes "truth_complete odo b s = (r, s')"
  obtains (full) e where "r = Inl e" "s' = s" "length (ta_completed s) = COMPLETED_CAPACITY"
  | (appended) "r = Inr (Some (completed_truth odo b))"
      "length (ta_completed s) \<noteq> COMPLETED_CAPACITY"
      "s' = s\<lparr>ta_contact_epochs := epochs_after (no_sim_timestamp_ns odo) (ta_contact_epochs s),
              ta_completed := ta_completed s @ [completed_truth odo b]\<rparr>"
  using assms
  by (auto simp: truth_complete_def require_completion_capacity_def guard_def Let_def
      split: if_splits)

text \<open>
  Completing sample \<open>odo\<close> after \<open>c\<close>, with the flag the contacts give, keeps the
  invariant; \<open>pending\<close> is the later sample that may already be stored.
\<close>

lemma truth_complete_inv:
  assumes sum: "or_summary contact_epoch cs c (ta_contact_epochs s)"
    and c: "c < no_sim_timestamp_ns odo" and b: "b = contact_in contact_epoch cs (no_sim_timestamp_ns odo)"
    and last_odo: "ta_last_odometry_stamp s = Some l" "no_sim_timestamp_ns odo \<le> l"
    and rec: "last_recorded cs (ta_last_contact_stamp s)"
    and len: "length (ta_completed s) \<le> COMPLETED_CAPACITY"
    and res: "truth_complete odo b (s\<lparr>ta_odometry := None\<rparr>) = (r, s')"
  shows "\<exists>c'. truth_inv c' cs s'"
    and "r = Inr (Some g) \<Longrightarrow> g = completed_truth odo (contact_in contact_epoch cs (no_sim_timestamp_ns odo))"
proof -
  show "\<exists>c'. truth_inv c' cs s'"
    using res
  proof (cases rule: truth_complete_cases)
    case full
    then show ?thesis
      using sum c last_odo rec len by (intro exI [of _ c]) (simp add: truth_inv_def)
  next
    case appended
    then show ?thesis
      using sum c last_odo rec len
      by (intro exI [of _ "no_sim_timestamp_ns odo"]) (simp add: truth_inv_def or_summary_after)
  qed
  show "r = Inr (Some g) \<Longrightarrow> g = completed_truth odo (contact_in contact_epoch cs (no_sim_timestamp_ns odo))"
    using res b by (cases rule: truth_complete_cases) auto
qed

text \<open>
  The state in which \<open>_combine\<close> runs: like the invariant, but the pending sample may have
  a recorded contact already.
\<close>

definition truth_ready :: "int \<Rightarrow> (int \<times> bool) list \<Rightarrow> truth_aggregator \<Rightarrow> bool" where
  "truth_ready c cs s \<longleftrightarrow>
     or_summary contact_epoch cs c (ta_contact_epochs s)
     \<and> (case ta_last_odometry_stamp s of None \<Rightarrow> c = 0 | Some l \<Rightarrow> c \<le> l)
     \<and> (\<forall>odo. ta_odometry s = Some odo \<longrightarrow>
          c < no_sim_timestamp_ns odo
          \<and> ta_last_odometry_stamp s = Some (no_sim_timestamp_ns odo))
     \<and> last_recorded cs (ta_last_contact_stamp s)
     \<and> length (ta_completed s) \<le> COMPLETED_CAPACITY"

lemma truth_inv_ready: "truth_inv c cs s \<Longrightarrow> truth_ready c cs s"
  by (simp add: truth_inv_def truth_ready_def)

lemma truth_combine_inv:
  assumes ready: "truth_ready c cs s" and res: "truth_combine s = (r, s')"
  shows "\<exists>c'. truth_inv c' cs s'"
    and "r = Inr (Some g) \<Longrightarrow> \<exists>odo. g = completed_truth odo
           (contact_in contact_epoch cs (no_sim_timestamp_ns odo))"
proof -
  have "(\<exists>c'. truth_inv c' cs s') \<and> (r = Inr (Some g) \<longrightarrow> (\<exists>odo. g = completed_truth odo
           (contact_in contact_epoch cs (no_sim_timestamp_ns odo))))"
  proof (cases "ta_odometry s")
    case None
    then show ?thesis
      using ready res by (auto simp: truth_combine_def truth_ready_def truth_inv_def)
  next
    case (Some odo)
    let ?t = "no_sim_timestamp_ns odo"
    have sum: "or_summary contact_epoch cs c (ta_contact_epochs s)" and c: "c < ?t"
      and last_odo: "ta_last_odometry_stamp s = Some ?t"
      and rec: "last_recorded cs (ta_last_contact_stamp s)"
      and len: "length (ta_completed s) \<le> COMPLETED_CAPACITY"
      using ready Some by (auto simp: truth_ready_def)
    note flag = or_summary_lookup [OF sum c]
    have "r = Inr None \<and> s' = s \<and> map_of (ta_contact_epochs s) ?t = None
        \<and> (\<forall>l. ta_last_contact_stamp s = Some l \<longrightarrow> contact_epoch l \<le> ?t)
      \<or> truth_complete odo (case map_of (ta_contact_epochs s) ?t of None \<Rightarrow> False | Some b \<Rightarrow> b)
            (s\<lparr>ta_odometry := None\<rparr>) = (r, s')"
      using res Some by (auto simp: truth_combine_def Let_def split: option.splits if_splits)
    then consider (wait) "r = Inr None" "s' = s" "map_of (ta_contact_epochs s) ?t = None"
        "\<And>l. ta_last_contact_stamp s = Some l \<Longrightarrow> contact_epoch l \<le> ?t"
      | (close) b where "truth_complete odo b (s\<lparr>ta_odometry := None\<rparr>) = (r, s')"
          "b = contact_in contact_epoch cs ?t"
      unfolding flag by metis
    then show ?thesis
    proof cases
      case wait
      have "contact_epoch t < ?t" if mem: "t \<in> fst ` set cs" for t
      proof -
        have "contact_epoch t \<noteq> ?t"
          using sum c wait(3) mem by (force simp: or_summary_def split: if_splits)
        moreover obtain l where "ta_last_contact_stamp s = Some l" "t \<le> l"
          using rec mem by (auto simp: last_recorded_def split: option.splits)
        ultimately show ?thesis
          using wait(4) contact_epoch_mono [of t l] by fastforce
      qed
      then show ?thesis
        using ready Some wait(1,2) by (auto simp: truth_inv_def truth_ready_def)
    next
      case close
      then show ?thesis
        using truth_complete_inv [OF sum c close(2) last_odo order_refl rec len close(1)] by blast
    qed
  qed
  then show "\<exists>c'. truth_inv c' cs s'"
    and "r = Inr (Some g) \<Longrightarrow> \<exists>odo. g = completed_truth odo
           (contact_in contact_epoch cs (no_sim_timestamp_ns odo))"
    by blast+
qed

lemma truth_contact_step:
  assumes inv: "truth_inv c cs s" and res: "truth_accept_contact v w s = (r, s')"
  shows "\<exists>c'. truth_inv c' (cs @ truth_recorded (TruthContact v w) s) s'"
    and "r = Inr (Some g) \<Longrightarrow> \<exists>odo. g = completed_truth odo
      (contact_in contact_epoch (cs @ truth_recorded (TruthContact v w) s) (no_sim_timestamp_ns odo))"
proof -
  consider (rejected) e where "r = Inl e" "s' = s" "truth_recorded (TruthContact v w) s = []"
    | (recorded) t b where "v = VInt t" "w = VBool b"
        "truth_recorded (TruthContact v w) s = [(t, b)]"
        "\<And>l. ta_last_contact_stamp s = Some l \<Longrightarrow> l < t"
        "truth_combine (s\<lparr>ta_last_contact_stamp := Some t,
           ta_contact_epochs := or_into (contact_epoch t) b (ta_contact_epochs s)\<rparr>) = (r, s')"
    using res
    by (cases v; cases w)
      (auto simp: truth_accept_contact_def agg_stamp_def split: option.splits if_splits)
  then have "(\<exists>c'. truth_inv c' (cs @ truth_recorded (TruthContact v w) s) s')
    \<and> (r = Inr (Some g) \<longrightarrow> (\<exists>odo. g = completed_truth odo
      (contact_in contact_epoch (cs @ truth_recorded (TruthContact v w) s) (no_sim_timestamp_ns odo))))"
  proof cases
    case rejected
    then show ?thesis using inv by auto
  next
    case recorded
    let ?s = "s\<lparr>ta_last_contact_stamp := Some t,
           ta_contact_epochs := or_into (contact_epoch t) b (ta_contact_epochs s)\<rparr>"
    have "last_recorded (cs @ [(t, b)]) (Some t)"
      using inv recorded(4)
      by (fastforce simp: truth_inv_def last_recorded_def split: option.splits)
    then have "truth_ready c (cs @ [(t, b)]) ?s"
      using inv by (simp add: truth_inv_def truth_ready_def or_summary_or_into)
    from truth_combine_inv [OF this recorded(5)] show ?thesis
      unfolding recorded(3) by blast
  qed
  then show "\<exists>c'. truth_inv c' (cs @ truth_recorded (TruthContact v w) s) s'"
    and "r = Inr (Some g) \<Longrightarrow> \<exists>odo. g = completed_truth odo
      (contact_in contact_epoch (cs @ truth_recorded (TruthContact v w) s) (no_sim_timestamp_ns odo))"
    by blast+
qed

lemma truth_odometry_step:
  assumes inv: "truth_inv c cs s" and res: "truth_accept_odometry obj s = (r, s')"
  shows "\<exists>c'. truth_inv c' cs s'"
    and "r = Inr (Some g) \<Longrightarrow> \<exists>odo. g = completed_truth odo
      (contact_in contact_epoch cs (no_sim_timestamp_ns odo))"
proof -
  consider (rejected) e where "r = Inl e" "s' = s"
    | (stored) odo where "agg_odometry obj = Inr odo"
        "length (ta_completed s) \<noteq> COMPLETED_CAPACITY"
        "\<And>l. ta_last_odometry_stamp s = Some l \<Longrightarrow> l < no_sim_timestamp_ns odo"
        "(case ta_odometry s of
            Some previous \<Rightarrow> truth_complete previous False
              (s\<lparr>ta_last_odometry_stamp := Some (no_sim_timestamp_ns odo), ta_odometry := Some odo\<rparr>)
          | None \<Rightarrow> truth_combine
              (s\<lparr>ta_last_odometry_stamp := Some (no_sim_timestamp_ns odo), ta_odometry := Some odo\<rparr>))
         = (r, s')"
    using res
    by (auto simp: truth_accept_odometry_def require_completion_capacity_def guard_def Let_def
        split: if_splits sum.splits option.splits)
  then have "(\<exists>c'. truth_inv c' cs s') \<and> (r = Inr (Some g) \<longrightarrow> (\<exists>odo. g = completed_truth odo
      (contact_in contact_epoch cs (no_sim_timestamp_ns odo))))"
  proof cases
    case rejected
    then show ?thesis using inv by auto
  next
    case stored
    let ?t = "no_sim_timestamp_ns odo"
    let ?s = "s\<lparr>ta_last_odometry_stamp := Some ?t, ta_odometry := Some odo\<rparr>"
    have sum: "or_summary contact_epoch cs c (ta_contact_epochs s)"
      and c: "case ta_last_odometry_stamp s of None \<Rightarrow> c = 0 | Some l \<Rightarrow> c \<le> l"
      and rec: "last_recorded cs (ta_last_contact_stamp s)"
      and len: "length (ta_completed s) \<le> COMPLETED_CAPACITY"
      using inv by (auto simp: truth_inv_def)
    have t: "c < ?t"
      using c stored(3) agg_odometry_pos [OF stored(1)] by (auto split: option.splits)
    show ?thesis
    proof (cases "ta_odometry s")
      case None
      have "truth_ready c cs ?s"
        using sum rec len t by (simp add: truth_ready_def)
      moreover have "truth_combine ?s = (r, s')"
        using stored(4) None by simp
      ultimately show ?thesis
        using truth_combine_inv by blast
    next
      case (Some previous)
      let ?p = "no_sim_timestamp_ns previous"
      have prev: "c < ?p" "?p < ?t" "\<And>t. t \<in> fst ` set cs \<Longrightarrow> contact_epoch t < ?p"
        using inv Some stored(3) by (auto simp: truth_inv_def)
      have flag: "contact_in contact_epoch cs ?p = False"
        using prev(3) by (force simp: contact_in_def)
      have "truth_complete previous False ?s = (r, s')"
        using stored(4) Some by simp
      then show ?thesis
      proof (cases rule: truth_complete_cases)
        case full
        then show ?thesis using stored(2) by simp
      next
        case appended
        have "or_summary contact_epoch cs ?p (epochs_after ?p (ta_contact_epochs s))"
          using sum prev(1) by (simp add: or_summary_after)
        moreover have "contact_epoch t < ?t" if "t \<in> fst ` set cs" for t
          using prev(2) prev(3) [OF that] by simp
        ultimately have "truth_inv ?p cs s'"
          using appended prev(2) rec len stored(2) by (simp add: truth_inv_def)
        moreover have "r = Inr (Some (completed_truth previous (contact_in contact_epoch cs ?p)))"
          using appended flag by simp
        ultimately show ?thesis by blast
      qed
    qed
  qed
  then show "\<exists>c'. truth_inv c' cs s'"
    and "r = Inr (Some g) \<Longrightarrow> \<exists>odo. g = completed_truth odo
      (contact_in contact_epoch cs (no_sim_timestamp_ns odo))"
    by blast+
qed

lemma truth_take_step:
  "truth_inv c cs s \<Longrightarrow> truth_inv c cs (snd (truth_take v s))"
  by (auto simp: truth_take_def truth_inv_def split: sum.splits list.splits)

lemma truth_step_inv:
  assumes "truth_inv c cs s"
  shows "\<exists>c'. truth_inv c' (cs @ truth_recorded x s) (snd (truth_step x s))"
proof (cases x)
  case (TruthOdometry obj)
  then show ?thesis
    using truth_odometry_step(1) [OF assms prod.collapse [symmetric]] by simp
next
  case (TruthContact v w)
  then show ?thesis
    using truth_contact_step(1) [OF assms prod.collapse [symmetric]] by simp
next
  case (TruthTake v)
  then show ?thesis
    using truth_take_step [OF assms] by auto
qed

lemma truth_run_inv:
  "truth_inv c cs s \<Longrightarrow>
     \<exists>c'. truth_inv c' (cs @ truth_contacts ops s) (snd (run_ops truth_step ops s))"
proof (induction ops arbitrary: c cs s)
  case (Cons x ops)
  then obtain c' where "truth_inv c' (cs @ truth_recorded x s) (snd (truth_step x s))"
    using truth_step_inv by blast
  from Cons.IH [OF this] show ?case by simp
qed auto

lemma truth_initial_inv: "truth_inv 0 [] PrivateTruthAggregator"
  by (simp add: truth_inv_def PrivateTruthAggregator_def last_recorded_def)

section \<open>Order of the samples\<close>

text \<open>The timestamps of completed samples, and of the samples a run takes.\<close>

definition truth_stamp :: "native_ground_truth \<Rightarrow> int" where
  "truth_stamp g = (case strict_int (ng_sim_timestamp_ns g) of None \<Rightarrow> 0 | Some t \<Rightarrow> t)"

fun truth_taken :: "truth_op \<Rightarrow> native_ground_truth option result \<Rightarrow> native_ground_truth list" where
  "truth_taken (TruthTake _) (Inr (Some g)) = [g]"
| "truth_taken _ _ = []"

fun truth_all_taken ::
    "truth_op list \<Rightarrow> native_ground_truth option result list \<Rightarrow> native_ground_truth list" where
  "truth_all_taken (x # xs) (r # rs) = truth_taken x r @ truth_all_taken xs rs"
| "truth_all_taken _ _ = []"

text \<open>
  The bound below which every timestamp in the queue lies, and above which the next
  completed sample is.
\<close>

definition truth_bound :: "truth_aggregator \<Rightarrow> int" where
  "truth_bound s =
     (case ta_odometry s of
        Some odo \<Rightarrow> no_sim_timestamp_ns odo - 1
      | None \<Rightarrow> (case ta_last_odometry_stamp s of None \<Rightarrow> 0 | Some l \<Rightarrow> l))"

definition pending_last :: "truth_aggregator \<Rightarrow> bool" where
  "pending_last s \<longleftrightarrow> (\<forall>odo. ta_odometry s = Some odo \<longrightarrow>
     ta_last_odometry_stamp s = Some (no_sim_timestamp_ns odo))"

text \<open>\<open>queue_order past s\<close>: the samples already taken, then the queue, in strict order.\<close>

definition queue_order :: "native_ground_truth list \<Rightarrow> truth_aggregator \<Rightarrow> bool" where
  "queue_order past s \<longleftrightarrow>
     sorted_wrt (<) (map truth_stamp (past @ ta_completed s))
     \<and> (\<forall>g \<in> set (past @ ta_completed s). truth_stamp g \<le> truth_bound s) \<and> pending_last s"

lemma truth_stamp_completed [simp]: "truth_stamp (completed_truth odo b) = no_sim_timestamp_ns odo"
  by (simp add: completed_truth_def truth_stamp_def)

lemma truth_bound_simps [simp]:
  "truth_bound (s\<lparr>ta_last_contact_stamp := a\<rparr>) = truth_bound s"
  "truth_bound (s\<lparr>ta_contact_epochs := d\<rparr>) = truth_bound s"
  "truth_bound (s\<lparr>ta_odometry := Some odo\<rparr>) = no_sim_timestamp_ns odo - 1"
  "truth_bound (s\<lparr>ta_odometry := Some odo, ta_last_odometry_stamp := l\<rparr>)
     = no_sim_timestamp_ns odo - 1"
  "truth_bound (s\<lparr>ta_completed := gs\<rparr>) = truth_bound s"
  by (simp_all add: truth_bound_def split: option.splits)

lemma queue_order_complete:
  assumes "truth_complete odo b s1 = (r, s')"
    and "sorted_wrt (<) (map truth_stamp (past @ ta_completed s1))"
    and "\<forall>g \<in> set (past @ ta_completed s1). truth_stamp g < no_sim_timestamp_ns odo"
    and "no_sim_timestamp_ns odo \<le> truth_bound s1" and "pending_last s1"
  shows "queue_order past s'"
proof -
  have le: "\<forall>g \<in> set (past @ ta_completed s1). truth_stamp g \<le> truth_bound s1"
    using assms(3,4) by (meson less_imp_le order_trans)
  show ?thesis
    using assms(1)
  proof (cases rule: truth_complete_cases)
    case full
    then show ?thesis using assms(2,5) le by (simp add: queue_order_def)
  next
    case appended
    then show ?thesis
      using assms(2-5) le by (auto simp: queue_order_def sorted_wrt_append pending_last_def)
  qed
qed

lemma queue_order_combine:
  assumes ord: "queue_order past s" and res: "truth_combine s = (r, s')"
  shows "queue_order past s'"
proof (cases "(r, s') = (Inr None, s)")
  case True
  then show ?thesis using ord by simp
next
  case False
  then obtain odo b where odo: "ta_odometry s = Some odo"
      and c: "truth_complete odo b (s\<lparr>ta_odometry := None\<rparr>) = (r, s')"
    using res by (auto simp: truth_combine_def Let_def split: option.splits if_splits)
  from c show ?thesis
    by (rule queue_order_complete)
      (use ord odo in \<open>auto simp: queue_order_def truth_bound_def pending_last_def\<close>)
qed

lemma queue_order_odometry:
  assumes ord: "queue_order past s" and res: "truth_accept_odometry obj s = (r, s')"
  shows "queue_order past s'"
proof (cases "s' = s")
  case True
  then show ?thesis using ord by simp
next
  case False
  then obtain odo where odo: "agg_odometry obj = Inr odo"
      and l: "\<And>l. ta_last_odometry_stamp s = Some l \<Longrightarrow> l < no_sim_timestamp_ns odo"
      and c: "(case ta_odometry s of
          Some previous \<Rightarrow> truth_complete previous False
            (s\<lparr>ta_last_odometry_stamp := Some (no_sim_timestamp_ns odo), ta_odometry := Some odo\<rparr>)
        | None \<Rightarrow> truth_combine
            (s\<lparr>ta_last_odometry_stamp := Some (no_sim_timestamp_ns odo), ta_odometry := Some odo\<rparr>))
       = (r, s')"
    using res
    by (auto simp: truth_accept_odometry_def Let_def split: if_splits sum.splits option.splits)
  let ?s = "s\<lparr>ta_last_odometry_stamp := Some (no_sim_timestamp_ns odo), ta_odometry := Some odo\<rparr>"
  have b: "truth_bound s < no_sim_timestamp_ns odo"
    using ord l agg_odometry_pos [OF odo]
    by (auto simp: truth_bound_def queue_order_def pending_last_def split: option.splits)
  show ?thesis
  proof (cases "ta_odometry s")
    case None
    have "queue_order past ?s"
      using ord b by (force simp: queue_order_def pending_last_def)
    with None c show ?thesis by (simp add: queue_order_combine)
  next
    case (Some previous)
    with c have "truth_complete previous False ?s = (r, s')" by simp
    then show ?thesis
      by (rule queue_order_complete)
        (use ord Some l in \<open>auto simp: queue_order_def truth_bound_def pending_last_def\<close>)
  qed
qed

lemma queue_order_step:
  assumes ord: "queue_order past s"
  shows "queue_order (past @ truth_taken x (fst (truth_step x s))) (snd (truth_step x s))"
proof (cases x)
  case (TruthOdometry obj)
  then show ?thesis
    using queue_order_odometry [OF ord prod.collapse [symmetric]] by simp
next
  case (TruthContact v w)
  have "queue_order past (s\<lparr>ta_last_contact_stamp := a, ta_contact_epochs := d\<rparr>)" for a d
    using ord by (simp add: queue_order_def pending_last_def)
  then have "queue_order past (snd (truth_accept_contact v w s))"
    using ord queue_order_combine [OF _ prod.collapse [symmetric]]
    by (auto simp: truth_accept_contact_def split: option.splits sum.splits)
  then show ?thesis using TruthContact by simp
next
  case (TruthTake v)
  then show ?thesis
    using ord
    by (auto simp: truth_take_def queue_order_def pending_last_def
        split: sum.splits list.splits)
qed

lemma queue_order_run:
  "queue_order past s \<Longrightarrow>
     queue_order (past @ truth_all_taken ops (fst (run_ops truth_step ops s)))
       (snd (run_ops truth_step ops s))"
proof (induction ops arbitrary: past s)
  case (Cons x ops)
  from Cons.IH [OF queue_order_step [OF Cons.prems, of x]] show ?case by simp
qed simp

section \<open>Properties\<close>

text \<open>
  Contacts are recorded in the order of their timestamps: the ones still to come are later than the
  last one, so an interval whose end a contact has reached gets no contact any more.
\<close>

lemma truth_contacts_append:
  "truth_contacts (ops @ rest) s = truth_contacts ops s @ truth_contacts rest (snd (run_ops truth_step ops s))"
  by (induction ops arbitrary: s) simp_all

lemma truth_complete_last:
  "ta_last_contact_stamp (snd (truth_complete odo b s)) = ta_last_contact_stamp s"
  by (simp add: truth_complete_def Let_def split: sum.splits)

lemma truth_combine_last: "ta_last_contact_stamp (snd (truth_combine s)) = ta_last_contact_stamp s"
  by (simp add: truth_combine_def Let_def truth_complete_last split: option.splits)

lemma truth_step_last:
  assumes "ta_last_contact_stamp s = Some l"
  shows "\<exists>m. ta_last_contact_stamp (snd (truth_step x s)) = Some m \<and> l \<le> m
    \<and> (\<forall>t\<in>fst ` set (truth_recorded x s). l < t)"
proof (cases x)
  case (TruthOdometry obj)
  then show ?thesis
    using assms
    by (simp add: truth_accept_odometry_def Let_def truth_complete_last truth_combine_last
        split: option.splits sum.splits)
next
  case (TruthContact v w)
  then show ?thesis
    using assms
    by (cases v; cases w)
      (auto simp: truth_accept_contact_def agg_stamp_def truth_combine_last split: option.splits)
next
  case (TruthTake v)
  then show ?thesis
    using assms by (auto simp: truth_take_def split: sum.splits list.splits)
qed

lemma truth_contacts_later:
  "ta_last_contact_stamp s = Some l \<Longrightarrow> t \<in> fst ` set (truth_contacts ops s) \<Longrightarrow> l < t"
proof (induction ops arbitrary: s l)
  case (Cons x ops)
  obtain m where m: "ta_last_contact_stamp (snd (truth_step x s)) = Some m" "l \<le> m"
      "\<forall>t\<in>fst ` set (truth_recorded x s). l < t"
    using truth_step_last [OF Cons.prems(1)] by blast
  show ?case
    using Cons.prems(2) m(3) Cons.IH [OF m(1)] m(2) by fastforce
qed simp

lemma contact_epoch_after: "e < t \<Longrightarrow> contact_epoch t \<noteq> e"
  by (auto simp: contact_epoch_def TRUTH_PERIOD_NS_def)

lemma contact_in_reached:
  assumes "last_recorded cs (ta_last_contact_stamp s)" and "\<exists>t\<in>fst ` set cs. e \<le> t"
  shows "contact_in contact_epoch (cs @ truth_contacts ops s) e = contact_in contact_epoch cs e"
proof -
  obtain l where l: "ta_last_contact_stamp s = Some l" "e \<le> l"
    using assms by (fastforce simp: last_recorded_def split: option.splits)
  have "contact_epoch t \<noteq> e" if "(t, b) \<in> set (truth_contacts ops s)" for t b
    using contact_epoch_after [of e t] truth_contacts_later [OF l(1), of t ops] l(2) that by force
  then show ?thesis by (auto simp: contact_in_def)
qed

lemma truth_run_recorded:
  "last_recorded (truth_contacts ops PrivateTruthAggregator)
     (ta_last_contact_stamp (snd (run_ops truth_step ops PrivateTruthAggregator)))"
  using truth_run_inv [OF truth_initial_inv, of ops] by (auto simp: truth_inv_def)

text \<open>
  C31. The contact flag of a sample. Whatever calls came before, a sample the aggregator completes
  has its flag set exactly when, by then, a contact with state true was recorded whose timestamp
  rounds up to the sample's. If by then a contact had reached the end of the sample's interval, the
  flag is that of the whole interval, whatever calls follow; otherwise a contact of the interval that
  follows the completion is not in the sample.
\<close>

theorem truth_contact_exact:
  assumes "fst (truth_step x (snd (run_ops truth_step ops PrivateTruthAggregator))) = Inr (Some g)"
    and "\<forall>v. x \<noteq> TruthTake v"
  shows "ng_in_contact g = VBool (contact_in contact_epoch
      (truth_contacts (ops @ [x]) PrivateTruthAggregator) (truth_stamp g))
    \<and> ((\<exists>t\<in>fst ` set (truth_contacts (ops @ [x]) PrivateTruthAggregator). truth_stamp g \<le> t) \<longrightarrow>
        ng_in_contact g = VBool (contact_in contact_epoch
          (truth_contacts ((ops @ [x]) @ rest) PrivateTruthAggregator) (truth_stamp g)))"
proof -
  let ?A = PrivateTruthAggregator
  let ?s = "snd (run_ops truth_step ops ?A)"
  have hist: "truth_contacts (ops @ [x]) ?A = truth_contacts ops ?A @ truth_recorded x ?s"
    by (simp add: truth_contacts_append)
  obtain c where inv: "truth_inv c (truth_contacts ops ?A) ?s"
    using truth_run_inv [OF truth_initial_inv] by auto
  have "\<exists>odo. g = completed_truth odo (contact_in contact_epoch
      (truth_contacts ops ?A @ truth_recorded x ?s) (no_sim_timestamp_ns odo))"
  proof (cases x)
    case (TruthOdometry obj)
    then show ?thesis
      using truth_odometry_step(2) [OF inv prod.collapse [symmetric], of obj g] assms(1) by simp
  next
    case (TruthContact v w)
    then show ?thesis
      using truth_contact_step(2) [OF inv prod.collapse [symmetric], of v w g] assms(1) by simp
  qed (use assms(2) in simp)
  then have now: "ng_in_contact g = VBool (contact_in contact_epoch (truth_contacts (ops @ [x]) ?A) (truth_stamp g))"
    unfolding hist by (auto simp: completed_truth_def truth_stamp_def)
  then show ?thesis
    using contact_in_reached [OF truth_run_recorded [of "ops @ [x]"], of "truth_stamp g" rest]
    unfolding truth_contacts_append [of "ops @ [x]" rest] by auto
qed

definition sample_odometry_attrs :: attrs where
  "sample_odometry_attrs = [''sim_timestamp_ns'' \<mapsto> VInt 50000000,
     ''position_xyz'' \<mapsto> VTuple (replicate 3 (VFloat (Fin 0))),
     ''orientation_xyzw'' \<mapsto> VTuple (replicate 4 (VFloat (Fin 0))),
     ''linear_velocity_xyz'' \<mapsto> VTuple (replicate 3 (VFloat (Fin 0))),
     ''angular_velocity_xyz'' \<mapsto> VTuple (replicate 3 (VFloat (Fin 0)))]"

definition sample_odometry :: native_odometry where
  "sample_odometry = \<lparr>no_sim_timestamp_ns = 50000000,
     no_position_xyz = replicate 3 (Fin 0), no_orientation_xyzw = replicate 4 (Fin 0),
     no_linear_velocity_xyz = replicate 3 (Fin 0), no_angular_velocity_xyz = replicate 3 (Fin 0)\<rparr>"

lemma sample_odometry_eq: "agg_odometry sample_odometry_attrs = Inr sample_odometry"
  by (simp add: agg_odometry_def agg_odometry_fields_def attr_vector_def getattr_def agg_stamp_def
      agg_vector_def sample_odometry_attrs_def sample_odometry_def numeral_eq_Suc)

lemmas truth_run_defs = truth_accept_contact_def truth_accept_odometry_def truth_combine_def
  truth_complete_def PrivateTruthAggregator_def require_completion_capacity_def
  COMPLETED_CAPACITY_def sample_odometry_eq or_into_def contact_epoch_def
  TRUTH_PERIOD_NS_def agg_stamp_def Let_def

theorem truth_contact_exact_witness:
  "ng_in_contact (completed_truth sample_odometry True) = VBool (contact_in contact_epoch
     (truth_contacts (([TruthContact (VInt 50000000) (VBool True)] @ [TruthOdometry sample_odometry_attrs])
        @ [TruthContact (VInt 60000000) (VBool False)]) PrivateTruthAggregator)
     (truth_stamp (completed_truth sample_odometry True)))"
proof -
  have "fst (truth_step (TruthOdometry sample_odometry_attrs)
      (snd (run_ops truth_step [TruthContact (VInt 50000000) (VBool True)] PrivateTruthAggregator)))
    = Inr (Some (completed_truth sample_odometry True))"
    by (simp add: truth_run_defs) (simp add: sample_odometry_def)
  moreover have "\<exists>t\<in>fst ` set (truth_contacts ([TruthContact (VInt 50000000) (VBool True)]
      @ [TruthOdometry sample_odometry_attrs]) PrivateTruthAggregator). truth_stamp (completed_truth sample_odometry True) \<le> t"
    by (simp add: truth_run_defs) (simp add: sample_odometry_def)
  ultimately show ?thesis
    using truth_contact_exact [of "TruthOdometry sample_odometry_attrs" "[TruthContact (VInt 50000000) (VBool True)]"
        "completed_truth sample_odometry True" "[TruthContact (VInt 60000000) (VBool False)]"] by blast
qed

text \<open>
  A contact with state true in the interval of a sample that a contact with state false completed:
  it is recorded, and the sample stays without it.
\<close>

lemma late_contact_not_in_sample:
  "let ops = [TruthOdometry sample_odometry_attrs, TruthContact (VInt 10000000) (VBool False),
         TruthContact (VInt 20000000) (VBool True)] in
   ta_completed (snd (run_ops truth_step ops PrivateTruthAggregator)) = [completed_truth sample_odometry False]
   \<and> contact_in contact_epoch (truth_contacts ops PrivateTruthAggregator) 50000000"
  by (simp add: truth_run_defs) (simp add: sample_odometry_def contact_in_def contact_epoch_def TRUTH_PERIOD_NS_def)

text \<open>
  Order of the truth. The samples a run takes from the aggregator have strictly
  increasing timestamps, and the completed samples still waiting follow them in order and
  are never more than 20.
\<close>

theorem truth_taken_in_order:
  shows "sorted_wrt (<) (map truth_stamp
      (truth_all_taken ops (fst (run_ops truth_step ops PrivateTruthAggregator))
       @ ta_completed (snd (run_ops truth_step ops PrivateTruthAggregator))))
    \<and> length (ta_completed (snd (run_ops truth_step ops PrivateTruthAggregator))) \<le> 20"
proof -
  have "queue_order [] PrivateTruthAggregator"
    by (simp add: queue_order_def PrivateTruthAggregator_def pending_last_def)
  from queue_order_run [OF this, of ops] truth_run_inv [OF truth_initial_inv, of ops]
  show ?thesis by (auto simp: queue_order_def truth_inv_def COMPLETED_CAPACITY_def)
qed

end
