(* ===== verification/Gz_Support_Inv.thy ===== *)
theory Gz_Support_Inv
  imports Gz_Truth_Inv
begin

text \<open>
  Correctness of \<open>VehicleSupportTracker\<close>: the joined samples come out once per public
  epoch, without a gap and in order, and each flag is exactly the disjunction of the leg
  contacts and of the attached, grounded payloads of its epoch.
\<close>

section \<open>Progress of the payloads\<close>

text \<open>Payload \<open>mk\<close> has reported every epoch up to \<open>k\<close>.\<close>

definition reached :: "(int, int) dict \<Rightarrow> int \<Rightarrow> int \<Rightarrow> bool" where
  "reached stamps mk k \<longleftrightarrow> (\<exists>t. map_of stamps mk = Some t \<and> k \<le> t)"

lemma multiple_gap:
  fixes i :: int
  assumes "0 < i"
  shows "j * i \<le> n * i + i \<longleftrightarrow> j \<le> n \<or> j * i = n * i + i"
proof -
  have "j * i \<le> n * i + i \<longleftrightarrow> j * i \<le> (n + 1) * i" by (simp add: distrib_right)
  also have "\<dots> \<longleftrightarrow> j \<le> n + 1" using assms by simp
  also have "\<dots> \<longleftrightarrow> j \<le> n \<or> j = n + 1" by auto
  also have "\<dots> \<longleftrightarrow> j \<le> n \<or> j * i = (n + 1) * i" using assms by simp
  finally show ?thesis by (simp add: distrib_right)
qed

text \<open>One more report reaches exactly one more epoch.\<close>

lemma reached_next:
  fixes i :: int
  assumes i: "0 < i" and j: "1 \<le> j"
    and t: "case map_of stamps mk of None \<Rightarrow> t = i | Some l \<Rightarrow> t = l + i \<and> (\<exists>n. l = n * i)"
  shows "reached (AList.update mk t stamps) mk' (j * i) \<longleftrightarrow>
     reached stamps mk' (j * i) \<or> mk' = mk \<and> j * i = t"
proof (cases "mk' = mk")
  case False
  then show ?thesis by (simp add: reached_def update_conv')
next
  case True
  show ?thesis
  proof (cases "map_of stamps mk")
    case None
    have "i \<le> j * i" using i j by simp
    then show ?thesis using True None t by (auto simp: reached_def update_conv')
  next
    case (Some l)
    then obtain n where "t = l + i" "l = n * i" using t by auto
    then show ?thesis
      using True Some i by (simp add: reached_def update_conv' multiple_gap [OF i])
  qed
qed

section \<open>The tracker's invariant\<close>

text \<open>
  The reports a payload epoch holds: those of the payloads that reached it, with the flags
  that were recorded.
\<close>

definition epoch_reports ::
    "support_tracker \<Rightarrow> (int \<times> int \<times> bool) list \<Rightarrow> int \<Rightarrow> (int, bool) dict \<Rightarrow> bool" where
  "epoch_reports s ps k d \<longleftrightarrow>
     set (dict_keys d) = {mk. reached (st_last_payload_stamps s) mk k} \<and> dict_ok d
     \<and> (\<forall>mk b. map_of d mk = Some b \<longleftrightarrow> (mk, k, b) \<in> set ps)"

text \<open>
  \<open>support_inv m cs ps s\<close>: \<open>m\<close> epochs are joined, \<open>cs\<close> and \<open>ps\<close> are the leg contacts
  and payload reports recorded so far.
\<close>

definition support_config :: "support_tracker \<Rightarrow> bool" where
  "support_config s \<longleftrightarrow> 0 < st_interval_ns s \<and> dict_ok (st_payload_epochs s)
     \<and> (\<forall>e odo. map_of (st_odometry_epochs s) e = Some odo \<longrightarrow> no_sim_timestamp_ns odo = e)"

definition stamps_inv :: "int \<Rightarrow> (int \<times> int \<times> bool) list \<Rightarrow> support_tracker \<Rightarrow> bool" where
  "stamps_inv m ps s \<longleftrightarrow> 0 \<le> m
     \<and> (\<forall>mk t. map_of (st_last_payload_stamps s) mk = Some t \<longrightarrow>
          (\<exists>n \<ge> 1. t = n * st_interval_ns s))
     \<and> (\<forall>mk \<in> set (st_payload_ids s). 0 < m \<longrightarrow>
          reached (st_last_payload_stamps s) mk (m * st_interval_ns s))
     \<and> (\<forall>mk t b. (mk, t, b) \<in> set ps \<longrightarrow> reached (st_last_payload_stamps s) mk t)"

definition epochs_inv :: "int \<Rightarrow> (int \<times> int \<times> bool) list \<Rightarrow> support_tracker \<Rightarrow> bool" where
  "epochs_inv m ps s \<longleftrightarrow>
     (\<forall>k. k \<in> set (dict_keys (st_payload_epochs s)) \<longleftrightarrow>
        (\<exists>j > m. k = j * st_interval_ns s)
        \<and> (\<exists>mk. reached (st_last_payload_stamps s) mk k))
     \<and> (\<forall>k d. map_of (st_payload_epochs s) k = Some d \<longrightarrow> epoch_reports s ps k d)"

definition support_inv ::
    "int \<Rightarrow> (int \<times> bool) list \<Rightarrow> (int \<times> int \<times> bool) list \<Rightarrow> support_tracker \<Rightarrow> bool" where
  "support_inv m cs ps s \<longleftrightarrow>
     support_config s \<and> stamps_inv m ps s \<and> epochs_inv m ps s
     \<and> or_summary (support_epoch (st_interval_ns s)) cs (m * st_interval_ns s) (st_leg_epochs s)"

text \<open>The flag an epoch must get.\<close>

definition supported ::
    "int \<Rightarrow> (int \<times> bool) list \<Rightarrow> (int \<times> int \<times> bool) list \<Rightarrow> int \<Rightarrow> bool" where
  "supported i cs ps e \<longleftrightarrow> contact_in (support_epoch i) cs e \<or> (\<exists>mk. (mk, e, True) \<in> set ps)"

lemma epoch_reports_cong:
  "st_last_payload_stamps s' = st_last_payload_stamps s \<Longrightarrow>
     epoch_reports s' ps k d = epoch_reports s ps k d"
  by (simp only: epoch_reports_def)

section \<open>Draining\<close>

lemma sort_delete_hd:
  assumes "dict_ok d" and "sort (dict_keys d) = e # es"
  shows "sort (dict_keys (AList.delete e d)) = es"
proof -
  have "distinct (e # es)"
    using assms by (metis distinct_sort)
  then have "removeAll e (e # es) = es"
    by simp
  moreover have "sort (removeAll e (dict_keys d)) = removeAll e (sort (dict_keys d))"
    by (simp add: removeAll_filter_not_eq filter_sort)
  ultimately show ?thesis
    using assms by (simp add: delete_keys)
qed

text \<open>The first epoch the loop visits is the next one.\<close>

lemma first_epoch:
  assumes inv: "support_inv m cs ps s" and e: "sort (dict_keys (st_payload_epochs s)) = e # es"
  shows "e = (m + 1) * st_interval_ns s"
proof -
  let ?i = "st_interval_ns s" and ?ks = "dict_keys (st_payload_epochs s)"
  have i: "0 < ?i" using inv by (simp add: support_inv_def support_config_def)
  have keys: "k \<in> set ?ks \<longleftrightarrow> (\<exists>j > m. k = j * ?i) \<and> (\<exists>mk. reached (st_last_payload_stamps s) mk k)"
    for k using inv by (simp add: support_inv_def epochs_inv_def)
  have "e \<in> set ?ks"
    using e by (metis list.set_intros(1) set_sort)
  then obtain j mk where j: "m < j" "e = j * ?i" "reached (st_last_payload_stamps s) mk e"
    using keys by blast
  have le: "(m + 1) * ?i \<le> e"
    using j i by simp
  then have "(m + 1) * ?i \<in> set ?ks"
    using j(3) keys [of "(m + 1) * ?i"] by (force simp: reached_def)
  then have "e \<le> (m + 1) * ?i"
    using e by (metis list.set(2) sorted_sort set_sort sorted_simps(2) insertE order_refl)
  with le show ?thesis by simp
qed

text \<open>Joining the next epoch keeps the invariant, with one more epoch joined.\<close>

lemma support_inv_joined:
  fixes s :: support_tracker
  assumes inv: "support_inv m cs ps s" and e: "e = (m + 1) * st_interval_ns s"
    and d: "map_of (st_payload_epochs s) e = Some d"
    and all: "set (dict_keys d) = set (st_payload_ids s)"
  shows "support_inv (m + 1) cs ps
    (s\<lparr>st_odometry_epochs := AList.delete e (st_odometry_epochs s),
       st_payload_epochs := AList.delete e (st_payload_epochs s),
       st_leg_epochs := epochs_after e (st_leg_epochs s)\<rparr>)"
    (is "support_inv (m + 1) cs ps ?s")
proof -
  let ?i = "st_interval_ns s"
  have i: "0 < ?i" and m: "0 \<le> m"
    using inv by (simp_all add: support_inv_def support_config_def stamps_inv_def)
  have "reached (st_last_payload_stamps s) mk e" if "mk \<in> set (st_payload_ids s)" for mk
    using inv d all that by (auto simp: support_inv_def epochs_inv_def epoch_reports_def)
  then have "stamps_inv (m + 1) ps ?s"
    using inv by (simp add: support_inv_def stamps_inv_def e)
  moreover have "k \<in> set (dict_keys (AList.delete e (st_payload_epochs s))) \<longleftrightarrow>
      (\<exists>j > m + 1. k = j * ?i) \<and> (\<exists>mk. reached (st_last_payload_stamps s) mk k)" for k
  proof -
    have "(\<exists>j > m. k = j * ?i) \<and> k \<noteq> e \<longleftrightarrow> (\<exists>j > m + 1. k = j * ?i)"
      using i e by (auto simp: zless_add1_eq)
    moreover have "k \<in> set (dict_keys (st_payload_epochs s)) \<longleftrightarrow>
        (\<exists>j > m. k = j * ?i) \<and> (\<exists>mk. reached (st_last_payload_stamps s) mk k)"
      using inv by (simp add: support_inv_def epochs_inv_def)
    ultimately show ?thesis unfolding set_delete_keys by blast
  qed
  moreover have "epoch_reports s ps k d"
    if "map_of (AList.delete e (st_payload_epochs s)) k = Some d" for k d
    using inv that by (auto simp: support_inv_def epochs_inv_def delete_conv' split: if_splits)
  ultimately have "epochs_inv (m + 1) ps ?s" "stamps_inv (m + 1) ps ?s"
    unfolding epochs_inv_def by (simp_all add: epoch_reports_cong [of ?s s])
  moreover have "support_config ?s"
    using inv by (auto simp: support_inv_def support_config_def delete_conv' split: if_splits)
  moreover have "or_summary (support_epoch ?i) cs e (epochs_after e (st_leg_epochs s))"
    using inv i e by (auto simp: support_inv_def distrib_right intro: or_summary_after)
  ultimately show ?thesis by (simp add: support_inv_def e)
qed

lemma drain_leg_contact:
  assumes "support_inv m cs ps s" and "m * st_interval_ns s < e" and "drain_leg e s = Some b"
  shows "b = contact_in (support_epoch (st_interval_ns s)) cs e"
proof -
  have "b = (case map_of (st_leg_epochs s) e of None \<Rightarrow> False | Some b \<Rightarrow> b)"
    using assms(3) by (auto simp: drain_leg_def split: option.splits if_splits)
  then show ?thesis
    using assms(1,2) or_summary_lookup by (auto simp: support_inv_def)
qed

lemma any_report:
  assumes "epoch_reports s ps e d"
  shows "(\<exists>b \<in> set (map snd d). b) \<longleftrightarrow> (\<exists>mk. (mk, e, True) \<in> set ps)"
proof -
  have "dict_ok d"
    using assms by (simp add: epoch_reports_def)
  then have "map_of d mk = Some True \<longleftrightarrow> (mk, True) \<in> set d" for mk
    by (rule map_of_eq_Some_iff)
  moreover have "map_of d mk = Some True \<longleftrightarrow> (mk, e, True) \<in> set ps" for mk
    using assms by (simp add: epoch_reports_def)
  ultimately show ?thesis by force
qed

text \<open>
  The loop joins the next epochs in order. \<open>joined i m outs\<close>: the samples \<open>outs\<close> carry
  the epochs \<open>m + 1\<close>, \<open>m + 2\<close>, and so on.
\<close>

fun joined :: "int \<Rightarrow> int \<Rightarrow> (native_odometry \<times> bool) list \<Rightarrow> bool" where
  "joined i m [] = True"
| "joined i m ((odo, b) # outs) = (no_sim_timestamp_ns odo = (m + 1) * i \<and> joined i (m + 1) outs)"

lemma joined_append:
  "joined i m (xs @ ys) \<longleftrightarrow> joined i m xs \<and> joined i (m + int (length xs)) ys"
  by (induction i m xs rule: joined.induct) (auto simp: algebra_simps)

lemma joined_stamps:
  "joined i m outs \<longleftrightarrow>
     map (no_sim_timestamp_ns \<circ> fst) outs = map (\<lambda>k. (m + 1 + int k) * i) [0..<length outs]"
proof (induction i m outs rule: joined.induct)
  case (2 i m odo b outs)
  have "map (\<lambda>k. (m + 1 + int k) * i) [0..<length ((odo, b) # outs)] =
      (m + 1) * i # map (\<lambda>k. (m + 1 + 1 + int k) * i) [0..<length outs]"
    by (simp add: upt_conv_Cons map_Suc_upt [symmetric] algebra_simps del: upt_Suc)
  with 2 show ?case by simp
qed simp

lemma drain_loop_inv:
  assumes "support_inv m cs ps s" and "sort (dict_keys (st_payload_epochs s)) = es"
    and "drain_loop es s = (outs, s')"
  shows "support_inv (m + int (length outs)) cs ps s' \<and> joined (st_interval_ns s) m outs
    \<and> (\<forall>(odo, b) \<in> set outs. b = supported (st_interval_ns s) cs ps (no_sim_timestamp_ns odo))
    \<and> st_interval_ns s' = st_interval_ns s"
  using assms
proof (induction es arbitrary: m s outs)
  case Nil
  then show ?case by simp
next
  case (Cons e es)
  let ?i = "st_interval_ns s"
  note inv = Cons.prems(1)
  have e: "e = (m + 1) * ?i"
    by (rule first_epoch [OF inv Cons.prems(2)])
  show ?case
  proof (cases "outs = []")
    case True
    then show ?thesis
      using Cons.prems by (auto simp: Let_def split: option.splits if_splits prod.splits)
  next
    case False
    then obtain d odo leg rest where
        d: "map_of (st_payload_epochs s) e = Some d" "set (dict_keys d) = set (st_payload_ids s)"
      and odo: "map_of (st_odometry_epochs s) e = Some odo" and leg: "drain_leg e s = Some leg"
      and outs: "outs = (odo, leg \<or> (\<exists>b \<in> set (map snd d). b)) # rest"
      and rest: "drain_loop es (s\<lparr>st_odometry_epochs := AList.delete e (st_odometry_epochs s),
          st_payload_epochs := AList.delete e (st_payload_epochs s),
          st_leg_epochs := epochs_after e (st_leg_epochs s)\<rparr>) = (rest, s')"
      using Cons.prems(3) by (auto simp: Let_def split: option.splits if_splits prod.splits)
    have ok: "dict_ok (st_payload_epochs s)" "0 < ?i" "epoch_reports s ps e d"
        "no_sim_timestamp_ns odo = e"
      using inv d odo by (auto simp: support_inv_def support_config_def epochs_inv_def)
    have flag: "(leg \<or> (\<exists>b \<in> set (map snd d). b)) = supported ?i cs ps e"
      using drain_leg_contact [OF inv _ leg] any_report [OF ok(3)] ok(2)
      by (simp add: supported_def e distrib_right)
    have keys: "sort (dict_keys (AList.delete e (st_payload_epochs s))) = es"
      by (rule sort_delete_hd [OF ok(1) Cons.prems(2)])
    note IH = Cons.IH [OF support_inv_joined [OF inv e d] _ rest]
    show ?thesis
      using IH keys flag ok(4) e by (simp add: outs algebra_simps)
  qed
qed

section \<open>Every operation keeps the invariant\<close>

definition lookahead_full :: exn where
  "lookahead_full = AggregationFault ''payload support lookahead is full''"

lemma support_drain_inv:
  assumes inv: "support_inv m cs ps s" and res: "support_drain s = (r, s')"
  shows "\<exists>m'. support_inv m' cs ps s' \<and> st_interval_ns s' = st_interval_ns s
    \<and> (\<forall>outs. r = Inr outs \<longrightarrow> m' = m + int (length outs) \<and> joined (st_interval_ns s) m outs
        \<and> (\<forall>(odo, b) \<in> set outs. b = supported (st_interval_ns s) cs ps (no_sim_timestamp_ns odo)))
    \<and> (\<forall>e. r = Inl e \<longrightarrow> e = lookahead_full)"
proof -
  obtain outs where "drain_loop (sort (dict_keys (st_payload_epochs s))) s = (outs, s')"
      "r = Inr outs \<or> r = Inl lookahead_full"
    using res by (auto simp: support_drain_def lookahead_full_def Let_def split: prod.splits if_splits)
  with drain_loop_inv [OF inv refl this(1)] show ?thesis by auto
qed

text \<open>Recording a leg contact, an odometry sample and a payload report.\<close>

lemma support_inv_leg:
  assumes "support_inv m cs ps s"
  shows "support_inv m (cs @ [(t, b)]) ps (s\<lparr>st_last_leg_stamp := Some t,
     st_leg_epochs := or_into (support_epoch (st_interval_ns s) t) b (st_leg_epochs s)\<rparr>)"
    (is "support_inv m _ ps ?s")
  using assms or_summary_or_into
  by (simp add: support_inv_def support_config_def stamps_inv_def epochs_inv_def
      epoch_reports_cong [of ?s s])

lemma support_inv_odometry:
  assumes "support_inv m cs ps s"
  shows "support_inv m cs ps (s\<lparr>st_last_odometry_stamp := Some (no_sim_timestamp_ns odo),
     st_odometry_epochs :=
       AList.update (no_sim_timestamp_ns odo) odo (st_odometry_epochs s)\<rparr>)"
    (is "support_inv m _ ps ?s")
  using assms
  by (simp add: support_inv_def support_config_def stamps_inv_def epochs_inv_def update_conv'
      epoch_reports_cong [of ?s s])

lemma payload_support_check_Inr:
  assumes "payload_support_check obj s = Inr (mk, t, b)"
  shows "mk \<in> set (st_payload_ids s)"
    and "case map_of (st_last_payload_stamps s) mk of
           None \<Rightarrow> t = st_interval_ns s | Some l \<Rightarrow> t = l + st_interval_ns s"
  using assms
  by (auto simp: payload_support_check_def rbind_def simp del: rbind_eq_Inr
      split: sum.splits option.splits if_splits)

lemma report_epoch:
  fixes s :: support_tracker
  assumes inv: "support_inv m cs ps s" and mk: "mk \<in> set (st_payload_ids s)"
    and t: "case map_of (st_last_payload_stamps s) mk of
       None \<Rightarrow> t = st_interval_ns s | Some l \<Rightarrow> t = l + st_interval_ns s"
  shows "\<exists>j > m. t = j * st_interval_ns s"
    and "\<not> reached (st_last_payload_stamps s) mk t"
    and "case map_of (st_last_payload_stamps s) mk of
       None \<Rightarrow> t = st_interval_ns s
     | Some l \<Rightarrow> t = l + st_interval_ns s \<and> (\<exists>n. l = n * st_interval_ns s)"
proof -
  let ?i = "st_interval_ns s" and ?l = "st_last_payload_stamps s"
  have i: "0 < ?i" and m: "0 \<le> m" "0 < m \<Longrightarrow> reached ?l mk (m * ?i)"
    and n: "\<And>l. map_of ?l mk = Some l \<Longrightarrow> \<exists>n \<ge> 1. l = n * ?i"
    using inv mk by (auto simp: support_inv_def support_config_def stamps_inv_def)
  have "\<exists>j > m. t = j * ?i"
  proof (cases "map_of ?l mk")
    case None
    then have "\<not> 0 < m" using m(2) by (auto simp: reached_def)
    then show ?thesis using None t m(1) by (intro exI [of _ 1]) simp
  next
    case (Some l)
    then obtain k where k: "1 \<le> k" "l = k * ?i" using n by blast
    have "m \<le> k"
    proof (cases "0 < m")
      case True
      then show ?thesis using m(2) Some k i by (auto simp: reached_def)
    qed (use k in simp)
    then show ?thesis
      using Some t k by (intro exI [of _ "k + 1"]) (simp add: distrib_right)
  qed
  then show "\<exists>j > m. t = j * ?i" .
  show "\<not> reached ?l mk t"
    using t i by (auto simp: reached_def split: option.splits)
  show "case map_of ?l mk of None \<Rightarrow> t = ?i | Some l \<Rightarrow> t = l + ?i \<and> (\<exists>n. l = n * ?i)"
    using t n by (auto split: option.splits)
qed

lemma epoch_reports_update:
  assumes rep: "epoch_reports s ps t d" and new: "\<And>b'. (mk, t, b') \<notin> set ps"
    and grow: "\<And>mk'. reached (st_last_payload_stamps s') mk' t \<longleftrightarrow>
      reached (st_last_payload_stamps s) mk' t \<or> mk' = mk"
  shows "epoch_reports s' (ps @ [(mk, t, b)]) t (AList.update mk b d)"
  unfolding epoch_reports_def
proof (intro conjI allI)
  show "set (dict_keys (AList.update mk b d)) = {mk. reached (st_last_payload_stamps s') mk t}"
    unfolding set_update_keys using rep grow by (auto simp: epoch_reports_def)
  show "dict_ok (AList.update mk b d)"
    using rep by (intro distinct_update) (simp add: epoch_reports_def)
  fix mk' b'
  have "map_of d mk' = Some b' \<longleftrightarrow> (mk', t, b') \<in> set ps"
    using rep unfolding epoch_reports_def by blast
  then show "map_of (AList.update mk b d) mk' = Some b' \<longleftrightarrow> (mk', t, b') \<in> set (ps @ [(mk, t, b)])"
    using new by (auto simp: update_conv')
qed

lemma past_reached:
  "support_inv m cs ps s \<Longrightarrow> (mk, t, b) \<in> set ps \<Longrightarrow> reached (st_last_payload_stamps s) mk t"
  unfolding support_inv_def stamps_inv_def by blast

lemma support_inv_report:
  fixes s :: support_tracker
  assumes inv: "support_inv m cs ps s" and chk: "payload_support_check obj s = Inr (mk, t, b)"
  shows "support_inv m cs (ps @ [(mk, t, b)])
     (s\<lparr>st_last_payload_stamps := AList.update mk t (st_last_payload_stamps s),
        st_payload_epochs := set_payload t mk b (st_payload_epochs s)\<rparr>)"
    (is "support_inv m cs ?ps ?s")
proof -
  let ?i = "st_interval_ns s" and ?l = "st_last_payload_stamps s"
  let ?l' = "AList.update mk t ?l"
  note r = report_epoch [OF inv payload_support_check_Inr [OF chk]]
  have i: "0 < ?i" and m: "0 \<le> m"
    using inv by (auto simp: support_inv_def support_config_def stamps_inv_def)
  have keys: "k \<in> set (dict_keys (st_payload_epochs s)) \<longleftrightarrow>
      (\<exists>j > m. k = j * ?i) \<and> (\<exists>mk. reached ?l mk k)"
    and reports: "map_of (st_payload_epochs s) k = Some d \<Longrightarrow> epoch_reports s ps k d" for k d
    using inv by (auto simp: support_inv_def epochs_inv_def)
  have grow: "reached ?l' mk' k \<longleftrightarrow> reached ?l mk' k \<or> mk' = mk \<and> k = t"
    if "\<exists>j > m. k = j * ?i" for mk' k
    using that m reached_next [OF i _ r(3)] by auto
  have mono: "reached ?l mk' k \<Longrightarrow> reached ?l' mk' k" for mk' k
    using r(2) by (force simp: reached_def update_conv')
  have "stamps_inv m ?ps ?s"
  proof -
    have st: "stamps_inv m ps s" using inv by (simp add: support_inv_def)
    have "\<exists>n \<ge> 1. t = n * ?i"
      using r(1) m by (metis int_one_le_iff_zero_less order_le_less_trans)
    then have "\<exists>n \<ge> 1. t' = n * ?i" if "map_of ?l' mk' = Some t'" for mk' t'
      using st that by (auto simp: stamps_inv_def update_conv' split: if_splits)
    moreover have "reached ?l' mk' (m * ?i)" if "mk' \<in> set (st_payload_ids s)" "0 < m" for mk'
      using st that by (intro mono) (simp add: stamps_inv_def)
    moreover have "reached ?l' mk' t'" if "(mk', t', b') \<in> set ?ps" for mk' t' b'
    proof (cases "(mk', t', b') \<in> set ps")
      case True
      then have "reached ?l mk' t'" by (rule past_reached [OF inv])
      then show ?thesis by (rule mono)
    next
      case False
      then show ?thesis using that by (simp add: reached_def update_conv')
    qed
    ultimately show ?thesis
      using m unfolding stamps_inv_def by simp
  qed
  moreover have "epochs_inv m ?ps ?s"
  proof -
    have "set (dict_keys (set_payload t mk b (st_payload_epochs s)))
        = insert t (set (dict_keys (st_payload_epochs s)))"
      unfolding set_payload_def by (rule set_update_keys)
    then have "k \<in> set (dict_keys (set_payload t mk b (st_payload_epochs s))) \<longleftrightarrow>
        (\<exists>j > m. k = j * ?i) \<and> (\<exists>mk. reached ?l' mk k)" for k
      using keys [of k] grow [of k] r(1) by blast
    moreover have "epoch_reports ?s ?ps k d"
      if d: "map_of (set_payload t mk b (st_payload_epochs s)) k = Some d" for k d
    proof (cases "k = t")
      case False
      then have old: "map_of (st_payload_epochs s) k = Some d"
        using d by (simp add: set_payload_def update_conv')
      then have "\<exists>j > m. k = j * ?i"
        using keys [of k] map_of_eq_Some_key [of "st_payload_epochs s" k d] by blast
      then show ?thesis
        using reports [OF old] grow [of k] False by (simp add: epoch_reports_def)
    next
      case True
      let ?d = "case map_of (st_payload_epochs s) t of None \<Rightarrow> [] | Some x \<Rightarrow> x"
      have "epoch_reports s ps t ?d"
      proof (cases "map_of (st_payload_epochs s) t")
        case None
        then have "\<not> reached ?l mk' t" for mk'
          using keys [of t] r(1) by (auto simp: map_of_eq_None_iff)
        moreover have "(mk', t, b') \<notin> set ps" for mk' b'
          using past_reached [OF inv] calculation by blast
        ultimately show ?thesis using None by (simp add: epoch_reports_def)
      qed (use reports in simp)
      moreover have "(mk, t, b') \<notin> set ps" for b'
        using past_reached [OF inv] r(2) by blast
      ultimately have "epoch_reports ?s ?ps t (AList.update mk b ?d)"
        using grow [OF r(1)] by (intro epoch_reports_update [of s]) simp_all
      moreover have "d = AList.update mk b ?d"
        using d True by (simp add: set_payload_def update_conv')
      ultimately show ?thesis using True by simp
    qed
    ultimately show ?thesis unfolding epochs_inv_def by simp
  qed
  moreover have "support_config ?s"
    using inv by (simp add: support_inv_def support_config_def set_payload_def)
  ultimately show ?thesis
    using inv by (simp add: support_inv_def)
qed

text \<open>The leg contacts and payload reports an operation records.\<close>

fun support_legs :: "support_op \<Rightarrow> support_tracker \<Rightarrow> (int \<times> bool) list" where
  "support_legs (SupportLeg (VInt t) (VBool b)) s =
     (if 0 < t \<and> (case st_last_leg_stamp s of None \<Rightarrow> True | Some l \<Rightarrow> l < t)
      then [(t, b)] else [])"
| "support_legs _ s = []"

fun support_reports :: "support_op \<Rightarrow> support_tracker \<Rightarrow> (int \<times> int \<times> bool) list" where
  "support_reports (SupportPayload obj) s =
     (case payload_support_check obj s of Inl _ \<Rightarrow> [] | Inr x \<Rightarrow> [x])"
| "support_reports _ s = []"

text \<open>
  The effect of one call. \<open>support_effect\<close> relates the state before with the result and
  the state after, for the leg contacts and reports recorded up to and with the call.
\<close>

definition support_effect ::
    "int \<Rightarrow> (int \<times> bool) list \<Rightarrow> (int \<times> int \<times> bool) list \<Rightarrow> support_tracker \<Rightarrow>
     (native_odometry \<times> bool) list result \<times> support_tracker \<Rightarrow> int \<Rightarrow> bool" where
  "support_effect m cs ps s res m' \<longleftrightarrow>
     support_inv m' cs ps (snd res) \<and> st_interval_ns (snd res) = st_interval_ns s
     \<and> (\<forall>outs. fst res = Inr outs \<longrightarrow>
          m' = m + int (length outs) \<and> joined (st_interval_ns s) m outs
          \<and> (\<forall>(odo, b) \<in> set outs. b = supported (st_interval_ns s) cs ps (no_sim_timestamp_ns odo)))
     \<and> (\<forall>e. fst res = Inl e \<longrightarrow> e = lookahead_full \<or> m' = m)"

lemma support_effect_rejected:
  "support_inv m cs ps s \<Longrightarrow> support_effect m cs ps s (Inl e, s) m"
  by (simp add: support_effect_def)

lemma support_effect_drain:
  assumes "support_inv m cs ps s1" and "st_interval_ns s1 = st_interval_ns s"
  shows "\<exists>m'. support_effect m cs ps s (support_drain s1) m'"
proof -
  from support_drain_inv [OF assms(1) prod.collapse [symmetric]] obtain m' where
    "support_effect m cs ps s1 (support_drain s1) m'"
    unfolding support_effect_def by blast
  then show ?thesis
    using assms(2) by (auto simp: support_effect_def)
qed

lemma support_accept_leg_cases:
  "(\<exists>e. support_accept_leg v w s = (Inl e, s) \<and> support_legs (SupportLeg v w) s = [])
   \<or> (\<exists>t b. support_legs (SupportLeg v w) s = [(t, b)]
        \<and> support_accept_leg v w s = support_drain (s\<lparr>st_last_leg_stamp := Some t,
           st_leg_epochs := or_into (support_epoch (st_interval_ns s) t) b (st_leg_epochs s)\<rparr>))"
  by (cases v; cases w)
    (auto simp: support_accept_leg_def agg_stamp_def not_le split: option.splits sum.splits)

lemma support_accept_odometry_cases:
  "(\<exists>e. support_accept_odometry obj s = (Inl e, s))
   \<or> (\<exists>odo. support_accept_odometry obj s = support_drain
        (s\<lparr>st_last_odometry_stamp := Some (no_sim_timestamp_ns odo),
           st_odometry_epochs :=
             AList.update (no_sim_timestamp_ns odo) odo (st_odometry_epochs s)\<rparr>))"
  by (auto simp: support_accept_odometry_def Let_def split: sum.splits)

lemma support_step_effect:
  assumes inv: "support_inv m cs ps s"
  shows "\<exists>m'. support_effect m (cs @ support_legs x s) (ps @ support_reports x s) s
     (support_step x s) m'"
proof (cases x)
  case (SupportLeg v w)
  from support_accept_leg_cases [of v w s]
  consider (rejected) e where "support_accept_leg v w s = (Inl e, s)"
      "support_legs (SupportLeg v w) s = []"
    | (recorded) t b where "support_legs (SupportLeg v w) s = [(t, b)]"
        "support_accept_leg v w s = support_drain (s\<lparr>st_last_leg_stamp := Some t,
           st_leg_epochs := or_into (support_epoch (st_interval_ns s) t) b (st_leg_epochs s)\<rparr>)"
    by blast
  then show ?thesis
  proof cases
    case rejected
    then show ?thesis using SupportLeg support_effect_rejected [OF inv] by auto
  next
    case recorded
    then show ?thesis
      using SupportLeg support_effect_drain [OF support_inv_leg [OF inv, of t b], of s] by simp
  qed
next
  case (SupportOdometry obj)
  with support_accept_odometry_cases [of obj s]
  consider (rejected) e where "support_step x s = (Inl e, s)"
    | (stored) odo where "support_step x s = support_drain
        (s\<lparr>st_last_odometry_stamp := Some (no_sim_timestamp_ns odo),
           st_odometry_epochs :=
             AList.update (no_sim_timestamp_ns odo) odo (st_odometry_epochs s)\<rparr>)"
    by auto
  then show ?thesis
  proof cases
    case rejected
    then show ?thesis using SupportOdometry support_effect_rejected [OF inv] by auto
  next
    case stored
    show ?thesis
      unfolding stored
      using SupportOdometry support_effect_drain [OF support_inv_odometry [OF inv, of odo], of s]
      by simp
  qed
next
  case (SupportPayload obj)
  show ?thesis
  proof (cases "payload_support_check obj s")
    case (Inl e)
    then show ?thesis
      using SupportPayload support_effect_rejected [OF inv]
      by (auto simp: support_accept_payload_def)
  next
    case (Inr r)
    then obtain mk t b where r: "payload_support_check obj s = Inr (mk, t, b)"
      by (cases r) auto
    then show ?thesis
      using SupportPayload support_effect_drain [OF support_inv_report [OF inv r], of s]
      by (simp add: support_accept_payload_def)
  qed
qed

section \<open>Runs\<close>

fun support_all_legs :: "support_op list \<Rightarrow> support_tracker \<Rightarrow> (int \<times> bool) list" where
  "support_all_legs [] s = []"
| "support_all_legs (x # xs) s = support_legs x s @ support_all_legs xs (snd (support_step x s))"

fun support_all_reports :: "support_op list \<Rightarrow> support_tracker \<Rightarrow> (int \<times> int \<times> bool) list" where
  "support_all_reports [] s = []"
| "support_all_reports (x # xs) s =
     support_reports x s @ support_all_reports xs (snd (support_step x s))"

lemma support_run_inv:
  assumes "support_inv m cs ps s"
  shows "\<exists>m'. support_inv m' (cs @ support_all_legs ops s) (ps @ support_all_reports ops s)
     (snd (run_ops support_step ops s))
    \<and> st_interval_ns (snd (run_ops support_step ops s)) = st_interval_ns s"
  using assms
proof (induction ops arbitrary: m cs ps s)
  case (Cons x ops)
  then obtain m' where "support_inv m' (cs @ support_legs x s) (ps @ support_reports x s)
      (snd (support_step x s))" "st_interval_ns (snd (support_step x s)) = st_interval_ns s"
    using support_step_effect unfolding support_effect_def by blast
  with Cons.IH [OF this(1)] show ?case by auto
qed auto

lemma support_run_joined:
  assumes "support_inv m cs ps s"
    and "Inl lookahead_full \<notin> set (fst (run_ops support_step ops s))"
  shows "joined (st_interval_ns s) m (returned (fst (run_ops support_step ops s)))"
  using assms
proof (induction ops arbitrary: m cs ps s)
  case (Cons x ops)
  let ?s = "snd (support_step x s)"
  obtain m' where eff: "support_effect m (cs @ support_legs x s) (ps @ support_reports x s) s
      (support_step x s) m'"
    using support_step_effect [OF Cons.prems(1)] by blast
  then have i: "st_interval_ns ?s = st_interval_ns s" and inv: "support_inv m'
      (cs @ support_legs x s) (ps @ support_reports x s) ?s"
    by (simp_all add: support_effect_def)
  note IH = Cons.IH [OF inv]
  show ?case
  proof (cases "fst (support_step x s)")
    case (Inl e)
    then have "m' = m" using eff Cons.prems(2) by (auto simp: support_effect_def)
    then show ?thesis using IH Inl i Cons.prems(2) by simp
  next
    case (Inr outs)
    then have "m' = m + int (length outs)" "joined (st_interval_ns s) m outs"
      using eff by (simp_all add: support_effect_def)
    then show ?thesis using IH Inr i Cons.prems(2) by (simp add: joined_append)
  qed
qed simp

lemma VehicleSupportTracker_inv:
  assumes "VehicleSupportTracker ids (VInt i) = Inr s"
  shows "support_inv 0 [] [] s" and "st_interval_ns s = i"
  using assms
  by (auto simp: VehicleSupportTracker_def support_inv_def support_config_def stamps_inv_def
      epochs_inv_def reached_def split: if_splits)

section \<open>Properties\<close>

text \<open>
  Gap-free support. As long as no call reports a full lookahead, the joined samples a
  tracker returns, over all its calls and whatever their order, carry the odometry of the
  epochs \<open>i, 2i, 3i, \<dots>\<close> of its interval, each exactly once and in order.
\<close>

theorem support_gap_free:
  assumes "VehicleSupportTracker ids (VInt i) = Inr s"
    and "Inl lookahead_full \<notin> set (fst (run_ops support_step ops s))"
  shows "map (no_sim_timestamp_ns \<circ> fst) (returned (fst (run_ops support_step ops s))) =
    map (\<lambda>k. (1 + int k) * i)
      [0..<length (returned (fst (run_ops support_step ops s)))]"
  using support_run_joined [OF VehicleSupportTracker_inv(1) [OF assms(1)] assms(2)]
    VehicleSupportTracker_inv(2) [OF assms(1)]
  by (simp only: joined_stamps) simp

definition sample_tracker :: support_tracker where
  "sample_tracker = \<lparr>st_payload_ids = [7], st_interval_ns = 50000000, st_leg_epochs = [],
     st_last_leg_stamp = None, st_last_odometry_stamp = None, st_odometry_epochs = [],
     st_payload_epochs = [], st_last_payload_stamps = []\<rparr>"

definition sample_support :: attrs where
  "sample_support = [''aruco_id'' \<mapsto> VInt 7, ''sim_timestamp_ns'' \<mapsto> VInt 50000000,
     ''grounded'' \<mapsto> VBool True, ''attached'' \<mapsto> VBool False]"

lemma sample_tracker_eq: "VehicleSupportTracker [7] (VInt 50000000) = Inr sample_tracker"
  by (simp add: VehicleSupportTracker_def sample_tracker_def)

lemmas support_eval =
  support_accept_leg_def support_accept_odometry_def support_accept_payload_def
  payload_support_check_def payload_support_fields_def getattr_def sample_support_def
  sample_tracker_def support_drain_def drain_leg_def set_payload_def or_into_def
  epochs_after_def support_epoch_def agg_stamp_def sample_odometry_eq COMPLETED_CAPACITY_def

lemma sample_stamp [simp]: "no_sim_timestamp_ns sample_odometry = 50000000"
  by (simp add: sample_odometry_def)

theorem support_gap_free_witness:
  "returned (fst (run_ops support_step
      [SupportLeg (VInt 10) (VBool True), SupportOdometry sample_odometry_attrs,
       SupportPayload sample_support] sample_tracker)) = [(sample_odometry, True)]
   \<and> no_sim_timestamp_ns sample_odometry = (1 + 0) * 50000000"
proof -
  let ?ops = "[SupportLeg (VInt 10) (VBool True), SupportOdometry sample_odometry_attrs,
       SupportPayload sample_support]"
  have run: "fst (run_ops support_step ?ops sample_tracker) =
      [Inr [], Inr [], Inr [(sample_odometry, True)]]"
    by (simp add: support_eval Let_def)
  then have "Inl lookahead_full \<notin> set (fst (run_ops support_step ?ops sample_tracker))"
    by simp
  from support_gap_free [OF sample_tracker_eq this] run show ?thesis by simp
qed

text \<open>
  Exact support flag. Whatever calls came before, each joined sample says that the
  vehicle is supported exactly when a leg contact with state true was recorded in the
  sample's interval, or a payload was reported as both grounded and attached at its epoch.
\<close>

theorem support_flag_exact:
  assumes "VehicleSupportTracker ids (VInt i) = Inr s"
    and "fst (support_step x (snd (run_ops support_step ops s))) = Inr outs"
    and "(odo, b) \<in> set outs"
  shows "b = supported i (support_all_legs (ops @ [x]) s) (support_all_reports (ops @ [x]) s)
     (no_sim_timestamp_ns odo)"
proof -
  let ?s = "snd (run_ops support_step ops s)"
  have hist: "support_all_legs (ops @ [x]) s = support_all_legs ops s @ support_legs x ?s"
    "support_all_reports (ops @ [x]) s = support_all_reports ops s @ support_reports x ?s"
    by (induction ops arbitrary: s) simp_all
  obtain m where "support_inv m (support_all_legs ops s) (support_all_reports ops s) ?s"
      "st_interval_ns ?s = i"
    using support_run_inv [OF VehicleSupportTracker_inv(1) [OF assms(1)], of ops]
      VehicleSupportTracker_inv(2) [OF assms(1)] by auto
  with support_step_effect [OF this(1), of x] show ?thesis
    unfolding hist using assms(2,3) by (auto simp: support_effect_def)
qed

theorem support_flag_exact_witness:
  "True = supported 50000000
     (support_all_legs ([SupportLeg (VInt 10) (VBool True), SupportOdometry sample_odometry_attrs]
        @ [SupportPayload sample_support]) sample_tracker)
     (support_all_reports ([SupportLeg (VInt 10) (VBool True), SupportOdometry sample_odometry_attrs]
        @ [SupportPayload sample_support]) sample_tracker)
     (no_sim_timestamp_ns sample_odometry)"
proof -
  have "fst (support_step (SupportPayload sample_support) (snd (run_ops support_step
      [SupportLeg (VInt 10) (VBool True), SupportOdometry sample_odometry_attrs]
      sample_tracker))) = Inr [(sample_odometry, True)]"
    by (simp add: support_eval Let_def)
  from support_flag_exact [OF sample_tracker_eq this, of sample_odometry True] show ?thesis
    by simp
qed

end
