(* ===== verification/Gz_Payload_Tracker.thy ===== *)
theory Gz_Payload_Tracker
  imports Gz_Adapter_Model Py_Float
begin

text \<open>
  The join of payload pose, contact and joint state, \<open>gazebo/ros_adapter/payload.py\<close>:
  the codec of the joint state, the conversion to the ROS message, and \<open>PayloadTracker\<close>,
  which publishes one physical sample per exact pose tick.
\<close>

section \<open>Samples and messages\<close>

record public_payload_state =
  pp_run_id :: string
  pp_sim_timestamp_ns :: int
  pp_aruco_id :: int
  pp_position_xyz :: "pyval list"
  pp_orientation_xyzw :: "pyval list"
  pp_linear_velocity_xyz :: "pyval list"
  pp_grounded :: bool
  pp_attached :: bool

text \<open>The fields of the ROS message that \<open>payload_state_message\<close> assigns.\<close>

record payload_message =
  msg_run_id :: string
  msg_sec :: int
  msg_nanosec :: int
  msg_aruco_id :: int
  msg_position :: "pyval list"
  msg_orientation :: "pyval list"
  msg_linear :: "pyval list"
  msg_angular :: "pyval list"
  msg_grounded :: bool
  msg_attached :: bool

definition payload_state_message :: "public_payload_state \<Rightarrow> payload_message" where
  "payload_state_message v =
     \<lparr>msg_run_id = pp_run_id v,
      msg_sec = pp_sim_timestamp_ns v div 1000000000,
      msg_nanosec = pp_sim_timestamp_ns v mod 1000000000,
      msg_aruco_id = pp_aruco_id v, msg_position = pp_position_xyz v,
      msg_orientation = pp_orientation_xyzw v, msg_linear = pp_linear_velocity_xyz v,
      msg_angular = [VFloat (Fin 0), VFloat (Fin 0), VFloat (Fin 0)],
      msg_grounded = pp_grounded v, msg_attached = pp_attached v\<rparr>"

definition JOINT_STATE_PREFIX :: string where
  "JOINT_STATE_PREFIX = ''payload-joint-state-v1''"

definition parse_joint_state :: "pyval \<Rightarrow> (int \<times> string) result" where
  "parse_joint_state v =
     (case strict_str v of
        None \<Rightarrow> Inl (AdapterFault ''joint state must be timestamped physical truth'')
      | Some s \<Rightarrow>
          (case split_on (CHR ''|'') s of
             [prefix, stamp, state] \<Rightarrow>
               if prefix \<noteq> JOINT_STATE_PREFIX then
                 Inl (AdapterFault ''joint state must use payload-joint-state-v1'')
               else (case int_of_str stamp of
                       None \<Rightarrow> Inl (AdapterFault ''joint state timestamp is malformed'')
                     | Some t \<Rightarrow>
                         if str_int t \<noteq> stamp \<or> t < 0 then
                           Inl (AdapterFault ''joint state timestamp is malformed'')
                         else if state \<noteq> ''attached'' \<and> state \<noteq> ''detached'' then
                           Inl (AdapterFault ''joint state must be exactly attached or detached'')
                         else Inr (t, state))
           | _ \<Rightarrow> Inl (AdapterFault ''joint state must use payload-joint-state-v1'')))"

section \<open>PayloadTracker\<close>

type_synonym pose = "pyval list \<times> pyval list"

record payload_tracker =
  pt_run_id :: string
  pt_aruco_id :: int
  pt_interval_ns :: int
  pt_last_pose_input_timestamp_ns :: "int option"
  pt_last_position_xyz :: "pyval list option"
  pt_last_contact_timestamp_ns :: "int option"
  pt_last_attachment_timestamp_ns :: "int option"
  pt_contacts :: "(int, bool) dict"
  pt_attachments :: "(int, bool) dict"
  pt_poses :: "(int, pose) dict"
  pt_accepted_poses :: int
  pt_fault_reason :: "string option"

definition PayloadTracker :: "pyval \<Rightarrow> pyval \<Rightarrow> pyval \<Rightarrow> payload_tracker result" where
  "PayloadTracker run_id aruco_id interval_ns =
     rbind (adapter_canonical_run_id run_id) (\<lambda>r.
     rbind (case strict_int aruco_id of
              Some a \<Rightarrow> if 0 \<le> a \<and> a \<le> 65535 then Inr a
                       else Inl (AdapterFault ''aruco_id must be an unsigned 16-bit integer'')
            | None \<Rightarrow> Inl (AdapterFault ''aruco_id must be an unsigned 16-bit integer'')) (\<lambda>a.
     rbind (positive_integer interval_ns ''interval_ns'') (\<lambda>i.
       Inr \<lparr>pt_run_id = r, pt_aruco_id = a, pt_interval_ns = i,
            pt_last_pose_input_timestamp_ns = None, pt_last_position_xyz = None,
            pt_last_contact_timestamp_ns = None, pt_last_attachment_timestamp_ns = None,
            pt_contacts = [], pt_attachments = [], pt_poses = [], pt_accepted_poses = 0,
            pt_fault_reason = None\<rparr>)))"

definition tracker_latch :: "exn \<Rightarrow> payload_tracker \<Rightarrow> 'a result \<times> payload_tracker" where
  "tracker_latch e s =
     (case e of
        AdapterFault m \<Rightarrow>
          (let r = (case pt_fault_reason s of
                      Some old \<Rightarrow> old
                    | None \<Rightarrow> ''payload '' @ str_int (pt_aruco_id s) @ '' tracker faulted: '' @ m)
           in (Inl (AdapterFault r), s\<lparr>pt_fault_reason := Some r\<rparr>))
      | _ \<Rightarrow> (Inl e, s))"

text \<open>
  The finite-difference velocity: \<open>seconds\<close> first, then the components in order; any
  exception of the arithmetic propagates.
\<close>

fun velocity_items :: "pyval \<Rightarrow> pyval list \<Rightarrow> pyval list \<Rightarrow> pyval list result" where
  "velocity_items seconds (c # cs) (p # ps) =
     rbind (py_sub c p) (\<lambda>d. rbind (py_div d seconds) (\<lambda>q.
     rbind (velocity_items seconds cs ps) (\<lambda>qs. Inr (q # qs))))"
| "velocity_items seconds _ _ = Inr []"

definition payload_velocity ::
    "int \<Rightarrow> pyval list option \<Rightarrow> pyval list \<Rightarrow> pyval list result" where
  "payload_velocity interval_ns last_position position =
     (case last_position of
        None \<Rightarrow> Inr [VFloat (Fin 0), VFloat (Fin 0), VFloat (Fin 0)]
      | Some previous \<Rightarrow>
          rbind (py_div (VInt interval_ns) (VInt 1000000000)) (\<lambda>seconds.
          rbind (velocity_items seconds position previous) (\<lambda>v.
            validate_vector (VTuple v) ''linear_velocity_xyz'' 3)))"

text \<open>One pass of the loop of \<open>_drain\<close>: it breaks, raises, or emits one sample.\<close>

datatype drain_outcome =
    DrainBreak
  | DrainRaise exn payload_tracker
  | DrainEmit public_payload_state payload_tracker

text \<open>
  The contact a pose tick uses: \<open>Inr None\<close> is a \<open>break\<close>, \<open>Inr (Some c)\<close> the latest
  contact at or before the tick, once it is known to be the latest.
\<close>

definition tick_contact :: "int \<Rightarrow> payload_tracker \<Rightarrow> int option result" where
  "tick_contact timestamp_ns s =
     (let eligible = filter (\<lambda>stamp. stamp \<le> timestamp_ns) (dict_keys (pt_contacts s));
          later = (case pt_last_contact_timestamp_ns s of
                     None \<Rightarrow> False | Some l \<Rightarrow> timestamp_ns < l) in
      if eligible = [] then
        (if later then Inl (AdapterFault ''payload contact state is unknown'') else Inr None)
      else
        (let contact_ns = Max (set eligible) in
         if contact_ns \<noteq> timestamp_ns then
           (if \<not> later then Inr None
            else if pt_interval_ns s < timestamp_ns - contact_ns then
              Inl (AdapterFault ''payload contact is older than one sample'')
            else Inr (Some contact_ns))
         else Inr (Some contact_ns)))"

definition drain_once :: "payload_tracker \<Rightarrow> drain_outcome" where
  "drain_once s =
     (if pt_poses s = [] then DrainBreak
      else
        (let timestamp_ns = Min (set (dict_keys (pt_poses s))) in
         case map_of (pt_attachments s) timestamp_ns of
           None \<Rightarrow>
             if (case pt_last_attachment_timestamp_ns s of
                   None \<Rightarrow> False | Some l \<Rightarrow> timestamp_ns < l)
             then DrainRaise (AdapterFault ''payload joint truth is missing for pose tick'') s
             else DrainBreak
         | Some attached \<Rightarrow>
             (case tick_contact timestamp_ns s of
                Inl e \<Rightarrow> DrainRaise e s
              | Inr None \<Rightarrow> DrainBreak
              | Inr (Some contact_ns) \<Rightarrow>
                  (let (position, orientation) = the (map_of (pt_poses s) timestamp_ns);
                       s1 = s\<lparr>pt_poses := AList.delete timestamp_ns (pt_poses s),
                              pt_attachments := AList.delete timestamp_ns (pt_attachments s)\<rparr>;
                       grounded = the (map_of (pt_contacts s) contact_ns)
                   in case payload_velocity (pt_interval_ns s) (pt_last_position_xyz s) position of
                        Inl e \<Rightarrow> DrainRaise e s1
                      | Inr velocity \<Rightarrow>
                          DrainEmit
                            \<lparr>pp_run_id = pt_run_id s, pp_sim_timestamp_ns = timestamp_ns,
                             pp_aruco_id = pt_aruco_id s, pp_position_xyz = position,
                             pp_orientation_xyzw = orientation,
                             pp_linear_velocity_xyz = velocity, pp_grounded = grounded,
                             pp_attached = attached\<rparr>
                            (s1\<lparr>pt_last_position_xyz := Some position,
                                pt_accepted_poses := pt_accepted_poses s + 1,
                                pt_contacts := filter
                                  (\<lambda>(stamp, _). timestamp_ns - pt_interval_ns s \<le> stamp)
                                  (pt_contacts s)\<rparr>)))))"

lemma length_delete_less: "k \<in> set (dict_keys d) \<Longrightarrow> length (AList.delete k d) < length d"
  by (induction d) (auto simp: le_imp_less_Suc length_delete_le)

lemma drain_once_pops:
  assumes "drain_once s = DrainEmit p s'"
  shows "length (pt_poses s') < length (pt_poses s)"
proof -
  have ne: "pt_poses s \<noteq> []"
    using assms by (auto simp: drain_once_def)
  then have "Min (set (dict_keys (pt_poses s))) \<in> set (dict_keys (pt_poses s))"
    by (intro Min_in) auto
  from length_delete_less [OF this] show ?thesis
    using assms ne
    by (auto simp: drain_once_def Let_def split: option.splits sum.splits prod.splits if_splits)
qed

text \<open>The loop: each pass that emits removes one pose, so it ends.\<close>

function payload_drain ::
    "payload_tracker \<Rightarrow> public_payload_state list result \<times> payload_tracker" where
  "payload_drain s =
     (case drain_once s of
        DrainBreak \<Rightarrow> (Inr [], s)
      | DrainRaise e s' \<Rightarrow> (Inl e, s')
      | DrainEmit p s' \<Rightarrow> apfst (map_sum id (\<lambda>ps. p # ps)) (payload_drain s'))"
  by pat_completeness auto
termination
  by (relation "measure (length \<circ> pt_poses)") (auto dest: drain_once_pops)

declare payload_drain.simps [simp del]

text \<open>The shape of the three accepting methods: checks, assignments, drain, latch.\<close>

definition tracker_accept ::
    "(payload_tracker \<Rightarrow> payload_tracker result) \<Rightarrow> payload_tracker \<Rightarrow>
     public_payload_state list result \<times> payload_tracker" where
  "tracker_accept record_input s =
     (case pt_fault_reason s of
        Some r \<Rightarrow> (Inl (AdapterFault r), s)
      | None \<Rightarrow>
          (case record_input s of
             Inl e \<Rightarrow> tracker_latch e s
           | Inr s1 \<Rightarrow>
               (case payload_drain s1 of
                  (Inl e, s2) \<Rightarrow> tracker_latch e s2
                | (Inr ps, s2) \<Rightarrow> (Inr ps, s2))))"

definition contact_check :: "pyval \<Rightarrow> pyval \<Rightarrow> payload_tracker \<Rightarrow> (int \<times> bool) result" where
  "contact_check sim_timestamp_ns grounded s =
     rbind (positive_integer sim_timestamp_ns ''sim_timestamp_ns'') (\<lambda>t.
       case strict_bool grounded of
         None \<Rightarrow> Inl (AdapterFault ''grounded contact state must be a boolean'')
       | Some b \<Rightarrow>
           if (case pt_last_contact_timestamp_ns s of None \<Rightarrow> False | Some l \<Rightarrow> t \<le> l)
           then Inl (AdapterFault ''contact timestamps must increase'')
           else Inr (t, b))"

definition tracker_accept_contact ::
    "pyval \<Rightarrow> pyval \<Rightarrow> payload_tracker \<Rightarrow> public_payload_state list result \<times> payload_tracker" where
  "tracker_accept_contact sim_timestamp_ns grounded =
     tracker_accept (\<lambda>s.
       rbind (contact_check sim_timestamp_ns grounded s) (\<lambda>(t, b).
         Inr (s\<lparr>pt_last_contact_timestamp_ns := Some t,
                pt_contacts := AList.update t b (pt_contacts s)\<rparr>)))"

definition joint_flag :: "pyval \<Rightarrow> bool result" where
  "joint_flag physical_state =
     (case strict_bool physical_state of
        Some b \<Rightarrow> Inr b
      | None \<Rightarrow>
          if physical_state = VStr ''attached'' then Inr True
          else if physical_state = VStr ''detached'' then Inr False
          else Inl (AdapterFault ''physical joint state must be exactly attached or detached''))"

text \<open>The exact advance the joint truth and the pose share, with their own messages.\<close>

definition exact_advance ::
    "int \<Rightarrow> int option \<Rightarrow> int \<Rightarrow> string \<Rightarrow> string \<Rightarrow> unit result" where
  "exact_advance interval_ns last_ns t first_message next_message =
     (case last_ns of
        None \<Rightarrow> guard (t \<noteq> interval_ns) (AdapterFault (first_message @ str_int interval_ns @ '' ns''))
      | Some l \<Rightarrow> guard (t - l \<noteq> interval_ns) (AdapterFault (next_message @ str_int interval_ns @ '' ns'')))"

definition attachment_check :: "pyval \<Rightarrow> pyval \<Rightarrow> payload_tracker \<Rightarrow> (int \<times> bool) result" where
  "attachment_check sim_timestamp_ns physical_state s =
     rbind (positive_integer sim_timestamp_ns ''sim_timestamp_ns'') (\<lambda>t.
     rbind (joint_flag physical_state) (\<lambda>b.
     rbind (exact_advance (pt_interval_ns s) (pt_last_attachment_timestamp_ns s) t
              ''first joint truth must be exactly ''
              ''joint truth timestamps must advance by exactly '') (\<lambda>_.
       Inr (t, b))))"

definition tracker_accept_attachment ::
    "pyval \<Rightarrow> pyval \<Rightarrow> payload_tracker \<Rightarrow> public_payload_state list result \<times> payload_tracker" where
  "tracker_accept_attachment sim_timestamp_ns physical_state =
     tracker_accept (\<lambda>s.
       rbind (attachment_check sim_timestamp_ns physical_state s) (\<lambda>(t, b).
         Inr (s\<lparr>pt_last_attachment_timestamp_ns := Some t,
                pt_attachments := AList.update t b (pt_attachments s)\<rparr>)))"

definition pose_check :: "pyval \<Rightarrow> pyval \<Rightarrow> pyval \<Rightarrow> payload_tracker \<Rightarrow> (int \<times> pose) result" where
  "pose_check sim_timestamp_ns position_xyz orientation_xyzw s =
     rbind (positive_integer sim_timestamp_ns ''sim_timestamp_ns'') (\<lambda>t.
     rbind (validate_vector position_xyz ''position_xyz'' 3) (\<lambda>p.
     rbind (validate_vector orientation_xyzw ''orientation_xyzw'' 4) (\<lambda>q.
     rbind (exact_advance (pt_interval_ns s) (pt_last_pose_input_timestamp_ns s) t
              ''first payload pose must be exactly ''
              ''payload pose timestamps must advance by exactly '') (\<lambda>_.
       Inr (t, p, q)))))"

definition tracker_accept_pose ::
    "pyval \<Rightarrow> pyval \<Rightarrow> pyval \<Rightarrow> payload_tracker \<Rightarrow>
     public_payload_state list result \<times> payload_tracker" where
  "tracker_accept_pose sim_timestamp_ns position_xyz orientation_xyzw =
     tracker_accept (\<lambda>s.
       rbind (pose_check sim_timestamp_ns position_xyz orientation_xyzw s) (\<lambda>(t, pose).
         Inr (s\<lparr>pt_last_pose_input_timestamp_ns := Some t,
                pt_poses := AList.update t pose (pt_poses s)\<rparr>)))"

datatype tracker_op =
    TrackContact pyval pyval
  | TrackAttachment pyval pyval
  | TrackPose pyval pyval pyval

fun tracker_step ::
    "tracker_op \<Rightarrow> payload_tracker \<Rightarrow> public_payload_state list result \<times> payload_tracker" where
  "tracker_step (TrackContact v b) s = tracker_accept_contact v b s"
| "tracker_step (TrackAttachment v a) s = tracker_accept_attachment v a s"
| "tracker_step (TrackPose v p q) s = tracker_accept_pose v p q s"

interpretation tracker_fault: fault_latch tracker_step pt_fault_reason
proof unfold_locales
  fix s :: payload_tracker and r x
  assume "pt_fault_reason s = Some r"
  then show "tracker_step x s = (Inl (AdapterFault r), s)"
    by (cases x) (simp_all add: tracker_accept_contact_def tracker_accept_attachment_def
        tracker_accept_pose_def tracker_accept_def)
next
  fix x r and s s' :: payload_tracker
  assume "tracker_step x s = (Inl (AdapterFault r), s')"
  then show "pt_fault_reason s' = Some r"
    by (cases x) (auto simp: tracker_accept_contact_def tracker_accept_attachment_def
        tracker_accept_pose_def tracker_accept_def tracker_latch_def Let_def
        split: option.splits sum.splits exn.splits prod.splits)
qed

end
