(* ===== verification/Gz_Tracker_Inv.thy ===== *)
theory Gz_Tracker_Inv
  imports Gz_Payload_Tracker
begin

text \<open>
  Correctness of \<open>PayloadTracker\<close> against the histories of its inputs: the \<open>k\<close>-th
  published sample joins the \<open>k\<close>-th pose with the \<open>k\<close>-th joint state and with the
  latest contact at or before its tick. Also the codec of the joint state and the split of
  the timestamp in the ROS message.
\<close>

section \<open>Histories on a grid\<close>

text \<open>The entries \<open>xs\<close> under the keys \<open>i, 2i, 3i, \<dots>\<close>.\<close>

definition indexed :: "int \<Rightarrow> 'a list \<Rightarrow> (int, 'a) dict" where
  "indexed i xs = zip (map (\<lambda>k. (int k + 1) * i) [0..<length xs]) xs"

lemma length_indexed [simp]: "length (indexed i xs) = length xs"
  by (simp add: indexed_def)

lemma indexed_snoc:
  "indexed i (xs @ [x]) = indexed i xs @ [((int (length xs) + 1) * i, x)]"
  by (simp add: indexed_def)

lemma indexed_nth [simp]: "k < length xs \<Longrightarrow> indexed i xs ! k = ((int k + 1) * i, xs ! k)"
  by (simp add: indexed_def)

lemma indexed_drop:
  "m < length xs \<Longrightarrow>
     drop m (indexed i xs) = ((int m + 1) * i, xs ! m) # drop (Suc m) (indexed i xs)"
  by (simp add: Cons_nth_drop_Suc [symmetric])

lemma indexed_drop_keys:
  "set (dict_keys (drop m (indexed i xs))) = {(int k + 1) * i | k. m \<le> k \<and> k < length xs}"
proof -
  have "dict_keys (indexed i xs) = map (\<lambda>k. (int k + 1) * i) [0..<length xs]"
    by (simp add: indexed_def)
  then have "dict_keys (drop m (indexed i xs)) = map (\<lambda>k. (int k + 1) * i) [m..<length xs]"
    by (metis add_0 drop_map drop_upt)
  then show ?thesis by auto
qed

lemma indexed_next_key:
  fixes i :: int
  assumes "0 < i" and "m \<le> length xs"
  shows "(int (length xs) + 1) * i \<notin> set (dict_keys (drop m (indexed i xs)))"
    and "(int m + 1) * i \<notin> set (dict_keys (drop (Suc m) (indexed i xs)))"
  using assms unfolding indexed_drop_keys by auto

lemma indexed_update:
  fixes i :: int
  assumes "0 < i" and "m \<le> length xs"
  shows "AList.update ((int (length xs) + 1) * i) x (drop m (indexed i xs))
    = drop m (indexed i (xs @ [x]))"
  using assms indexed_next_key(1) [OF assms] by (simp add: update_new indexed_snoc)

lemma indexed_delete:
  fixes i :: int
  assumes "0 < i" and "m < length xs"
  shows "AList.delete ((int m + 1) * i) (drop m (indexed i xs)) = drop (Suc m) (indexed i xs)"
  using assms indexed_next_key(2) [of i m xs] by (simp add: indexed_drop delete_id)

lemma indexed_Min:
  fixes i :: int
  assumes "0 < i" and "m < length xs"
  shows "Min (set (dict_keys (drop m (indexed i xs)))) = (int m + 1) * i"
proof (rule Min_eqI)
  show "finite (set (dict_keys (drop m (indexed i xs))))" by simp
  show "(int m + 1) * i \<in> set (dict_keys (drop m (indexed i xs)))"
    using assms(2) unfolding indexed_drop_keys by auto
  fix y assume "y \<in> set (dict_keys (drop m (indexed i xs)))"
  then show "(int m + 1) * i \<le> y"
    using assms(1) unfolding indexed_drop_keys by auto
qed

section \<open>The tracker's invariant\<close>

text \<open>
  \<open>tracker_inv P A C m s\<close>: the poses \<open>P\<close>, joint states \<open>A\<close> and contacts \<open>C\<close> were
  recorded, and \<open>m\<close> samples published. The contacts kept are those from some bound on.
\<close>

definition last_stamp :: "int \<Rightarrow> 'a list \<Rightarrow> int option" where
  "last_stamp i xs = (if xs = [] then None else Some (int (length xs) * i))"

definition contacts_inv :: "(int \<times> bool) list \<Rightarrow> payload_tracker \<Rightarrow> bool" where
  "contacts_inv C s \<longleftrightarrow>
     sorted_wrt (<) (map fst C)
     \<and> pt_last_contact_timestamp_ns s = (if C = [] then None else Some (fst (last C)))
     \<and> (\<exists>B. pt_contacts s = filter (\<lambda>(u, _). B \<le> u) C)"

definition tracker_inv ::
    "pose list \<Rightarrow> bool list \<Rightarrow> (int \<times> bool) list \<Rightarrow> nat \<Rightarrow> payload_tracker \<Rightarrow> bool" where
  "tracker_inv P A C m s \<longleftrightarrow>
     0 < pt_interval_ns s \<and> m \<le> length P \<and> m \<le> length A
     \<and> pt_poses s = drop m (indexed (pt_interval_ns s) P)
     \<and> pt_attachments s = drop m (indexed (pt_interval_ns s) A)
     \<and> pt_last_pose_input_timestamp_ns s = last_stamp (pt_interval_ns s) P
     \<and> pt_last_attachment_timestamp_ns s = last_stamp (pt_interval_ns s) A
     \<and> pt_last_position_xyz s = (if m = 0 then None else Some (fst (P ! (m - 1))))
     \<and> contacts_inv C s"

text \<open>
  The contact that sample \<open>t\<close> must use: recorded at or before \<open>t\<close>, not older than one
  interval, and the latest such one, which is settled because it is at \<open>t\<close> itself or a
  later contact was recorded.
\<close>

definition settled_contact :: "int \<Rightarrow> (int \<times> bool) list \<Rightarrow> int \<Rightarrow> bool \<Rightarrow> bool" where
  "settled_contact i C t grounded \<longleftrightarrow>
     (\<exists>c. (c, grounded) \<in> set C \<and> c \<le> t \<and> t - c \<le> i
        \<and> (\<forall>u \<in> fst ` set C. u \<le> t \<longrightarrow> u \<le> c)
        \<and> (c = t \<or> (\<exists>u \<in> fst ` set C. t < u)))"

text \<open>The \<open>k\<close>-th published sample.\<close>

definition joined_sample ::
    "payload_tracker \<Rightarrow> pose list \<Rightarrow> bool list \<Rightarrow> (int \<times> bool) list \<Rightarrow> nat \<Rightarrow>
     public_payload_state \<Rightarrow> bool" where
  "joined_sample s P A C k p \<longleftrightarrow>
     k < length P \<and> k < length A
     \<and> pp_run_id p = pt_run_id s \<and> pp_aruco_id p = pt_aruco_id s
     \<and> pp_sim_timestamp_ns p = (int k + 1) * pt_interval_ns s
     \<and> pp_position_xyz p = fst (P ! k) \<and> pp_orientation_xyzw p = snd (P ! k)
     \<and> pp_attached p = A ! k
     \<and> payload_velocity (pt_interval_ns s) (if k = 0 then None else Some (fst (P ! (k - 1))))
          (fst (P ! k)) = Inr (pp_linear_velocity_xyz p)
     \<and> settled_contact (pt_interval_ns s) C ((int k + 1) * pt_interval_ns s) (pp_grounded p)"

definition same_config :: "payload_tracker \<Rightarrow> payload_tracker \<Rightarrow> bool" where
  "same_config s s' \<longleftrightarrow> pt_run_id s' = pt_run_id s \<and> pt_aruco_id s' = pt_aruco_id s
     \<and> pt_interval_ns s' = pt_interval_ns s"

lemma same_config_refl [simp]: "same_config s s"
  by (simp add: same_config_def)

lemma same_config_trans: "same_config s s' \<Longrightarrow> same_config s' s'' \<Longrightarrow> same_config s s''"
  by (simp add: same_config_def)

lemma joined_sample_config: "same_config s s' \<Longrightarrow> joined_sample s' P A C k p = joined_sample s P A C k p"
  by (simp add: joined_sample_def same_config_def)

section \<open>One pass of the drain\<close>

lemma contacts_inv_last:
  assumes "contacts_inv C s"
  shows "(case pt_last_contact_timestamp_ns s of None \<Rightarrow> False | Some l \<Rightarrow> t < l) \<longleftrightarrow>
     (\<exists>u \<in> fst ` set C. t < u)"
proof (cases "C = []")
  case True
  then show ?thesis using assms by (simp add: contacts_inv_def)
next
  case False
  have "fst c \<le> fst (last C)" if "c \<in> set C" for c
    using assms that False
    by (cases C rule: rev_cases) (auto simp: contacts_inv_def sorted_wrt_append)
  then show ?thesis
    using assms False by (auto simp: contacts_inv_def intro: bexI [of _ "last C"]) fastforce
qed

lemma tick_contact_settled:
  assumes inv: "contacts_inv C s" and i: "0 < pt_interval_ns s"
    and c: "tick_contact t s = Inr (Some c)"
  shows "settled_contact (pt_interval_ns s) C t (the (map_of (pt_contacts s) c))"
proof -
  let ?e = "filter (\<lambda>stamp. stamp \<le> t) (dict_keys (pt_contacts s))"
  obtain B where B: "pt_contacts s = filter (\<lambda>(u, _). B \<le> u) C"
    using inv by (auto simp: contacts_inv_def)
  have e: "?e \<noteq> []" "c = Max (set ?e)"
      "c = t \<or> t - c \<le> pt_interval_ns s \<and> (\<exists>u \<in> fst ` set C. t < u)"
    using c contacts_inv_last [OF inv, of t]
    by (auto simp: tick_contact_def Let_def split: if_splits)
  have "c \<in> set ?e"
    unfolding e(2) using e(1) by (intro Max_in) (simp_all only: set_empty finite_set not_False_eq_True)
  then have mem: "c \<le> t" "c \<in> set (dict_keys (pt_contacts s))"
    by auto
  then obtain b where b: "map_of (pt_contacts s) c = Some b"
    by (cases "map_of (pt_contacts s) c") (auto simp: map_of_eq_None_iff)
  then have bC: "(c, b) \<in> set C" "B \<le> c"
    using map_of_SomeD [OF b] by (auto simp: B)
  have "u \<le> c" if u: "(u, b') \<in> set C" "u \<le> t" for u b'
  proof (cases "B \<le> u")
    case True
    then have "u \<in> set ?e" using u by (force simp: B)
    then show ?thesis unfolding e(2) by (intro Max_ge) auto
  next
    case False
    then show ?thesis using bC(2) by simp
  qed
  then show ?thesis
    unfolding settled_contact_def b option.sel
    using bC(1) mem(1) e(3) i by (intro exI [of _ c]) auto
qed

lemma tracker_inv_emit:
  assumes inv: "tracker_inv P A C m s" and emit: "drain_once s = DrainEmit p s'"
  shows "tracker_inv P A C (Suc m) s'" and "joined_sample s P A C m p" and "same_config s s'"
    and "pt_fault_reason s' = pt_fault_reason s"
proof -
  let ?i = "pt_interval_ns s"
  let ?t = "(int m + 1) * ?i"
  have i: "0 < ?i" and poses: "pt_poses s = drop m (indexed ?i P)"
    and att: "pt_attachments s = drop m (indexed ?i A)" and con: "contacts_inv C s"
    using inv by (auto simp: tracker_inv_def)
  have ne: "pt_poses s \<noteq> []"
    using emit by (auto simp: drain_once_def)
  then have m: "m < length P"
    using poses by (cases "m < length P") simp_all
  have min: "Min (set (dict_keys (pt_poses s))) = ?t"
    unfolding poses by (rule indexed_Min [OF i m])
  have "map_of (pt_attachments s) ?t \<noteq> None"
    using emit ne unfolding drain_once_def Let_def min
    by (cases "map_of (pt_attachments s) ?t") (simp_all split: if_splits)
  then have mA: "m < length A"
    using inv by (cases "m < length A") (simp_all add: att)
  have p: "map_of (pt_poses s) ?t = Some (P ! m)"
    unfolding poses indexed_drop [OF m] by simp
  have a: "map_of (pt_attachments s) ?t = Some (A ! m)"
    unfolding att indexed_drop [OF mA] by simp
  obtain c v where c: "tick_contact ?t s = Inr (Some c)"
    and v: "payload_velocity ?i (pt_last_position_xyz s) (fst (P ! m)) = Inr v"
    and pp: "p = \<lparr>pp_run_id = pt_run_id s, pp_sim_timestamp_ns = ?t, pp_aruco_id = pt_aruco_id s,
      pp_position_xyz = fst (P ! m), pp_orientation_xyzw = snd (P ! m),
      pp_linear_velocity_xyz = v, pp_grounded = the (map_of (pt_contacts s) c),
      pp_attached = A ! m\<rparr>"
    and s': "s' = s\<lparr>pt_poses := AList.delete ?t (pt_poses s),
      pt_attachments := AList.delete ?t (pt_attachments s),
      pt_last_position_xyz := Some (fst (P ! m)), pt_accepted_poses := pt_accepted_poses s + 1,
      pt_contacts := filter (\<lambda>(stamp, _). ?t - ?i \<le> stamp) (pt_contacts s)\<rparr>"
    using emit ne unfolding drain_once_def Let_def min a p
    by (auto split: if_splits sum.splits option.splits prod.splits)
  show "joined_sample s P A C m p"
    using m mA v inv tick_contact_settled [OF con i c]
    by (simp add: joined_sample_def pp tracker_inv_def)
  show "same_config s s'" "pt_fault_reason s' = pt_fault_reason s"
    by (simp_all add: s' same_config_def)
  obtain B where "pt_contacts s = filter (\<lambda>(u, _). B \<le> u) C"
    using con by (auto simp: contacts_inv_def)
  then have "pt_contacts s' = filter (\<lambda>(u, _). max B (?t - ?i) \<le> u) C"
    by (auto simp: s' intro: filter_cong)
  moreover have "pt_last_contact_timestamp_ns s' = pt_last_contact_timestamp_ns s"
    by (simp add: s')
  ultimately have "contacts_inv C s'"
    using con unfolding contacts_inv_def by metis
  then show "tracker_inv P A C (Suc m) s'"
    using inv m mA unfolding tracker_inv_def
    by (simp add: s' indexed_delete [OF i] poses att)
qed

lemma tracker_inv_drain:
  assumes "tracker_inv P A C m s" and "payload_drain s = (r, s')"
  shows "same_config s s' \<and> pt_fault_reason s' = pt_fault_reason s
    \<and> (\<forall>ps. r = Inr ps \<longrightarrow> tracker_inv P A C (m + length ps) s'
         \<and> (\<forall>k < length ps. joined_sample s P A C (m + k) (ps ! k)))"
  using assms
proof (induction s arbitrary: m r rule: payload_drain.induct)
  case (1 s)
  show ?case
  proof (cases "drain_once s")
    case DrainBreak
    then show ?thesis using "1.prems" by (auto simp: payload_drain.simps [of s])
  next
    case (DrainRaise e s1)
    then have "same_config s s1" "pt_fault_reason s1 = pt_fault_reason s"
      by (auto simp: drain_once_def same_config_def Let_def
          split: if_splits option.splits sum.splits prod.splits)
    then show ?thesis
      using "1.prems"(2) DrainRaise by (auto simp: payload_drain.simps [of s])
  next
    case (DrainEmit p s1)
    note emit = tracker_inv_emit [OF "1.prems"(1) DrainEmit]
    obtain r1 where r1: "payload_drain s1 = (r1, s')" "r = map_sum id (\<lambda>ps. p # ps) r1"
      using "1.prems"(2) DrainEmit by (cases "payload_drain s1") (auto simp: payload_drain.simps [of s])
    note IH = "1.IH" [OF DrainEmit emit(1) r1(1)]
    have cfg: "same_config s s'" "pt_fault_reason s' = pt_fault_reason s"
      using IH emit(3,4) same_config_trans by auto
    have "tracker_inv P A C (m + length ps) s'
        \<and> (\<forall>k < length ps. joined_sample s P A C (m + k) (ps ! k))" if r: "r = Inr ps" for ps
    proof -
      obtain qs where qs: "r1 = Inr qs" "ps = p # qs"
        using r r1(2) by (cases r1) auto
      have "joined_sample s P A C (m + k) (ps ! k)" if k: "k < length ps" for k
      proof (cases k)
        case 0
        then show ?thesis using emit(2) qs by simp
      next
        case (Suc j)
        then have "joined_sample s1 P A C (Suc m + j) (qs ! j)"
          using IH qs k by simp
        then show ?thesis
          using Suc qs joined_sample_config [OF emit(3)] by simp
      qed
      then show ?thesis using IH qs by simp
    qed
    with cfg show ?thesis by blast
  qed
qed

section \<open>Recording an input\<close>

text \<open>What a call adds to the histories of poses, joint states and contacts.\<close>

type_synonym history = "pose list \<times> bool list \<times> (int \<times> bool) list"

fun tracker_recorded :: "tracker_op \<Rightarrow> payload_tracker \<Rightarrow> history" where
  "tracker_recorded (TrackPose v p q) s =
     (case pose_check v p q s of Inr (_, pose) \<Rightarrow> ([pose], [], []) | Inl _ \<Rightarrow> ([], [], []))"
| "tracker_recorded (TrackAttachment v a) s =
     (case attachment_check v a s of Inr (_, b) \<Rightarrow> ([], [b], []) | Inl _ \<Rightarrow> ([], [], []))"
| "tracker_recorded (TrackContact v g) s =
     (case contact_check v g s of Inr (t, b) \<Rightarrow> ([], [], [(t, b)]) | Inl _ \<Rightarrow> ([], [], []))"

definition history_append :: "history \<Rightarrow> history \<Rightarrow> history" where
  "history_append h h' =
     (fst h @ fst h', fst (snd h) @ fst (snd h'), snd (snd h) @ snd (snd h'))"

lemma exact_advance_Inr:
  "exact_advance i l t a b = Inr u \<longleftrightarrow> (case l of None \<Rightarrow> t = i | Some l \<Rightarrow> t = l + i)"
  by (auto simp: exact_advance_def split: option.splits)

lemma advance_last_stamp:
  fixes i :: int
  assumes "case last_stamp i xs of None \<Rightarrow> t = i | Some l \<Rightarrow> t = l + i"
  shows "t = (int (length xs) + 1) * i" and "last_stamp i (xs @ [x]) = Some t"
  using assms by (auto simp: last_stamp_def distrib_right split: if_splits)

lemma tracker_inv_pose:
  assumes inv: "tracker_inv P A C m s" and chk: "pose_check v p q s = Inr (t, pose)"
  shows "tracker_inv (P @ [pose]) A C m
    (s\<lparr>pt_last_pose_input_timestamp_ns := Some t, pt_poses := AList.update t pose (pt_poses s)\<rparr>)"
proof -
  have "case last_stamp (pt_interval_ns s) P of
      None \<Rightarrow> t = pt_interval_ns s | Some l \<Rightarrow> t = l + pt_interval_ns s"
    using inv chk by (auto simp: pose_check_def tracker_inv_def exact_advance_Inr)
  note t = advance_last_stamp [OF this]
  have upd: "AList.update t pose (pt_poses s) = drop m (indexed (pt_interval_ns s) (P @ [pose]))"
    using inv unfolding t(1) by (simp add: tracker_inv_def indexed_update)
  have prev: "m \<noteq> 0 \<Longrightarrow> (P @ [pose]) ! (m - 1) = P ! (m - 1)"
    using inv by (auto simp: tracker_inv_def nth_append)
  show ?thesis
    using inv upd prev by (simp add: tracker_inv_def contacts_inv_def t(2))
qed

lemma tracker_inv_attachment:
  assumes inv: "tracker_inv P A C m s" and chk: "attachment_check v a s = Inr (t, b)"
  shows "tracker_inv P (A @ [b]) C m
    (s\<lparr>pt_last_attachment_timestamp_ns := Some t,
       pt_attachments := AList.update t b (pt_attachments s)\<rparr>)"
proof -
  have "case last_stamp (pt_interval_ns s) A of
      None \<Rightarrow> t = pt_interval_ns s | Some l \<Rightarrow> t = l + pt_interval_ns s"
    using inv chk by (auto simp: attachment_check_def tracker_inv_def exact_advance_Inr)
  note t = advance_last_stamp [OF this]
  have upd: "AList.update t b (pt_attachments s) = drop m (indexed (pt_interval_ns s) (A @ [b]))"
    using inv unfolding t(1) by (simp add: tracker_inv_def indexed_update)
  show ?thesis
    using inv upd by (simp add: tracker_inv_def contacts_inv_def t(2))
qed

lemma tracker_inv_contact:
  assumes inv: "tracker_inv P A C m s" and chk: "contact_check v g s = Inr (t, b)"
  shows "tracker_inv P A (C @ [(t, b)]) m
    (s\<lparr>pt_last_contact_timestamp_ns := Some t, pt_contacts := AList.update t b (pt_contacts s)\<rparr>)"
    and "sorted_wrt (<) (map fst (C @ [(t, b)]))"
proof -
  have con: "contacts_inv C s" using inv by (simp add: tracker_inv_def)
  have "\<not> (case pt_last_contact_timestamp_ns s of None \<Rightarrow> False | Some l \<Rightarrow> t - 1 < l)"
    using chk by (auto simp: contact_check_def rbind_def simp del: rbind_eq_Inr
        split: option.splits if_splits sum.splits)
  then have "\<not> (\<exists>u \<in> fst ` set C. t - 1 < u)"
    by (simp only: contacts_inv_last [OF con] not_False_eq_True)
  then have new: "\<And>u. u \<in> fst ` set C \<Longrightarrow> u < t"
    by fastforce
  then show srt: "sorted_wrt (<) (map fst (C @ [(t, b)]))"
    using con by (auto simp: contacts_inv_def sorted_wrt_append)
  obtain B where B: "pt_contacts s = filter (\<lambda>(u, _). B \<le> u) C"
    using con by (auto simp: contacts_inv_def)
  have "t \<notin> set (dict_keys (pt_contacts s))"
    using new by (force simp: B)
  then have upd: "AList.update t b (pt_contacts s) = pt_contacts s @ [(t, b)]"
    by (rule update_new)
  have "\<exists>B'. pt_contacts s @ [(t, b)] = filter (\<lambda>(u, _). B' \<le> u) (C @ [(t, b)])"
  proof (cases "B \<le> t")
    case True
    then show ?thesis by (intro exI [of _ B]) (simp add: B)
  next
    case False
    then have "pt_contacts s = []"
      using new by (force simp: B filter_empty_conv)
    moreover have "filter (\<lambda>(u, _). t \<le> u) C = []"
      using new by (force simp: filter_empty_conv)
    ultimately show ?thesis by (intro exI [of _ t]) simp
  qed
  then show "tracker_inv P A (C @ [(t, b)]) m
    (s\<lparr>pt_last_contact_timestamp_ns := Some t, pt_contacts := AList.update t b (pt_contacts s)\<rparr>)"
    using inv srt by (simp add: tracker_inv_def contacts_inv_def upd)
qed

section \<open>Runs\<close>

text \<open>The histories a run records; a faulted tracker records nothing.\<close>

fun tracker_history :: "tracker_op list \<Rightarrow> payload_tracker \<Rightarrow> history" where
  "tracker_history [] s = ([], [], [])"
| "tracker_history (x # xs) s =
     (if pt_fault_reason s \<noteq> None then ([], [], [])
      else history_append (tracker_recorded x s) (tracker_history xs (snd (tracker_step x s))))"

definition history_sample ::
    "payload_tracker \<Rightarrow> history \<Rightarrow> nat \<Rightarrow> public_payload_state \<Rightarrow> bool" where
  "history_sample s h k p \<longleftrightarrow> joined_sample s (fst h) (fst (snd h)) (snd (snd h)) k p"

definition history_inv :: "history \<Rightarrow> nat \<Rightarrow> payload_tracker \<Rightarrow> bool" where
  "history_inv h m s \<longleftrightarrow> tracker_inv (fst h) (fst (snd h)) (snd (snd h)) m s"

definition history_sorted :: "history \<Rightarrow> bool" where
  "history_sorted h \<longleftrightarrow> sorted_wrt (<) (map fst (snd (snd h)))"

lemma history_append_assoc:
  "history_append (history_append a b) c = history_append a (history_append b c)"
  by (simp add: history_append_def)

lemma history_append_Nil [simp]: "history_append h ([], [], []) = h"
  by (simp add: history_append_def)

lemma history_sample_config:
  "same_config s s' \<Longrightarrow> history_sample s' h k p \<Longrightarrow> history_sample s h k p"
  by (simp add: history_sample_def joined_sample_config)

lemma history_inv_sorted: "history_inv h m s \<Longrightarrow> history_sorted h"
  by (simp add: history_inv_def history_sorted_def tracker_inv_def contacts_inv_def)

lemma settled_contact_mono:
  assumes "settled_contact i C t g" and "sorted_wrt (<) (map fst (C @ C'))"
  shows "settled_contact i (C @ C') t g"
proof -
  obtain c where c: "(c, g) \<in> set C" "c \<le> t" "t - c \<le> i"
      "\<forall>u \<in> fst ` set C. u \<le> t \<longrightarrow> u \<le> c" "c = t \<or> (\<exists>u \<in> fst ` set C. t < u)"
    using assms(1) unfolding settled_contact_def by blast
  have "t < u" if u: "u \<in> fst ` set C'" for u
  proof -
    have "v < u" if "v \<in> fst ` set C" for v
      using assms(2) u that by (auto simp: sorted_wrt_append)
    then show ?thesis using c(1,5) by force
  qed
  then have new: "\<And>u b. (u, b) \<in> set C' \<Longrightarrow> t < u"
    by force
  show ?thesis
    using c unfolding settled_contact_def
    by (intro exI [of _ c]) (auto simp: image_Un dest: new)
qed

lemma history_sample_mono:
  assumes "history_sample s h k p" and "history_sorted (history_append h h')"
  shows "history_sample s (history_append h h') k p"
  using assms settled_contact_mono
  by (auto simp: history_sample_def history_append_def history_sorted_def joined_sample_def
      nth_append)

lemma tracker_accept_Inr:
  assumes "tracker_accept f s = (Inr ps, s')" and "history_inv h m s1" and "f s = Inr s1"
    and "same_config s s1" and "pt_fault_reason s1 = pt_fault_reason s"
  shows "history_inv h (m + length ps) s'" and "same_config s s'"
    and "pt_fault_reason s' = None" and "\<forall>k < length ps. history_sample s h (m + k) (ps ! k)"
proof -
  have none: "pt_fault_reason s = None" and d: "payload_drain s1 = (Inr ps, s')"
    using assms(1,3) by (auto simp: tracker_accept_def tracker_latch_def Let_def
        split: option.splits prod.splits sum.splits exn.splits)
  note drain = tracker_inv_drain [OF assms(2) [unfolded history_inv_def] d]
  show "history_inv h (m + length ps) s'" "same_config s s'" "pt_fault_reason s' = None"
    using drain assms(4,5) none same_config_trans by (auto simp: history_inv_def)
  show "\<forall>k < length ps. history_sample s h (m + k) (ps ! k)"
    using drain joined_sample_config [OF assms(4)] by (auto simp: history_sample_def)
qed

lemma tracker_accept_check:
  assumes "tracker_accept f s = (Inr ps, s')"
  shows "\<exists>s1. f s = Inr s1"
  using assms
  by (auto simp: tracker_accept_def tracker_latch_def Let_def
      split: option.splits prod.splits sum.splits exn.splits)

lemma tracker_step_Inr:
  assumes inv: "history_inv h m s" and res: "tracker_step x s = (Inr ps, s')"
  shows "history_inv (history_append h (tracker_recorded x s)) (m + length ps) s'
    \<and> same_config s s' \<and> pt_fault_reason s' = None
    \<and> (\<forall>k < length ps. history_sample s (history_append h (tracker_recorded x s)) (m + k) (ps ! k))"
proof (cases x)
  case (TrackContact v g)
  note acc = res [unfolded TrackContact tracker_step.simps tracker_accept_contact_def]
  from tracker_accept_check [OF acc] obtain t b where chk: "contact_check v g s = Inr (t, b)"
    by (auto split: prod.splits)
  note inv1 = tracker_inv_contact(1) [OF inv [unfolded history_inv_def] chk]
  show ?thesis
    using tracker_accept_Inr [OF acc, of "history_append h (tracker_recorded x s)" m,
        OF _ _ _ _] inv1 chk TrackContact
    by (simp add: history_inv_def history_append_def same_config_def)
next
  case (TrackAttachment v a)
  note acc = res [unfolded TrackAttachment tracker_step.simps tracker_accept_attachment_def]
  from tracker_accept_check [OF acc] obtain t b where chk: "attachment_check v a s = Inr (t, b)"
    by (auto split: prod.splits)
  note inv1 = tracker_inv_attachment [OF inv [unfolded history_inv_def] chk]
  show ?thesis
    using tracker_accept_Inr [OF acc, of "history_append h (tracker_recorded x s)" m,
        OF _ _ _ _] inv1 chk TrackAttachment
    by (simp add: history_inv_def history_append_def same_config_def)
next
  case (TrackPose v p q)
  note acc = res [unfolded TrackPose tracker_step.simps tracker_accept_pose_def]
  from tracker_accept_check [OF acc] obtain t pose where chk: "pose_check v p q s = Inr (t, pose)"
    by (auto split: prod.splits)
  note inv1 = tracker_inv_pose [OF inv [unfolded history_inv_def] chk]
  show ?thesis
    using tracker_accept_Inr [OF acc, of "history_append h (tracker_recorded x s)" m,
        OF _ _ _ _] inv1 chk TrackPose
    by (simp add: history_inv_def history_append_def same_config_def)
qed

definition only_faults :: "'a result list \<Rightarrow> bool" where
  "only_faults rs \<longleftrightarrow> list_all (\<lambda>r. case r of Inl (AdapterFault _) \<Rightarrow> True | Inl _ \<Rightarrow> False | Inr _ \<Rightarrow> True) rs"

lemma tracker_recorded_sorted:
  assumes "history_inv h m s"
  shows "history_sorted (history_append h (tracker_recorded x s))"
proof (cases x)
  case (TrackContact v g)
  show ?thesis
  proof (cases "contact_check v g s")
    case (Inr r)
    then obtain t b where "contact_check v g s = Inr (t, b)" by (cases r) auto
    then show ?thesis
      using tracker_inv_contact(2) [OF assms [unfolded history_inv_def]] TrackContact
      by (simp add: history_sorted_def history_append_def)
  qed (use TrackContact history_inv_sorted [OF assms] in simp)
qed (use history_inv_sorted [OF assms] in
  \<open>auto simp: history_sorted_def history_append_def split: sum.splits prod.splits\<close>)

lemma tracker_run:
  assumes "history_inv h m s" and "pt_fault_reason s = None"
    and "only_faults (fst (run_ops tracker_step ops s))"
  shows "history_sorted (history_append h (tracker_history ops s))
    \<and> (\<forall>k < length (returned (fst (run_ops tracker_step ops s))).
         history_sample s (history_append h (tracker_history ops s)) (m + k)
           (returned (fst (run_ops tracker_step ops s)) ! k))"
  using assms
proof (induction ops arbitrary: h m s)
  case Nil
  then show ?case by (simp add: history_inv_sorted)
next
  case (Cons x ops)
  let ?h = "history_append h (tracker_recorded x s)"
  obtain r s' where step: "tracker_step x s = (r, s')" by (cases "tracker_step x s") auto
  have hist: "history_append h (tracker_history (x # ops) s) =
      history_append ?h (tracker_history ops s')"
    using Cons.prems(2) step by (simp add: history_append_assoc)
  show ?case
  proof (cases r)
    case (Inl e)
    then obtain msg where e: "e = AdapterFault msg"
      using Cons.prems(3) step by (auto simp: only_faults_def split: exn.splits)
    then have f: "pt_fault_reason s' = Some msg"
      using tracker_fault.latches step Inl by blast
    then have "tracker_history ops s' = ([], [], [])" by (cases ops) simp_all
    moreover have "returned (fst (run_ops tracker_step (x # ops) s)) = []"
      using tracker_fault.run_latched [OF f] step Inl by simp
    ultimately show ?thesis
      unfolding hist using tracker_recorded_sorted [OF Cons.prems(1)] by simp
  next
    case (Inr ps)
    note s' = tracker_step_Inr [OF Cons.prems(1) step [unfolded Inr]]
    have rs: "returned (fst (run_ops tracker_step (x # ops) s)) =
        ps @ returned (fst (run_ops tracker_step ops s'))"
      using step Inr by simp
    have "only_faults (fst (run_ops tracker_step ops s'))"
      using Cons.prems(3) step Inr by (simp add: only_faults_def)
    note IH = Cons.IH [OF conjunct1 [OF s'] conjunct1 [OF conjunct2 [OF conjunct2 [OF s']]] this]
    note srt = conjunct1 [OF IH] and rest = conjunct2 [OF IH, rule_format]
    note now = conjunct2 [OF conjunct2 [OF conjunct2 [OF s']], rule_format]
      and cfg = conjunct1 [OF conjunct2 [OF s']]
    have "history_sample s (history_append ?h (tracker_history ops s')) (m + k)
        ((ps @ returned (fst (run_ops tracker_step ops s'))) ! k)"
      if k: "k < length (ps @ returned (fst (run_ops tracker_step ops s')))" for k
    proof (cases "k < length ps")
      case True
      then show ?thesis
        using history_sample_mono [OF now srt] by (simp add: nth_append)
    next
      case False
      have "history_sample s (history_append ?h (tracker_history ops s'))
          (m + length ps + (k - length ps)) (returned (fst (run_ops tracker_step ops s')) ! (k - length ps))"
        by (rule history_sample_config [OF cfg], rule rest) (use False k in auto)
      then show ?thesis
        using False by (simp add: nth_append)
    qed
    then show ?thesis unfolding hist rs using srt by blast
  qed
qed

lemma PayloadTracker_inv:
  assumes "PayloadTracker run_id aruco_id interval_ns = Inr s"
  shows "history_inv ([], [], []) 0 s" and "pt_fault_reason s = None"
  using assms
  by (auto simp: PayloadTracker_def history_inv_def tracker_inv_def contacts_inv_def
      last_stamp_def indexed_def)

section \<open>The codec of the joint state\<close>

lemma split_joint_state:
  assumes "CHR ''|'' \<notin> set a" and "CHR ''|'' \<notin> set b"
  shows "split_on (CHR ''|'') (a @ CHR ''|'' # b @ CHR ''|'' # c) = [a, b, c] \<longleftrightarrow> CHR ''|'' \<notin> set c"
proof -
  have "split_on (CHR ''|'') (a @ CHR ''|'' # b @ CHR ''|'' # c) = a # b # split_on (CHR ''|'') c"
    using assms by (simp add: split_on_append)
  moreover have "split_on (CHR ''|'') c = [c] \<longleftrightarrow> CHR ''|'' \<notin> set c"
    using split_on_no_sep split_on_parts by (metis list.set_intros(1))
  ultimately show ?thesis by simp
qed

lemma int_of_str_bound:
  assumes "int_of_str (str_int t) = Some t" and "0 \<le> t"
  shows "length (str_int t) \<le> int_max_str_digits"
proof -
  have "filter is_digit (str_int t) = str_int t"
    using assms(2) str_int_chars by (auto simp: filter_id_conv)
  moreover have "strip (str_int t) = str_int t"
    using assms(2) by (simp add: str_int_def)
  ultimately show ?thesis
    using assms(1) by (auto simp: int_of_str_def Let_def not_less split: if_splits)
qed

lemma str_int_no_bar: "0 \<le> t \<Longrightarrow> CHR ''|'' \<notin> set (str_int t)"
  using str_int_chars [of t "CHR ''|''"] by (auto simp: is_digit_def)

section \<open>Properties\<close>

text \<open>
  C30. Exact join. A payload tracker whose calls raise no other exception than
  \<open>AdapterFault\<close> publishes, over all calls and in whatever order poses, joint states and
  contacts arrive, samples of which the \<open>k\<close>-th carries the tick \<open>(k + 1) i\<close>, the \<open>k\<close>-th
  accepted pose, the \<open>k\<close>-th accepted joint state, the finite-difference velocity, and the
  state of the latest contact at or before the tick, which is at most one interval old.
\<close>

theorem payload_samples_exact:
  assumes "PayloadTracker run_id aruco_id interval_ns = Inr s"
    and "only_faults (fst (run_ops tracker_step ops s))"
    and "k < length (returned (fst (run_ops tracker_step ops s)))"
  shows "history_sample s (tracker_history ops s) k (returned (fst (run_ops tracker_step ops s)) ! k)"
proof -
  have "history_append ([], [], []) h = h" for h
    by (simp add: history_append_def)
  with tracker_run [OF PayloadTracker_inv [OF assms(1)] assms(2)] assms(3) show ?thesis
    by simp
qed

definition sample_payload_tracker :: payload_tracker where
  "sample_payload_tracker = \<lparr>pt_run_id = sample_run_id, pt_aruco_id = 7, pt_interval_ns = 50000000,
     pt_last_pose_input_timestamp_ns = None, pt_last_position_xyz = None,
     pt_last_contact_timestamp_ns = None, pt_last_attachment_timestamp_ns = None,
     pt_contacts = [], pt_attachments = [], pt_poses = [], pt_accepted_poses = 0,
     pt_fault_reason = None\<rparr>"

definition sample_track :: "tracker_op list" where
  "sample_track = [TrackContact (VInt 50000000) (VBool True),
     TrackAttachment (VInt 50000000) (VStr ''attached''),
     TrackPose (VInt 50000000) (VTuple [VInt 1, VInt 2, VInt 3])
       (VTuple [VInt 0, VInt 0, VInt 0, VInt 1])]"

lemma sample_track_run:
  "fst (run_ops tracker_step sample_track sample_payload_tracker) = [Inr [], Inr [], Inr
     [\<lparr>pp_run_id = sample_run_id, pp_sim_timestamp_ns = 50000000, pp_aruco_id = 7,
       pp_position_xyz = [VInt 1, VInt 2, VInt 3],
       pp_orientation_xyzw = [VInt 0, VInt 0, VInt 0, VInt 1],
       pp_linear_velocity_xyz = [VFloat (Fin 0), VFloat (Fin 0), VFloat (Fin 0)],
       pp_grounded = True, pp_attached = True\<rparr>]]"
  by (simp add: sample_track_def sample_payload_tracker_def tracker_accept_contact_def
      tracker_accept_attachment_def tracker_accept_pose_def tracker_accept_def contact_check_def
      attachment_check_def pose_check_def positive_integer_def joint_flag_def exact_advance_def
      validate_vector_def payload_drain.simps drain_once_def tick_contact_def
      payload_velocity_def Let_def)

theorem payload_samples_exact_witness:
  "history_sample sample_payload_tracker (tracker_history sample_track sample_payload_tracker) 0
     (returned (fst (run_ops tracker_step sample_track sample_payload_tracker)) ! 0)
   \<and> length (returned (fst (run_ops tracker_step sample_track sample_payload_tracker))) = 1"
proof -
  have "PayloadTracker (VStr sample_run_id) (VInt 7) (VInt 50000000) = Inr sample_payload_tracker"
    by (simp add: PayloadTracker_def sample_payload_tracker_def adapter_canonical_run_id_def)
  moreover have "only_faults (fst (run_ops tracker_step sample_track sample_payload_tracker))"
    by (simp add: sample_track_run only_faults_def)
  moreover have len: "length (returned (fst (run_ops tracker_step sample_track sample_payload_tracker))) = 1"
    by (simp add: sample_track_run)
  ultimately show ?thesis
    using payload_samples_exact [of "VStr sample_run_id" "VInt 7" "VInt 50000000"
        sample_payload_tracker sample_track 0] by simp
qed

text \<open>
  Joint state codec. \<open>parse_joint_state\<close> accepts exactly the texts
  \<open>payload-joint-state-v1|<timestamp>|<state>\<close> with a nonnegative timestamp in canonical
  decimal of at most 4300 digits and the state attached or detached, and returns that
  timestamp and state.
\<close>

theorem parse_joint_state_exact:
  "parse_joint_state v = Inr (t, st) \<longleftrightarrow>
     v = VStr (JOINT_STATE_PREFIX @ ''|'' @ str_int t @ ''|'' @ st)
     \<and> 0 \<le> t \<and> length (str_int t) \<le> int_max_str_digits \<and> st \<in> {''attached'', ''detached''}"
proof
  assume parse: "parse_joint_state v = Inr (t, st)"
  then obtain s where v: "v = VStr s"
    by (auto simp: parse_joint_state_def split: option.splits)
  have parts: "split_on (CHR ''|'') s = [JOINT_STATE_PREFIX, str_int t, st]"
      and st: "int_of_str (str_int t) = Some t" "0 \<le> t" "st = ''attached'' \<or> st = ''detached''"
    using parse v by (auto simp: parse_joint_state_def split: list.splits option.splits if_splits)
  have "s = join_with (CHR ''|'') [JOINT_STATE_PREFIX, str_int t, st]"
    using parts by (metis join_with_split_on)
  then show "v = VStr (JOINT_STATE_PREFIX @ ''|'' @ str_int t @ ''|'' @ st)
     \<and> 0 \<le> t \<and> length (str_int t) \<le> int_max_str_digits \<and> st \<in> {''attached'', ''detached''}"
    using v st int_of_str_bound by auto
next
  assume canon: "v = VStr (JOINT_STATE_PREFIX @ ''|'' @ str_int t @ ''|'' @ st)
     \<and> 0 \<le> t \<and> length (str_int t) \<le> int_max_str_digits \<and> st \<in> {''attached'', ''detached''}"
  then have "split_on (CHR ''|'') (JOINT_STATE_PREFIX @ CHR ''|'' # str_int t @ CHR ''|'' # st)
      = [JOINT_STATE_PREFIX, str_int t, st]"
    by (subst split_joint_state) (auto simp: str_int_no_bar JOINT_STATE_PREFIX_def)
  then show "parse_joint_state v = Inr (t, st)"
    using canon int_of_str_str_int by (auto simp: parse_joint_state_def)
qed

end
