(* ===== verification/Runtime_Status.thy ===== *)
theory Runtime_Status
  imports Py_Prelude
begin

text \<open>
  The typed runtime statuses the modules exchange and their strict wire contract,
  \<open>artifacts/runtime_status.py\<close>. A status is its class, its run identity and the values of
  its constructor fields in order; the registry gives every class its name, its fixed
  fields, its constructor fields with their codecs, and its derived fields.

  A field that must hold an instance of a class of the sources is \<open>None\<close> when it holds
  something else. Values are trees, so the sources' guards against recursive containers
  and against the interpreter's recursion limit have no counterpart here.
\<close>

section \<open>Common checks\<close>

definition status_error :: "string \<Rightarrow> 'a result" where
  "status_error m = Inl (RuntimeStatusError m)"

definition canonical_run_id :: "pyval \<Rightarrow> string result" where
  "canonical_run_id v =
     (case strict_str v of
        Some s \<Rightarrow> if canonical_uuid s then Inr s else status_error ''run_id must be a canonical UUID''
      | None \<Rightarrow> status_error ''run_id must be a canonical UUID'')"

fun nonneg_int :: "pyval \<Rightarrow> bool" where
  "nonneg_int (VInt i) = (0 \<le> i)"
| "nonneg_int _ = False"

fun int_value :: "pyval \<Rightarrow> int" where
  "int_value (VInt i) = i"
| "int_value _ = 0"

definition require_timestamp :: "pyval \<Rightarrow> unit result" where
  "require_timestamp v =
     (if nonneg_int v then Inr () else status_error ''sim_timestamp_ns must be a nonnegative integer'')"

definition valid_diagnostic_path :: "pyval \<Rightarrow> bool" where
  "valid_diagnostic_path v =
     (case strict_str v of
        None \<Rightarrow> False
      | Some s \<Rightarrow> s \<noteq> [] \<and> CHR 0x5C \<notin> set s \<and> hd s \<noteq> CHR ''/''
          \<and> list_all (\<lambda>c. c \<notin> {'''', ''.'', ''..''}) (split_on (CHR ''/'') s))"

section \<open>FlightExchange\<close>

record flight_exchange =
  fe_online :: pyval
  fe_servo_packets_received :: pyval
  fe_motor_updates :: pyval
  fe_duplicate_servo_packets :: pyval
  fe_servo_frame_gaps :: pyval
  fe_json_states_sent :: pyval
  fe_json_send_errors :: pyval
  fe_last_servo_frame :: pyval
  fe_last_json_sim_time_ns :: pyval

definition flight_counters :: "flight_exchange \<Rightarrow> pyval list" where
  "flight_counters x =
     [fe_servo_packets_received x, fe_motor_updates x, fe_duplicate_servo_packets x,
      fe_servo_frame_gaps x, fe_json_states_sent x, fe_json_send_errors x,
      fe_last_servo_frame x, fe_last_json_sim_time_ns x]"

definition flight_post_init :: "flight_exchange \<Rightarrow> unit result" where
  "flight_post_init x =
     (if fe_online x \<noteq> VBool True then status_error ''flight exchange must be online''
      else if \<not> list_all nonneg_int (flight_counters x) then
        status_error ''flight exchange counters must be nonnegative integers''
      else if int_value (fe_servo_packets_received x) < 1 \<or> int_value (fe_motor_updates x) < 1
              \<or> int_value (fe_json_states_sent x) < 1 then
        status_error ''flight exchange progress counters must be positive''
      else if fe_servo_frame_gaps x \<noteq> VInt 0 \<or> fe_json_send_errors x \<noteq> VInt 0 then
        status_error ''flight exchange error counters must be zero''
      else Inr ())"

text \<open>The fields by name, in the order of the dataclass.\<close>

definition flight_fields :: "flight_exchange \<Rightarrow> (string \<times> pyval) list" where
  "flight_fields x =
     [(''online'', fe_online x), (''servo_packets_received'', fe_servo_packets_received x),
      (''motor_updates'', fe_motor_updates x),
      (''duplicate_servo_packets'', fe_duplicate_servo_packets x),
      (''servo_frame_gaps'', fe_servo_frame_gaps x), (''json_states_sent'', fe_json_states_sent x),
      (''json_send_errors'', fe_json_send_errors x), (''last_servo_frame'', fe_last_servo_frame x),
      (''last_json_sim_time_ns'', fe_last_json_sim_time_ns x)]"

definition FLIGHT_EXCHANGE_KEYS :: "string list" where
  "FLIGHT_EXCHANGE_KEYS =
     [''online'', ''servo_packets_received'', ''motor_updates'', ''duplicate_servo_packets'',
      ''servo_frame_gaps'', ''json_states_sent'', ''json_send_errors'', ''last_servo_frame'',
      ''last_json_sim_time_ns'']"

text \<open>A JSON object: string keys.\<close>

definition json_object :: "(string \<times> pyval) list \<Rightarrow> pyval" where
  "json_object d = VDict (map (apfst VStr) d)"

text \<open>Subscripting a dictionary whose key set was checked before.\<close>

definition item :: "(pyval \<times> pyval) list \<Rightarrow> string \<Rightarrow> pyval" where
  "item d k = (case map_of d (VStr k) of Some v \<Rightarrow> v | None \<Rightarrow> VNone)"

definition has_keys :: "(pyval \<times> pyval) list \<Rightarrow> string list \<Rightarrow> bool" where
  "has_keys d ks \<longleftrightarrow> set (dict_keys d) = set (map VStr ks)"

definition flight_document :: "flight_exchange \<Rightarrow> pyval result" where
  "flight_document x = rbind (flight_post_init x) (\<lambda>_. Inr (json_object (flight_fields x)))"

definition parse_flight_exchange :: "pyval \<Rightarrow> flight_exchange result" where
  "parse_flight_exchange v =
     (case v of
        VDict d \<Rightarrow>
          if \<not> has_keys d FLIGHT_EXCHANGE_KEYS then
            status_error ''runtime status has an invalid schema''
          else
            (let x = \<lparr>fe_online = item d ''online'',
                      fe_servo_packets_received = item d ''servo_packets_received'',
                      fe_motor_updates = item d ''motor_updates'',
                      fe_duplicate_servo_packets = item d ''duplicate_servo_packets'',
                      fe_servo_frame_gaps = item d ''servo_frame_gaps'',
                      fe_json_states_sent = item d ''json_states_sent'',
                      fe_json_send_errors = item d ''json_send_errors'',
                      fe_last_servo_frame = item d ''last_servo_frame'',
                      fe_last_json_sim_time_ns = item d ''last_json_sim_time_ns''\<rparr>
             in rbind (flight_post_init x) (\<lambda>_. Inr x))
      | _ \<Rightarrow> status_error ''runtime status has an invalid schema'')"

section \<open>Artifact records\<close>

datatype validation_status = VALID | MISSING | INVALID

fun validation_value :: "validation_status \<Rightarrow> string" where
  "validation_value VALID = ''valid''"
| "validation_value MISSING = ''missing''"
| "validation_value INVALID = ''invalid''"

definition ValidationStatus :: "string \<Rightarrow> validation_status option" where
  "ValidationStatus s =
     (if s = ''valid'' then Some VALID else if s = ''missing'' then Some MISSING
      else if s = ''invalid'' then Some INVALID else None)"

text \<open>The copy of a semantic value: tuples become lists, everything must be JSON.\<close>

fun copy_semantic_value :: "pyval \<Rightarrow> pyval result"
  and copy_semantic_list :: "pyval list \<Rightarrow> pyval list result"
  and copy_semantic_items :: "(pyval \<times> pyval) list \<Rightarrow> (pyval \<times> pyval) list result" where
  "copy_semantic_value VNone = Inr VNone"
| "copy_semantic_value (VBool b) = Inr (VBool b)"
| "copy_semantic_value (VInt i) = Inr (VInt i)"
| "copy_semantic_value (VStr s) = Inr (VStr s)"
| "copy_semantic_value (VFloat f) =
     (if isfinite f then Inr (VFloat f) else status_error ''semantic floats must be finite'')"
| "copy_semantic_value (VDict d) = rbind (copy_semantic_items d) (\<lambda>c. Inr (VDict c))"
| "copy_semantic_value (VList xs) = rbind (copy_semantic_list xs) (\<lambda>ys. Inr (VList ys))"
| "copy_semantic_value (VTuple xs) = rbind (copy_semantic_list xs) (\<lambda>ys. Inr (VList ys))"
| "copy_semantic_value (VBytes _) = status_error ''semantic value is not JSON-compatible''"
| "copy_semantic_value (VObj _) = status_error ''semantic value is not JSON-compatible''"
| "copy_semantic_list [] = Inr []"
| "copy_semantic_list (x # xs) =
     rbind (copy_semantic_value x) (\<lambda>y. rbind (copy_semantic_list xs) (\<lambda>ys. Inr (y # ys)))"
| "copy_semantic_items [] = Inr []"
| "copy_semantic_items ((k, v) # d) =
     (case k of
        VStr s \<Rightarrow> rbind (copy_semantic_value v) (\<lambda>w.
                 rbind (copy_semantic_items d) (\<lambda>c. Inr ((VStr s, w) # c)))
      | _ \<Rightarrow> status_error ''semantic mapping keys must be strings'')"

definition copy_semantic_mapping :: "pyval \<Rightarrow> pyval result" where
  "copy_semantic_mapping v =
     (case v of
        VDict d \<Rightarrow> rbind (copy_semantic_value (VDict d)) (\<lambda>c.
          if c = VDict [] then status_error ''artifact semantic must be nonempty'' else Inr c)
      | _ \<Rightarrow> status_error ''artifact semantic must be a mapping'')"

record artifact_final_record =
  fr_relative_path :: pyval
  fr_status :: "validation_status option"
  fr_detail :: pyval
  fr_size_bytes :: pyval
  fr_sha256 :: pyval
  fr_semantic :: pyval

definition lowercase_digest :: "pyval \<Rightarrow> bool" where
  "lowercase_digest v =
     (case strict_str v of None \<Rightarrow> False | Some s \<Rightarrow> length s = 64 \<and> list_all is_lower_hex s)"

definition record_post_init :: "artifact_final_record \<Rightarrow> unit result" where
  "record_post_init r =
     (if strict_str (fr_relative_path r) = None then
        status_error ''artifact relative_path must be a string''
      else if fr_status r = None then status_error ''artifact status must be a ValidationStatus''
      else if strict_str (fr_detail r) \<in> {None, Some ''''} then
        status_error ''artifact detail must be a nonempty string''
      else if fr_size_bytes r \<noteq> VNone \<and> \<not> nonneg_int (fr_size_bytes r) then
        status_error ''artifact size must be a nonnegative integer''
      else if fr_sha256 r \<noteq> VNone \<and> \<not> lowercase_digest (fr_sha256 r) then
        status_error ''artifact sha256 must be a lowercase digest''
      else
        (let both_present = fr_size_bytes r \<noteq> VNone \<and> fr_sha256 r \<noteq> VNone;
             both_absent = fr_size_bytes r = VNone \<and> fr_sha256 r = VNone in
         if fr_status r = Some VALID \<and> \<not> both_present then
           status_error ''valid artifacts require size and sha256''
         else if fr_status r \<noteq> Some VALID \<and> \<not> (both_present \<or> both_absent) then
           status_error ''artifact size and sha256 must both be present or absent''
         else rbind (copy_semantic_mapping (fr_semantic r)) (\<lambda>_. Inr ())))"

definition ARTIFACT_RECORD_KEYS :: "string list" where
  "ARTIFACT_RECORD_KEYS =
     [''relative_path'', ''status'', ''detail'', ''size_bytes'', ''sha256'', ''semantic'']"

definition record_document :: "artifact_final_record \<Rightarrow> pyval result" where
  "record_document r =
     rbind (record_post_init r) (\<lambda>_.
     rbind (copy_semantic_mapping (fr_semantic r)) (\<lambda>semantic.
       Inr (json_object
         [(''relative_path'', fr_relative_path r),
          (''status'', VStr (validation_value (the (fr_status r)))),
          (''detail'', fr_detail r), (''size_bytes'', fr_size_bytes r),
          (''sha256'', fr_sha256 r), (''semantic'', semantic)])))"

definition record_schema :: "pyval \<Rightarrow> bool" where
  "record_schema v =
     (case v of
        VDict d \<Rightarrow> has_keys d ARTIFACT_RECORD_KEYS \<and> strict_str (item d ''status'') \<noteq> None
          \<and> (case item d ''semantic'' of VDict sem \<Rightarrow> sem \<noteq> [] | _ \<Rightarrow> False)
      | _ \<Rightarrow> False)"

definition parse_record :: "pyval \<Rightarrow> artifact_final_record result" where
  "parse_record v =
     (case v of
        VDict d \<Rightarrow>
          (case ValidationStatus (the (strict_str (item d ''status''))) of
             None \<Rightarrow> status_error ''artifact record status is invalid''
           | Some status \<Rightarrow>
               (let r = \<lparr>fr_relative_path = item d ''relative_path'', fr_status = Some status,
                         fr_detail = item d ''detail'', fr_size_bytes = item d ''size_bytes'',
                         fr_sha256 = item d ''sha256'', fr_semantic = item d ''semantic''\<rparr>
                in rbind (record_post_init r) (\<lambda>_. Inr r)))
      | _ \<Rightarrow> status_error ''artifact record has an invalid schema'')"

fun each :: "('a \<Rightarrow> 'b result) \<Rightarrow> 'a list \<Rightarrow> 'b list result" where
  "each f [] = Inr []"
| "each f (x # xs) = rbind (f x) (\<lambda>y. rbind (each f xs) (\<lambda>ys. Inr (y # ys)))"

definition parse_records :: "pyval \<Rightarrow> artifact_final_record list result" where
  "parse_records v =
     (case v of
        VList rs \<Rightarrow>
          if length rs \<noteq> 3 then
            status_error ''artifacts-final records must be a three-item list''
          else if \<not> list_all record_schema rs then
            status_error ''artifact record has an invalid schema''
          else each parse_record rs
      | _ \<Rightarrow> status_error ''artifacts-final records must be a three-item list'')"

definition ARTIFACT_FINAL_PATHS :: "string list" where
  "ARTIFACT_FINAL_PATHS = [''video/onboard.mp4'', ''video/observer.mp4'', ''rosbag'']"

section \<open>Statuses and their registry\<close>

datatype write_policy = IDENTICAL | FIRST_WINS | REPLACE

datatype status_type =
    ArtifactsReadyStatus | GazeboReadyStatus | ArduPilotReadyStatus | CompanionReadyStatus
  | MissionReadyStatus | MissionCommandDeliveredStatus | MissionExecutionReadyStatus
  | RuntimeRunningStatus | SourceFinishedStatus | MissionFinishedStatus | ScoreFinishedStatus
  | RuntimeFailureStatus | RuntimeFrozenStatus | ArtifactsFinalStatus | TerminalNotifiedStatus

datatype field_value =
    FieldVal pyval
  | FieldFlight "flight_exchange option"
  | FieldRecords "artifact_final_record option list option"

record runtime_status =
  rs_type :: status_type
  rs_run_id :: pyval
  rs_fields :: "field_value list"

fun status_name :: "status_type \<Rightarrow> string" where
  "status_name ArtifactsReadyStatus = ''artifacts-ready''"
| "status_name GazeboReadyStatus = ''gazebo-ready''"
| "status_name ArduPilotReadyStatus = ''ardupilot-ready''"
| "status_name CompanionReadyStatus = ''companion-ready''"
| "status_name MissionReadyStatus = ''mission-ready''"
| "status_name MissionCommandDeliveredStatus = ''mission-command-delivered''"
| "status_name MissionExecutionReadyStatus = ''mission-execution-ready''"
| "status_name RuntimeRunningStatus = ''runtime-running''"
| "status_name SourceFinishedStatus = ''source-finished''"
| "status_name MissionFinishedStatus = ''mission-finished''"
| "status_name ScoreFinishedStatus = ''score-finished''"
| "status_name RuntimeFailureStatus = ''runtime-failure''"
| "status_name RuntimeFrozenStatus = ''runtime-frozen''"
| "status_name ArtifactsFinalStatus = ''artifacts-final''"
| "status_name TerminalNotifiedStatus = ''terminal-notified''"

definition status_write_policy :: "status_type \<Rightarrow> write_policy" where
  "status_write_policy t = (if t = RuntimeFailureStatus then FIRST_WINS else IDENTICAL)"

fun fixed_fields :: "status_type \<Rightarrow> (string \<times> pyval) list" where
  "fixed_fields ArtifactsReadyStatus = [(''ready'', VBool True)]"
| "fixed_fields GazeboReadyStatus = [(''ready'', VBool True)]"
| "fixed_fields ArduPilotReadyStatus =
     [(''ready'', VBool True), (''json_exchange'', VBool True),
      (''mavlink_endpoint'', VStr ''tcp://ardupilot-sitl:5760'')]"
| "fixed_fields CompanionReadyStatus =
     [(''ready'', VBool True), (''mavlink_endpoint'', VStr ''tcp://ardupilot-sitl:5760''),
      (''mavlink_transport_connected'', VBool True)]"
| "fixed_fields MissionReadyStatus =
     [(''ready'', VBool True), (''heartbeat_observed'', VBool True),
      (''prearm_checks_healthy'', VBool True)]"
| "fixed_fields MissionCommandDeliveredStatus =
     [(''command'', VStr ''SET_GUIDED''), (''delivered'', VBool True)]"
| "fixed_fields MissionExecutionReadyStatus = [(''ready'', VBool True)]"
| "fixed_fields RuntimeRunningStatus = [(''state'', VStr ''RUNNING'')]"
| "fixed_fields SourceFinishedStatus = [(''finished'', VBool True)]"
| "fixed_fields MissionFinishedStatus = [(''finished'', VBool True), (''outcome'', VStr ''LANDED'')]"
| "fixed_fields ScoreFinishedStatus = [(''finished'', VBool True)]"
| "fixed_fields RuntimeFailureStatus = []"
| "fixed_fields RuntimeFrozenStatus = [(''frozen'', VBool True)]"
| "fixed_fields ArtifactsFinalStatus = []"
| "fixed_fields TerminalNotifiedStatus = [(''notified'', VBool True)]"

text \<open>The codec of a constructor field.\<close>

datatype field_codec = IdentityCodec | FlightCodec | PathsCodec | RecordsCodec

fun constructor_fields :: "status_type \<Rightarrow> (string \<times> field_codec) list" where
  "constructor_fields GazeboReadyStatus = [(''flight_exchange'', FlightCodec)]"
| "constructor_fields MissionCommandDeliveredStatus = [(''sim_timestamp_ns'', IdentityCodec)]"
| "constructor_fields MissionExecutionReadyStatus = [(''sim_timestamp_ns'', IdentityCodec)]"
| "constructor_fields RuntimeRunningStatus = [(''sim_timestamp_ns'', IdentityCodec)]"
| "constructor_fields SourceFinishedStatus = [(''sim_timestamp_ns'', IdentityCodec)]"
| "constructor_fields MissionFinishedStatus = [(''sim_timestamp_ns'', IdentityCodec)]"
| "constructor_fields ScoreFinishedStatus = [(''sim_timestamp_ns'', IdentityCodec)]"
| "constructor_fields RuntimeFailureStatus =
     [(''module'', IdentityCodec), (''reason'', IdentityCodec), (''diagnostic_paths'', PathsCodec)]"
| "constructor_fields ArtifactsFinalStatus = [(''records'', RecordsCodec)]"
| "constructor_fields _ = []"

definition derived_fields :: "status_type \<Rightarrow> string list" where
  "derived_fields t = (if t = ArtifactsFinalStatus then [''complete''] else [])"

section \<open>Validation of a status\<close>

definition failure_post_init :: "pyval \<Rightarrow> pyval \<Rightarrow> pyval \<Rightarrow> unit result" where
  "failure_post_init source reason paths =
     (if strict_str source \<in> {None, Some ''''} then
        status_error ''failure module must be a nonempty string''
      else if strict_str reason \<in> {None, Some ''''} then
        status_error ''failure reason must be a nonempty string''
      else case paths of
        VTuple ps \<Rightarrow>
          if \<not> list_all valid_diagnostic_path ps then
            status_error ''diagnostic path must be relative POSIX syntax''
          else if \<not> distinct ps then status_error ''diagnostic paths must be unique''
          else Inr ()
      | _ \<Rightarrow> status_error ''diagnostic_paths must be a tuple'')"

definition records_post_init :: "artifact_final_record option list option \<Rightarrow> unit result" where
  "records_post_init records =
     (case records of
        None \<Rightarrow> status_error ''artifacts-final requires exactly three records''
      | Some rs \<Rightarrow>
          if length rs \<noteq> 3 then status_error ''artifacts-final requires exactly three records''
          else if None \<in> set rs then
            status_error ''artifacts-final records must be ArtifactFinalRecord values''
          else if map (fr_relative_path \<circ> the) rs \<noteq> map VStr ARTIFACT_FINAL_PATHS then
            status_error ''artifacts-final records have the wrong paths or order''
          else Inr ())"

definition status_complete :: "artifact_final_record option list option \<Rightarrow> bool" where
  "status_complete records =
     (case records of
        None \<Rightarrow> False
      | Some rs \<Rightarrow> list_all (\<lambda>r. map_option fr_status r = Some (Some VALID)) rs)"

text \<open>The checks of the class after those of \<open>RuntimeStatus\<close>.\<close>

definition fields_post_init :: "status_type \<Rightarrow> field_value list \<Rightarrow> unit result" where
  "fields_post_init t fs =
     (case (t, fs) of
        (GazeboReadyStatus, [FieldFlight f]) \<Rightarrow>
          guard (f = None) (RuntimeStatusError ''flight_exchange must be a FlightExchange'')
      | (MissionCommandDeliveredStatus, [FieldVal v]) \<Rightarrow>
          rbind (require_timestamp v) (\<lambda>_.
            guard (50000000 < int_value v)
              (RuntimeStatusError ''mission command timestamp exceeds startup window''))
      | (MissionExecutionReadyStatus, [FieldVal v]) \<Rightarrow> require_timestamp v
      | (RuntimeRunningStatus, [FieldVal v]) \<Rightarrow> require_timestamp v
      | (SourceFinishedStatus, [FieldVal v]) \<Rightarrow> require_timestamp v
      | (MissionFinishedStatus, [FieldVal v]) \<Rightarrow> require_timestamp v
      | (ScoreFinishedStatus, [FieldVal v]) \<Rightarrow> require_timestamp v
      | (RuntimeFailureStatus, [FieldVal source, FieldVal reason, FieldVal paths]) \<Rightarrow>
          failure_post_init source reason paths
      | (ArtifactsFinalStatus, [FieldRecords rs]) \<Rightarrow> records_post_init rs
      | (_, []) \<Rightarrow>
          guard (constructor_fields t \<noteq> []) (TypeError ''missing constructor arguments'')
      | _ \<Rightarrow> Inl (TypeError ''wrong constructor arguments''))"

definition status_post_init :: "runtime_status \<Rightarrow> unit result" where
  "status_post_init st =
     rbind (canonical_run_id (rs_run_id st)) (\<lambda>_. fields_post_init (rs_type st) (rs_fields st))"

section \<open>Documents\<close>

fun encode_field :: "field_codec \<Rightarrow> field_value \<Rightarrow> pyval result" where
  "encode_field IdentityCodec (FieldVal v) = Inr v"
| "encode_field FlightCodec (FieldFlight (Some x)) = flight_document x"
| "encode_field PathsCodec (FieldVal (VTuple ps)) = Inr (VList ps)"
| "encode_field RecordsCodec (FieldRecords (Some rs)) =
     rbind (each (\<lambda>r. record_document (the r)) rs) (\<lambda>ds. Inr (VList ds))"
| "encode_field _ _ = Inl AttributeError"

fun decode_field :: "field_codec \<Rightarrow> pyval \<Rightarrow> field_value result" where
  "decode_field IdentityCodec v = Inr (FieldVal v)"
| "decode_field FlightCodec v = rbind (parse_flight_exchange v) (\<lambda>x. Inr (FieldFlight (Some x)))"
| "decode_field PathsCodec v =
     (case v of
        VList ps \<Rightarrow> Inr (FieldVal (VTuple ps))
      | _ \<Rightarrow> status_error ''diagnostic_paths must be a JSON list'')"
| "decode_field RecordsCodec v =
     rbind (parse_records v) (\<lambda>rs. Inr (FieldRecords (Some (map Some rs))))"

definition dict_update :: "('k, 'v) dict \<Rightarrow> ('k \<times> 'v) list \<Rightarrow> ('k, 'v) dict" where
  "dict_update d kvs = foldl (\<lambda>d (k, v). AList.update k v d) d kvs"

definition derive_field :: "runtime_status \<Rightarrow> pyval" where
  "derive_field st =
     (case rs_fields st of
        [FieldRecords rs] \<Rightarrow> VBool (status_complete rs)
      | _ \<Rightarrow> VBool False)"

definition status_document :: "runtime_status \<Rightarrow> (string, pyval) dict result" where
  "status_document st =
     rbind (status_post_init st) (\<lambda>_.
     rbind (canonical_run_id (rs_run_id st)) (\<lambda>rid.
     rbind (each (\<lambda>((name, codec), v). rbind (encode_field codec v) (\<lambda>e. Inr (name, e)))
              (zip (constructor_fields (rs_type st)) (rs_fields st))) (\<lambda>encoded.
       Inr (dict_update
              (dict_update (dict_update [(''run_id'', VStr rid)] (fixed_fields (rs_type st)))
                 encoded)
              (map (\<lambda>name. (name, derive_field st)) (derived_fields (rs_type st)))))))"

definition expected_keys :: "status_type \<Rightarrow> string list" where
  "expected_keys t =
     ''run_id'' # map fst (fixed_fields t) @ map fst (constructor_fields t) @ derived_fields t"

text \<open>
  \<open>type(expected) is bool\<close> compares by identity, anything else by \<open>==\<close>; the expected
  values are booleans and strings, for which both are equality of values.
\<close>

definition wire_value_matches :: "pyval \<Rightarrow> pyval \<Rightarrow> bool" where
  "wire_value_matches v expected \<longleftrightarrow> v = expected"

definition parse_values :: "status_type \<Rightarrow> (pyval \<times> pyval) list \<Rightarrow> field_value list result" where
  "parse_values t d = each (\<lambda>(name, codec). decode_field codec (item d name)) (constructor_fields t)"

definition parse_status :: "status_type \<Rightarrow> pyval \<Rightarrow> pyval \<Rightarrow> runtime_status result" where
  "parse_status t document expected_run_id =
     rbind (canonical_run_id expected_run_id) (\<lambda>rid.
       case document of
         VDict d \<Rightarrow>
           if \<not> has_keys d (expected_keys t) then
             status_error ''runtime status has an invalid schema''
           else rbind (canonical_run_id (item d ''run_id'')) (\<lambda>document_run_id.
             if document_run_id \<noteq> rid then status_error ''runtime status has the wrong run_id''
             else if \<not> list_all (\<lambda>(name, v). wire_value_matches (item d name) v) (fixed_fields t) then
               status_error ''runtime status has an invalid schema''
             else
               (case rbind (parse_values t d) (\<lambda>vs.
                       let st = \<lparr>rs_type = t, rs_run_id = VStr rid, rs_fields = vs\<rparr>
                       in rbind (status_post_init st) (\<lambda>_. Inr st)) of
                  Inl (RuntimeStatusError m) \<Rightarrow> status_error m
                | Inl (TypeError _) \<Rightarrow> status_error ''runtime status has invalid values''
                | Inl (ValueError _) \<Rightarrow> status_error ''runtime status has invalid values''
                | Inl e \<Rightarrow> Inl e
                | Inr st \<Rightarrow>
                    if \<not> list_all (\<lambda>name. wire_value_matches (item d name) (derive_field st))
                            (derived_fields t) then
                      status_error ''runtime status has an invalid derived field''
                    else Inr st))
       | _ \<Rightarrow> status_error ''runtime status has an invalid schema'')"

end
