(* ===== verification/Status_Codec.thy ===== *)
theory Status_Codec
  imports Runtime_Status
begin

text \<open>
  The wire contract of the runtime statuses: the document of every valid status parses back
  to it, for each of the fifteen classes, and everything that parses is a valid status of
  the requested class and run. The only change on the way is the documented copy of an
  artifact's semantic value, which turns tuples into lists.
\<close>

section \<open>Valid statuses and the normal form of a field\<close>

definition normal_record :: "artifact_final_record \<Rightarrow> artifact_final_record" where
  "normal_record r = r\<lparr>fr_semantic :=
     (case copy_semantic_mapping (fr_semantic r) of Inr c \<Rightarrow> c | Inl _ \<Rightarrow> fr_semantic r)\<rparr>"

fun normal_field :: "field_value \<Rightarrow> field_value" where
  "normal_field (FieldRecords (Some rs)) = FieldRecords (Some (map (map_option normal_record) rs))"
| "normal_field f = f"

definition normal :: "runtime_status \<Rightarrow> runtime_status" where
  "normal st = st\<lparr>rs_fields := map normal_field (rs_fields st)\<rparr>"

fun field_ok :: "field_value \<Rightarrow> bool" where
  "field_ok (FieldVal v) = True"
| "field_ok (FieldFlight x) = (case x of None \<Rightarrow> False | Some x \<Rightarrow> flight_post_init x = Inr ())"
| "field_ok (FieldRecords rs) =
     (case rs of
        None \<Rightarrow> False
      | Some rs \<Rightarrow> list_all (\<lambda>r. case r of None \<Rightarrow> False | Some r \<Rightarrow> record_post_init r = Inr ()) rs)"

text \<open>A status object: its own validation passed, and so did that of the objects it holds.\<close>

definition status_ok :: "runtime_status \<Rightarrow> bool" where
  "status_ok st \<longleftrightarrow> status_post_init st = Inr () \<and> list_all field_ok (rs_fields st)"

section \<open>Dictionaries with string keys\<close>

lemma item_json:
  "item (map (apfst VStr) d) k = (case map_of d k of Some v \<Rightarrow> v | None \<Rightarrow> VNone)"
  by (induction d) (auto simp: item_def)

lemma item_json_member: "dict_ok d \<Longrightarrow> (k, v) \<in> set d \<Longrightarrow> item (map (apfst VStr) d) k = v"
  by (simp add: item_json)

lemma has_keys_json: "has_keys (map (apfst VStr) d) ks \<longleftrightarrow> set (map fst d) = set ks"
proof -
  have "set (map fst (map (apfst VStr) d)) = VStr ` set (map fst d)"
    by (auto simp: image_iff)
  then show ?thesis
    by (simp add: has_keys_def inj_image_eq_iff inj_def)
qed

lemma dict_update_append: "dict_ok (d @ kvs) \<Longrightarrow> dict_update d kvs = d @ kvs"
  unfolding dict_update_def
proof (induction kvs arbitrary: d)
  case (Cons kv kvs)
  obtain k v where kv: "kv = (k, v)" by (cases kv) auto
  then have "AList.update k v d = d @ [(k, v)]"
    using Cons.prems by (intro update_new) auto
  with Cons.IH [of "d @ [(k, v)]"] Cons.prems kv show ?case by simp
qed simp

section \<open>The codecs\<close>

lemma flight_roundtrip:
  assumes "flight_post_init x = Inr ()"
  shows "\<exists>e. flight_document x = Inr e \<and> parse_flight_exchange e = Inr x"
  using assms
  by (cases x) (auto simp: flight_document_def parse_flight_exchange_def json_object_def has_keys_def
      flight_fields_def FLIGHT_EXCHANGE_KEYS_def item_def Let_def)

lemma copy_idem:
  "copy_semantic_value v = Inr w \<Longrightarrow> copy_semantic_value w = Inr w"
  "copy_semantic_list xs = Inr ys \<Longrightarrow> copy_semantic_list ys = Inr ys"
  "copy_semantic_items d = Inr c \<Longrightarrow> copy_semantic_items c = Inr c"
  by (induction v and xs and d arbitrary: w and ys and c
      rule: copy_semantic_value_copy_semantic_list_copy_semantic_items.induct)
    (auto simp: status_error_def split: if_splits pyval.splits)

lemma copy_mapping_idem:
  assumes "copy_semantic_mapping v = Inr w"
  shows "copy_semantic_mapping w = Inr w \<and> (\<exists>d. w = VDict d \<and> d \<noteq> [])"
proof -
  obtain d c where "v = VDict d" "copy_semantic_items d = Inr c" "w = VDict c" "c \<noteq> []"
    using assms by (auto simp: copy_semantic_mapping_def status_error_def
        split: pyval.splits if_splits)
  then show ?thesis
    using copy_idem(3) by (auto simp: copy_semantic_mapping_def)
qed

lemma ValidationStatus_value [simp]: "ValidationStatus (validation_value v) = Some v"
  by (cases v) (simp_all add: ValidationStatus_def)

lemma record_post_init_normal:
  assumes "record_post_init r = Inr ()"
  shows "record_post_init (normal_record r) = Inr ()"
    and "\<exists>c. copy_semantic_mapping (fr_semantic r) = Inr c"
proof -
  obtain c where c: "copy_semantic_mapping (fr_semantic r) = Inr c"
    using assms by (auto simp: record_post_init_def status_error_def Let_def split: if_splits)
  then show "\<exists>c. copy_semantic_mapping (fr_semantic r) = Inr c" by blast
  show "record_post_init (normal_record r) = Inr ()"
    using assms c copy_mapping_idem [OF c]
    by (auto simp: record_post_init_def normal_record_def status_error_def Let_def
        split: if_splits)
qed

lemma record_roundtrip:
  assumes ok: "record_post_init r = Inr ()"
  shows "\<exists>e. record_document r = Inr e \<and> record_schema e \<and> parse_record e = Inr (normal_record r)"
proof -
  obtain c where c: "copy_semantic_mapping (fr_semantic r) = Inr c"
    using record_post_init_normal(2) [OF ok] by blast
  obtain d where d: "c = VDict d" "d \<noteq> []"
    using copy_mapping_idem [OF c] by blast
  obtain status where st: "fr_status r = Some status"
    using ok by (auto simp: record_post_init_def status_error_def split: if_splits)
  show ?thesis
    using ok record_post_init_normal(1) [OF ok] c d st
    by (cases r) (auto simp: record_document_def record_schema_def parse_record_def json_object_def
        has_keys_def ARTIFACT_RECORD_KEYS_def item_def normal_record_def Let_def)
qed

lemma each_Inr:
  "each f xs = Inr ys \<longleftrightarrow> list_all2 (\<lambda>x y. f x = Inr y) xs ys"
  by (induction xs arbitrary: ys) (auto simp: list_all2_Cons1)

lemma records_roundtrip:
  assumes "list_all (\<lambda>r. case r of None \<Rightarrow> False | Some r \<Rightarrow> record_post_init r = Inr ()) rs"
  shows "\<exists>ds. each (\<lambda>r. record_document (the r)) rs = Inr ds \<and> length ds = length rs
    \<and> list_all record_schema ds \<and> each parse_record ds = Inr (map (normal_record \<circ> the) rs)"
  using assms
proof (induction rs)
  case (Cons r rs)
  then obtain r' where r': "r = Some r'" "record_post_init r' = Inr ()"
    by (auto split: option.splits)
  from record_roundtrip [OF r'(2)] Cons r' show ?case by auto
qed simp

lemma normal_record_fields [simp]:
  "fr_relative_path (normal_record r) = fr_relative_path r"
  "fr_status (normal_record r) = fr_status r"
  by (simp_all add: normal_record_def)

lemma normal_records:
  "list_all (\<lambda>r. case r of None \<Rightarrow> False | Some r \<Rightarrow> P r) rs \<Longrightarrow>
     map Some (map (normal_record \<circ> the) rs) = map (map_option normal_record) rs"
  by (induction rs) (auto split: option.splits)

section \<open>Fields\<close>

text \<open>What the validation of a class says about the shape of its fields.\<close>

definition field_shape :: "field_codec \<Rightarrow> field_value \<Rightarrow> bool" where
  "field_shape codec f =
     (case codec of
        IdentityCodec \<Rightarrow> (\<exists>v. f = FieldVal v)
      | FlightCodec \<Rightarrow> (\<exists>x. f = FieldFlight (Some x))
      | PathsCodec \<Rightarrow> (\<exists>ps. f = FieldVal (VTuple ps))
      | RecordsCodec \<Rightarrow> (\<exists>rs. f = FieldRecords (Some rs) \<and> length rs = 3 \<and> None \<notin> set rs))"

lemma failure_post_init_tuple:
  "failure_post_init m r ps = Inr () \<Longrightarrow> \<exists>xs. ps = VTuple xs"
  by (auto simp: failure_post_init_def status_error_def split: if_splits pyval.splits)

lemma records_post_init_shape:
  "records_post_init rs = Inr () \<Longrightarrow> \<exists>xs. rs = Some xs \<and> length xs = 3 \<and> None \<notin> set xs"
  by (auto simp: records_post_init_def status_error_def split: if_splits option.splits)

lemma fields_post_init_shape:
  assumes "fields_post_init t fs = Inr ()"
  shows "list_all2 field_shape (map snd (constructor_fields t)) fs"
  using assms failure_post_init_tuple records_post_init_shape
  by (cases t) (auto simp: fields_post_init_def field_shape_def
      split: list.splits field_value.splits)

lemma field_roundtrip:
  assumes "field_ok f" and "field_shape codec f"
  shows "\<exists>e. encode_field codec f = Inr e \<and> decode_field codec e = Inr (normal_field f)"
proof (cases codec)
  case FlightCodec
  then obtain x where x: "f = FieldFlight (Some x)" "flight_post_init x = Inr ()"
    using assms by (auto simp: field_shape_def)
  from flight_roundtrip [OF x(2)] show ?thesis using FlightCodec x(1) by auto
next
  case RecordsCodec
  then obtain rs where rs: "f = FieldRecords (Some rs)" "length rs = 3"
      "list_all (\<lambda>r. case r of None \<Rightarrow> False | Some r \<Rightarrow> record_post_init r = Inr ()) rs"
    using assms by (auto simp: field_shape_def)
  from records_roundtrip [OF rs(3)] obtain ds where ds: "length ds = 3" "list_all record_schema ds"
      "each (\<lambda>r. record_document (the r)) rs = Inr ds"
      "each parse_record ds = Inr (map (normal_record \<circ> the) rs)"
    using rs(2) by auto
  then show ?thesis
    using RecordsCodec rs(1) normal_records [OF rs(3)] by (simp add: parse_records_def)
qed (use assms in \<open>auto simp: field_shape_def\<close>)

lemma fields_post_init_normal:
  assumes "fields_post_init t fs = Inr ()"
  shows "fields_post_init t (map normal_field fs) = Inr ()"
proof -
  have shape: "list_all2 field_shape (map snd (constructor_fields t)) fs"
    by (rule fields_post_init_shape [OF assms])
  show ?thesis
  proof (cases t)
    case ArtifactsFinalStatus
    then obtain rs where rs: "fs = [FieldRecords (Some rs)]" "None \<notin> set rs" "length rs = 3"
      using shape by (auto simp: field_shape_def list_all2_Cons1)
    have paths: "map (fr_relative_path \<circ> the \<circ> map_option normal_record) rs =
        map (fr_relative_path \<circ> the) rs"
      using rs(2) by (auto simp: map_option_case split: option.splits)
    show ?thesis
      using assms rs ArtifactsFinalStatus
      by (auto simp: fields_post_init_def records_post_init_def status_error_def paths
          split: if_splits)
  qed (use assms shape in \<open>auto simp: field_shape_def list_all2_Cons1\<close>)
qed

lemma derive_field_normal: "derive_field (normal st) = derive_field st"
proof -
  have "status_complete (map_option (map (map_option normal_record)) rs) = status_complete rs" for rs
    by (cases rs) (auto simp: status_complete_def list_all_iff)
  moreover have "normal_field (FieldRecords rs) =
      FieldRecords (map_option (map (map_option normal_record)) rs)" for rs
    by (cases rs) simp_all
  ultimately show ?thesis
    by (auto simp: derive_field_def normal_def split: list.splits field_value.splits
        elim: normal_field.elims)
qed

section \<open>Documents\<close>

lemma distinct_expected_keys: "distinct (expected_keys t)"
  by (cases t) (simp_all add: expected_keys_def derived_fields_def)

text \<open>Encoding all fields, and decoding them from any dictionary that holds the results.\<close>

lemma encode_all:
  assumes "list_all2 (\<lambda>(name, codec) f. field_ok f \<and> field_shape codec f) cf fs"
  shows "\<exists>encs. each (\<lambda>((name, codec), v). rbind (encode_field codec v) (\<lambda>e. Inr (name, e)))
       (zip cf fs) = Inr encs
    \<and> map fst encs = map fst cf
    \<and> (\<forall>d. (\<forall>(name, e) \<in> set encs. item d name = e) \<longrightarrow>
         each (\<lambda>(name, codec). decode_field codec (item d name)) cf = Inr (map normal_field fs))"
  using assms
proof (induction cf fs rule: list_all2_induct)
  case (Cons c cf f fs)
  obtain name codec where c: "c = (name, codec)" by (cases c) auto
  then obtain e where "encode_field codec f = Inr e" "decode_field codec e = Inr (normal_field f)"
    using Cons.hyps(1) field_roundtrip by auto
  with Cons.IH c show ?case by auto
qed simp

lemma status_document_roundtrip:
  assumes ok: "status_ok st" and rid: "rs_run_id st = VStr rid"
  shows "\<exists>doc. status_document st = Inr doc
    \<and> parse_status (rs_type st) (json_object doc) (VStr rid) = Inr (normal st)"
proof -
  let ?t = "rs_type st"
  have run: "canonical_run_id (VStr rid) = Inr rid"
    and post: "status_post_init st = Inr ()" "fields_post_init ?t (rs_fields st) = Inr ()"
    using ok rid by (auto simp: status_ok_def status_post_init_def canonical_run_id_def
        status_error_def split: if_splits)
  have "list_all2 (\<lambda>(name, codec) f. field_ok f \<and> field_shape codec f)
      (constructor_fields ?t) (rs_fields st)"
    using fields_post_init_shape [OF post(2)] ok
    by (auto simp: status_ok_def list_all2_conv_all_nth list_all_length split: prod.splits)
  from encode_all [OF this] obtain encs where
      enc: "each (\<lambda>((name, codec), v). rbind (encode_field codec v) (\<lambda>e. Inr (name, e)))
        (zip (constructor_fields ?t) (rs_fields st)) = Inr encs"
      "map fst encs = map fst (constructor_fields ?t)"
    and dec: "\<And>d. (\<forall>(name, e) \<in> set encs. item d name = e) \<Longrightarrow>
        parse_values ?t d = Inr (map normal_field (rs_fields st))"
    unfolding parse_values_def by blast
  define doc where "doc = [(''run_id'', VStr rid)] @ fixed_fields ?t @ encs
      @ map (\<lambda>name. (name, derive_field st)) (derived_fields ?t)"
  have keys: "map fst doc = expected_keys ?t"
    using enc(2) by (simp add: doc_def expected_keys_def comp_def)
  then have dist: "dict_ok doc"
    using distinct_expected_keys by simp
  let ?fixed = "(''run_id'', VStr rid) # fixed_fields ?t"
    and ?derived = "map (\<lambda>name. (name, derive_field st)) (derived_fields ?t)"
  have "dict_update [(''run_id'', VStr rid)] (fixed_fields ?t) = ?fixed"
    "dict_update ?fixed encs = ?fixed @ encs"
    "dict_update (?fixed @ encs) ?derived = doc"
    using dict_update_append [of "[(''run_id'', VStr rid)]" "fixed_fields ?t"]
      dict_update_append [of ?fixed encs] dict_update_append [of "?fixed @ encs" ?derived] dist
    by (auto simp: doc_def Int_Un_distrib)
  then have "status_document st = Inr doc"
    using post(1) rid run enc(1) by (simp add: status_document_def)
  moreover have item_doc: "item (map (apfst VStr) doc) k = v" if "(k, v) \<in> set doc" for k v
    using that dist by (rule item_json_member [rotated])
  have "has_keys (map (apfst VStr) doc) (expected_keys ?t)"
    using keys by (simp only: has_keys_json)
  moreover have "item (map (apfst VStr) doc) ''run_id'' = VStr rid"
    by (rule item_doc) (simp add: doc_def)
  moreover have "list_all (\<lambda>(name, v). wire_value_matches (item (map (apfst VStr) doc) name) v)
      (fixed_fields ?t)"
    using item_doc by (auto simp: list_all_iff wire_value_matches_def doc_def)
  moreover have "parse_values ?t (map (apfst VStr) doc) = Inr (map normal_field (rs_fields st))"
  proof (rule dec, clarify)
    fix name e
    assume "(name, e) \<in> set encs"
    then have "(name, e) \<in> set doc" by (simp add: doc_def)
    then show "item (map (apfst VStr) doc) name = e" by (rule item_doc)
  qed
  moreover have "normal st = \<lparr>rs_type = ?t, rs_run_id = VStr rid,
      rs_fields = map normal_field (rs_fields st)\<rparr>"
    using rid by (simp add: normal_def)
  moreover have "status_post_init (normal st) = Inr ()"
    using rid run fields_post_init_normal [OF post(2)] by (simp add: status_post_init_def normal_def)
  moreover have "list_all (\<lambda>name. wire_value_matches (item (map (apfst VStr) doc) name)
      (derive_field (normal st))) (derived_fields ?t)"
    unfolding derive_field_normal
    using item_doc by (auto simp: list_all_iff wire_value_matches_def doc_def)
  ultimately show ?thesis
    using run by (auto simp: parse_status_def json_object_def Let_def)
qed

lemma parse_record_ok:
  "parse_record v = Inr r \<Longrightarrow> record_post_init r = Inr ()"
  by (auto simp: parse_record_def status_error_def Let_def split: pyval.splits option.splits)

lemma parse_records_ok:
  assumes "parse_records v = Inr rs"
  shows "list_all (\<lambda>r. record_post_init r = Inr ()) rs"
proof -
  obtain ds where "each parse_record ds = Inr rs"
    using assms by (auto simp: parse_records_def status_error_def split: pyval.splits if_splits)
  then have "list_all2 (\<lambda>d r. parse_record d = Inr r) ds rs"
    by (simp add: each_Inr)
  then show ?thesis
    by (induction rule: list_all2_induct) (auto dest: parse_record_ok)
qed

lemma decode_field_ok: "decode_field codec v = Inr f \<Longrightarrow> field_ok f"
proof (cases codec)
  case FlightCodec
  assume "decode_field codec v = Inr f"
  then show ?thesis
    using FlightCodec
    by (auto simp: parse_flight_exchange_def status_error_def Let_def
        split: pyval.splits if_splits)
next
  case RecordsCodec
  assume "decode_field codec v = Inr f"
  then show ?thesis
    using RecordsCodec parse_records_ok by (auto simp: list_all_iff)
qed (auto simp: status_error_def split: pyval.splits)

lemma parse_values_ok: "parse_values t d = Inr vs \<Longrightarrow> list_all field_ok vs"
  unfolding parse_values_def each_Inr
  by (induction rule: list_all2_induct) (auto dest: decode_field_ok)

lemma parse_status_valid:
  assumes "parse_status t document expected = Inr st"
  shows "status_ok st \<and> rs_type st = t \<and> rs_run_id st = expected"
proof -
  obtain rid where rid: "canonical_run_id expected = Inr rid"
    using assms by (auto simp: parse_status_def)
  then have ex: "expected = VStr rid"
    by (auto simp: canonical_run_id_def status_error_def split: option.splits if_splits)
  obtain d vs where vs: "parse_values t d = Inr vs"
      "status_post_init \<lparr>rs_type = t, rs_run_id = VStr rid, rs_fields = vs\<rparr> = Inr ()"
      "st = \<lparr>rs_type = t, rs_run_id = VStr rid, rs_fields = vs\<rparr>"
    using assms rid
    by (auto simp: parse_status_def status_error_def Let_def rbind_def simp del: rbind_eq_Inr
        split: pyval.splits if_splits sum.splits exn.splits)
  then show ?thesis
    using parse_values_ok [OF vs(1)] ex by (simp add: status_ok_def)
qed

section \<open>Properties\<close>

text \<open>
  C29. Round trip of the statuses. The document of every valid status, of whichever of the
  fifteen classes, exists and parses for that class and run to the same status, with the
  semantic values of artifact records in their JSON form.
\<close>

theorem status_roundtrip:
  assumes "status_ok st" and "rs_run_id st = VStr rid"
  shows "\<exists>doc. status_document st = Inr doc
    \<and> parse_status (rs_type st) (json_object doc) (VStr rid) = Inr (normal st)"
  by (rule status_document_roundtrip [OF assms])

definition sample_status :: runtime_status where
  "sample_status = \<lparr>rs_type = SourceFinishedStatus, rs_run_id = VStr sample_run_id,
     rs_fields = [FieldVal (VInt 50000000)]\<rparr>"

lemma sample_status_ok: "status_ok sample_status"
  by (simp add: status_ok_def sample_status_def status_post_init_def canonical_run_id_def
      fields_post_init_def require_timestamp_def)

theorem status_roundtrip_witness:
  "\<exists>doc. status_document sample_status = Inr doc
    \<and> parse_status SourceFinishedStatus (json_object doc) (VStr sample_run_id) = Inr sample_status"
  using status_roundtrip [OF sample_status_ok, of sample_run_id]
  by (simp add: sample_status_def normal_def)

text \<open>
  Parsing is strict. Whatever value a module finds in a status file, a successful parse
  yields a valid status of the requested class and of the expected run, and its own
  document parses to the same status again, up to the JSON form of semantic values.
\<close>

theorem parse_status_strict:
  assumes "parse_status t document (VStr rid) = Inr st"
  shows "status_ok st \<and> rs_type st = t \<and> rs_run_id st = VStr rid
    \<and> (\<exists>doc. status_document st = Inr doc
         \<and> parse_status t (json_object doc) (VStr rid) = Inr (normal st))"
  using parse_status_valid [OF assms] status_document_roundtrip by auto

theorem parse_status_strict_witness:
  "parse_status RuntimeFrozenStatus
     (VDict [(VStr ''frozen'', VBool True), (VStr ''run_id'', VStr sample_run_id)])
     (VStr sample_run_id)
   = Inr \<lparr>rs_type = RuntimeFrozenStatus, rs_run_id = VStr sample_run_id, rs_fields = []\<rparr>
   \<and> status_ok \<lparr>rs_type = RuntimeFrozenStatus, rs_run_id = VStr sample_run_id, rs_fields = []\<rparr>"
proof -
  have "parse_status RuntimeFrozenStatus
     (VDict [(VStr ''frozen'', VBool True), (VStr ''run_id'', VStr sample_run_id)])
     (VStr sample_run_id)
   = Inr \<lparr>rs_type = RuntimeFrozenStatus, rs_run_id = VStr sample_run_id, rs_fields = []\<rparr>"
    by (auto simp: parse_status_def canonical_run_id_def has_keys_def expected_keys_def
        derived_fields_def item_def wire_value_matches_def parse_values_def status_post_init_def
        fields_post_init_def Let_def)
  with parse_status_strict [OF this] show ?thesis by simp
qed

end
