(* ===== verification/Gz_Runtime_Model.thy ===== *)
theory Gz_Runtime_Model
  imports Gz_Adapter_Model Runtime_Status
begin

text \<open>
  The transition model of one paused-first Gazebo run, \<open>gazebo/runtime/model.py\<close>: events,
  the ordered actions they cause, and \<open>RuntimeModel\<close>, which maps each accepted event to its
  actions. Also \<open>NativeArtifactSummary\<close> of \<open>gazebo/server/process.py\<close>, which two events
  carry.

  The fields of an event or action that its constructor checks at run time are \<open>pyval\<close>;
  a field that must hold an instance of another class is \<open>None\<close> when it does not.
\<close>

section \<open>Checks\<close>

definition RT_FRAME_INTERVAL_NS :: int where
  "RT_FRAME_INTERVAL_NS = 50000000"

definition LIFECYCLE_STATES :: "string list" where
  "LIFECYCLE_STATES = [''CREATED'', ''STARTING'', ''READY'', ''RUNNING'', ''FINALIZING'',
     ''COMPLETED'', ''FAILED'', ''ABORTED'']"

definition TERMINAL_STATES :: "string list" where
  "TERMINAL_STATES = [''COMPLETED'', ''FAILED'', ''ABORTED'']"

definition MAX_REASON_BYTES :: nat where "MAX_REASON_BYTES = 1024"
definition MAX_ENDPOINT_BYTES :: nat where "MAX_ENDPOINT_BYTES = 256"
definition MAX_CHILD_NAME_BYTES :: nat where "MAX_CHILD_NAME_BYTES = 64"
definition MAX_DIAGNOSTIC_PATH_BYTES :: nat where "MAX_DIAGNOSTIC_PATH_BYTES = 512"
definition MAX_DIAGNOSTIC_PATHS :: nat where "MAX_DIAGNOSTIC_PATHS = 8"

definition SERVER_DIAGNOSTIC :: pyval where
  "SERVER_DIAGNOSTIC = VTuple [VStr ''gazebo/server.log.partial'']"

definition SERVER_EXIT_DIAGNOSTICS :: pyval where
  "SERVER_EXIT_DIAGNOSTICS = VTuple [VStr ''gazebo/server.log.partial'', VStr ''gazebo/state'']"

definition rt_canonical_run_id :: "pyval \<Rightarrow> string result" where
  "rt_canonical_run_id v =
     (case strict_str v of
        Some s \<Rightarrow> if canonical_uuid s then Inr s
                 else Inl (ValueError ''run_id must be a canonical UUID'')
      | None \<Rightarrow> Inl (ValueError ''run_id must be a canonical UUID''))"

definition rt_positive_integer :: "pyval \<Rightarrow> string \<Rightarrow> int result" where
  "rt_positive_integer v field =
     (case strict_int v of
        Some i \<Rightarrow> if i \<le> 0 then Inl (ValueError (field @ '' must be a positive integer'')) else Inr i
      | None \<Rightarrow> Inl (ValueError (field @ '' must be a positive integer'')))"

definition rt_integer :: "pyval \<Rightarrow> string \<Rightarrow> int result" where
  "rt_integer v field =
     (case strict_int v of
        Some i \<Rightarrow> Inr i | None \<Rightarrow> Inl (TypeError (field @ '' must be an integer'')))"

text \<open>
  \<open>math.isfinite\<close> of an \<open>int\<close> beyond the range of \<open>float\<close> raises \<open>OverflowError\<close>; the
  threshold is the least integer that rounds up to \<open>2 ^ 1024\<close>.
\<close>

definition float_overflow :: int where
  "float_overflow = 2 ^ 1024 - 2 ^ 970"

fun rt_deadline :: "pyval \<Rightarrow> unit result" where
  "rt_deadline (VInt i) =
     (if float_overflow \<le> \<bar>i\<bar> then Inl OverflowError
      else guard (i \<le> 0) (ValueError ''deadline_monotonic must be a positive finite number''))"
| "rt_deadline (VFloat (Fin q)) =
     guard (q \<le> 0) (ValueError ''deadline_monotonic must be a positive finite number'')"
| "rt_deadline _ = Inl (ValueError ''deadline_monotonic must be a positive finite number'')"

definition bounded_text :: "pyval \<Rightarrow> string \<Rightarrow> nat \<Rightarrow> string result" where
  "bounded_text v field maximum =
     (case strict_str v of
        Some s \<Rightarrow>
          if s = [] \<or> maximum < utf8_len s then
            Inl (ValueError (field @ '' must be nonempty and at most '' @ str_int (int maximum)
              @ '' UTF-8 bytes''))
          else Inr s
      | None \<Rightarrow> Inl (ValueError (field @ '' must be nonempty and at most ''
          @ str_int (int maximum) @ '' UTF-8 bytes'')))"

definition rt_terminal :: "pyval \<Rightarrow> string result" where
  "rt_terminal v =
     (if \<not> hashable v then Inl (TypeError ''unhashable type'')
      else case strict_str v of
        Some s \<Rightarrow> if s \<in> set TERMINAL_STATES then Inr s
                 else Inl (ValueError ''requested_terminal must be COMPLETED, FAILED, or ABORTED'')
      | None \<Rightarrow> Inl (ValueError ''requested_terminal must be COMPLETED, FAILED, or ABORTED''))"

text \<open>The parts of a \<open>PurePosixPath\<close>: empty components and single dots are dropped.\<close>

definition posix_parts :: "string \<Rightarrow> string list" where
  "posix_parts s = filter (\<lambda>c. c \<notin> {'''', ''.''}) (split_on (CHR ''/'') s)"

fun bounded_path :: "pyval \<Rightarrow> bool" where
  "bounded_path (VStr s) =
     (s \<noteq> [] \<and> CHR 0x5C \<notin> set s \<and> utf8_len s \<le> MAX_DIAGNOSTIC_PATH_BYTES
      \<and> hd s \<noteq> CHR ''/'' \<and> ''..'' \<notin> set (posix_parts s) \<and> posix_parts s \<noteq> [])"
| "bounded_path _ = False"

definition rt_diagnostic_paths :: "pyval \<Rightarrow> unit result" where
  "rt_diagnostic_paths v =
     (case v of
        VTuple ps \<Rightarrow>
          if MAX_DIAGNOSTIC_PATHS < length ps then
            Inl (TypeError ''diagnostic_paths must be a bounded immutable tuple'')
          else if \<not> list_all hashable ps then Inl (TypeError ''unhashable type'')
          else if \<not> distinct ps then
            Inl (ValueError ''diagnostic_paths must not contain duplicates'')
          else guard (\<not> list_all bounded_path ps)
            (ValueError ''diagnostic paths must be bounded relative POSIX paths'')
      | _ \<Rightarrow> Inl (TypeError ''diagnostic_paths must be a bounded immutable tuple''))"

definition snake_case :: "string \<Rightarrow> bool" where
  "snake_case s =
     (case s of
        [] \<Rightarrow> False
      | c # cs \<Rightarrow> 97 \<le> (of_char c :: nat) \<and> (of_char c :: nat) \<le> 122
          \<and> list_all (\<lambda>c. 97 \<le> (of_char c :: nat) \<and> (of_char c :: nat) \<le> 122
               \<or> is_digit c \<or> c = CHR ''_'') cs)"

definition rt_child_name :: "pyval \<Rightarrow> string result" where
  "rt_child_name v =
     (case strict_str v of
        Some s \<Rightarrow>
          if MAX_CHILD_NAME_BYTES < utf8_len s \<or> \<not> snake_case s then
            Inl (ValueError (''child_name must be canonical lowercase snake case and at most ''
              @ str_int (int MAX_CHILD_NAME_BYTES) @ '' UTF-8 bytes''))
          else Inr s
      | None \<Rightarrow> Inl (ValueError (''child_name must be canonical lowercase snake case and at most ''
          @ str_int (int MAX_CHILD_NAME_BYTES) @ '' UTF-8 bytes'')))"

section \<open>NativeArtifactSummary\<close>

text \<open>A \<open>pathlib.Path\<close>: whether it is absolute, and its names without the root.\<close>

record pypath =
  path_absolute :: bool
  path_names :: "string list"

definition path_name :: "pypath \<Rightarrow> string" where
  "path_name p = (if path_names p = [] then [] else last (path_names p))"

definition path_parent :: "pypath \<Rightarrow> pypath" where
  "path_parent p = p\<lparr>path_names := butlast (path_names p)\<rparr>"

text \<open>
  \<open>na_subclass\<close> tells an instance of a subclass apart: a dataclass equals only instances of
  its own class.
\<close>

record native_artifact_summary =
  na_server_log_path :: "pypath option"
  na_state_log_path :: "pypath option"
  na_server_returncode :: pyval
  na_graceful :: pyval
  na_subclass :: bool

definition absolute_lexical_path :: "pypath option \<Rightarrow> string \<Rightarrow> pypath result" where
  "absolute_lexical_path v field =
     (case v of
        None \<Rightarrow> Inl (TypeError (field @ '' must be a Path''))
      | Some p \<Rightarrow>
          if \<not> path_absolute p then Inl (ValueError (field @ '' must be absolute''))
          else if ''..'' \<in> set (path_names p) then
            Inl (ValueError (field @ '' must not contain parent traversal''))
          else Inr p)"

definition native_post_init :: "native_artifact_summary \<Rightarrow> unit result" where
  "native_post_init x =
     rbind (absolute_lexical_path (na_server_log_path x) ''server_log_path'') (\<lambda>server_log.
     rbind (absolute_lexical_path (na_state_log_path x) ''state_log_path'') (\<lambda>state_log.
       if path_name server_log \<noteq> ''server.log''
          \<or> path_name (path_parent server_log) \<noteq> ''gazebo'' then
         Inl (ValueError ''server_log_path must be the canonical Gazebo server log'')
       else if path_name state_log \<noteq> ''state.tlog.zst''
          \<or> path_name (path_parent state_log) \<noteq> ''state''
          \<or> path_parent (path_parent state_log) \<noteq> path_parent server_log then
         Inl (ValueError ''state_log_path must be the canonical Gazebo native state log'')
       else rbind (rt_canonical_run_id (VStr (path_name (path_parent (path_parent server_log))))) (\<lambda>_.
         if strict_int (na_server_returncode x) = None then
           Inl (TypeError ''server_returncode must be an integer'')
         else guard (strict_bool (na_graceful x) = None)
           (TypeError ''graceful must be a boolean''))))"

section \<open>Actions and events\<close>

datatype runtime_action =
    PublishGazeboReady "flight_exchange option"
  | RequestSteps pyval
  | SetPaused pyval
  | ActivateOutput
  | WriteSourceFinished pyval
  | WriteRuntimeFailure pyval pyval
  | BeginFinalization pyval pyval
  | StopServer pyval
  | WriteQuiescence "native_artifact_summary option"

fun action_post_init :: "runtime_action \<Rightarrow> unit result" where
  "action_post_init (PublishGazeboReady x) =
     guard (x = None) (TypeError ''flight_exchange must be a FlightExchange'')"
| "action_post_init (RequestSteps n) = rbind (rt_positive_integer n ''count'') (\<lambda>_. Inr ())"
| "action_post_init (SetPaused b) =
     guard (strict_bool b = None) (TypeError ''paused must be a boolean'')"
| "action_post_init ActivateOutput = Inr ()"
| "action_post_init (WriteSourceFinished t) =
     rbind (rt_positive_integer t ''sim_timestamp_ns'') (\<lambda>_. Inr ())"
| "action_post_init (WriteRuntimeFailure reason paths) =
     rbind (bounded_text reason ''reason'' MAX_REASON_BYTES) (\<lambda>_. rt_diagnostic_paths paths)"
| "action_post_init (BeginFinalization terminal reason) =
     rbind (rt_terminal terminal) (\<lambda>_.
     rbind (bounded_text reason ''reason'' MAX_REASON_BYTES) (\<lambda>_. Inr ()))"
| "action_post_init (StopServer deadline) = rt_deadline deadline"
| "action_post_init (WriteQuiescence x) =
     guard (x = None) (TypeError ''native_artifacts must be a NativeArtifactSummary'')"

datatype runtime_event =
    ArtifactsReady pyval
  | GazeboReady pyval "flight_exchange option"
  | RunStateEvent pyval pyval
  | AdapterCompleted pyval "adapter_summary option"
  | ChildExited pyval pyval pyval
  | EndpointTimeout pyval pyval
  | FinalizationRequested pyval pyval pyval pyval
  | ServerStopped pyval "native_artifact_summary option"
  | ServerStopFailed pyval pyval pyval
  | Unsupported

fun event_run_id :: "runtime_event \<Rightarrow> pyval" where
  "event_run_id (ArtifactsReady r) = r"
| "event_run_id (GazeboReady r _) = r"
| "event_run_id (RunStateEvent r _) = r"
| "event_run_id (AdapterCompleted r _) = r"
| "event_run_id (ChildExited r _ _) = r"
| "event_run_id (EndpointTimeout r _) = r"
| "event_run_id (FinalizationRequested r _ _ _) = r"
| "event_run_id (ServerStopped r _) = r"
| "event_run_id (ServerStopFailed r _ _) = r"
| "event_run_id Unsupported = VNone"

definition falsy :: "pyval \<Rightarrow> bool" where
  "falsy v \<longleftrightarrow> v \<in> {VNone, VBool False, VInt 0, VFloat (Fin 0), VStr '''', VBytes '''', VTuple [],
     VList [], VDict []}"

fun event_fields_post_init :: "runtime_event \<Rightarrow> unit result" where
  "event_fields_post_init (GazeboReady _ x) =
     guard (x = None) (TypeError ''flight_exchange must be a FlightExchange'')"
| "event_fields_post_init (RunStateEvent _ state) =
     (if \<not> hashable state then Inl (TypeError ''unhashable type'')
      else guard (\<not> (\<exists>s \<in> set LIFECYCLE_STATES. state = VStr s))
        (ValueError ''state is not part of the run lifecycle''))"
| "event_fields_post_init (AdapterCompleted _ sm) =
     guard (sm = None) (TypeError ''summary must be an AdapterSummary'')"
| "event_fields_post_init (ChildExited _ name code) =
     rbind (rt_child_name name) (\<lambda>_. rbind (rt_integer code ''returncode'') (\<lambda>_. Inr ()))"
| "event_fields_post_init (EndpointTimeout _ endpoint) =
     rbind (bounded_text endpoint ''endpoint'' MAX_ENDPOINT_BYTES) (\<lambda>_. Inr ())"
| "event_fields_post_init (FinalizationRequested _ terminal reason deadline) =
     rbind (rt_terminal terminal) (\<lambda>_.
     rbind (bounded_text reason ''reason'' MAX_REASON_BYTES) (\<lambda>_. rt_deadline deadline))"
| "event_fields_post_init (ServerStopped _ x) =
     guard (x = None) (TypeError ''native_artifacts must be a NativeArtifactSummary'')"
| "event_fields_post_init (ServerStopFailed _ reason paths) =
     rbind (bounded_text reason ''reason'' MAX_REASON_BYTES) (\<lambda>_.
       if falsy paths then Inl (ValueError ''server stop failure requires a named diagnostic path'')
       else rt_diagnostic_paths paths)"
| "event_fields_post_init _ = Inr ()"

definition event_post_init :: "runtime_event \<Rightarrow> unit result" where
  "event_post_init e =
     (if e = Unsupported then Inr ()
      else rbind (rt_canonical_run_id (event_run_id e)) (\<lambda>_. event_fields_post_init e))"

section \<open>RuntimeModel\<close>

record runtime_model =
  rm_run_id :: string
  rm_expected_frames :: int
  rm_artifacts_ready :: bool
  rm_flight_exchange :: "flight_exchange option"
  rm_gazebo_ready_published :: bool
  rm_warmup_started :: bool
  rm_lifecycle_state :: string
  rm_paused :: bool
  rm_source_summary :: "adapter_summary option"
  rm_failure_reason :: "string option"
  rm_finalization_preempted :: bool
  rm_begin_finalization_emitted :: bool
  rm_stop_requested :: bool
  rm_finalization_request :: "runtime_event option"
  rm_server_stop_failed :: bool
  rm_native_artifacts :: "native_artifact_summary option"
  rm_frozen :: bool

definition RuntimeModel :: "pyval \<Rightarrow> pyval \<Rightarrow> runtime_model result" where
  "RuntimeModel run_id expected_frames =
     rbind (rt_canonical_run_id run_id) (\<lambda>r.
     rbind (rt_positive_integer expected_frames ''expected_frames'') (\<lambda>n.
       Inr \<lparr>rm_run_id = r, rm_expected_frames = n, rm_artifacts_ready = False,
            rm_flight_exchange = None, rm_gazebo_ready_published = False,
            rm_warmup_started = False, rm_lifecycle_state = ''STARTING'', rm_paused = True,
            rm_source_summary = None, rm_failure_reason = None,
            rm_finalization_preempted = False, rm_begin_finalization_emitted = False,
            rm_stop_requested = False, rm_finalization_request = None,
            rm_server_stop_failed = False, rm_native_artifacts = None, rm_frozen = False\<rparr>))"

type_synonym step_result = "runtime_action list result \<times> runtime_model"

text \<open>The pause a handler adds when the simulation runs.\<close>

definition pause_actions :: "runtime_model \<Rightarrow> runtime_action list" where
  "pause_actions s = (if rm_paused s then [] else [SetPaused (VBool True)])"

definition rt_failure :: "string \<Rightarrow> pyval \<Rightarrow> runtime_model \<Rightarrow> step_result" where
  "rt_failure reason paths s =
     (if rm_failure_reason s \<noteq> None then (Inr [], s)
      else case rbind (bounded_text (VStr reason) ''reason'' MAX_REASON_BYTES)
                  (\<lambda>_. rt_diagnostic_paths paths) of
        Inl e \<Rightarrow> (Inl e, s)
      | Inr _ \<Rightarrow>
          (Inr (WriteRuntimeFailure (VStr reason) paths # pause_actions s
             @ (if rm_begin_finalization_emitted s then []
                else [BeginFinalization (VStr ''FAILED'') (VStr reason)])),
           s\<lparr>rm_failure_reason := Some reason, rm_finalization_preempted := True,
             rm_paused := True, rm_begin_finalization_emitted := True\<rparr>))"

definition rt_ready :: "runtime_model \<Rightarrow> step_result" where
  "rt_ready s =
     (if rm_artifacts_ready s \<and> rm_flight_exchange s \<noteq> None \<and> \<not> rm_gazebo_ready_published s
      then (Inr [PublishGazeboReady (rm_flight_exchange s)], s\<lparr>rm_gazebo_ready_published := True\<rparr>)
      else (Inr [], s))"

text \<open>Mark the server stop as failed after a handler that did not raise.\<close>

definition mark_stop_failed :: "step_result \<Rightarrow> step_result" where
  "mark_stop_failed r =
     (case r of
        (Inl e, s) \<Rightarrow> (Inl e, s)
      | (Inr actions, s) \<Rightarrow> (Inr actions, s\<lparr>rm_server_stop_failed := True\<rparr>))"

definition native_stop_failure :: "string \<Rightarrow> runtime_model \<Rightarrow> step_result" where
  "native_stop_failure reason s = mark_stop_failed (rt_failure reason SERVER_EXIT_DIAGNOSTICS s)"

definition accept_run_state :: "string \<Rightarrow> runtime_model \<Rightarrow> step_result" where
  "accept_run_state state s =
     (if state = ''STARTING'' \<and> rm_lifecycle_state s = ''STARTING'' then (Inr [], s)
      else if state = ''READY'' then
        (if rm_lifecycle_state s = ''READY'' \<and> rm_warmup_started s then (Inr [], s)
         else if \<not> rm_gazebo_ready_published s then
           rt_failure ''READY received before Gazebo readiness publication'' SERVER_DIAGNOSTIC s
         else if rm_lifecycle_state s \<noteq> ''STARTING'' then
           rt_failure (''invalid lifecycle transition '' @ rm_lifecycle_state s @ '' -> READY'')
             SERVER_DIAGNOSTIC s
         else
           (Inr (if rm_paused s then [SetPaused (VBool False)] else []),
            s\<lparr>rm_lifecycle_state := ''READY'', rm_warmup_started := True, rm_paused := False\<rparr>))
      else if state = ''RUNNING'' then
        (if rm_lifecycle_state s = ''RUNNING'' then (Inr [], s)
         else if \<not> rm_warmup_started s \<or> rm_lifecycle_state s \<noteq> ''READY'' then
           rt_failure ''RUNNING received before the controlled readiness step'' SERVER_DIAGNOSTIC s
         else (Inr [ActivateOutput], s\<lparr>rm_lifecycle_state := ''RUNNING''\<rparr>))
      else if state = ''FINALIZING'' then
        (Inr (pause_actions s),
         s\<lparr>rm_lifecycle_state := ''FINALIZING'', rm_finalization_preempted := True,
           rm_paused := True\<rparr>)
      else if state \<in> set TERMINAL_STATES then
        rt_failure (''premature terminal lifecycle state received: '' @ state) SERVER_DIAGNOSTIC s
      else
        rt_failure (''invalid lifecycle transition '' @ rm_lifecycle_state s @ '' -> '' @ state)
          SERVER_DIAGNOSTIC s)"

definition validated_completion :: "runtime_model \<Rightarrow> adapter_summary \<Rightarrow> string option" where
  "validated_completion s sm =
     (let counts = [as_onboard_frames sm, as_observer_frames sm, as_paired_frames sm,
                    as_ground_truth_samples sm] in
      if \<not> list_all (\<lambda>c. 0 \<le> c) counts then
        Some ''adapter summary counts must be nonnegative integers''
      else if \<not> list_all (\<lambda>c. c \<le> rm_expected_frames s) counts then
        Some ''adapter summary exceeds the configured frame count''
      else if \<not> list_all (\<lambda>c. c = hd counts) counts then
        Some ''adapter summary requires aligned camera and ground-truth counts''
      else if hd counts \<noteq> rm_expected_frames s then
        Some (''adapter completion requires exactly '' @ str_int (rm_expected_frames s)
          @ '' aligned samples'')
      else if as_first_sim_timestamp_ns sm \<noteq> Some RT_FRAME_INTERVAL_NS
              \<or> as_last_sim_timestamp_ns sm \<noteq> Some (rm_expected_frames s * RT_FRAME_INTERVAL_NS) then
        Some ''adapter completion timestamp does not match the public frame cadence''
      else None)"

definition accept_completion :: "adapter_summary \<Rightarrow> runtime_model \<Rightarrow> step_result" where
  "accept_completion sm s =
     (case rm_source_summary s of
        Some old \<Rightarrow>
          if sm = old then (Inr [], s)
          else rt_failure ''adapter completion changed after source-finished'' SERVER_DIAGNOSTIC s
      | None \<Rightarrow>
          if rm_failure_reason s \<noteq> None \<or> rm_finalization_preempted s then (Inr [], s)
          else if rm_lifecycle_state s \<noteq> ''RUNNING'' then
            rt_failure ''adapter completed before the run reached RUNNING'' SERVER_DIAGNOSTIC s
          else (case validated_completion s sm of
            Some invalid \<Rightarrow> rt_failure invalid SERVER_DIAGNOSTIC s
          | None \<Rightarrow>
              (case as_last_sim_timestamp_ns sm of
                 None \<Rightarrow> (Inl AssertionError, s)
               | Some t \<Rightarrow>
                   (Inr (pause_actions s @ [WriteSourceFinished (VInt t)]),
                    s\<lparr>rm_source_summary := Some sm, rm_paused := True\<rparr>))))"

definition accept_finalization :: "runtime_event \<Rightarrow> pyval \<Rightarrow> pyval \<Rightarrow> pyval \<Rightarrow> runtime_model \<Rightarrow> step_result" where
  "accept_finalization event terminal reason deadline s =
     (if rm_stop_requested s then (Inr [], s)
      else
        (case (if terminal = VStr ''COMPLETED'' \<and> rm_source_summary s = None
                  \<and> rm_failure_reason s = None
               then rt_failure ''COMPLETED finalization requested before exact source-finished''
                      SERVER_DIAGNOSTIC s
               else (Inr [], s)) of
           (Inl e, s1) \<Rightarrow> (Inl e, s1)
         | (Inr actions, s1) \<Rightarrow>
             (let requested_terminal =
                    (if rm_failure_reason s1 \<noteq> None then VStr ''FAILED'' else terminal);
                  final_reason =
                    (case rm_failure_reason s1 of Some r \<Rightarrow> VStr r | None \<Rightarrow> reason)
              in (Inr (actions @ pause_actions s1
                     @ (if rm_begin_finalization_emitted s1 then []
                        else [BeginFinalization requested_terminal final_reason])
                     @ [StopServer deadline]),
                  s1\<lparr>rm_finalization_preempted := True, rm_lifecycle_state := ''FINALIZING'',
                     rm_paused := True, rm_begin_finalization_emitted := True,
                     rm_finalization_request := Some event, rm_stop_requested := True\<rparr>))))"

definition accept_stopped :: "native_artifact_summary \<Rightarrow> runtime_model \<Rightarrow> step_result" where
  "accept_stopped native s =
     (case rm_native_artifacts s of
        Some old \<Rightarrow>
          if native = old then (Inr [], s)
          else (Inl (RuntimeModelError ''native artifact summary changed after quiescence''), s)
      | None \<Rightarrow>
          if rm_server_stop_failed s then (Inr [], s)
          else (case native_post_init native of
            Inl _ \<Rightarrow> native_stop_failure ''native artifact summary is malformed'' s
          | Inr _ \<Rightarrow>
              if na_subclass native then
                native_stop_failure ''native artifact summary is inconsistent'' s
              else if \<not> rm_stop_requested s then
                native_stop_failure ''Gazebo server stopped before finalization requested'' s
              else if path_name (path_parent (path_parent (the (na_server_log_path native))))
                      \<noteq> rm_run_id s then
                native_stop_failure ''native artifact summary belongs to another run'' s
              else (Inr [WriteQuiescence (Some native)],
                    s\<lparr>rm_native_artifacts := Some native, rm_frozen := True\<rparr>)))"

text \<open>
  Equality of two deadlines: numbers of different types compare by value. The other fields
  of a finalization request are strings.
\<close>

fun num_eq :: "pyval \<Rightarrow> pyval \<Rightarrow> bool" where
  "num_eq (VInt a) (VFloat (Fin q)) = (of_int a = q)"
| "num_eq (VFloat (Fin q)) (VInt a) = (of_int a = q)"
| "num_eq a b = (a = b)"

fun same_request :: "runtime_event \<Rightarrow> runtime_event option \<Rightarrow> bool" where
  "same_request (FinalizationRequested r t w d) (Some (FinalizationRequested r' t' w' d')) =
     (r = r' \<and> t = t' \<and> w = w' \<and> num_eq d d')"
| "same_request _ _ = False"

fun is_frozen_duplicate :: "runtime_event \<Rightarrow> runtime_model \<Rightarrow> bool" where
  "is_frozen_duplicate (ServerStopped r native) s =
     (native \<noteq> None \<and> native = rm_native_artifacts s)"
| "is_frozen_duplicate (RunStateEvent r state) s =
     (\<exists>t \<in> set (''FINALIZING'' # TERMINAL_STATES). state = VStr t)"
| "is_frozen_duplicate (FinalizationRequested r t w d) s =
     same_request (FinalizationRequested r t w d) (rm_finalization_request s)"
| "is_frozen_duplicate _ s = False"

definition str_value :: "pyval \<Rightarrow> string" where
  "str_value v = (case strict_str v of Some s \<Rightarrow> s | None \<Rightarrow> [])"

text \<open>
  The reason for an exited child. Formatting an integer of more than 4300 digits raises
  \<open>ValueError\<close>.
\<close>

definition accept_child_exit :: "string \<Rightarrow> int \<Rightarrow> runtime_model \<Rightarrow> step_result" where
  "accept_child_exit name code s =
     (if int_max_str_digits < length (str_int \<bar>code\<bar>) then
        (Inl (ValueError ''Exceeds the limit for integer string conversion''), s)
      else rt_failure (''runtime child '' @ name @ '' exited unexpectedly with return code ''
             @ str_int code) SERVER_EXIT_DIAGNOSTICS s)"

text \<open>The events a failed or preempted run ignores.\<close>

definition accept_setup :: "runtime_event \<Rightarrow> runtime_model \<Rightarrow> step_result" where
  "accept_setup event s =
     (if rm_failure_reason s \<noteq> None then (Inr [], s)
      else case event of
        RunStateEvent _ state \<Rightarrow> accept_run_state (str_value state) s
      | _ \<Rightarrow>
          if rm_finalization_preempted s then (Inr [], s)
          else (case event of
            ArtifactsReady _ \<Rightarrow>
              if rm_artifacts_ready s then (Inr [], s)
              else rt_ready (s\<lparr>rm_artifacts_ready := True\<rparr>)
          | GazeboReady _ x \<Rightarrow>
              if rm_flight_exchange s \<noteq> None then (Inr [], s)
              else rt_ready (s\<lparr>rm_flight_exchange := x\<rparr>)
          | AdapterCompleted _ (Some sm) \<Rightarrow> accept_completion sm s
          | _ \<Rightarrow> (Inl AssertionError, s)))"

definition runtime_accept :: "runtime_event \<Rightarrow> runtime_model \<Rightarrow> step_result" where
  "runtime_accept event s =
     (if event = Unsupported then
        (if rm_frozen s then (Inl (RuntimeModelError ''runtime model is frozen''), s)
         else rt_failure ''unsupported runtime input'' SERVER_DIAGNOSTIC s)
      else if event_run_id event \<noteq> VStr (rm_run_id s) then (Inr [], s)
      else if rm_frozen s then
        (if is_frozen_duplicate event s then (Inr [], s)
         else (Inl (RuntimeModelError ''runtime model is frozen''), s))
      else case event of
        FinalizationRequested _ terminal reason deadline \<Rightarrow>
          accept_finalization event terminal reason deadline s
      | ServerStopFailed _ reason paths \<Rightarrow>
          mark_stop_failed (rt_failure (str_value reason) paths s)
      | ServerStopped _ (Some native) \<Rightarrow> accept_stopped native s
      | ChildExited _ name code \<Rightarrow> accept_child_exit (str_value name) (int_value code) s
      | EndpointTimeout _ endpoint \<Rightarrow>
          if rm_finalization_preempted s then (Inr [], s)
          else rt_failure (''Gazebo endpoint readiness timed out: '' @ str_value endpoint)
                 SERVER_DIAGNOSTIC s
      | _ \<Rightarrow> accept_setup event s)"

end
