(* ===== verification/Gz_Runtime_Inv.thy ===== *)
theory Gz_Runtime_Inv
  imports Gz_Runtime_Model
begin

text \<open>
  Correctness of \<open>RuntimeModel\<close> over whole runs: the trace of all actions contains each
  one-time action at most once, the actions come in their causal order, the simulation is
  started once and paused once, and every action satisfies its constructor's checks.
\<close>

section \<open>Traces\<close>

datatype action_tag =
    KReady | KSteps | KPaused | KActivate | KSource | KFailure | KBegin | KStop | KQuiescence

fun action_kind :: "runtime_action \<Rightarrow> action_tag" where
  "action_kind (PublishGazeboReady _) = KReady"
| "action_kind (RequestSteps _) = KSteps"
| "action_kind (SetPaused _) = KPaused"
| "action_kind ActivateOutput = KActivate"
| "action_kind (WriteSourceFinished _) = KSource"
| "action_kind (WriteRuntimeFailure _ _) = KFailure"
| "action_kind (BeginFinalization _ _) = KBegin"
| "action_kind (StopServer _) = KStop"
| "action_kind (WriteQuiescence _) = KQuiescence"

definition emitted :: "action_tag \<Rightarrow> runtime_action list \<Rightarrow> nat" where
  "emitted k tr = count_list (map action_kind tr) k"

fun pauses :: "runtime_action list \<Rightarrow> pyval list" where
  "pauses [] = []"
| "pauses (SetPaused b # tr) = b # pauses tr"
| "pauses (_ # tr) = pauses tr"

lemma emitted_simps [simp]:
  "emitted k [] = 0"
  "emitted k (a # tr) = (if action_kind a = k then Suc (emitted k tr) else emitted k tr)"
  "emitted k (tr @ tr') = emitted k tr + emitted k tr'"
  by (auto simp: emitted_def)

lemma pauses_append [simp]: "pauses (tr @ tr') = pauses tr @ pauses tr'"
  by (induction tr rule: pauses.induct) auto

lemma emitted_member: "0 < emitted k tr \<longleftrightarrow> (\<exists>a \<in> set tr. action_kind a = k)"
  by (induction tr) auto

text \<open>
  What must have happened before an action, in a run of \<open>n\<close> frames. The simulation is
  started after readiness was published, output is activated after the start, the source
  is finished at the last frame and after activation, a run only begins to finalize as
  COMPLETED after the source was finished and with no failure written, and quiescence
  follows the request to stop the server.
\<close>

fun justified :: "int \<Rightarrow> runtime_action list \<Rightarrow> runtime_action \<Rightarrow> bool" where
  "justified n pre (SetPaused b) =
     (if b = VBool False then 0 < emitted KReady pre else VBool False \<in> set (pauses pre))"
| "justified n pre ActivateOutput = (VBool False \<in> set (pauses pre))"
| "justified n pre (WriteSourceFinished t) =
     (t = VInt (n * RT_FRAME_INTERVAL_NS) \<and> 0 < emitted KActivate pre)"
| "justified n pre (BeginFinalization t r) =
     (t = VStr ''COMPLETED'' \<longrightarrow> 0 < emitted KSource pre \<and> emitted KFailure pre = 0)"
| "justified n pre (WriteQuiescence x) = (0 < emitted KStop pre)"
| "justified n pre _ = True"

fun all_justified :: "int \<Rightarrow> runtime_action list \<Rightarrow> runtime_action list \<Rightarrow> bool" where
  "all_justified n pre [] = True"
| "all_justified n pre (a # tr) = (justified n pre a \<and> all_justified n (pre @ [a]) tr)"

lemma all_justified_append [simp]:
  "all_justified n pre (xs @ ys) \<longleftrightarrow> all_justified n pre xs \<and> all_justified n (pre @ xs) ys"
  by (induction xs arbitrary: pre) auto

lemma all_justified_split:
  "all_justified n pre tr \<Longrightarrow> tr = xs @ a # ys \<Longrightarrow> justified n (pre @ xs) a"
  by simp

section \<open>The invariant\<close>

definition counts_inv :: "runtime_action list \<Rightarrow> runtime_model \<Rightarrow> bool" where
  "counts_inv tr s \<longleftrightarrow>
     emitted KFailure tr = of_bool (rm_failure_reason s \<noteq> None)
     \<and> emitted KBegin tr = of_bool (rm_begin_finalization_emitted s)
     \<and> emitted KStop tr = of_bool (rm_stop_requested s)
     \<and> emitted KQuiescence tr = of_bool (rm_native_artifacts s \<noteq> None)
     \<and> emitted KSource tr = of_bool (rm_source_summary s \<noteq> None)
     \<and> emitted KReady tr = of_bool (rm_gazebo_ready_published s)
     \<and> emitted KActivate tr \<le> 1"

definition phase_inv :: "runtime_action list \<Rightarrow> runtime_model \<Rightarrow> bool" where
  "phase_inv tr s \<longleftrightarrow>
     rm_lifecycle_state s \<in> {''STARTING'', ''READY'', ''RUNNING'', ''FINALIZING''}
     \<and> (rm_lifecycle_state s = ''STARTING'' \<longrightarrow> \<not> rm_warmup_started s)
     \<and> (rm_lifecycle_state s \<in> {''STARTING'', ''READY''} \<longrightarrow> emitted KActivate tr = 0)
     \<and> (rm_lifecycle_state s = ''RUNNING'' \<longrightarrow> emitted KActivate tr = 1)
     \<and> pauses tr = (if \<not> rm_warmup_started s then []
          else if rm_paused s then [VBool False, VBool True] else [VBool False])
     \<and> (\<not> rm_warmup_started s \<longrightarrow> rm_paused s)
     \<and> (rm_frozen s \<longleftrightarrow> rm_native_artifacts s \<noteq> None)
     \<and> (rm_failure_reason s \<noteq> None \<longrightarrow> rm_begin_finalization_emitted s \<and> rm_paused s)"

definition runtime_inv :: "int \<Rightarrow> runtime_action list \<Rightarrow> runtime_model \<Rightarrow> bool" where
  "runtime_inv n tr s \<longleftrightarrow> rm_expected_frames s = n \<and> 0 < n \<and> counts_inv tr s \<and> phase_inv tr s"

fun actions_of :: "runtime_action list result \<Rightarrow> runtime_action list" where
  "actions_of (Inl _) = []"
| "actions_of (Inr as) = as"

text \<open>
  A handler's contract: the invariant for the extended trace, the order of the new actions,
  and no effect when it raises.
\<close>

definition step_ok :: "int \<Rightarrow> runtime_action list \<Rightarrow> runtime_model \<Rightarrow> step_result \<Rightarrow> bool" where
  "step_ok n tr s res \<longleftrightarrow>
     runtime_inv n (tr @ actions_of (fst res)) (snd res)
     \<and> all_justified n tr (actions_of (fst res))
     \<and> (isl (fst res) \<longrightarrow> snd res = s)"

lemma step_ok_raise: "runtime_inv n tr s \<Longrightarrow> step_ok n tr s (Inl e, s)"
  by (simp add: step_ok_def)

lemma step_ok_none: "runtime_inv n tr s \<Longrightarrow> step_ok n tr s (Inr [], s)"
  by (simp add: step_ok_def)

lemma step_ok_seq:
  "step_ok n tr s (Inr xs, s1) \<Longrightarrow> step_ok n (tr @ xs) s1 (Inr ys, s2) \<Longrightarrow>
     step_ok n tr s (Inr (xs @ ys), s2)"
  by (simp add: step_ok_def)

lemma runtime_inv_stop_failed [simp]:
  "runtime_inv n tr (s\<lparr>rm_server_stop_failed := b\<rparr>) = runtime_inv n tr s"
  by (simp add: runtime_inv_def counts_inv_def phase_inv_def)

lemma step_ok_mark:
  "step_ok n tr s res \<Longrightarrow> step_ok n tr s (mark_stop_failed res)"
  by (auto simp: step_ok_def mark_stop_failed_def split: prod.splits sum.splits)

section \<open>Handlers\<close>

lemma rt_failure_cases:
  obtains (ignored) "rt_failure reason paths s = (Inr [], s)"
  | (raised) e where "rt_failure reason paths s = (Inl e, s)"
  | (written) "rm_failure_reason s = None"
      "rt_failure reason paths s =
        (Inr (WriteRuntimeFailure (VStr reason) paths # pause_actions s
             @ (if rm_begin_finalization_emitted s then []
                else [BeginFinalization (VStr ''FAILED'') (VStr reason)])),
         s\<lparr>rm_failure_reason := Some reason, rm_finalization_preempted := True,
           rm_paused := True, rm_begin_finalization_emitted := True\<rparr>)"
  unfolding rt_failure_def
  by (cases "rm_failure_reason s";
      cases "rbind (bounded_text (VStr reason) ''reason'' MAX_REASON_BYTES)
        (\<lambda>_. rt_diagnostic_paths paths)") (simp_all del: rbind_eq_Inr)

text \<open>The failure handler's effect, one part of the invariant at a time.\<close>

definition failed_actions :: "string \<Rightarrow> pyval \<Rightarrow> runtime_model \<Rightarrow> runtime_action list" where
  "failed_actions reason paths s = WriteRuntimeFailure (VStr reason) paths # pause_actions s
     @ (if rm_begin_finalization_emitted s then []
        else [BeginFinalization (VStr ''FAILED'') (VStr reason)])"

definition failed_state :: "string \<Rightarrow> runtime_model \<Rightarrow> runtime_model" where
  "failed_state reason s = s\<lparr>rm_failure_reason := Some reason, rm_finalization_preempted := True,
     rm_paused := True, rm_begin_finalization_emitted := True\<rparr>"

lemma emitted_pause_actions [simp]:
  "emitted k (pause_actions s) = of_bool (k = KPaused \<and> \<not> rm_paused s)"
  by (auto simp: pause_actions_def)

lemma pauses_pause_actions [simp]:
  "pauses (pause_actions s) = (if rm_paused s then [] else [VBool True])"
  by (simp add: pause_actions_def)

lemma all_justified_pause_actions [simp]:
  "all_justified n pre (pause_actions s) \<longleftrightarrow> (rm_paused s \<or> VBool False \<in> set (pauses pre))"
  by (simp add: pause_actions_def)

lemma failed_counts:
  "counts_inv tr s \<Longrightarrow> rm_failure_reason s = None \<Longrightarrow>
     counts_inv (tr @ failed_actions reason paths s) (failed_state reason s)"
  by (simp add: counts_inv_def failed_actions_def failed_state_def)

lemma failed_phase:
  assumes "phase_inv tr s"
  shows "phase_inv (tr @ failed_actions reason paths s) (failed_state reason s)"
proof -
  have "emitted KActivate (failed_actions reason paths s) = 0"
    "pauses (failed_actions reason paths s) = (if rm_paused s then [] else [VBool True])"
    by (simp_all add: failed_actions_def)
  with assms show ?thesis
    unfolding phase_inv_def by (simp add: failed_state_def)
qed

lemma failed_justified:
  "phase_inv tr s \<Longrightarrow> all_justified n tr (failed_actions reason paths s)"
  unfolding phase_inv_def by (auto simp: failed_actions_def)

lemma written_failure_ok:
  assumes "runtime_inv n tr s" and "rm_failure_reason s = None"
  shows "step_ok n tr s (Inr (failed_actions reason paths s), failed_state reason s)"
  using assms failed_counts failed_phase failed_justified
  by (simp add: step_ok_def runtime_inv_def failed_state_def)

lemma rt_failure_ok:
  assumes "runtime_inv n tr s"
  shows "step_ok n tr s (rt_failure reason paths s)"
proof (cases rule: rt_failure_cases [of reason paths s])
  case written
  show ?thesis
    unfolding written(2) failed_actions_def [symmetric] failed_state_def [symmetric]
    by (rule written_failure_ok [OF assms written(1)])
qed (simp_all add: step_ok_none step_ok_raise assms)

lemma rt_ready_ok: "runtime_inv n tr s \<Longrightarrow> step_ok n tr s (rt_ready s)"
  by (auto simp: rt_ready_def step_ok_def runtime_inv_def counts_inv_def phase_inv_def)

lemma accept_run_state_ok:
  assumes inv: "runtime_inv n tr s" and "rm_failure_reason s = None"
  shows "step_ok n tr s (accept_run_state state s)"
proof -
  note fail = rt_failure_ok [OF inv] and none = step_ok_none [OF inv]
  have ready: "step_ok n tr s (Inr (if rm_paused s then [SetPaused (VBool False)] else []),
      s\<lparr>rm_lifecycle_state := ''READY'', rm_warmup_started := True, rm_paused := False\<rparr>)"
    if "rm_lifecycle_state s = ''STARTING''" "rm_gazebo_ready_published s"
    using inv that assms(2)
    by (auto simp: step_ok_def runtime_inv_def counts_inv_def phase_inv_def)
  have running: "step_ok n tr s (Inr [ActivateOutput], s\<lparr>rm_lifecycle_state := ''RUNNING''\<rparr>)"
    if "rm_lifecycle_state s = ''READY''" "rm_warmup_started s"
    using inv that by (auto simp: step_ok_def runtime_inv_def counts_inv_def phase_inv_def)
  have finalizing: "step_ok n tr s (Inr (pause_actions s), s\<lparr>rm_lifecycle_state := ''FINALIZING'',
      rm_finalization_preempted := True, rm_paused := True\<rparr>)"
    using inv
    by (auto simp: step_ok_def runtime_inv_def counts_inv_def phase_inv_def pause_actions_def)
  show ?thesis
    unfolding accept_run_state_def using fail none ready running finalizing by simp
qed

lemma validated_completion_None:
  "validated_completion s sm = None \<longleftrightarrow>
     0 \<le> rm_expected_frames s \<and>
     sm = \<lparr>as_onboard_frames = rm_expected_frames s, as_observer_frames = rm_expected_frames s,
           as_paired_frames = rm_expected_frames s, as_ground_truth_samples = rm_expected_frames s,
           as_first_sim_timestamp_ns = Some RT_FRAME_INTERVAL_NS,
           as_last_sim_timestamp_ns = Some (rm_expected_frames s * RT_FRAME_INTERVAL_NS)\<rparr>"
  by (cases sm) (auto simp: validated_completion_def Let_def)

lemma accept_completion_ok:
  assumes inv: "runtime_inv n tr s"
  shows "step_ok n tr s (accept_completion sm s)"
proof -
  have source: "step_ok n tr s (Inr (pause_actions s @ [WriteSourceFinished (VInt t)]),
      s\<lparr>rm_source_summary := Some sm, rm_paused := True\<rparr>)"
    if "rm_source_summary s = None" "rm_lifecycle_state s = ''RUNNING''" "rm_failure_reason s = None"
      "t = n * RT_FRAME_INTERVAL_NS" for t
    using inv that
    by (auto simp: step_ok_def runtime_inv_def counts_inv_def phase_inv_def pause_actions_def)
  have "rm_expected_frames s = n" using inv by (simp add: runtime_inv_def)
  then show ?thesis
    using rt_failure_ok [OF inv] step_ok_none [OF inv] step_ok_raise [OF inv] source
    by (auto simp: accept_completion_def validated_completion_None split: option.splits)
qed

lemma rt_failure_constant:
  assumes "rm_failure_reason s = None" and "reason \<noteq> []" and "utf8_len reason \<le> 1024"
  shows "\<exists>as s'. rt_failure reason SERVER_DIAGNOSTIC s = (Inr as, s') \<and> rm_failure_reason s' \<noteq> None
    \<and> rm_stop_requested s' = rm_stop_requested s"
  using assms
  by (simp add: rt_failure_def bounded_text_def MAX_REASON_BYTES_def rt_diagnostic_paths_def
      SERVER_DIAGNOSTIC_def MAX_DIAGNOSTIC_PATHS_def MAX_DIAGNOSTIC_PATH_BYTES_def
      posix_parts_def utf8_len_def)

lemma finalize_ok:
  assumes inv: "runtime_inv n tr s" and "\<not> rm_stop_requested s"
    and "rm_failure_reason s = None \<Longrightarrow> terminal = VStr ''COMPLETED'' \<Longrightarrow> rm_source_summary s \<noteq> None"
  shows "step_ok n tr s
    (Inr (pause_actions s
        @ (if rm_begin_finalization_emitted s then []
           else [BeginFinalization (if rm_failure_reason s \<noteq> None then VStr ''FAILED'' else terminal) r])
        @ [StopServer deadline]),
     s\<lparr>rm_finalization_preempted := True, rm_lifecycle_state := ''FINALIZING'',
       rm_paused := True, rm_begin_finalization_emitted := True,
       rm_finalization_request := Some event, rm_stop_requested := True\<rparr>)"
  using assms
  by (auto simp: step_ok_def runtime_inv_def counts_inv_def phase_inv_def pause_actions_def)

lemma accept_finalization_ok:
  assumes inv: "runtime_inv n tr s"
  shows "step_ok n tr s (accept_finalization event terminal reason deadline s)"
proof (cases "rm_stop_requested s")
  case True
  then show ?thesis by (simp add: accept_finalization_def step_ok_none [OF inv])
next
  case False
  note open_run = False
  show ?thesis
  proof (cases "terminal = VStr ''COMPLETED'' \<and> rm_source_summary s = None
      \<and> rm_failure_reason s = None")
    case True
    obtain as s1 where f: "rt_failure ''COMPLETED finalization requested before exact source-finished''
        SERVER_DIAGNOSTIC s = (Inr as, s1)" "rm_failure_reason s1 \<noteq> None" "\<not> rm_stop_requested s1"
      using rt_failure_constant
          [of s "''COMPLETED finalization requested before exact source-finished''"]
        True open_run by (auto simp: utf8_len_def)
    have first: "step_ok n tr s (Inr as, s1)"
      using rt_failure_ok [OF inv] f(1) by metis
    then have "runtime_inv n (tr @ as) s1" by (simp add: step_ok_def)
    from step_ok_seq [OF first finalize_ok [OF this f(3)]] f(2) show ?thesis
      unfolding accept_finalization_def Let_def using True open_run f(1) by auto
  next
    case False
    then show ?thesis
      using open_run finalize_ok [OF inv open_run, of terminal]
      by (auto simp: accept_finalization_def Let_def)
  qed
qed

lemma accept_stopped_ok:
  assumes inv: "runtime_inv n tr s"
  shows "step_ok n tr s (accept_stopped native s)"
proof -
  have fail: "step_ok n tr s (native_stop_failure r s)" for r
    unfolding native_stop_failure_def by (intro step_ok_mark rt_failure_ok inv)
  have quiet: "step_ok n tr s (Inr [WriteQuiescence (Some native)],
      s\<lparr>rm_native_artifacts := Some native, rm_frozen := True\<rparr>)"
    if "rm_native_artifacts s = None" "rm_stop_requested s"
    using inv that by (auto simp: step_ok_def runtime_inv_def counts_inv_def phase_inv_def)
  show ?thesis
    using fail quiet step_ok_none [OF inv] step_ok_raise [OF inv]
    by (auto simp: accept_stopped_def split: option.splits sum.splits)
qed

lemma runtime_inv_setup [simp]:
  "runtime_inv n tr (s\<lparr>rm_artifacts_ready := b\<rparr>) = runtime_inv n tr s"
  "runtime_inv n tr (s\<lparr>rm_flight_exchange := x\<rparr>) = runtime_inv n tr s"
  by (simp_all add: runtime_inv_def counts_inv_def phase_inv_def)

lemma rt_ready_step:
  assumes "runtime_inv n tr s1"
  shows "step_ok n tr s (rt_ready s1)"
  using rt_ready_ok [OF assms] by (auto simp: step_ok_def rt_ready_def)

lemma accept_setup_ok:
  assumes inv: "runtime_inv n tr s"
  shows "step_ok n tr s (accept_setup event s)"
  using step_ok_none [OF inv] step_ok_raise [OF inv] accept_run_state_ok [OF inv]
    accept_completion_ok [OF inv] inv
  by (auto simp: accept_setup_def intro!: rt_ready_step split: runtime_event.splits option.splits)

lemma runtime_accept_ok:
  assumes inv: "runtime_inv n tr s"
  shows "step_ok n tr s (runtime_accept event s)"
proof -
  note basic = step_ok_none [OF inv] step_ok_raise [OF inv] rt_failure_ok [OF inv]
  have child: "step_ok n tr s (accept_child_exit name code s)" for name code
    using basic by (simp add: accept_child_exit_def)
  show ?thesis
    using basic child step_ok_mark [OF rt_failure_ok [OF inv]] accept_setup_ok [OF inv]
      accept_finalization_ok [OF inv] accept_stopped_ok [OF inv]
    by (auto simp: runtime_accept_def split: runtime_event.splits option.splits)
qed

section \<open>Whole runs\<close>

definition trace :: "runtime_event list \<Rightarrow> runtime_model \<Rightarrow> runtime_action list" where
  "trace es s = returned (fst (run_ops runtime_accept es s))"

lemma returned_actions_of: "returned (r # rs) = actions_of r @ returned rs"
  by (cases r) simp_all

lemma trace_Nil [simp]: "trace [] s = []"
  by (simp add: trace_def)

lemma trace_Cons [simp]:
  "trace (e # es) s = actions_of (fst (runtime_accept e s)) @ trace es (snd (runtime_accept e s))"
  by (simp add: trace_def returned_actions_of)

lemma run_trace_ok:
  assumes "runtime_inv n tr s"
  shows "runtime_inv n (tr @ trace es s) (snd (run_ops runtime_accept es s))
    \<and> all_justified n tr (trace es s)"
  using assms
proof (induction es arbitrary: tr s)
  case (Cons e es)
  have step: "runtime_inv n (tr @ actions_of (fst (runtime_accept e s))) (snd (runtime_accept e s))"
    "all_justified n tr (actions_of (fst (runtime_accept e s)))"
    using runtime_accept_ok [OF Cons.prems] by (simp_all add: step_ok_def)
  show ?case using Cons.IH [OF step(1)] step(2) by simp
qed simp

lemma RuntimeModel_inv:
  assumes "RuntimeModel run_id (VInt n) = Inr s"
  shows "runtime_inv n [] s"
  using assms
  by (auto simp: RuntimeModel_def runtime_inv_def counts_inv_def phase_inv_def
      rt_positive_integer_def split: if_splits)

lemmas initial_trace_ok = run_trace_ok [OF RuntimeModel_inv, simplified]

lemma phase_pauses:
  "phase_inv tr s \<Longrightarrow> pauses tr \<in> {[], [VBool False], [VBool False, VBool True]}"
  unfolding phase_inv_def by auto

lemma counts_once:
  assumes "counts_inv tr s" and "k \<noteq> KSteps" and "k \<noteq> KPaused"
  shows "emitted k tr \<le> 1"
  using assms unfolding counts_inv_def by (cases k) auto

text \<open>
  Whatever events a runtime model receives, in whatever order and however often
  repeated, it publishes readiness, activates output, finishes the source, writes a failure,
  begins finalization, stops the server and writes quiescence at most once each, and it
  unpauses the simulation at most once and pauses it at most once, after unpausing it.
\<close>

theorem runtime_actions_once:
  assumes "RuntimeModel run_id (VInt n) = Inr s"
  shows "pauses (trace es s) \<in> {[], [VBool False], [VBool False, VBool True]}
    \<and> (\<forall>k. k = KSteps \<or> k = KPaused \<or> emitted k (trace es s) \<le> 1)"
  using initial_trace_ok [OF assms, of es] phase_pauses counts_once
  unfolding runtime_inv_def by blast

text \<open>
  C1. Every action of a run is preceded by the actions it depends on: the simulation is
  unpaused only after readiness was published and paused only after it was unpaused, output
  is activated after the simulation was unpaused, the source is finished at exactly the last
  frame's timestamp and after output was activated, the run begins to finalize as COMPLETED
  only after the source was finished and when no failure was written, and quiescence is
  written only after the server was asked to stop.
\<close>

theorem runtime_actions_causal:
  assumes "RuntimeModel run_id (VInt n) = Inr s" and "trace es s = pre @ a # post"
  shows "justified n pre a"
  using initial_trace_ok [OF assms(1), of es] all_justified_split [OF _ assms(2), of n "[]"]
  by simp

section \<open>The nominal run\<close>

definition nominal_summary :: "int \<Rightarrow> adapter_summary" where
  "nominal_summary n = \<lparr>as_onboard_frames = n, as_observer_frames = n, as_paired_frames = n,
     as_ground_truth_samples = n, as_first_sim_timestamp_ns = Some RT_FRAME_INTERVAL_NS,
     as_last_sim_timestamp_ns = Some (n * RT_FRAME_INTERVAL_NS)\<rparr>"

definition nominal_events :: "string \<Rightarrow> int \<Rightarrow> flight_exchange \<Rightarrow> pyval \<Rightarrow> pyval
    \<Rightarrow> native_artifact_summary \<Rightarrow> runtime_event list" where
  "nominal_events r n x reason deadline native =
     [ArtifactsReady (VStr r), GazeboReady (VStr r) (Some x), RunStateEvent (VStr r) (VStr ''READY''),
      RunStateEvent (VStr r) (VStr ''RUNNING''), AdapterCompleted (VStr r) (Some (nominal_summary n)),
      FinalizationRequested (VStr r) (VStr ''COMPLETED'') reason deadline,
      ServerStopped (VStr r) (Some native)]"

lemma nominal_validated:
  "0 < n \<Longrightarrow> rm_expected_frames s = n \<Longrightarrow> validated_completion s (nominal_summary n) = None"
  by (simp add: validated_completion_None nominal_summary_def)

lemma nominal_run:
  assumes "RuntimeModel (VStr r) (VInt n) = Inr s"
    and "native_post_init native = Inr ()" and "\<not> na_subclass native"
    and "path_name (path_parent (path_parent (the (na_server_log_path native)))) = r"
  shows "trace (nominal_events r n x reason deadline native) s =
      [PublishGazeboReady (Some x), SetPaused (VBool False), ActivateOutput,
       SetPaused (VBool True), WriteSourceFinished (VInt (n * RT_FRAME_INTERVAL_NS)),
       BeginFinalization (VStr ''COMPLETED'') reason, StopServer deadline,
       WriteQuiescence (Some native)]
    \<and> rm_frozen (snd (run_ops runtime_accept (nominal_events r n x reason deadline native) s))"
proof -
  have n: "0 < n" and r: "rt_canonical_run_id (VStr r) = Inr r"
    and s: "s = \<lparr>rm_run_id = r, rm_expected_frames = n, rm_artifacts_ready = False,
            rm_flight_exchange = None, rm_gazebo_ready_published = False,
            rm_warmup_started = False, rm_lifecycle_state = ''STARTING'', rm_paused = True,
            rm_source_summary = None, rm_failure_reason = None,
            rm_finalization_preempted = False, rm_begin_finalization_emitted = False,
            rm_stop_requested = False, rm_finalization_request = None,
            rm_server_stop_failed = False, rm_native_artifacts = None, rm_frozen = False\<rparr>"
    using assms(1)
    by (auto simp: RuntimeModel_def rt_positive_integer_def rt_canonical_run_id_def split: if_splits)
  have last: "as_last_sim_timestamp_ns (nominal_summary n) = Some (n * RT_FRAME_INTERVAL_NS)"
    by (simp add: nominal_summary_def)
  show ?thesis
    unfolding nominal_events_def s
    by (simp add: runtime_accept_def accept_setup_def rt_ready_def accept_run_state_def
        str_value_def accept_completion_def accept_finalization_def accept_stopped_def Let_def
        nominal_validated n last pause_actions_def assms(2-4))
qed

text \<open>
  A run that receives the events of a successful run in order performs exactly the
  actions of one, each in its place, and is frozen at its end; here \<open>native\<close> is any valid
  artifact summary of the same run.
\<close>

theorem nominal_run_completes:
  assumes "RuntimeModel (VStr r) (VInt n) = Inr s"
    and "native_post_init native = Inr ()" and "\<not> na_subclass native"
    and "path_name (path_parent (path_parent (the (na_server_log_path native)))) = r"
  shows "trace (nominal_events r n x reason deadline native) s =
      [PublishGazeboReady (Some x), SetPaused (VBool False), ActivateOutput,
       SetPaused (VBool True), WriteSourceFinished (VInt (n * RT_FRAME_INTERVAL_NS)),
       BeginFinalization (VStr ''COMPLETED'') reason, StopServer deadline,
       WriteQuiescence (Some native)]
    \<and> rm_frozen (snd (run_ops runtime_accept (nominal_events r n x reason deadline native) s))"
  using nominal_run [OF assms] .

text \<open>The example run of the witnesses: two frames, and the artifacts it leaves.\<close>

definition example_run_id :: string where
  "example_run_id = ''123e4567-e89b-42d3-a456-426614174000''"

definition example_native :: native_artifact_summary where
  "example_native =
     \<lparr>na_server_log_path = Some \<lparr>path_absolute = True,
        path_names = [''runs'', example_run_id, ''gazebo'', ''server.log'']\<rparr>,
      na_state_log_path = Some \<lparr>path_absolute = True,
        path_names = [''runs'', example_run_id, ''gazebo'', ''state'', ''state.tlog.zst'']\<rparr>,
      na_server_returncode = VInt 0, na_graceful = VBool True, na_subclass = False\<rparr>"

definition example_model :: runtime_model where
  "example_model = \<lparr>rm_run_id = example_run_id, rm_expected_frames = 2, rm_artifacts_ready = False,
     rm_flight_exchange = None, rm_gazebo_ready_published = False, rm_warmup_started = False,
     rm_lifecycle_state = ''STARTING'', rm_paused = True, rm_source_summary = None,
     rm_failure_reason = None, rm_finalization_preempted = False,
     rm_begin_finalization_emitted = False, rm_stop_requested = False,
     rm_finalization_request = None, rm_server_stop_failed = False, rm_native_artifacts = None,
     rm_frozen = False\<rparr>"

lemma example_run_id_ok: "rt_canonical_run_id (VStr example_run_id) = Inr example_run_id"
  by code_simp

lemma example_model_ok: "RuntimeModel (VStr example_run_id) (VInt 2) = Inr example_model"
  by (simp add: RuntimeModel_def example_run_id_ok rt_positive_integer_def example_model_def)

lemma example_run_id_dots: "''..'' \<noteq> example_run_id"
  by (simp add: example_run_id_def)

lemma example_native_ok:
  "native_post_init example_native = Inr ()" "\<not> na_subclass example_native"
  "path_name (path_parent (path_parent (the (na_server_log_path example_native)))) = example_run_id"
  by (simp_all add: native_post_init_def example_native_def absolute_lexical_path_def path_name_def
      path_parent_def example_run_id_ok example_run_id_dots)

definition example_exchange :: flight_exchange where
  "example_exchange = \<lparr>fe_online = VBool True, fe_servo_packets_received = VInt 1,
     fe_motor_updates = VInt 1, fe_duplicate_servo_packets = VInt 0, fe_servo_frame_gaps = VInt 0,
     fe_json_states_sent = VInt 1, fe_json_send_errors = VInt 0, fe_last_servo_frame = VInt 0,
     fe_last_json_sim_time_ns = VInt 0\<rparr>"

abbreviation example_events :: "runtime_event list" where
  "example_events \<equiv> nominal_events example_run_id 2 example_exchange (VStr ''run ended'') (VInt 5)
     example_native"

lemmas example_nominal = nominal_run [OF example_model_ok example_native_ok]

theorem nominal_run_completes_witness:
  "rm_frozen (snd (run_ops runtime_accept example_events example_model))
   \<and> length (trace example_events example_model) = 8"
  using nominal_run_completes [OF example_model_ok example_native_ok] by simp

theorem runtime_actions_once_witness: "emitted KStop (trace example_events example_model) \<le> 1"
  using runtime_actions_once [OF example_model_ok] by blast

theorem runtime_actions_causal_witness:
  "justified 2 [PublishGazeboReady (Some example_exchange), SetPaused (VBool False), ActivateOutput,
       SetPaused (VBool True), WriteSourceFinished (VInt (2 * RT_FRAME_INTERVAL_NS))]
     (BeginFinalization (VStr ''COMPLETED'') (VStr ''run ended''))"
  by (rule runtime_actions_causal [OF example_model_ok, of example_events _ _
        "[StopServer (VInt 5), WriteQuiescence (Some example_native)]"])
    (simp add: example_nominal)

section \<open>Valid actions\<close>

text \<open>
  The model emits actions without re-checking them; that no constructor raises rests on the
  checks the events have passed and on the failure reason it keeps.
\<close>

definition reason_valid :: "runtime_model \<Rightarrow> bool" where
  "reason_valid s \<longleftrightarrow> 0 < rm_expected_frames s \<and>
     (case rm_failure_reason s of None \<Rightarrow> True
      | Some r \<Rightarrow> bounded_text (VStr r) ''reason'' MAX_REASON_BYTES = Inr r)"

definition valid_actions :: "runtime_action list \<Rightarrow> bool" where
  "valid_actions as = list_all (\<lambda>a. action_post_init a = Inr ()) as"

definition valid_step :: "step_result \<Rightarrow> bool" where
  "valid_step res \<longleftrightarrow> valid_actions (actions_of (fst res)) \<and> reason_valid (snd res)"

lemma valid_actions_simps [simp]:
  "valid_actions []"
  "valid_actions (a # as) \<longleftrightarrow> action_post_init a = Inr () \<and> valid_actions as"
  "valid_actions (as @ bs) \<longleftrightarrow> valid_actions as \<and> valid_actions bs"
  "valid_actions (pause_actions s)"
  by (simp_all add: valid_actions_def pause_actions_def)

lemma reason_valid_updates [simp]:
  "reason_valid (s\<lparr>rm_server_stop_failed := b\<rparr>) = reason_valid s"
  "reason_valid (s\<lparr>rm_artifacts_ready := b\<rparr>) = reason_valid s"
  "reason_valid (s\<lparr>rm_flight_exchange := x\<rparr>) = reason_valid s"
  "reason_valid (s\<lparr>rm_gazebo_ready_published := b\<rparr>) = reason_valid s"
  "reason_valid (s\<lparr>rm_paused := b\<rparr>) = reason_valid s"
  "reason_valid (s\<lparr>rm_warmup_started := b\<rparr>) = reason_valid s"
  "reason_valid (s\<lparr>rm_lifecycle_state := st\<rparr>) = reason_valid s"
  "reason_valid (s\<lparr>rm_finalization_preempted := b\<rparr>) = reason_valid s"
  "reason_valid (s\<lparr>rm_begin_finalization_emitted := b\<rparr>) = reason_valid s"
  "reason_valid (s\<lparr>rm_finalization_request := q\<rparr>) = reason_valid s"
  "reason_valid (s\<lparr>rm_stop_requested := b\<rparr>) = reason_valid s"
  "reason_valid (s\<lparr>rm_source_summary := sm\<rparr>) = reason_valid s"
  "reason_valid (s\<lparr>rm_native_artifacts := na\<rparr>) = reason_valid s"
  "reason_valid (s\<lparr>rm_frozen := b\<rparr>) = reason_valid s"
  by (simp_all add: reason_valid_def)

lemma valid_step_simps:
  "valid_step (Inl e, s) \<longleftrightarrow> reason_valid s"
  "valid_step (Inr as, s) \<longleftrightarrow> valid_actions as \<and> reason_valid s"
  by (simp_all add: valid_step_def)

lemma valid_step_mark: "valid_step res \<Longrightarrow> valid_step (mark_stop_failed res)"
  by (auto simp: mark_stop_failed_def valid_step_def split: prod.splits sum.splits)

lemma bounded_text_Inr: "bounded_text v f m = Inr s \<Longrightarrow> v = VStr s"
  by (auto simp: bounded_text_def split: option.splits if_splits)

lemma rt_failure_valid:
  assumes "reason_valid s"
  shows "valid_step (rt_failure reason paths s)"
proof (cases "rm_failure_reason s")
  case None
  have terminal: "rt_terminal (VStr ''FAILED'') = Inr ''FAILED''"
    by (simp add: rt_terminal_def TERMINAL_STATES_def)
  show ?thesis
  proof (cases "bounded_text (VStr reason) ''reason'' MAX_REASON_BYTES")
    case (Inl e)
    then show ?thesis using None assms by (simp add: rt_failure_def valid_step_simps)
  next
    case (Inr x)
    with bounded_text_Inr [OF this] None assms terminal show ?thesis
      by (cases "rt_diagnostic_paths paths")
        (auto simp: rt_failure_def valid_step_simps reason_valid_def)
  qed
qed (use assms in \<open>simp add: rt_failure_def valid_step_simps\<close>)

lemma accept_run_state_valid: "reason_valid s \<Longrightarrow> valid_step (accept_run_state state s)"
  by (simp add: accept_run_state_def valid_step_simps rt_failure_valid)

lemma accept_completion_valid:
  assumes "reason_valid s"
  shows "valid_step (accept_completion sm s)"
proof -
  have "0 < rm_expected_frames s" using assms by (simp add: reason_valid_def)
  then show ?thesis
    using assms
    by (auto simp: accept_completion_def valid_step_simps rt_failure_valid validated_completion_None
        rt_positive_integer_def RT_FRAME_INTERVAL_NS_def split: option.splits)
qed

lemma rt_ready_valid: "reason_valid s \<Longrightarrow> valid_step (rt_ready s)"
  by (auto simp: rt_ready_def valid_step_simps)

lemma accept_stopped_valid: "reason_valid s \<Longrightarrow> valid_step (accept_stopped native s)"
  by (auto simp: accept_stopped_def valid_step_simps native_stop_failure_def
      intro!: valid_step_mark rt_failure_valid split: option.splits sum.splits)

lemma finalize_valid:
  assumes "reason_valid s" and "rt_terminal terminal = Inr t"
    and "bounded_text reason ''reason'' MAX_REASON_BYTES = Inr r" and "rt_deadline deadline = Inr ()"
  shows "action_post_init (BeginFinalization
      (if rm_failure_reason s \<noteq> None then VStr ''FAILED'' else terminal)
      (case rm_failure_reason s of Some r \<Rightarrow> VStr r | None \<Rightarrow> reason)) = Inr ()"
  using assms
  by (auto simp: reason_valid_def rt_terminal_def TERMINAL_STATES_def split: option.splits if_splits)

lemma accept_finalization_valid:
  assumes "reason_valid s" and "rt_terminal terminal = Inr t"
    and "bounded_text reason ''reason'' MAX_REASON_BYTES = Inr r" and "rt_deadline deadline = Inr ()"
  shows "valid_step (accept_finalization event terminal reason deadline s)"
proof -
  obtain res s1 where first: "(if terminal = VStr ''COMPLETED'' \<and> rm_source_summary s = None
        \<and> rm_failure_reason s = None
      then rt_failure ''COMPLETED finalization requested before exact source-finished''
        SERVER_DIAGNOSTIC s else (Inr [], s)) = (res, s1)" (is "?first = _") by fastforce
  have valid: "valid_step (res, s1)"
    unfolding first [symmetric]
    using rt_failure_valid [OF assms(1)] assms(1) by (simp add: valid_step_simps)
  show ?thesis
    unfolding accept_finalization_def first
    using valid assms(1,4) finalize_valid [OF _ assms(2-4), of s1]
    by (cases res) (simp_all add: valid_step_simps Let_def del: action_post_init.simps(7))
qed

lemma accept_setup_valid: "reason_valid s \<Longrightarrow> valid_step (accept_setup event s)"
  by (auto simp: accept_setup_def valid_step_simps
      intro!: accept_run_state_valid accept_completion_valid rt_ready_valid
      split: runtime_event.splits option.splits)

lemma runtime_accept_valid:
  assumes "reason_valid s" and "event_post_init e = Inr ()"
  shows "valid_step (runtime_accept e s)"
proof (cases e)
  case (FinalizationRequested run_id t reason d)
  then obtain u r where "rt_terminal t = Inr u" "bounded_text reason ''reason'' MAX_REASON_BYTES = Inr r"
    "rt_deadline d = Inr ()"
    using assms(2) by (auto simp: event_post_init_def)
  from accept_finalization_valid [OF assms(1) this] assms(1) FinalizationRequested show ?thesis
    by (simp add: runtime_accept_def valid_step_simps)
next
  case (ServerStopped run_id x)
  with assms show ?thesis
    by (cases x) (simp_all add: runtime_accept_def valid_step_simps accept_stopped_valid
        accept_setup_valid)
qed (use assms(1) in \<open>simp_all add: runtime_accept_def valid_step_simps accept_setup_valid
  rt_failure_valid accept_child_exit_def valid_step_mark\<close>)

lemma run_valid:
  assumes "reason_valid s" and "list_all (\<lambda>e. event_post_init e = Inr ()) es"
  shows "valid_actions (trace es s)"
  using assms
proof (induction es arbitrary: s)
  case (Cons e es)
  from Cons.prems runtime_accept_valid [of s e]
  have "valid_actions (actions_of (fst (runtime_accept e s)))" "reason_valid (snd (runtime_accept e s))"
    by (simp_all add: valid_step_def)
  with Cons show ?case by simp
qed simp

lemma RuntimeModel_reason_valid: "RuntimeModel run_id v = Inr s \<Longrightarrow> reason_valid s"
  by (auto simp: RuntimeModel_def rt_positive_integer_def reason_valid_def
      split: option.splits if_splits)

text \<open>
  No action a runtime model emits violates its own constructor's checks, for every
  sequence of valid events: positive timestamps, terminal states, reasons of 1 to 1024
  bytes, relative diagnostic paths and positive finite deadlines.
\<close>

theorem runtime_actions_valid:
  assumes "RuntimeModel run_id v = Inr s" and "list_all (\<lambda>e. event_post_init e = Inr ()) es"
  shows "list_all (\<lambda>a. action_post_init a = Inr ()) (trace es s)"
  using run_valid [OF RuntimeModel_reason_valid [OF assms(1)] assms(2)]
  by (simp add: valid_actions_def)

lemma example_events_valid: "list_all (\<lambda>e. event_post_init e = Inr ()) example_events"
  by (simp add: nominal_events_def event_post_init_def example_run_id_ok LIFECYCLE_STATES_def
      rt_terminal_def TERMINAL_STATES_def bounded_text_def MAX_REASON_BYTES_def utf8_len_def
      float_overflow_def)

theorem runtime_actions_valid_witness:
  "list_all (\<lambda>a. action_post_init a = Inr ()) (trace example_events example_model)"
  by (rule runtime_actions_valid [OF example_model_ok example_events_valid])

section \<open>The end of a run\<close>

text \<open>The final states: a frozen model performs no further action and keeps its state.\<close>

lemma frozen_step:
  assumes "rm_frozen s"
  shows "snd (runtime_accept e s) = s \<and> actions_of (fst (runtime_accept e s)) = []"
  using assms by (simp add: runtime_accept_def)

lemma frozen_run: "rm_frozen s \<Longrightarrow> snd (run_ops runtime_accept es s) = s \<and> trace es s = []"
  by (induction es) (simp_all add: frozen_step)

lemma trace_append:
  "trace (es @ es') s = trace es s @ trace es' (snd (run_ops runtime_accept es s))"
  by (induction es arbitrary: s) simp_all

text \<open>
  Once a run has written quiescence it is over: no later event causes an action or
  changes the model.
\<close>

theorem quiescence_is_final:
  assumes "RuntimeModel run_id (VInt n) = Inr s" and "0 < emitted KQuiescence (trace es s)"
  shows "trace (es @ es') s = trace es s
    \<and> snd (run_ops runtime_accept (es @ es') s) = snd (run_ops runtime_accept es s)"
proof -
  let ?s = "snd (run_ops runtime_accept es s)"
  have "counts_inv (trace es s) ?s" "phase_inv (trace es s) ?s"
    using initial_trace_ok [OF assms(1), of es] by (simp_all add: runtime_inv_def)
  then have "rm_frozen ?s" using assms(2) unfolding counts_inv_def phase_inv_def by auto
  from frozen_run [OF this, of es'] show ?thesis by (simp add: trace_append run_ops_append)
qed

theorem quiescence_is_final_witness:
  "trace (example_events @ [ChildExited (VStr example_run_id) (VStr ''gz'') (VInt 1)]) example_model
     = trace example_events example_model"
  using quiescence_is_final [OF example_model_ok, of example_events] by (simp add: example_nominal)

end
