(* ===== verification/Em_Payload.thy ===== *)
theory Em_Payload
  imports Py_Float
begin

text \<open>
  The payload request policy, \<open>electromagnet/payload.py\<close>: pickup zones, requests, the world
  a request is judged against, and \<open>PayloadAuthority\<close>.

  Coordinates and tolerances are Python floats. The result of \<open>math.hypot\<close> is that of the
  C implementation behind it, which is not specified to the last bit, so \<open>hypot\<close> is a
  parameter of \<open>decide\<close>. The fields of a request come from a ROS service message and have
  the annotated types, so that the two type tests of \<open>decide\<close> always succeed.
\<close>

section \<open>Closeness\<close>

text \<open>\<open>math.isclose\<close> with \<open>rel_tol=0.0\<close> and \<open>abs_tol=1e-12\<close>.\<close>

definition isclose :: "pyfloat \<Rightarrow> pyfloat \<Rightarrow> bool" where
  "isclose a b \<longleftrightarrow>
     (if a = b \<and> a \<noteq> NaN then True
      else if a \<in> {PosInf, NegInf} \<or> b \<in> {PosInf, NegInf} then False
      else fle (fabs (fsub b a)) (Fin 0) \<or> fle (fabs (fsub b a)) (round64 (1 / 10 ^ 12)))"

section \<open>Data\<close>

definition command_id_char :: "char \<Rightarrow> bool" where
  "command_id_char c \<longleftrightarrow>
     (let n = (of_char c :: nat) in
      65 \<le> n \<and> n \<le> 90 \<or> 97 \<le> n \<and> n \<le> 122 \<or> 48 \<le> n \<and> n \<le> 57
      \<or> c \<in> {CHR ''_'', CHR ''.'', CHR '':'', CHR ''-''})"

definition COMMAND_ID :: "string \<Rightarrow> bool" where
  "COMMAND_ID s \<longleftrightarrow> 1 \<le> length s \<and> length s \<le> 128 \<and> list_all command_id_char s"

record pickup_zone =
  center_x_m :: pyfloat
  center_y_m :: pyfloat
  width_m :: pyfloat
  height_m :: pyfloat

type_synonym point = "pyfloat \<times> pyfloat"

definition zone_contains :: "pickup_zone \<Rightarrow> point \<Rightarrow> bool" where
  "zone_contains z xy \<longleftrightarrow>
     fle (fabs (fsub (fst xy) (center_x_m z))) (half (width_m z))
     \<and> fle (fabs (fsub (snd xy) (center_y_m z))) (half (height_m z))"

record payload_request =
  req_run_id :: string
  req_aruco_id :: int
  req_action :: string
  req_command_id :: string

record payload_decision =
  dec_accepted :: bool
  dec_code :: string
  dec_wire_command :: "string option"

record payload_world =
  vehicle_xy :: point
  vehicle_grounded :: bool
  payload_xy :: point
  payload_grounded :: bool
  attached_id :: "int option"

section \<open>PayloadAuthority\<close>

text \<open>The values of the \<open>payload_zones\<close> argument: \<open>None\<close>, a name, or a set of names.\<close>

datatype zone_spec = NoZone | OneZone string | ZoneSet "string set"

fun spec_zones :: "zone_spec \<Rightarrow> string set" where
  "spec_zones NoZone = {}"
| "spec_zones (OneZone z) = {z}"
| "spec_zones (ZoneSet zs) = zs"

record payload_authority =
  pa_run_id :: string
  pa_pickup_zones :: "(string, pickup_zone) dict"
  pa_payload_zones :: "(int, string set) dict"
  pa_max_center_error_m :: pyfloat

definition PayloadAuthority :: "string \<Rightarrow> (string, pickup_zone) dict \<Rightarrow> (int, zone_spec) dict
    \<Rightarrow> int \<Rightarrow> pyfloat \<Rightarrow> payload_authority result" where
  "PayloadAuthority run_id pickup_zones payload_zones payload_capacity max_center_error_m =
     (let zones = map (\<lambda>(marker, spec). (marker, spec_zones spec)) payload_zones in
      if payload_capacity \<noteq> 1 then Inl (ValueError ''payload capacity must be one'')
      else if \<not> isfinite max_center_error_m \<or> fle max_center_error_m (Fin 0) then
        Inl (ValueError ''max center error must be positive and finite'')
      else if \<not> list_all (\<lambda>(marker, zs). zs \<subseteq> set (dict_keys pickup_zones)) zones then
        Inl (ValueError ''payload pickup zones must identify configured regions'')
      else Inr \<lparr>pa_run_id = run_id, pa_pickup_zones = pickup_zones, pa_payload_zones = zones,
                pa_max_center_error_m = max_center_error_m\<rparr>)"

definition rejected :: "string \<Rightarrow> payload_decision" where
  "rejected code = \<lparr>dec_accepted = False, dec_code = code, dec_wire_command = None\<rparr>"

definition approved :: "string \<Rightarrow> string \<Rightarrow> payload_decision" where
  "approved command_id verb =
     \<lparr>dec_accepted = True, dec_code = ''OK'',
      dec_wire_command = Some (''payload-command-v1|'' @ command_id @ ''|'' @ verb)\<rparr>"

text \<open>The zones among \<open>names\<close> that contain a point; an unknown name is a \<open>KeyError\<close>.\<close>

definition zones_at :: "payload_authority \<Rightarrow> string set \<Rightarrow> point \<Rightarrow> string set result" where
  "zones_at a names xy =
     (if \<not> names \<subseteq> set (dict_keys (pa_pickup_zones a)) then Inl KeyError
      else Inr {name \<in> names. case map_of (pa_pickup_zones a) name of
                  Some z \<Rightarrow> zone_contains z xy | None \<Rightarrow> False})"

definition center_error :: "(pyfloat \<Rightarrow> pyfloat \<Rightarrow> pyfloat) \<Rightarrow> payload_world \<Rightarrow> pyfloat" where
  "center_error hypot w =
     hypot (fsub (fst (vehicle_xy w)) (fst (payload_xy w)))
           (fsub (snd (vehicle_xy w)) (snd (payload_xy w)))"

definition off_center :: "(pyfloat \<Rightarrow> pyfloat \<Rightarrow> pyfloat) \<Rightarrow> payload_authority \<Rightarrow> payload_world \<Rightarrow> bool" where
  "off_center hypot a w \<longleftrightarrow>
     flt (pa_max_center_error_m a) (center_error hypot w)
     \<and> \<not> isclose (center_error hypot w) (pa_max_center_error_m a)"

definition decide_attach :: "(pyfloat \<Rightarrow> pyfloat \<Rightarrow> pyfloat) \<Rightarrow> payload_authority \<Rightarrow> string set
    \<Rightarrow> payload_world \<Rightarrow> string \<Rightarrow> payload_decision result" where
  "decide_attach hypot a allowed_zones world command_id =
     (if allowed_zones = {} then Inr (rejected ''WRONG_PICKUP_ZONE'')
      else if \<not> vehicle_grounded world then Inr (rejected ''NOT_LANDED'')
      else rbind (zones_at a allowed_zones (vehicle_xy world)) (\<lambda>vehicle_zones.
        if vehicle_zones = {} then Inr (rejected ''OUTSIDE_PICKUP_ZONE'')
        else rbind (zones_at a allowed_zones (payload_xy world)) (\<lambda>payload_zones.
          Inr (if vehicle_zones \<inter> payload_zones = {} then rejected ''WRONG_PICKUP_ZONE''
               else if \<not> payload_grounded world then rejected ''PAYLOAD_NOT_GROUNDED''
               else if attached_id world \<noteq> None then rejected ''CAPACITY_OCCUPIED''
               else if off_center hypot a world then rejected ''CENTER_ERROR''
               else approved command_id ''attach''))))"

definition decide :: "(pyfloat \<Rightarrow> pyfloat \<Rightarrow> pyfloat) \<Rightarrow> payload_authority \<Rightarrow> payload_world
    \<Rightarrow> payload_request \<Rightarrow> payload_decision result" where
  "decide hypot a world request =
     (if req_run_id request \<noteq> pa_run_id a then Inr (rejected ''STALE_RUN'')
      else if \<not> COMMAND_ID (req_command_id request) then Inr (rejected ''INVALID_COMMAND_ID'')
      else case map_of (pa_payload_zones a) (req_aruco_id request) of
        None \<Rightarrow> Inr (rejected ''UNKNOWN_MARKER'')
      | Some allowed_zones \<Rightarrow>
          if req_action request \<notin> {''attach'', ''release''} then Inr (rejected ''INVALID_ACTION'')
          else if req_action request = ''release'' then
            Inr (if attached_id world \<noteq> Some (req_aruco_id request) then rejected ''NOT_ATTACHED''
                 else approved (req_command_id request) ''detach'')
          else decide_attach hypot a allowed_zones world (req_command_id request))"

section \<open>Decisions of a constructed authority\<close>

definition authority_ok :: "payload_authority \<Rightarrow> bool" where
  "authority_ok a \<longleftrightarrow>
     list_all (\<lambda>(marker, zs). zs \<subseteq> set (dict_keys (pa_pickup_zones a))) (pa_payload_zones a)
     \<and> (\<exists>m. pa_max_center_error_m a = Fin m \<and> 0 < m)"

lemma PayloadAuthority_ok: "PayloadAuthority r zs ps c m = Inr a \<Longrightarrow> authority_ok a"
  by (cases m) (auto simp: PayloadAuthority_def authority_ok_def Let_def split: if_splits)

lemma rejected_simps [simp]:
  "dec_accepted (rejected c) = False" "dec_wire_command (rejected c) = None"
  "dec_code (rejected c) = c"
  by (simp_all add: rejected_def)

lemma approved_simps [simp]:
  "dec_accepted (approved c v)" "dec_code (approved c v) = ''OK''"
  "dec_wire_command (approved c v) = Some (''payload-command-v1|'' @ c @ ''|'' @ v)"
  by (simp_all add: approved_def)

lemma rejected_not_approved [simp]: "rejected c \<noteq> approved d v" "approved d v \<noteq> rejected c"
  by (simp_all add: rejected_def approved_def)

text \<open>A zone both the vehicle and the payload are in.\<close>

definition common_zone :: "payload_authority \<Rightarrow> string set \<Rightarrow> payload_world \<Rightarrow> bool" where
  "common_zone a names w \<longleftrightarrow>
     (\<exists>name \<in> names. \<exists>z. map_of (pa_pickup_zones a) name = Some z
        \<and> zone_contains z (vehicle_xy w) \<and> zone_contains z (payload_xy w))"

lemma authority_zones:
  "authority_ok a \<Longrightarrow> map_of (pa_payload_zones a) m = Some zs \<Longrightarrow>
     zs \<subseteq> set (dict_keys (pa_pickup_zones a))"
  unfolding authority_ok_def by (auto simp: list_all_iff dest!: map_of_SomeD)

lemma zones_at_ok:
  assumes "names \<subseteq> set (dict_keys (pa_pickup_zones a))"
  shows "zones_at a names xy = Inr {name \<in> names. \<exists>z. map_of (pa_pickup_zones a) name = Some z
    \<and> zone_contains z xy}"
  using assms unfolding zones_at_def by (auto split: option.splits)

text \<open>When the policy lets a payload be picked up.\<close>

definition attach_allowed :: "(pyfloat \<Rightarrow> pyfloat \<Rightarrow> pyfloat) \<Rightarrow> payload_authority \<Rightarrow> string set
    \<Rightarrow> payload_world \<Rightarrow> bool" where
  "attach_allowed hypot a zs w \<longleftrightarrow>
     vehicle_grounded w \<and> payload_grounded w \<and> attached_id w = None
     \<and> common_zone a zs w \<and> \<not> off_center hypot a w"

lemma decide_attach_eq:
  assumes "zs \<subseteq> set (dict_keys (pa_pickup_zones a))"
  shows "\<exists>c. c \<noteq> ''OK'' \<and> decide_attach hypot a zs w cid =
    Inr (if attach_allowed hypot a zs w then approved cid ''attach'' else rejected c)"
proof -
  define V where "V = {name \<in> zs. \<exists>z. map_of (pa_pickup_zones a) name = Some z
    \<and> zone_contains z (vehicle_xy w)}"
  define P where "P = {name \<in> zs. \<exists>z. map_of (pa_pickup_zones a) name = Some z
    \<and> zone_contains z (payload_xy w)}"
  have common: "V \<inter> P = {} \<longleftrightarrow> \<not> common_zone a zs w"
    and empty: "V = {} \<Longrightarrow> \<not> common_zone a zs w" "zs = {} \<Longrightarrow> \<not> common_zone a zs w"
    unfolding common_zone_def V_def P_def by auto
  have eq: "decide_attach hypot a zs w cid =
     Inr (if zs = {} then rejected ''WRONG_PICKUP_ZONE''
       else if \<not> vehicle_grounded w then rejected ''NOT_LANDED''
       else if V = {} then rejected ''OUTSIDE_PICKUP_ZONE''
       else if \<not> common_zone a zs w then rejected ''WRONG_PICKUP_ZONE''
       else if \<not> payload_grounded w then rejected ''PAYLOAD_NOT_GROUNDED''
       else if attached_id w \<noteq> None then rejected ''CAPACITY_OCCUPIED''
       else if off_center hypot a w then rejected ''CENTER_ERROR''
       else approved cid ''attach'')"
    unfolding decide_attach_def zones_at_ok [OF assms] rbind_simps V_def [symmetric]
      P_def [symmetric] common by simp
  show ?thesis
  proof (cases "attach_allowed hypot a zs w")
    case True
    with empty show ?thesis
      unfolding eq by (intro exI [of _ "''NOT_LANDED''"]) (auto simp: attach_allowed_def)
  next
    case False
    let ?c = "if zs = {} then ''WRONG_PICKUP_ZONE'' else if \<not> vehicle_grounded w then ''NOT_LANDED''
      else if V = {} then ''OUTSIDE_PICKUP_ZONE''
      else if \<not> common_zone a zs w then ''WRONG_PICKUP_ZONE''
      else if \<not> payload_grounded w then ''PAYLOAD_NOT_GROUNDED''
      else if attached_id w \<noteq> None then ''CAPACITY_OCCUPIED'' else ''CENTER_ERROR''"
    have "decide_attach hypot a zs w cid = Inr (rejected ?c)"
      unfolding eq using False by (auto simp: attach_allowed_def)
    with False show ?thesis by (intro exI [of _ ?c]) simp
  qed
qed

lemma decide_outcome [case_names reject attach release]:
  assumes "authority_ok a"
  obtains c where "decide hypot a w r = Inr (rejected c)"
  | zs where "decide hypot a w r = Inr (approved (req_command_id r) ''attach'')"
      "req_action r = ''attach''" "map_of (pa_payload_zones a) (req_aruco_id r) = Some zs"
      "attach_allowed hypot a zs w"
  | "decide hypot a w r = Inr (approved (req_command_id r) ''detach'')"
      "req_action r = ''release''" "attached_id w = Some (req_aruco_id r)"
proof (cases "map_of (pa_payload_zones a) (req_aruco_id r)")
  case None
  then have "\<exists>c. decide hypot a w r = Inr (rejected c)" by (auto simp: decide_def)
  with that(1) show ?thesis by blast
next
  case (Some zs)
  obtain c where "decide_attach hypot a zs w (req_command_id r) =
      Inr (if attach_allowed hypot a zs w then approved (req_command_id r) ''attach'' else rejected c)"
    using decide_attach_eq [OF authority_zones [OF assms Some]] by blast
  with Some have "(\<exists>c. decide hypot a w r = Inr (rejected c))
    \<or> decide hypot a w r = Inr (approved (req_command_id r) ''attach'')
      \<and> req_action r = ''attach'' \<and> attach_allowed hypot a zs w
    \<or> decide hypot a w r = Inr (approved (req_command_id r) ''detach'')
      \<and> req_action r = ''release'' \<and> attached_id w = Some (req_aruco_id r)"
    by (auto simp: decide_def)
  with that Some show ?thesis by blast
qed

text \<open>
  C28. The policy approves an attach command exactly when the request belongs to the run, its
  command id has the required form, its marker is known, the vehicle and the payload are
  both grounded and in a common pickup zone of that payload, nothing is attached, and the
  center error is within the tolerance. It approves a release exactly when the payload is
  the attached one. It never raises, and every other request is rejected without a command.
\<close>

theorem decide_exact:
  assumes "PayloadAuthority run_id zones payload_zones capacity tolerance = Inr a"
  shows "\<exists>d. decide hypot a w r = Inr d \<and>
    (d = approved (req_command_id r) ''attach'' \<longleftrightarrow>
       req_run_id r = pa_run_id a \<and> COMMAND_ID (req_command_id r) \<and> req_action r = ''attach''
       \<and> (\<exists>zs. map_of (pa_payload_zones a) (req_aruco_id r) = Some zs \<and> attach_allowed hypot a zs w))
    \<and> (d = approved (req_command_id r) ''detach'' \<longleftrightarrow>
       req_run_id r = pa_run_id a \<and> COMMAND_ID (req_command_id r) \<and> req_action r = ''release''
       \<and> req_aruco_id r \<in> fst ` set (pa_payload_zones a) \<and> attached_id w = Some (req_aruco_id r))
    \<and> (d \<noteq> approved (req_command_id r) ''attach'' \<and> d \<noteq> approved (req_command_id r) ''detach''
       \<longrightarrow> \<not> dec_accepted d \<and> dec_wire_command d = None)"
proof (cases "map_of (pa_payload_zones a) (req_aruco_id r)")
  case None
  then have "req_aruco_id r \<notin> fst ` set (pa_payload_zones a)" by (simp add: map_of_eq_None_iff)
  with None show ?thesis by (simp add: decide_def)
next
  case (Some zs)
  have key: "req_aruco_id r \<in> fst ` set (pa_payload_zones a)"
    using map_of_SomeD [OF Some] by force
  have verbs: "approved c ''attach'' \<noteq> approved c ''detach''" for c by (simp add: approved_def)
  obtain c where "decide_attach hypot a zs w (req_command_id r) =
      Inr (if attach_allowed hypot a zs w then approved (req_command_id r) ''attach'' else rejected c)"
    using decide_attach_eq [OF authority_zones [OF PayloadAuthority_ok [OF assms] Some]] by blast
  with Some key verbs verbs [symmetric] show ?thesis by (simp add: decide_def)
qed

text \<open>An authority with one zone, and a centered, grounded world.\<close>

definition example_zone :: pickup_zone where
  "example_zone = \<lparr>center_x_m = Fin 0, center_y_m = Fin 0, width_m = Fin 6, height_m = Fin 6\<rparr>"

definition example_authority :: payload_authority where
  "example_authority = \<lparr>pa_run_id = sample_run_id, pa_pickup_zones = [(''WA'', example_zone)],
     pa_payload_zones = [(2, {}), (3, {''WA''}), (4, {''WA''})], pa_max_center_error_m = Fin (1 / 8)\<rparr>"

definition example_world :: payload_world where
  "example_world = \<lparr>vehicle_xy = (Fin 1, Fin 2), vehicle_grounded = True, payload_xy = (Fin 1, Fin 2),
     payload_grounded = True, attached_id = None\<rparr>"

definition example_request :: payload_request where
  "example_request = \<lparr>req_run_id = sample_run_id, req_aruco_id = 3, req_action = ''attach'',
     req_command_id = ''run:3:attach:1''\<rparr>"

definition axis_hypot :: "pyfloat \<Rightarrow> pyfloat \<Rightarrow> pyfloat" where
  "axis_hypot x y = (if y = Fin 0 then fabs x else if x = Fin 0 then fabs y else PosInf)"

lemma example_authority_ok:
  "PayloadAuthority sample_run_id [(''WA'', example_zone)]
     [(2, NoZone), (3, OneZone ''WA''), (4, ZoneSet {''WA''})] 1 (Fin (1 / 8)) = Inr example_authority"
  by (simp add: PayloadAuthority_def example_authority_def)

lemma round64_numeral [simp]:
  "round64 0 = Fin 0" "round64 1 = Fin 1" "round64 2 = Fin 2" "round64 3 = Fin 3"
  using round64_int [of 0] round64_int [of 1] round64_int [of 2] round64_int [of 3] by simp_all

lemma example_common: "common_zone example_authority {''WA''} example_world"
  by (simp add: common_zone_def example_authority_def example_world_def example_zone_def
      zone_contains_def)

lemma example_off_center: "\<not> off_center axis_hypot example_authority example_world"
  by (simp add: off_center_def center_error_def example_authority_def example_world_def
      axis_hypot_def flt_def)

lemma example_allowed: "attach_allowed axis_hypot example_authority {''WA''} example_world"
  using example_common example_off_center by (simp add: attach_allowed_def example_world_def)

lemma example_command_id: "COMMAND_ID ''run:3:attach:1''"
  by (simp add: COMMAND_ID_def command_id_char_def)

theorem decide_exact_witness:
  "decide axis_hypot example_authority example_world example_request =
     Inr (approved ''run:3:attach:1'' ''attach'')"
  using decide_exact [OF example_authority_ok, of axis_hypot example_world example_request]
    example_allowed example_command_id
  by (auto simp: example_request_def example_authority_def)

end
