(* ===== verification/Em_Gateway.thy ===== *)
theory Em_Gateway
  imports Em_Payload
begin

text \<open>
  \<open>PayloadGateway\<close> of \<open>electromagnet/controller.py\<close>: the facts it keeps about the vehicle
  and the three payloads, and the execution of a payload command up to its physical
  confirmation.

  \<open>execute\<close> holds the operation lock, so at most one command is executed at a time, but it
  releases the state lock between its parts, and telemetry and result callbacks of other
  threads run in between. Each part that holds the state lock is one atomic section here;
  \<open>exec_pc\<close> says which section comes next, and \<open>gw_step\<close> interleaves the sections with
  the callbacks in every possible way.
\<close>

section \<open>Physical results\<close>

record physical_result =
  ph_command_id :: string
  ph_status :: string
  ph_state :: string
  ph_code :: string

definition result_error :: "'a result" where
  "result_error = Inl (ValueError ''physical result must use payload-result-v1'')"

definition parse_physical_result :: "pyval \<Rightarrow> physical_result result" where
  "parse_physical_result v =
     (case v of
        VStr text0 \<Rightarrow>
          (case split_on (CHR ''|'') text0 of
             [prefix, command_id, status, state, code] \<Rightarrow>
               if prefix \<noteq> ''payload-result-v1'' then result_error
               else if command_id = [] \<or> status \<notin> {''confirmed'', ''error''}
                       \<or> state \<notin> {''attached'', ''detached'', ''unknown''} \<or> code = [] then result_error
               else if status = ''confirmed'' \<and> (state = ''unknown'' \<or> code \<noteq> ''OK'') then result_error
               else if status = ''error'' \<and> state \<noteq> ''unknown'' then result_error
               else Inr \<lparr>ph_command_id = command_id, ph_status = status, ph_state = state,
                         ph_code = code\<rparr>
           | _ \<Rightarrow> result_error)
      | _ \<Rightarrow> result_error)"

section \<open>State\<close>

definition PHYSICAL_HISTORY_HORIZON_NS :: int where
  "PHYSICAL_HISTORY_HORIZON_NS = 500000000"

definition PAYLOAD_MARKERS :: "int list" where
  "PAYLOAD_MARKERS = [2, 3, 4]"

record payload_response =
  re_accepted :: bool
  re_code :: string
  re_detail :: string
  re_command_id :: string
  re_response_sequence :: int

record payload_event =
  pe_run_id :: string
  pe_timestamp_ns :: int
  pe_event_id :: int
  pe_aruco_id :: int
  pe_command_id :: string
  pe_action :: string
  pe_state :: string
  pe_code :: string

record vehicle_fact =
  vf_timestamp_ns :: int
  vf_xy :: point
  vf_grounded :: bool

record payload_fact =
  pf_timestamp_ns :: int
  pf_xy :: point
  pf_grounded :: bool
  pf_attached :: bool

text \<open>A pending result; its \<open>Event\<close> is set exactly when the value is.\<close>

record pending_result =
  pr_marker_id :: int
  pr_value :: "physical_result option"

record gateway =
  gw_authority :: payload_authority
  gw_confirmation_timeout :: pyfloat
  gw_vehicle :: "vehicle_fact option"
  gw_payloads :: "(int, payload_fact) dict"
  gw_vehicle_history :: "(int, vehicle_fact) dict"
  gw_payload_histories :: "(int, (int, payload_fact) dict) dict"
  gw_pending :: "(string, pending_result) dict"
  gw_responses :: "(string, payload_request \<times> payload_response) dict"
  gw_response_sequence :: int
  gw_event_id :: int

definition PayloadGateway :: "payload_authority \<Rightarrow> pyfloat \<Rightarrow> gateway result" where
  "PayloadGateway authority timeout =
     (if fle timeout (Fin 0) then Inl (ValueError ''confirmation timeout must be positive'')
      else Inr \<lparr>gw_authority = authority, gw_confirmation_timeout = timeout, gw_vehicle = None,
                gw_payloads = [], gw_vehicle_history = [],
                gw_payload_histories = map (\<lambda>marker. (marker, [])) PAYLOAD_MARKERS,
                gw_pending = [], gw_responses = [], gw_response_sequence = 0, gw_event_id = 0\<rparr>)"

section \<open>Telemetry\<close>

definition attached_markers :: "(int, payload_fact) dict \<Rightarrow> int list" where
  "attached_markers d = map fst (filter (\<lambda>(marker, known). pf_attached known) d)"

definition attachment_state :: "gateway \<Rightarrow> int option \<times> bool" where
  "attachment_state s =
     (case attached_markers (gw_payloads s) of
        [] \<Rightarrow> (None, True) | [m] \<Rightarrow> (Some m, True) | _ \<Rightarrow> (None, False))"

definition gw_attached_id :: "gateway \<Rightarrow> int option" where
  "gw_attached_id s = (let (m, valid) = attachment_state s in if valid then m else None)"

definition latest_timestamps :: "gateway \<Rightarrow> int list" where
  "latest_timestamps s =
     map (pf_timestamp_ns \<circ> snd) (gw_payloads s)
     @ (case gw_vehicle s of None \<Rightarrow> [] | Some v \<Rightarrow> [vf_timestamp_ns v])"

definition since :: "int \<Rightarrow> (int, 'a) dict \<Rightarrow> (int, 'a) dict" where
  "since cutoff d = filter (\<lambda>(timestamp_ns, known). cutoff \<le> timestamp_ns) d"

definition prune_histories :: "gateway \<Rightarrow> gateway" where
  "prune_histories s =
     (if latest_timestamps s = [] then s
      else let cutoff = Max (set (latest_timestamps s)) - PHYSICAL_HISTORY_HORIZON_NS
           in s\<lparr>gw_vehicle_history := since cutoff (gw_vehicle_history s),
                gw_payload_histories :=
                  map (\<lambda>(marker, h). (marker, since cutoff h)) (gw_payload_histories s)\<rparr>)"

definition accept_vehicle :: "string \<Rightarrow> int \<Rightarrow> point \<Rightarrow> bool \<Rightarrow> gateway \<Rightarrow> gateway" where
  "accept_vehicle run_id timestamp_ns xy grounded s =
     (if run_id \<noteq> pa_run_id (gw_authority s)
         \<or> (case gw_vehicle s of None \<Rightarrow> False | Some v \<Rightarrow> timestamp_ns \<le> vf_timestamp_ns v) then s
      else let v = \<lparr>vf_timestamp_ns = timestamp_ns, vf_xy = xy, vf_grounded = grounded\<rparr>
           in prune_histories (s\<lparr>gw_vehicle := Some v,
                gw_vehicle_history := AList.update timestamp_ns v (gw_vehicle_history s)\<rparr>))"

text \<open>
  Put a fact into a payload's history. The histories of the three markers exist from the
  constructor on.
\<close>

definition remember_payload :: "int \<Rightarrow> payload_fact \<Rightarrow> gateway \<Rightarrow> gateway" where
  "remember_payload marker known s =
     s\<lparr>gw_payloads := AList.update marker known (gw_payloads s),
       gw_payload_histories :=
         map (\<lambda>(m, h). (m, if m = marker then AList.update (pf_timestamp_ns known) known h else h))
           (gw_payload_histories s)\<rparr>"

definition accept_payload :: "string \<Rightarrow> int \<Rightarrow> int \<Rightarrow> point \<Rightarrow> bool \<Rightarrow> bool \<Rightarrow> gateway \<Rightarrow> gateway" where
  "accept_payload run_id timestamp_ns aruco_id xy grounded attached s =
     (if run_id \<noteq> pa_run_id (gw_authority s) \<or> aruco_id \<notin> set PAYLOAD_MARKERS
         \<or> (case map_of (gw_payloads s) aruco_id of
              None \<Rightarrow> False | Some previous \<Rightarrow> timestamp_ns \<le> pf_timestamp_ns previous) then s
      else prune_histories (remember_payload aruco_id
             \<lparr>pf_timestamp_ns = timestamp_ns, pf_xy = xy, pf_grounded = grounded,
              pf_attached = attached\<rparr> s))"

definition accept_result :: "int \<Rightarrow> pyval \<Rightarrow> gateway \<Rightarrow> unit result \<times> gateway" where
  "accept_result aruco_id wire s =
     (case parse_physical_result wire of
        Inl e \<Rightarrow> (Inl e, s)
      | Inr res \<Rightarrow>
          (case map_of (gw_pending s) (ph_command_id res) of
             None \<Rightarrow> (Inr (), s)
           | Some p \<Rightarrow>
               if pr_marker_id p \<noteq> aruco_id \<or> pr_value p \<noteq> None then (Inr (), s)
               else (Inr (), s\<lparr>gw_pending :=
                 AList.update (ph_command_id res) (p\<lparr>pr_value := Some res\<rparr>) (gw_pending s)\<rparr>)))"

definition gw_ready :: "int set \<Rightarrow> bool \<Rightarrow> gateway \<Rightarrow> bool" where
  "gw_ready result_publishers service_ready s \<longleftrightarrow>
     gw_vehicle s \<noteq> None \<and> set (dict_keys (gw_payloads s)) = set PAYLOAD_MARKERS
     \<and> card (set (latest_timestamps s)) = 1 \<and> snd (attachment_state s)
     \<and> result_publishers = set PAYLOAD_MARKERS \<and> service_ready"

section \<open>Snapshots\<close>

definition common_timestamps :: "gateway \<Rightarrow> int set" where
  "common_timestamps s =
     foldl (\<lambda>ts (marker, h). ts \<inter> set (dict_keys h)) (set (dict_keys (gw_vehicle_history s)))
       (gw_payload_histories s)"

text \<open>The payload facts of a common timestamp.\<close>

definition payloads_at :: "int \<Rightarrow> gateway \<Rightarrow> (int, payload_fact) dict" where
  "payloads_at timestamp_ns s =
     map (\<lambda>(marker, h). (marker, the (map_of h timestamp_ns))) (gw_payload_histories s)"

definition facts_changed :: "gateway \<Rightarrow> vehicle_fact \<Rightarrow> (int, payload_fact) dict \<Rightarrow> bool" where
  "facts_changed s vehicle payloads \<longleftrightarrow>
     vf_grounded (the (gw_vehicle s)) \<noteq> vf_grounded vehicle
     \<or> \<not> list_all (\<lambda>(marker, known).
          pf_grounded (the (map_of (gw_payloads s) marker)) = pf_grounded known
          \<and> pf_attached (the (map_of (gw_payloads s) marker)) = pf_attached known) payloads"

definition snapshot :: "payload_request \<Rightarrow> gateway \<Rightarrow> string + payload_world" where
  "snapshot request s =
     (if gw_vehicle s = None \<or> set (dict_keys (gw_payloads s)) \<noteq> set PAYLOAD_MARKERS then
        Inl ''NOT_READY''
      else if common_timestamps s = {} then Inl ''STALE_PHYSICAL_STATE''
      else
        (let timestamp_ns = Max (common_timestamps s);
             vehicle = the (map_of (gw_vehicle_history s) timestamp_ns);
             payloads = payloads_at timestamp_ns s;
             attached_ids = attached_markers payloads;
             attached = (if length attached_ids = 1 then Some (hd attached_ids) else None);
             (current, current_valid) = attachment_state s
         in if \<not> length attached_ids \<le> 1 then Inl ''INVALID_PHYSICAL_STATE''
            else if \<not> current_valid then Inl ''INVALID_PHYSICAL_STATE''
            else if current \<noteq> attached \<or> facts_changed s vehicle payloads then
              Inl ''STALE_PHYSICAL_STATE''
            else
              (let payload = (case map_of payloads (req_aruco_id request) of
                                Some known \<Rightarrow> known
                              | None \<Rightarrow> \<lparr>pf_timestamp_ns = 0, pf_xy = (Fin 0, Fin 0),
                                         pf_grounded = False, pf_attached = False\<rparr>)
               in Inr \<lparr>vehicle_xy = vf_xy vehicle, vehicle_grounded = vf_grounded vehicle,
                       payload_xy = pf_xy payload, payload_grounded = pf_grounded payload,
                       attached_id = attached\<rparr>)))"

section \<open>Execution\<close>

text \<open>
  What \<open>execute\<close> does next. The external calls, \<open>publish_command\<close>, the wait for a result
  and \<open>publish_event\<close>, are the points \<open>AtPublish\<close>, \<open>AtWait\<close> and \<open>AtEvent\<close>.
\<close>

datatype exec_pc =
    Idle
  | AtLookup payload_request
  | AtSnapshot payload_request
  | AtDecide payload_request payload_world
  | AtRespond payload_request bool string string
  | AtPublish payload_request payload_world string
  | AtUnpublish payload_request
  | AtWait payload_request
  | AtCollect payload_request bool
  | AtRecord payload_request physical_result
  | AtReply payload_request physical_result payload_event
  | AtEvent payload_request payload_event payload_response

text \<open>
  What an observer sees: calls of \<open>publish_command\<close> and \<open>publish_event\<close>, results taken
  for a pending command, responses as they are made, and how \<open>execute\<close> ends.
\<close>

datatype gw_effect =
    CommandCall payload_request payload_world string
  | ResultTaken int physical_result
  | Responded payload_response
  | EventCall payload_event
  | Returned payload_request payload_response
  | Raised payload_request exn

definition gw_response :: "payload_request \<Rightarrow> bool \<Rightarrow> string \<Rightarrow> string \<Rightarrow> bool \<Rightarrow> gateway
    \<Rightarrow> payload_response \<times> gateway" where
  "gw_response request accepted code detail cache s =
     (let n = gw_response_sequence s + 1;
          response = \<lparr>re_accepted = accepted, re_code = code, re_detail = detail,
                      re_command_id = req_command_id request, re_response_sequence = n\<rparr>;
          s1 = s\<lparr>gw_response_sequence := n\<rparr>
      in (response,
          if cache then s1\<lparr>gw_responses :=
                AList.update (req_command_id request) (request, response) (gw_responses s1)\<rparr>
          else s1))"

definition exec_lookup :: "payload_request \<Rightarrow> gateway \<Rightarrow> gw_effect list \<times> exec_pc \<times> gateway" where
  "exec_lookup request s =
     (case map_of (gw_responses s) (req_command_id request) of
        Some (earlier, response) \<Rightarrow>
          if earlier = request then ([Returned request response], Idle, s)
          else let (response, s1) = gw_response request False ''COMMAND_ID_CONFLICT''
                     ''command_id was already used by a different request'' False s
               in ([Responded response, Returned request response], Idle, s1)
      | None \<Rightarrow> ([], AtSnapshot request, s))"

definition exec_snapshot :: "payload_request \<Rightarrow> gateway \<Rightarrow> gw_effect list \<times> exec_pc \<times> gateway" where
  "exec_snapshot request s =
     (case snapshot request s of
        Inl code \<Rightarrow>
          ([], AtRespond request False code
             ''current vehicle and payload truth is incomplete or inconsistent'', s)
      | Inr world \<Rightarrow> ([], AtDecide request world, s))"

text \<open>\<open>decide\<close> reads no mutable state; the command is then registered as pending.\<close>

definition exec_decide :: "(pyfloat \<Rightarrow> pyfloat \<Rightarrow> pyfloat) \<Rightarrow> payload_request \<Rightarrow> payload_world
    \<Rightarrow> gateway \<Rightarrow> gw_effect list \<times> exec_pc \<times> gateway" where
  "exec_decide hypot request world s =
     (case decide hypot (gw_authority s) world request of
        Inl e \<Rightarrow> ([Raised request e], Idle, s)
      | Inr d \<Rightarrow>
          (case dec_wire_command d of
             None \<Rightarrow> ([], AtRespond request (dec_accepted d) (dec_code d) (dec_code d), s)
           | Some wire \<Rightarrow>
               ([], AtPublish request world wire,
                s\<lparr>gw_pending := AList.update (req_command_id request)
                    \<lparr>pr_marker_id = req_aruco_id request, pr_value = None\<rparr> (gw_pending s)\<rparr>)))"

definition exec_respond :: "payload_request \<Rightarrow> bool \<Rightarrow> string \<Rightarrow> string \<Rightarrow> gateway
    \<Rightarrow> gw_effect list \<times> exec_pc \<times> gateway" where
  "exec_respond request accepted code detail s =
     (let (response, s1) = gw_response request accepted code detail True s
      in ([Responded response, Returned request response], Idle, s1))"

definition exec_unpublish :: "payload_request \<Rightarrow> gateway \<Rightarrow> gw_effect list \<times> exec_pc \<times> gateway" where
  "exec_unpublish request s =
     ([], AtRespond request False ''COORDINATOR_PUBLISH_FAILED''
        ''coordinator command could not be published'',
      s\<lparr>gw_pending := AList.delete (req_command_id request) (gw_pending s)\<rparr>)"

definition exec_judge :: "payload_request \<Rightarrow> physical_result \<Rightarrow> exec_pc" where
  "exec_judge request physical =
     (let expected_state = (if req_action request = ''attach'' then ''attached'' else ''detached'') in
      if ph_status physical = ''confirmed'' \<and> ph_state physical = expected_state
         \<and> ph_code physical = ''OK'' then AtRecord request physical
      else AtRespond request False
             (if ph_status physical = ''error'' then ph_code physical
              else ''PHYSICAL_CONFIRMATION_MISMATCH'')
             ''Gazebo rejected the physical payload command'')"

definition exec_collect :: "payload_request \<Rightarrow> bool \<Rightarrow> gateway \<Rightarrow> gw_effect list \<times> exec_pc \<times> gateway" where
  "exec_collect request confirmed s =
     (let physical = (case map_of (gw_pending s) (req_command_id request) of
                        None \<Rightarrow> None | Some p \<Rightarrow> pr_value p);
          s1 = s\<lparr>gw_pending := AList.delete (req_command_id request) (gw_pending s)\<rparr>
      in case physical of
           Some ph \<Rightarrow>
             if confirmed then ([], exec_judge request ph, s1)
             else ([], AtRespond request False ''PHYSICAL_CONFIRMATION_TIMEOUT''
                     ''no matching physical confirmation within five wall seconds'', s1)
         | None \<Rightarrow> ([], AtRespond request False ''PHYSICAL_CONFIRMATION_TIMEOUT''
                     ''no matching physical confirmation within five wall seconds'', s1))"

definition exec_record :: "payload_request \<Rightarrow> physical_result \<Rightarrow> gateway
    \<Rightarrow> gw_effect list \<times> exec_pc \<times> gateway" where
  "exec_record request physical s =
     (case map_of (gw_payloads s) (req_aruco_id request) of
        None \<Rightarrow> ([Raised request KeyError], Idle, s)
      | Some known \<Rightarrow>
          (let s1 = remember_payload (req_aruco_id request)
                      (known\<lparr>pf_attached := (req_action request = ''attach'')\<rparr>) s;
               timestamp_ns = max (case gw_vehicle s of Some v \<Rightarrow> vf_timestamp_ns v | None \<Rightarrow> 0)
                                (pf_timestamp_ns known);
               event = \<lparr>pe_run_id = pa_run_id (gw_authority s), pe_timestamp_ns = timestamp_ns,
                        pe_event_id = gw_event_id s, pe_aruco_id = req_aruco_id request,
                        pe_command_id = req_command_id request, pe_action = req_action request,
                        pe_state = ph_state physical, pe_code = ph_code physical\<rparr>
           in ([], AtReply request physical event, s1\<lparr>gw_event_id := gw_event_id s + 1\<rparr>)))"

definition exec_reply :: "payload_request \<Rightarrow> physical_result \<Rightarrow> payload_event \<Rightarrow> gateway
    \<Rightarrow> gw_effect list \<times> exec_pc \<times> gateway" where
  "exec_reply request physical event s =
     (let (response, s1) = gw_response request True ''OK''
            (''physical payload '' @ ph_state physical) True s
      in ([Responded response], AtEvent request event response, s1))"

text \<open>The next section, where \<open>execute\<close> makes no external call.\<close>

fun exec_section :: "(pyfloat \<Rightarrow> pyfloat \<Rightarrow> pyfloat) \<Rightarrow> exec_pc \<Rightarrow> gateway
    \<Rightarrow> (gw_effect list \<times> exec_pc \<times> gateway) option" where
  "exec_section hypot (AtLookup r) s = Some (exec_lookup r s)"
| "exec_section hypot (AtSnapshot r) s = Some (exec_snapshot r s)"
| "exec_section hypot (AtDecide r w) s = Some (exec_decide hypot r w s)"
| "exec_section hypot (AtRespond r a c d) s = Some (exec_respond r a c d s)"
| "exec_section hypot (AtUnpublish r) s = Some (exec_unpublish r s)"
| "exec_section hypot (AtCollect r b) s = Some (exec_collect r b s)"
| "exec_section hypot (AtRecord r ph) s = Some (exec_record r ph s)"
| "exec_section hypot (AtReply r ph e) s = Some (exec_reply r ph e s)"
| "exec_section hypot _ s = None"

section \<open>Interleavings\<close>

record gw_system =
  sys_gw :: gateway
  sys_pc :: exec_pc
  sys_log :: "gw_effect list"

definition taken :: "int \<Rightarrow> pyval \<Rightarrow> gateway \<Rightarrow> gw_effect list" where
  "taken aruco_id wire s =
     (case parse_physical_result wire of
        Inl _ \<Rightarrow> []
      | Inr res \<Rightarrow> if snd (accept_result aruco_id wire s) = s then [] else [ResultTaken aruco_id res])"

text \<open>
  The steps of the threads of the node: a callback, the start of an execution once the
  operation lock is free, a section, and the outcomes of the external calls. A call of
  \<open>publish_command\<close> or \<open>publish_event\<close> may raise; the wait returns true only after a
  result was taken, and may time out at any time.
\<close>

inductive exec_step :: "(pyfloat \<Rightarrow> pyfloat \<Rightarrow> pyfloat) \<Rightarrow> exec_pc \<times> gateway
    \<Rightarrow> gw_effect list \<Rightarrow> exec_pc \<times> gateway \<Rightarrow> bool"
  for hypot where
  Section: "exec_section hypot pc s = Some (es, pc', s') \<Longrightarrow> exec_step hypot (pc, s) es (pc', s')"
| PublishOk: "exec_step hypot (AtPublish r w wire, s) [CommandCall r w wire] (AtWait r, s)"
| PublishFailed:
    "exec_step hypot (AtPublish r w wire, s) [CommandCall r w wire] (AtUnpublish r, s)"
| Wake: "map_of (gw_pending s) (req_command_id r) = Some p \<Longrightarrow> pr_value p \<noteq> None \<Longrightarrow>
    exec_step hypot (AtWait r, s) [] (AtCollect r True, s)"
| Timeout: "exec_step hypot (AtWait r, s) [] (AtCollect r False, s)"
| EventOk: "exec_step hypot (AtEvent r e p, s) [EventCall e, Returned r p] (Idle, s)"
| EventFailed: "exec_step hypot (AtEvent r e p, s) [EventCall e, Raised r x] (Idle, s)"

inductive gw_step :: "(pyfloat \<Rightarrow> pyfloat \<Rightarrow> pyfloat) \<Rightarrow> gw_system \<Rightarrow> gw_system \<Rightarrow> bool"
  for hypot where
  Vehicle: "gw_step hypot y (y\<lparr>sys_gw := accept_vehicle run t xy g (sys_gw y)\<rparr>)"
| Payload: "gw_step hypot y (y\<lparr>sys_gw := accept_payload run t m xy g a (sys_gw y)\<rparr>)"
| Result: "gw_step hypot y (y\<lparr>sys_gw := snd (accept_result m wire (sys_gw y)),
    sys_log := sys_log y @ taken m wire (sys_gw y)\<rparr>)"
| Call: "sys_pc y = Idle \<Longrightarrow> gw_step hypot y (y\<lparr>sys_pc := AtLookup r\<rparr>)"
| Exec: "exec_step hypot (sys_pc y, sys_gw y) es (pc', s') \<Longrightarrow>
    gw_step hypot y \<lparr>sys_gw = s', sys_pc = pc', sys_log = sys_log y @ es\<rparr>"

inductive_simps exec_step_section_simps [simp]:
  "exec_step hypot (AtLookup r, s) es (pc', s')" "exec_step hypot (AtSnapshot r, s) es (pc', s')"
  "exec_step hypot (AtDecide r w, s) es (pc', s')" "exec_step hypot (AtRespond r a c d, s) es (pc', s')"
  "exec_step hypot (AtUnpublish r, s) es (pc', s')" "exec_step hypot (AtCollect r b, s) es (pc', s')"
  "exec_step hypot (AtRecord r ph, s) es (pc', s')" "exec_step hypot (AtReply r ph ev, s) es (pc', s')"

inductive_simps exec_step_call_simps [simp]:
  "exec_step hypot (AtPublish r w wire, s) es (pc', s')" "exec_step hypot (AtWait r, s) es (pc', s')"
  "exec_step hypot (AtEvent r ev p, s) es (pc', s')" "exec_step hypot (Idle, s) es (pc', s')"

definition initial_system :: "gateway \<Rightarrow> gw_system" where
  "initial_system s = \<lparr>sys_gw = s, sys_pc = Idle, sys_log = []\<rparr>"

end
