(* ===== verification/Em_Gateway_Inv.thy ===== *)
theory Em_Gateway_Inv
  imports Em_Gateway
begin

text \<open>
  Correctness of the payload gateway over all interleavings of executions with telemetry and
  result callbacks: commands are published once per command id and only when the policy
  approved them, an accepted response rests on a matching physical confirmation and on one
  event that was handed to the node, a repeated request is answered from the cache, and
  responses and events are numbered without gaps.
\<close>

section \<open>The outcomes of a step\<close>

definition answer :: "payload_request \<Rightarrow> bool \<Rightarrow> string \<Rightarrow> string \<Rightarrow> gateway \<Rightarrow> payload_response" where
  "answer r accepted code detail s = \<lparr>re_accepted = accepted, re_code = code, re_detail = detail,
     re_command_id = req_command_id r, re_response_sequence = gw_response_sequence s + 1\<rparr>"

abbreviation cid :: "payload_request \<Rightarrow> string" where
  "cid \<equiv> req_command_id"

abbreviation answered :: "payload_request \<Rightarrow> payload_response \<Rightarrow> gateway \<Rightarrow> gateway" where
  "answered r p s \<equiv> s\<lparr>gw_response_sequence := gw_response_sequence s + 1,
     gw_responses := AList.update (cid r) (r, p) (gw_responses s)\<rparr>"

abbreviation unregister :: "payload_request \<Rightarrow> gateway \<Rightarrow> gateway" where
  "unregister r s \<equiv> s\<lparr>gw_pending := AList.delete (cid r) (gw_pending s)\<rparr>"

abbreviation register :: "payload_request \<Rightarrow> gateway \<Rightarrow> gateway" where
  "register r s \<equiv> s\<lparr>gw_pending := AList.update (cid r)
     \<lparr>pr_marker_id = req_aruco_id r, pr_value = None\<rparr> (gw_pending s)\<rparr>"

text \<open>A result that confirms a request.\<close>

definition confirms :: "physical_result \<Rightarrow> payload_request \<Rightarrow> bool" where
  "confirms ph r \<longleftrightarrow> ph_status ph = ''confirmed'' \<and> ph_code ph = ''OK''
     \<and> ph_state ph = (if req_action r = ''attach'' then ''attached'' else ''detached'')"

definition event_of :: "payload_request \<Rightarrow> physical_result \<Rightarrow> payload_fact \<Rightarrow> gateway \<Rightarrow> payload_event" where
  "event_of r ph known s = \<lparr>pe_run_id = pa_run_id (gw_authority s),
     pe_timestamp_ns = max (case gw_vehicle s of Some v \<Rightarrow> vf_timestamp_ns v | None \<Rightarrow> 0)
       (pf_timestamp_ns known),
     pe_event_id = gw_event_id s, pe_aruco_id = req_aruco_id r, pe_command_id = cid r,
     pe_action = req_action r, pe_state = ph_state ph, pe_code = ph_code ph\<rparr>"

lemma exec_judge_eq:
  "exec_judge r ph = (if confirms ph r then AtRecord r ph
     else AtRespond r False (if ph_status ph = ''error'' then ph_code ph
              else ''PHYSICAL_CONFIRMATION_MISMATCH'')
            ''Gazebo rejected the physical payload command'')"
  by (auto simp: exec_judge_def confirms_def Let_def)

lemma exec_step_outcomes [consumes 1, case_names hit conflict miss unready ready undecided
    reject approve respond publish unpublished unpublish wake timeout nothing confirm refuse
    unrecorded record_it reply event_ok event_failed]:
  assumes "exec_step hypot (pc, s) es (pc', s')"
  obtains
    r p where "pc = AtLookup r" "map_of (gw_responses s) (cid r) = Some (r, p)"
      "es = [Returned r p]" "pc' = Idle" "s' = s"
  | r r0 p0 p where "pc = AtLookup r" "map_of (gw_responses s) (cid r) = Some (r0, p0)" "r0 \<noteq> r"
      "p = answer r False ''COMMAND_ID_CONFLICT''
         ''command_id was already used by a different request'' s"
      "es = [Responded p, Returned r p]" "pc' = Idle"
      "s' = s\<lparr>gw_response_sequence := gw_response_sequence s + 1\<rparr>"
  | r where "pc = AtLookup r" "map_of (gw_responses s) (cid r) = None" "es = []"
      "pc' = AtSnapshot r" "s' = s"
  | r c d where "pc = AtSnapshot r" "es = []" "pc' = AtRespond r False c d" "s' = s"
  | r w where "pc = AtSnapshot r" "snapshot r s = Inr w" "es = []" "pc' = AtDecide r w" "s' = s"
  | r w e where "pc = AtDecide r w" "decide hypot (gw_authority s) w r = Inl e"
      "es = [Raised r e]" "pc' = Idle" "s' = s"
  | r w d where "pc = AtDecide r w" "decide hypot (gw_authority s) w r = Inr d"
      "dec_wire_command d = None" "es = []"
      "pc' = AtRespond r (dec_accepted d) (dec_code d) (dec_code d)" "s' = s"
  | r w d wire where "pc = AtDecide r w" "decide hypot (gw_authority s) w r = Inr d"
      "dec_wire_command d = Some wire" "es = []" "pc' = AtPublish r w wire" "s' = register r s"
  | r a c d p where "pc = AtRespond r a c d" "p = answer r a c d s"
      "es = [Responded p, Returned r p]" "pc' = Idle" "s' = answered r p s"
  | r w wire where "pc = AtPublish r w wire" "es = [CommandCall r w wire]" "pc' = AtWait r" "s' = s"
  | r w wire where "pc = AtPublish r w wire" "es = [CommandCall r w wire]" "pc' = AtUnpublish r" "s' = s"
  | r c d where "pc = AtUnpublish r" "es = []" "pc' = AtRespond r False c d" "s' = unregister r s"
  | r where "pc = AtWait r" "es = []" "pc' = AtCollect r True" "s' = s"
  | r where "pc = AtWait r" "es = []" "pc' = AtCollect r False" "s' = s"
  | r b c d where "pc = AtCollect r b" "es = []" "pc' = AtRespond r False c d" "s' = unregister r s"
  | r p ph where "pc = AtCollect r True" "map_of (gw_pending s) (cid r) = Some p"
      "pr_value p = Some ph" "confirms ph r" "es = []" "pc' = AtRecord r ph" "s' = unregister r s"
  | r c d where "pc = AtCollect r True" "es = []" "pc' = AtRespond r False c d" "s' = unregister r s"
  | r ph where "pc = AtRecord r ph" "map_of (gw_payloads s) (req_aruco_id r) = None"
      "es = [Raised r KeyError]" "pc' = Idle" "s' = s"
  | r ph known where "pc = AtRecord r ph" "map_of (gw_payloads s) (req_aruco_id r) = Some known"
      "es = []" "pc' = AtReply r ph (event_of r ph known s)"
      "s' = remember_payload (req_aruco_id r) (known\<lparr>pf_attached := (req_action r = ''attach'')\<rparr>) s
         \<lparr>gw_event_id := gw_event_id s + 1\<rparr>"
  | r ph ev p where "pc = AtReply r ph ev"
      "p = answer r True ''OK'' (''physical payload '' @ ph_state ph) s" "es = [Responded p]"
      "pc' = AtEvent r ev p" "s' = answered r p s"
  | r ev p where "pc = AtEvent r ev p" "es = [EventCall ev, Returned r p]" "pc' = Idle" "s' = s"
  | r ev p x where "pc = AtEvent r ev p" "es = [EventCall ev, Raised r x]" "pc' = Idle" "s' = s"
proof (cases pc)
  case (AtLookup r)
  with assms have "exec_lookup r s = (es, pc', s')" by simp
  with that(1-3) [of r] AtLookup show ?thesis
    by (auto simp: exec_lookup_def gw_response_def answer_def Let_def
        split: option.splits if_splits prod.splits)
next
  case (AtSnapshot r)
  with assms have "exec_snapshot r s = (es, pc', s')" by simp
  with that(4,5) [of r] AtSnapshot show ?thesis
    by (auto simp: exec_snapshot_def split: sum.splits)
next
  case (AtDecide r w)
  with assms have "exec_decide hypot r w s = (es, pc', s')" by simp
  with that(6-8) [of r w] AtDecide show ?thesis
    by (auto simp: exec_decide_def split: sum.splits option.splits)
next
  case (AtRespond r a c d)
  with assms have "exec_respond r a c d s = (es, pc', s')" by simp
  with that(9) [of r a c d] AtRespond show ?thesis
    by (auto simp: exec_respond_def gw_response_def answer_def Let_def)
next
  case (AtPublish r w wire)
  with assms that(10,11) [of r w wire] show ?thesis by auto
next
  case (AtUnpublish r)
  with assms that(12) [of r] show ?thesis by (auto simp: exec_unpublish_def)
next
  case (AtWait r)
  with assms that(13,14) [of r] show ?thesis by auto
next
  case (AtCollect r b)
  with assms have "exec_collect r b s = (es, pc', s')" by simp
  with that(15-17) [of r] AtCollect show ?thesis
    by (auto simp: exec_collect_def exec_judge_eq Let_def split: option.splits if_splits)
next
  case (AtRecord r ph)
  with assms have "exec_record r ph s = (es, pc', s')" by simp
  with that(18,19) [of r ph] AtRecord show ?thesis
    by (auto simp: exec_record_def event_of_def Let_def split: option.splits)
next
  case (AtReply r ph ev)
  with assms have "exec_reply r ph ev s = (es, pc', s')" by simp
  with that(20) [of r ph ev] AtReply show ?thesis
    by (auto simp: exec_reply_def gw_response_def answer_def Let_def)
next
  case (AtEvent r ev p)
  with assms that(21,22) [of r ev p] show ?thesis by auto
next
  case Idle
  with assms show ?thesis by simp
qed

section \<open>What callbacks leave unchanged\<close>

lemma prune_frame [simp]:
  "gw_authority (prune_histories s) = gw_authority s" "gw_vehicle (prune_histories s) = gw_vehicle s"
  "gw_payloads (prune_histories s) = gw_payloads s" "gw_pending (prune_histories s) = gw_pending s"
  "gw_responses (prune_histories s) = gw_responses s"
  "gw_response_sequence (prune_histories s) = gw_response_sequence s"
  "gw_event_id (prune_histories s) = gw_event_id s"
  by (simp_all add: prune_histories_def Let_def)

lemma remember_frame [simp]:
  "gw_authority (remember_payload m f s) = gw_authority s"
  "gw_vehicle (remember_payload m f s) = gw_vehicle s"
  "gw_vehicle_history (remember_payload m f s) = gw_vehicle_history s"
  "gw_payloads (remember_payload m f s) = AList.update m f (gw_payloads s)"
  "gw_pending (remember_payload m f s) = gw_pending s"
  "gw_responses (remember_payload m f s) = gw_responses s"
  "gw_response_sequence (remember_payload m f s) = gw_response_sequence s"
  "gw_event_id (remember_payload m f s) = gw_event_id s"
  by (simp_all add: remember_payload_def)

text \<open>
  A callback: it keeps the authority, the responses and the counters, and it forgets no
  payload and adds none but the three markers.
\<close>

definition callback :: "gateway \<Rightarrow> gateway \<Rightarrow> bool" where
  "callback s s' \<longleftrightarrow> gw_authority s' = gw_authority s \<and> gw_responses s' = gw_responses s
     \<and> gw_response_sequence s' = gw_response_sequence s \<and> gw_event_id s' = gw_event_id s
     \<and> set (dict_keys (gw_payloads s)) \<subseteq> set (dict_keys (gw_payloads s'))
     \<and> set (dict_keys (gw_payloads s')) \<subseteq> set (dict_keys (gw_payloads s)) \<union> set PAYLOAD_MARKERS"

lemma callback_vehicle: "callback s (accept_vehicle run t xy g s)"
  by (simp add: callback_def accept_vehicle_def Let_def)

lemma pending_vehicle [simp]: "gw_pending (accept_vehicle run t xy g s) = gw_pending s"
  by (simp add: accept_vehicle_def Let_def)

lemma callback_payload: "callback s (accept_payload run t m xy g a s)"
  by (auto simp: callback_def accept_payload_def dom_update)

lemma pending_payload [simp]: "gw_pending (accept_payload run t m xy g a s) = gw_pending s"
  by (simp add: accept_payload_def)

lemma callback_result: "callback s (snd (accept_result m wire s))"
  by (simp add: callback_def accept_result_def split: sum.splits option.splits)

text \<open>A result is taken only for a pending command of its marker, and only the first one.\<close>

lemma accept_result_cases:
  obtains "snd (accept_result m wire s) = s" "taken m wire s = []"
  | ph p where "map_of (gw_pending s) (ph_command_id ph) = Some p" "pr_marker_id p = m"
      "pr_value p = None" "taken m wire s = [ResultTaken m ph]"
      "snd (accept_result m wire s) =
         s\<lparr>gw_pending := AList.update (ph_command_id ph) (p\<lparr>pr_value := Some ph\<rparr>) (gw_pending s)\<rparr>"
proof (cases "parse_physical_result wire")
  case (Inl e)
  with that(1) show ?thesis by (simp add: accept_result_def taken_def)
next
  case (Inr ph)
  show ?thesis
  proof (cases "\<exists>p. map_of (gw_pending s) (ph_command_id ph) = Some p \<and> pr_marker_id p = m
      \<and> pr_value p = None")
    case True
    then obtain p where p: "map_of (gw_pending s) (ph_command_id ph) = Some p" "pr_marker_id p = m"
      "pr_value p = None" by blast
    let ?s' = "s\<lparr>gw_pending := AList.update (ph_command_id ph) (p\<lparr>pr_value := Some ph\<rparr>) (gw_pending s)\<rparr>"
    have eq: "snd (accept_result m wire s) = ?s'" using p Inr by (simp add: accept_result_def)
    have "map_of (gw_pending ?s') (ph_command_id ph) \<noteq> map_of (gw_pending s) (ph_command_id ph)"
      using p by (auto simp: update_conv' dest: arg_cong [of _ _ pr_value])
    then have "?s' \<noteq> s" by metis
    with that(2) [OF p _ eq] Inr eq show ?thesis by (simp add: taken_def)
  next
    case False
    then have "snd (accept_result m wire s) = s"
      using Inr by (auto simp: accept_result_def split: option.splits)
    with that(1) Inr show ?thesis by (simp add: taken_def)
  qed
qed

section \<open>The log\<close>

fun commands :: "gw_effect list \<Rightarrow> string list" where
  "commands [] = []"
| "commands (CommandCall r w wire # es) = cid r # commands es"
| "commands (_ # es) = commands es"

fun sequence_numbers :: "gw_effect list \<Rightarrow> int list" where
  "sequence_numbers [] = []"
| "sequence_numbers (Responded p # es) = re_response_sequence p # sequence_numbers es"
| "sequence_numbers (_ # es) = sequence_numbers es"

fun event_ids :: "gw_effect list \<Rightarrow> int list" where
  "event_ids [] = []"
| "event_ids (EventCall e # es) = pe_event_id e # event_ids es"
| "event_ids (_ # es) = event_ids es"

lemma log_append [simp]:
  "commands (xs @ ys) = commands xs @ commands ys"
  "sequence_numbers (xs @ ys) = sequence_numbers xs @ sequence_numbers ys"
  "event_ids (xs @ ys) = event_ids xs @ event_ids ys"
  by (induction xs rule: commands.induct) simp_all

lemma log_taken [simp]:
  "commands (taken m wire s) = []" "sequence_numbers (taken m wire s) = []"
  "event_ids (taken m wire s) = []"
  by (simp_all add: taken_def split: sum.splits)

lemma taken_effects: "e \<in> set (taken m wire s) \<Longrightarrow> \<exists>ph. e = ResultTaken m ph"
  by (auto simp: taken_def split: sum.splits if_splits)

section \<open>Invariants\<close>

text \<open>What the policy approved.\<close>

definition judged :: "(pyfloat \<Rightarrow> pyfloat \<Rightarrow> pyfloat) \<Rightarrow> payload_authority \<Rightarrow> payload_request
    \<Rightarrow> payload_world \<Rightarrow> string \<Rightarrow> bool" where
  "judged hypot a r w wire \<longleftrightarrow>
     (\<exists>d. decide hypot a w r = Inr d \<and> dec_accepted d \<and> dec_wire_command d = Some wire)"

fun acting :: "exec_pc \<Rightarrow> payload_request option" where
  "acting (AtPublish r w wire) = Some r"
| "acting (AtUnpublish r) = Some r"
| "acting (AtWait r) = Some r"
| "acting (AtCollect r b) = Some r"
| "acting (AtRecord r ph) = Some r"
| "acting _ = None"

definition seen_world :: "payload_request \<Rightarrow> payload_world \<Rightarrow> gateway \<Rightarrow> bool" where
  "seen_world r w s \<longleftrightarrow> set (dict_keys (gw_payloads s)) = set PAYLOAD_MARKERS
     \<and> (req_aruco_id r \<notin> set PAYLOAD_MARKERS \<longrightarrow> \<not> payload_grounded w)
     \<and> (\<forall>m. attached_id w = Some m \<longrightarrow> m \<in> set PAYLOAD_MARKERS)"

definition world_inv :: "(pyfloat \<Rightarrow> pyfloat \<Rightarrow> pyfloat) \<Rightarrow> exec_pc \<Rightarrow> gateway \<Rightarrow> gw_effect list \<Rightarrow> bool" where
  "world_inv hypot pc s lg \<longleftrightarrow> authority_ok (gw_authority s)
     \<and> map fst (gw_payload_histories s) = PAYLOAD_MARKERS
     \<and> (\<forall>r w. pc = AtDecide r w \<longrightarrow> seen_world r w s)
     \<and> (\<forall>r. acting pc = Some r \<longrightarrow> req_aruco_id r \<in> fst ` set (gw_payloads s))
     \<and> (\<forall>r w wire. pc = AtPublish r w wire \<longrightarrow> judged hypot (gw_authority s) r w wire)
     \<and> (\<forall>r w wire. CommandCall r w wire \<in> set lg \<longrightarrow> judged hypot (gw_authority s) r w wire)"

lemma attached_markers_subset: "set (attached_markers d) \<subseteq> fst ` set d"
  by (auto simp: attached_markers_def)

lemma payloads_at_keys: "fst ` set (payloads_at t s) = fst ` set (gw_payload_histories s)"
  by (force simp: payloads_at_def)

lemma snapshot_seen:
  assumes "snapshot r s = Inr w" and "map fst (gw_payload_histories s) = PAYLOAD_MARKERS"
  shows "seen_world r w s"
proof -
  let ?ps = "payloads_at (Max (common_timestamps s)) s"
  have keys: "fst ` set ?ps = set PAYLOAD_MARKERS"
    using arg_cong [OF assms(2), of set] by (simp add: payloads_at_keys)
  have facts: "set (dict_keys (gw_payloads s)) = set PAYLOAD_MARKERS"
    "attached_id w = (if length (attached_markers ?ps) = 1 then Some (hd (attached_markers ?ps)) else None)"
    "payload_grounded w = (case map_of ?ps (req_aruco_id r) of Some f \<Rightarrow> pf_grounded f | None \<Rightarrow> False)"
    using assms(1)
    by (auto simp: snapshot_def Let_def split: if_splits prod.splits option.splits)
  have "map_of ?ps m = None" if "m \<notin> set PAYLOAD_MARKERS" for m
    using that keys by (simp add: map_of_eq_None_iff)
  moreover have "hd (attached_markers ?ps) \<in> set PAYLOAD_MARKERS" if "length (attached_markers ?ps) = 1"
    using attached_markers_subset [of ?ps] that keys by (cases "attached_markers ?ps") auto
  ultimately show ?thesis unfolding seen_world_def facts by (auto split: if_splits)
qed

lemma decide_marker:
  assumes "authority_ok (gw_authority s)" and "seen_world r w s"
    and "decide hypot (gw_authority s) w r = Inr d" and "dec_wire_command d = Some wire"
  shows "req_aruco_id r \<in> fst ` set (gw_payloads s) \<and> judged hypot (gw_authority s) r w wire"
  using assms
  by (cases rule: decide_outcome [OF assms(1), of hypot w r])
    (auto simp: seen_world_def judged_def attach_allowed_def)

lemma world_exec:
  assumes "exec_step hypot (pc, s) es (pc', s')" and inv: "world_inv hypot pc s lg"
  shows "world_inv hypot pc' s' (lg @ es)"
  using assms(1)
proof (cases rule: exec_step_outcomes)
  case (ready r w)
  then show ?thesis using inv snapshot_seen [of r s w] by (simp add: world_inv_def)
next
  case (approve r w d wire)
  then show ?thesis using inv decide_marker [of s r w hypot d wire] by (simp add: world_inv_def)
next
  case (record_it r ph known)
  then show ?thesis
    using inv by (auto simp: world_inv_def remember_payload_def comp_def case_prod_unfold)
qed (use inv in \<open>auto simp: world_inv_def\<close>)

lemma history_keys:
  "map fst (gw_payload_histories (accept_vehicle run t xy g s)) = map fst (gw_payload_histories s)"
  "map fst (gw_payload_histories (accept_payload run t m xy g a s)) = map fst (gw_payload_histories s)"
  "map fst (gw_payload_histories (snd (accept_result m wire s))) = map fst (gw_payload_histories s)"
  by (auto simp: accept_vehicle_def accept_payload_def accept_result_def prune_histories_def
      remember_payload_def Let_def comp_def case_prod_unfold split: sum.splits option.splits)

lemma world_callback:
  assumes "world_inv hypot pc s lg" and "callback s s'"
    and "map fst (gw_payload_histories s') = map fst (gw_payload_histories s)"
    and "\<And>e. e \<in> set es \<Longrightarrow> \<exists>m ph. e = ResultTaken m ph"
  shows "world_inv hypot pc s' (lg @ es)"
proof -
  have keys: "fst ` set (gw_payloads s) \<subseteq> fst ` set (gw_payloads s')"
    "fst ` set (gw_payloads s') \<subseteq> fst ` set (gw_payloads s) \<union> set PAYLOAD_MARKERS"
    and same: "gw_authority s' = gw_authority s"
    using assms(2) by (simp_all add: callback_def)
  have "seen_world r w s \<Longrightarrow> seen_world r w s'" for r w
    using keys by (auto simp: seen_world_def)
  moreover have "CommandCall r w wire \<notin> set es" for r w wire
    using assms(4) by blast
  ultimately show ?thesis
    using assms(1,3) keys(1) unfolding world_inv_def same by auto
qed

lemma acting_known:
  "world_inv hypot pc s lg \<Longrightarrow> acting pc = Some r \<Longrightarrow> map_of (gw_payloads s) (req_aruco_id r) \<noteq> None"
  by (auto simp: world_inv_def map_of_eq_None_iff)

text \<open>The request of an execution that has not made its response yet.\<close>

fun open_request :: "exec_pc \<Rightarrow> payload_request option" where
  "open_request (AtSnapshot r) = Some r"
| "open_request (AtDecide r w) = Some r"
| "open_request (AtRespond r a c d) = Some r"
| "open_request (AtPublish r w wire) = Some r"
| "open_request (AtUnpublish r) = Some r"
| "open_request (AtWait r) = Some r"
| "open_request (AtCollect r b) = Some r"
| "open_request (AtRecord r ph) = Some r"
| "open_request (AtReply r ph e) = Some r"
| "open_request _ = None"

fun before_publish :: "exec_pc \<Rightarrow> bool" where
  "before_publish (AtSnapshot r) = True"
| "before_publish (AtDecide r w) = True"
| "before_publish (AtPublish r w wire) = True"
| "before_publish _ = False"

definition once_inv :: "exec_pc \<Rightarrow> gateway \<Rightarrow> gw_effect list \<Rightarrow> bool" where
  "once_inv pc s lg \<longleftrightarrow> distinct (commands lg)
     \<and> set (commands lg) \<subseteq> dom (map_of (gw_responses s)) \<union>
         (if before_publish pc then {} else cid ` set_option (open_request pc))
     \<and> cid ` set_option (open_request pc) \<inter> dom (map_of (gw_responses s)) = {}"

lemma once_exec:
  assumes "exec_step hypot (pc, s) es (pc', s')" and "once_inv pc s lg" and "world_inv hypot pc s lg"
  shows "once_inv pc' s' (lg @ es)"
  using assms(1)
proof (cases rule: exec_step_outcomes)
  case (unrecorded r ph)
  then show ?thesis using acting_known [OF assms(3), of r] by simp
qed (use assms(2) in \<open>auto simp: once_inv_def update_conv' split: if_splits\<close>)

text \<open>The pending results: one exactly while its command may be answered.\<close>

fun waiting :: "exec_pc \<Rightarrow> payload_request option" where
  "waiting (AtPublish r w wire) = Some r"
| "waiting (AtUnpublish r) = Some r"
| "waiting (AtWait r) = Some r"
| "waiting (AtCollect r b) = Some r"
| "waiting _ = None"

definition pending_inv :: "exec_pc \<Rightarrow> gateway \<Rightarrow> gw_effect list \<Rightarrow> bool" where
  "pending_inv pc s lg \<longleftrightarrow>
     (case waiting pc of
        None \<Rightarrow> gw_pending s = []
      | Some r \<Rightarrow> \<exists>v. gw_pending s = [(cid r, \<lparr>pr_marker_id = req_aruco_id r, pr_value = v\<rparr>)]
          \<and> (\<forall>ph. v = Some ph \<longrightarrow> ph_command_id ph = cid r
                \<and> ResultTaken (req_aruco_id r) ph \<in> set lg))"

lemma pending_exec:
  assumes "exec_step hypot (pc, s) es (pc', s')" and "pending_inv pc s lg"
  shows "pending_inv pc' s' (lg @ es)"
  using assms by (cases rule: exec_step_outcomes) (auto simp: pending_inv_def)

lemma pending_result:
  assumes "pending_inv pc s lg"
  shows "pending_inv pc (snd (accept_result m wire s)) (lg @ taken m wire s)"
proof (cases rule: accept_result_cases [of m wire s])
  case 1
  then show ?thesis using assms by simp
next
  case (2 ph p)
  then show ?thesis
    using assms by (auto simp: pending_inv_def split: option.splits if_splits)
qed

text \<open>Numbering: responses from 1 on, events from 0 on, without gaps.\<close>

fun next_event :: "exec_pc \<Rightarrow> payload_event option" where
  "next_event (AtReply r ph e) = Some e"
| "next_event (AtEvent r e p) = Some e"
| "next_event _ = None"

definition number_inv :: "exec_pc \<Rightarrow> gateway \<Rightarrow> gw_effect list \<Rightarrow> bool" where
  "number_inv pc s lg \<longleftrightarrow>
     0 \<le> gw_response_sequence s \<and> sequence_numbers lg = [1..gw_response_sequence s]
     \<and> (case next_event pc of
          None \<Rightarrow> 0 \<le> gw_event_id s \<and> event_ids lg = [0..gw_event_id s - 1]
        | Some e \<Rightarrow> 1 \<le> gw_event_id s \<and> pe_event_id e = gw_event_id s - 1
            \<and> event_ids lg = [0..gw_event_id s - 2])"

lemma upto_snoc: "i \<le> j + 1 \<Longrightarrow> [i..j + 1] = [i..j] @ [j + 1]"
  using upto_rec2 [of i "j + 1"] by simp

lemma number_exec:
  assumes "exec_step hypot (pc, s) es (pc', s')" and "number_inv pc s lg"
  shows "number_inv pc' s' (lg @ es)"
proof -
  have seq: "0 \<le> n \<Longrightarrow> [1..n + 1] = [1..n] @ [n + 1]" for n :: int
    by (rule upto_snoc) simp
  have ev: "1 \<le> n \<Longrightarrow> [0..n - 1] = [0..n - 2] @ [n - 1]" for n :: int
    using upto_snoc [of 0 "n - 2"] by simp
  from assms show ?thesis
    by (cases rule: exec_step_outcomes)
      (auto simp: number_inv_def answer_def event_of_def seq ev)
qed

text \<open>Physical confirmation: the command was called and a matching result was taken for it.\<close>

definition confirmed :: "payload_request \<Rightarrow> gw_effect list \<Rightarrow> bool" where
  "confirmed r lg \<longleftrightarrow> (\<exists>w wire. CommandCall r w wire \<in> set lg)
     \<and> (\<exists>ph. ResultTaken (req_aruco_id r) ph \<in> set lg \<and> ph_command_id ph = cid r \<and> confirms ph r)"

lemma confirmed_append [intro]: "confirmed r lg \<Longrightarrow> confirmed r (lg @ es)"
  by (auto simp: confirmed_def)

fun called :: "exec_pc \<Rightarrow> payload_request option" where
  "called (AtUnpublish r) = Some r"
| "called (AtWait r) = Some r"
| "called (AtCollect r b) = Some r"
| "called _ = None"

definition confirm_inv :: "exec_pc \<Rightarrow> gw_effect list \<Rightarrow> bool" where
  "confirm_inv pc lg \<longleftrightarrow>
     (\<forall>r. called pc = Some r \<longrightarrow> (\<exists>w wire. CommandCall r w wire \<in> set lg))
     \<and> (\<forall>r ph. pc = AtRecord r ph \<longrightarrow> confirmed r lg)
     \<and> (\<forall>r ph e. pc = AtReply r ph e \<longrightarrow> confirmed r lg \<and> pe_command_id e = cid r)
     \<and> (\<forall>r a c d. pc = AtRespond r a c d \<longrightarrow> \<not> a)"

lemma confirm_exec:
  assumes "exec_step hypot (pc, s) es (pc', s')" and inv: "confirm_inv pc lg"
    and "pending_inv pc s lg" and "world_inv hypot pc s lg"
  shows "confirm_inv pc' (lg @ es)"
  using assms(1)
proof (cases rule: exec_step_outcomes)
  case (confirm r p ph)
  with assms(3) have "ph_command_id ph = cid r" "ResultTaken (req_aruco_id r) ph \<in> set lg"
    by (auto simp: pending_inv_def)
  with confirm inv show ?thesis by (auto simp: confirm_inv_def confirmed_def)
next
  case (reject r w d)
  have "authority_ok (gw_authority s)" using assms(4) by (simp add: world_inv_def)
  from this have "\<not> dec_accepted d"
    by (cases rule: decide_outcome [of _ hypot w r]) (use reject in auto)
  with reject show ?thesis by (simp add: confirm_inv_def)
next
  case (record_it r ph known)
  with inv show ?thesis by (simp add: confirm_inv_def event_of_def)
qed (use inv in \<open>auto simp: confirm_inv_def\<close>)

text \<open>A returned response is the cached one, or it reports a conflict with the cached request.\<close>

definition settled :: "payload_request \<Rightarrow> payload_response \<Rightarrow> gateway \<Rightarrow> bool" where
  "settled r p s \<longleftrightarrow> (\<exists>r0 p0. map_of (gw_responses s) (cid r) = Some (r0, p0)
     \<and> (if r = r0 then p = p0 else \<not> re_accepted p \<and> re_code p = ''COMMAND_ID_CONFLICT''))"

definition answer_inv :: "exec_pc \<Rightarrow> gateway \<Rightarrow> gw_effect list \<Rightarrow> bool" where
  "answer_inv pc s lg \<longleftrightarrow>
     (\<forall>r e p. pc = AtEvent r e p \<longrightarrow> map_of (gw_responses s) (cid r) = Some (r, p)
        \<and> pe_command_id e = cid r)
     \<and> (\<forall>k r p. map_of (gw_responses s) k = Some (r, p) \<longrightarrow>
          cid r = k \<and> (re_accepted p \<longrightarrow> confirmed r lg))
     \<and> (\<forall>r p. Returned r p \<in> set lg \<longrightarrow> settled r p s)
     \<and> (\<forall>r x. Raised r x \<in> set lg \<longrightarrow> (\<exists>e. EventCall e \<in> set lg \<and> pe_command_id e = cid r))"

lemma settled_answered:
  assumes "settled r p s" and "map_of (gw_responses s) (cid r') = None"
  shows "settled r p (answered r' p' s)"
  using assms by (auto simp: settled_def update_conv')

lemma settled_new: "settled r p (answered r p s)"
  by (simp add: settled_def update_conv')

lemma settled_counter [simp]: "settled r p (s\<lparr>gw_response_sequence := n\<rparr>) = settled r p s"
  by (simp add: settled_def)

lemma answer_add:
  assumes "answer_inv pc s lg" and "map_of (gw_responses s) (cid r) = None"
    and "re_accepted p \<longrightarrow> confirmed r lg" and "es = [Responded p] \<or> es = [Responded p, Returned r p]"
    and "pc' = Idle \<or> pc' = AtEvent r e p \<and> pe_command_id e = cid r"
  shows "answer_inv pc' (answered r p s) (lg @ es)"
proof -
  note inv = assms(1) [unfolded answer_inv_def]
  have "\<forall>r' e q. pc' = AtEvent r' e q \<longrightarrow>
      map_of (gw_responses (answered r p s)) (cid r') = Some (r', q) \<and> pe_command_id e = cid r'"
    using assms(5) by (auto simp: update_conv')
  moreover have "\<forall>k r' q. map_of (gw_responses (answered r p s)) k = Some (r', q) \<longrightarrow>
      cid r' = k \<and> (re_accepted q \<longrightarrow> confirmed r' (lg @ es))"
    using inv assms(3) by (auto simp: update_conv')
  moreover have "\<forall>r' q. Returned r' q \<in> set (lg @ es) \<longrightarrow> settled r' q (answered r p s)"
    using inv settled_answered [OF _ assms(2)] settled_new assms(4) by auto
  moreover have "\<forall>r' x. Raised r' x \<in> set (lg @ es) \<longrightarrow>
      (\<exists>e. EventCall e \<in> set (lg @ es) \<and> pe_command_id e = cid r')"
    using inv assms(4) by auto
  ultimately show ?thesis unfolding answer_inv_def by blast
qed

text \<open>A step that adds no response keeps the invariant when what it returns is settled.\<close>

lemma answer_keep:
  assumes "answer_inv pc s lg" and "gw_responses s' = gw_responses s"
    and "\<And>r e p. pc' \<noteq> AtEvent r e p"
    and "\<And>r p. Returned r p \<in> set es \<Longrightarrow> settled r p s"
    and "\<And>r x. Raised r x \<in> set es \<Longrightarrow> \<exists>e. EventCall e \<in> set es \<and> pe_command_id e = cid r"
  shows "answer_inv pc' s' (lg @ es)"
proof -
  note inv = assms(1) [unfolded answer_inv_def]
  have settled: "settled r q s' = settled r q s" for r q by (simp add: settled_def assms(2))
  have "\<forall>k r' q. map_of (gw_responses s') k = Some (r', q) \<longrightarrow>
      cid r' = k \<and> (re_accepted q \<longrightarrow> confirmed r' (lg @ es))"
    unfolding assms(2) using inv by blast
  moreover have "\<forall>r' q. Returned r' q \<in> set (lg @ es) \<longrightarrow> settled r' q s'"
    unfolding settled set_append using inv assms(4) by blast
  moreover have "\<forall>r' x. Raised r' x \<in> set (lg @ es) \<longrightarrow>
      (\<exists>e. EventCall e \<in> set (lg @ es) \<and> pe_command_id e = cid r')"
    unfolding set_append using inv [THEN conjunct2, THEN conjunct2, THEN conjunct2] assms(5)
    by (metis UnE UnI1 UnI2)
  ultimately show ?thesis unfolding answer_inv_def using assms(3) by blast
qed

lemma open_unanswered:
  "once_inv pc s lg \<Longrightarrow> open_request pc = Some r \<Longrightarrow> map_of (gw_responses s) (cid r) = None"
  by (auto simp: once_inv_def)

lemma answer_exec:
  assumes "exec_step hypot (pc, s) es (pc', s')" and inv: "answer_inv pc s lg"
    and "confirm_inv pc lg" and once: "once_inv pc s lg" and world: "world_inv hypot pc s lg"
  shows "answer_inv pc' s' (lg @ es)"
  using assms(1)
proof (cases rule: exec_step_outcomes)
  case (hit r p)
  then have "settled r p s" by (simp add: settled_def)
  with hit show ?thesis by (intro answer_keep [OF inv]) auto
next
  case (conflict r r0 p0 p)
  then have "settled r p s" by (simp add: settled_def answer_def)
  with conflict show ?thesis by (intro answer_keep [OF inv]) auto
next
  case (undecided r w e)
  have "authority_ok (gw_authority s)" using world by (simp add: world_inv_def)
  then show ?thesis
    by (cases rule: decide_outcome [of _ hypot w r]) (use undecided in auto)
next
  case (respond r a c d p)
  show ?thesis
    unfolding respond(4,5)
    by (rule answer_add [OF inv open_unanswered [OF once]])
      (use respond assms(3) in \<open>auto simp: answer_def confirm_inv_def\<close>)
next
  case (reply r ph ev p)
  show ?thesis
    unfolding reply(5)
    by (rule answer_add [OF inv open_unanswered [OF once], where e = ev])
      (use reply assms(3) in \<open>auto simp: confirm_inv_def\<close>)
next
  case (unrecorded r ph)
  then show ?thesis using acting_known [OF world, of r] by simp
next
  case (event_ok r ev p)
  with inv have "settled r p s" by (simp add: answer_inv_def settled_def)
  with event_ok show ?thesis by (intro answer_keep [OF inv]) auto
next
  case (event_failed r ev p x)
  with inv have "pe_command_id ev = cid r" by (simp add: answer_inv_def)
  with event_failed show ?thesis by (intro answer_keep [OF inv]) auto
qed (rule answer_keep [OF inv]; simp)+

section \<open>Reachable systems\<close>

definition gw_inv :: "(pyfloat \<Rightarrow> pyfloat \<Rightarrow> pyfloat) \<Rightarrow> gw_system \<Rightarrow> bool" where
  "gw_inv hypot y \<longleftrightarrow> world_inv hypot (sys_pc y) (sys_gw y) (sys_log y)
     \<and> once_inv (sys_pc y) (sys_gw y) (sys_log y) \<and> pending_inv (sys_pc y) (sys_gw y) (sys_log y)
     \<and> number_inv (sys_pc y) (sys_gw y) (sys_log y) \<and> confirm_inv (sys_pc y) (sys_log y)
     \<and> answer_inv (sys_pc y) (sys_gw y) (sys_log y)"

lemma callback_keeps:
  assumes "callback s s'" and "\<And>e. e \<in> set es \<Longrightarrow> \<exists>m ph. e = ResultTaken m ph"
    and "commands es = []" "sequence_numbers es = []" "event_ids es = []"
  shows "once_inv pc s lg \<Longrightarrow> once_inv pc s' (lg @ es)"
    and "number_inv pc s lg \<Longrightarrow> number_inv pc s' (lg @ es)"
    and "confirm_inv pc lg \<Longrightarrow> confirm_inv pc (lg @ es)"
    and "answer_inv pc s lg \<Longrightarrow> answer_inv pc s' (lg @ es)"
proof -
  have same: "gw_responses s' = gw_responses s" "gw_response_sequence s' = gw_response_sequence s"
    "gw_event_id s' = gw_event_id s" using assms(1) by (simp_all add: callback_def)
  have new: "Returned r p \<notin> set es" "Raised r x \<notin> set es" for r p x
    using assms(2) by blast+
  show "once_inv pc s lg \<Longrightarrow> once_inv pc s' (lg @ es)"
    by (simp add: once_inv_def same assms(3))
  show "number_inv pc s lg \<Longrightarrow> number_inv pc s' (lg @ es)"
    by (simp add: number_inv_def same assms(4,5) split: option.splits)
  show "confirm_inv pc lg \<Longrightarrow> confirm_inv pc (lg @ es)"
    unfolding confirm_inv_def set_append by blast
  have settled: "settled r p s' = settled r p s" for r p by (simp add: settled_def same)
  show "answer_inv pc s lg \<Longrightarrow> answer_inv pc s' (lg @ es)"
    unfolding answer_inv_def same settled set_append using new by blast
qed

lemma gw_inv_callback:
  assumes "gw_inv hypot y" and "callback (sys_gw y) s'"
    and "map fst (gw_payload_histories s') = map fst (gw_payload_histories (sys_gw y))"
    and "\<And>e. e \<in> set es \<Longrightarrow> \<exists>m ph. e = ResultTaken m ph"
    and "commands es = []" "sequence_numbers es = []" "event_ids es = []"
    and "pending_inv (sys_pc y) s' (sys_log y @ es)"
  shows "gw_inv hypot (y\<lparr>sys_gw := s', sys_log := sys_log y @ es\<rparr>)"
  using assms(1,8) world_callback [OF _ assms(2,3,4)] callback_keeps [OF assms(2,4-7)]
  by (simp add: gw_inv_def)

lemma gw_inv_step:
  assumes "gw_inv hypot y" and "gw_step hypot y y'"
  shows "gw_inv hypot y'"
  using assms(2)
proof cases
  case (Vehicle run t xy g)
  have "gw_inv hypot (y\<lparr>sys_gw := accept_vehicle run t xy g (sys_gw y), sys_log := sys_log y @ []\<rparr>)"
    using assms(1)
    by (intro gw_inv_callback callback_vehicle) (auto simp: history_keys gw_inv_def pending_inv_def split: option.splits)
  with Vehicle show ?thesis by simp
next
  case (Payload run t m xy g a)
  have "gw_inv hypot (y\<lparr>sys_gw := accept_payload run t m xy g a (sys_gw y), sys_log := sys_log y @ []\<rparr>)"
    using assms(1)
    by (intro gw_inv_callback callback_payload) (auto simp: history_keys gw_inv_def pending_inv_def split: option.splits)
  with Payload show ?thesis by simp
next
  case (Result m wire)
  show ?thesis
    unfolding Result using assms(1)
    by (intro gw_inv_callback callback_result)
      (auto simp: history_keys gw_inv_def intro: pending_result dest: taken_effects)
next
  case (Call r)
  with assms(1) show ?thesis
    by (simp add: gw_inv_def world_inv_def once_inv_def pending_inv_def number_inv_def confirm_inv_def
        answer_inv_def)
next
  case (Exec es pc' s')
  with assms(1) show ?thesis
    using world_exec once_exec pending_exec number_exec confirm_exec answer_exec
    by (simp add: gw_inv_def)
qed

interpretation gw: transition_invariant "gw_step hypot" "gw_inv hypot" for hypot
  by unfold_locales (rule gw_inv_step)

lemma initial_inv:
  assumes "PayloadGateway a timeout = Inr s" and "authority_ok a"
  shows "gw_inv hypot (initial_system s)"
  using assms
  by (auto simp: PayloadGateway_def initial_system_def gw_inv_def world_inv_def once_inv_def
      pending_inv_def number_inv_def confirm_inv_def answer_inv_def comp_def split: if_splits)

text \<open>The systems that can be reached from a new gateway.\<close>

definition reachable :: "(pyfloat \<Rightarrow> pyfloat \<Rightarrow> pyfloat) \<Rightarrow> payload_authority \<Rightarrow> gw_system \<Rightarrow> bool" where
  "reachable hypot a y \<longleftrightarrow> authority_ok a
     \<and> (\<exists>timeout s. PayloadGateway a timeout = Inr s \<and> rtranclp (gw_step hypot) (initial_system s) y)"

lemma gw_reachable_inv: "reachable hypot a y \<Longrightarrow> gw_inv hypot y"
  using gw.reach_invar initial_inv unfolding reachable_def by blast

lemma callback_authority:
  "gw_authority (accept_vehicle run t xy g s) = gw_authority s"
  "gw_authority (accept_payload run t m xy g a s) = gw_authority s"
  "gw_authority (snd (accept_result m wire s)) = gw_authority s"
  using callback_vehicle callback_payload callback_result unfolding callback_def by blast+

lemma callback_responses:
  "gw_responses (accept_vehicle run t xy g s) = gw_responses s"
  "gw_responses (accept_payload run t m xy g a s) = gw_responses s"
  "gw_responses (snd (accept_result m wire s)) = gw_responses s"
  using callback_vehicle callback_payload callback_result unfolding callback_def by blast+

lemma exec_authority:
  "exec_step hypot (pc, s) es (pc', s') \<Longrightarrow> gw_authority s' = gw_authority s"
  by (cases rule: exec_step_outcomes) auto

interpretation gw_auth: transition_invariant "gw_step hypot" "\<lambda>y. gw_authority (sys_gw y) = a"
  for hypot a
  by unfold_locales (auto elim!: gw_step.cases simp: callback_authority dest: exec_authority)

lemma reachable_authority: "reachable hypot a y \<Longrightarrow> gw_authority (sys_gw y) = a"
  using gw_auth.reach_invar [of hypot _ y a]
  by (auto simp: reachable_def initial_system_def PayloadGateway_def split: if_splits)

text \<open>A cached response stays.\<close>

lemma exec_cached:
  assumes "exec_step hypot (pc, s) es (pc', s')" and "once_inv pc s lg"
    and "map_of (gw_responses s) k = Some x"
  shows "map_of (gw_responses s') k = Some x"
  using assms(1) open_unanswered [OF assms(2)] assms(3)
  by (cases rule: exec_step_outcomes) (auto simp: update_conv')

interpretation gw_cache: transition_invariant "gw_step hypot"
  "\<lambda>y. gw_inv hypot y \<and> map_of (gw_responses (sys_gw y)) k = Some x" for hypot k x
proof unfold_locales
  fix y y'
  assume "gw_inv hypot y \<and> map_of (gw_responses (sys_gw y)) k = Some x" "gw_step hypot y y'"
  then show "gw_inv hypot y' \<and> map_of (gw_responses (sys_gw y')) k = Some x"
    using gw_inv_step [of hypot y y']
    by (auto elim!: gw_step.cases simp: callback_responses gw_inv_def dest: exec_cached)
qed

section \<open>Events\<close>

text \<open>The calls of \<open>publish_event\<close> for a command id, and an event that reports a request as done.\<close>

fun event_calls :: "string \<Rightarrow> gw_effect list \<Rightarrow> payload_event list" where
  "event_calls k [] = []"
| "event_calls k (EventCall e # es) = (if pe_command_id e = k then e # event_calls k es else event_calls k es)"
| "event_calls k (_ # es) = event_calls k es"

definition reports :: "payload_event \<Rightarrow> payload_request \<Rightarrow> bool" where
  "reports e r \<longleftrightarrow> pe_command_id e = cid r \<and> pe_aruco_id e = req_aruco_id r \<and> pe_action e = req_action r
     \<and> pe_state e = (if req_action r = ''attach'' then ''attached'' else ''detached'') \<and> pe_code e = ''OK''"

lemma event_calls_append [simp]: "event_calls k (xs @ ys) = event_calls k xs @ event_calls k ys"
  by (induction k xs rule: event_calls.induct) simp_all

lemma event_calls_taken [simp]: "event_calls k (taken m wire s) = []"
  by (simp add: taken_def split: sum.splits)

fun event_due :: "exec_pc \<Rightarrow> string option" where
  "event_due (AtEvent r e p) = Some (cid r)"
| "event_due _ = None"

text \<open>
  An accepted response has one event, called when its execution leaves \<open>AtEvent\<close>; no other request
  has one.
\<close>

definition told :: "(payload_request \<times> payload_response) option \<Rightarrow> bool \<Rightarrow> payload_event list \<Rightarrow> bool" where
  "told v due es \<longleftrightarrow>
     (case v of
        Some (r, p) \<Rightarrow> if re_accepted p \<and> \<not> due then \<exists>e. es = [e] \<and> reports e r else es = []
      | None \<Rightarrow> es = [])"

definition event_inv :: "exec_pc \<Rightarrow> gateway \<Rightarrow> gw_effect list \<Rightarrow> bool" where
  "event_inv pc s lg \<longleftrightarrow>
     (\<forall>r ph. pc = AtRecord r ph \<longrightarrow> confirms ph r)
     \<and> (\<forall>r ph e. pc = AtReply r ph e \<longrightarrow> reports e r)
     \<and> (\<forall>r e p. pc = AtEvent r e p \<longrightarrow> reports e r \<and> re_accepted p
          \<and> (\<forall>r' p'. Returned r' p' \<in> set lg \<longrightarrow> cid r' \<noteq> cid r))
     \<and> (\<forall>k. told (map_of (gw_responses s) k) (event_due pc = Some k) (event_calls k lg))"

lemma told_None [simp]: "told None due es \<longleftrightarrow> es = []"
  by (simp add: told_def)

lemma told_Some [simp]: "told (Some (r, p)) due es \<longleftrightarrow>
    (if re_accepted p \<and> \<not> due then \<exists>e. es = [e] \<and> reports e r else es = [])"
  by (simp add: told_def)

lemma event_keep:
  assumes "event_inv pc s lg" and "gw_responses s' = gw_responses s" and "\<And>k. event_calls k es = []"
    and "event_due pc = None" and "event_due pc' = None"
    and "\<And>r ph. pc' = AtRecord r ph \<Longrightarrow> confirms ph r" and "\<And>r ph e. pc' = AtReply r ph e \<Longrightarrow> reports e r"
  shows "event_inv pc' s' (lg @ es)"
  using assms by (auto simp: event_inv_def)

lemma unanswered_not_returned:
  "answer_inv pc s lg \<Longrightarrow> map_of (gw_responses s) (cid r) = None \<Longrightarrow> Returned r' p' \<in> set lg \<Longrightarrow> cid r' \<noteq> cid r"
  unfolding answer_inv_def settled_def by (metis option.distinct(1))

lemma event_answered:
  assumes "event_inv pc s lg" and "map_of (gw_responses s) (cid r) = None" and "event_due pc = None"
    and "\<And>k. event_calls k es = []" and "answer_inv pc s lg"
    and "pc' = Idle \<and> \<not> re_accepted p
      \<or> pc' = AtEvent r e p \<and> re_accepted p \<and> reports e r \<and> es = [Responded p]"
  shows "event_inv pc' (answered r p s) (lg @ es)"
proof -
  have told: "told (map_of (gw_responses s) k) False (event_calls k lg)" for k
    using assms(1,3) by (simp add: event_inv_def)
  then have "event_calls (cid r) lg = []"
    using assms(2) by (metis told_None)
  then have "told (map_of (gw_responses (answered r p s)) k) (event_due pc' = Some k) (event_calls k (lg @ es))" for k
    using told [of k] assms(4,6) by (auto simp: update_conv')
  then show ?thesis
    using assms(6) unanswered_not_returned [OF assms(5,2)] by (auto simp: event_inv_def)
qed

lemma event_called:
  assumes "event_inv (AtEvent r e p) s lg" and "map_of (gw_responses s) (cid r) = Some (r, p)"
    and "es = [EventCall e, x]" and "\<And>k. event_calls k [x] = []"
  shows "event_inv Idle s (lg @ es)"
proof -
  have e: "reports e r" "re_accepted p"
    and told: "told (map_of (gw_responses s) k) (cid r = k) (event_calls k lg)" for k
    using assms(1) by (simp_all add: event_inv_def)
  have "event_calls (cid r) lg = []"
    using told [of "cid r"] assms(2) by simp
  then have "told (map_of (gw_responses s) k) False (event_calls k (lg @ es))" for k
    using told [of k] assms(2-4) e by (cases "k = cid r") (auto simp: reports_def)
  then show ?thesis by (simp add: event_inv_def)
qed

lemma event_exec:
  assumes "exec_step hypot (pc, s) es (pc', s')" and inv: "event_inv pc s lg"
    and once: "once_inv pc s lg" and answers: "answer_inv pc s lg" and confirm: "confirm_inv pc lg"
  shows "event_inv pc' s' (lg @ es)"
  using assms(1)
proof (cases rule: exec_step_outcomes)
  case (respond r a c d p)
  have "map_of (gw_responses s) (cid r) = None" "\<not> a"
    using once respond(1) confirm by (auto simp: once_inv_def confirm_inv_def)
  then show ?thesis
    unfolding respond(5) using respond inv answers by (intro event_answered [where e = undefined]) (auto simp: answer_def)
next
  case (reply r ph ev p)
  have "map_of (gw_responses s) (cid r) = None"
    using once reply(1) by (auto simp: once_inv_def)
  then show ?thesis
    unfolding reply(5) using reply inv answers
    by (intro event_answered [where e = ev]) (auto simp: answer_def event_inv_def)
next
  case (event_ok r ev p)
  have "map_of (gw_responses s) (cid r) = Some (r, p)"
    using answers event_ok(1) by (simp add: answer_inv_def)
  then show ?thesis
    unfolding event_ok(2-4) using inv event_ok(1) by (intro event_called [where r = r and p = p]) auto
next
  case (event_failed r ev p x)
  have "map_of (gw_responses s) (cid r) = Some (r, p)"
    using answers event_failed(1) by (simp add: answer_inv_def)
  then show ?thesis
    unfolding event_failed(2-4) using inv event_failed(1) by (intro event_called [where r = r and p = p]) auto
next
  case (record_it r ph known)
  then have "confirms ph r" using inv by (simp add: event_inv_def)
  then show ?thesis
    using record_it by (intro event_keep [OF inv]) (auto simp: reports_def event_of_def confirms_def)
qed (rule event_keep [OF inv]; simp)+

interpretation gw_event: transition_invariant "gw_step hypot"
  "\<lambda>y. gw_inv hypot y \<and> event_inv (sys_pc y) (sys_gw y) (sys_log y)" for hypot
proof unfold_locales
  fix y y'
  assume y: "gw_inv hypot y \<and> event_inv (sys_pc y) (sys_gw y) (sys_log y)" and step: "gw_step hypot y y'"
  have "event_inv (sys_pc y') (sys_gw y') (sys_log y')"
    using step
  proof cases
    case (Exec es pc' s')
    then show ?thesis using y event_exec by (simp add: gw_inv_def)
  qed (use y taken_effects in \<open>fastforce simp: event_inv_def callback_responses\<close>)+
  then show "gw_inv hypot y' \<and> event_inv (sys_pc y') (sys_gw y') (sys_log y')"
    using gw_inv_step step y by blast
qed

lemma reachable_events: "reachable hypot a y \<Longrightarrow> event_inv (sys_pc y) (sys_gw y) (sys_log y)"
proof -
  assume "reachable hypot a y"
  then obtain timeout s where s: "PayloadGateway a timeout = Inr s" "authority_ok a"
      "rtranclp (gw_step hypot) (initial_system s) y"
    by (auto simp: reachable_def)
  have "event_inv (sys_pc (initial_system s)) (sys_gw (initial_system s)) (sys_log (initial_system s))"
    using s(1) by (auto simp: event_inv_def initial_system_def PayloadGateway_def split: if_splits)
  then show ?thesis
    using gw_event.reach_invar [OF s(3)] initial_inv [OF s(1,2)] by blast
qed

section \<open>Properties\<close>

text \<open>
  C3. Under every interleaving of executions, telemetry and results, no command id is
  published twice, and every published command was approved by the policy for the world
  snapshot it was judged against.
\<close>

theorem gateway_commands_once:
  assumes "reachable hypot a y"
  shows "distinct (commands (sys_log y)) \<and>
    (\<forall>r w wire. CommandCall r w wire \<notin> set (sys_log y) \<or> judged hypot a r w wire)"
  using gw_reachable_inv [OF assms] reachable_authority [OF assms]
  by (auto simp: gw_inv_def once_inv_def world_inv_def)

text \<open>
  C14. When an execution has returned an accepted response, its command had been published, a
  physical result for that command id was taken from that payload's topic that confirms the requested
  action, and \<open>publish_event\<close> was called exactly once for the command id, with the event that reports
  the request, however often the request is repeated. The call itself may have raised; it is not
  repeated then.
\<close>

theorem gateway_accept_is_confirmed:
  assumes "reachable hypot a y" and "Returned r p \<in> set (sys_log y)" and "re_accepted p"
  shows "confirmed r (sys_log y) \<and> (\<exists>e. event_calls (cid r) (sys_log y) = [e] \<and> reports e r)"
proof -
  have inv: "answer_inv (sys_pc y) (sys_gw y) (sys_log y)"
    using gw_reachable_inv [OF assms(1)] by (simp add: gw_inv_def)
  have settled: "settled r p (sys_gw y)"
    using inv assms(2) by (simp add: answer_inv_def)
  then have cached: "map_of (gw_responses (sys_gw y)) (cid r) = Some (r, p)"
    using assms(3) by (auto simp: settled_def split: if_splits)
  have "event_due (sys_pc y) \<noteq> Some (cid r)"
    using reachable_events [OF assms(1)] assms(2)
    by (cases "sys_pc y") (auto simp: event_inv_def)
  moreover have "told (map_of (gw_responses (sys_gw y)) (cid r)) (event_due (sys_pc y) = Some (cid r))
      (event_calls (cid r) (sys_log y))"
    using reachable_events [OF assms(1)] by (simp add: event_inv_def)
  moreover have "confirmed r (sys_log y)"
    using inv cached assms(3) by (simp add: answer_inv_def)
  ultimately show ?thesis
    using cached assms(3) by simp
qed

text \<open>
  C34. Idempotence. Once a request was answered by a response that is cached, every later
  execution of the same request returns the same response, and every execution of another
  request with the same command id is refused as a conflict, forever.
\<close>

theorem gateway_idempotent:
  assumes "reachable hypot a y" and "map_of (gw_responses (sys_gw y)) (cid r) = Some (r, p)"
    and "rtranclp (gw_step hypot) y y'" and "Returned r' q \<in> set (sys_log y')" and "cid r' = cid r"
  shows "if r' = r then q = p else \<not> re_accepted q \<and> re_code q = ''COMMAND_ID_CONFLICT''"
proof -
  have inv: "gw_inv hypot y'" and cached: "map_of (gw_responses (sys_gw y')) (cid r) = Some (r, p)"
    using gw_cache.reach_invar [OF assms(3), of "cid r" "(r, p)"] gw_reachable_inv [OF assms(1)] assms(2)
    by auto
  have "settled r' q (sys_gw y')" using inv assms(4) by (auto simp: gw_inv_def answer_inv_def)
  with cached assms(5) show ?thesis by (auto simp: settled_def)
qed

text \<open>
  The responses are numbered 1, 2, 3, \<dots> in the order they are made, and the payload
  events 0, 1, 2, \<dots> in the order they are published, with no gap and no repetition; an
  execution raises only when publishing its event does.
\<close>

theorem gateway_numbering:
  assumes "reachable hypot a y"
  shows "sequence_numbers (sys_log y) = [1..gw_response_sequence (sys_gw y)]
    \<and> (\<exists>n. event_ids (sys_log y) = [0..n])
    \<and> (\<forall>r x. Raised r x \<notin> set (sys_log y)
         \<or> (\<exists>e. EventCall e \<in> set (sys_log y) \<and> pe_command_id e = cid r))"
proof -
  have inv: "number_inv (sys_pc y) (sys_gw y) (sys_log y)" "answer_inv (sys_pc y) (sys_gw y) (sys_log y)"
    using gw_reachable_inv [OF assms] by (simp_all add: gw_inv_def)
  from inv(1) have "sequence_numbers (sys_log y) = [1..gw_response_sequence (sys_gw y)]"
    "\<exists>n. event_ids (sys_log y) = [0..n]"
    by (auto simp: number_inv_def split: option.splits)
  with inv(2) show ?thesis by (auto simp: answer_inv_def)
qed

end
