(* ===== verification/Em_Gateway_Props.thy ===== *)
theory Em_Gateway_Props
  imports Em_Gateway_Inv
begin

text \<open>
  Further properties of the payload gateway: snapshots are consistent cuts of the telemetry,
  histories are bounded in time, results are parsed exactly; and a concrete run of the whole
  gateway for the witnesses.
\<close>

section \<open>Snapshots\<close>

lemma foldl_Int: "foldl (\<lambda>ts (m, h). ts \<inter> fst ` set h) A hs = A \<inter> (\<Inter>(m, h) \<in> set hs. fst ` set h)"
  by (induction hs arbitrary: A) auto

lemma common_timestamps_iff:
  "t \<in> common_timestamps s \<longleftrightarrow> t \<in> fst ` set (gw_vehicle_history s)
     \<and> (\<forall>(m, h) \<in> set (gw_payload_histories s). t \<in> fst ` set h)"
  by (auto simp: common_timestamps_def foldl_Int)

lemma finite_common: "finite (common_timestamps s)"
  by (rule finite_subset [of _ "fst ` set (gw_vehicle_history s)"]) (auto simp: common_timestamps_iff)

text \<open>What a snapshot says holds at one timestamp of every history, and still holds now.\<close>

definition consistent_cut :: "payload_request \<Rightarrow> gateway \<Rightarrow> int \<Rightarrow> payload_world \<Rightarrow> bool" where
  "consistent_cut r s t w \<longleftrightarrow>
     (\<exists>v. map_of (gw_vehicle_history s) t = Some v \<and> vehicle_xy w = vf_xy v
        \<and> vehicle_grounded w = vf_grounded v)
     \<and> list_all (\<lambda>(m, h). map_of h t \<noteq> None) (gw_payload_histories s)
     \<and> (\<forall>t'. t < t' \<longrightarrow> t' \<notin> common_timestamps s)
     \<and> attached_id w = gw_attached_id s \<and> length (attached_markers (gw_payloads s)) \<le> 1
     \<and> vehicle_grounded w = vf_grounded (the (gw_vehicle s))
     \<and> (case map_of (gw_payload_histories s) (req_aruco_id r) of
          None \<Rightarrow> \<not> payload_grounded w
        | Some h \<Rightarrow> \<exists>f. map_of h t = Some f \<and> payload_xy w = pf_xy f \<and> payload_grounded w = pf_grounded f
            \<and> pf_grounded (the (map_of (gw_payloads s) (req_aruco_id r))) = pf_grounded f)"

lemma attachment_state_valid:
  "snd (attachment_state s) \<Longrightarrow> gw_attached_id s = fst (attachment_state s)
     \<and> length (attached_markers (gw_payloads s)) \<le> 1"
  by (auto simp: gw_attached_id_def attachment_state_def split: list.splits)

lemma map_of_payloads_at:
  "map_of (payloads_at t s) m = map_option (\<lambda>h. the (map_of h t)) (map_of (gw_payload_histories s) m)"
proof -
  have "map_of (map (\<lambda>(m, h). (m, the (map_of h t))) hs) m = map_option (\<lambda>h. the (map_of h t)) (map_of hs m)"
    for hs :: "(int \<times> (int, payload_fact) dict) list"
    by (induction hs) auto
  then show ?thesis by (simp add: payloads_at_def)
qed

lemma snapshot_facts:
  assumes "snapshot r s = Inr w"
  defines "t \<equiv> Max (common_timestamps s)"
  shows "common_timestamps s \<noteq> {}" "snd (attachment_state s)" "fst (attachment_state s) = attached_id w"
    "\<not> facts_changed s (the (map_of (gw_vehicle_history s) t)) (payloads_at t s)"
    "vehicle_xy w = vf_xy (the (map_of (gw_vehicle_history s) t))"
    "vehicle_grounded w = vf_grounded (the (map_of (gw_vehicle_history s) t))"
    "case map_of (payloads_at t s) (req_aruco_id r) of None \<Rightarrow> \<not> payload_grounded w
     | Some f \<Rightarrow> payload_xy w = pf_xy f \<and> payload_grounded w = pf_grounded f"
  using assms(1) unfolding t_def
  by (auto simp: snapshot_def Let_def split: if_splits prod.splits option.splits)

text \<open>
  A snapshot is a consistent cut: the vehicle and payload facts it reports were all
  recorded at one common timestamp, the latest one all histories share, and its grounded and
  attached flags are still the current ones, with at most one payload attached.
\<close>

theorem snapshot_consistent:
  assumes "snapshot r s = Inr w"
  shows "\<exists>t. consistent_cut r s t w"
proof -
  let ?t = "Max (common_timestamps s)"
  note facts = snapshot_facts [OF assms]
  have t: "?t \<in> common_timestamps s" using facts(1) finite_common by simp
  then have v: "map_of (gw_vehicle_history s) ?t \<noteq> None"
    and h: "list_all (\<lambda>(m, h). map_of h ?t \<noteq> None) (gw_payload_histories s)"
    by (auto simp: common_timestamps_iff map_of_eq_None_iff list_all_iff)
  have later: "\<forall>t'. ?t < t' \<longrightarrow> t' \<notin> common_timestamps s"
    using Max_ge [OF finite_common] by (meson leD)
  have payload: "case map_of (gw_payload_histories s) (req_aruco_id r) of
          None \<Rightarrow> \<not> payload_grounded w
        | Some h \<Rightarrow> \<exists>f. map_of h ?t = Some f \<and> payload_xy w = pf_xy f \<and> payload_grounded w = pf_grounded f
            \<and> pf_grounded (the (map_of (gw_payloads s) (req_aruco_id r))) = pf_grounded f"
  proof (cases "map_of (gw_payload_histories s) (req_aruco_id r)")
    case None
    then show ?thesis using facts(7) by (simp add: map_of_payloads_at)
  next
    case (Some hist)
    with h obtain f where f: "map_of hist ?t = Some f"
      using map_of_SomeD [OF Some] by (force simp: list_all_iff)
    have at: "map_of (payloads_at ?t s) (req_aruco_id r) = Some f"
      using Some f by (simp add: map_of_payloads_at)
    then have "pf_grounded (the (map_of (gw_payloads s) (req_aruco_id r))) = pf_grounded f"
      using facts(4) by (auto simp: facts_changed_def list_all_iff dest!: map_of_SomeD)
    with Some f at facts(7) show ?thesis by simp
  qed
  have "vehicle_grounded w = vf_grounded (the (gw_vehicle s))"
    using facts(4,6) by (auto simp: facts_changed_def)
  with v h later payload facts(3,5,6) attachment_state_valid [OF facts(2)] have "consistent_cut r s ?t w"
    unfolding consistent_cut_def by auto
  then show ?thesis ..
qed

section \<open>Histories\<close>

definition history_within :: "gateway \<Rightarrow> int \<Rightarrow> bool" where
  "history_within s cutoff \<longleftrightarrow> list_all (\<lambda>(t, f). cutoff \<le> t) (gw_vehicle_history s)
     \<and> list_all (\<lambda>(m, h). list_all (\<lambda>(t, f). cutoff \<le> t) h) (gw_payload_histories s)"

lemma since_bound: "(t, f) \<in> set (since cutoff d) \<Longrightarrow> cutoff \<le> t"
  by (simp add: since_def)

lemma prune_within:
  assumes "t \<in> set (latest_timestamps s)"
  shows "history_within (prune_histories s) (t - PHYSICAL_HISTORY_HORIZON_NS)"
proof -
  have ne: "latest_timestamps s \<noteq> []" using assms by auto
  have le: "t \<le> Max (set (latest_timestamps s))" using assms by simp
  with ne show ?thesis
    by (fastforce simp: history_within_def prune_histories_def Let_def list_all_iff
        dest: since_bound)
qed

text \<open>
  Telemetry is kept for half a second: after a vehicle or payload sample that the
  gateway accepted, no history holds a fact more than 500 ms older than that sample.
\<close>

theorem telemetry_horizon:
  assumes "s' = accept_vehicle run t xy g s \<or> s' = accept_payload run t m xy g b s" and "s' \<noteq> s"
  shows "history_within s' (t - 500000000)"
proof -
  have horizon: "t - 500000000 = t - PHYSICAL_HISTORY_HORIZON_NS"
    by (simp add: PHYSICAL_HISTORY_HORIZON_NS_def)
  let ?v = "\<lparr>vf_timestamp_ns = t, vf_xy = xy, vf_grounded = g\<rparr>"
  let ?f = "\<lparr>pf_timestamp_ns = t, pf_xy = xy, pf_grounded = g, pf_attached = b\<rparr>"
  from assms consider
      "s' = prune_histories (s\<lparr>gw_vehicle := Some ?v,
         gw_vehicle_history := AList.update t ?v (gw_vehicle_history s)\<rparr>)"
    | "s' = prune_histories (remember_payload m ?f s)"
    by (auto simp: accept_vehicle_def accept_payload_def Let_def split: if_splits)
  then show ?thesis
  proof cases
    case 1
    show ?thesis unfolding 1 horizon by (rule prune_within) (simp add: latest_timestamps_def)
  next
    case 2
    have "(m, ?f) \<in> set (AList.update m ?f (gw_payloads s))"
      by (simp add: update_conv' map_of_SomeD)
    then show ?thesis
      unfolding 2 horizon by (intro prune_within) (force simp: latest_timestamps_def)
  qed
qed

section \<open>Result texts\<close>

lemma split_on_five:
  "split_on c s = [a, b, d, e, f] \<longleftrightarrow> s = a @ c # b @ c # d @ c # e @ c # f
     \<and> c \<notin> set a \<and> c \<notin> set b \<and> c \<notin> set d \<and> c \<notin> set e \<and> c \<notin> set f"
proof
  assume split: "split_on c s = [a, b, d, e, f]"
  have "s = join_with c [a, b, d, e, f]" using join_with_split_on [of c s] split by simp
  moreover have "c \<notin> set a" "c \<notin> set b" "c \<notin> set d" "c \<notin> set e" "c \<notin> set f"
    using split_on_parts [of _ c s] split by simp_all
  ultimately show "s = a @ c # b @ c # d @ c # e @ c # f
     \<and> c \<notin> set a \<and> c \<notin> set b \<and> c \<notin> set d \<and> c \<notin> set e \<and> c \<notin> set f" by simp
qed (auto simp: split_on_append split_on_no_sep)

definition well_formed_result :: "physical_result \<Rightarrow> bool" where
  "well_formed_result ph \<longleftrightarrow> ph_command_id ph \<noteq> [] \<and> CHR ''|'' \<notin> set (ph_command_id ph)
     \<and> ph_code ph \<noteq> [] \<and> CHR ''|'' \<notin> set (ph_code ph)
     \<and> (ph_status ph = ''confirmed'' \<and> ph_state ph \<in> {''attached'', ''detached''} \<and> ph_code ph = ''OK''
        \<or> ph_status ph = ''error'' \<and> ph_state ph = ''unknown'')"

definition result_text :: "physical_result \<Rightarrow> string" where
  "result_text ph = ''payload-result-v1|'' @ ph_command_id ph @ ''|'' @ ph_status ph @ ''|''
     @ ph_state ph @ ''|'' @ ph_code ph"

text \<open>The checks of the parser, for any words of the protocol.\<close>

lemma result_checks:
  assumes "cf \<noteq> er" and "ad \<noteq> un" and "dt \<noteq> un"
  shows "(if p \<noteq> pre then Inl e
     else if c = [] \<or> st \<notin> {cf, er} \<or> sta \<notin> {ad, dt, un} \<or> co = [] then Inl e
     else if st = cf \<and> (sta = un \<or> co \<noteq> ok) then Inl e
     else if st = er \<and> sta \<noteq> un then Inl e else Inr x) = Inr y \<longleftrightarrow>
       p = pre \<and> c \<noteq> [] \<and> co \<noteq> []
       \<and> (st = cf \<and> sta \<in> {ad, dt} \<and> co = ok \<or> st = er \<and> sta = un) \<and> x = y"
  using assms by auto

lemma parse_result_iff:
  "parse_physical_result (VStr s) = Inr ph \<longleftrightarrow>
     split_on (CHR ''|'') s = [''payload-result-v1'', ph_command_id ph, ph_status ph, ph_state ph, ph_code ph]
     \<and> ph_command_id ph \<noteq> [] \<and> ph_code ph \<noteq> []
     \<and> (ph_status ph = ''confirmed'' \<and> ph_state ph \<in> {''attached'', ''detached''} \<and> ph_code ph = ''OK''
        \<or> ph_status ph = ''error'' \<and> ph_state ph = ''unknown'')"
proof (cases "\<exists>p c st sta co. split_on (CHR ''|'') s = [p, c, st, sta, co]")
  case True
  then obtain p c st sta co where split: "split_on (CHR ''|'') s = [p, c, st, sta, co]" by blast
  have words: "''confirmed'' \<noteq> ''error''" "''attached'' \<noteq> ''unknown''" "''detached'' \<noteq> ''unknown''"
    by simp_all
  have ph: "\<lparr>ph_command_id = c, ph_status = st, ph_state = sta, ph_code = co\<rparr> = ph \<longleftrightarrow>
      c = ph_command_id ph \<and> st = ph_status ph \<and> sta = ph_state ph \<and> co = ph_code ph"
    by (cases ph) auto
  show ?thesis
    unfolding parse_physical_result_def pyval.case split list.case result_error_def
      result_checks [OF words] ph list.inject
    by (rule iffI; clarify; intro conjI refl; assumption)
next
  case False
  then have "parse_physical_result (VStr s) = result_error"
    by (simp add: parse_physical_result_def split: list.split)
  with False show ?thesis by (simp add: result_error_def)
qed

text \<open>
  Results are parsed exactly: \<open>parse_physical_result\<close> accepts the canonical texts
  \<open>payload-result-v1|<command>|<status>|<state>|<code>\<close> of well-formed results and nothing
  else, and returns the result the text was made from.
\<close>

theorem parse_physical_result_exact:
  "parse_physical_result v = Inr ph \<longleftrightarrow> well_formed_result ph \<and> v = VStr (result_text ph)"
proof (cases "\<exists>s. v = VStr s")
  case True
  then obtain s where v: "v = VStr s" by blast
  show ?thesis
    unfolding v parse_result_iff split_on_five well_formed_result_def result_text_def by auto
next
  case False
  then show ?thesis by (cases v) (auto simp: parse_physical_result_def result_error_def)
qed

section \<open>A concrete run\<close>

text \<open>
  A scheduler that performs given moves of the step relation; \<open>MExec ok\<close> lets the execution
  make its next step, with \<open>ok\<close> the outcome of an external call.
\<close>

datatype gw_move =
    MVehicle string int point bool
  | MPayload string int int point bool bool
  | MResult int pyval
  | MCall payload_request
  | MExec bool

fun move :: "(pyfloat \<Rightarrow> pyfloat \<Rightarrow> pyfloat) \<Rightarrow> gw_move \<Rightarrow> gw_system \<Rightarrow> gw_system" where
  "move hypot (MVehicle run t xy g) y = y\<lparr>sys_gw := accept_vehicle run t xy g (sys_gw y)\<rparr>"
| "move hypot (MPayload run t m xy g a) y = y\<lparr>sys_gw := accept_payload run t m xy g a (sys_gw y)\<rparr>"
| "move hypot (MResult m wire) y = y\<lparr>sys_gw := snd (accept_result m wire (sys_gw y)),
     sys_log := sys_log y @ taken m wire (sys_gw y)\<rparr>"
| "move hypot (MCall r) y = (if sys_pc y = Idle then y\<lparr>sys_pc := AtLookup r\<rparr> else y)"
| "move hypot (MExec ok) y =
     (case sys_pc y of
        AtPublish r w wire \<Rightarrow> y\<lparr>sys_pc := (if ok then AtWait r else AtUnpublish r),
          sys_log := sys_log y @ [CommandCall r w wire]\<rparr>
      | AtWait r \<Rightarrow>
          if ok then
            (case map_of (gw_pending (sys_gw y)) (cid r) of
               Some p \<Rightarrow> if pr_value p \<noteq> None then y\<lparr>sys_pc := AtCollect r True\<rparr> else y
             | None \<Rightarrow> y)
          else y\<lparr>sys_pc := AtCollect r False\<rparr>
      | AtEvent r e p \<Rightarrow> y\<lparr>sys_pc := Idle, sys_log := sys_log y @
          [EventCall e, if ok then Returned r p else Raised r (RuntimeError ''publish failed'')]\<rparr>
      | pc \<Rightarrow>
          (case exec_section hypot pc (sys_gw y) of
             Some (es, pc', s') \<Rightarrow> \<lparr>sys_gw = s', sys_pc = pc', sys_log = sys_log y @ es\<rparr>
           | None \<Rightarrow> y))"

lemma system_update:
  "y\<lparr>sys_pc := pc, sys_log := l\<rparr> = \<lparr>sys_gw = sys_gw (y :: gw_system), sys_pc = pc, sys_log = l\<rparr>"
  "y\<lparr>sys_pc := pc\<rparr> = \<lparr>sys_gw = sys_gw y, sys_pc = pc, sys_log = sys_log y @ []\<rparr>"
  by simp_all

lemma move_exec: "rtranclp (gw_step hypot) y (move hypot (MExec ok) y)"
proof -
  have step: "exec_step hypot (sys_pc y, sys_gw y) es (pc', s') \<Longrightarrow>
      rtranclp (gw_step hypot) y \<lparr>sys_gw = s', sys_pc = pc', sys_log = sys_log y @ es\<rparr>" for es pc' s'
    by (intro r_into_rtranclp gw_step.Exec)
  have section_step: "rtranclp (gw_step hypot) y
      (case exec_section hypot (sys_pc y) (sys_gw y) of
         Some (es, pc', s') \<Rightarrow> \<lparr>sys_gw = s', sys_pc = pc', sys_log = sys_log y @ es\<rparr>
       | None \<Rightarrow> y)"
    by (auto split: option.splits intro: step exec_step.Section)
  show ?thesis
  proof (cases "sys_pc y")
    case (AtPublish r w wire)
    then show ?thesis by (simp add: system_update) (intro conjI impI step; simp)
  next
    case (AtWait r)
    then show ?thesis
      by (auto simp: system_update simp del: append_Nil2 split: option.splits) (rule step; simp)+
  next
    case (AtEvent r e p)
    then show ?thesis by (simp add: system_update) (intro conjI impI step; simp)
  qed (use section_step in simp_all)
qed

lemma move_steps: "rtranclp (gw_step hypot) y (move hypot mv y)"
proof (cases mv)
  case (MExec ok)
  then show ?thesis using move_exec by simp
qed (auto intro: r_into_rtranclp gw_step.intros)

lemma moves_steps: "rtranclp (gw_step hypot) y (fold (move hypot) mvs y)"
proof (induction mvs arbitrary: y)
  case (Cons mv mvs)
  then show ?case using rtranclp_trans [OF move_steps [of hypot y mv]] by simp
qed simp

definition example_gateway :: gateway where
  "example_gateway = \<lparr>gw_authority = example_authority, gw_confirmation_timeout = Fin 5,
     gw_vehicle = None, gw_payloads = [], gw_vehicle_history = [],
     gw_payload_histories = [(2, []), (3, []), (4, [])], gw_pending = [], gw_responses = [],
     gw_response_sequence = 0, gw_event_id = 0\<rparr>"

lemma example_gateway_ok: "PayloadGateway example_authority (Fin 5) = Inr example_gateway"
  by (simp add: PayloadGateway_def example_gateway_def PAYLOAD_MARKERS_def)

text \<open>Telemetry of all four bodies, then an attach command that Gazebo confirms.\<close>

definition example_moves :: "gw_move list" where
  "example_moves =
     [MVehicle sample_run_id 50 (Fin 1, Fin 2) True,
      MPayload sample_run_id 50 2 (Fin 9, Fin 9) True False,
      MPayload sample_run_id 50 3 (Fin 1, Fin 2) True False,
      MPayload sample_run_id 50 4 (Fin 9, Fin 9) True False,
      MCall example_request, MExec True, MExec True, MExec True, MExec True,
      MResult 3 (VStr ''payload-result-v1|run:3:attach:1|confirmed|attached|OK''),
      MExec True, MExec True, MExec True, MExec True, MExec True]"

definition example_system :: gw_system where
  "example_system = fold (move axis_hypot) example_moves (initial_system example_gateway)"

lemma example_reachable: "reachable axis_hypot example_authority example_system"
  unfolding reachable_def example_system_def
  using PayloadAuthority_ok [OF example_authority_ok] example_gateway_ok moves_steps by blast

definition example_response :: payload_response where
  "example_response = \<lparr>re_accepted = True, re_code = ''OK'', re_detail = ''physical payload attached'',
     re_command_id = ''run:3:attach:1'', re_response_sequence = 1\<rparr>"

text \<open>The gateway once it has telemetry of all four bodies.\<close>

abbreviation resting :: "point \<Rightarrow> payload_fact" where
  "resting xy \<equiv> \<lparr>pf_timestamp_ns = 50, pf_xy = xy, pf_grounded = True, pf_attached = False\<rparr>"

definition telemetry :: "(int, payload_fact) dict \<Rightarrow> (int, (int, payload_fact) dict) dict \<Rightarrow> gateway" where
  "telemetry ps hs = example_gateway\<lparr>
     gw_vehicle := Some \<lparr>vf_timestamp_ns = 50, vf_xy = (Fin 1, Fin 2), vf_grounded = True\<rparr>,
     gw_payloads := ps,
     gw_vehicle_history := [(50, \<lparr>vf_timestamp_ns = 50, vf_xy = (Fin 1, Fin 2), vf_grounded = True\<rparr>)],
     gw_payload_histories := hs\<rparr>"

definition informed_gateway :: gateway where
  "informed_gateway = telemetry
     [(2, resting (Fin 9, Fin 9)), (3, resting (Fin 1, Fin 2)), (4, resting (Fin 9, Fin 9))]
     [(2, [(50, resting (Fin 9, Fin 9))]), (3, [(50, resting (Fin 1, Fin 2))]),
       (4, [(50, resting (Fin 9, Fin 9))])]"

lemma example_run_id: "pa_run_id example_authority = sample_run_id"
  by (simp add: example_authority_def)

lemmas telemetry_defs = telemetry_def example_gateway_def accept_vehicle_def accept_payload_def
  remember_payload_def prune_histories_def latest_timestamps_def since_def
  PHYSICAL_HISTORY_HORIZON_NS_def PAYLOAD_MARKERS_def example_run_id Let_def

lemma telemetry_vehicle:
  "accept_vehicle sample_run_id 50 (Fin 1, Fin 2) True example_gateway = telemetry [] [(2, []), (3, []), (4, [])]"
  by (simp add: telemetry_defs)

lemma telemetry_payloads:
  "accept_payload sample_run_id 50 2 xy True False (telemetry [] [(2, []), (3, []), (4, [])])
     = telemetry [(2, resting xy)] [(2, [(50, resting xy)]), (3, []), (4, [])]"
  "accept_payload sample_run_id 50 3 xy True False (telemetry [(2, resting a)] [(2, [(50, resting a)]), (3, []), (4, [])])
     = telemetry [(2, resting a), (3, resting xy)] [(2, [(50, resting a)]), (3, [(50, resting xy)]), (4, [])]"
  "accept_payload sample_run_id 50 4 xy True False
       (telemetry [(2, resting a), (3, resting b)] [(2, [(50, resting a)]), (3, [(50, resting b)]), (4, [])])
     = telemetry [(2, resting a), (3, resting b), (4, resting xy)]
         [(2, [(50, resting a)]), (3, [(50, resting b)]), (4, [(50, resting xy)])]"
  by (simp_all add: telemetry_defs)

lemma example_telemetry:
  "fold (move axis_hypot) (take 4 example_moves) (initial_system example_gateway)
     = initial_system informed_gateway"
  by (simp add: example_moves_def initial_system_def informed_gateway_def telemetry_vehicle
      telemetry_payloads)

lemma informed_fields:
  "gw_authority informed_gateway = example_authority" "gw_responses informed_gateway = []"
  "gw_pending informed_gateway = []" "gw_response_sequence informed_gateway = 0"
  "gw_event_id informed_gateway = 0"
  "map_of (gw_payloads informed_gateway) 3 = Some (resting (Fin 1, Fin 2))"
  "gw_vehicle informed_gateway = Some \<lparr>vf_timestamp_ns = 50, vf_xy = (Fin 1, Fin 2), vf_grounded = True\<rparr>"
  by (simp_all add: informed_gateway_def telemetry_def example_gateway_def)

lemma informed_snapshot: "snapshot example_request informed_gateway = Inr example_world"
  by (simp add: snapshot_def informed_gateway_def telemetry_def example_gateway_def common_timestamps_def
      payloads_at_def attached_markers_def attachment_state_def facts_changed_def
      PAYLOAD_MARKERS_def example_request_def example_world_def)

lemma example_request_fields:
  "req_command_id example_request = ''run:3:attach:1''" "req_aruco_id example_request = 3"
  "req_action example_request = ''attach''" "req_run_id example_request = sample_run_id"
  by (simp_all add: example_request_def)

lemma example_decide:
  "decide axis_hypot example_authority example_world example_request =
     Inr (approved ''run:3:attach:1'' ''attach'')"
proof -
  have "decide_attach axis_hypot example_authority {''WA''} example_world ''run:3:attach:1'' =
      Inr (approved ''run:3:attach:1'' ''attach'')"
    using decide_attach_eq [of "{''WA''}" example_authority axis_hypot example_world "''run:3:attach:1''"]
      example_allowed by (simp add: example_authority_def)
  then show ?thesis
    using example_command_id by (simp add: decide_def example_request_fields example_authority_def)
qed

lemma example_result:
  "parse_physical_result (VStr ''payload-result-v1|run:3:attach:1|confirmed|attached|OK'') =
     Inr \<lparr>ph_command_id = ''run:3:attach:1'', ph_status = ''confirmed'', ph_state = ''attached'',
          ph_code = ''OK''\<rparr>"
  by (simp add: parse_physical_result_def)

abbreviation example_physical :: physical_result where
  "example_physical \<equiv> \<lparr>ph_command_id = ''run:3:attach:1'', ph_status = ''confirmed'',
     ph_state = ''attached'', ph_code = ''OK''\<rparr>"

lemma pending_update_eq: "(s\<lparr>gw_pending := a\<rparr> = s\<lparr>gw_pending := b\<rparr>) = (a = b)" for s :: gateway
  by (cases s) simp

lemma example_execution:
  "\<exists>s e wire. fold (move axis_hypot) (drop 4 example_moves) (initial_system informed_gateway) =
     \<lparr>sys_gw = s, sys_pc = Idle, sys_log = [CommandCall example_request example_world wire,
       ResultTaken 3 example_physical, Responded example_response, EventCall e,
       Returned example_request example_response]\<rparr>
     \<and> gw_responses s = [(''run:3:attach:1'', example_request, example_response)]"
  by (simp add: example_moves_def initial_system_def exec_lookup_def exec_snapshot_def exec_decide_def
      exec_collect_def exec_judge_def exec_record_def exec_reply_def gw_response_def Let_def
      informed_fields informed_snapshot example_decide example_request_fields example_result
      accept_result_def taken_def example_response_def pending_update_eq)

lemma example_system_eq:
  obtains s e wire where "example_system =
     \<lparr>sys_gw = s, sys_pc = Idle, sys_log = [CommandCall example_request example_world wire,
       ResultTaken 3 example_physical, Responded example_response, EventCall e,
       Returned example_request example_response]\<rparr>"
    "gw_responses s = [(''run:3:attach:1'', example_request, example_response)]"
proof -
  have "example_system = fold (move axis_hypot) (drop 4 example_moves)
      (fold (move axis_hypot) (take 4 example_moves) (initial_system example_gateway))"
    unfolding example_system_def
    by (metis append_take_drop_id comp_apply fold_append)
  with example_execution that show ?thesis unfolding example_telemetry by metis
qed

lemma example_returned: "Returned example_request example_response \<in> set (sys_log example_system)"
  by (rule example_system_eq) (erule ssubst, simp)

lemma example_cached: "map_of (gw_responses (sys_gw example_system)) (cid example_request)
    = Some (example_request, example_response)"
  by (rule example_system_eq) (erule ssubst, simp add: example_request_fields)

section \<open>Witnesses\<close>

theorem gateway_commands_once_witness: "distinct (commands (sys_log example_system))"
  using gateway_commands_once [OF example_reachable] by blast

theorem gateway_accept_is_confirmed_witness:
  "confirmed example_request (sys_log example_system)
   \<and> length (event_calls (cid example_request) (sys_log example_system)) = 1"
  using gateway_accept_is_confirmed [OF example_reachable example_returned]
  by (auto simp: example_response_def)

definition conflicting_request :: payload_request where
  "conflicting_request = example_request\<lparr>req_action := ''release''\<rparr>"

lemma conflicting_returned:
  obtains q where "Returned conflicting_request q \<in>
    set (sys_log (fold (move axis_hypot) [MCall conflicting_request, MExec True] example_system))"
proof (rule example_system_eq)
  fix s e wire
  assume y: "example_system = \<lparr>sys_gw = s, sys_pc = Idle, sys_log = [CommandCall example_request example_world wire,
      ResultTaken 3 example_physical, Responded example_response, EventCall e,
      Returned example_request example_response]\<rparr>"
    and "gw_responses s = [(''run:3:attach:1'', example_request, example_response)]"
  then have "Returned conflicting_request (fst (gw_response conflicting_request False ''COMMAND_ID_CONFLICT''
        ''command_id was already used by a different request'' False s)) \<in>
      set (sys_log (fold (move axis_hypot) [MCall conflicting_request, MExec True] example_system))"
    unfolding y
    by (simp add: exec_lookup_def conflicting_request_def example_request_def gw_response_def Let_def)
  then show thesis by (rule that)
qed

theorem gateway_idempotent_witness:
  "\<exists>q. Returned conflicting_request q \<in>
     set (sys_log (fold (move axis_hypot) [MCall conflicting_request, MExec True] example_system))
   \<and> \<not> re_accepted q \<and> re_code q = ''COMMAND_ID_CONFLICT''"
proof (rule conflicting_returned)
  fix q
  assume q: "Returned conflicting_request q \<in>
    set (sys_log (fold (move axis_hypot) [MCall conflicting_request, MExec True] example_system))"
  have "cid conflicting_request = cid example_request" "conflicting_request \<noteq> example_request"
    by (simp_all add: conflicting_request_def example_request_def)
  then have "\<not> re_accepted q \<and> re_code q = ''COMMAND_ID_CONFLICT''"
    using gateway_idempotent [OF example_reachable example_cached moves_steps q] by presburger
  with q show ?thesis by blast
qed

theorem gateway_numbering_witness:
  "sequence_numbers (sys_log example_system) = [1..gw_response_sequence (sys_gw example_system)]"
  using gateway_numbering [OF example_reachable] by blast

theorem snapshot_consistent_witness: "\<exists>t. consistent_cut example_request informed_gateway t example_world"
  by (rule snapshot_consistent [OF informed_snapshot])

theorem telemetry_horizon_witness:
  "history_within (accept_vehicle sample_run_id 50 (Fin 1, Fin 2) True example_gateway) (50 - 500000000)"
proof -
  have "telemetry [] [(2, []), (3, []), (4, [])] \<noteq> example_gateway"
    by (simp add: telemetry_def example_gateway_def)
  then show ?thesis
    by (intro telemetry_horizon [OF disjI1 [OF refl]])
      (simp add: telemetry_vehicle)
qed

end
