(* ===== verification/Em_Scenario.thy ===== *)
theory Em_Scenario
  imports Py_Prelude
begin

text \<open>
  The inactive descent scenario of the electromagnet: \<open>ScenarioPolicy\<close> of
  \<open>electromagnet/scenario.py\<close> and \<open>ScenarioController\<close> of
  \<open>electromagnet/controller.py\<close>.

  The controller calls a publisher, a structured log and the run protocol. These calls are
  the effects of an operation, in order; \<open>env\<close> says which of them raises, which ends the
  operation there. A log record keeps the timestamp in nanoseconds, from which the source
  computes its decimal seconds.
\<close>

section \<open>ScenarioPolicy\<close>

record scenario_event =
  se_run_id :: string
  se_timestamp_ns :: int
  se_event_id :: int
  se_magnet_id :: string
  se_state :: string

definition InactiveScenarioEvent :: "string \<Rightarrow> int \<Rightarrow> scenario_event" where
  "InactiveScenarioEvent run_id timestamp_ns =
     \<lparr>se_run_id = run_id, se_timestamp_ns = timestamp_ns, se_event_id = 0,
      se_magnet_id = ''descent-v1-magnet'', se_state = ''INACTIVE''\<rparr>"

record scenario_policy =
  sp_run_id :: string
  sp_last_timestamp_ns :: "int option"
  sp_published :: bool
  sp_failed :: bool

definition ScenarioPolicy :: "pyval \<Rightarrow> string \<Rightarrow> scenario_policy result" where
  "ScenarioPolicy run_id scenario =
     (case strict_str run_id of
        None \<Rightarrow> Inl (ValueError ''run_id must be a canonical UUID'')
      | Some r \<Rightarrow>
          if \<not> canonical_uuid r then Inl (ValueError ''run_id must be a canonical UUID'')
          else if scenario \<noteq> ''descent_v1'' then
            Inl (ValueError ''only descent_v1 is supported by the inactive scenario runtime'')
          else Inr \<lparr>sp_run_id = r, sp_last_timestamp_ns = None, sp_published = False,
                    sp_failed = False\<rparr>)"

definition policy_observe_clock :: "pyval \<Rightarrow> scenario_policy
    \<Rightarrow> scenario_event option result \<times> scenario_policy" where
  "policy_observe_clock timestamp_ns s =
     (if sp_failed s then (Inl (RuntimeError ''scenario policy already failed''), s)
      else case strict_int timestamp_ns of
        None \<Rightarrow> (Inl (ValueError ''invalid simulation timestamp''), s\<lparr>sp_failed := True\<rparr>)
      | Some t \<Rightarrow>
          if t < 0 then (Inl (ValueError ''invalid simulation timestamp''), s\<lparr>sp_failed := True\<rparr>)
          else if (case sp_last_timestamp_ns s of None \<Rightarrow> False | Some l \<Rightarrow> t < l) then
            (Inl (ValueError ''simulation timestamp regressed''), s\<lparr>sp_failed := True\<rparr>)
          else if sp_published s then (Inr None, s\<lparr>sp_last_timestamp_ns := Some t\<rparr>)
          else (Inr (Some (InactiveScenarioEvent (sp_run_id s) t)),
                s\<lparr>sp_last_timestamp_ns := Some t, sp_published := True\<rparr>))"

section \<open>ScenarioController\<close>

datatype sc_effect =
    LogRecord string string "int option" "(string \<times> pyval) list"
  | PublishEvent scenario_event
  | WriteQuiescent string

record scenario_controller =
  sc_run_id :: string
  sc_policy :: "scenario_policy option"
  sc_scenario :: string
  sc_ready :: bool
  sc_quiescent :: bool

definition ScenarioController :: "string \<Rightarrow> scenario_policy option \<Rightarrow> string \<Rightarrow> scenario_controller" where
  "ScenarioController run_id policy scenario =
     \<lparr>sc_run_id = run_id, sc_policy = policy, sc_scenario = scenario, sc_ready = False,
      sc_quiescent = False\<rparr>"

text \<open>Effects in order, up to the first that raises.\<close>

type_synonym env = "sc_effect \<Rightarrow> exn option"

fun perform :: "env \<Rightarrow> sc_effect list \<Rightarrow> unit result \<times> sc_effect list" where
  "perform env [] = (Inr (), [])"
| "perform env (e # es) =
     (case env e of
        Some x \<Rightarrow> (Inl x, [e])
      | None \<Rightarrow> (let (r, done0) = perform env es in (r, e # done0)))"

definition sc_emit :: "string \<Rightarrow> string \<Rightarrow> int option \<Rightarrow> (string \<times> pyval) list \<Rightarrow> scenario_controller
    \<Rightarrow> sc_effect list" where
  "sc_emit severity event timestamp_ns values s =
     (if sc_quiescent s then [] else [LogRecord severity event timestamp_ns values])"

definition mark_ready :: "env \<Rightarrow> scenario_controller
    \<Rightarrow> (unit result \<times> sc_effect list) \<times> scenario_controller" where
  "mark_ready env s =
     (if sc_ready s then ((Inr (), []), s)
      else
        (let r = perform env (sc_emit ''INFO'' ''ready'' None
               [(''scenario'', VStr (sc_scenario s)),
                (''physical_force'',
                 VBool (sc_scenario s \<in> {''competition_v1'', ''competition_2027_v1''}))] s)
         in (r, if isl (fst r) then s else s\<lparr>sc_ready := True\<rparr>)))"

definition event_record :: "scenario_event \<Rightarrow> (string \<times> pyval) list" where
  "event_record e = [(''event_id'', VInt (se_event_id e)), (''magnet_id'', VStr (se_magnet_id e)),
     (''state'', VStr (se_state e)), (''physical_force'', VBool False)]"

definition sc_observe_clock :: "env \<Rightarrow> pyval \<Rightarrow> scenario_controller
    \<Rightarrow> (unit result \<times> sc_effect list) \<times> scenario_controller" where
  "sc_observe_clock env timestamp_ns s =
     (if sc_quiescent s then ((Inr (), []), s)
      else case sc_policy s of
        None \<Rightarrow>
          ((Inl (RuntimeError ''competition payload authority has no inactive clock policy''), []), s)
      | Some policy \<Rightarrow>
          (case policy_observe_clock timestamp_ns policy of
             (Inl x, policy') \<Rightarrow> ((Inl x, []), s\<lparr>sc_policy := Some policy'\<rparr>)
           | (Inr None, policy') \<Rightarrow> ((Inr (), []), s\<lparr>sc_policy := Some policy'\<rparr>)
           | (Inr (Some e), policy') \<Rightarrow>
               (perform env (PublishEvent e # sc_emit ''INFO'' ''scenario_event_published''
                  (Some (se_timestamp_ns e)) (event_record e) s),
                s\<lparr>sc_policy := Some policy'\<rparr>)))"

text \<open>A failing log record leaves the controller open; the flag is set before the protocol call.\<close>

definition sc_finalize :: "env \<Rightarrow> int option \<Rightarrow> scenario_controller
    \<Rightarrow> (unit result \<times> sc_effect list) \<times> scenario_controller" where
  "sc_finalize env timestamp_ns s =
     (if sc_quiescent s then ((Inr (), []), s)
      else
        (let (r, es) = perform env (sc_emit ''INFO'' ''finalizing'' timestamp_ns [] s) in
         if isl r then ((r, es), s)
         else
           (let (r', es') = perform env [WriteQuiescent ''electromagnet'']
            in ((r', es @ es'), s\<lparr>sc_quiescent := True\<rparr>))))"

definition sc_fail :: "env \<Rightarrow> int option \<Rightarrow> string \<Rightarrow> scenario_controller
    \<Rightarrow> (unit result \<times> sc_effect list) \<times> scenario_controller" where
  "sc_fail env timestamp_ns reason s =
     (perform env (sc_emit ''ERROR'' ''scenario_failed'' timestamp_ns [(''reason'', VStr reason)] s), s)"

datatype sc_op =
    MarkReady | ObserveClock pyval | Finalize "int option" | Fail "int option" string

text \<open>An operation, with the environment in which its external calls are made.\<close>

fun sc_step :: "env \<times> sc_op \<Rightarrow> scenario_controller
    \<Rightarrow> (unit result \<times> sc_effect list) \<times> scenario_controller" where
  "sc_step (env, MarkReady) s = mark_ready env s"
| "sc_step (env, ObserveClock t) s = sc_observe_clock env t s"
| "sc_step (env, Finalize t) s = sc_finalize env t s"
| "sc_step (env, Fail t reason) s = sc_fail env t reason s"

section \<open>Policy\<close>

lemma policy_failed_final:
  "sp_failed s \<Longrightarrow> run_ops policy_observe_clock ts s =
     (replicate (length ts) (Inl (RuntimeError ''scenario policy already failed'')), s)"
  by (induction ts) (simp_all add: policy_observe_clock_def)

lemma policy_published_keeps:
  assumes "sp_published s"
  shows "sp_published (snd (policy_observe_clock t s)) \<and> fst (policy_observe_clock t s) \<noteq> Inr (Some e)"
  using assms by (simp add: policy_observe_clock_def split: option.splits)

lemma policy_published_run:
  "sp_published s \<Longrightarrow> Inr (Some e) \<notin> set (fst (run_ops policy_observe_clock ts s))"
proof (induction ts arbitrary: s)
  case (Cons t ts)
  with policy_published_keeps [OF Cons.prems, of t e] show ?case by auto
qed simp

lemma policy_valid_clock:
  assumes "\<not> sp_failed s" and "sp_published s" and "sp_last_timestamp_ns s = Some l" and "l \<le> t" and "0 \<le> l"
  shows "policy_observe_clock (VInt t) s = (Inr None, s\<lparr>sp_last_timestamp_ns := Some t\<rparr>)"
  using assms by (simp add: policy_observe_clock_def)

lemma policy_sorted_run:
  assumes "\<not> sp_failed s" and "sp_published s" and "sp_last_timestamp_ns s = Some l" and "0 \<le> l"
    and "sorted (l # ts)"
  shows "fst (run_ops policy_observe_clock (map VInt ts) s) = replicate (length ts) (Inr None)"
  using assms
proof (induction ts arbitrary: s l)
  case (Cons t ts)
  then show ?case by (simp add: policy_valid_clock)
qed simp

text \<open>
  The descent scenario is inactive: with a monotone clock the policy publishes exactly one
  event, inactive and numbered 0, at the first clock tick, and no tick is rejected.
\<close>

theorem policy_publishes_once:
  assumes "ScenarioPolicy run_id scenario = Inr s" and "sorted (t # ts)" and "0 \<le> t"
  shows "fst (run_ops policy_observe_clock (map VInt (t # ts)) s) =
    Inr (Some (InactiveScenarioEvent (sp_run_id s) t)) # replicate (length ts) (Inr None)"
proof -
  have init: "\<not> sp_failed s" "\<not> sp_published s" "sp_last_timestamp_ns s = None"
    using assms(1) by (auto simp: ScenarioPolicy_def split: option.splits if_splits)
  let ?s = "s\<lparr>sp_last_timestamp_ns := Some t, sp_published := True\<rparr>"
  have "policy_observe_clock (VInt t) s = (Inr (Some (InactiveScenarioEvent (sp_run_id s) t)), ?s)"
    using init assms(3) by (simp add: policy_observe_clock_def)
  moreover have "fst (run_ops policy_observe_clock (map VInt ts) ?s) = replicate (length ts) (Inr None)"
    by (rule policy_sorted_run [OF _ _ _ assms(3,2)]) (use init in simp_all)
  ultimately show ?thesis by simp
qed

theorem policy_publishes_once_witness:
  "fst (run_ops policy_observe_clock [VInt 5, VInt 7]
     \<lparr>sp_run_id = sample_run_id, sp_last_timestamp_ns = None, sp_published = False, sp_failed = False\<rparr>) =
    [Inr (Some (InactiveScenarioEvent sample_run_id 5)), Inr None]"
  using policy_publishes_once [of "VStr sample_run_id" "''descent_v1''" _ 5 "[7]"]
  by (simp add: ScenarioPolicy_def)

section \<open>Controller\<close>

fun is_quiescence :: "sc_effect \<Rightarrow> bool" where
  "is_quiescence (WriteQuiescent _) = True"
| "is_quiescence _ = False"

fun is_publish :: "sc_effect \<Rightarrow> bool" where
  "is_publish (PublishEvent _) = True"
| "is_publish _ = False"

definition effects :: "(unit result \<times> sc_effect list) list \<Rightarrow> sc_effect list" where
  "effects rs = concat (map snd rs)"

lemma effects_Cons [simp]: "effects [] = []" "effects (r # rs) = snd r @ effects rs"
  by (simp_all add: effects_def)

lemma perform_subset: "set (snd (perform env es)) \<subseteq> set es"
  by (induction es) (auto split: option.splits prod.splits)

lemma perform_length: "length (filter P (snd (perform env es))) \<le> length (filter P es)"
  by (induction es) (auto split: option.splits prod.splits)

lemma quiescent_step:
  assumes "sc_quiescent s"
  shows "snd (fst (sc_step x s)) = [] \<and> sc_quiescent (snd (sc_step x s))"
  using assms
  by (cases "(x, s)" rule: sc_step.cases)
    (auto simp: mark_ready_def sc_observe_clock_def sc_finalize_def sc_fail_def sc_emit_def Let_def)

lemma quiescent_run: "sc_quiescent s \<Longrightarrow> effects (fst (run_ops sc_step xs s)) = []"
proof (induction xs arbitrary: s)
  case (Cons x xs)
  with quiescent_step [OF Cons.prems, of x] show ?case by simp
qed simp

definition publishable :: "scenario_controller \<Rightarrow> nat" where
  "publishable s = (case sc_policy s of None \<Rightarrow> 0 | Some p \<Rightarrow> if sp_published p then 0 else 1)"

lemma perform_publish: "length (filter is_publish (snd (perform env (sc_emit v e t d s)))) = 0"
  using perform_length [of is_publish env "sc_emit v e t d s"] by (simp add: sc_emit_def split: if_splits)

lemma observe_publishes:
  "length (filter is_publish (snd (fst (sc_observe_clock env t s))))
     + publishable (snd (sc_observe_clock env t s)) \<le> publishable s"
proof (cases "sc_policy s")
  case (Some p)
  note policy = Some
  show ?thesis
  proof (cases "policy_observe_clock t p")
    case (Pair r p')
    have published: "sp_published p \<Longrightarrow> sp_published p'" "r = Inr (Some e) \<Longrightarrow> \<not> sp_published p \<and> sp_published p'" for e
      using Pair by (auto simp: policy_observe_clock_def split: if_splits option.splits)
    show ?thesis
    proof (cases "\<exists>e. r = Inr (Some e)")
      case True
      then obtain e where e: "r = Inr (Some e)" by blast
      have "length (filter is_publish (snd (perform env (PublishEvent e # sc_emit ''INFO''
          ''scenario_event_published'' (Some (se_timestamp_ns e)) (event_record e) s)))) \<le> 1"
        using perform_length [of is_publish env] by (rule order_trans) (simp add: sc_emit_def)
      with policy Pair e published(2) [OF e] show ?thesis
        by (simp add: sc_observe_clock_def publishable_def)
    next
      case False
      with policy Pair published(1) show ?thesis
        by (auto simp: sc_observe_clock_def publishable_def split: sum.splits option.splits)
    qed
  qed
qed (simp add: sc_observe_clock_def publishable_def)

lemma step_publishes:
  "length (filter is_publish (snd (fst (sc_step x s)))) + publishable (snd (sc_step x s)) \<le> publishable s"
proof (cases "(x, s)" rule: sc_step.cases)
  case (2 env t s0)
  then show ?thesis using observe_publishes by simp
next
  case (3 env t s0)
  then show ?thesis
    using perform_publish [of env "''INFO''" "''finalizing''" t "[]" s]
    by (auto simp: sc_finalize_def publishable_def Let_def split: prod.splits option.splits)
qed (auto simp: mark_ready_def sc_fail_def perform_publish publishable_def Let_def)

lemma run_publishes: "length (filter is_publish (effects (fst (run_ops sc_step xs s)))) \<le> publishable s"
proof (induction xs arbitrary: s)
  case (Cons x xs)
  then show ?case using step_publishes [of x s] by (simp add: le_trans add_mono) (meson add_left_mono le_trans)
qed simp

text \<open>Quiescence is the last effect of the operation that writes it.\<close>

lemma step_quiescence:
  "filter is_quiescence (snd (fst (sc_step x s))) = [] \<or>
     (\<exists>es. snd (fst (sc_step x s)) = es @ [WriteQuiescent ''electromagnet'']
        \<and> filter is_quiescence es = []) \<and> sc_quiescent (snd (sc_step x s))"
proof -
  have emit: "filter is_quiescence (snd (perform env (sc_emit v e t d s))) = []" for env v e t d
    using perform_subset [of env "sc_emit v e t d s"] by (auto simp: sc_emit_def filter_empty_conv)
  show ?thesis
  proof (cases "(x, s)" rule: sc_step.cases)
    case (2 env t s0)
    have "filter is_quiescence (snd (perform env (PublishEvent ev # sc_emit v e t' d s))) = []" for ev v e t' d
      using emit [of env v e t' d] by (auto split: option.splits prod.splits)
    with 2 show ?thesis
      by (auto simp: sc_observe_clock_def split: prod.splits sum.splits option.splits)
  next
    case (3 env t s0)
    with emit [of env "''INFO''" "''finalizing''" t "[]"] show ?thesis
      by (auto simp: sc_finalize_def Let_def split: prod.splits option.splits)
  qed (use emit in \<open>auto simp: mark_ready_def sc_fail_def Let_def\<close>)
qed

text \<open>
  Whatever operations a scenario controller receives, and whichever of its external calls
  raise, it publishes at most one scenario event, and after the quiescence it writes there
  is no further effect at all.
\<close>

theorem controller_quiescent:
  "length (filter is_publish (effects (fst (run_ops sc_step xs s)))) \<le> 1
   \<and> (\<exists>es. effects (fst (run_ops sc_step xs s)) = es \<and> filter is_quiescence es = []
      \<or> effects (fst (run_ops sc_step xs s)) = es @ [WriteQuiescent ''electromagnet'']
        \<and> filter is_quiescence es = [])"
proof
  show "length (filter is_publish (effects (fst (run_ops sc_step xs s)))) \<le> 1"
    using run_publishes [of xs s] by (simp add: publishable_def split: option.splits if_splits)
  show "\<exists>es. effects (fst (run_ops sc_step xs s)) = es \<and> filter is_quiescence es = []
      \<or> effects (fst (run_ops sc_step xs s)) = es @ [WriteQuiescent ''electromagnet'']
        \<and> filter is_quiescence es = []"
  proof (induction xs arbitrary: s)
    case (Cons x xs)
    let ?s = "snd (sc_step x s)" and ?new = "snd (fst (sc_step x s))"
    from step_quiescence [of x s] show ?case
    proof
      assume "filter is_quiescence ?new = []"
      with Cons.IH [of ?s] show ?thesis by (auto intro: exI [of _ "?new @ _"]) (metis append_assoc filter_append append_Nil)
    next
      assume *: "(\<exists>es. ?new = es @ [WriteQuiescent ''electromagnet''] \<and> filter is_quiescence es = [])
        \<and> sc_quiescent ?s"
      with quiescent_run [of ?s xs] show ?thesis by auto
    qed
  qed simp
qed

end
