(* ===== verification/Manifest.thy ===== *)
theory Manifest
  imports Runtime_Status Gz_Runtime_Model Py_Float
begin

text \<open>
  The run manifest, \<open>artifacts/manifest.py\<close>: its records, \<open>validate_manifest\<close> and
  \<open>build_manifest\<close>.

  A field the source tests with \<open>isinstance\<close> is a \<open>pyval\<close>; the incomplete and evidence
  paths are strings, as their annotations say. A wall-clock value is a \<open>datetime\<close> in
  microseconds or not one. A deadline check is a function \<open>dl\<close> of the number
  of checks made so far, which says whether that check raises; \<open>timed\<close> computations count
  the checks.
\<close>

section \<open>Deadline checks\<close>

type_synonym deadline = "nat \<Rightarrow> exn option"
type_synonym 'a timed = "nat \<Rightarrow> 'a result \<times> nat"

definition no_deadline :: deadline where
  "no_deadline n = None"

definition treturn :: "'a result \<Rightarrow> 'a timed" where
  "treturn r = (\<lambda>n. (r, n))"

definition tbind :: "'a timed \<Rightarrow> ('a \<Rightarrow> 'b timed) \<Rightarrow> 'b timed" where
  "tbind m f = (\<lambda>n. case m n of (Inl e, n') \<Rightarrow> (Inl e, n') | (Inr x, n') \<Rightarrow> f x n')"

definition check_deadline :: "deadline \<Rightarrow> unit timed" where
  "check_deadline dl = (\<lambda>n. (case dl n of Some e \<Rightarrow> Inl e | None \<Rightarrow> Inr (), Suc n))"

text \<open>A check, then a pure test.\<close>

definition tguard :: "bool \<Rightarrow> exn \<Rightarrow> unit timed" where
  "tguard bad e = treturn (guard bad e)"

lemma tbind_Inr [simp]:
  "fst (tbind m f n) = Inr y \<longleftrightarrow> (\<exists>x n'. m n = (Inr x, n') \<and> fst (f x n') = Inr y)"
  by (auto simp: tbind_def split: prod.splits sum.splits)

lemma treturn_simps [simp]: "treturn r n = (r, n)"
  by (simp add: treturn_def)

lemma tguard_simps [simp]: "tguard bad e n = (guard bad e, n)"
  by (simp add: tguard_def)

lemma tbind_tguard [simp]: "tbind (tguard bad e) f = (if bad then treturn (Inl e) else f ())"
  by (auto simp: tbind_def tguard_def guard_def fun_eq_iff)

lemma tbind_treturn [simp]:
  "tbind (treturn (Inr x)) f = f x" "tbind (treturn (Inl e)) f = treturn (Inl e)"
  by (simp_all add: tbind_def treturn_def fun_eq_iff)

section \<open>Records\<close>

definition MODULE_LOGS :: "string list" where
  "MODULE_LOGS = [''logs/orchestration.jsonl'', ''logs/artifacts.jsonl'', ''logs/companion.jsonl'',
     ''logs/ardupilot_sitl.jsonl'', ''logs/gazebo.jsonl'', ''logs/electromagnet.jsonl'',
     ''logs/scorekeeper.jsonl'']"

definition REQUIRED_DIRECTORY_PATHS :: "string list" where
  "REQUIRED_DIRECTORY_PATHS = [''configuration'', ''gazebo/state'', ''rosbag'']"

definition REQUIRED_ARTIFACT_PATHS :: "string list" where
  "REQUIRED_ARTIFACT_PATHS = [''configuration'', ''gazebo/server.log'', ''gazebo/state'',
     ''video/onboard.mp4'', ''video/observer.mp4'', ''rosbag''] @ MODULE_LOGS
     @ [''scoring/events.jsonl'', ''scoring/result.json'']"

definition TERMINAL_STATUSES :: "string list" where
  "TERMINAL_STATUSES = [''ABORTED'', ''COMPLETED'', ''FAILED'']"

record source_revision =
  sv_name :: pyval
  sv_revision :: pyval
  sv_dirty :: pyval

record image_digest =
  im_name :: pyval
  im_digest :: pyval

record configuration_record =
  cf_relative_path :: pyval
  cf_sha256 :: pyval

record simulation_timing =
  st_start_ns :: pyval
  st_end_ns :: pyval
  st_duration_ns :: pyval

text \<open>
  A wall-clock timestamp, in microseconds: a timezone-aware \<open>datetime\<close>, a naive one, or
  anything else.
\<close>

datatype wall_stamp = Aware int | Naive int | NotDatetime

record wall_timing =
  wt_started_at :: wall_stamp
  wt_ended_at :: wall_stamp
  wt_duration_seconds :: pyval

record artifact_record =
  af_relative_path :: pyval
  af_size_bytes :: pyval
  af_sha256 :: pyval
  af_validation :: pyval
  af_detail :: pyval

record run_manifest =
  rm_manifest_run_id :: pyval
  rm_terminal_status :: pyval
  rm_reason :: pyval
  rm_simulation_timing :: simulation_timing
  rm_wall_timing :: wall_timing
  rm_source_revisions :: "source_revision list"
  rm_image_digests :: "image_digest list"
  rm_configurations :: "configuration_record list"
  rm_artifacts :: "artifact_record list"
  rm_incomplete_paths :: "string list"
  rm_achieved_score :: pyval
  rm_maximum_available_score :: pyval
  rm_scoring_checksum :: pyval
  rm_evidence_paths :: "string list"
  rm_schema_version :: pyval

section \<open>Field checks\<close>

definition require_finite_score :: "string \<Rightarrow> pyval \<Rightarrow> unit result" where
  "require_finite_score field v =
     (if v = VNone then Inr ()
      else if \<not> is_number v then
        Inl (ValueError (field @ '' must be finite or None for JSON compliant output''))
      else rbind (py_isfinite v) (\<lambda>fin.
        guard (\<not> fin) (ValueError (field @ '' must be finite or None for JSON compliant output''))))"

definition require_digest :: "string \<Rightarrow> pyval \<Rightarrow> bool \<Rightarrow> unit result" where
  "require_digest field v optional =
     (if optional \<and> v = VNone then Inr ()
      else guard (\<not> lowercase_digest v)
        (ValueError (field @ '' must be an exact lowercase SHA-256 digest'')))"

fun is_manifest_relative_path :: "pyval \<Rightarrow> bool" where
  "is_manifest_relative_path (VStr s) =
     (s \<noteq> [] \<and> CHR 0x5C \<notin> set s \<and> hd s \<noteq> CHR ''/'' \<and> posix_parts s \<noteq> []
      \<and> ''..'' \<notin> set (posix_parts s))"
| "is_manifest_relative_path _ = False"

definition require_relative_path :: "string \<Rightarrow> pyval \<Rightarrow> unit result" where
  "require_relative_path field v =
     guard (\<not> is_manifest_relative_path v)
       (ValueError (field @ '' must be a portable path inside the run directory''))"

definition validate_simulation :: "simulation_timing \<Rightarrow> unit result" where
  "validate_simulation t =
     (if (st_start_ns t = VNone) \<noteq> (st_end_ns t = VNone) then
        Inl (ValueError ''simulation start and end must both be present or absent'')
      else if \<not> list_all (\<lambda>v. v = VNone \<or> nonneg_int v) [st_start_ns t, st_end_ns t] then
        Inl (ValueError ''simulation times must be nonnegative integers or None'')
      else if st_start_ns t = VNone then
        guard (st_duration_ns t \<noteq> VNone)
          (ValueError ''simulation duration does not match start and end'')
      else
        (let expected = int_value (st_end_ns t) - int_value (st_start_ns t) in
         if expected < 0 then Inl (ValueError ''simulation end must not precede start'')
         else guard (num_value (st_duration_ns t) \<noteq> Some (of_int expected))
           (ValueError ''simulation duration does not match start and end'')))"

text \<open>\<open>timedelta.total_seconds\<close>: the microseconds divided by a million, correctly rounded.\<close>

definition total_seconds :: "int \<Rightarrow> pyfloat" where
  "total_seconds us = round64 (of_int us / 1000000)"

definition validate_wall :: "wall_timing \<Rightarrow> unit result" where
  "validate_wall w =
     (case (wt_started_at w, wt_ended_at w) of
        (Aware a, Aware b) \<Rightarrow>
          if \<not> isfinite (total_seconds (b - a)) \<or> b - a < 0 then
            Inl (ValueError ''wall end must not precede start'')
          else if \<not> is_number (wt_duration_seconds w) then
            Inl (ValueError ''wall duration must be finite, nonnegative, and match timestamps'')
          else rbind (py_isfinite (wt_duration_seconds w)) (\<lambda>fin.
            guard (\<not> fin \<or> num_value (wt_duration_seconds w) \<noteq> num_value (VFloat (total_seconds (b - a))))
              (ValueError ''wall duration must be finite, nonnegative, and match timestamps''))
      | _ \<Rightarrow> Inl (ValueError ''wall timestamps must be timezone-aware datetimes''))"

definition validate_timing :: "simulation_timing \<Rightarrow> wall_timing \<Rightarrow> unit result" where
  "validate_timing simulation wall = rbind (validate_simulation simulation) (\<lambda>_. validate_wall wall)"

section \<open>validate\_manifest\<close>

text \<open>A nonempty string.\<close>

fun nonempty_str :: "pyval \<Rightarrow> bool" where
  "nonempty_str (VStr s) = (s \<noteq> [])"
| "nonempty_str _ = False"

fun check_sources :: "deadline \<Rightarrow> pyval list \<Rightarrow> source_revision list \<Rightarrow> unit timed" where
  "check_sources dl names [] = treturn (Inr ())"
| "check_sources dl names (x # xs) =
     tbind (check_deadline dl) (\<lambda>_.
     tbind (tguard (\<not> nonempty_str (sv_name x) \<or> \<not> nonempty_str (sv_revision x)
              \<or> strict_bool (sv_dirty x) = None)
         (ValueError ''source revisions require a name, revision, and dirty flag'')) (\<lambda>_.
     tbind (tguard (sv_name x \<in> set names)
         (ValueError ''source revision names must be unique'')) (\<lambda>_.
       check_sources dl (sv_name x # names) xs)))"

fun check_images :: "deadline \<Rightarrow> pyval list \<Rightarrow> image_digest list \<Rightarrow> unit timed" where
  "check_images dl names [] = treturn (Inr ())"
| "check_images dl names (x # xs) =
     tbind (check_deadline dl) (\<lambda>_.
     tbind (tguard (\<not> nonempty_str (im_name x))
         (ValueError ''image digest names must be nonempty'')) (\<lambda>_.
     tbind (tguard (im_name x \<in> set names)
         (ValueError ''image digest names must be unique'')) (\<lambda>_.
     tbind (treturn (require_digest ''image digest'' (im_digest x) False)) (\<lambda>_.
       check_images dl (im_name x # names) xs))))"

fun check_configurations :: "deadline \<Rightarrow> pyval list \<Rightarrow> configuration_record list \<Rightarrow> unit timed" where
  "check_configurations dl paths [] = treturn (Inr ())"
| "check_configurations dl paths (x # xs) =
     tbind (check_deadline dl) (\<lambda>_.
     tbind (treturn (require_relative_path ''configuration path'' (cf_relative_path x))) (\<lambda>_.
     tbind (tguard (cf_relative_path x \<in> set paths)
         (ValueError ''configuration paths must be unique'')) (\<lambda>_.
     tbind (treturn (require_digest ''configuration sha256'' (cf_sha256 x) False)) (\<lambda>_.
       check_configurations dl (cf_relative_path x # paths) xs))))"

definition artifact_content :: "artifact_record \<Rightarrow> unit result" where
  "artifact_content x =
     (if \<not> hashable (af_validation x) then Inl (TypeError ''unhashable type'')
      else if af_validation x \<notin> VStr ` validation_value ` {VALID, MISSING, INVALID} then
        Inl (ValueError ''artifact validation must be valid, missing, or invalid'')
      else if \<not> nonempty_str (af_detail x) then Inl (ValueError ''artifact detail must be nonempty'')
      else if af_validation x = VStr (validation_value VALID) then
        (if \<not> nonneg_int (af_size_bytes x) then
           Inl (ValueError ''valid artifacts require a nonnegative size'')
         else require_digest ''artifact sha256'' (af_sha256 x) False)
      else guard (af_size_bytes x \<noteq> VNone \<or> af_sha256 x \<noteq> VNone)
        (ValueError ''missing and invalid artifacts cannot carry size or sha256''))"

fun check_artifacts :: "deadline \<Rightarrow> pyval list \<Rightarrow> artifact_record list \<Rightarrow> unit timed" where
  "check_artifacts dl paths [] = treturn (Inr ())"
| "check_artifacts dl paths (x # xs) =
     tbind (check_deadline dl) (\<lambda>_.
     tbind (treturn (require_relative_path ''artifact path'' (af_relative_path x))) (\<lambda>_.
     tbind (tguard (af_relative_path x \<in> set paths)
         (ValueError ''artifact paths must be unique'')) (\<lambda>_.
     tbind (treturn (artifact_content x)) (\<lambda>_.
       check_artifacts dl (af_relative_path x # paths) xs))))"

fun check_incomplete :: "deadline \<Rightarrow> string list \<Rightarrow> unit timed" where
  "check_incomplete dl [] = treturn (Inr ())"
| "check_incomplete dl (p # ps) =
     tbind (check_deadline dl) (\<lambda>_.
     tbind (tguard (\<not> is_manifest_relative_path (VStr p) \<or> p \<notin> set REQUIRED_ARTIFACT_PATHS)
         (ValueError ''incomplete_paths must name required artifact paths'')) (\<lambda>_.
       check_incomplete dl ps))"

fun check_evidence :: "deadline \<Rightarrow> string list \<Rightarrow> unit timed" where
  "check_evidence dl [] = treturn (Inr ())"
| "check_evidence dl (p # ps) =
     tbind (check_deadline dl) (\<lambda>_.
     tbind (treturn (require_relative_path ''evidence path''
         (VStr (hd (split_on (CHR ''#'') p))))) (\<lambda>_.
       check_evidence dl ps))"

text \<open>The last record of a required path; paths are unique when this is reached.\<close>

definition required_record :: "artifact_record list \<Rightarrow> string \<Rightarrow> artifact_record option" where
  "required_record artifacts path = map_of (map (\<lambda>x. (af_relative_path x, x)) (rev artifacts)) (VStr path)"

definition expected_incomplete :: "artifact_record list \<Rightarrow> string list" where
  "expected_incomplete artifacts =
     filter (\<lambda>path. map_option af_validation (required_record artifacts path)
               \<noteq> Some (VStr (validation_value VALID))) REQUIRED_ARTIFACT_PATHS"

definition metadata_checks :: "run_manifest \<Rightarrow> unit result" where
  "metadata_checks m =
     (if num_value (rm_schema_version m) \<noteq> Some 1 then Inl (ValueError ''schema_version must be 1'')
      else if \<not> nonempty_str (rm_manifest_run_id m) then Inl (ValueError ''run_id must be nonempty'')
      else if strict_str (rm_reason m) = None then Inl (ValueError ''reason must be a string'')
      else if \<not> hashable (rm_terminal_status m) then Inl (TypeError ''unhashable type'')
      else if rm_terminal_status m \<notin> VStr ` set TERMINAL_STATUSES then
        Inl (ValueError ''terminal_status must be one of ['ABORTED', 'COMPLETED', 'FAILED']'')
      else rbind (validate_timing (rm_simulation_timing m) (rm_wall_timing m)) (\<lambda>_.
        rbind (require_finite_score ''achieved_score'' (rm_achieved_score m)) (\<lambda>_.
        rbind (require_finite_score ''maximum_available_score'' (rm_maximum_available_score m)) (\<lambda>_.
          require_digest ''scoring_checksum'' (rm_scoring_checksum m) True))))"

definition inventory_checks :: "run_manifest \<Rightarrow> unit result" where
  "inventory_checks m =
     (if \<not> list_all (\<lambda>path. required_record (rm_artifacts m) path \<noteq> None) REQUIRED_ARTIFACT_PATHS then
        Inl (ValueError ''artifacts must contain every required artifact path'')
      else if rm_incomplete_paths m \<noteq> expected_incomplete (rm_artifacts m) then
        Inl (ValueError ''incomplete_paths must exactly match non-valid required artifacts'')
      else if rm_terminal_status m = VStr ''COMPLETED'' \<and> rm_incomplete_paths m \<noteq> [] then
        Inl (ValueError ''COMPLETED manifests require every required artifact to be valid'')
      else guard (\<not> distinct (rm_evidence_paths m)) (ValueError ''evidence paths must be unique''))"

definition validate_manifest :: "deadline \<Rightarrow> run_manifest \<Rightarrow> unit timed" where
  "validate_manifest dl m =
     tbind (check_deadline dl) (\<lambda>_.
     tbind (treturn (metadata_checks m)) (\<lambda>_.
     tbind (check_sources dl [] (rm_source_revisions m)) (\<lambda>_.
     tbind (check_images dl [] (rm_image_digests m)) (\<lambda>_.
     tbind (check_configurations dl [] (rm_configurations m)) (\<lambda>_.
     tbind (check_artifacts dl [] (rm_artifacts m)) (\<lambda>_.
     tbind (tguard (\<not> distinct (rm_incomplete_paths m))
         (ValueError ''incomplete_paths must be unique'')) (\<lambda>_.
     tbind (check_incomplete dl (rm_incomplete_paths m)) (\<lambda>_.
     tbind (treturn (inventory_checks m)) (\<lambda>_.
     tbind (check_evidence dl (rm_evidence_paths m)) (\<lambda>_.
       check_deadline dl))))))))))"

section \<open>Exactness of validate\_manifest\<close>

text \<open>The checks numbered \<open>n\<close> to \<open>n + k - 1\<close> all pass.\<close>

definition quiet :: "deadline \<Rightarrow> nat \<Rightarrow> nat \<Rightarrow> bool" where
  "quiet dl n k = list_all (\<lambda>i. dl i = None) [n..<n + k]"

lemma quiet_0 [simp]: "quiet dl n 0"
  by (simp add: quiet_def)

lemma quiet_Suc: "quiet dl n (Suc k) \<longleftrightarrow> dl n = None \<and> quiet dl (Suc n) k"
  by (simp add: quiet_def upt_conv_Cons del: upt_Suc)

lemma quiet_add: "quiet dl n (k + l) \<longleftrightarrow> quiet dl n k \<and> quiet dl (n + k) l"
  by (induction k arbitrary: n) (auto simp: quiet_Suc)

lemma quiet_no_deadline [simp]: "quiet no_deadline n k"
  by (simp add: quiet_def no_deadline_def list_all_iff)

lemma tbind_eq_Inr [simp]:
  "tbind m f n = (Inr y, n'') \<longleftrightarrow> (\<exists>x n'. m n = (Inr x, n') \<and> f x n' = (Inr y, n''))"
  by (auto simp: tbind_def split: prod.splits sum.splits)

lemma check_deadline_eq_Inr [simp]:
  "check_deadline dl n = (Inr u, n') \<longleftrightarrow> dl n = None \<and> n' = Suc n"
  by (auto simp: check_deadline_def split: option.splits)

text \<open>A well-formed entry of each list of the manifest.\<close>

definition source_ok :: "source_revision \<Rightarrow> bool" where
  "source_ok x \<longleftrightarrow> nonempty_str (sv_name x) \<and> nonempty_str (sv_revision x)
     \<and> strict_bool (sv_dirty x) \<noteq> None"

definition image_ok :: "image_digest \<Rightarrow> bool" where
  "image_ok x \<longleftrightarrow> nonempty_str (im_name x) \<and> lowercase_digest (im_digest x)"

definition configuration_ok :: "configuration_record \<Rightarrow> bool" where
  "configuration_ok x \<longleftrightarrow> is_manifest_relative_path (cf_relative_path x) \<and> lowercase_digest (cf_sha256 x)"

definition artifact_valid :: "artifact_record \<Rightarrow> bool" where
  "artifact_valid x \<longleftrightarrow> af_validation x = VStr ''valid'' \<and> nonneg_int (af_size_bytes x)
     \<and> lowercase_digest (af_sha256 x)"

definition artifact_absent :: "artifact_record \<Rightarrow> bool" where
  "artifact_absent x \<longleftrightarrow> af_validation x \<in> {VStr ''missing'', VStr ''invalid''}
     \<and> af_size_bytes x = VNone \<and> af_sha256 x = VNone"

definition artifact_ok :: "artifact_record \<Rightarrow> bool" where
  "artifact_ok x \<longleftrightarrow> is_manifest_relative_path (af_relative_path x) \<and> nonempty_str (af_detail x)
     \<and> (artifact_valid x \<or> artifact_absent x)"

lemma require_digest_ok: "require_digest field v opt = Inr u \<longleftrightarrow> opt \<and> v = VNone \<or> lowercase_digest v"
  by (auto simp: require_digest_def)

lemma require_relative_path_ok:
  "require_relative_path field v = Inr u \<longleftrightarrow> is_manifest_relative_path v"
  by (simp add: require_relative_path_def)

lemma artifact_content_ok:
  "artifact_content x = Inr u \<longleftrightarrow> nonempty_str (af_detail x) \<and> (artifact_valid x \<or> artifact_absent x)"
  by (auto simp: artifact_content_def artifact_valid_def artifact_absent_def require_digest_ok)

lemma check_sources_eq_Inr:
  "check_sources dl names xs n = (Inr u, n') \<longleftrightarrow>
     list_all source_ok xs \<and> distinct (map sv_name xs) \<and> sv_name ` set xs \<inter> set names = {}
     \<and> quiet dl n (length xs) \<and> n' = n + length xs"
  by (induction xs arbitrary: names n) (auto simp: quiet_Suc source_ok_def)

lemma check_images_eq_Inr:
  "check_images dl names xs n = (Inr u, n') \<longleftrightarrow>
     list_all image_ok xs \<and> distinct (map im_name xs) \<and> im_name ` set xs \<inter> set names = {}
     \<and> quiet dl n (length xs) \<and> n' = n + length xs"
  by (induction xs arbitrary: names n) (auto simp: quiet_Suc image_ok_def require_digest_ok)

lemma check_configurations_eq_Inr:
  "check_configurations dl paths xs n = (Inr u, n') \<longleftrightarrow>
     list_all configuration_ok xs \<and> distinct (map cf_relative_path xs)
     \<and> cf_relative_path ` set xs \<inter> set paths = {} \<and> quiet dl n (length xs) \<and> n' = n + length xs"
  by (induction xs arbitrary: paths n)
     (auto simp: quiet_Suc configuration_ok_def require_digest_ok require_relative_path_ok)

lemma check_artifacts_eq_Inr:
  "check_artifacts dl paths xs n = (Inr u, n') \<longleftrightarrow>
     list_all artifact_ok xs \<and> distinct (map af_relative_path xs)
     \<and> af_relative_path ` set xs \<inter> set paths = {} \<and> quiet dl n (length xs) \<and> n' = n + length xs"
  by (induction xs arbitrary: paths n)
     (auto simp: quiet_Suc artifact_ok_def artifact_content_ok require_relative_path_ok)

lemma check_incomplete_eq_Inr:
  "check_incomplete dl ps n = (Inr u, n') \<longleftrightarrow>
     list_all (\<lambda>p. is_manifest_relative_path (VStr p) \<and> p \<in> set REQUIRED_ARTIFACT_PATHS) ps
     \<and> quiet dl n (length ps) \<and> n' = n + length ps"
  by (induction ps arbitrary: n) (auto simp: quiet_Suc)

lemma check_evidence_eq_Inr:
  "check_evidence dl ps n = (Inr u, n') \<longleftrightarrow>
     list_all (\<lambda>p. is_manifest_relative_path (VStr (hd (split_on (CHR ''#'') p)))) ps
     \<and> quiet dl n (length ps) \<and> n' = n + length ps"
  by (induction ps arbitrary: n) (auto simp: quiet_Suc require_relative_path_ok)

text \<open>What each remaining group of checks accepts, without the order in which they run.\<close>

definition score_ok :: "pyval \<Rightarrow> bool" where
  "score_ok v \<longleftrightarrow> v = VNone \<or> is_number v \<and> py_isfinite v = Inr True"

definition simulation_ok :: "simulation_timing \<Rightarrow> bool" where
  "simulation_ok t \<longleftrightarrow>
     st_start_ns t = VNone \<and> st_end_ns t = VNone \<and> st_duration_ns t = VNone
     \<or> (\<exists>a b. st_start_ns t = VInt a \<and> st_end_ns t = VInt b \<and> 0 \<le> a \<and> a \<le> b
          \<and> num_value (st_duration_ns t) = Some (of_int (b - a)))"

definition wall_ok :: "wall_timing \<Rightarrow> bool" where
  "wall_ok w \<longleftrightarrow>
     (\<exists>a b. wt_started_at w = Aware a \<and> wt_ended_at w = Aware b \<and> a \<le> b
        \<and> isfinite (total_seconds (b - a)) \<and> is_number (wt_duration_seconds w)
        \<and> py_isfinite (wt_duration_seconds w) = Inr True
        \<and> num_value (wt_duration_seconds w) = num_value (VFloat (total_seconds (b - a))))"

definition recorded_valid :: "artifact_record list \<Rightarrow> string \<Rightarrow> bool" where
  "recorded_valid artifacts path \<longleftrightarrow> (\<exists>x\<in>set artifacts. af_relative_path x = VStr path \<and> artifact_valid x)"

definition manifest_ok :: "run_manifest \<Rightarrow> bool" where
  "manifest_ok m \<longleftrightarrow>
     num_value (rm_schema_version m) = Some 1
     \<and> nonempty_str (rm_manifest_run_id m)
     \<and> strict_str (rm_reason m) \<noteq> None
     \<and> rm_terminal_status m \<in> {VStr ''ABORTED'', VStr ''COMPLETED'', VStr ''FAILED''}
     \<and> simulation_ok (rm_simulation_timing m) \<and> wall_ok (rm_wall_timing m)
     \<and> score_ok (rm_achieved_score m) \<and> score_ok (rm_maximum_available_score m)
     \<and> (rm_scoring_checksum m = VNone \<or> lowercase_digest (rm_scoring_checksum m))
     \<and> list_all source_ok (rm_source_revisions m) \<and> distinct (map sv_name (rm_source_revisions m))
     \<and> list_all image_ok (rm_image_digests m) \<and> distinct (map im_name (rm_image_digests m))
     \<and> list_all configuration_ok (rm_configurations m)
     \<and> distinct (map cf_relative_path (rm_configurations m))
     \<and> list_all artifact_ok (rm_artifacts m) \<and> distinct (map af_relative_path (rm_artifacts m))
     \<and> VStr ` set REQUIRED_ARTIFACT_PATHS \<subseteq> af_relative_path ` set (rm_artifacts m)
     \<and> rm_incomplete_paths m = filter (\<lambda>p. \<not> recorded_valid (rm_artifacts m) p) REQUIRED_ARTIFACT_PATHS
     \<and> \<not> (rm_terminal_status m = VStr ''COMPLETED'' \<and> rm_incomplete_paths m \<noteq> [])
     \<and> distinct (rm_evidence_paths m)
     \<and> list_all (\<lambda>p. is_manifest_relative_path (VStr (hd (split_on (CHR ''#'') p)))) (rm_evidence_paths m)"

lemma require_finite_score_ok: "require_finite_score field v = Inr u \<longleftrightarrow> score_ok v"
  by (auto simp: require_finite_score_def score_ok_def)

lemma nonneg_int_iff: "nonneg_int v \<longleftrightarrow> (\<exists>i. v = VInt i \<and> 0 \<le> i)"
  by (cases v) auto

lemma validate_simulation_ok: "validate_simulation t = Inr u \<longleftrightarrow> simulation_ok t"
  by (auto simp: validate_simulation_def simulation_ok_def nonneg_int_iff Let_def)

lemma validate_wall_ok: "validate_wall w = Inr u \<longleftrightarrow> wall_ok w"
  by (auto simp: validate_wall_def wall_ok_def split: wall_stamp.splits)

lemma required_record_Some:
  assumes "distinct (map af_relative_path artifacts)"
  shows "required_record artifacts path = Some x \<longleftrightarrow> x \<in> set artifacts \<and> af_relative_path x = VStr path"
proof -
  let ?kv = "map (\<lambda>x. (af_relative_path x, x)) (rev artifacts)"
  have "distinct (map fst ?kv)"
    using assms by (simp add: comp_def rev_map [symmetric])
  then show ?thesis
    unfolding required_record_def by (simp add: map_of_eq_Some_iff) (auto simp: image_iff)
qed

lemma required_record_None:
  "required_record artifacts path = None \<longleftrightarrow> VStr path \<notin> af_relative_path ` set artifacts"
  by (auto simp: required_record_def map_of_eq_None_iff image_image)

lemma expected_incomplete_ok:
  assumes "distinct (map af_relative_path artifacts)" "list_all artifact_ok artifacts"
  shows "expected_incomplete artifacts = filter (\<lambda>p. \<not> recorded_valid artifacts p) REQUIRED_ARTIFACT_PATHS"
proof -
  have "map_option af_validation (required_record artifacts p) \<noteq> Some (VStr (validation_value VALID))
          \<longleftrightarrow> \<not> recorded_valid artifacts p" for p
    using assms(2)
    by (auto simp: required_record_Some [OF assms(1)] recorded_valid_def list_all_iff artifact_ok_def
        artifact_valid_def artifact_absent_def)
  then show ?thesis
    by (simp add: expected_incomplete_def)
qed

lemma metadata_checks_ok:
  "metadata_checks m = Inr u \<longleftrightarrow>
     num_value (rm_schema_version m) = Some 1 \<and> nonempty_str (rm_manifest_run_id m)
     \<and> strict_str (rm_reason m) \<noteq> None
     \<and> rm_terminal_status m \<in> {VStr ''ABORTED'', VStr ''COMPLETED'', VStr ''FAILED''}
     \<and> simulation_ok (rm_simulation_timing m) \<and> wall_ok (rm_wall_timing m)
     \<and> score_ok (rm_achieved_score m) \<and> score_ok (rm_maximum_available_score m)
     \<and> (rm_scoring_checksum m = VNone \<or> lowercase_digest (rm_scoring_checksum m))"
  by (auto simp: metadata_checks_def TERMINAL_STATUSES_def validate_timing_def validate_simulation_ok
      validate_wall_ok require_finite_score_ok require_digest_ok)

lemma inventory_checks_ok:
  assumes "distinct (map af_relative_path (rm_artifacts m))" "list_all artifact_ok (rm_artifacts m)"
  shows "inventory_checks m = Inr u \<longleftrightarrow>
     VStr ` set REQUIRED_ARTIFACT_PATHS \<subseteq> af_relative_path ` set (rm_artifacts m)
     \<and> rm_incomplete_paths m = filter (\<lambda>p. \<not> recorded_valid (rm_artifacts m) p) REQUIRED_ARTIFACT_PATHS
     \<and> \<not> (rm_terminal_status m = VStr ''COMPLETED'' \<and> rm_incomplete_paths m \<noteq> [])
     \<and> distinct (rm_evidence_paths m)"
  by (auto simp: inventory_checks_def expected_incomplete_ok [OF assms] required_record_None list_all_iff)

lemma required_paths_ok:
  "distinct REQUIRED_ARTIFACT_PATHS"
  "list_all (\<lambda>p. is_manifest_relative_path (VStr p)) REQUIRED_ARTIFACT_PATHS"
  by (simp_all add: REQUIRED_ARTIFACT_PATHS_def MODULE_LOGS_def posix_parts_def)

text \<open>The number of deadline checks a successful validation makes.\<close>

definition validation_checks :: "run_manifest \<Rightarrow> nat" where
  "validation_checks m =
     Suc (length (rm_source_revisions m) + (length (rm_image_digests m)
       + (length (rm_configurations m) + (length (rm_artifacts m)
       + (length (rm_incomplete_paths m) + (length (rm_evidence_paths m) + 1))))))"

lemma validate_manifest_eq_Inr:
  "validate_manifest dl m n = (Inr u, n') \<longleftrightarrow>
     manifest_ok m \<and> quiet dl n (validation_checks m) \<and> n' = n + validation_checks m"
proof (cases "distinct (map af_relative_path (rm_artifacts m)) \<and> list_all artifact_ok (rm_artifacts m)")
  case True
  let ?inc = "filter (\<lambda>p. \<not> recorded_valid (rm_artifacts m) p) REQUIRED_ARTIFACT_PATHS"
  have inc: "distinct ?inc" "list_all (\<lambda>p. is_manifest_relative_path (VStr p)
      \<and> p \<in> set REQUIRED_ARTIFACT_PATHS) ?inc"
    using required_paths_ok by (auto simp: list_all_iff)
  have art: "distinct (map af_relative_path (rm_artifacts m))" "list_all artifact_ok (rm_artifacts m)"
    using True by simp_all
  show ?thesis
    unfolding validate_manifest_def validation_checks_def manifest_ok_def quiet_Suc quiet_add
    using art inc
    by (simp add: metadata_checks_ok check_sources_eq_Inr check_images_eq_Inr
        check_configurations_eq_Inr check_artifacts_eq_Inr check_incomplete_eq_Inr
        check_evidence_eq_Inr inventory_checks_ok [OF art]) (auto simp: quiet_Suc)
next
  case False
  then show ?thesis
    by (auto simp: validate_manifest_def manifest_ok_def check_artifacts_eq_Inr)
qed

text \<open>
  C12. \<open>validate_manifest\<close> accepts exactly the well-formed manifests: the metadata, timing and
  scores are well typed and consistent, the lists have well-formed entries with distinct keys,
  every required artifact is recorded, the incomplete paths are exactly the required artifacts
  not recorded as valid, and a \<open>COMPLETED\<close> run has none. It returns only if none of its
  \<open>validation_checks\<close> deadline checks raises.
\<close>

theorem validate_manifest_exact:
  "fst (validate_manifest dl m n) = Inr () \<longleftrightarrow> manifest_ok m \<and> quiet dl n (validation_checks m)"
proof -
  have "fst (validate_manifest dl m n) = Inr () \<longleftrightarrow> (\<exists>n'. validate_manifest dl m n = (Inr (), n'))"
    by (metis fst_conv prod.exhaust_sel)
  then show ?thesis
    by (simp add: validate_manifest_eq_Inr)
qed

end
