(* ===== verification/Py_IO.thy ===== *)
theory Py_IO
  imports Py_Prelude
begin

text \<open>
  Statements of the sources that act on a shared state and may raise: sequencing,
  \<open>try\<close>/\<open>except\<close>, \<open>try\<close>/\<open>finally\<close>, and weakest preconditions over them, with one
  postcondition for the normal and one for the exceptional outcome.
\<close>

section \<open>Statements\<close>

type_synonym ('s, 'a) io = "'s \<Rightarrow> 'a result \<times> 's"

definition ireturn :: "'a \<Rightarrow> ('s, 'a) io" where
  "ireturn x = (\<lambda>s. (Inr x, s))"

definition iraise :: "exn \<Rightarrow> ('s, 'a) io" where
  "iraise e = (\<lambda>s. (Inl e, s))"

definition ibind :: "('s, 'a) io \<Rightarrow> ('a \<Rightarrow> ('s, 'b) io) \<Rightarrow> ('s, 'b) io" where
  "ibind m f = (\<lambda>s. case m s of (Inl e, s') \<Rightarrow> (Inl e, s') | (Inr x, s') \<Rightarrow> f x s')"

definition imodify :: "('s \<Rightarrow> 's) \<Rightarrow> ('s, unit) io" where
  "imodify f = (\<lambda>s. (Inr (), f s))"

definition iget :: "('s \<Rightarrow> 'a) \<Rightarrow> ('s, 'a) io" where
  "iget f = (\<lambda>s. (Inr (f s), s))"

text \<open>A computation that touches no state.\<close>

definition ilift :: "'a result \<Rightarrow> ('s, 'a) io" where
  "ilift r = (\<lambda>s. (r, s))"

text \<open>\<open>try: m except: h\<close>; a handler that does not match raises its argument again.\<close>

definition icatch :: "('s, 'a) io \<Rightarrow> (exn \<Rightarrow> ('s, 'a) io) \<Rightarrow> ('s, 'a) io" where
  "icatch m h = (\<lambda>s. case m s of (Inl e, s') \<Rightarrow> h e s' | (Inr x, s') \<Rightarrow> (Inr x, s'))"

text \<open>\<open>try: m finally: c\<close>: an exception of \<open>c\<close> replaces the outcome of \<open>m\<close>.\<close>

definition ifinally :: "('s, 'a) io \<Rightarrow> ('s, unit) io \<Rightarrow> ('s, 'a) io" where
  "ifinally m c = (\<lambda>s. case m s of (r, s') \<Rightarrow>
     (case c s' of (Inl e, s'') \<Rightarrow> (Inl e, s'') | (Inr _, s'') \<Rightarrow> (r, s'')))"

lemma io_simps [simp]:
  "ireturn x s = (Inr x, s)"
  "iraise e s = (Inl e, s)"
  "imodify g s = (Inr (), g s)"
  "iget h s = (Inr (h s), s)"
  "ilift r s = (r, s)"
  by (simp_all add: ireturn_def iraise_def imodify_def iget_def ilift_def)

lemma ibind_simps [simp]:
  "m s = (Inr x, s') \<Longrightarrow> ibind m f s = f x s'"
  "m s = (Inl e, s') \<Longrightarrow> ibind m f s = (Inl e, s')"
  by (simp_all add: ibind_def)

lemma ibind_eq_Inr [simp]:
  "ibind m f s = (Inr y, t) \<longleftrightarrow> (\<exists>x s'. m s = (Inr x, s') \<and> f x s' = (Inr y, t))"
  by (auto simp: ibind_def split: prod.splits sum.splits)

lemma icatch_simps [simp]:
  "m s = (Inr x, s') \<Longrightarrow> icatch m h s = (Inr x, s')"
  "m s = (Inl e, s') \<Longrightarrow> icatch m h s = h e s'"
  by (simp_all add: icatch_def)

lemma ifinally_simps [simp]:
  "m s = (r, s') \<Longrightarrow> c s' = (Inr (), s'') \<Longrightarrow> ifinally m c s = (r, s'')"
  "m s = (r, s') \<Longrightarrow> c s' = (Inl e, s'') \<Longrightarrow> ifinally m c s = (Inl e, s'')"
  by (simp_all add: ifinally_def)

section \<open>Weakest preconditions\<close>

text \<open>
  \<open>wp m Q E s\<close>: started in \<open>s\<close>, \<open>m\<close> either returns a value and a state with \<open>Q\<close> or
  raises an exception in a state with \<open>E\<close>. The equations compute it for each statement.
\<close>

definition wp :: "('s, 'a) io \<Rightarrow> ('a \<Rightarrow> 's \<Rightarrow> bool) \<Rightarrow> (exn \<Rightarrow> 's \<Rightarrow> bool) \<Rightarrow> 's \<Rightarrow> bool" where
  "wp m Q E s = (case m s of (Inr x, s') \<Rightarrow> Q x s' | (Inl e, s') \<Rightarrow> E e s')"

lemma wp_ireturn [simp]: "wp (ireturn x) Q E = Q x"
  by (simp add: wp_def fun_eq_iff)

lemma wp_ilift [simp]: "wp (ilift r) Q E = (case r of Inl e \<Rightarrow> E e | Inr x \<Rightarrow> Q x)"
  by (simp add: wp_def ilift_def fun_eq_iff split: sum.splits)

lemma wp_iraise [simp]: "wp (iraise e) Q E = E e"
  by (simp add: wp_def fun_eq_iff)

lemma wp_imodify [simp]: "wp (imodify f) Q E = (\<lambda>s. Q () (f s))"
  by (simp add: wp_def fun_eq_iff)

lemma wp_iget [simp]: "wp (iget g) Q E = (\<lambda>s. Q (g s) s)"
  by (simp add: wp_def fun_eq_iff)

lemma wp_ibind [simp]: "wp (ibind m f) Q E = wp m (\<lambda>x. wp (f x) Q E) E"
  by (simp add: wp_def ibind_def fun_eq_iff split: prod.splits sum.splits)

lemma wp_icatch [simp]: "wp (icatch m h) Q E = wp m Q (\<lambda>e. wp (h e) Q E)"
  by (simp add: wp_def icatch_def fun_eq_iff split: prod.splits sum.splits)

lemma wp_ifinally [simp]:
  "wp (ifinally m c) Q E = wp m (\<lambda>x. wp c (\<lambda>_. Q x) E) (\<lambda>e. wp c (\<lambda>_. E e) E)"
  by (simp add: wp_def ifinally_def fun_eq_iff split: prod.splits sum.splits)

lemma wp_if [simp]: "wp (if b then m else n) Q E = (if b then wp m Q E else wp n Q E)"
  by simp

lemma wp_mono:
  "wp m Q E s \<Longrightarrow> (\<And>x t. Q x t \<Longrightarrow> Q' x t) \<Longrightarrow> (\<And>e t. E e t \<Longrightarrow> E' e t) \<Longrightarrow> wp m Q' E' s"
  by (auto simp: wp_def split: prod.splits sum.splits)

lemma wp_conj:
  "wp m Q E s \<Longrightarrow> wp m Q' E' s \<Longrightarrow> wp m (\<lambda>x t. Q x t \<and> Q' x t) (\<lambda>e t. E e t \<and> E' e t) s"
  by (auto simp: wp_def split: prod.splits sum.splits)

lemma wpI:
  "(\<And>x t. m s = (Inr x, t) \<Longrightarrow> Q x t) \<Longrightarrow> (\<And>e t. m s = (Inl e, t) \<Longrightarrow> E e t) \<Longrightarrow> wp m Q E s"
  by (auto simp: wp_def split: prod.splits sum.splits)

lemma wpD:
  "wp m Q E s \<Longrightarrow> m s = (Inr x, t) \<Longrightarrow> Q x t"
  "wp m Q E s \<Longrightarrow> m s = (Inl e, t) \<Longrightarrow> E e t"
  by (auto simp: wp_def)

text \<open>A normal outcome: every exceptional one is excluded.\<close>

lemma wp_returns:
  assumes "wp m Q (\<lambda>_ _. False) s"
  obtains x t where "m s = (Inr x, t)" "Q x t"
  using assms by (auto simp: wp_def split: prod.splits sum.splits)

end
