(* ===== verification/Manifest_Commit.thy ===== *)
theory Manifest_Commit
  imports Manifest Py_IO
begin

text \<open>
  The durable commit of \<open>manifest.json\<close>: \<open>canonical_manifest_bytes\<close>,
  \<open>write_manifest_atomic\<close> and \<open>_read_existing_manifest\<close> of \<open>artifacts/manifest.py\<close>.

  The run directory is the file \<open>manifest.json\<close> and the temporary file of the call. Every
  deadline check and system call is a boundary, numbered by \<open>cw_clock\<close>; the environment
  says which boundary raises what, how many bytes a read or write transfers, and whether
  the hard link is followed by an exception although it was made. Once \<open>manifest.json\<close>
  exists only this code touches it. The text that \<open>json\<close> and \<open>datetime.isoformat\<close> give
  is a parameter.
\<close>

section \<open>Canonical bytes\<close>

definition str_dict :: "(string \<times> pyval) list \<Rightarrow> pyval" where
  "str_dict d = VDict (map (map_prod VStr id) d)"

definition source_to_dict :: "source_revision \<Rightarrow> pyval" where
  "source_to_dict x = str_dict [(''name'', sv_name x), (''revision'', sv_revision x), (''dirty'', sv_dirty x)]"

definition image_to_dict :: "image_digest \<Rightarrow> pyval" where
  "image_to_dict x = str_dict [(''name'', im_name x), (''digest'', im_digest x)]"

definition configuration_to_dict :: "configuration_record \<Rightarrow> pyval" where
  "configuration_to_dict x =
     str_dict [(''relative_path'', cf_relative_path x), (''sha256'', cf_sha256 x)]"

definition simulation_to_dict :: "simulation_timing \<Rightarrow> pyval" where
  "simulation_to_dict x = str_dict [(''start_ns'', st_start_ns x), (''end_ns'', st_end_ns x),
     (''duration_ns'', st_duration_ns x)]"

definition wall_to_dict :: "(wall_stamp \<Rightarrow> string) \<Rightarrow> wall_timing \<Rightarrow> pyval" where
  "wall_to_dict isoformat x = str_dict [(''started_at'', VStr (isoformat (wt_started_at x))),
     (''ended_at'', VStr (isoformat (wt_ended_at x))), (''duration_seconds'', wt_duration_seconds x)]"

definition artifact_to_dict :: "artifact_record \<Rightarrow> pyval" where
  "artifact_to_dict x = str_dict [(''relative_path'', af_relative_path x),
     (''size_bytes'', af_size_bytes x), (''sha256'', af_sha256 x), (''validation'', af_validation x),
     (''detail'', af_detail x)]"

definition manifest_to_dict :: "(wall_stamp \<Rightarrow> string) \<Rightarrow> run_manifest \<Rightarrow> pyval" where
  "manifest_to_dict isoformat m = str_dict
     [(''schema_version'', rm_schema_version m), (''run_id'', rm_manifest_run_id m),
      (''terminal_status'', rm_terminal_status m), (''reason'', rm_reason m),
      (''simulation_timing'', simulation_to_dict (rm_simulation_timing m)),
      (''wall_timing'', wall_to_dict isoformat (rm_wall_timing m)),
      (''source_revisions'', VList (map source_to_dict (rm_source_revisions m))),
      (''image_digests'', VList (map image_to_dict (rm_image_digests m))),
      (''configurations'', VList (map configuration_to_dict (rm_configurations m))),
      (''artifacts'', VList (map artifact_to_dict (rm_artifacts m))),
      (''incomplete_paths'', VList (map VStr (rm_incomplete_paths m))),
      (''scoring'', str_dict
         [(''achieved_score'', rm_achieved_score m),
          (''maximum_available_score'', rm_maximum_available_score m),
          (''scoring_checksum'', rm_scoring_checksum m),
          (''evidence_paths'', VList (map VStr (rm_evidence_paths m)))])]"

text \<open>How the parameters turn a manifest into the pieces of its JSON text.\<close>

record json_codec =
  js_isoformat :: "wall_stamp \<Rightarrow> string"
  js_iterencode :: "pyval \<Rightarrow> string list"

fun encode_chunks :: "deadline \<Rightarrow> string list \<Rightarrow> string timed" where
  "encode_chunks dl [] = treturn (Inr [])"
| "encode_chunks dl (c # cs) =
     tbind (check_deadline dl) (\<lambda>_.
     tbind (encode_chunks dl cs) (\<lambda>rest. treturn (Inr (utf8_encode c @ rest))))"

definition manifest_chunks :: "json_codec \<Rightarrow> run_manifest \<Rightarrow> string list" where
  "manifest_chunks J m = js_iterencode J (manifest_to_dict (js_isoformat J) m)"

definition canonical_manifest_bytes :: "json_codec \<Rightarrow> deadline \<Rightarrow> run_manifest \<Rightarrow> string timed" where
  "canonical_manifest_bytes J dl m =
     tbind (validate_manifest dl m) (\<lambda>_.
     tbind (encode_chunks dl (manifest_chunks J m)) (\<lambda>payload.
     tbind (check_deadline dl) (\<lambda>_. treturn (Inr payload))))"

section \<open>The run directory and its environment\<close>

text \<open>What the name \<open>manifest.json\<close> holds. \<open>Opaque\<close> is an entry that cannot be opened.\<close>

datatype target_file = Absent | File string | Opaque

record commit_world =
  cw_clock :: nat
  cw_target :: target_file
  cw_temporary :: "string option"
  cw_published :: bool

record os_env =
  os_deadline :: deadline
  os_fail :: "nat \<Rightarrow> exn option"
  os_count :: "nat \<Rightarrow> nat"
  os_late :: "nat \<Rightarrow> exn option"

definition timed_io :: "'a timed \<Rightarrow> (commit_world, 'a) io" where
  "timed_io m = (\<lambda>w. case m (cw_clock w) of (r, n) \<Rightarrow> (r, w\<lparr>cw_clock := n\<rparr>))"

definition io_check :: "deadline \<Rightarrow> (commit_world, unit) io" where
  "io_check dl = timed_io (check_deadline dl)"

definition sys_call :: "os_env \<Rightarrow> (commit_world, unit) io" where
  "sys_call E = timed_io (check_deadline (os_fail E))"

section \<open>\_read\_existing\_manifest\<close>

text \<open>Reading to the end of the file: a read returns at least one byte until the end.\<close>

function read_chunks :: "os_env \<Rightarrow> deadline \<Rightarrow> string \<Rightarrow> (commit_world, string) io" where
  "read_chunks E dl content =
     ibind (io_check dl) (\<lambda>_.
     ibind (iget (\<lambda>w. min (os_count E (cw_clock w)) 1048575)) (\<lambda>k.
     ibind (sys_call E) (\<lambda>_.
     ibind (io_check dl) (\<lambda>_.
       if content = [] then ireturn []
       else ibind (read_chunks E dl (drop (Suc k) content)) (\<lambda>rest.
         ireturn (take (Suc k) content @ rest))))))"
  by pat_completeness auto
termination
  by (relation "measure (\<lambda>(E, dl, content). length content)") auto

declare read_chunks.simps [simp del]

definition read_existing_manifest :: "os_env \<Rightarrow> deadline \<Rightarrow> (commit_world, string) io" where
  "read_existing_manifest E dl =
     ibind (icatch (sys_call E) (\<lambda>e.
         iraise (if is_OSError e then FinalizationConflict ''run has an unreadable existing manifest''
                 else e))) (\<lambda>_.
     ibind (iget cw_target) (\<lambda>target.
       case target of
         File content \<Rightarrow> ifinally (read_chunks E dl content) (sys_call E)
       | _ \<Rightarrow> iraise (FinalizationConflict ''run has an unreadable existing manifest'')))"

section \<open>write\_manifest\_atomic\<close>

text \<open>The write loop: \<open>count\<close> bytes of the next megabyte reach the file.\<close>

function write_payload :: "os_env \<Rightarrow> string \<Rightarrow> (commit_world, unit) io" where
  "write_payload E view =
     (if view = [] then ireturn ()
      else
        ibind (io_check (os_deadline E)) (\<lambda>_.
        ibind (iget (\<lambda>w. min (os_count E (cw_clock w)) (min 1048576 (length view)))) (\<lambda>count.
        ibind (sys_call E) (\<lambda>_.
          if count = 0 then iraise (OSError ''manifest write made no progress'')
          else
            ibind (imodify (\<lambda>w. w\<lparr>cw_temporary := map_option (\<lambda>t. t @ take count view) (cw_temporary w)\<rparr>)) (\<lambda>_.
              write_payload E (drop count view))))))"
  by pat_completeness auto
termination
  by (relation "measure (\<lambda>(E, view). length view)") auto

declare write_payload.simps [simp del]

definition write_temporary :: "os_env \<Rightarrow> string \<Rightarrow> (commit_world, unit) io" where
  "write_temporary E payload =
     ifinally
       (ibind (write_payload E payload) (\<lambda>_.
        ibind (io_check (os_deadline E)) (\<lambda>_.
        ibind (sys_call E) (\<lambda>_.
        ibind (io_check (os_deadline E)) (\<lambda>_.
        ibind (sys_call E) (\<lambda>_.
          io_check (os_deadline E)))))))
       (sys_call E)"

text \<open>\<open>os.link\<close>: an existing name is never replaced.\<close>

definition os_link :: "os_env \<Rightarrow> (commit_world, unit) io" where
  "os_link E =
     ibind (iget (\<lambda>w. os_late E (cw_clock w))) (\<lambda>late.
     ibind (sys_call E) (\<lambda>_.
     ibind (iget cw_target) (\<lambda>target.
       if target \<noteq> Absent then iraise FileExistsError
       else
         ibind (imodify (\<lambda>w. w\<lparr>cw_target := (case cw_temporary w of Some t \<Rightarrow> File t | None \<Rightarrow> Absent)\<rparr>)) (\<lambda>_.
           case late of Some e \<Rightarrow> iraise e | None \<Rightarrow> ireturn ()))))"

definition set_published :: "(commit_world, unit) io" where
  "set_published = imodify (\<lambda>w. w\<lparr>cw_published := True\<rparr>)"

definition already_linked :: "os_env \<Rightarrow> string \<Rightarrow> (commit_world, unit) io" where
  "already_linked E payload =
     ibind (read_existing_manifest E no_deadline) (\<lambda>existing.
       if existing = payload then set_published
       else iraise (FinalizationConflict ''run is already finalized differently''))"

definition ambiguous_link :: "os_env \<Rightarrow> string \<Rightarrow> (commit_world, unit) io" where
  "ambiguous_link E payload =
     ibind (icatch (read_existing_manifest E no_deadline) (\<lambda>e.
         iraise (case e of FinalizationConflict _ \<Rightarrow> TimeoutError | _ \<Rightarrow> e))) (\<lambda>existing.
       if existing \<noteq> payload then iraise (FinalizationConflict ''run is already finalized differently'')
       else set_published)"

definition publish_link :: "os_env \<Rightarrow> string \<Rightarrow> (commit_world, unit) io" where
  "publish_link E payload =
     icatch
       (ibind (io_check (os_deadline E)) (\<lambda>_. ibind (os_link E) (\<lambda>_. set_published)))
       (\<lambda>e. case e of
            FileExistsError \<Rightarrow> already_linked E payload
          | TimeoutError \<Rightarrow> ambiguous_link E payload
          | _ \<Rightarrow> iraise e)"

text \<open>The \<open>finally\<close> block of the temporary file.\<close>

definition unless_published :: "os_env \<Rightarrow> (commit_world, unit) io" where
  "unless_published E =
     ibind (iget cw_published) (\<lambda>p. if p then ireturn () else io_check (os_deadline E))"

definition discard_temporary :: "os_env \<Rightarrow> (commit_world, unit) io" where
  "discard_temporary E =
     ibind (sys_call E) (\<lambda>_.
     ibind (imodify (\<lambda>w. w\<lparr>cw_temporary := None\<rparr>)) (\<lambda>_.
     ibind (unless_published E) (\<lambda>_.
     ibind (sys_call E) (\<lambda>_.
       unless_published E))))"

definition make_temporary :: "os_env \<Rightarrow> (commit_world, unit) io" where
  "make_temporary E =
     ibind (sys_call E) (\<lambda>_.
       imodify (\<lambda>w. w\<lparr>cw_temporary := Some [], cw_published := False\<rparr>))"

definition write_manifest_atomic :: "json_codec \<Rightarrow> os_env \<Rightarrow> run_manifest \<Rightarrow> (commit_world, unit) io" where
  "write_manifest_atomic J E m =
     ibind (timed_io (canonical_manifest_bytes J (os_deadline E) m)) (\<lambda>payload.
     ibind (io_check (os_deadline E)) (\<lambda>_.
     ibind (sys_call E) (\<lambda>_.
       ifinally
         (ibind (make_temporary E) (\<lambda>_.
            ifinally
              (ibind (write_temporary E payload) (\<lambda>_. publish_link E payload))
              (discard_temporary E)))
         (sys_call E))))"

section \<open>Write-once commit\<close>

definition manifest_bytes :: "json_codec \<Rightarrow> run_manifest \<Rightarrow> string" where
  "manifest_bytes J m = concat (map utf8_encode (manifest_chunks J m))"

lemma encode_chunks_eq_Inr:
  "encode_chunks dl cs n = (Inr s, n') \<longleftrightarrow>
     s = concat (map utf8_encode cs) \<and> quiet dl n (length cs) \<and> n' = n + length cs"
  by (induction cs arbitrary: s n n') (auto simp: quiet_Suc)

lemma quiet_1 [simp]: "quiet dl n (Suc 0) \<longleftrightarrow> dl n = None"
  by (simp add: quiet_Suc)

lemma canonical_manifest_bytes_eq_Inr:
  "canonical_manifest_bytes J dl m n = (Inr s, n') \<longleftrightarrow>
     manifest_ok m \<and> s = manifest_bytes J m
     \<and> quiet dl n (validation_checks m + (length (manifest_chunks J m) + 1))
     \<and> n' = n + (validation_checks m + (length (manifest_chunks J m) + 1))"
  unfolding quiet_add
  by (auto simp: canonical_manifest_bytes_def validate_manifest_eq_Inr encode_chunks_eq_Inr
      manifest_bytes_def)

lemma timed_io_eq_Inr:
  "timed_io m w = (Inr x, w') \<longleftrightarrow> (\<exists>n. m (cw_clock w) = (Inr x, n) \<and> w' = w\<lparr>cw_clock := n\<rparr>)"
  by (auto simp: timed_io_def split: prod.splits)

lemma wp_timed_io:
  "wp (timed_io m) Q X = (\<lambda>w.
     case m (cw_clock w) of (Inr x, n) \<Rightarrow> Q x (w\<lparr>cw_clock := n\<rparr>) | (Inl e, n) \<Rightarrow> X e (w\<lparr>cw_clock := n\<rparr>))"
  by (simp add: wp_def timed_io_def fun_eq_iff split: prod.splits)

lemma wp_check [simp]:
  "wp (io_check dl) Q X = (\<lambda>w.
     case dl (cw_clock w) of None \<Rightarrow> Q () (w\<lparr>cw_clock := Suc (cw_clock w)\<rparr>)
      | Some e \<Rightarrow> X e (w\<lparr>cw_clock := Suc (cw_clock w)\<rparr>))"
  by (simp add: io_check_def wp_timed_io check_deadline_def fun_eq_iff split: option.splits)

lemma wp_sys_call [simp]:
  "wp (sys_call E) Q X = (\<lambda>w.
     case os_fail E (cw_clock w) of None \<Rightarrow> Q () (w\<lparr>cw_clock := Suc (cw_clock w)\<rparr>)
      | Some e \<Rightarrow> X e (w\<lparr>cw_clock := Suc (cw_clock w)\<rparr>))"
  by (simp add: sys_call_def wp_timed_io check_deadline_def fun_eq_iff split: option.splits)

text \<open>Two worlds that differ in the clock only.\<close>

definition same_files :: "commit_world \<Rightarrow> commit_world \<Rightarrow> bool" where
  "same_files w = (\<lambda>w'. cw_target w' = cw_target w \<and> cw_temporary w' = cw_temporary w
     \<and> cw_published w' = cw_published w)"

lemma wp_read_chunks:
  "wp (read_chunks E dl content) (\<lambda>s w'. s = content \<and> same_files w w') (\<lambda>_ w'. same_files w w') w"
proof (induction E dl content arbitrary: w rule: read_chunks.induct)
  case (1 E dl content)
  have "wp (read_chunks E dl (drop (Suc k) content))
      (\<lambda>rest w'. take (Suc k) content @ rest = content \<and> same_files w w') (\<lambda>_ w'. same_files w w') v"
    if "content \<noteq> []" "same_files w v" for k v
    by (rule wp_mono [OF 1 [OF that(1)]]) (use that(2) in \<open>auto simp: same_files_def\<close>)
  then show ?case
    by (subst read_chunks.simps) (auto simp: same_files_def split: option.splits)
qed

lemma wp_write_payload:
  "cw_temporary w = Some t \<Longrightarrow>
   wp (write_payload E view)
     (\<lambda>_ w'. cw_temporary w' = Some (t @ view) \<and> cw_target w' = cw_target w \<and> cw_published w' = cw_published w)
     (\<lambda>_ w'. cw_target w' = cw_target w \<and> cw_published w' = cw_published w) w"
proof (induction E view arbitrary: w t rule: write_payload.induct)
  case (1 E view)
  let ?X = "\<lambda>_ w'. cw_target w' = cw_target w \<and> cw_published w' = cw_published w"
  have "wp (write_payload E (drop k view)) (\<lambda>_ w'. cw_temporary w' = Some (t @ view) \<and> ?X () w') ?X v"
    if "view \<noteq> []" "k \<noteq> 0" "cw_temporary v = Some (t @ take k view)" "?X () v" for k v
    by (rule wp_mono [OF 1(1) [OF that(1,2,3)]]) (use that(4) in auto)
  then show ?case
    using 1(2) by (subst write_payload.simps) (auto split: option.splits)
qed

lemma wp_read_existing:
  "wp (read_existing_manifest E dl) (\<lambda>s w'. cw_target w = File s \<and> same_files w w')
     (\<lambda>_ w'. same_files w w') w"
  unfolding read_existing_manifest_def
  by (auto simp: same_files_def intro!: wp_mono [OF wp_read_chunks] split: option.split target_file.split)

lemma wp_write_temporary:
  assumes "cw_temporary w = Some []"
  shows "wp (write_temporary E payload)
     (\<lambda>_ w'. cw_temporary w' = Some payload \<and> cw_target w' = cw_target w \<and> cw_published w' = cw_published w)
     (\<lambda>_ w'. cw_target w' = cw_target w \<and> cw_published w' = cw_published w) w"
  unfolding write_temporary_def wp_ifinally wp_ibind
  by (rule wp_mono [OF wp_write_payload [OF assms]]) (auto split: option.split)

text \<open>The publication: the name is unchanged or now has the bytes of the temporary file.\<close>

definition committed :: "string \<Rightarrow> commit_world \<Rightarrow> commit_world \<Rightarrow> bool" where
  "committed p w = (\<lambda>w'. cw_target w' = File p \<and> (cw_target w = Absent \<or> cw_target w = File p))"

definition untouched_or_committed :: "string \<Rightarrow> commit_world \<Rightarrow> commit_world \<Rightarrow> bool" where
  "untouched_or_committed p w = (\<lambda>w'. cw_target w' = cw_target w \<or> committed p w w')"

lemma untouchedI: "cw_target w' = cw_target w \<Longrightarrow> untouched_or_committed p w w'"
  by (simp add: untouched_or_committed_def)

lemma committed_cong:
  "cw_target v = cw_target w \<Longrightarrow> committed p v = committed p w"
  "cw_target v = cw_target w \<Longrightarrow> untouched_or_committed p v = untouched_or_committed p w"
  by (simp_all add: committed_def untouched_or_committed_def)

lemma wp_already_linked:
  "wp (already_linked E p) (\<lambda>_ w'. cw_target w' = File p \<and> cw_target w = File p)
     (\<lambda>_ w'. cw_target w' = cw_target w) w"
  unfolding already_linked_def wp_ibind
  by (rule wp_mono [OF wp_read_existing]) (auto simp: set_published_def same_files_def)

lemma wp_ambiguous_link:
  "wp (ambiguous_link E p) (\<lambda>_ w'. cw_target w' = File p \<and> cw_target w = File p)
     (\<lambda>_ w'. cw_target w' = cw_target w) w"
  unfolding ambiguous_link_def wp_ibind wp_icatch
  by (rule wp_mono [OF wp_read_existing]) (auto simp: set_published_def same_files_def)

lemma wp_link:
  assumes "cw_temporary w = Some p"
  shows "wp (ibind (io_check dl) (\<lambda>_. ibind (os_link E) (\<lambda>_. set_published)))
    (\<lambda>_. committed p w) (\<lambda>_. untouched_or_committed p w) w"
  using assms unfolding os_link_def set_published_def
  by (auto simp: committed_def untouched_or_committed_def split: option.split)

lemma wp_publish_link:
  assumes "cw_temporary w = Some p"
  shows "wp (publish_link E p) (\<lambda>_. committed p w) (\<lambda>_. untouched_or_committed p w) w"
proof -
  have al: "wp (already_linked E p) (\<lambda>_. committed p w) (\<lambda>_. untouched_or_committed p w) v"
    and am: "wp (ambiguous_link E p) (\<lambda>_. committed p w) (\<lambda>_. untouched_or_committed p w) v"
    if "untouched_or_committed p w v" for v
    using that
    by (auto intro!: wp_mono [OF wp_already_linked] wp_mono [OF wp_ambiguous_link]
        simp: committed_def untouched_or_committed_def)
  have handler: "wp (case e of FileExistsError \<Rightarrow> already_linked E p | TimeoutError \<Rightarrow> ambiguous_link E p
      | _ \<Rightarrow> iraise e) (\<lambda>_. committed p w) (\<lambda>_. untouched_or_committed p w) v"
    if "untouched_or_committed p w v" for e v
    using al [OF that] am [OF that] that by (cases e) simp_all
  show ?thesis
    unfolding publish_link_def wp_icatch
    by (rule wp_mono [OF wp_link [OF assms]]) (assumption, erule handler)
qed

lemma wp_discard_temporary:
  "wp (discard_temporary E) (\<lambda>_ w'. cw_target w' = cw_target w \<and> cw_temporary w' = None)
     (\<lambda>_ w'. cw_target w' = cw_target w) w"
  by (auto simp: discard_temporary_def unless_published_def split: option.split)

text \<open>The part of \<open>write_manifest_atomic\<close> that acts on the temporary file.\<close>

lemma wp_temporary_phase:
  assumes "cw_temporary w = Some []"
  shows "wp (ifinally (ibind (write_temporary E p) (\<lambda>_. publish_link E p)) (discard_temporary E))
    (\<lambda>_ w'. committed p w w' \<and> cw_temporary w' = None) (\<lambda>_. untouched_or_committed p w) w"
proof -
  have discard: "wp (discard_temporary E) (\<lambda>_ w'. committed p w w' \<and> cw_temporary w' = None)
      (\<lambda>_. untouched_or_committed p w) v" if "committed p w v" for v
    by (rule wp_mono [OF wp_discard_temporary])
      (use that in \<open>auto simp: committed_def untouched_or_committed_def\<close>)
  have abandon: "wp (discard_temporary E) (\<lambda>_. untouched_or_committed p w)
      (\<lambda>_. untouched_or_committed p w) v" if "untouched_or_committed p w v" for v
    by (rule wp_mono [OF wp_discard_temporary])
      (use that in \<open>auto simp: committed_def untouched_or_committed_def\<close>)
  have link: "wp (publish_link E p) (\<lambda>_. committed p w) (\<lambda>_. untouched_or_committed p w) v"
    if "cw_temporary v = Some p" "cw_target v = cw_target w" for v
    by (rule wp_mono [OF wp_publish_link [OF that(1)]])
      (use that(2) in \<open>auto simp: committed_def untouched_or_committed_def\<close>)
  have "wp (ibind (write_temporary E p) (\<lambda>_. publish_link E p)) (\<lambda>_. committed p w)
      (\<lambda>_. untouched_or_committed p w) w"
    unfolding wp_ibind
    by (rule wp_mono [OF wp_write_temporary [OF assms]]) (auto intro: link untouchedI)
  then show ?thesis
    unfolding wp_ifinally by (rule wp_mono) (auto intro: discard abandon)
qed

lemma wp_write_manifest_atomic:
  "wp (write_manifest_atomic J E m)
     (\<lambda>_ w'. manifest_ok m \<and> committed (manifest_bytes J m) w w' \<and> cw_temporary w' = None)
     (\<lambda>_. untouched_or_committed (manifest_bytes J m) w) w"
proof -
  let ?p = "manifest_bytes J m"
  let ?phase = "ifinally (ibind (write_temporary E ?p) (\<lambda>_. publish_link E ?p)) (discard_temporary E)"
  let ?Q = "\<lambda>_ w'. committed ?p w w' \<and> cw_temporary w' = None"
  let ?X = "\<lambda>_. untouched_or_committed ?p w"
  have phase: "wp ?phase ?Q ?X v" if "cw_temporary v = Some []" "cw_target v = cw_target w" for v
    using wp_temporary_phase [OF that(1), of E ?p] by (simp add: committed_cong [OF that(2)])
  have "wp (ifinally (ibind (make_temporary E) (\<lambda>_. ?phase)) (sys_call E)) ?Q ?X v"
    if v: "cw_target v = cw_target w" for v
  proof -
    have "wp (ibind (make_temporary E) (\<lambda>_. ?phase)) ?Q ?X v"
      using v unfolding make_temporary_def
      by (simp del: wp_ifinally add: phase untouchedI split: option.split)
    then show ?thesis
      unfolding wp_ifinally
      by (rule wp_mono) (auto simp: committed_def untouched_or_committed_def split: option.split)
  qed
  then show ?thesis
    unfolding write_manifest_atomic_def
    by (auto simp: wp_timed_io canonical_manifest_bytes_eq_Inr untouchedI simp del: wp_ifinally
        split: option.split prod.split sum.split)
qed

text \<open>
  C2. Committing a manifest never replaces one that exists: whatever fails and whenever a
  deadline expires, \<open>manifest.json\<close> afterwards is what it was, or it was absent and holds
  the canonical bytes of this manifest. A call that returns has checked the manifest, left
  exactly its bytes under that name and removed its temporary file.
\<close>

theorem commit_write_once:
  assumes "write_manifest_atomic J E m w = (r, w')"
  shows "(cw_target w' = cw_target w \<or> cw_target w = Absent \<and> cw_target w' = File (manifest_bytes J m))
     \<and> (r = Inr () \<longrightarrow>
          manifest_ok m \<and> cw_target w' = File (manifest_bytes J m) \<and> cw_temporary w' = None)"
  using wp_write_manifest_atomic [of J E m w] assms
  by (auto simp: wp_def committed_def untouched_or_committed_def split: sum.splits)

section \<open>Refinement of a write-once register\<close>

text \<open>What the commit of \<open>payload\<close> does to the register.\<close>

definition register_commit :: "string \<Rightarrow> target_file \<Rightarrow> unit result \<times> target_file" where
  "register_commit payload t =
     (case t of
        Absent \<Rightarrow> (Inr (), File payload)
      | File s \<Rightarrow> (if s = payload then Inr ()
                  else Inl (FinalizationConflict ''run is already finalized differently''), t)
      | Opaque \<Rightarrow> (Inl (FinalizationConflict ''run has an unreadable existing manifest''), t))"

text \<open>
  An environment without failing calls and with a deadline that never expires, except
  that the hard link may be followed by a \<open>TimeoutError\<close>.
\<close>

definition calm :: "os_env \<Rightarrow> bool" where
  "calm E \<longleftrightarrow> os_deadline E = no_deadline \<and> (\<forall>n. os_fail E n = None \<and> 0 < os_count E n
     \<and> os_late E n \<in> {None, Some TimeoutError})"

lemma calmD:
  assumes "calm E"
  shows "os_deadline E = no_deadline" "os_fail E n = None" "os_count E n \<noteq> 0"
    and "os_late E n = None \<or> os_late E n = Some TimeoutError"
  using assms by (auto simp: calm_def)

lemma no_deadline_None [simp]: "no_deadline n = None"
  by (simp add: no_deadline_def)

lemma read_chunks_returns:
  "calm E \<Longrightarrow> wp (read_chunks E no_deadline content) (\<lambda>_ _. True) (\<lambda>_ _. False) w"
proof (induction E "no_deadline" content arbitrary: w rule: read_chunks.induct)
  case (1 E content)
  then show ?case
    by (subst read_chunks.simps) (simp add: calmD)
qed

lemma write_payload_returns:
  "calm E \<Longrightarrow> wp (write_payload E view) (\<lambda>_ _. True) (\<lambda>_ _. False) w"
proof (induction E view arbitrary: w rule: write_payload.induct)
  case (1 E view)
  then show ?case
    by (subst write_payload.simps) (simp add: calmD, simp add: calmD min_def)
qed

lemma wp_read_existing_calm:
  assumes "calm E"
  shows "wp (read_existing_manifest E no_deadline)
    (\<lambda>s w'. cw_target w = File s \<and> same_files w w')
    (\<lambda>e w'. e = FinalizationConflict ''run has an unreadable existing manifest''
       \<and> (\<nexists>s. cw_target w = File s) \<and> same_files w w') w"
proof -
  have "wp (read_chunks E no_deadline content) (\<lambda>s w'. s = content \<and> same_files v w') (\<lambda>_ _. False) v"
    for content v
    by (rule wp_mono [OF wp_conj [OF wp_read_chunks read_chunks_returns [OF assms]]]) auto
  note this [THEN wp_mono]
  then show ?thesis
    unfolding read_existing_manifest_def using assms
    by (auto simp: calmD same_files_def split: target_file.split)
qed

text \<open>The outcome and the final name agree with the register.\<close>

definition as_register :: "string \<Rightarrow> commit_world \<Rightarrow> exn + unit \<Rightarrow> commit_world \<Rightarrow> bool" where
  "as_register p w r = (\<lambda>w'. register_commit p (cw_target w) = (r, cw_target w'))"

lemma wp_publish_link_calm:
  assumes "calm E" "cw_temporary w = Some p"
  shows "wp (publish_link E p) (\<lambda>_. as_register p w (Inr ())) (\<lambda>e. as_register p w (Inl e)) w"
proof -
  have read: "wp (read_existing_manifest E no_deadline) Q X v"
    if "\<And>s v'. cw_target v = File s \<Longrightarrow> same_files v v' \<Longrightarrow> Q s v'"
      and "\<And>v'. \<nexists>s. cw_target v = File s \<Longrightarrow> same_files v v' \<Longrightarrow>
        X (FinalizationConflict ''run has an unreadable existing manifest'') v'" for Q X v
    by (rule wp_mono [OF wp_read_existing_calm [OF assms(1)]]) (use that in auto)
  show ?thesis
    using assms(2) calmD(4) [OF assms(1), of "Suc (cw_clock w)"]
    unfolding publish_link_def os_link_def set_published_def already_linked_def ambiguous_link_def
      as_register_def register_commit_def
    by (cases "cw_target w") (auto simp: calmD(1,2) [OF assms(1)] same_files_def intro!: read)
qed

lemma wp_discard_temporary_calm:
  assumes "calm E"
  shows "wp (discard_temporary E) (\<lambda>_ w'. cw_target w' = cw_target w \<and> cw_temporary w' = None)
     (\<lambda>_ _. False) w"
  using assms by (simp add: discard_temporary_def unless_published_def calmD)

lemma wp_write_temporary_calm:
  assumes "calm E" "cw_temporary w = Some []"
  shows "wp (write_temporary E p) (\<lambda>_ w'. cw_temporary w' = Some p \<and> cw_target w' = cw_target w)
    (\<lambda>_ _. False) w"
proof -
  have "wp (write_payload E p) (\<lambda>_ w'. cw_temporary w' = Some p \<and> cw_target w' = cw_target w) (\<lambda>_ _. False) w"
    by (rule wp_mono [OF wp_conj [OF wp_write_payload [OF assms(2)] write_payload_returns [OF assms(1)]]]) auto
  then show ?thesis
    unfolding write_temporary_def wp_ifinally wp_ibind
    by (rule wp_mono) (use assms(1) in \<open>auto simp: calmD\<close>)
qed

lemma wp_temporary_phase_calm:
  assumes "calm E" "cw_temporary w = Some []"
  shows "wp (ifinally (ibind (write_temporary E p) (\<lambda>_. publish_link E p)) (discard_temporary E))
    (\<lambda>_ w'. as_register p w (Inr ()) w' \<and> cw_temporary w' = None)
    (\<lambda>e w'. as_register p w (Inl e) w' \<and> cw_temporary w' = None) w"
proof -
  have link: "wp (publish_link E p) (\<lambda>_. as_register p w (Inr ())) (\<lambda>e. as_register p w (Inl e)) v"
    if "cw_temporary v = Some p" "cw_target v = cw_target w" for v
    using wp_publish_link_calm [OF assms(1) that(1)] that(2) by (simp add: as_register_def)
  have discard: "wp (discard_temporary E) (\<lambda>_ w'. as_register p w r w' \<and> cw_temporary w' = None)
      (\<lambda>e w'. as_register p w (Inl e) w' \<and> cw_temporary w' = None) v" if "as_register p w r v" for r v
    by (rule wp_mono [OF wp_discard_temporary_calm [OF assms(1)]])
      (use that in \<open>auto simp: as_register_def\<close>)
  have "wp (ibind (write_temporary E p) (\<lambda>_. publish_link E p)) (\<lambda>_. as_register p w (Inr ()))
      (\<lambda>e. as_register p w (Inl e)) w"
    unfolding wp_ibind
    by (rule wp_mono [OF wp_write_temporary_calm [OF assms]]) (auto intro: link)
  then show ?thesis
    unfolding wp_ifinally by (rule wp_mono) (auto intro: discard)
qed

lemma canonical_manifest_bytes_no_deadline:
  "manifest_ok m \<Longrightarrow> \<exists>n'. canonical_manifest_bytes J no_deadline m n = (Inr (manifest_bytes J m), n')"
  by (simp add: canonical_manifest_bytes_eq_Inr)

lemma wp_write_manifest_atomic_calm:
  assumes "calm E" "manifest_ok m"
  shows "wp (write_manifest_atomic J E m)
     (\<lambda>_ w'. as_register (manifest_bytes J m) w (Inr ()) w' \<and> cw_temporary w' = None)
     (\<lambda>e w'. as_register (manifest_bytes J m) w (Inl e) w' \<and> cw_temporary w' = None) w"
proof -
  let ?p = "manifest_bytes J m"
  let ?phase = "ifinally (ibind (write_temporary E ?p) (\<lambda>_. publish_link E ?p)) (discard_temporary E)"
  let ?Q = "\<lambda>r w'. as_register ?p w r w' \<and> cw_temporary w' = None"
  have phase: "wp ?phase (\<lambda>_. ?Q (Inr ())) (\<lambda>e. ?Q (Inl e)) v"
    if "cw_temporary v = Some []" "cw_target v = cw_target w" for v
    using wp_temporary_phase_calm [OF assms(1) that(1), of ?p] that(2) by (simp add: as_register_def)
  have "wp (ifinally (ibind (make_temporary E) (\<lambda>_. ?phase)) (sys_call E)) (\<lambda>_. ?Q (Inr ())) (\<lambda>e. ?Q (Inl e)) v"
    if v: "cw_target v = cw_target w" for v
  proof -
    have "wp (ibind (make_temporary E) (\<lambda>_. ?phase)) (\<lambda>_. ?Q (Inr ())) (\<lambda>e. ?Q (Inl e)) v"
      using v unfolding make_temporary_def
      by (simp del: wp_ifinally add: phase calmD(1,2) [OF assms(1)])
    then show ?thesis
      unfolding wp_ifinally
      by (rule wp_mono) (auto simp: calmD(1,2) [OF assms(1)] as_register_def)
  qed
  moreover obtain n' where "canonical_manifest_bytes J no_deadline m (cw_clock w) = (Inr ?p, n')"
    using canonical_manifest_bytes_no_deadline [OF assms(2)] by blast
  ultimately show ?thesis
    unfolding write_manifest_atomic_def
    by (simp add: wp_timed_io calmD(1,2) [OF assms(1)] del: wp_ifinally)
qed

text \<open>
  C16. In an environment where no call fails, committing a well-formed manifest is one step
  of a write-once register: it returns and stores the bytes when there is no manifest, it
  returns when the same bytes are there already, and it raises \<open>FinalizationConflict\<close>
  otherwise, also when a \<open>TimeoutError\<close> follows the hard link. The temporary file is gone.
\<close>

theorem commit_refines_register:
  assumes "calm E" "manifest_ok m"
  shows "map_prod id cw_target (write_manifest_atomic J E m w)
       = register_commit (manifest_bytes J m) (cw_target w)
     \<and> cw_temporary (snd (write_manifest_atomic J E m w)) = None"
  using wp_write_manifest_atomic_calm [OF assms, of J w]
  by (auto simp: wp_def as_register_def split: prod.splits sum.splits)

section \<open>Repeated commits\<close>

text \<open>Any number of commits by any callers in any environment.\<close>

definition commit_attempt :: "commit_world \<Rightarrow> commit_world \<Rightarrow> bool" where
  "commit_attempt w w' \<longleftrightarrow> (\<exists>J E m r. write_manifest_atomic J E m w = (r, w'))"

lemma commit_keeps: "cw_target w \<noteq> Absent \<Longrightarrow> cw_target (snd (write_manifest_atomic J E m w)) = cw_target w"
  using wp_write_manifest_atomic [of J E m w]
  by (auto simp: wp_def committed_def untouched_or_committed_def split: prod.splits sum.splits)

interpretation published: transition_invariant commit_attempt "\<lambda>w. cw_target w = File s" for s
proof
  fix w w'
  assume "cw_target w = File s" "commit_attempt w w'"
  then obtain J E m where "w' = snd (write_manifest_atomic J E m w)"
    unfolding commit_attempt_def by (metis snd_conv)
  with \<open>cw_target w = File s\<close> show "cw_target w' = File s"
    using commit_keeps [of w J E m] by simp
qed

text \<open>
  The first committed manifest is the authoritative one: after a commit has returned,
  whatever commits follow, \<open>manifest.json\<close> keeps its bytes, and a later commit that
  returns was one of the same bytes.
\<close>

theorem commit_authoritative:
  assumes "write_manifest_atomic J E m w = (Inr (), w1)" and "rtranclp commit_attempt w1 w2"
    and "write_manifest_atomic J' E' m' w2 = (Inr (), w3)"
  shows "cw_target w3 = File (manifest_bytes J m) \<and> manifest_bytes J' m' = manifest_bytes J m"
proof -
  have 1: "cw_target w1 = File (manifest_bytes J m)"
    using wpD(1) [OF wp_write_manifest_atomic assms(1)] by (simp add: committed_def)
  have 2: "cw_target w2 = File (manifest_bytes J m)"
    using published.reach_invar [OF assms(2) 1] .
  have 3: "cw_target w3 = File (manifest_bytes J' m')"
    using wpD(1) [OF wp_write_manifest_atomic assms(3)] by (simp add: committed_def)
  then show ?thesis
    using 2 commit_keeps [of w2 J' E' m'] assms(3) by simp
qed

section \<open>A concrete run directory\<close>

text \<open>
  The manifest of an aborted run in which every required artifact is missing, an encoder
  that writes two pieces, and environments that transfer three bytes at a time.
\<close>

definition missing_record :: "string \<Rightarrow> artifact_record" where
  "missing_record p = \<lparr>af_relative_path = VStr p, af_size_bytes = VNone, af_sha256 = VNone,
     af_validation = VStr ''missing'', af_detail = VStr ''path is missing''\<rparr>"

definition aborted_manifest :: "string \<Rightarrow> run_manifest" where
  "aborted_manifest why = \<lparr>rm_manifest_run_id = VStr ''run'', rm_terminal_status = VStr ''ABORTED'',
     rm_reason = VStr why, rm_simulation_timing = \<lparr>st_start_ns = VNone, st_end_ns = VNone, st_duration_ns = VNone\<rparr>,
     rm_wall_timing = \<lparr>wt_started_at = Aware 0, wt_ended_at = Aware 0, wt_duration_seconds = VFloat (Fin 0)\<rparr>,
     rm_source_revisions = [], rm_image_digests = [], rm_configurations = [],
     rm_artifacts = map missing_record REQUIRED_ARTIFACT_PATHS,
     rm_incomplete_paths = REQUIRED_ARTIFACT_PATHS, rm_achieved_score = VNone,
     rm_maximum_available_score = VNone, rm_scoring_checksum = VNone, rm_evidence_paths = [],
     rm_schema_version = VInt 1\<rparr>"

lemma total_seconds_0: "total_seconds 0 = Fin 0"
  by (simp add: total_seconds_def round64_def)

lemma aborted_manifest_ok: "manifest_ok (aborted_manifest why)"
proof -
  have "filter (\<lambda>p. \<not> recorded_valid (map missing_record REQUIRED_ARTIFACT_PATHS) p) REQUIRED_ARTIFACT_PATHS
      = REQUIRED_ARTIFACT_PATHS"
    by (rule filter_True) (auto simp: recorded_valid_def missing_record_def artifact_valid_def)
  moreover have "distinct (map af_relative_path (map missing_record REQUIRED_ARTIFACT_PATHS))"
    by (simp add: comp_def missing_record_def distinct_map required_paths_ok(1) inj_on_def)
  moreover have "list_all artifact_ok (map missing_record REQUIRED_ARTIFACT_PATHS)"
    using required_paths_ok(2)
    by (auto simp: list_all_iff artifact_ok_def missing_record_def artifact_absent_def)
  moreover have "wall_ok \<lparr>wt_started_at = Aware 0, wt_ended_at = Aware 0, wt_duration_seconds = VFloat (Fin 0)\<rparr>"
    by (auto simp: wall_ok_def total_seconds_0)
  ultimately show ?thesis
    by (simp add: manifest_ok_def aborted_manifest_def simulation_ok_def score_ok_def)
      (simp add: image_image missing_record_def)
qed

definition pieces_codec :: "string list \<Rightarrow> json_codec" where
  "pieces_codec cs = \<lparr>js_isoformat = (\<lambda>_. ''1970-01-01T00:00:00+00:00''), js_iterencode = (\<lambda>_. cs)\<rparr>"

definition slow_disk :: "os_env" where
  "slow_disk = \<lparr>os_deadline = no_deadline, os_fail = (\<lambda>_. None), os_count = (\<lambda>_. 3),
     os_late = (\<lambda>n. if even n then Some TimeoutError else None)\<rparr>"

definition run_directory :: "target_file \<Rightarrow> commit_world" where
  "run_directory t = \<lparr>cw_clock = 0, cw_target = t, cw_temporary = None, cw_published = False\<rparr>"

lemma slow_disk_calm: "calm slow_disk"
  by (simp add: calm_def slow_disk_def)

lemma pieces_bytes: "manifest_bytes (pieces_codec [''ab'', ''cd'']) m = ''abcd''"
  by (simp add: manifest_bytes_def manifest_chunks_def pieces_codec_def utf8_encode_def Let_def)

lemma first_commit:
  "fst (write_manifest_atomic (pieces_codec [''ab'', ''cd'']) slow_disk (aborted_manifest why) w) = Inr ()"
  if "cw_target w \<in> {Absent, File ''abcd''}"
  using wp_write_manifest_atomic_calm [OF slow_disk_calm aborted_manifest_ok [of why], where J = "pieces_codec [''ab'', ''cd'']" and w = w] that
  by (auto simp: wp_def as_register_def register_commit_def pieces_bytes split: prod.splits sum.splits)

theorem commit_write_once_witness:
  "(let w = run_directory Absent;
        out = write_manifest_atomic (pieces_codec [''ab'', ''cd'']) slow_disk (aborted_manifest ''stop'') w
    in fst out = Inr () \<and> cw_target w = Absent \<and> cw_target (snd out) = File ''abcd''
       \<and> cw_temporary (snd out) = None)"
  using commit_write_once [OF surjective_pairing, of "pieces_codec [''ab'', ''cd'']" slow_disk
      "aborted_manifest ''stop''" "run_directory Absent"] first_commit [of "run_directory Absent" "''stop''"]
  by (simp add: Let_def run_directory_def pieces_bytes)

theorem commit_refines_register_witness:
  "calm slow_disk \<and> manifest_ok (aborted_manifest ''stop'')
   \<and> map_prod id cw_target (write_manifest_atomic (pieces_codec [''ab'', ''cd'']) slow_disk
       (aborted_manifest ''stop'') (run_directory (File ''xy'')))
     = (Inl (FinalizationConflict ''run is already finalized differently''), File ''xy'')"
  using commit_refines_register [OF slow_disk_calm aborted_manifest_ok [of "''stop''"],
      where J = "pieces_codec [''ab'', ''cd'']" and w = "run_directory (File ''xy'')"] slow_disk_calm aborted_manifest_ok
  by (simp add: register_commit_def run_directory_def pieces_bytes)

theorem commit_authoritative_witness:
  "(let commit = (\<lambda>cs w. write_manifest_atomic (pieces_codec cs) slow_disk (aborted_manifest ''stop'') w);
        w1 = snd (commit [''ab'', ''cd''] (run_directory Absent));
        w2 = snd (commit [''other''] w1)
    in commit_attempt w1 w2 \<and> cw_target (snd (commit [''ab'', ''cd''] w2)) = File ''abcd'')"
proof -
  let ?commit = "\<lambda>cs w. write_manifest_atomic (pieces_codec cs) slow_disk (aborted_manifest ''stop'') w"
  let ?w1 = "snd (?commit [''ab'', ''cd''] (run_directory Absent))"
  let ?w2 = "snd (?commit [''other''] ?w1)"
  have 1: "?commit [''ab'', ''cd''] (run_directory Absent) = (Inr (), ?w1)"
    using first_commit [of "run_directory Absent" "''stop''"]
    by (simp add: run_directory_def prod_eq_iff)
  have "cw_target ?w1 = File ''abcd''"
    using wpD(1) [OF wp_write_manifest_atomic 1] by (simp add: committed_def pieces_bytes)
  then have "cw_target ?w2 = File ''abcd''"
    using commit_keeps [of ?w1] by simp
  then have 3: "?commit [''ab'', ''cd''] ?w2 = (Inr (), snd (?commit [''ab'', ''cd''] ?w2))"
    using first_commit [of ?w2 "''stop''"] by (simp add: prod_eq_iff)
  have 2: "commit_attempt ?w1 ?w2"
    unfolding commit_attempt_def by (metis surjective_pairing)
  show ?thesis
    using commit_authoritative [OF 1 r_into_rtranclp [of commit_attempt, OF 2] 3] 2
    by (simp add: Let_def pieces_bytes)
qed

end
