(* ===== verification/Artifact_Validation.thy ===== *)
theory Artifact_Validation
  imports Manifest Py_IO "HOL-Library.Char_ord" "HOL-Library.List_Lexorder" "HOL-Library.Product_Lexorder"
begin

text \<open>
  The filesystem validators of \<open>artifacts/validation.py\<close>. They walk to a path through
  retained descriptors that never follow symbolic links, hash what they read, and check
  afterwards that every name still denotes what was opened.

  The filesystem may change between any two system calls: it is a sequence of snapshots,
  one per boundary (a deadline check or a system call), with an optional failure of the call
  at each boundary. A descriptor is the inode it was opened on. Two limits of the kernel
  bound the loops: the largest file size and the number of open descriptors. Closing a
  descriptor is not a boundary. \<open>_ValidationFailure\<close> is an exception with the status and
  detail of its result; SHA-256 and the verdict of \<open>zstd\<close> are parameters. Names are strings of
  code points up to U+00FF, so a name that is no UTF-8 does not occur, and a path with a NUL names
  no entry, where the source raises \<open>ValueError\<close>.
\<close>

section \<open>Filesystem snapshots\<close>

datatype file_kind = Directory | Regular | Symlink | Special
datatype errno = ENOENT | EACCES | EIO

record stat_result =
  st_dev :: nat
  st_ino :: nat
  st_kind :: file_kind
  st_perm :: nat
  st_nlink :: nat
  st_size :: nat
  st_mtime_ns :: int
  st_ctime_ns :: int

record snapshot =
  fs_root :: "nat option"
  fs_attributes :: "nat \<Rightarrow> stat_result"
  fs_entries :: "nat \<Rightarrow> (string \<times> nat) list"
  fs_content :: "nat \<Rightarrow> string"

record system =
  sy_fs :: "nat \<Rightarrow> snapshot"
  sy_fault :: "nat \<Rightarrow> errno option"
  sy_chunk :: "nat \<Rightarrow> nat"
  sy_max_size :: nat
  sy_max_fds :: nat
  sy_zstd_ok :: "nat \<Rightarrow> bool"
  sy_sha256 :: "string \<Rightarrow> string"

definition stat_of :: "snapshot \<Rightarrow> nat \<Rightarrow> stat_result" where
  "stat_of s i = (fs_attributes s i)\<lparr>st_ino := i\<rparr>"

definition entry_of :: "snapshot \<Rightarrow> nat \<Rightarrow> string \<Rightarrow> nat option" where
  "entry_of s fd name = map_of (fs_entries s fd) name"

text \<open>A system call: its answer is a failure or a function of the current snapshot.\<close>

definition syscall :: "system \<Rightarrow> (snapshot \<Rightarrow> errno + 'a) \<Rightarrow> (errno + 'a) timed" where
  "syscall Y f = (\<lambda>n. (Inr (case sy_fault Y n of Some e \<Rightarrow> Inl e | None \<Rightarrow> f (sy_fs Y n)), Suc n))"

definition os_stat :: "system \<Rightarrow> nat \<Rightarrow> string \<Rightarrow> (errno + stat_result) timed" where
  "os_stat Y fd name = syscall Y (\<lambda>s. case entry_of s fd name of
     None \<Rightarrow> Inl ENOENT | Some i \<Rightarrow> Inr (stat_of s i))"

definition os_fstat :: "system \<Rightarrow> nat \<Rightarrow> (errno + stat_result) timed" where
  "os_fstat Y fd = syscall Y (\<lambda>s. Inr (stat_of s fd))"

text \<open>\<open>os.open\<close> with \<open>_DIRECTORY_FLAGS\<close> and with \<open>_FILE_FLAGS\<close>, relative to a descriptor.\<close>

definition os_open_directory :: "system \<Rightarrow> nat \<Rightarrow> nat \<Rightarrow> string \<Rightarrow> (errno + nat) timed" where
  "os_open_directory Y held fd name = syscall Y (\<lambda>s.
     case entry_of s fd name of
       None \<Rightarrow> Inl ENOENT
     | Some i \<Rightarrow> if sy_max_fds Y \<le> held \<or> st_kind (stat_of s i) \<noteq> Directory then Inl EIO else Inr i)"

definition os_open_file :: "system \<Rightarrow> nat \<Rightarrow> nat \<Rightarrow> string \<Rightarrow> (errno + nat) timed" where
  "os_open_file Y held fd name = syscall Y (\<lambda>s.
     case entry_of s fd name of
       None \<Rightarrow> Inl ENOENT
     | Some i \<Rightarrow> if sy_max_fds Y \<le> held \<or> st_kind (stat_of s i) = Symlink then Inl EIO else Inr i)"

definition os_open_root :: "system \<Rightarrow> (errno + nat) timed" where
  "os_open_root Y = syscall Y (\<lambda>s.
     case fs_root s of
       None \<Rightarrow> Inl ENOENT
     | Some i \<Rightarrow> if sy_max_fds Y = 0 \<or> st_kind (stat_of s i) \<noteq> Directory then Inl EIO else Inr i)"

definition os_lstat_root :: "system \<Rightarrow> (errno + stat_result) timed" where
  "os_lstat_root Y = syscall Y (\<lambda>s. case fs_root s of
     None \<Rightarrow> Inl ENOENT | Some i \<Rightarrow> Inr (stat_of s i))"

section \<open>Results and failures\<close>

record validation_result =
  vr_status :: validation_status
  vr_size_bytes :: pyval
  vr_sha256 :: pyval
  vr_detail :: pyval

record retained_entry =
  re_parent_fd :: nat
  re_name :: string
  re_descriptor :: nat
  re_identity :: stat_result

definition fail :: "validation_status \<Rightarrow> string \<Rightarrow> 'a timed" where
  "fail status detail = iraise (ValidationFailure (validation_value status) detail)"

definition failure_result :: "string \<Rightarrow> string \<Rightarrow> validation_result" where
  "failure_result status detail =
     \<lparr>vr_status = (if status = ''missing'' then MISSING else INVALID), vr_size_bytes = VNone,
      vr_sha256 = VNone, vr_detail = VStr detail\<rparr>"

definition valid_result :: "nat \<Rightarrow> string \<Rightarrow> string \<Rightarrow> validation_result" where
  "valid_result bytes digest detail =
     \<lparr>vr_status = VALID, vr_size_bytes = VInt (int bytes), vr_sha256 = VStr digest, vr_detail = VStr detail\<rparr>"

definition invalid_result :: "string \<Rightarrow> validation_result" where
  "invalid_result detail =
     \<lparr>vr_status = INVALID, vr_size_bytes = VNone, vr_sha256 = VNone, vr_detail = VStr detail\<rparr>"

section \<open>The descriptor walk\<close>

definition relative_parts :: "string \<Rightarrow> string list timed" where
  "relative_parts path =
     (if (path \<noteq> [] \<and> hd path = CHR ''/'') \<or> ''..'' \<in> set (posix_parts path) then
        fail INVALID ''path escapes run directory''
      else if posix_parts path = [] then fail INVALID ''path escapes run directory''
      else ireturn (posix_parts path))"

definition open_run_directory :: "system \<Rightarrow> nat timed" where
  "open_run_directory Y =
     ibind (os_open_root Y) (\<lambda>r. case r of
         Inr fd \<Rightarrow> ireturn fd
       | Inl ENOENT \<Rightarrow> fail MISSING ''path is missing''
       | Inl EACCES \<Rightarrow> fail INVALID ''run directory could not be read''
       | Inl EIO \<Rightarrow>
           ibind (os_lstat_root Y) (\<lambda>l. case l of
               Inl ENOENT \<Rightarrow> fail MISSING ''path is missing''
             | Inl _ \<Rightarrow> fail INVALID ''run directory could not be read''
             | Inr st \<Rightarrow>
                 if st_kind st = Symlink then fail INVALID ''symlinks are not allowed''
                 else fail INVALID ''run directory could not be read''))"

definition stat_at :: "system \<Rightarrow> nat \<Rightarrow> string \<Rightarrow> string \<Rightarrow> stat_result timed" where
  "stat_at Y fd name unreadable =
     ibind (os_stat Y fd name) (\<lambda>r. case r of
         Inr st \<Rightarrow> ireturn st
       | Inl ENOENT \<Rightarrow> fail MISSING ''path is missing''
       | Inl _ \<Rightarrow> fail INVALID unreadable)"

text \<open>\<open>os.fstat\<close> of an open descriptor; an error is not caught.\<close>

definition fstat_at :: "system \<Rightarrow> nat \<Rightarrow> stat_result timed" where
  "fstat_at Y fd =
     ibind (os_fstat Y fd) (\<lambda>r. case r of Inr st \<Rightarrow> ireturn st | Inl _ \<Rightarrow> iraise (OSError ''fstat''))"

definition same_entry :: "stat_result \<Rightarrow> stat_result \<Rightarrow> bool" where
  "same_entry a b \<longleftrightarrow> st_dev a = st_dev b \<and> st_ino a = st_ino b
     \<and> st_kind a = st_kind b \<and> st_perm a = st_perm b"

definition same_file_snapshot :: "stat_result \<Rightarrow> stat_result \<Rightarrow> bool" where
  "same_file_snapshot a b \<longleftrightarrow> st_dev a = st_dev b \<and> st_ino a = st_ino b
     \<and> st_kind a = st_kind b \<and> st_perm a = st_perm b \<and> st_nlink a = st_nlink b
     \<and> st_size a = st_size b \<and> st_mtime_ns a = st_mtime_ns b \<and> st_ctime_ns a = st_ctime_ns b"

definition open_directory_at ::
  "system \<Rightarrow> nat \<Rightarrow> nat \<Rightarrow> string \<Rightarrow> string \<Rightarrow> string \<Rightarrow> (nat \<times> stat_result) timed" where
  "open_directory_at Y held fd name not_directory unreadable =
     ibind (stat_at Y fd name unreadable) (\<lambda>entry_stat.
       if st_kind entry_stat = Symlink then fail INVALID ''symlinks are not allowed''
       else if st_kind entry_stat \<noteq> Directory then fail INVALID not_directory
       else
         ibind (os_open_directory Y held fd name) (\<lambda>r. case r of
             Inl ENOENT \<Rightarrow> fail MISSING ''path is missing''
           | Inl _ \<Rightarrow>
               ibind (stat_at Y fd name unreadable) (\<lambda>current.
                 if st_kind current = Symlink then fail INVALID ''symlinks are not allowed''
                 else fail INVALID unreadable)
           | Inr descriptor \<Rightarrow>
               ibind (fstat_at Y descriptor) (\<lambda>opened.
                 if \<not> same_entry entry_stat opened then fail INVALID ''path changed during validation''
                 else ireturn (descriptor, opened))))"

definition entry_still_matches :: "system \<Rightarrow> retained_entry \<Rightarrow> bool timed" where
  "entry_still_matches Y x =
     ibind (os_stat Y (re_parent_fd x) (re_name x)) (\<lambda>r. case r of
         Inl _ \<Rightarrow> ireturn False
       | Inr current \<Rightarrow>
           ibind (os_fstat Y (re_descriptor x)) (\<lambda>o'. case o' of
               Inl _ \<Rightarrow> ireturn False
             | Inr opened \<Rightarrow>
                 ireturn (same_entry current (re_identity x) \<and> same_entry opened (re_identity x))))"

fun all_entries_still_match :: "system \<Rightarrow> retained_entry list \<Rightarrow> bool timed" where
  "all_entries_still_match Y [] = ireturn True"
| "all_entries_still_match Y (x # xs) =
     ibind (entry_still_matches Y x) (\<lambda>ok. if ok then all_entries_still_match Y xs else ireturn False)"

text \<open>
  The chain of directories below \<open>parent\<close>, with \<open>held\<close> descriptors open. The result is the
  last directory, the number of open descriptors and the retained entries.
\<close>

fun open_directory_chain ::
  "system \<Rightarrow> deadline \<Rightarrow> string \<Rightarrow> string \<Rightarrow> nat \<Rightarrow> retained_entry list \<Rightarrow> nat \<Rightarrow> string list
     \<Rightarrow> (nat \<times> nat \<times> retained_entry list) timed" where
  "open_directory_chain Y dl final unreadable held retained parent [] = ireturn (parent, held, retained)"
| "open_directory_chain Y dl final unreadable held retained parent (name # parts) =
     ibind (check_deadline dl) (\<lambda>_.
     ibind (open_directory_at Y held parent name
         (if parts = [] then final else ''path is not a directory'') unreadable) (\<lambda>(descriptor, opened).
       open_directory_chain Y dl final unreadable (Suc held)
         (retained @ [\<lparr>re_parent_fd = parent, re_name = name, re_descriptor = descriptor,
                       re_identity = opened\<rparr>]) descriptor parts))"

section \<open>Regular files\<close>

definition CHUNK_SIZE :: nat where "CHUNK_SIZE = 1048576"

text \<open>
  The read loop from position \<open>pos\<close>: a read returns between one byte and a chunk of what
  the file holds there, and nothing at its end or at the largest file size.
\<close>

function read_file :: "system \<Rightarrow> deadline \<Rightarrow> string \<Rightarrow> nat \<Rightarrow> nat \<Rightarrow> string timed" where
  "read_file Y dl unreadable fd pos =
     ibind (check_deadline dl) (\<lambda>_.
     ibind (iget (\<lambda>n. Suc (min (sy_chunk Y n) (CHUNK_SIZE - 1)))) (\<lambda>k.
     ibind (syscall Y (\<lambda>s. Inr (take k (drop pos (fs_content s fd))))) (\<lambda>r. case r of
         Inl _ \<Rightarrow> fail INVALID unreadable
       | Inr chunk \<Rightarrow>
           ibind (check_deadline dl) (\<lambda>_.
             if chunk = [] \<or> sy_max_size Y \<le> pos then ireturn []
             else
               ibind (read_file Y dl unreadable fd (pos + length chunk)) (\<lambda>rest.
                 ireturn (chunk @ rest))))))"
  by pat_completeness auto
termination
  by (relation "measure (\<lambda>(Y, dl, u, fd, pos). sy_max_size Y - pos)") (auto simp: diff_less_mono2)

declare read_file.simps [simp del]

definition read_opened_file ::
  "system \<Rightarrow> deadline \<Rightarrow> nat \<Rightarrow> string \<Rightarrow> string \<Rightarrow> nat option \<Rightarrow> stat_result \<Rightarrow> nat
     \<Rightarrow> (validation_result \<times> string option) timed" where
  "read_opened_file Y dl parent name unreadable limit entry_stat descriptor =
     ibind (fstat_at Y descriptor) (\<lambda>before.
       if \<not> same_entry entry_stat before then fail INVALID ''file changed during validation''
       else if st_kind before \<noteq> Regular then fail INVALID ''path is not a regular file''
       else if st_nlink before \<noteq> 1 then fail INVALID ''regular files must have exactly one hard link''
       else if (case limit of None \<Rightarrow> False | Some l \<Rightarrow> l < st_size before) then
         fail INVALID ''regular file exceeds byte limit''
       else
         ibind (read_file Y dl unreadable descriptor 0) (\<lambda>content.
         ibind (check_deadline dl) (\<lambda>_.
         ibind (fstat_at Y descriptor) (\<lambda>after.
           if \<not> same_file_snapshot before after then fail INVALID ''file changed during validation''
           else
             ibind (entry_still_matches Y \<lparr>re_parent_fd = parent, re_name = name,
                 re_descriptor = descriptor, re_identity = after\<rparr>) (\<lambda>ok.
               if \<not> ok then fail INVALID ''path changed during validation''
               else ireturn (valid_result (st_size after) (sy_sha256 Y content) ''valid regular file'',
                 case limit of None \<Rightarrow> None | Some _ \<Rightarrow> Some content))))))"

definition read_regular_file_at ::
  "system \<Rightarrow> deadline \<Rightarrow> nat \<Rightarrow> nat \<Rightarrow> string \<Rightarrow> string \<Rightarrow> nat option
     \<Rightarrow> (validation_result \<times> string option) timed" where
  "read_regular_file_at Y dl held parent name unreadable limit =
     ibind (check_deadline dl) (\<lambda>_.
     ibind (stat_at Y parent name unreadable) (\<lambda>entry_stat.
       if st_kind entry_stat = Symlink then fail INVALID ''symlinks are not allowed''
       else if st_kind entry_stat \<noteq> Regular then fail INVALID ''path is not a regular file''
       else
         ibind (os_open_file Y held parent name) (\<lambda>r. case r of
             Inl ENOENT \<Rightarrow> fail MISSING ''path is missing''
           | Inl EACCES \<Rightarrow> fail INVALID unreadable
           | Inl EIO \<Rightarrow>
               ibind (stat_at Y parent name unreadable) (\<lambda>current.
                 if st_kind current = Symlink then fail INVALID ''symlinks are not allowed''
                 else fail INVALID unreadable)
           | Inr descriptor \<Rightarrow>
               read_opened_file Y dl parent name unreadable limit entry_stat descriptor)))"

definition hash_regular_file_at ::
  "system \<Rightarrow> deadline \<Rightarrow> nat \<Rightarrow> nat \<Rightarrow> string \<Rightarrow> string \<Rightarrow> validation_result timed" where
  "hash_regular_file_at Y dl held parent name unreadable =
     ibind (read_regular_file_at Y dl held parent name unreadable None) (\<lambda>(result, _). ireturn result)"

text \<open>\<open>except _ValidationFailure as failure: return failure.result\<close>\<close>

definition catch_failure :: "'a timed \<Rightarrow> (validation_result \<Rightarrow> 'a) \<Rightarrow> 'a timed" where
  "catch_failure m f = icatch m (\<lambda>e. case e of
       ValidationFailure status detail \<Rightarrow> ireturn (f (failure_result status detail))
     | _ \<Rightarrow> iraise e)"

definition read_walk ::
  "system \<Rightarrow> deadline \<Rightarrow> string \<Rightarrow> nat option \<Rightarrow> (validation_result \<times> string option) timed" where
  "read_walk Y dl path limit =
     ibind (check_deadline dl) (\<lambda>_.
     ibind (relative_parts path) (\<lambda>parts.
     ibind (open_run_directory Y) (\<lambda>root.
     ibind (open_directory_chain Y dl ''path is not a directory'' ''file could not be read'' 1 [] root
         (butlast parts)) (\<lambda>(parent, held, retained).
     ibind (read_regular_file_at Y dl held parent (last parts) ''file could not be read'' limit) (\<lambda>result.
     ibind (check_deadline dl) (\<lambda>_.
     ibind (all_entries_still_match Y retained) (\<lambda>ok.
       if \<not> ok then fail INVALID ''path changed during validation''
       else ireturn result)))))))"

definition validate_regular_file :: "system \<Rightarrow> deadline \<Rightarrow> string \<Rightarrow> validation_result timed" where
  "validate_regular_file Y dl path =
     catch_failure (ibind (read_walk Y dl path None) (\<lambda>(result, _). ireturn result)) id"

definition validate_nonempty_regular_file :: "system \<Rightarrow> deadline \<Rightarrow> string \<Rightarrow> validation_result timed" where
  "validate_nonempty_regular_file Y dl path =
     ibind (validate_regular_file Y dl path) (\<lambda>result.
       if vr_status result = VALID \<and> vr_size_bytes result = VInt 0 then
         ireturn (invalid_result ''regular file is empty'')
       else ireturn result)"

definition read_regular_file_bytes ::
  "system \<Rightarrow> deadline \<Rightarrow> string \<Rightarrow> pyval \<Rightarrow> (validation_result \<times> string option) timed" where
  "read_regular_file_bytes Y dl path max_bytes =
     (if \<not> nonneg_int max_bytes then iraise (ValueError ''max_bytes must be a nonnegative integer'')
      else catch_failure (read_walk Y dl path (Some (nat (int_value max_bytes)))) (\<lambda>r. (r, None)))"

section \<open>Directory trees\<close>

definition tree_file_failure :: "exn \<Rightarrow> exn" where
  "tree_file_failure e = (case e of
       ValidationFailure status detail \<Rightarrow>
         ValidationFailure (validation_value INVALID)
           (if detail = ''regular files must have exactly one hard link'' then
              ''directory tree contains file with multiple hard links''
            else if detail = ''file changed during validation'' then
              ''directory tree changed during validation''
            else if detail = ''path changed during validation'' then ''path changed during validation''
            else ''directory tree contains unreadable file'')
     | _ \<Rightarrow> e)"

text \<open>
  The variables of the tree walk: open descriptors, retained entries, directories still to
  be listed, and the rows found.
\<close>

record tree_walk =
  tw_held :: nat
  tw_retained :: "retained_entry list"
  tw_pending :: "(nat \<times> string list) list"
  tw_rows :: "(string \<times> nat \<times> string) list"

fun join_path :: "string list \<Rightarrow> string" where
  "join_path [] = []"
| "join_path [p] = p"
| "join_path (p # ps) = p @ ''/'' @ join_path ps"

text \<open>\<open>result.size_bytes or 0\<close> and \<open>result.sha256 or ""\<close> of a result.\<close>

definition result_size :: "validation_result \<Rightarrow> nat" where
  "result_size r = nat (int_value (vr_size_bytes r))"

definition result_sha256 :: "validation_result \<Rightarrow> string" where
  "result_sha256 r = (case strict_str (vr_sha256 r) of Some s \<Rightarrow> s | None \<Rightarrow> [])"

definition tree_entry ::
  "system \<Rightarrow> deadline \<Rightarrow> nat \<Rightarrow> string list \<Rightarrow> string \<Rightarrow> tree_walk \<Rightarrow> tree_walk timed" where
  "tree_entry Y dl fd prefix name w =
     ibind (check_deadline dl) (\<lambda>_.
     ibind (stat_at Y fd name ''directory tree could not be read'') (\<lambda>entry_stat.
       if st_kind entry_stat = Symlink then fail INVALID ''symlinks are not allowed''
       else if st_kind entry_stat = Directory then
         ibind (open_directory_at Y (tw_held w) fd name ''directory tree contains a non-regular file''
             ''directory tree could not be read'') (\<lambda>(child, opened).
           ireturn (w\<lparr>tw_held := Suc (tw_held w),
             tw_retained := tw_retained w @ [\<lparr>re_parent_fd = fd, re_name = name,
                 re_descriptor = child, re_identity = opened\<rparr>],
             tw_pending := tw_pending w @ [(child, prefix @ [name])]\<rparr>))
       else if st_kind entry_stat \<noteq> Regular then
         fail INVALID ''directory tree contains a non-regular file''
       else
         ibind (icatch (hash_regular_file_at Y dl (tw_held w) fd name
               ''directory tree contains unreadable file'')
             (\<lambda>e. iraise (tree_file_failure e))) (\<lambda>result.
           ireturn (w\<lparr>tw_rows := tw_rows w
             @ [(join_path (prefix @ [name]), result_size result, result_sha256 result)]\<rparr>))))"

fun tree_entries ::
  "system \<Rightarrow> deadline \<Rightarrow> nat \<Rightarrow> string list \<Rightarrow> string list \<Rightarrow> tree_walk \<Rightarrow> tree_walk timed" where
  "tree_entries Y dl fd prefix [] w = ireturn w"
| "tree_entries Y dl fd prefix (name # names) w =
     ibind (tree_entry Y dl fd prefix name w) (tree_entries Y dl fd prefix names)"

text \<open>
  The loop \<open>while pending\<close>; \<open>pop\<close> takes the last directory. Every directory holds an open
  descriptor, so the descriptor limit is enough fuel.
\<close>

fun tree_loop :: "system \<Rightarrow> deadline \<Rightarrow> nat \<Rightarrow> tree_walk \<Rightarrow> tree_walk timed" where
  "tree_loop Y dl fuel w =
     (if tw_pending w = [] then ireturn w
      else case fuel of
        0 \<Rightarrow> iraise (OtherException ''out of fuel'')
      | Suc fuel' \<Rightarrow>
          ibind (check_deadline dl) (\<lambda>_.
          ibind (syscall Y (\<lambda>s. Inr (map fst (fs_entries s (fst (last (tw_pending w))))))) (\<lambda>r. case r of
              Inl _ \<Rightarrow> fail INVALID ''directory tree could not be read''
            | Inr names \<Rightarrow>
                ibind (tree_entries Y dl (fst (last (tw_pending w))) (snd (last (tw_pending w))) (sort names)
                    (w\<lparr>tw_pending := butlast (tw_pending w)\<rparr>)) (\<lambda>w'.
                  tree_loop Y dl fuel' w'))))"

declare tree_loop.simps [simp del]

definition row_text :: "string \<times> nat \<times> string \<Rightarrow> string" where
  "row_text row = (case row of (path, bytes, digest) \<Rightarrow>
     path @ [char_of (0 :: nat)] @ str_int (int bytes) @ [char_of (0 :: nat)] @ digest @ [char_of (10 :: nat)])"

text \<open>The bytes of the tree digest, one deadline check per row.\<close>

fun digest_rows :: "deadline \<Rightarrow> (string \<times> nat \<times> string) list \<Rightarrow> (string \<times> nat) timed" where
  "digest_rows dl [] = ireturn ([], 0)"
| "digest_rows dl (row # rows) =
     ibind (check_deadline dl) (\<lambda>_.
     ibind (digest_rows dl rows) (\<lambda>(txt', total).
       ireturn (utf8_encode (row_text row) @ txt', fst (snd row) + total)))"

definition validate_tree :: "system \<Rightarrow> deadline \<Rightarrow> string \<Rightarrow> validation_result timed" where
  "validate_tree Y dl path =
     catch_failure
       (ibind (check_deadline dl) (\<lambda>_.
        ibind (relative_parts path) (\<lambda>parts.
        ibind (open_run_directory Y) (\<lambda>root.
        ibind (open_directory_chain Y dl ''path is not a directory'' ''directory tree could not be read''
            1 [] root parts) (\<lambda>(tree, held, retained).
        ibind (tree_loop Y dl (sy_max_fds Y)
            \<lparr>tw_held = held, tw_retained = retained, tw_pending = [(tree, [])], tw_rows = []\<rparr>) (\<lambda>w.
          if tw_rows w = [] then fail INVALID ''directory tree is empty''
          else
            ibind (all_entries_still_match Y (tw_retained w)) (\<lambda>ok.
              if \<not> ok then fail INVALID ''path changed during validation''
              else
                ibind (digest_rows dl (sort (tw_rows w))) (\<lambda>(txt', total).
                ibind (check_deadline dl) (\<lambda>_.
                  ireturn (valid_result total (sy_sha256 Y txt') ''valid directory tree''))))))))))
       id"

text \<open>
  A failing \<open>zstd\<close> raises; the handler of the source catches \<open>OSError\<close>, and with it an
  expired deadline.
\<close>

definition validate_gazebo_state :: "system \<Rightarrow> deadline \<Rightarrow> string \<Rightarrow> validation_result timed" where
  "validate_gazebo_state Y dl path =
     ibind (validate_tree Y dl path) (\<lambda>tree.
       if vr_status tree \<noteq> VALID then ireturn tree
       else
         ibind (validate_nonempty_regular_file Y dl (path @ ''/state.tlog.zst'')) (\<lambda>state.
           if vr_status state \<noteq> VALID then
             ireturn (invalid_result ''gazebo state requires valid state.tlog.zst'')
           else
             icatch
               (ibind (check_deadline dl) (\<lambda>_.
                ibind (iget (sy_zstd_ok Y)) (\<lambda>ok.
                  if \<not> ok then iraise (OSError ''zstd'')
                  else ibind (check_deadline dl) (\<lambda>_. ireturn tree))))
               (\<lambda>e. if is_OSError e then
                      ireturn (invalid_result ''gazebo state requires valid state.tlog.zst'')
                    else iraise e)))"

end
