(* ===== verification/Artifact_Session.thy ===== *)
theory Artifact_Session
  imports Manifest_Commit Artifact_Validation
begin

text \<open>
  Finalization of a run, \<open>ArtifactSession\<close> of \<open>artifacts/session.py\<close>: the validator
  registry, the records of the required and optional artifacts under a deadline, the
  terminal status they allow, and the commit of the manifest.

  A validator is a timed computation that returns a \<open>ValidationResult\<close> (\<open>None\<close> stands for
  any other object); the four default ones of \<open>validation.py\<close> are arguments of the
  constructor. What the optional-artifact scan sees of the run directory is a \<open>run_tree\<close>.
\<close>

section \<open>Data\<close>

type_synonym validator = "string \<Rightarrow> validation_result option timed"

record finalization_input =
  fi_run_id :: pyval
  fi_requested_terminal :: pyval
  fi_reason :: pyval
  fi_sim_start_ns :: "int option"
  fi_sim_end_ns :: "int option"
  fi_wall_started_at :: wall_stamp
  fi_wall_ended_at :: wall_stamp
  fi_source_revisions :: "source_revision list"
  fi_image_digests :: "image_digest list"
  fi_configuration_records :: "configuration_record list"
  fi_achieved_score :: pyval
  fi_maximum_available_score :: pyval
  fi_scoring_checksum :: pyval
  fi_evidence_paths :: "string list"

record finalization_result =
  fz_path :: string
  fz_run_id :: pyval
  fz_terminal_status :: pyval
  fz_reason :: pyval

definition finalization_post_init :: "finalization_result \<Rightarrow> finalization_result result" where
  "finalization_post_init r =
     (if \<not> nonempty_str (fz_run_id r) then Inl (ValueError ''run_id must be nonempty'')
      else if \<not> hashable (fz_terminal_status r) then Inl (TypeError ''unhashable type'')
      else if fz_terminal_status r \<notin> VStr ` set TERMINAL_STATUSES then
        Inl (ValueError ''terminal_status is invalid'')
      else if strict_str (fz_reason r) = None then Inl (TypeError ''reason must be a string'')
      else Inr r)"

text \<open>
  What the scan for optional artifacts finds, by relative path: the autotune parameters,
  the rows of \<open>os.walk\<close> on \<open>logs/docker\<close>, and every \<open>*.partial\<close> entry with its \<open>lstat\<close>
  (\<open>None\<close> when that raises, otherwise whether it is a directory).
\<close>

record run_tree =
  rt_autotune_exists :: bool
  rt_docker_walk :: "(string \<times> string list) list"
  rt_partials :: "(string \<times> bool option) list"

section \<open>The validator registry\<close>

record default_validators =
  dv_regular_file :: "deadline \<Rightarrow> validator"
  dv_nonempty_regular_file :: "deadline \<Rightarrow> validator"
  dv_tree :: "deadline \<Rightarrow> validator"
  dv_gazebo_state :: "deadline \<Rightarrow> validator"

record artifact_session =
  se_deadline :: deadline
  se_commit_deadline :: deadline
  se_validators :: validator
  se_regular_file :: validator

definition default_validator :: "default_validators \<Rightarrow> deadline \<Rightarrow> bool \<Rightarrow> validator" where
  "default_validator D dl physical path =
     (if physical \<and> path = ''gazebo/server.log'' then dv_nonempty_regular_file D dl path
      else if physical \<and> path = ''gazebo/state'' then dv_gazebo_state D dl path
      else if path \<in> set REQUIRED_DIRECTORY_PATHS then dv_tree D dl path
      else dv_regular_file D dl path)"

definition optional_deadline :: "deadline option \<Rightarrow> deadline" where
  "optional_deadline d = (case d of None \<Rightarrow> no_deadline | Some dl \<Rightarrow> dl)"

definition ArtifactSession ::
  "default_validators \<Rightarrow> (string \<times> validator) list option \<Rightarrow> deadline option \<Rightarrow> deadline option
     \<Rightarrow> pyval \<Rightarrow> artifact_session result" where
  "ArtifactSession D validators deadline_check commit_deadline_check physical_gazebo =
     (case strict_bool physical_gazebo of
        None \<Rightarrow> Inl (TypeError ''physical_gazebo must be a boolean'')
      | Some physical \<Rightarrow>
          (let dl = optional_deadline deadline_check;
               given = (case validators of None \<Rightarrow> [] | Some vs \<Rightarrow> vs)
           in
             if \<not> fst ` set given \<subseteq> set REQUIRED_ARTIFACT_PATHS then
               Inl (ValueError ''validators contain unknown required paths'')
             else Inr \<lparr>se_deadline = dl,
               se_commit_deadline = (case commit_deadline_check of None \<Rightarrow> dl | Some c \<Rightarrow> c),
               se_validators = (\<lambda>path. case map_of given path of
                   Some v \<Rightarrow> v path | None \<Rightarrow> default_validator D dl physical path),
               se_regular_file = dv_regular_file D dl\<rparr>))"

section \<open>Records\<close>

text \<open>\<open>try: m except TimeoutError: h\<close>, then \<open>k\<close> on the value of \<open>m\<close>.\<close>

definition ttry :: "'a timed \<Rightarrow> 'b timed \<Rightarrow> ('a \<Rightarrow> 'b timed) \<Rightarrow> 'b timed" where
  "ttry m h k = (\<lambda>n. case m n of
       (Inr x, n') \<Rightarrow> k x n'
     | (Inl e, n') \<Rightarrow> if e = TimeoutError then h n' else (Inl e, n'))"

definition session_record :: "string \<Rightarrow> validation_result option \<Rightarrow> artifact_record result" where
  "session_record path r =
     (case r of
        None \<Rightarrow> Inl (TypeError ''validator must return ValidationResult'')
      | Some v \<Rightarrow> Inr \<lparr>af_relative_path = VStr path, af_size_bytes = vr_size_bytes v,
          af_sha256 = vr_sha256 v, af_validation = VStr (validation_value (vr_status v)),
          af_detail = vr_detail v\<rparr>)"

definition exhausted_result :: "string \<Rightarrow> validation_result" where
  "exhausted_result detail =
     \<lparr>vr_status = INVALID, vr_size_bytes = VNone, vr_sha256 = VNone, vr_detail = VStr detail\<rparr>"

text \<open>One required path: the result of its validator and whether the deadline is exhausted.\<close>

definition required_result ::
  "deadline \<Rightarrow> validator \<Rightarrow> bool \<Rightarrow> string \<Rightarrow> (validation_result option \<times> bool) timed" where
  "required_result dl V exhausted path =
     (if exhausted then
        treturn (Inr (Some (exhausted_result ''finalization deadline exhausted before validation''), True))
      else
        ttry (tbind (check_deadline dl) (\<lambda>_. tbind (V path) (\<lambda>r.
                tbind (check_deadline dl) (\<lambda>_. treturn (Inr r)))))
          (treturn (Inr (Some (exhausted_result ''finalization deadline exhausted during validation''), True)))
          (\<lambda>r. treturn (Inr (r, False))))"

fun required_records :: "deadline \<Rightarrow> validator \<Rightarrow> bool \<Rightarrow> string list \<Rightarrow> artifact_record list timed" where
  "required_records dl V exhausted [] = treturn (Inr [])"
| "required_records dl V exhausted (path # paths) =
     tbind (required_result dl V exhausted path) (\<lambda>(r, exhausted').
     tbind (treturn (session_record path r)) (\<lambda>x.
     tbind (required_records dl V exhausted' paths) (\<lambda>xs. treturn (Inr (x # xs)))))"

fun walk_files :: "deadline \<Rightarrow> string \<Rightarrow> string list \<Rightarrow> string list timed" where
  "walk_files dl directory [] = treturn (Inr [])"
| "walk_files dl directory (name # names) =
     tbind (check_deadline dl) (\<lambda>_.
     tbind (walk_files dl directory names) (\<lambda>found.
       treturn (Inr ((directory @ ''/'' @ name) # found))))"

fun walk_directories :: "deadline \<Rightarrow> (string \<times> string list) list \<Rightarrow> string list timed" where
  "walk_directories dl [] = treturn (Inr [])"
| "walk_directories dl ((directory, names) # rows) =
     tbind (check_deadline dl) (\<lambda>_.
     tbind (walk_files dl directory (sort names)) (\<lambda>found.
     tbind (walk_directories dl rows) (\<lambda>more. treturn (Inr (found @ more)))))"

definition partial_found :: "string \<Rightarrow> bool option \<Rightarrow> bool" where
  "partial_found path is_dir \<longleftrightarrow>
     \<not> (posix_parts path \<noteq> [] \<and> hd (posix_parts path) \<in> {''.control'', ''.status''})
     \<and> is_dir = Some False"

fun scan_partials :: "deadline \<Rightarrow> (string \<times> bool option) list \<Rightarrow> string list timed" where
  "scan_partials dl [] = treturn (Inr [])"
| "scan_partials dl ((path, is_dir) # rest) =
     tbind (check_deadline dl) (\<lambda>_.
     tbind (scan_partials dl rest) (\<lambda>found.
       treturn (Inr (if partial_found path is_dir then path # found else found))))"

definition starts_with :: "string \<Rightarrow> string \<Rightarrow> bool" where
  "starts_with prefix s \<longleftrightarrow> take (length prefix) s = prefix"

definition optional_path :: "string \<Rightarrow> bool" where
  "optional_path path \<longleftrightarrow> path \<noteq> ''manifest.json'' \<and> path \<notin> set REQUIRED_ARTIFACT_PATHS
     \<and> \<not> starts_with ''.control/'' path \<and> \<not> starts_with ''.status/'' path"

definition optional_paths :: "deadline \<Rightarrow> run_tree \<Rightarrow> string list timed" where
  "optional_paths dl T =
     tbind (walk_directories dl (rt_docker_walk T)) (\<lambda>walked.
     tbind (scan_partials dl (rt_partials T)) (\<lambda>partials.
       treturn (Inr (filter optional_path (sort (remdups
         ((if rt_autotune_exists T then [''ardupilot_sitl/autotune-roll.parm''] else [])
          @ walked @ partials)))))))"

text \<open>The loop over the optional paths; a \<open>TimeoutError\<close> keeps the records so far.\<close>

fun collect_optional :: "deadline \<Rightarrow> validator \<Rightarrow> artifact_record list \<Rightarrow> string list \<Rightarrow> artifact_record list timed" where
  "collect_optional dl V records [] = treturn (Inr records)"
| "collect_optional dl V records (path # paths) =
     ttry (tbind (check_deadline dl) (\<lambda>_. tbind (V path) (\<lambda>r. treturn (session_record path r))))
       (treturn (Inr records))
       (\<lambda>x. collect_optional dl V (records @ [x]) paths)"

definition optional_records :: "deadline \<Rightarrow> validator \<Rightarrow> run_tree \<Rightarrow> artifact_record list timed" where
  "optional_records dl V T =
     ttry (optional_paths dl T) (treturn (Inr [])) (collect_optional dl V [])"

section \<open>Finalization\<close>

definition int_or_none :: "int option \<Rightarrow> pyval" where
  "int_or_none x = (case x of None \<Rightarrow> VNone | Some i \<Rightarrow> VInt i)"

definition request_simulation :: "finalization_input \<Rightarrow> simulation_timing" where
  "request_simulation q =
     \<lparr>st_start_ns = int_or_none (fi_sim_start_ns q), st_end_ns = int_or_none (fi_sim_end_ns q),
      st_duration_ns = (case (fi_sim_start_ns q, fi_sim_end_ns q) of
         (Some a, Some b) \<Rightarrow> VInt (b - a) | _ \<Rightarrow> VNone)\<rparr>"

fun wall_difference :: "wall_stamp \<Rightarrow> wall_stamp \<Rightarrow> pyfloat" where
  "wall_difference (Aware b) (Aware a) = total_seconds (b - a)"
| "wall_difference (Naive b) (Naive a) = total_seconds (b - a)"
| "wall_difference _ _ = NaN"

definition request_wall :: "finalization_input \<Rightarrow> wall_timing" where
  "request_wall q =
     \<lparr>wt_started_at = fi_wall_started_at q, wt_ended_at = fi_wall_ended_at q,
      wt_duration_seconds = VFloat (wall_difference (fi_wall_ended_at q) (fi_wall_started_at q))\<rparr>"

definition path_string :: "artifact_record \<Rightarrow> string" where
  "path_string x = (case strict_str (af_relative_path x) of Some s \<Rightarrow> s | None \<Rightarrow> [])"

definition incomplete_of :: "artifact_record list \<Rightarrow> string list" where
  "incomplete_of required =
     map path_string (filter (\<lambda>x. af_validation x \<noteq> VStr (validation_value VALID)) required)"

definition effective_terminal :: "pyval \<Rightarrow> string list \<Rightarrow> pyval" where
  "effective_terminal requested incomplete =
     (if requested = VStr ''COMPLETED'' \<and> incomplete \<noteq> [] then VStr ''FAILED'' else requested)"

definition session_manifest ::
  "finalization_input \<Rightarrow> artifact_record list \<Rightarrow> artifact_record list \<Rightarrow> run_manifest" where
  "session_manifest q required optional =
     (let incomplete = incomplete_of required in
      \<lparr>rm_manifest_run_id = fi_run_id q,
       rm_terminal_status = effective_terminal (fi_requested_terminal q) incomplete,
       rm_reason = fi_reason q, rm_simulation_timing = request_simulation q,
       rm_wall_timing = request_wall q, rm_source_revisions = fi_source_revisions q,
       rm_image_digests = fi_image_digests q, rm_configurations = fi_configuration_records q,
       rm_artifacts = required @ optional, rm_incomplete_paths = incomplete,
       rm_achieved_score = fi_achieved_score q,
       rm_maximum_available_score = fi_maximum_available_score q,
       rm_scoring_checksum = fi_scoring_checksum q, rm_evidence_paths = fi_evidence_paths q,
       rm_schema_version = VInt 1\<rparr>)"

definition finalize_with_result ::
  "json_codec \<Rightarrow> os_env \<Rightarrow> artifact_session \<Rightarrow> run_tree \<Rightarrow> finalization_input
     \<Rightarrow> (commit_world, finalization_result) io" where
  "finalize_with_result J E S T q =
     ibind (timed_io (required_records (se_deadline S) (se_validators S) False REQUIRED_ARTIFACT_PATHS)) (\<lambda>required.
     ibind (timed_io (optional_records (se_deadline S) (se_regular_file S) T)) (\<lambda>optional.
       let m = session_manifest q required optional in
       ibind (timed_io (validate_manifest (se_commit_deadline S) m)) (\<lambda>_.
       ibind (write_manifest_atomic J (E\<lparr>os_deadline := se_commit_deadline S\<rparr>) m) (\<lambda>_.
         timed_io (treturn (finalization_post_init
           \<lparr>fz_path = ''manifest.json'', fz_run_id = rm_manifest_run_id m,
            fz_terminal_status = rm_terminal_status m, fz_reason = rm_reason m\<rparr>))))))"

definition finalize :: "json_codec \<Rightarrow> os_env \<Rightarrow> artifact_session \<Rightarrow> run_tree \<Rightarrow> finalization_input
     \<Rightarrow> (commit_world, string) io" where
  "finalize J E S T q = ibind (finalize_with_result J E S T q) (\<lambda>r. ireturn (fz_path r))"

section \<open>build\_manifest\<close>

text \<open>
  The compatibility builder of \<open>manifest.py\<close>, over the validators without a deadline; the
  start of the epoch is instant 0.
\<close>

definition manifest_record :: "default_validators \<Rightarrow> string \<Rightarrow> artifact_record timed" where
  "manifest_record D path =
     tbind ((if path \<in> set REQUIRED_DIRECTORY_PATHS then dv_tree D else dv_regular_file D) no_deadline path)
       (\<lambda>r. treturn (session_record path r))"

fun manifest_records :: "default_validators \<Rightarrow> string list \<Rightarrow> artifact_record list timed" where
  "manifest_records D [] = treturn (Inr [])"
| "manifest_records D (path # paths) =
     tbind (manifest_record D path) (\<lambda>x.
     tbind (manifest_records D paths) (\<lambda>xs. treturn (Inr (x # xs))))"

definition build_manifest ::
  "default_validators \<Rightarrow> pyval \<Rightarrow> pyval \<Rightarrow> pyval \<Rightarrow> pyval \<Rightarrow> pyval \<Rightarrow> pyval \<Rightarrow> string list \<Rightarrow> run_manifest timed" where
  "build_manifest D run_id terminal_status reason achieved maximum checksum evidence =
     (if \<not> hashable terminal_status then treturn (Inl (TypeError ''unhashable type''))
      else if terminal_status \<notin> VStr ` set TERMINAL_STATUSES then
        treturn (Inl (ValueError ''terminal_status must be one of ['ABORTED', 'COMPLETED', 'FAILED']''))
      else
        tbind (manifest_records D REQUIRED_ARTIFACT_PATHS) (\<lambda>records.
          let incomplete = incomplete_of records;
              m = \<lparr>rm_manifest_run_id = run_id,
                   rm_terminal_status = effective_terminal terminal_status incomplete,
                   rm_reason = reason,
                   rm_simulation_timing = \<lparr>st_start_ns = VNone, st_end_ns = VNone, st_duration_ns = VNone\<rparr>,
                   rm_wall_timing = \<lparr>wt_started_at = Aware 0, wt_ended_at = Aware 0,
                                     wt_duration_seconds = VFloat (Fin 0)\<rparr>,
                   rm_source_revisions = [], rm_image_digests = [], rm_configurations = [],
                   rm_artifacts = records, rm_incomplete_paths = incomplete,
                   rm_achieved_score = achieved, rm_maximum_available_score = maximum,
                   rm_scoring_checksum = checksum, rm_evidence_paths = evidence,
                   rm_schema_version = VInt 1\<rparr>
          in tbind (validate_manifest no_deadline m) (\<lambda>_. treturn (Inr m))))"

section \<open>What a committed manifest vouches for\<close>

text \<open>The record \<open>x\<close> of path \<open>p\<close> is valid only if the validator of \<open>p\<close> said so.\<close>

definition vouched :: "validator \<Rightarrow> string \<Rightarrow> artifact_record \<Rightarrow> bool" where
  "vouched V p x \<longleftrightarrow>
     (\<exists>n n' r. V p n = (Inr (Some r), n') \<and> vr_status r = VALID
        \<and> af_size_bytes x = vr_size_bytes r \<and> af_sha256 x = vr_sha256 r)"

lemma validation_value_valid: "validation_value s = ''valid'' \<longleftrightarrow> s = VALID"
  by (cases s) simp_all

lemma session_record_eq_Inr:
  "session_record p r = Inr x \<longleftrightarrow>
     (\<exists>v. r = Some v \<and> x = \<lparr>af_relative_path = VStr p, af_size_bytes = vr_size_bytes v,
        af_sha256 = vr_sha256 v, af_validation = VStr (validation_value (vr_status v)), af_detail = vr_detail v\<rparr>)"
  by (auto simp: session_record_def split: option.splits)

lemma ttry_eq_Inr:
  "ttry m h k n = (Inr y, n'') \<longleftrightarrow>
     (\<exists>x n'. m n = (Inr x, n') \<and> k x n' = (Inr y, n''))
     \<or> (\<exists>n'. m n = (Inl TimeoutError, n') \<and> h n' = (Inr y, n''))"
  by (auto simp: ttry_def split: prod.splits sum.splits)

lemma required_result_eq_Inr:
  assumes "required_result dl V ex p n = (Inr (r, ex'), n')"
  shows "(\<exists>v. r = Some v \<and> vr_status v = INVALID) \<or> (\<exists>k k'. V p k = (Inr r, k'))"
  using assms by (auto simp: required_result_def exhausted_result_def ttry_eq_Inr split: if_splits)

lemma required_records_vouched:
  "required_records dl V ex ps n = (Inr xs, n') \<Longrightarrow>
   list_all2 (\<lambda>p x. af_relative_path x = VStr p \<and> (af_validation x = VStr ''valid'' \<longrightarrow> vouched V p x)) ps xs"
proof (induction ps arbitrary: ex n xs n')
  case (Cons p ps)
  from Cons.prems obtain r ex' n1 x rest n2 where
    r: "required_result dl V ex p n = (Inr (r, ex'), n1)" and x: "session_record p r = Inr x"
    and rest: "required_records dl V ex' ps n1 = (Inr rest, n2)" and xs: "xs = x # rest"
    by auto
  have "af_validation x = VStr ''valid'' \<longrightarrow> vouched V p x"
    using required_result_eq_Inr [OF r] x
    by (fastforce simp: session_record_eq_Inr vouched_def validation_value_valid)
  then show ?case
    using Cons.IH [OF rest] x xs by (auto simp: session_record_eq_Inr)
qed simp

text \<open>The records of a run that finalizes as \<open>COMPLETED\<close>.\<close>

definition completion_vouched :: "validator \<Rightarrow> run_manifest \<Rightarrow> bool" where
  "completion_vouched V m \<longleftrightarrow>
     list_all (\<lambda>p. \<exists>x\<in>set (rm_artifacts m). af_relative_path x = VStr p \<and> artifact_valid x \<and> vouched V p x)
       REQUIRED_ARTIFACT_PATHS"

lemma completed_all_valid:
  assumes "manifest_ok m" "rm_terminal_status m = VStr ''COMPLETED''" "p \<in> set REQUIRED_ARTIFACT_PATHS"
  shows "recorded_valid (rm_artifacts m) p"
proof -
  have "rm_incomplete_paths m = []"
    and "rm_incomplete_paths m = filter (\<lambda>p. \<not> recorded_valid (rm_artifacts m) p) REQUIRED_ARTIFACT_PATHS"
    using assms(1,2) unfolding manifest_ok_def by (blast, blast)
  then have "filter (\<lambda>p. \<not> recorded_valid (rm_artifacts m) p) REQUIRED_ARTIFACT_PATHS = []"
    by simp
  then show ?thesis
    using assms(3) by (auto simp: filter_empty_conv)
qed

lemma manifest_paths_distinct: "manifest_ok m \<Longrightarrow> distinct (map af_relative_path (rm_artifacts m))"
  by (simp add: manifest_ok_def)

lemma completed_is_vouched:
  assumes req: "list_all2 (\<lambda>p x. af_relative_path x = VStr p \<and> (af_validation x = VStr ''valid'' \<longrightarrow> vouched V p x))
      REQUIRED_ARTIFACT_PATHS required"
    and ok: "manifest_ok (session_manifest q required optional)"
    and completed: "rm_terminal_status (session_manifest q required optional) = VStr ''COMPLETED''"
  shows "completion_vouched V (session_manifest q required optional)"
proof -
  let ?m = "session_manifest q required optional"
  have arts: "rm_artifacts ?m = required @ optional"
    by (simp add: session_manifest_def Let_def)
  have "\<exists>x\<in>set (rm_artifacts ?m). af_relative_path x = VStr p \<and> artifact_valid x \<and> vouched V p x"
    if p: "p \<in> set REQUIRED_ARTIFACT_PATHS" for p
  proof -
    have "recorded_valid (rm_artifacts ?m) p"
      using ok completed p by (rule completed_all_valid)
    then obtain x where x: "x \<in> set (rm_artifacts ?m)" "af_relative_path x = VStr p" "artifact_valid x"
      by (auto simp: recorded_valid_def)
    obtain i where i: "i < length REQUIRED_ARTIFACT_PATHS" "REQUIRED_ARTIFACT_PATHS ! i = p"
      using p by (auto simp: in_set_conv_nth)
    obtain x' where x': "x' \<in> set required" "af_relative_path x' = VStr p"
        "af_validation x' = VStr ''valid'' \<longrightarrow> vouched V p x'"
      using list_all2_nthD [OF req i(1)] list_all2_lengthD [OF req] i by (metis nth_mem)
    have "x = x'"
    proof (rule inj_onD)
      show "inj_on af_relative_path (set (rm_artifacts ?m))"
        using manifest_paths_distinct [OF ok] by (simp add: distinct_map)
      show "x' \<in> set (rm_artifacts ?m)"
        using x'(1) arts by simp
    qed (use x(1,2) x'(2) in simp_all)
    then show ?thesis
      using x x'(3) by (auto simp: artifact_valid_def)
  qed
  then show ?thesis
    by (simp add: completion_vouched_def list_all_iff)
qed

lemma finalize_with_result_eq_Inr:
  assumes "finalize_with_result J E S T q w = (Inr res, w')"
  obtains required optional n n' w1 where
    "required_records (se_deadline S) (se_validators S) False REQUIRED_ARTIFACT_PATHS n = (Inr required, n')"
    "write_manifest_atomic J (E\<lparr>os_deadline := se_commit_deadline S\<rparr>) (session_manifest q required optional) w1
       = (Inr (), w')" "cw_target w1 = cw_target w"
    "res = \<lparr>fz_path = ''manifest.json'', fz_run_id = fi_run_id q,
       fz_terminal_status = rm_terminal_status (session_manifest q required optional), fz_reason = fi_reason q\<rparr>"
  using assms
  by (auto simp: finalize_with_result_def Let_def timed_io_eq_Inr finalization_post_init_def
      session_manifest_def split: if_splits)

text \<open>
  C4. Finalization fails closed. A finalization that returns has left \<open>manifest.json\<close> with
  the bytes of a well-formed manifest whose terminal status it reports: the requested one,
  or \<open>FAILED\<close> when \<open>COMPLETED\<close> was requested and a required artifact is incomplete. If
  \<open>COMPLETED\<close> is reported, it was requested, and for every required artifact its validator
  returned \<open>VALID\<close> with the size and digest the manifest records.
\<close>

theorem finalization_fails_closed:
  assumes "finalize_with_result J E S T q w = (Inr res, w')"
  shows "\<exists>m. cw_target w' = File (manifest_bytes J m) \<and> manifest_ok m
     \<and> fz_run_id res = fi_run_id q \<and> fz_reason res = fi_reason q
     \<and> fz_terminal_status res = rm_terminal_status m
     \<and> rm_terminal_status m = effective_terminal (fi_requested_terminal q) (rm_incomplete_paths m)
     \<and> (fz_terminal_status res = VStr ''COMPLETED'' \<longrightarrow>
          fi_requested_terminal q = VStr ''COMPLETED'' \<and> completion_vouched (se_validators S) m)"
proof -
  obtain required optional n n' w1 where
    req: "required_records (se_deadline S) (se_validators S) False REQUIRED_ARTIFACT_PATHS n = (Inr required, n')"
    and commit: "write_manifest_atomic J (E\<lparr>os_deadline := se_commit_deadline S\<rparr>)
      (session_manifest q required optional) w1 = (Inr (), w')"
    and res: "res = \<lparr>fz_path = ''manifest.json'', fz_run_id = fi_run_id q,
       fz_terminal_status = rm_terminal_status (session_manifest q required optional), fz_reason = fi_reason q\<rparr>"
    by (rule finalize_with_result_eq_Inr [OF assms])
  let ?m = "session_manifest q required optional"
  have ok: "manifest_ok ?m" "cw_target w' = File (manifest_bytes J ?m)"
    using wpD(1) [OF wp_write_manifest_atomic commit] by (simp_all add: committed_def)
  have "rm_terminal_status ?m = effective_terminal (fi_requested_terminal q) (rm_incomplete_paths ?m)"
    by (simp add: session_manifest_def Let_def)
  moreover have "fi_requested_terminal q = VStr ''COMPLETED'' \<and> completion_vouched (se_validators S) ?m"
    if "rm_terminal_status ?m = VStr ''COMPLETED''"
    using completed_is_vouched [OF required_records_vouched [OF req] ok(1) that] that
    by (auto simp: session_manifest_def effective_terminal_def Let_def split: if_splits)
  ultimately show ?thesis
    using ok res by (intro exI [of _ ?m]) simp
qed

end
