(* ===== verification/Artifact_Validation_Props.thy ===== *)
theory Artifact_Validation_Props
  imports Artifact_Validation
begin

text \<open>
  What the filesystem validators guarantee: their results are well formed and the loops
  end in every environment; a valid file was pinned down while it was read; and on a
  filesystem that does not change they compute the reference result.
\<close>

section \<open>Weakest preconditions of system calls\<close>

lemma wp_check_deadline:
  "wp (check_deadline dl) Q X = (\<lambda>n. case dl n of None \<Rightarrow> Q () (Suc n) | Some e \<Rightarrow> X e (Suc n))"
  by (simp add: wp_def check_deadline_def fun_eq_iff split: option.splits)

lemma wp_syscall [simp]:
  "wp (syscall Y f) Q X =
     (\<lambda>n. Q (case sy_fault Y n of Some e \<Rightarrow> Inl e | None \<Rightarrow> f (sy_fs Y n)) (Suc n))"
  by (simp add: wp_def syscall_def fun_eq_iff)

lemma wp_fail [simp]: "wp (fail status detail) Q X = X (ValidationFailure (validation_value status) detail)"
  by (simp add: fail_def)

section \<open>Well-formed results\<close>

definition result_ok :: "validation_result \<Rightarrow> bool" where
  "result_ok r \<longleftrightarrow> nonempty_str (vr_detail r) \<and>
     (if vr_status r = VALID then nonneg_int (vr_size_bytes r) \<and> lowercase_digest (vr_sha256 r)
      else vr_size_bytes r = VNone \<and> vr_sha256 r = VNone)"

text \<open>
  What is relied on of the outside: a deadline check raises \<open>TimeoutError\<close> only, and
  \<open>hexdigest\<close> gives 64 lowercase hexadecimal digits.
\<close>

definition sane :: "system \<times> deadline \<Rightarrow> bool" where
  "sane c \<longleftrightarrow> (\<forall>n. snd c n = None \<or> snd c n = Some TimeoutError)
     \<and> (\<forall>s. lowercase_digest (VStr (sy_sha256 (fst c) s)))"

lemma saneD:
  assumes "sane (Y, dl)"
  shows "dl n = Some e \<Longrightarrow> e = TimeoutError" "lowercase_digest (VStr (sy_sha256 Y s))"
  using assms by (auto simp: sane_def dest: spec [of _ n])

lemma wp_sane_check:
  "sane (Y, dl) \<Longrightarrow> Q () (Suc n) \<Longrightarrow> X TimeoutError (Suc n) \<Longrightarrow> wp (check_deadline dl) Q X n"
  by (auto simp: wp_check_deadline dest: saneD(1) split: option.split)

text \<open>The exceptions inside a validator, and those it lets through.\<close>

definition faulty :: "system \<Rightarrow> bool" where
  "faulty Y \<longleftrightarrow> (\<exists>n. sy_fault Y n \<noteq> None)"

lemma faultyI: "sy_fault Y n = Some e \<Longrightarrow> faulty Y"
  by (auto simp: faulty_def)

definition walk_exn :: "system \<Rightarrow> exn \<Rightarrow> bool" where
  "walk_exn Y e \<longleftrightarrow> e = TimeoutError \<or> e = OSError ''fstat'' \<and> faulty Y
     \<or> (\<exists>status detail. e = ValidationFailure status detail \<and> detail \<noteq> [])"

definition escapes :: "system \<Rightarrow> exn \<Rightarrow> bool" where
  "escapes Y e \<longleftrightarrow> e = TimeoutError \<or> e = OSError ''fstat'' \<and> faulty Y"

lemma walk_exn_simps [simp]:
  "walk_exn Y TimeoutError" "walk_exn Y (OSError ''fstat'') \<longleftrightarrow> faulty Y"
  "walk_exn Y (ValidationFailure status detail) \<longleftrightarrow> detail \<noteq> []"
  by (auto simp: walk_exn_def)

lemma wp_catch_failure:
  assumes "wp m Q (\<lambda>e _. walk_exn Y e) n"
    and "\<And>x k. Q x k \<Longrightarrow> R x" and "\<And>status detail. detail \<noteq> [] \<Longrightarrow> R (f (failure_result status detail))"
  shows "wp (catch_failure m f) (\<lambda>x _. R x) (\<lambda>e _. escapes Y e) n"
  unfolding catch_failure_def wp_icatch
  by (rule wp_mono [OF assms(1)]) (use assms(2,3) in \<open>auto simp: walk_exn_def escapes_def\<close>)

lemma failure_result_ok: "detail \<noteq> [] \<Longrightarrow> result_ok (failure_result status detail)"
  by (simp add: result_ok_def failure_result_def)

lemma valid_result_ok:
  "lowercase_digest (VStr digest) \<Longrightarrow> detail \<noteq> [] \<Longrightarrow> result_ok (valid_result size' digest detail)"
  by (simp add: result_ok_def valid_result_def)

lemma invalid_result_ok: "detail \<noteq> [] \<Longrightarrow> result_ok (invalid_result detail)"
  by (simp add: result_ok_def invalid_result_def)

lemma wp_open_run_directory:
  "wp (open_run_directory Y) (\<lambda>_ _. 0 < sy_max_fds Y) (\<lambda>e _. walk_exn Y e) n"
  by (auto simp: open_run_directory_def os_open_root_def os_lstat_root_def
      split: option.split sum.split errno.split)

lemma wp_stat_at:
  "u \<noteq> [] \<Longrightarrow> wp (stat_at Y fd name u) (\<lambda>_ _. True) (\<lambda>e _. walk_exn Y e) n"
  by (auto simp: stat_at_def os_stat_def split: option.split sum.split errno.split)

lemma wp_fstat_at: "wp (fstat_at Y fd) (\<lambda>_ _. True) (\<lambda>e _. walk_exn Y e) n"
  by (auto simp: fstat_at_def os_fstat_def faultyI split: option.split sum.split)

lemma wp_open_directory_at:
  assumes "u \<noteq> []" "d \<noteq> []"
  shows "wp (open_directory_at Y held fd name d u) (\<lambda>_ _. held < sy_max_fds Y) (\<lambda>e _. walk_exn Y e) n"
  unfolding open_directory_at_def os_open_directory_def
  using assms
  by (auto intro!: wp_mono [OF wp_stat_at] wp_mono [OF wp_fstat_at] split: option.split sum.split errno.split)

lemma wp_entry_still_matches: "wp (entry_still_matches Y x) (\<lambda>_ _. True) (\<lambda>_ _. False) n"
  by (auto simp: entry_still_matches_def os_stat_def os_fstat_def split: option.split sum.split)

lemma wp_all_entries_still_match: "wp (all_entries_still_match Y xs) (\<lambda>_ _. True) (\<lambda>_ _. False) n"
  by (induction xs arbitrary: n) (auto intro!: wp_mono [OF wp_entry_still_matches])

lemma wp_open_directory_chain:
  assumes "sane (Y, dl)" "f \<noteq> []" "u \<noteq> []"
  shows "held \<le> sy_max_fds Y \<Longrightarrow> wp (open_directory_chain Y dl f u held retained parent parts)
    (\<lambda>(_, held', _) _. held' \<le> sy_max_fds Y \<and> held + length parts = held') (\<lambda>e _. walk_exn Y e) n"
proof (induction parts arbitrary: held retained parent n)
  case (Cons name parts)
  have "wp (open_directory_chain Y dl f u (Suc held) r p parts)
      (\<lambda>(_, held', _) _. held' \<le> sy_max_fds Y \<and> held + Suc (length parts) = held') (\<lambda>e _. walk_exn Y e) k"
    if "held < sy_max_fds Y" for r p k
    using Cons.IH [of "Suc held" r p k] that by simp
  then show ?case
    using assms
    by (auto intro!: wp_sane_check [OF assms(1)] wp_mono [OF wp_open_directory_at])
qed simp

lemma wp_read_file:
  assumes "u \<noteq> []"
  shows "sane (Y, dl) \<Longrightarrow> wp (read_file Y dl u fd pos) (\<lambda>_ _. True) (\<lambda>e _. walk_exn Y e) n"
  using assms
proof (induction Y dl u fd pos arbitrary: n rule: read_file.induct)
  case (1 Y dl u fd pos)
  have "wp (read_file Y dl u fd (pos + k)) (\<lambda>_ _. True) (\<lambda>e _. walk_exn Y e) m"
    if "0 < k" "\<not> sy_max_size Y \<le> pos" for k m
    using 1(1) [of "replicate k CHR ''x''"] that 1(2,3) by auto
  then show ?case
    by (subst read_file.simps)
      (auto intro!: wp_sane_check [OF 1(2)] simp: 1(3) split: option.split)
qed

lemma wp_read_regular_file_at:
  assumes "sane (Y, dl)" "u \<noteq> []"
  shows "wp (read_regular_file_at Y dl held parent name u limit)
    (\<lambda>r _. result_ok (fst r) \<and> vr_status (fst r) = VALID) (\<lambda>e _. walk_exn Y e) n"
proof -
  have opened: "wp (read_opened_file Y dl parent name u limit st fd)
      (\<lambda>r _. result_ok (fst r) \<and> vr_status (fst r) = VALID) (\<lambda>e _. walk_exn Y e) k" for st fd k
    unfolding read_opened_file_def
    using assms saneD(2) [OF assms(1)]
    by (auto intro!: wp_mono [OF wp_fstat_at] wp_mono [OF wp_read_file [OF assms(2,1)]]
        wp_mono [OF wp_entry_still_matches] wp_sane_check [OF assms(1)] valid_result_ok
        simp: valid_result_def [THEN arg_cong [of _ _ vr_status]])
  show ?thesis
    unfolding read_regular_file_at_def os_open_file_def
    using assms(2)
    by (auto intro!: wp_sane_check [OF assms(1)] wp_mono [OF wp_stat_at [OF assms(2)]] opened
        split: option.split sum.split errno.split)
qed

lemma wp_relative_parts:
  "wp (relative_parts path) (\<lambda>parts _. parts = posix_parts path \<and> parts \<noteq> []) (\<lambda>e _. walk_exn Y e) n"
  by (auto simp: relative_parts_def)

lemma wp_read_walk:
  assumes "sane (Y, dl)"
  shows "wp (read_walk Y dl path limit) (\<lambda>r _. result_ok (fst r)) (\<lambda>e _. walk_exn Y e) n"
  unfolding read_walk_def
  by (auto intro!: wp_sane_check [OF assms] wp_mono [OF wp_relative_parts] wp_mono [OF wp_open_run_directory]
      wp_mono [OF wp_open_directory_chain [OF assms]] wp_mono [OF wp_read_regular_file_at [OF assms]]
      wp_mono [OF wp_all_entries_still_match])

lemma wp_validate_regular_file:
  assumes "sane (Y, dl)"
  shows "wp (validate_regular_file Y dl path) (\<lambda>r _. result_ok r) (\<lambda>e _. escapes Y e) n"
  unfolding validate_regular_file_def
  by (rule wp_catch_failure [where Q = "\<lambda>r _. result_ok r"])
    (auto intro!: wp_mono [OF wp_read_walk [OF assms]] failure_result_ok)

lemma wp_validate_nonempty_regular_file:
  assumes "sane (Y, dl)"
  shows "wp (validate_nonempty_regular_file Y dl path) (\<lambda>r _. result_ok r) (\<lambda>e _. escapes Y e) n"
  unfolding validate_nonempty_regular_file_def
  by (auto intro!: wp_mono [OF wp_validate_regular_file [OF assms]] invalid_result_ok)

text \<open>The budget of the tree walk: directories to list and descriptors left to open.\<close>

definition tree_budget :: "system \<Rightarrow> tree_walk \<Rightarrow> nat" where
  "tree_budget Y w = length (tw_pending w) + (sy_max_fds Y - tw_held w)"

lemma wp_tree_file_failure: "walk_exn Y e \<Longrightarrow> walk_exn Y (tree_file_failure e)"
  by (auto simp: walk_exn_def tree_file_failure_def)

lemma wp_hash_regular_file_at:
  assumes "sane (Y, dl)" "u \<noteq> []"
  shows "wp (hash_regular_file_at Y dl held fd name u) (\<lambda>r _. result_ok r) (\<lambda>e _. walk_exn Y e) n"
  unfolding hash_regular_file_at_def
  by (auto intro!: wp_mono [OF wp_read_regular_file_at [OF assms]])

lemma wp_tree_entry:
  assumes "sane (Y, dl)"
  shows "wp (tree_entry Y dl fd prefix name w) (\<lambda>w' _. tree_budget Y w' \<le> tree_budget Y w) (\<lambda>e _. walk_exn Y e) n"
  unfolding tree_entry_def
  by (auto intro!: wp_sane_check [OF assms] wp_mono [OF wp_stat_at] wp_mono [OF wp_open_directory_at]
      wp_mono [OF wp_hash_regular_file_at [OF assms]] wp_tree_file_failure simp: tree_budget_def)

lemma wp_tree_entries:
  assumes "sane (Y, dl)"
  shows "wp (tree_entries Y dl fd prefix names w) (\<lambda>w' _. tree_budget Y w' \<le> tree_budget Y w)
    (\<lambda>e _. walk_exn Y e) n"
proof (induction names arbitrary: w n)
  case (Cons name names)
  have "wp (tree_entries Y dl fd prefix names w') (\<lambda>w'' _. tree_budget Y w'' \<le> tree_budget Y w)
      (\<lambda>e _. walk_exn Y e) k" if "tree_budget Y w' \<le> tree_budget Y w" for w' k
    by (rule wp_mono [OF Cons.IH]) (use that in auto)
  then show ?case
    by (auto intro!: wp_mono [OF wp_tree_entry [OF assms]])
qed simp

lemma wp_tree_loop:
  assumes "sane (Y, dl)"
  shows "tree_budget Y w \<le> fuel \<Longrightarrow> wp (tree_loop Y dl fuel w) (\<lambda>_ _. True) (\<lambda>e _. walk_exn Y e) n"
proof (induction fuel arbitrary: w n)
  case 0
  then show ?case by (subst tree_loop.simps) (simp add: tree_budget_def)
next
  case (Suc fuel)
  let ?w = "w\<lparr>tw_pending := butlast (tw_pending w)\<rparr>"
  have "wp (tree_entries Y dl fd prefix names ?w) (\<lambda>w'. wp (tree_loop Y dl fuel w') (\<lambda>_ _. True)
      (\<lambda>e _. walk_exn Y e)) (\<lambda>e _. walk_exn Y e) k" if "tw_pending w \<noteq> []" for fd prefix names k
  proof (rule wp_mono [OF wp_tree_entries [OF assms]])
    fix w' k
    assume "tree_budget Y w' \<le> tree_budget Y ?w"
    moreover have "Suc (tree_budget Y ?w) = tree_budget Y w"
      using that by (simp add: tree_budget_def)
    ultimately show "wp (tree_loop Y dl fuel w') (\<lambda>_ _. True) (\<lambda>e _. walk_exn Y e) k"
      using Suc.prems by (intro Suc.IH) linarith
  qed
  then show ?case
    by (subst tree_loop.simps) (auto intro!: wp_sane_check [OF assms] split: option.split)
qed

lemma wp_digest_rows:
  assumes "sane (Y, dl)"
  shows "wp (digest_rows dl rows) (\<lambda>_ _. True) (\<lambda>e _. walk_exn Y e) n"
proof (induction rows arbitrary: n)
  case (Cons row rows)
  then show ?case
    by (auto intro!: wp_sane_check [OF assms] wp_mono [OF Cons.IH])
qed simp

lemma wp_validate_tree:
  assumes "sane (Y, dl)"
  shows "wp (validate_tree Y dl path) (\<lambda>r _. result_ok r) (\<lambda>e _. escapes Y e) n"
  unfolding validate_tree_def
proof (rule wp_catch_failure [where Q = "\<lambda>r _. result_ok r"])
  have loop: "wp (tree_loop Y dl (sy_max_fds Y) \<lparr>tw_held = held, tw_retained = retained,
      tw_pending = [(tree, [])], tw_rows = []\<rparr>) (\<lambda>_ _. True) (\<lambda>e _. walk_exn Y e) k"
    if "held \<le> sy_max_fds Y" "Suc 0 \<le> held" for held retained tree k
    using that by (intro wp_tree_loop [OF assms]) (simp add: tree_budget_def)
  show "wp (ibind (check_deadline dl) (\<lambda>_.
        ibind (relative_parts path) (\<lambda>parts.
        ibind (open_run_directory Y) (\<lambda>root.
        ibind (open_directory_chain Y dl ''path is not a directory'' ''directory tree could not be read''
            1 [] root parts) (\<lambda>(tree, held, retained).
        ibind (tree_loop Y dl (sy_max_fds Y)
            \<lparr>tw_held = held, tw_retained = retained, tw_pending = [(tree, [])], tw_rows = []\<rparr>) (\<lambda>w.
          if tw_rows w = [] then fail INVALID ''directory tree is empty''
          else
            ibind (all_entries_still_match Y (tw_retained w)) (\<lambda>ok.
              if \<not> ok then fail INVALID ''path changed during validation''
              else
                ibind (digest_rows dl (sort (tw_rows w))) (\<lambda>(txt', total).
                ibind (check_deadline dl) (\<lambda>_.
                  ireturn (valid_result total (sy_sha256 Y txt') ''valid directory tree''))))))))))
     (\<lambda>r _. result_ok r) (\<lambda>e _. walk_exn Y e) n"
    using saneD(2) [OF assms]
    by (auto intro!: wp_sane_check [OF assms] wp_mono [OF wp_relative_parts] wp_mono [OF wp_open_run_directory]
        wp_mono [OF wp_open_directory_chain [OF assms]] wp_mono [OF loop] wp_mono [OF wp_digest_rows [OF assms]]
        wp_mono [OF wp_all_entries_still_match] valid_result_ok)
qed (auto intro: failure_result_ok)

lemma wp_validate_gazebo_state:
  assumes "sane (Y, dl)"
  shows "wp (validate_gazebo_state Y dl path) (\<lambda>r _. result_ok r) (\<lambda>e _. escapes Y e) n"
  unfolding validate_gazebo_state_def
  by (auto intro!: wp_mono [OF wp_validate_tree [OF assms]] wp_sane_check [OF assms]
      wp_mono [OF wp_validate_nonempty_regular_file [OF assms]] invalid_result_ok)

section \<open>The contract of a validator\<close>

text \<open>
  In a sane environment \<open>V\<close> either returns a well-formed result or raises what escapes
  from the walk: an expired deadline or an error of \<open>fstat\<close>.
\<close>

locale validator_contract =
  fixes V :: "'c \<Rightarrow> string \<Rightarrow> validation_result timed"
    and sane_for :: "'c \<Rightarrow> bool"
    and may_raise :: "'c \<Rightarrow> exn \<Rightarrow> bool"
  assumes contract: "sane_for c \<Longrightarrow> wp (V c path) (\<lambda>r _. result_ok r) (\<lambda>e _. may_raise c e) n"
begin

lemma returns_ok: "sane_for c \<Longrightarrow> V c path n = (Inr r, n') \<Longrightarrow> result_ok r"
  by (rule wpD(1) [OF contract])

lemma raises_only: "sane_for c \<Longrightarrow> V c path n = (Inl e, n') \<Longrightarrow> may_raise c e"
  by (rule wpD(2) [OF contract])

end

interpretation regular: validator_contract "\<lambda>(Y, dl). validate_regular_file Y dl" sane "\<lambda>(Y, dl). escapes Y"
  by unfold_locales (auto intro: wp_validate_regular_file)

interpretation nonempty: validator_contract "\<lambda>(Y, dl). validate_nonempty_regular_file Y dl" sane "\<lambda>(Y, dl). escapes Y"
  by unfold_locales (auto intro: wp_validate_nonempty_regular_file)

interpretation tree: validator_contract "\<lambda>(Y, dl). validate_tree Y dl" sane "\<lambda>(Y, dl). escapes Y"
  by unfold_locales (auto intro: wp_validate_tree)

interpretation gazebo: validator_contract "\<lambda>(Y, dl). validate_gazebo_state Y dl" sane "\<lambda>(Y, dl). escapes Y"
  by unfold_locales (auto intro: wp_validate_gazebo_state)

definition outcome_ok :: "system \<Rightarrow> validation_result result \<Rightarrow> bool" where
  "outcome_ok Y r = (case r of Inr x \<Rightarrow> result_ok x | Inl e \<Rightarrow> escapes Y e)"

text \<open>
  C32. Every validator is total and its results are well formed, whatever the filesystem does
  meanwhile: a valid result has a size, a SHA-256 digest and a detail, a missing or invalid one
  only a detail; the only exceptions are an expired deadline and, where system calls fail, an error of
  \<open>fstat\<close>. The
  walk over a directory tree never exceeds the descriptor limit.
\<close>

theorem validators_well_formed:
  assumes "sane (Y, dl)"
  shows "list_all (\<lambda>V. outcome_ok Y (fst (V path n)))
    [validate_regular_file Y dl, validate_nonempty_regular_file Y dl, validate_tree Y dl,
     validate_gazebo_state Y dl]"
  using regular.contract [of "(Y, dl)" path n] nonempty.contract [of "(Y, dl)" path n]
    tree.contract [of "(Y, dl)" path n] gazebo.contract [of "(Y, dl)" path n] assms
  by (auto simp: outcome_ok_def wp_def split: sum.splits prod.splits)

section \<open>A valid file was pinned down\<close>

lemma stat_of_ino [simp]: "st_ino (stat_of s i) = i"
  by (simp add: stat_of_def)

text \<open>
  Between \<open>lo\<close> and \<open>hi\<close> the name in \<open>p\<close> was seen to denote the directory \<open>c\<close>; and a walk from
  \<open>p\<close> along names, with the descriptor each of them was seen to denote.
\<close>

definition directory_seen :: "system \<Rightarrow> nat \<Rightarrow> nat \<Rightarrow> nat \<Rightarrow> string \<Rightarrow> nat \<Rightarrow> bool" where
  "directory_seen Y lo hi p name c \<longleftrightarrow>
     (\<exists>t. lo \<le> t \<and> t < hi \<and> entry_of (sy_fs Y t) p name = Some c
        \<and> st_kind (stat_of (sy_fs Y t) c) = Directory)"

fun chain_seen :: "system \<Rightarrow> nat \<Rightarrow> nat \<Rightarrow> nat \<Rightarrow> string list \<Rightarrow> nat list \<Rightarrow> bool" where
  "chain_seen Y lo hi p [] [] \<longleftrightarrow> True"
| "chain_seen Y lo hi p (name # names) (c # cs) \<longleftrightarrow>
     directory_seen Y lo hi p name c \<and> chain_seen Y lo hi c names cs"
| "chain_seen Y lo hi p _ _ \<longleftrightarrow> False"

text \<open>
  The bytes from position \<open>pos\<close> on of what \<open>fd\<close> held, read chunk after chunk between \<open>lo\<close> and
  \<open>hi\<close>, up to a moment at which it held no more.
\<close>

inductive bytes_read :: "system \<Rightarrow> nat \<Rightarrow> nat \<Rightarrow> nat \<Rightarrow> nat \<Rightarrow> string \<Rightarrow> bool" where
  end_of_file: "lo \<le> t \<Longrightarrow> t < hi \<Longrightarrow> length (fs_content (sy_fs Y t) fd) \<le> pos \<or> sy_max_size Y \<le> pos
     \<Longrightarrow> bytes_read Y lo hi fd pos []"
| next_chunk: "lo \<le> t \<Longrightarrow> t < hi \<Longrightarrow> chunk = take k (drop pos (fs_content (sy_fs Y t) fd)) \<Longrightarrow> chunk \<noteq> []
     \<Longrightarrow> bytes_read Y (Suc t) hi fd (pos + length chunk) rest' \<Longrightarrow> bytes_read Y lo hi fd pos (chunk @ rest')"

lemma bytes_read_mono:
  assumes "bytes_read Y lo' hi' fd pos content" and "lo \<le> lo'" "hi' \<le> hi"
  shows "bytes_read Y lo hi fd pos content"
  using assms
proof (induction arbitrary: lo rule: bytes_read.induct)
  case (end_of_file lo' t hi' Y fd pos)
  then show ?case by (intro bytes_read.end_of_file [of _ t]) auto
next
  case (next_chunk lo' t hi' chunk k pos Y fd rest')
  then show ?case by (intro bytes_read.next_chunk [of _ t _ _ k]) auto
qed

lemma take_drop_length: "take k xs @ drop (length (take k xs)) xs = xs"
  by (cases "k \<le> length xs") simp_all

text \<open>While the content does not change, these are its bytes.\<close>

lemma bytes_read_stable:
  assumes "bytes_read Y lo hi fd pos content" and "length c \<le> sy_max_size Y"
    and "\<And>t. lo \<le> t \<Longrightarrow> t < hi \<Longrightarrow> fs_content (sy_fs Y t) fd = c"
  shows "content = drop pos c"
  using assms
proof (induction rule: bytes_read.induct)
  case (end_of_file lo t hi Y fd pos)
  then have "length c \<le> pos" by (metis le_trans)
  then show ?case by simp
next
  case (next_chunk lo t hi chunk k pos Y fd rest')
  have "rest' = drop (pos + length chunk) c"
    using next_chunk.IH [OF next_chunk.prems(1)] next_chunk.prems(2) next_chunk.hyps(1) by simp
  moreover have "chunk = take k (drop pos c)"
    using next_chunk.hyps(1,2,3) next_chunk.prems(2) by simp
  ultimately show ?case
    using take_drop_length [of k "drop pos c"] by (simp add: ac_simps del: length_take)
qed

text \<open>A retained entry of an opened directory, and a chain of them.\<close>

definition retained_ok :: "retained_entry \<Rightarrow> bool" where
  "retained_ok x \<longleftrightarrow> st_ino (re_identity x) = re_descriptor x \<and> st_kind (re_identity x) = Directory"

fun chain_of :: "nat \<Rightarrow> string list \<Rightarrow> retained_entry list \<Rightarrow> nat \<Rightarrow> bool" where
  "chain_of p [] [] q \<longleftrightarrow> p = q"
| "chain_of p (name # names) (x # xs) q \<longleftrightarrow>
     re_parent_fd x = p \<and> re_name x = name \<and> retained_ok x \<and> chain_of (re_descriptor x) names xs q"
| "chain_of p _ _ q \<longleftrightarrow> False"

text \<open>
  The file \<open>name\<close> in \<open>parent\<close>: opened as \<open>fd\<close> at \<open>t0\<close>, regular and with one hard link at
  \<open>t1\<close>, unchanged at \<open>t2\<close>, after \<open>content\<close> had been read from it, and still named at \<open>t3\<close>.
\<close>

definition pinned_file ::
  "system \<Rightarrow> nat \<Rightarrow> nat \<Rightarrow> nat \<Rightarrow> string \<Rightarrow> nat \<Rightarrow> nat \<Rightarrow> string \<Rightarrow> bool" where
  "pinned_file Y lo hi parent name fd bytes content \<longleftrightarrow>
     (\<exists>t0 t1 t2 t3. lo \<le> t0 \<and> t0 < t1 \<and> t1 < t2 \<and> t2 < t3 \<and> t3 < hi
        \<and> entry_of (sy_fs Y t0) parent name = Some fd
        \<and> st_kind (stat_of (sy_fs Y t1) fd) = Regular \<and> st_nlink (stat_of (sy_fs Y t1) fd) = 1
        \<and> bytes_read Y (Suc t1) t2 fd 0 content
        \<and> same_file_snapshot (stat_of (sy_fs Y t1) fd) (stat_of (sy_fs Y t2) fd)
        \<and> bytes = st_size (stat_of (sy_fs Y t2) fd)
        \<and> entry_of (sy_fs Y t3) parent name = Some fd
        \<and> st_kind (stat_of (sy_fs Y t3) fd) = Regular)"

text \<open>Between \<open>lo\<close> and \<open>hi\<close> the name of a retained entry denoted its directory.\<close>

definition seen_again :: "system \<Rightarrow> nat \<Rightarrow> nat \<Rightarrow> retained_entry \<Rightarrow> bool" where
  "seen_again Y lo hi x \<longleftrightarrow> directory_seen Y lo hi (re_parent_fd x) (re_name x) (re_descriptor x)"

lemma directory_seen_mono:
  "directory_seen Y lo' hi' p name c \<Longrightarrow> lo \<le> lo' \<Longrightarrow> hi' \<le> hi \<Longrightarrow> directory_seen Y lo hi p name c"
  unfolding directory_seen_def by (meson le_trans less_le_trans)

lemma directory_seenI:
  "entry_of (sy_fs Y t) p name = Some c \<Longrightarrow> st_kind (stat_of (sy_fs Y t) c) = Directory \<Longrightarrow> lo \<le> t \<Longrightarrow> t < hi
   \<Longrightarrow> directory_seen Y lo hi p name c"
  by (auto simp: directory_seen_def)

lemma seen_again_mono: "seen_again Y lo' hi' x \<Longrightarrow> lo \<le> lo' \<Longrightarrow> hi' \<le> hi \<Longrightarrow> seen_again Y lo hi x"
  unfolding seen_again_def by (rule directory_seen_mono)

lemma seen_again_entryI:
  "directory_seen Y (Suc n) k p name d \<Longrightarrow>
   seen_again Y n k \<lparr>re_parent_fd = p, re_name = name, re_descriptor = d, re_identity = i\<rparr>"
  by (auto simp: seen_again_def intro: directory_seen_mono)

lemma chain_seenI:
  assumes "chain_of p names xs q" and "list_all (seen_again Y lo hi) xs"
  shows "chain_seen Y lo hi p names (map re_descriptor xs)"
  using assms by (induction p names xs q rule: chain_of.induct) (auto simp: seen_again_def)

lemma chain_of_last: "chain_of p names xs q \<Longrightarrow> q = last (p # map re_descriptor xs)"
  by (induction p names xs q rule: chain_of.induct) auto

abbreviation any_exn :: "exn \<Rightarrow> nat \<Rightarrow> bool" where
  "any_exn \<equiv> \<lambda>_ _. True"

lemma pin_stat_at:
  "wp (stat_at Y fd name u) (\<lambda>st k. k = Suc n \<and> (\<exists>i. entry_of (sy_fs Y n) fd name = Some i
     \<and> st = stat_of (sy_fs Y n) i)) any_exn n"
  by (auto simp: stat_at_def os_stat_def split: option.splits sum.splits errno.splits)

lemma pin_fstat_at: "wp (fstat_at Y fd) (\<lambda>st k. k = Suc n \<and> st = stat_of (sy_fs Y n) fd) any_exn n"
  by (auto simp: fstat_at_def os_fstat_def split: option.splits sum.splits)

lemma pin_open_directory_at:
  "wp (open_directory_at Y held fd name d u)
     (\<lambda>(c, st) k. n \<le> k \<and> st_ino st = c \<and> st_kind st = Directory \<and> directory_seen Y n k fd name c) any_exn n"
  unfolding open_directory_at_def os_open_directory_def
  by (auto intro!: wp_mono [OF pin_stat_at] wp_mono [OF pin_fstat_at] directory_seenI [of _ "Suc n"]
      simp: same_entry_def split: option.splits sum.splits errno.splits)

lemma pin_entry_still_matches:
  "wp (entry_still_matches Y x) (\<lambda>ok k. n < k \<and> (ok \<longrightarrow>
      entry_of (sy_fs Y n) (re_parent_fd x) (re_name x) = Some (st_ino (re_identity x))
      \<and> st_kind (stat_of (sy_fs Y n) (st_ino (re_identity x))) = st_kind (re_identity x))) any_exn n"
  by (auto simp: entry_still_matches_def os_stat_def os_fstat_def same_entry_def
      split: option.splits sum.splits)

lemma pin_all_entries_still_match:
  "list_all retained_ok xs \<Longrightarrow>
   wp (all_entries_still_match Y xs) (\<lambda>ok k. n \<le> k \<and> (ok \<longrightarrow> list_all (seen_again Y n k) xs)) any_exn n"
proof (induction xs arbitrary: n)
  case (Cons x xs)
  have rest: "wp (all_entries_still_match Y xs) (\<lambda>ok k. n \<le> k \<and> (ok \<longrightarrow> list_all (seen_again Y n k) (x # xs)))
      any_exn m" if "n < m" "seen_again Y n m x" for m
  proof (rule wp_mono [OF Cons.IH])
    fix ok k
    assume "m \<le> k \<and> (ok \<longrightarrow> list_all (seen_again Y m k) xs)"
    then show "n \<le> k \<and> (ok \<longrightarrow> list_all (seen_again Y n k) (x # xs))"
      using that by (auto simp: list_all_iff intro: seen_again_mono)
  qed (use Cons.prems in auto)
  have "seen_again Y n m x" if "n < m"
      "entry_of (sy_fs Y n) (re_parent_fd x) (re_name x) = Some (st_ino (re_identity x))"
      "st_kind (stat_of (sy_fs Y n) (st_ino (re_identity x))) = st_kind (re_identity x)" for m
    using that Cons.prems by (auto simp: seen_again_def retained_ok_def intro: directory_seenI [of _ n])
  then show ?case
    unfolding all_entries_still_match.simps wp_ibind
    by (intro wp_mono [OF pin_entry_still_matches]) (auto intro!: rest [simplified])
qed simp

text \<open>A chain opened below \<open>parent\<close>: every new entry was seen while it was opened.\<close>

abbreviation chain_opened ::
  "system \<Rightarrow> nat \<Rightarrow> nat \<Rightarrow> string list \<Rightarrow> retained_entry list \<Rightarrow> nat \<times> nat \<times> retained_entry list \<Rightarrow> nat \<Rightarrow> bool" where
  "chain_opened Y n parent parts kept r k \<equiv>
     n \<le> k \<and> (\<exists>new. snd (snd r) = kept @ new \<and> chain_of parent parts new (fst r) \<and> list_all (seen_again Y n k) new)"

lemma pin_open_directory_chain:
  "wp (open_directory_chain Y dl f u held retained parent parts)
     (\<lambda>r k. chain_opened Y n parent parts retained r k) any_exn n"
proof (induction parts arbitrary: held retained parent n)
  case Nil
  then show ?case by (simp add: wp_def)
next
  case (Cons name parts)
  have "wp (open_directory_chain Y dl f u (Suc held) (retained @ [x]) (re_descriptor x) parts)
      (\<lambda>r k. chain_opened Y n parent (name # parts) retained r k) any_exn m"
    if "n \<le> m" "retained_ok x" "re_parent_fd x = parent" "re_name x = name"
      "directory_seen Y (Suc n) m parent name (re_descriptor x)" for x m
  proof (rule wp_mono [OF Cons.IH])
    fix r k
    assume "chain_opened Y m (re_descriptor x) parts (retained @ [x]) r k"
    then obtain new where new: "snd (snd r) = retained @ x # new" "m \<le> k"
        "chain_of (re_descriptor x) parts new (fst r)" "list_all (seen_again Y m k) new"
      by auto
    moreover have "list_all (seen_again Y n k) (x # new)"
      using that new(2,4) by (auto simp: seen_again_def list_all_iff intro: directory_seen_mono)
    ultimately show "chain_opened Y n parent (name # parts) retained r k"
      using that by (auto intro!: exI [of _ "x # new"])
  qed simp
  note step = this [of _ "\<lparr>re_parent_fd = parent, re_name = name, re_descriptor = d, re_identity = i\<rparr>" for d i, simplified]
  show ?case
    by (auto intro!: wp_mono [OF pin_open_directory_at] step seen_again_entryI
        simp: wp_check_deadline retained_ok_def split: option.split)
qed

lemma pin_read_file: "wp (read_file Y dl u fd pos) (\<lambda>content k. n \<le> k \<and> bytes_read Y n k fd pos content) any_exn n"
proof (induction Y dl u fd pos arbitrary: n rule: read_file.induct)
  case (1 Y dl u fd pos)
  let ?read = "\<lambda>t k. take (Suc k) (drop pos (fs_content (sy_fs Y t) fd))"
  have more: "wp (read_file Y dl u fd (pos + length (?read t k)))
      (\<lambda>content m. n \<le> m \<and> bytes_read Y n m fd pos (?read t k @ content)) any_exn m"
    if "?read t k \<noteq> []" "\<not> sy_max_size Y \<le> pos" "n \<le> t" "t < m" for t k m
  proof (rule wp_mono [OF 1 [of "?read t k"]])
    fix content m'
    assume "m \<le> m' \<and> bytes_read Y m m' fd (pos + length (?read t k)) content"
    then show "n \<le> m' \<and> bytes_read Y n m' fd pos (?read t k @ content)"
      using that by (auto intro!: next_chunk [of _ t] elim: bytes_read_mono simp del: length_take)
  qed (use that in auto)
  have stop: "bytes_read Y n m fd pos []"
    if "?read t k = [] \<or> sy_max_size Y \<le> pos" "n \<le> t" "t < m" for t k m
    using that by (intro end_of_file [of _ t]) auto
  show ?case
    by (subst read_file.simps)
      (auto simp: wp_check_deadline intro!: more stop simp del: length_take take_eq_Nil drop_eq_Nil split: option.split)
qed

lemma pinned_file_mono:
  assumes "pinned_file Y lo' hi' p name fd b content" "lo \<le> lo'" "hi' \<le> hi"
  shows "pinned_file Y lo hi p name fd b content"
proof -
  obtain t0 t1 t2 t3 where "lo' \<le> t0" "t0 < t1" "t1 < t2" "t2 < t3" "t3 < hi'"
      "entry_of (sy_fs Y t0) p name = Some fd"
      "st_kind (stat_of (sy_fs Y t1) fd) = Regular" "st_nlink (stat_of (sy_fs Y t1) fd) = 1"
      "bytes_read Y (Suc t1) t2 fd 0 content"
      "same_file_snapshot (stat_of (sy_fs Y t1) fd) (stat_of (sy_fs Y t2) fd)"
      "b = st_size (stat_of (sy_fs Y t2) fd)" "entry_of (sy_fs Y t3) p name = Some fd"
      "st_kind (stat_of (sy_fs Y t3) fd) = Regular"
    using assms(1) unfolding pinned_file_def by blast
  then show ?thesis
    using assms(2,3) unfolding pinned_file_def
    by (intro exI [of _ t0] exI [of _ t1] exI [of _ t2] exI [of _ t3]) simp
qed

text \<open>A valid result of a file that was pinned down between \<open>lo\<close> and \<open>hi\<close>.\<close>

definition valid_pinned :: "system \<Rightarrow> nat \<Rightarrow> nat \<Rightarrow> nat \<Rightarrow> string \<Rightarrow> validation_result \<Rightarrow> bool" where
  "valid_pinned Y lo hi parent name r \<longleftrightarrow>
     (\<exists>bytes content fd. r = valid_result bytes (sy_sha256 Y content) ''valid regular file''
        \<and> pinned_file Y lo hi parent name fd bytes content)"

lemma valid_pinned_mono:
  assumes "valid_pinned Y lo' hi' parent name r" "lo \<le> lo'" "hi' \<le> hi"
  shows "valid_pinned Y lo hi parent name r"
  using assms(1) pinned_file_mono [OF _ assms(2,3)] unfolding valid_pinned_def by blast

lemma pin_read_opened_file:
  assumes "lo < n" "entry_of (sy_fs Y lo) parent name = Some fd"
  shows "wp (read_opened_file Y dl parent name u limit st fd) (\<lambda>r k. valid_pinned Y lo k parent name (fst r)) any_exn n"
proof -
  let ?entry = "\<lambda>t2. \<lparr>re_parent_fd = parent, re_name = name, re_descriptor = fd,
        re_identity = stat_of (sy_fs Y t2) fd\<rparr>"
  have "wp (entry_still_matches Y (?entry t2)) (\<lambda>ok k. ok \<longrightarrow> valid_pinned Y lo k parent name
      (valid_result (st_size (stat_of (sy_fs Y t2) fd)) (sy_sha256 Y content) ''valid regular file'')) any_exn t3"
    if "bytes_read Y (Suc n) t2 fd 0 content"
      "st_kind (stat_of (sy_fs Y n) fd) = Regular" "st_nlink (stat_of (sy_fs Y n) fd) = 1"
      "same_file_snapshot (stat_of (sy_fs Y n) fd) (stat_of (sy_fs Y t2) fd)" "n < t2" "t2 < t3" for t2 t3 content
  proof (rule wp_mono [OF pin_entry_still_matches])
    fix ok k
    assume "t3 < k \<and> (ok \<longrightarrow>
      entry_of (sy_fs Y t3) (re_parent_fd (?entry t2)) (re_name (?entry t2)) = Some (st_ino (re_identity (?entry t2)))
      \<and> st_kind (stat_of (sy_fs Y t3) (st_ino (re_identity (?entry t2)))) = st_kind (re_identity (?entry t2)))"
    moreover have "st_kind (stat_of (sy_fs Y t2) fd) = Regular"
      using that(2,4) by (simp add: same_file_snapshot_def)
    ultimately have "ok \<longrightarrow> pinned_file Y lo k parent name fd (st_size (stat_of (sy_fs Y t2) fd)) content"
      using that(1-6) assms unfolding pinned_file_def
      by (intro impI exI [of _ lo] exI [of _ n] exI [of _ t2] exI [of _ t3]) simp
    then show "ok \<longrightarrow> valid_pinned Y lo k parent name
        (valid_result (st_size (stat_of (sy_fs Y t2) fd)) (sy_sha256 Y content) ''valid regular file'')"
      unfolding valid_pinned_def by blast
  qed simp
  note matches = this
  have read: "wp (read_file Y dl u fd 0) (\<lambda>content k. Suc n \<le> k \<and> bytes_read Y (Suc n) (Suc k) fd 0 content)
      any_exn (Suc n)"
    by (rule wp_mono [OF pin_read_file]) (auto intro: bytes_read_mono)
  show ?thesis
    unfolding read_opened_file_def
    by (auto intro!: wp_mono [OF pin_fstat_at] wp_mono [OF read] wp_mono [OF matches]
        simp: wp_check_deadline split: option.split)
qed

lemma pin_read_regular_file_at:
  "wp (read_regular_file_at Y dl held parent name u limit) (\<lambda>r k. valid_pinned Y n k parent name (fst r)) any_exn n"
proof -
  have opened: "wp (read_opened_file Y dl parent name u limit st fd)
     (\<lambda>r k. valid_pinned Y n k parent name (fst r)) any_exn m"
    if "entry_of (sy_fs Y t) parent name = Some fd" "n \<le> t" "t < m" for st fd t m
    by (rule wp_mono [OF pin_read_opened_file [OF that(3,1)]]) (use that(2) in \<open>auto intro: valid_pinned_mono\<close>)
  show ?thesis
    unfolding read_regular_file_at_def os_open_file_def
    by (auto intro!: wp_mono [OF pin_stat_at] opened simp: wp_check_deadline
        split: option.split sum.split errno.split)
qed

lemma pin_open_run_directory:
  "wp (open_run_directory Y) (\<lambda>root k. k = Suc n \<and> fs_root (sy_fs Y n) = Some root) any_exn n"
  by (auto simp: open_run_directory_def os_open_root_def os_lstat_root_def
      split: option.splits sum.splits errno.splits)

text \<open>
  A path of the run directory that was pinned down between \<open>lo\<close> and \<open>hi\<close>: the run directory
  was opened, then each directory of \<open>fds\<close> by its name in the one before it, then the file
  was read, and then every name was seen once more to denote the same directory of \<open>fds\<close>.
\<close>

definition pinned_path :: "system \<Rightarrow> nat \<Rightarrow> nat \<Rightarrow> string list \<Rightarrow> nat \<Rightarrow> string \<Rightarrow> bool" where
  "pinned_path Y lo hi parts bytes content \<longleftrightarrow>
     (\<exists>t0 t1 t2 root fds fd. lo \<le> t0 \<and> t0 < t1 \<and> t1 \<le> t2
        \<and> fs_root (sy_fs Y t0) = Some root
        \<and> chain_seen Y t0 t1 root (butlast parts) fds
        \<and> pinned_file Y t1 t2 (last (root # fds)) (last parts) fd bytes content
        \<and> chain_seen Y t2 hi root (butlast parts) fds)"

definition valid_at_path :: "system \<Rightarrow> nat \<Rightarrow> nat \<Rightarrow> string list \<Rightarrow> validation_result \<Rightarrow> bool" where
  "valid_at_path Y lo hi parts r \<longleftrightarrow>
     (\<exists>bytes content. r = valid_result bytes (sy_sha256 Y content) ''valid regular file''
        \<and> pinned_path Y lo hi parts bytes content)"

lemma valid_at_pathI:
  assumes "lo \<le> t0" "t0 < t1" "t1 \<le> t2" "fs_root (sy_fs Y t0) = Some base"
    and "chain_of base (butlast parts) xs parent" "list_all (seen_again Y t0 t1) xs"
    and "valid_pinned Y t1 t2 parent (last parts) r" and "list_all (seen_again Y t2 hi) xs"
  shows "valid_at_path Y lo hi parts r"
proof -
  note seen = chain_seenI [OF assms(5,6)] chain_seenI [OF assms(5,8)]
  obtain bytes content fd where "r = valid_result bytes (sy_sha256 Y content) ''valid regular file''"
      "pinned_file Y t1 t2 parent (last parts) fd bytes content"
    using assms(7) unfolding valid_pinned_def by blast
  then show ?thesis
    using assms(1-4) seen chain_of_last [OF assms(5)] unfolding valid_at_path_def pinned_path_def by metis
qed

lemma pin_read_walk:
  "wp (read_walk Y dl path limit)
     (\<lambda>r k. ''..'' \<notin> set (posix_parts path) \<and> posix_parts path \<noteq> []
        \<and> valid_at_path Y n k (posix_parts path) (fst r)) any_exn n"
proof -
  let ?parts = "posix_parts path"
  let ?post = "\<lambda>r k. valid_at_path Y n k ?parts (fst r)"
  have retained: "list_all retained_ok xs" if "chain_of p names xs q" for p names xs q
    using that by (induction p names xs q rule: chain_of.induct) auto
  have the_file: "wp (read_regular_file_at Y dl held parent (last ?parts) u limit) (\<lambda>r. wp (check_deadline dl) (\<lambda>_.
      wp (all_entries_still_match Y ret) (\<lambda>ok. wp (if \<not> ok then fail INVALID d else ireturn r) ?post any_exn) any_exn)
      any_exn) any_exn m"
    if ret: "chain_of root (butlast ?parts) ret parent" "list_all (seen_again Y t0 m) ret"
      and t0: "n \<le> t0" "t0 < m" "fs_root (sy_fs Y t0) = Some root" for held parent root ret t0 u d m
  proof (rule wp_mono [OF pin_read_regular_file_at])
    fix r :: "validation_result \<times> string option" and k
    assume r: "valid_pinned Y m k parent (last ?parts) (fst r)"
    then have "m \<le> k"
      unfolding valid_pinned_def pinned_file_def by auto
    have r': "valid_pinned Y m (Suc k) parent (last ?parts) (fst r)"
      by (rule valid_pinned_mono [OF r]) auto
    have "wp (all_entries_still_match Y ret)
        (\<lambda>ok. wp (if \<not> ok then fail INVALID d else ireturn r) ?post any_exn) any_exn (Suc k)"
    proof (rule wp_mono [OF pin_all_entries_still_match [OF retained [OF ret(1)]]])
      fix ok h
      assume "Suc k \<le> h \<and> (ok \<longrightarrow> list_all (seen_again Y (Suc k) h) ret)"
      then show "wp (if \<not> ok then fail INVALID d else ireturn r) ?post any_exn h"
        using valid_at_pathI [OF t0(1,2) _ t0(3) ret r'] \<open>m \<le> k\<close> by auto
    qed simp
    then show "wp (check_deadline dl) (\<lambda>_. wp (all_entries_still_match Y ret)
        (\<lambda>ok. wp (if \<not> ok then fail INVALID d else ireturn r) ?post any_exn) any_exn) any_exn k"
      by (simp add: wp_check_deadline split: option.split)
  qed simp
  have chain: "wp (open_directory_chain Y dl f u held [] root (butlast ?parts)) (\<lambda>x. wp (case x of (parent, held, ret) \<Rightarrow>
       ibind (read_regular_file_at Y dl held parent (last ?parts) u' limit) (\<lambda>result.
       ibind (check_deadline dl) (\<lambda>_. ibind (all_entries_still_match Y ret) (\<lambda>ok.
         if \<not> ok then fail INVALID d else ireturn result)))) ?post any_exn) any_exn (Suc t0)"
    if "n \<le> t0" "fs_root (sy_fs Y t0) = Some root" for f u held root u' d t0
  proof (rule wp_mono [OF pin_open_directory_chain])
    fix x :: "nat \<times> nat \<times> retained_entry list" and k
    assume x: "chain_opened Y (Suc t0) root (butlast ?parts) [] x k"
    obtain parent held ret where eq: "x = (parent, held, ret)"
      using prod_cases3 by blast
    have "list_all (seen_again Y t0 k) ret"
      using x by (auto simp: eq list_all_iff intro: seen_again_mono)
    then show "wp (case x of (parent, held, ret) \<Rightarrow>
       ibind (read_regular_file_at Y dl held parent (last ?parts) u' limit) (\<lambda>result.
       ibind (check_deadline dl) (\<lambda>_. ibind (all_entries_still_match Y ret) (\<lambda>ok.
         if \<not> ok then fail INVALID d else ireturn result)))) ?post any_exn k"
      using x eq that the_file [of root ret parent t0 k] by simp
  qed simp
  have "wp (relative_parts path) (\<lambda>parts k. parts = ?parts \<and> ''..'' \<notin> set ?parts \<and> ?parts \<noteq> [] \<and> k = m) any_exn m" for m
    by (auto simp: relative_parts_def)
  note relative = this [THEN wp_mono]
  show ?thesis
    unfolding read_walk_def
    by (auto intro!: relative wp_mono [OF pin_open_run_directory] chain [simplified] le_SucI
        simp: wp_check_deadline split: option.split)
qed

text \<open>
  C11. A regular file is reported valid only after it was pinned down, whatever the filesystem
  does meanwhile: the path has no \<open>..\<close>; the run directory was opened and then each directory of
  the path, through the descriptor opened before it; the file's name was opened as \<open>fd\<close>, a
  regular file with one hard link whose device, inode, mode, size and times were the same
  before and after it was read, and afterwards the name still denoted \<open>fd\<close>; at last every
  name from the run directory on was seen once more to denote the very directory that had
  been opened. The reported size is the size of \<open>fd\<close>, and the reported digest is the hash of
  the bytes that were read from \<open>fd\<close> between the two checks, up to the end of the file.
\<close>

theorem valid_file_pinned:
  assumes "validate_regular_file Y dl path n = (Inr r, n')" and "vr_status r = VALID"
  shows "''..'' \<notin> set (posix_parts path) \<and>
    (\<exists>bytes content. vr_size_bytes r = VInt (int bytes) \<and> vr_sha256 r = VStr (sy_sha256 Y content)
       \<and> pinned_path Y n n' (posix_parts path) bytes content)"
proof -
  let ?post = "\<lambda>r k. ''..'' \<notin> set (posix_parts path) \<and> valid_at_path Y n k (posix_parts path) r"
  have "wp (ibind (read_walk Y dl path None) (\<lambda>(result, _). ireturn result)) ?post any_exn n"
    unfolding wp_ibind by (rule wp_mono [OF pin_read_walk]) auto
  then have "wp (validate_regular_file Y dl path) (\<lambda>r k. vr_status r = VALID \<longrightarrow> ?post r k) any_exn n"
    unfolding validate_regular_file_def catch_failure_def wp_icatch
    by (rule wp_mono) (auto simp: failure_result_def split: exn.split)
  from wpD(1) [OF this assms(1)] assms(2) show ?thesis
    by (auto simp: valid_at_path_def valid_result_def)
qed

end
