(* ===== verification/Artifact_Validation_Static.thy ===== *)
theory Artifact_Validation_Static
  imports Artifact_Validation_Props
begin

text \<open>
  The filesystem validators on a run directory that does not change while they run: the
  retained-descriptor walk computes what a plain lookup of the path gives.
\<close>

section \<open>Reference lookup\<close>

definition quiescent :: "system \<Rightarrow> snapshot \<Rightarrow> bool" where
  "quiescent Y s \<longleftrightarrow> (\<forall>n. sy_fs Y n = s \<and> sy_fault Y n = None)
     \<and> (\<forall>i. length (fs_content s i) \<le> sy_max_size Y)"

lemma quiescentD:
  assumes "quiescent Y s"
  shows "sy_fs Y n = s" "sy_fault Y n = None" "length (fs_content s i) \<le> sy_max_size Y"
  using assms by (simp_all add: quiescent_def)

definition missing_result :: validation_result where
  "missing_result = failure_result ''missing'' ''path is missing''"

fun lookup_directory :: "snapshot \<Rightarrow> nat \<Rightarrow> string list \<Rightarrow> validation_result + nat" where
  "lookup_directory s p [] = Inr p"
| "lookup_directory s p (name # names) =
     (case entry_of s p name of
        None \<Rightarrow> Inl missing_result
      | Some i \<Rightarrow>
          if st_kind (stat_of s i) = Symlink then Inl (invalid_result ''symlinks are not allowed'')
          else if st_kind (stat_of s i) = Directory then lookup_directory s i names
          else Inl (invalid_result ''path is not a directory''))"

definition lookup_file :: "snapshot \<Rightarrow> (string \<Rightarrow> string) \<Rightarrow> nat \<Rightarrow> string \<Rightarrow> validation_result" where
  "lookup_file s sha p name =
     (case entry_of s p name of
        None \<Rightarrow> missing_result
      | Some i \<Rightarrow>
          if st_kind (stat_of s i) = Symlink then invalid_result ''symlinks are not allowed''
          else if st_kind (stat_of s i) \<noteq> Regular then invalid_result ''path is not a regular file''
          else if st_nlink (stat_of s i) \<noteq> 1 then
            invalid_result ''regular files must have exactly one hard link''
          else valid_result (st_size (stat_of s i)) (sha (fs_content s i)) ''valid regular file'')"

definition reference_file :: "snapshot \<Rightarrow> (string \<Rightarrow> string) \<Rightarrow> string \<Rightarrow> validation_result" where
  "reference_file s sha path =
     (let parts = posix_parts path in
      if (path \<noteq> [] \<and> hd path = CHR ''/'') \<or> ''..'' \<in> set parts \<or> parts = [] then
        invalid_result ''path escapes run directory''
      else case fs_root s of
        None \<Rightarrow> missing_result
      | Some base \<Rightarrow>
          if st_kind (stat_of s base) = Symlink then invalid_result ''symlinks are not allowed''
          else if st_kind (stat_of s base) \<noteq> Directory then
            invalid_result ''run directory could not be read''
          else case lookup_directory s base (butlast parts) of
              Inl r \<Rightarrow> r
            | Inr p \<Rightarrow> lookup_file s sha p (last parts))"

section \<open>Equivalence\<close>

text \<open>The failure \<open>e\<close> of a walk has the result \<open>r\<close>.\<close>

definition fails_as :: "validation_result \<Rightarrow> exn \<Rightarrow> bool" where
  "fails_as r e \<longleftrightarrow> (\<exists>status detail. e = ValidationFailure status detail \<and> failure_result status detail = r)"

lemma failure_results [simp]:
  "failure_result ''invalid'' d = invalid_result d" "failure_result ''missing'' ''path is missing'' = missing_result"
  by (simp_all add: failure_result_def invalid_result_def missing_result_def)

lemma fails_as_simps [simp]:
  "fails_as r (ValidationFailure status detail) \<longleftrightarrow> failure_result status detail = r"
  by (auto simp: fails_as_def)

definition static_entry :: "snapshot \<Rightarrow> retained_entry \<Rightarrow> bool" where
  "static_entry s x \<longleftrightarrow> entry_of s (re_parent_fd x) (re_name x) = Some (re_descriptor x)
     \<and> re_identity x = stat_of s (re_descriptor x)"

lemma static_entryI:
  "entry_of s p name = Some i \<Longrightarrow>
   static_entry s \<lparr>re_parent_fd = p, re_name = name, re_descriptor = i, re_identity = stat_of s i\<rparr>"
  by (simp add: static_entry_def)

lemma same_entry_refl [simp]: "same_entry a a"
  by (simp add: same_entry_def)

lemma same_file_snapshot_refl [simp]: "same_file_snapshot a a"
  by (simp add: same_file_snapshot_def)

lemma wp_no_deadline [simp]: "wp (check_deadline no_deadline) Q X = (\<lambda>n. Q () (Suc n))"
  by (simp add: wp_check_deadline no_deadline_def)

lemma static_all_entries_still_match:
  assumes "quiescent Y s"
  shows "list_all (static_entry s) xs \<Longrightarrow> wp (all_entries_still_match Y xs) (\<lambda>ok _. ok) (\<lambda>_ _. False) n"
  by (induction xs arbitrary: n)
    (simp_all add: entry_still_matches_def os_stat_def os_fstat_def quiescentD [OF assms] static_entry_def)

lemma static_open_directory_chain:
  assumes "quiescent Y s"
  shows "held + length parts \<le> sy_max_fds Y \<Longrightarrow> list_all (static_entry s) retained \<Longrightarrow>
    wp (open_directory_chain Y no_deadline ''path is not a directory'' u held retained p parts)
      (\<lambda>x _. lookup_directory s p parts = Inr (fst x) \<and> fst (snd x) = held + length parts
         \<and> list_all (static_entry s) (snd (snd x)))
      (\<lambda>e _. \<exists>r. lookup_directory s p parts = Inl r \<and> fails_as r e) n"
proof (induction parts arbitrary: held retained p n)
  case Nil
  then show ?case by (simp add: wp_def)
next
  case (Cons name parts)
  have "wp (open_directory_chain Y no_deadline ''path is not a directory'' u (Suc held)
        (retained @ [\<lparr>re_parent_fd = p, re_name = name, re_descriptor = i, re_identity = stat_of s i\<rparr>]) i parts)
      (\<lambda>x _. lookup_directory s i parts = Inr (fst x) \<and> fst (snd x) = Suc (held + length parts)
         \<and> list_all (static_entry s) (snd (snd x)))
      (\<lambda>e _. \<exists>r. lookup_directory s i parts = Inl r \<and> fails_as r e) m"
    if "entry_of s p name = Some i" for i m
    using Cons.IH [of "Suc held" "retained @ [\<lparr>re_parent_fd = p, re_name = name, re_descriptor = i,
      re_identity = stat_of s i\<rparr>]" i m] Cons.prems static_entryI [OF that] by simp
  then show ?case
    using Cons.prems
    by (simp add: open_directory_at_def stat_at_def fstat_at_def os_stat_def os_fstat_def
        os_open_directory_def quiescentD [OF assms] split: option.split)
qed

lemma static_read_file:
  shows "quiescent Y s \<Longrightarrow> wp (read_file Y no_deadline u fd pos) (\<lambda>c _. c = drop pos (fs_content s fd)) (\<lambda>_ _. False) n"
proof (induction Y "no_deadline" u fd pos arbitrary: n rule: read_file.induct)
  case (1 Y u fd pos)
  let ?c = "fs_content s fd"
  have "wp (read_file Y no_deadline u fd (pos + length chunk)) (\<lambda>rest _. chunk @ rest = drop pos ?c) (\<lambda>_ _. False) m"
    if "chunk \<noteq> []" "\<not> sy_max_size Y \<le> pos" "chunk = take k (drop pos ?c)" for chunk k m
  proof (rule wp_mono [OF 1(1)])
    fix rest
    assume "rest = drop (pos + length chunk) ?c"
    then show "chunk @ rest = drop pos ?c"
      using that(3) take_drop_length [of k "drop pos ?c"] by (simp add: ac_simps del: length_take)
  qed (use that 1(2) in auto)
  then have step: "wp (if chunk = [] \<or> sy_max_size Y \<le> pos then ireturn []
       else ibind (read_file Y no_deadline u fd (pos + length chunk)) (\<lambda>rest. ireturn (chunk @ rest)))
     (\<lambda>c _. c = drop pos ?c) (\<lambda>_ _. False) m"
    if "chunk = take (Suc k) (drop pos ?c)" for chunk k m
    using that quiescentD(3) [OF 1(2), of fd] by auto
  show ?case
    by (subst read_file.simps)
      (simp add: quiescentD [OF 1(2)] step del: wp_if length_take take_eq_Nil drop_eq_Nil)
qed

lemma static_read_regular_file_at:
  assumes "quiescent Y s" "held < sy_max_fds Y"
  shows "wp (read_regular_file_at Y no_deadline held p name u None)
    (\<lambda>r _. fst r = lookup_file s (sy_sha256 Y) p name)
    (\<lambda>e _. fails_as (lookup_file s (sy_sha256 Y) p name) e) n"
proof -
  have content: "wp (read_file Y no_deadline u fd 0) (\<lambda>c _. c = fs_content s fd) (\<lambda>_ _. False) m" for fd m
    by (rule wp_mono [OF static_read_file [OF assms(1)]]) auto
  show ?thesis
    using assms(2)
    by (auto simp: read_regular_file_at_def read_opened_file_def stat_at_def fstat_at_def os_stat_def os_fstat_def
        os_open_file_def entry_still_matches_def lookup_file_def quiescentD [OF assms(1)]
        intro!: wp_mono [OF content] split: option.split)
qed

lemma static_read_walk:
  assumes "quiescent Y s" "length (posix_parts path) < sy_max_fds Y"
  shows "wp (read_walk Y no_deadline path None)
    (\<lambda>r _. fst r = reference_file s (sy_sha256 Y) path) (\<lambda>e _. fails_as (reference_file s (sy_sha256 Y) path) e) n"
proof -
  let ?parts = "posix_parts path"
  let ?r = "reference_file s (sy_sha256 Y) path"
  have chain: "wp (open_directory_chain Y no_deadline ''path is not a directory'' ''file could not be read'' (Suc 0) [] base
        (butlast ?parts)) (\<lambda>x _. lookup_directory s base (butlast ?parts) = Inr (fst x)
          \<and> fst (snd x) = length ?parts \<and> list_all (static_entry s) (snd (snd x)))
      (\<lambda>e _. \<exists>r. lookup_directory s base (butlast ?parts) = Inl r \<and> fails_as r e) m"
    if "?parts \<noteq> []" for base m
    using static_open_directory_chain [OF assms(1), of 1 "butlast ?parts" "[]"] assms(2) that
    by (cases "length ?parts") simp_all
  have [simp]: "posix_parts [] = []"
    by (simp add: posix_parts_def)
  show ?thesis
    using assms(2) unfolding read_walk_def
    by (auto simp: relative_parts_def open_run_directory_def os_open_root_def os_lstat_root_def
       quiescentD [OF assms(1)] reference_file_def Let_def
       intro!: wp_mono [OF chain] wp_mono [OF static_read_regular_file_at [OF assms(1)]]
         wp_mono [OF static_all_entries_still_match [OF assms(1)]]
       split: option.split)
qed

lemma static_validate_regular_file:
  assumes "quiescent Y s" "length (posix_parts path) < sy_max_fds Y"
  shows "fst (validate_regular_file Y no_deadline path n) = Inr (reference_file s (sy_sha256 Y) path)"
proof -
  have "wp (ibind (read_walk Y no_deadline path None) (\<lambda>(result, _). ireturn result))
    (\<lambda>r _. r = reference_file s (sy_sha256 Y) path) (\<lambda>e _. fails_as (reference_file s (sy_sha256 Y) path) e) n"
    unfolding wp_ibind by (rule wp_mono [OF static_read_walk [OF assms]]) auto
  then have "wp (validate_regular_file Y no_deadline path)
    (\<lambda>r _. r = reference_file s (sy_sha256 Y) path) (\<lambda>_ _. False) n"
    unfolding validate_regular_file_def catch_failure_def wp_icatch
    by (rule wp_mono) (auto simp: fails_as_def)
  then show ?thesis
    by (auto simp: wp_def split: prod.splits sum.splits)
qed

text \<open>
  C33. On a run directory that does not change and whose calls do not fail, with enough
  descriptors for the path, \<open>validate_regular_file\<close> returns exactly the reference result:
  \<open>VALID\<close> with the size and the hash of the content when plain lookup of the path meets
  directories only and ends at a regular file with one hard link, and otherwise the status
  and detail of the first obstacle. \<open>validate_nonempty_regular_file\<close> differs on empty files only.
\<close>

theorem validate_regular_file_exact:
  assumes "quiescent Y s" "length (posix_parts path) < sy_max_fds Y"
  shows "fst (validate_regular_file Y no_deadline path n) = Inr (reference_file s (sy_sha256 Y) path)
     \<and> fst (validate_nonempty_regular_file Y no_deadline path n)
       = Inr (let r = reference_file s (sy_sha256 Y) path in
              if vr_status r = VALID \<and> vr_size_bytes r = VInt 0 then invalid_result ''regular file is empty'' else r)"
  using static_validate_regular_file [OF assms, of n]
  by (cases "validate_regular_file Y no_deadline path n")
    (auto simp: validate_nonempty_regular_file_def ibind_def Let_def)

section \<open>A concrete run directory\<close>

text \<open>\<open>logs/gazebo.jsonl\<close> with two bytes, and a symbolic link \<open>video\<close>.\<close>

definition run_attributes :: "nat \<Rightarrow> stat_result" where
  "run_attributes i = \<lparr>st_dev = 1, st_ino = i,
     st_kind = (if i < 2 then Directory else if i = 2 then Regular else Symlink), st_perm = 420,
     st_nlink = 1, st_size = 2, st_mtime_ns = 0, st_ctime_ns = 0\<rparr>"

definition run_snapshot :: snapshot where
  "run_snapshot = \<lparr>fs_root = Some 0, fs_attributes = run_attributes,
     fs_entries = (\<lambda>i. if i = 0 then [(''logs'', 1), (''video'', 3)]
                        else if i = 1 then [(''gazebo.jsonl'', 2)] else []),
     fs_content = (\<lambda>i. if i = 2 then ''{}'' else [])\<rparr>"

definition run_system :: system where
  "run_system = \<lparr>sy_fs = (\<lambda>_. run_snapshot), sy_fault = (\<lambda>_. None), sy_chunk = (\<lambda>_. 0),
     sy_max_size = 1000, sy_max_fds = 16, sy_zstd_ok = (\<lambda>_. True),
     sy_sha256 = (\<lambda>_. replicate 64 (CHR ''0''))\<rparr>"

lemma run_system_quiescent: "quiescent run_system run_snapshot"
  by (simp add: quiescent_def run_system_def run_snapshot_def)

lemma run_reference:
  "reference_file run_snapshot sha ''logs/gazebo.jsonl'' = valid_result 2 (sha ''{}'') ''valid regular file''"
  "reference_file run_snapshot sha ''video/onboard.mp4'' = invalid_result ''symlinks are not allowed''"
  "posix_parts ''logs/gazebo.jsonl'' = [''logs'', ''gazebo.jsonl'']"
  by (simp_all add: reference_file_def posix_parts_def lookup_file_def Let_def run_snapshot_def entry_of_def
      stat_of_def run_attributes_def)

lemma run_system_fds: "length (posix_parts ''logs/gazebo.jsonl'') < sy_max_fds run_system"
  by (simp add: run_reference run_system_def)

theorem validate_regular_file_exact_witness:
  "quiescent run_system run_snapshot
   \<and> fst (validate_regular_file run_system no_deadline ''logs/gazebo.jsonl'' 7)
     = Inr (valid_result 2 (replicate 64 (CHR ''0'')) ''valid regular file'')"
  using validate_regular_file_exact [OF run_system_quiescent run_system_fds, of 7] run_system_quiescent
  by (simp add: run_reference) (simp add: run_system_def)

text \<open>What is read from the descriptor of \<open>gazebo.jsonl\<close> are its two bytes.\<close>

lemma run_pinned_content:
  assumes "pinned_path run_system lo hi [''logs'', ''gazebo.jsonl''] bytes content"
  shows "content = ''{}''"
proof -
  have run [simp]: "sy_fs run_system = (\<lambda>_. run_snapshot)" "sy_max_size run_system = 1000"
    by (simp_all add: run_system_def)
  obtain t1 t2 fd fds t0 where "chain_seen run_system t0 t1 0 [''logs''] fds"
      "pinned_file run_system t1 t2 (last (0 # fds)) ''gazebo.jsonl'' fd bytes content"
    using assms unfolding pinned_path_def by (auto simp: run_snapshot_def)
  then obtain c t3 t4 where "fds = [c]" "directory_seen run_system t0 t1 0 ''logs'' c"
      "entry_of run_snapshot (last (0 # fds)) ''gazebo.jsonl'' = Some fd" "bytes_read run_system t3 t4 fd 0 content"
    by (cases fds) (auto simp: pinned_file_def neq_Nil_conv elim: chain_seen.elims)
  moreover from this have "c = 1"
    by (auto simp: directory_seen_def entry_of_def run_snapshot_def)
  ultimately have "fd = 2" "bytes_read run_system t3 t4 2 0 content"
    by (auto simp: entry_of_def run_snapshot_def)
  then show ?thesis
    using bytes_read_stable [of run_system t3 t4 2 0 content "''{}''"] by (simp add: run_snapshot_def)
qed

theorem valid_file_pinned_witness:
  "\<exists>n'. pinned_path run_system 0 n' [''logs'', ''gazebo.jsonl''] 2 ''{}''"
proof -
  obtain n' where "validate_regular_file run_system no_deadline ''logs/gazebo.jsonl'' 0
      = (Inr (valid_result 2 (sy_sha256 run_system ''{}'') ''valid regular file''), n')"
    using static_validate_regular_file [OF run_system_quiescent run_system_fds, of 0]
    by (metis prod.collapse run_reference(1))
  from valid_file_pinned [OF this] show ?thesis
    using run_pinned_content by (fastforce simp: valid_result_def run_reference(3))
qed

definition short_deadline :: deadline where
  "short_deadline n = (if n < 9 then None else Some TimeoutError)"

lemma run_system_sane: "sane (run_system, short_deadline)"
  by (simp add: sane_def run_system_def short_deadline_def lowercase_digest_def is_lower_hex_def is_digit_def list_all_iff)

theorem validators_well_formed_witness:
  "sane (run_system, short_deadline)
   \<and> outcome_ok run_system (fst (validate_tree run_system short_deadline ''logs'' 0))
   \<and> outcome_ok run_system (fst (validate_gazebo_state run_system short_deadline ''logs'' 0))"
  using validators_well_formed [OF run_system_sane, of "''logs''" 0] run_system_sane by simp

end
