(* ===== verification/Artifact_Session_Props.thy ===== *)
theory Artifact_Session_Props
  imports Artifact_Session Artifact_Validation_Static
begin

text \<open>
  Finalization with the validators of \<open>validation.py\<close>: whatever the filesystem does and
  whenever the deadlines expire, only an error of \<open>fstat\<close> or of the commit itself keeps a run
  from getting its manifest.
\<close>

section \<open>The session over the filesystem validators\<close>

definition as_validator :: "(string \<Rightarrow> validation_result timed) \<Rightarrow> validator" where
  "as_validator V path = tbind (V path) (\<lambda>r. treturn (Inr (Some r)))"


lemma wp_tbind [simp]: "wp (tbind m f) Q X = wp m (\<lambda>x. wp (f x) Q X) X"
  by (simp add: wp_def tbind_def fun_eq_iff split: prod.splits sum.splits)

lemma wp_treturn [simp]: "wp (treturn r) Q X = (\<lambda>n. case r of Inr x \<Rightarrow> Q x n | Inl e \<Rightarrow> X e n)"
  by (simp add: wp_def fun_eq_iff)

lemma wp_ttry [simp]:
  "wp (ttry m h k) Q X = wp m (\<lambda>x. wp (k x) Q X) (\<lambda>e. if e = TimeoutError then wp h Q X else X e)"
  by (simp add: wp_def ttry_def fun_eq_iff split: prod.splits sum.splits)

text \<open>
  What the session needs of a validator: a well-formed result, a \<open>TimeoutError\<close>, or one of the
  faults \<open>F\<close>, which the session does not catch.
\<close>

definition well_behaved :: "(exn \<Rightarrow> bool) \<Rightarrow> validator \<Rightarrow> bool" where
  "well_behaved F V \<longleftrightarrow>
     (\<forall>p n. wp (V p) (\<lambda>r _. \<exists>x. r = Some x \<and> result_ok x) (\<lambda>e _. e = TimeoutError \<or> F e) n)"


context validator_contract
begin

lemma contract_well_behaved:
  assumes "sane_for c" and "\<And>e. may_raise c e \<Longrightarrow> e = TimeoutError \<or> F e"
  shows "well_behaved F (as_validator (V c))"
  using assms by (auto simp: well_behaved_def as_validator_def intro!: wp_mono [OF contract])

end



section \<open>Records\<close>

text \<open>The record of a path, with well-formed content.\<close>

definition record_of :: "string \<Rightarrow> artifact_record \<Rightarrow> bool" where
  "record_of p x \<longleftrightarrow> af_relative_path x = VStr p \<and> (is_manifest_relative_path (VStr p) \<longrightarrow> artifact_ok x)"

lemma session_record_ok:
  assumes "result_ok r"
  shows "\<exists>x. session_record p (Some r) = Inr x \<and> record_of p x"
  using assms unfolding record_of_def
  by (cases "vr_status r")
    (auto simp: session_record_def artifact_ok_def artifact_valid_def artifact_absent_def result_ok_def)

text \<open>A deadline check raises \<open>TimeoutError\<close> only.\<close>

definition timeouts_only :: "deadline \<Rightarrow> bool" where
  "timeouts_only dl \<longleftrightarrow> (\<forall>n. dl n = None \<or> dl n = Some TimeoutError)"

lemma wp_timeout_check:
  "timeouts_only dl \<Longrightarrow> Q () (Suc n) \<Longrightarrow> X TimeoutError (Suc n) \<Longrightarrow> wp (check_deadline dl) Q X n"
  by (auto simp: wp_check_deadline timeouts_only_def dest: spec [of _ n] split: option.split)

lemma exhausted_result_ok: "d \<noteq> [] \<Longrightarrow> result_ok (exhausted_result d)"
  by (simp add: result_ok_def exhausted_result_def)

lemma wp_required_result:
  assumes "well_behaved F V" "timeouts_only dl"
  shows "wp (required_result dl V ex p) (\<lambda>r _. \<exists>x. fst r = Some x \<and> result_ok x) (\<lambda>e _. F e) n"
proof -
  have V: "wp (V p) Q X m" if "\<And>x k. result_ok x \<Longrightarrow> Q (Some x) k" "\<And>k. X TimeoutError k"
      "\<And>e k. F e \<Longrightarrow> X e k" for Q X m
    using assms(1) that unfolding well_behaved_def
    by (elim allE [of _ p] allE [of _ m] wp_mono) auto
  show ?thesis
    unfolding required_result_def
    by (auto intro!: wp_timeout_check [OF assms(2)] V exhausted_result_ok)
qed

lemma wp_required_records:
  assumes "well_behaved F V" "timeouts_only dl"
  shows "wp (required_records dl V ex ps) (\<lambda>xs _. list_all2 record_of ps xs) (\<lambda>e _. F e) n"
proof (induction ps arbitrary: ex n)
  case (Cons p ps)
  have rest: "wp (required_records dl V ex' ps) (\<lambda>xs _. list_all2 record_of ps xs) (\<lambda>e _. F e) m" for ex' m
    by (rule Cons.IH)
  show ?case
    unfolding required_records.simps wp_tbind
  proof (rule wp_mono [OF wp_required_result [OF assms]])
    fix r :: "validation_result option \<times> bool" and m
    assume "\<exists>x. fst r = Some x \<and> result_ok x"
    then obtain x ex' where r: "r = (Some x, ex')" "result_ok x"
      by (cases r) auto
    obtain y where "session_record p (Some x) = Inr y" "record_of p y"
      using session_record_ok [OF r(2)] by blast
    then show "wp (case r of (r, exhausted') \<Rightarrow> tbind (treturn (session_record p r)) (\<lambda>x.
        tbind (required_records dl V exhausted' ps) (\<lambda>xs. treturn (Inr (x # xs)))))
        (\<lambda>xs _. list_all2 record_of (p # ps) xs) (\<lambda>e _. F e) m"
      using r(1) by (auto intro!: wp_mono [OF rest])
  qed simp
qed simp

section \<open>Optional artifacts\<close>

definition tree_paths :: "run_tree \<Rightarrow> string list" where
  "tree_paths T = (if rt_autotune_exists T then [''ardupilot_sitl/autotune-roll.parm''] else [])
     @ concat (map (\<lambda>(d, names). map (\<lambda>name. d @ ''/'' @ name) names) (rt_docker_walk T))
     @ map fst (rt_partials T)"

text \<open>Every name the scan can report is portable: relative, without \<open>..\<close> or backslash.\<close>

definition portable_tree :: "run_tree \<Rightarrow> bool" where
  "portable_tree T \<longleftrightarrow> list_all (\<lambda>p. is_manifest_relative_path (VStr p)) (tree_paths T)"

lemma wp_walk_files:
  assumes "timeouts_only dl"
  shows "wp (walk_files dl d names) (\<lambda>ps _. set ps \<subseteq> (\<lambda>name. d @ ''/'' @ name) ` set names) (\<lambda>e _. e = TimeoutError) n"
proof (induction names arbitrary: n)
  case (Cons name names)
  show ?case
    by (auto intro!: wp_timeout_check [OF assms] wp_mono [OF Cons.IH])
qed simp

lemma wp_walk_directories:
  assumes "timeouts_only dl"
  shows "wp (walk_directories dl rows)
    (\<lambda>ps _. set ps \<subseteq> (\<Union>(d, names)\<in>set rows. (\<lambda>name. d @ ''/'' @ name) ` set names)) (\<lambda>e _. e = TimeoutError) n"
proof (induction rows arbitrary: n)
  case (Cons row rows)
  show ?case
    by (cases row) (fastforce intro!: wp_timeout_check [OF assms] wp_mono [OF wp_walk_files [OF assms]]
      wp_mono [OF Cons.IH])
qed simp

lemma wp_scan_partials:
  assumes "timeouts_only dl"
  shows "wp (scan_partials dl rows) (\<lambda>ps _. set ps \<subseteq> fst ` set rows) (\<lambda>e _. e = TimeoutError) n"
proof (induction rows arbitrary: n)
  case (Cons row rows)
  show ?case
    by (cases row) (auto intro!: wp_timeout_check [OF assms] wp_mono [OF Cons.IH] split: if_splits)
qed simp

lemma wp_optional_paths:
  assumes "timeouts_only dl"
  shows "wp (optional_paths dl T)
    (\<lambda>ps _. set ps \<subseteq> set (tree_paths T) \<and> distinct ps \<and> list_all optional_path ps) (\<lambda>e _. e = TimeoutError) n"
  unfolding optional_paths_def wp_tbind
proof (rule wp_mono [OF wp_walk_directories [OF assms]])
  fix walked k
  assume walked: "set walked \<subseteq> (\<Union>(d, names)\<in>set (rt_docker_walk T). (\<lambda>name. d @ ''/'' @ name) ` set names)"
  have "set walked \<subseteq> set (concat (map (\<lambda>(d, names). map (\<lambda>name. d @ ''/'' @ name) names) (rt_docker_walk T)))"
    using walked by (fastforce simp: image_iff)
  then have walked: "set walked \<subseteq> set (tree_paths T)"
    by (auto simp: tree_paths_def)
  show "wp (scan_partials dl (rt_partials T)) (\<lambda>partials. wp (treturn (Inr (filter optional_path (sort (remdups
      ((if rt_autotune_exists T then [''ardupilot_sitl/autotune-roll.parm''] else []) @ walked @ partials))))))
      (\<lambda>ps _. set ps \<subseteq> set (tree_paths T) \<and> distinct ps \<and> list_all optional_path ps) (\<lambda>e _. e = TimeoutError))
      (\<lambda>e _. e = TimeoutError) k"
    by (rule wp_mono [OF wp_scan_partials [OF assms]])
      (use walked in \<open>auto simp: tree_paths_def list_all_iff split: if_splits\<close>)
qed simp

lemma wp_collect_optional:
  assumes "well_behaved F V" "timeouts_only dl"
  shows "wp (collect_optional dl V records ps)
      (\<lambda>xs _. \<exists>k new. xs = records @ new \<and> list_all2 record_of (take k ps) new) (\<lambda>e _. F e) n"
proof (induction ps arbitrary: records n)
  case (Cons p ps)
  have stop: "\<exists>k new. records = records @ new \<and> list_all2 record_of (take k (p # ps)) new"
    by (intro exI [of _ 0] exI [of _ "[]"]) simp
  have V: "wp (V p) Q X m" if "\<And>x k. result_ok x \<Longrightarrow> Q (Some x) k" "\<And>k. X TimeoutError k"
      "\<And>e k. F e \<Longrightarrow> X e k" for Q X m
    using assms(1) that unfolding well_behaved_def
    by (elim allE [of _ p] allE [of _ m] wp_mono) auto
  have go: "wp (collect_optional dl V (records @ [y]) ps)
      (\<lambda>xs _. \<exists>k new. xs = records @ new \<and> list_all2 record_of (take k (p # ps)) new) (\<lambda>e _. F e) m"
    if "record_of p y" for y m
  proof (rule wp_mono [OF Cons.IH])
    fix xs
    assume "\<exists>k new. xs = (records @ [y]) @ new \<and> list_all2 record_of (take k ps) new"
    then obtain k new where "xs = records @ y # new" "list_all2 record_of (take k ps) new"
      by auto
    then show "\<exists>k new. xs = records @ new \<and> list_all2 record_of (take k (p # ps)) new"
      using that by (intro exI [of _ "Suc k"] exI [of _ "y # new"]) simp
  qed auto
  show ?case
    unfolding collect_optional.simps wp_ttry wp_tbind
  proof (intro wp_timeout_check [OF assms(2)] V)
    fix x k
    assume "result_ok x"
    then obtain y where y: "session_record p (Some x) = Inr y" "record_of p y"
      using session_record_ok by blast
    show "wp (treturn (session_record p (Some x))) (\<lambda>x. wp (collect_optional dl V (records @ [x]) ps)
        (\<lambda>xs _. \<exists>k new. xs = records @ new \<and> list_all2 record_of (take k (p # ps)) new) (\<lambda>e _. F e))
        (\<lambda>e. if e = TimeoutError then wp (treturn (Inr records))
          (\<lambda>xs _. \<exists>k new. xs = records @ new \<and> list_all2 record_of (take k (p # ps)) new) (\<lambda>e _. F e)
          else (\<lambda>_. F e)) k"
      using go [OF y(2)] y(1) by simp
  qed (use stop in simp_all)
next
  case Nil
  then show ?case by (auto simp: wp_def intro!: exI [of _ 0])
qed

text \<open>
  The optional records: of distinct paths outside the required ones, portable when every
  name of the run directory is.
\<close>

definition optional_ok :: "run_tree \<Rightarrow> artifact_record list \<Rightarrow> bool" where
  "optional_ok T xs \<longleftrightarrow> (\<exists>ps. list_all2 record_of ps xs \<and> distinct ps \<and> set ps \<inter> set REQUIRED_ARTIFACT_PATHS = {}
     \<and> set ps \<subseteq> set (tree_paths T))"

lemma wp_optional_records:
  assumes "well_behaved F V" "timeouts_only dl"
  shows "wp (optional_records dl V T) (\<lambda>xs _. optional_ok T xs) (\<lambda>e _. F e) n"
  unfolding optional_records_def wp_ttry
proof (rule wp_mono [OF wp_optional_paths [OF assms(2)]])
  fix ps k
  assume ps: "set ps \<subseteq> set (tree_paths T) \<and> distinct ps \<and> list_all optional_path ps"
  have sub: "set (take j ps) \<inter> set REQUIRED_ARTIFACT_PATHS = {}" "set (take j ps) \<subseteq> set (tree_paths T)" for j
    using ps set_take_subset [of j ps] by (auto simp: list_all_iff optional_path_def)
  show "wp (collect_optional dl V [] ps) (\<lambda>xs _. optional_ok T xs) (\<lambda>e _. F e) k"
  proof (rule wp_mono [OF wp_collect_optional [OF assms]])
    fix xs
    assume "\<exists>k new. xs = [] @ new \<and> list_all2 record_of (take k ps) new"
    then show "optional_ok T xs"
      using ps sub distinct_take unfolding optional_ok_def by fastforce
  qed
qed (auto simp: optional_ok_def)

section \<open>The manifest of a well-formed request\<close>

definition request_ok :: "finalization_input \<Rightarrow> bool" where
  "request_ok q \<longleftrightarrow>
     nonempty_str (fi_run_id q) \<and> strict_str (fi_reason q) \<noteq> None
     \<and> fi_requested_terminal q \<in> {VStr ''ABORTED'', VStr ''COMPLETED'', VStr ''FAILED''}
     \<and> (case (fi_sim_start_ns q, fi_sim_end_ns q) of
          (None, None) \<Rightarrow> True | (Some a, Some b) \<Rightarrow> 0 \<le> a \<and> a \<le> b | _ \<Rightarrow> False)
     \<and> (case (fi_wall_started_at q, fi_wall_ended_at q) of
          (Aware a, Aware b) \<Rightarrow> a \<le> b \<and> isfinite (total_seconds (b - a)) | _ \<Rightarrow> False)
     \<and> score_ok (fi_achieved_score q) \<and> score_ok (fi_maximum_available_score q)
     \<and> (fi_scoring_checksum q = VNone \<or> lowercase_digest (fi_scoring_checksum q))
     \<and> list_all source_ok (fi_source_revisions q) \<and> distinct (map sv_name (fi_source_revisions q))
     \<and> list_all image_ok (fi_image_digests q) \<and> distinct (map im_name (fi_image_digests q))
     \<and> list_all configuration_ok (fi_configuration_records q)
     \<and> distinct (map cf_relative_path (fi_configuration_records q))
     \<and> distinct (fi_evidence_paths q)
     \<and> list_all (\<lambda>p. is_manifest_relative_path (VStr (hd (split_on (CHR ''#'') p)))) (fi_evidence_paths q)"

lemma record_of_paths:
  "list_all2 record_of ps xs \<Longrightarrow> map af_relative_path xs = map VStr ps
     \<and> (list_all (\<lambda>p. is_manifest_relative_path (VStr p)) ps \<longrightarrow> list_all artifact_ok xs)"
  by (induction rule: list_all2_induct) (auto simp: record_of_def)

lemma list_all2_member: "list_all2 R ps xs \<Longrightarrow> x \<in> set xs \<Longrightarrow> \<exists>p\<in>set ps. R p x"
  by (induction rule: list_all2_induct) auto

lemma incomplete_of_exact:
  assumes "list_all2 record_of REQUIRED_ARTIFACT_PATHS required"
    and "distinct (map af_relative_path (required @ optional))" "list_all artifact_ok (required @ optional)"
  shows "incomplete_of required
       = filter (\<lambda>p. \<not> recorded_valid (required @ optional) p) REQUIRED_ARTIFACT_PATHS"
proof -
  have paths: "map path_string required = REQUIRED_ARTIFACT_PATHS"
    using assms(1) by (induction rule: list_all2_induct) (auto simp: record_of_def path_string_def)
  have "recorded_valid (required @ optional) (path_string x) \<longleftrightarrow> af_validation x = VStr ''valid''"
    if x: "x \<in> set required" for x
  proof -
    obtain p where p: "record_of p x" "is_manifest_relative_path (VStr p)"
      using list_all2_member [OF assms(1) x] required_paths_ok(2) by (auto simp: list_all_iff)
    have inj: "inj_on af_relative_path (set (required @ optional))"
      using assms(2) unfolding distinct_map by blast
    have "y = x" if "y \<in> set (required @ optional)" "af_relative_path y = VStr (path_string x)" for y
      by (rule inj_onD [OF inj]) (use that p x in \<open>simp_all add: record_of_def path_string_def\<close>)
    then have "recorded_valid (required @ optional) (path_string x) \<longleftrightarrow> artifact_valid x"
      using p x by (auto simp: recorded_valid_def record_of_def path_string_def)
    also have "artifact_valid x \<longleftrightarrow> af_validation x = VStr ''valid''"
      using p by (auto simp: record_of_def artifact_ok_def artifact_valid_def artifact_absent_def)
    finally show ?thesis .
  qed
  then have "filter (\<lambda>p. \<not> recorded_valid (required @ optional) p) (map path_string required)
      = map path_string (filter (\<lambda>x. af_validation x \<noteq> VStr ''valid'') required)"
    by (simp add: filter_map comp_def cong: filter_cong)
  then show ?thesis
    using paths by (simp add: incomplete_of_def)
qed

lemma session_manifest_ok:
  assumes "request_ok q" "list_all2 record_of REQUIRED_ARTIFACT_PATHS required" "optional_ok T optional"
    and "portable_tree T"
  shows "manifest_ok (session_manifest q required optional)"
proof -
  let ?arts = "required @ optional"
  obtain ps where ps: "list_all2 record_of ps optional" "distinct ps" "set ps \<inter> set REQUIRED_ARTIFACT_PATHS = {}"
      "list_all (\<lambda>p. is_manifest_relative_path (VStr p)) ps"
    using assms(3,4) by (auto simp: optional_ok_def portable_tree_def list_all_iff)
  have paths: "map af_relative_path ?arts = map VStr (REQUIRED_ARTIFACT_PATHS @ ps)" "list_all artifact_ok ?arts"
    using record_of_paths [OF assms(2)] record_of_paths [OF ps(1)] required_paths_ok(2) ps(4) by simp_all
  have dist: "distinct (map af_relative_path ?arts)"
    unfolding paths(1) using ps(2,3) required_paths_ok(1) by (auto simp: distinct_map inj_on_def)
  have cover: "VStr ` set REQUIRED_ARTIFACT_PATHS \<subseteq> af_relative_path ` set ?arts"
    using arg_cong [OF paths(1), of set] by auto
  have inc: "incomplete_of required = filter (\<lambda>p. \<not> recorded_valid ?arts p) REQUIRED_ARTIFACT_PATHS"
    by (rule incomplete_of_exact [OF assms(2) dist paths(2)])
  have sim: "simulation_ok (request_simulation q)"
    using assms(1) by (auto simp: request_ok_def simulation_ok_def request_simulation_def int_or_none_def
        split: option.splits)
  have wall: "wall_ok (request_wall q)"
    using assms(1) by (auto simp: request_ok_def wall_ok_def request_wall_def split: wall_stamp.splits)
  have status: "effective_terminal (fi_requested_terminal q) inc \<in> {VStr ''ABORTED'', VStr ''COMPLETED'', VStr ''FAILED''}"
    "\<not> (effective_terminal (fi_requested_terminal q) inc = VStr ''COMPLETED'' \<and> inc \<noteq> [])" for inc
    using assms(1) by (auto simp: request_ok_def effective_terminal_def)
  show ?thesis
    using assms(1) dist paths(2) cover inc sim wall status [of "incomplete_of required"]
    by (simp add: manifest_ok_def session_manifest_def Let_def request_ok_def)
qed

section \<open>Every finalization reaches its commit\<close>

text \<open>The commit of a manifest by \<open>S\<close>: its validation and its write, under the commit deadline.\<close>

definition commit_step :: "json_codec \<Rightarrow> os_env \<Rightarrow> artifact_session \<Rightarrow> run_manifest \<Rightarrow> (commit_world, unit) io" where
  "commit_step J E S m =
     ibind (timed_io (validate_manifest (se_commit_deadline S) m)) (\<lambda>_.
       write_manifest_atomic J (E\<lparr>os_deadline := se_commit_deadline S\<rparr>) m)"

text \<open>
  The manifest of a request: one record per required path, each a well-formed validation
  result, the records of optional paths, and the terminal status they allow.
\<close>

definition manifest_of :: "finalization_input \<Rightarrow> run_tree \<Rightarrow> run_manifest \<Rightarrow> bool" where
  "manifest_of q T m \<longleftrightarrow> (\<exists>required optional. m = session_manifest q required optional
     \<and> list_all2 record_of REQUIRED_ARTIFACT_PATHS required \<and> optional_ok T optional)"

lemma manifest_of_status:
  "manifest_of q T m \<Longrightarrow> rm_terminal_status m = effective_terminal (fi_requested_terminal q) (rm_incomplete_paths m)"
  by (auto simp: manifest_of_def session_manifest_def Let_def)

lemma manifest_of_ok: "manifest_of q T m \<Longrightarrow> request_ok q \<Longrightarrow> portable_tree T \<Longrightarrow> manifest_ok m"
  by (auto simp: manifest_of_def intro: session_manifest_ok)

lemma wp_commit_step:
  "wp (commit_step J E S m) (\<lambda>_ w'. manifest_ok m \<and> committed (manifest_bytes J m) w w') (\<lambda>_ _. True) w"
  unfolding commit_step_def wp_ibind
  by (auto simp: wp_timed_io committed_def split: prod.split sum.split
      intro!: wp_mono [OF wp_write_manifest_atomic])

text \<open>Nothing but a fault of a validator or of the commit stands between a request and its manifest.\<close>

abbreviation reported :: "finalization_input \<Rightarrow> run_manifest \<Rightarrow> finalization_result \<Rightarrow> bool" where
  "reported q m res \<equiv> fz_terminal_status res = effective_terminal (fi_requested_terminal q) (rm_incomplete_paths m)"

lemma wp_finalize_with_result:
  assumes S: "well_behaved F (se_validators S)" "well_behaved F (se_regular_file S)" "timeouts_only (se_deadline S)"
  shows "wp (finalize_with_result J E S T q)
     (\<lambda>res w'. \<exists>m. manifest_of q T m \<and> manifest_ok m \<and> cw_target w' = File (manifest_bytes J m) \<and> reported q m res)
     (\<lambda>e w'. F e \<and> cw_target w' = cw_target w
        \<or> (\<exists>m v. manifest_of q T m \<and> cw_target v = cw_target w \<and> commit_step J E S m v = (Inl e, w'))) w"
    (is "wp _ ?Q ?X w")
proof -
  have rest: "wp (let m = session_manifest q required optional in
       ibind (timed_io (validate_manifest (se_commit_deadline S) m)) (\<lambda>_.
       ibind (write_manifest_atomic J (E\<lparr>os_deadline := se_commit_deadline S\<rparr>) m) (\<lambda>_.
         timed_io (treturn (finalization_post_init
           \<lparr>fz_path = ''manifest.json'', fz_run_id = rm_manifest_run_id m,
            fz_terminal_status = rm_terminal_status m, fz_reason = rm_reason m\<rparr>))))) ?Q ?X v"
    if "list_all2 record_of REQUIRED_ARTIFACT_PATHS required" "optional_ok T optional" "cw_target v = cw_target w"
    for required optional v
  proof -
    let ?m = "session_manifest q required optional"
    have m: "manifest_of q T ?m"
      using that(1,2) by (auto simp: manifest_of_def)
    define res where "res = \<lparr>fz_path = ''manifest.json'', fz_run_id = rm_manifest_run_id ?m,
        fz_terminal_status = rm_terminal_status ?m, fz_reason = rm_reason ?m\<rparr>"
    have res: "finalization_post_init res = Inr res" if "manifest_ok ?m"
      using that unfolding manifest_ok_def finalization_post_init_def TERMINAL_STATUSES_def res_def by auto
    have "wp (commit_step J E S ?m) (\<lambda>_. wp (timed_io (treturn (finalization_post_init res))) ?Q ?X) ?X v"
    proof (rule wpI)
      fix u w'
      assume "commit_step J E S ?m v = (Inr u, w')"
      from wpD(1) [OF wp_commit_step this] have "manifest_ok ?m" "cw_target w' = File (manifest_bytes J ?m)"
        by (simp_all add: committed_def)
      moreover have "reported q ?m res"
        using manifest_of_status [OF m] by (simp add: res_def)
      ultimately show "wp (timed_io (treturn (finalization_post_init res))) ?Q ?X w'"
        using m by (auto simp: wp_timed_io res)
    qed (use m that(3) in blast)
    then show ?thesis
      unfolding Let_def commit_step_def res_def by simp
  qed
  have opt: "wp (timed_io (optional_records (se_deadline S) (se_regular_file S) T)) (\<lambda>xs v. optional_ok T xs
      \<and> cw_target v = cw_target u) (\<lambda>e v. F e \<and> cw_target v = cw_target u) u" for u
    using wp_optional_records [OF S(2,3), of T "cw_clock u"]
    by (auto simp: wp_timed_io wp_def split: prod.splits sum.splits)
  have req: "wp (timed_io (required_records (se_deadline S) (se_validators S) False REQUIRED_ARTIFACT_PATHS))
      (\<lambda>xs v. list_all2 record_of REQUIRED_ARTIFACT_PATHS xs \<and> cw_target v = cw_target w)
      (\<lambda>e v. F e \<and> cw_target v = cw_target w) w"
    using wp_required_records [OF S(1,3), of False REQUIRED_ARTIFACT_PATHS "cw_clock w"]
    by (auto simp: wp_timed_io wp_def split: prod.splits sum.splits)
  show ?thesis
    unfolding finalize_with_result_def wp_ibind
    by (intro wp_mono [OF req] wp_mono [OF opt] rest) auto
qed

text \<open>On a calm filesystem without a commit deadline, the commit of a first manifest succeeds.\<close>

lemma commit_step_calm:
  assumes "se_commit_deadline S = no_deadline" "calm (E\<lparr>os_deadline := no_deadline\<rparr>)"
    and "manifest_ok m" "cw_target w = Absent"
  shows "wp (commit_step J E S m) (\<lambda>_ _. True) (\<lambda>_ _. False) w"
proof -
  have valid: "validate_manifest no_deadline m n = (Inr (), n + validation_checks m)" for n
    by (simp add: validate_manifest_eq_Inr assms(3))
  show ?thesis
    unfolding commit_step_def wp_ibind wp_timed_io assms(1) valid
    using assms(4) by (auto intro!: wp_mono [OF wp_write_manifest_atomic_calm [OF assms(2,3)]]
        simp: as_register_def register_commit_def)
qed

lemma finalize_calm:
  assumes S: "well_behaved (\<lambda>_. False) (se_validators S)" "well_behaved (\<lambda>_. False) (se_regular_file S)"
      "timeouts_only (se_deadline S)" "se_commit_deadline S = no_deadline"
    and "portable_tree T" "request_ok q" "calm (E\<lparr>os_deadline := no_deadline\<rparr>)" "cw_target w = Absent"
  shows "wp (finalize_with_result J E S T q) (\<lambda>_ _. True) (\<lambda>_ _. False) w"
proof (rule wp_mono [OF wp_finalize_with_result [OF S(1-3)]])
  fix e w'
  assume "False \<and> cw_target w' = cw_target w
    \<or> (\<exists>m v. manifest_of q T m \<and> cw_target v = cw_target w \<and> commit_step J E S m v = (Inl e, w'))"
  then obtain m v where "manifest_of q T m" "cw_target v = cw_target w" "commit_step J E S m v = (Inl e, w')"
    by blast
  with commit_step_calm [OF S(4) assms(7), of m v J] show False
    using assms(5,6,8) by (simp add: wp_def manifest_of_ok)
qed simp



section \<open>Concrete finalizations\<close>

definition run_request :: finalization_input where
  "run_request = \<lparr>fi_run_id = VStr ''run'', fi_requested_terminal = VStr ''COMPLETED'', fi_reason = VStr ''landed'',
     fi_sim_start_ns = Some 0, fi_sim_end_ns = Some 50000000, fi_wall_started_at = Aware 0,
     fi_wall_ended_at = Aware 0, fi_source_revisions = [], fi_image_digests = [], fi_configuration_records = [],
     fi_achieved_score = VNone, fi_maximum_available_score = VNone, fi_scoring_checksum = VNone,
     fi_evidence_paths = [''scoring/events.jsonl#1'']\<rparr>"

definition run_files :: run_tree where
  "run_files = \<lparr>rt_autotune_exists = True, rt_docker_walk = [(''logs/docker'', [''gazebo.log''])],
     rt_partials = [(''video/onboard.mp4.partial'', Some False)]\<rparr>"

lemma run_request_ok: "request_ok run_request"
  by (simp add: request_ok_def run_request_def total_seconds_0 score_ok_def posix_parts_def)

lemma run_files_portable: "portable_tree run_files"
  by (simp add: portable_tree_def tree_paths_def run_files_def posix_parts_def)

lemma slow_disk_calm': "calm (slow_disk\<lparr>os_deadline := no_deadline\<rparr>)"
  by (simp add: calm_def slow_disk_def)

lemma run_directory_absent: "cw_target (run_directory Absent) = Absent"
  by (simp add: run_directory_def)





text \<open>A session whose validators accept everything, with the digest of an empty file.\<close>

definition accept_all :: validator where
  "accept_all p = treturn (Inr (Some (valid_result 0 (replicate 64 (CHR ''0'')) ''accepted'')))"

definition accepting_session :: artifact_session where
  "accepting_session = \<lparr>se_deadline = no_deadline, se_commit_deadline = no_deadline,
     se_validators = accept_all, se_regular_file = accept_all\<rparr>"

lemma accept_all_behaved: "well_behaved F accept_all"
  by (simp add: well_behaved_def accept_all_def result_ok_def valid_result_def lowercase_digest_def
      is_lower_hex_def is_digit_def list_all_iff wp_def)

lemma accepted_records:
  "required_records no_deadline accept_all False ps n = (Inr xs, n') \<Longrightarrow> list_all (\<lambda>x. af_validation x = VStr ''valid'') xs"
proof (induction ps arbitrary: n n' xs)
  case (Cons p ps)
  then show ?case
    by (auto simp: required_result_def ttry_def tbind_def check_deadline_def no_deadline_def accept_all_def
        session_record_def valid_result_def split: prod.splits sum.splits)
qed simp

theorem finalization_fails_closed_witness:
  "\<exists>res w' m. finalize_with_result (pieces_codec [''ab'']) slow_disk accepting_session run_files run_request
       (run_directory Absent) = (Inr res, w')
     \<and> fz_terminal_status res = VStr ''COMPLETED'' \<and> completion_vouched accept_all m
     \<and> cw_target w' = File (manifest_bytes (pieces_codec [''ab'']) m)"
proof -
  let ?run = "finalize_with_result (pieces_codec [''ab'']) slow_disk accepting_session run_files run_request
       (run_directory Absent)"
  have S: "well_behaved (\<lambda>_. False) (se_validators accepting_session)"
    "well_behaved (\<lambda>_. False) (se_regular_file accepting_session)"
    "timeouts_only (se_deadline accepting_session)" "se_commit_deadline accepting_session = no_deadline"
    by (simp_all add: accepting_session_def accept_all_behaved timeouts_only_def no_deadline_def)
  obtain res w' where run: "?run = (Inr res, w')"
    using wp_returns [OF finalize_calm [OF S run_files_portable run_request_ok slow_disk_calm'
      run_directory_absent]] by metis
  obtain required optional n n' where
    req: "required_records (se_deadline accepting_session) (se_validators accepting_session) False
        REQUIRED_ARTIFACT_PATHS n = (Inr required, n')"
    and res: "res = \<lparr>fz_path = ''manifest.json'', fz_run_id = fi_run_id run_request,
       fz_terminal_status = rm_terminal_status (session_manifest run_request required optional),
       fz_reason = fi_reason run_request\<rparr>"
    by (rule finalize_with_result_eq_Inr [OF run])
  have "list_all (\<lambda>x. af_validation x = VStr ''valid'') required"
    using req by (intro accepted_records) (simp add: accepting_session_def)
  then have "incomplete_of required = []"
    by (auto simp: incomplete_of_def list_all_iff filter_empty_conv)
  then have "fz_terminal_status res = VStr ''COMPLETED''"
    by (simp add: res session_manifest_def effective_terminal_def run_request_def Let_def)
  with finalization_fails_closed [OF run] show ?thesis
    using run by (auto simp: accepting_session_def)
qed

end
