(* ===== verification/Score_Models.thy ===== *)
theory Score_Models
  imports Runtime_Status Py_Float
begin

text \<open>
  The data of the scorekeeper: the result and event contracts of \<open>scorekeeper/models.py\<close>, the
  vehicle sample of \<open>scorekeeper/descent.py\<close> and the construction of a result from the outcome
  of every rule, which both scorers share.

  Samples are finite, as their constructors check; vectors are lists of the checked length. The
  functions of \<open>math\<close> whose last bit the platform decides are parameters, collected in \<open>libm\<close>.
\<close>

section \<open>Results and events\<close>

record rule_result =
  ru_rule_id :: string
  ru_passed :: bool
  ru_awarded_points :: pyfloat
  ru_available_points :: pyfloat
  ru_evidence_ref :: string

definition rule_to_document :: "rule_result \<Rightarrow> pyval" where
  "rule_to_document r = json_object
     [(''rule_id'', VStr (ru_rule_id r)), (''passed'', VBool (ru_passed r)),
      (''awarded_points'', VFloat (ru_awarded_points r)),
      (''available_points'', VFloat (ru_available_points r)),
      (''evidence_ref'', VStr (ru_evidence_ref r))]"

record score_event =
  ev_run_id :: string
  ev_sim_timestamp_ns :: int
  ev_event_id :: int
  ev_event_type :: string
  ev_value :: pyfloat
  ev_evidence_ref :: string

definition event_to_document :: "score_event \<Rightarrow> pyval" where
  "event_to_document e = json_object
     [(''run_id'', VStr (ev_run_id e)), (''sim_timestamp_ns'', VInt (ev_sim_timestamp_ns e)),
      (''event_id'', VInt (ev_event_id e)), (''event_type'', VStr (ev_event_type e)),
      (''value'', VFloat (ev_value e)), (''evidence_ref'', VStr (ev_evidence_ref e))]"

record score_result =
  sr_run_id :: string
  sr_ruleset_id :: string
  sr_complete :: bool
  sr_achieved_score :: pyfloat
  sr_maximum_available_score :: pyfloat
  sr_scoring_checksum :: string
  sr_evidence_paths :: "string list"
  sr_rule_results :: "rule_result list"
  sr_events :: "score_event list"
  sr_diagnostic :: "string option"

definition result_document :: "score_result \<Rightarrow> pyval" where
  "result_document r = json_object
     [(''run_id'', VStr (sr_run_id r)), (''ruleset_id'', VStr (sr_ruleset_id r)),
      (''complete'', VBool (sr_complete r)), (''achieved_score'', VFloat (sr_achieved_score r)),
      (''maximum_available_score'', VFloat (sr_maximum_available_score r)),
      (''scoring_checksum'', VStr (sr_scoring_checksum r)),
      (''evidence_paths'', VList (map VStr (sr_evidence_paths r))),
      (''rule_results'', VList (map rule_to_document (sr_rule_results r))),
      (''diagnostic'', case sr_diagnostic r of None \<Rightarrow> VNone | Some d \<Rightarrow> VStr d)]"

definition finished_status :: "score_result \<Rightarrow> pyval result" where
  "finished_status r =
     (if sr_events r = [] then Inl (ValueError ''score result has no final event timestamp'')
      else Inr (json_object [(''run_id'', VStr (sr_run_id r)), (''finished'', VBool True),
        (''sim_timestamp_ns'', VInt (ev_sim_timestamp_ns (last (sr_events r))))]))"

section \<open>Samples\<close>

record libm =
  lm_sqrt :: "pyfloat \<Rightarrow> pyfloat"
  lm_hypot :: "pyfloat \<Rightarrow> pyfloat \<Rightarrow> pyfloat"
  lm_dist :: "pyfloat list \<Rightarrow> pyfloat list \<Rightarrow> pyfloat"
  lm_atan2 :: "pyfloat \<Rightarrow> pyfloat \<Rightarrow> pyfloat"
  lm_sin :: "pyfloat \<Rightarrow> pyfloat"
  lm_cos :: "pyfloat \<Rightarrow> pyfloat"
  lm_acos :: "pyfloat \<Rightarrow> pyfloat"
  lm_degrees :: "pyfloat \<Rightarrow> pyfloat"

text \<open>Whether every item is a finite number; an \<open>int\<close> beyond the range of a float raises.\<close>

fun finite_items :: "pyval list \<Rightarrow> bool result" where
  "finite_items [] = Inr True"
| "finite_items (x # xs) =
     (if \<not> is_number x then Inr False
      else rbind (py_isfinite x) (\<lambda>ok. if ok then finite_items xs else Inr False))"

definition finite_tuple :: "pyval \<Rightarrow> string \<Rightarrow> nat \<Rightarrow> pyfloat list result" where
  "finite_tuple v name n =
     (let bad = Inl (ValueError (name @ '' must be a finite '' @ str_int (int n) @ ''-tuple'')) in
      case v of
        VTuple xs \<Rightarrow>
          if length xs \<noteq> n then bad
          else rbind (finite_items xs) (\<lambda>ok. if ok then each float_of xs else bad)
      | _ \<Rightarrow> bad)"

definition sum_squares :: "pyfloat list \<Rightarrow> pyfloat" where
  "sum_squares xs = py_sum (map (\<lambda>v. fmul v v) xs)"

record ground_truth_sample =
  gt_run_id :: string
  gt_sim_timestamp_ns :: int
  gt_position_xyz :: "pyfloat list"
  gt_orientation_xyzw :: "pyfloat list"
  gt_linear_velocity_xyz :: "pyfloat list"
  gt_angular_velocity_xyz :: "pyfloat list"
  gt_in_contact :: bool

definition GroundTruthSample ::
  "libm \<Rightarrow> pyval \<Rightarrow> pyval \<Rightarrow> pyval \<Rightarrow> pyval \<Rightarrow> pyval \<Rightarrow> pyval \<Rightarrow> pyval \<Rightarrow> ground_truth_sample result" where
  "GroundTruthSample L run_id timestamp position orientation lin ang contact =
     rbind (canonical_run_id run_id) (\<lambda>rid.
     rbind (guard (\<not> nonneg_int timestamp)
       (ValueError ''sim_timestamp_ns must be a nonnegative integer'')) (\<lambda>_.
     rbind (finite_tuple position ''position_xyz'' 3) (\<lambda>p.
     rbind (finite_tuple orientation ''orientation_xyzw'' 4) (\<lambda>q.
     rbind (guard (lm_sqrt L (sum_squares q) = Fin 0)
       (ValueError ''orientation_xyzw must have nonzero norm'')) (\<lambda>_.
     rbind (finite_tuple lin ''linear_velocity_xyz'' 3) (\<lambda>v.
     rbind (finite_tuple ang ''angular_velocity_xyz'' 3) (\<lambda>w.
     case strict_bool contact of
       None \<Rightarrow> Inl (ValueError ''in_contact must be a boolean'')
     | Some c \<Rightarrow> Inr \<lparr>gt_run_id = rid, gt_sim_timestamp_ns = int_value timestamp, gt_position_xyz = p,
         gt_orientation_xyzw = q, gt_linear_velocity_xyz = v, gt_angular_velocity_xyz = w,
         gt_in_contact = c\<rparr>)))))))"

section \<open>From outcomes to a result\<close>

definition rule_results :: "string \<Rightarrow> string list \<Rightarrow> pyfloat list \<Rightarrow> bool list \<Rightarrow> rule_result list" where
  "rule_results prefix ids points outcomes =
     map (\<lambda>(rule_id, pts, passed).
         \<lparr>ru_rule_id = rule_id, ru_passed = passed, ru_awarded_points = (if passed then pts else Fin 0),
          ru_available_points = pts, ru_evidence_ref = prefix @ rule_id\<rparr>)
       (zip ids (zip points outcomes))"

definition achieved_points :: "rule_result list \<Rightarrow> pyfloat" where
  "achieved_points results = py_sum (map ru_awarded_points results)"

text \<open>One event per rule and the final one, numbered in order, all at the last timestamp.\<close>

definition score_events :: "string \<Rightarrow> int \<Rightarrow> string list \<Rightarrow> rule_result list \<Rightarrow> score_event list" where
  "score_events run_id timestamp types results =
     map (\<lambda>(i, event_type, v).
         \<lparr>ev_run_id = run_id, ev_sim_timestamp_ns = timestamp, ev_event_id = int i,
          ev_event_type = event_type, ev_value = v,
          ev_evidence_ref = ''scoring/events.jsonl#event-'' @ str_int (int i)\<rparr>)
       (zip [0..<Suc (length results)]
         (zip (types @ [''score.finalized'']) (map ru_awarded_points results @ [achieved_points results])))"

lemma length_rule_results [simp]:
  "length (rule_results prefix ids points outcomes) = min (length ids) (min (length points) (length outcomes))"
  by (simp add: rule_results_def)

lemma score_events_not_Nil [simp]: "score_events run_id t types results \<noteq> []"
  by (simp add: score_events_def upt_conv_Cons del: upt_Suc)

lemma score_event_stamp: "e \<in> set (score_events run_id t types results) \<Longrightarrow> ev_sim_timestamp_ns e = t"
  by (auto simp: score_events_def)

lemma awarded_rule_results:
  "length ids = length outcomes \<Longrightarrow> length points = length outcomes \<Longrightarrow>
   map ru_awarded_points (rule_results prefix ids points outcomes)
     = map (\<lambda>(pts, passed). if passed then pts else Fin 0) (zip points outcomes)"
  by (rule nth_equalityI) (auto simp: rule_results_def)

lemma passed_rule_results:
  "length ids = length outcomes \<Longrightarrow> length points = length outcomes \<Longrightarrow>
   map ru_passed (rule_results prefix ids points outcomes) = outcomes"
  by (rule nth_equalityI) (auto simp: rule_results_def)

end
