(* ===== verification/Score_Descent.thy ===== *)
theory Score_Descent
  imports Score_Models
begin

text \<open>
  The descent policy, \<open>scorekeeper/descent.py\<close>: the rules document and \<open>DescentScorer\<close>,
  which accepts one contiguous series of samples and judges four rules on it. The text of the
  rules file is given as the value \<open>json.loads\<close> returns for it (\<open>None\<close> when it is not UTF-8
  JSON) and its SHA-256.
\<close>

section \<open>Rules\<close>

definition descent_rule_ids :: "string list" where
  "descent_rule_ids =
     [''airborne_then_contact'', ''touchdown_precision'', ''safe_preimpact_speed'', ''stable_contact'']"

definition descent_event_types :: "string list" where
  "descent_event_types = map (\<lambda>i. ''descent.'' @ i) descent_rule_ids"

record descent_rules =
  dr_ruleset_id :: string
  dr_scoring_checksum :: string
  dr_sample_interval_ns :: int
  dr_marker_center_xy_m :: "pyfloat list"
  dr_rise_height_m :: pyfloat
  dr_touchdown_radius_m :: pyfloat
  dr_safe_preimpact_downward_speed_mps :: pyfloat
  dr_settled_duration_ns :: int
  dr_settled_linear_speed_mps :: pyfloat
  dr_settled_max_tilt_degrees :: pyfloat
  dr_points :: "pyfloat list"

text \<open>\<open>document.get\<close> on a JSON object.\<close>

definition dict_get :: "(pyval \<times> pyval) list \<Rightarrow> string \<Rightarrow> pyval" where
  "dict_get d k = (case map_of d (VStr k) of Some v \<Rightarrow> v | None \<Rightarrow> VNone)"

definition positive_number :: "(pyval \<times> pyval) list \<Rightarrow> string \<Rightarrow> pyfloat result" where
  "positive_number d name =
     (let v = dict_get d name; bad = Inl (ValueError (name @ '' must be a positive finite number'')) in
      if \<not> is_number v then bad
      else rbind (py_isfinite v) (\<lambda>ok.
        if \<not> ok \<or> (case num_value v of Some q \<Rightarrow> q \<le> 0 | None \<Rightarrow> True) then bad else float_of v))"

definition rule_points :: "string \<times> pyval \<Rightarrow> pyfloat result" where
  "rule_points p =
     (case p of
        (expected_id, VDict row) \<Rightarrow>
          if dict_get row ''id'' \<noteq> VStr expected_id then
            Inl (ValueError ''descent_v1 rule identities or order changed'')
          else positive_number row ''points''
      | _ \<Rightarrow> Inl (ValueError ''descent_v1 rule identities or order changed''))"

definition load_descent_rules :: "pyval option \<Rightarrow> string \<Rightarrow> descent_rules result" where
  "load_descent_rules decoded checksum =
     (case decoded of
        None \<Rightarrow> Inl (ValueError ''descent rules must be UTF-8 JSON'')
      | Some (VDict d) \<Rightarrow>
          if num_value (dict_get d ''schema_version'') \<noteq> Some 1
             \<or> dict_get d ''ruleset_id'' \<noteq> VStr ''descent_v1'' then
            Inl (ValueError ''unsupported descent ruleset'')
          else if num_value (dict_get d ''sample_interval_ns'') \<noteq> Some 50000000 then
            Inl (ValueError ''descent_v1 sample interval must be 50000000 ns'')
          else
            (case strict_int (dict_get d ''settled_duration_ns'') of
               None \<Rightarrow> Inl (ValueError ''settled duration must be a positive sample-grid duration'')
             | Some settled \<Rightarrow>
                 if settled < 50000000 \<or> settled mod 50000000 \<noteq> 0 then
                   Inl (ValueError ''settled duration must be a positive sample-grid duration'')
                 else
                   (case dict_get d ''marker_center_xy_m'' of
                      VList marker \<Rightarrow>
                        rbind (finite_tuple (VTuple marker) ''marker_center_xy_m'' 2) (\<lambda>center.
                          case dict_get d ''rules'' of
                            VList rows \<Rightarrow>
                              if length rows \<noteq> 4 then
                                Inl (ValueError ''descent_v1 requires exactly four rules'')
                              else
                                rbind (each rule_points (zip descent_rule_ids rows)) (\<lambda>points.
                                rbind (guard (py_sum points \<noteq> Fin 100)
                                  (ValueError ''descent_v1 maximum score must be 100'')) (\<lambda>_.
                                rbind (positive_number d ''rise_height_m'') (\<lambda>rise.
                                rbind (positive_number d ''touchdown_radius_m'') (\<lambda>radius.
                                rbind (positive_number d ''safe_preimpact_downward_speed_mps'') (\<lambda>speed.
                                rbind (positive_number d ''settled_linear_speed_mps'') (\<lambda>linear_speed.
                                rbind (positive_number d ''settled_max_tilt_degrees'') (\<lambda>tilt.
                                  Inr \<lparr>dr_ruleset_id = ''descent_v1'', dr_scoring_checksum = checksum,
                                    dr_sample_interval_ns = 50000000, dr_marker_center_xy_m = center,
                                    dr_rise_height_m = rise, dr_touchdown_radius_m = radius,
                                    dr_safe_preimpact_downward_speed_mps = speed,
                                    dr_settled_duration_ns = settled,
                                    dr_settled_linear_speed_mps = linear_speed,
                                    dr_settled_max_tilt_degrees = tilt, dr_points = points\<rparr>)))))))
                          | _ \<Rightarrow> Inl (ValueError ''descent_v1 requires exactly four rules''))
                    | _ \<Rightarrow> Inl (ValueError ''marker_center_xy_m must contain two finite values'')))
      | Some _ \<Rightarrow> Inl (ValueError ''descent rules must be an object''))"

section \<open>The scorer\<close>

record descent_scorer =
  ds_run_id :: string
  ds_rules :: descent_rules
  ds_expected :: int
  ds_samples :: "ground_truth_sample list"
  ds_diagnostic :: "string option"
  ds_result :: "score_result option"

definition DescentScorer :: "pyval \<Rightarrow> descent_rules \<Rightarrow> pyval \<Rightarrow> descent_scorer result" where
  "DescentScorer run_id rules expected =
     rbind (canonical_run_id run_id) (\<lambda>rid.
       case strict_int expected of
         Some n \<Rightarrow>
           if n \<le> 0 then
             Inl (ValueError ''expected_ground_truth_samples must be a positive integer'')
           else Inr \<lparr>ds_run_id = rid, ds_rules = rules, ds_expected = n, ds_samples = [],
                     ds_diagnostic = None, ds_result = None\<rparr>
       | None \<Rightarrow> Inl (ValueError ''expected_ground_truth_samples must be a positive integer''))"

definition descent_last_timestamp :: "descent_scorer \<Rightarrow> int option" where
  "descent_last_timestamp s =
     (if ds_samples s = [] then None else Some (gt_sim_timestamp_ns (last (ds_samples s))))"

definition descent_fail :: "pyval \<Rightarrow> descent_scorer \<Rightarrow> unit result \<times> descent_scorer" where
  "descent_fail reason s =
     (if ds_result s \<noteq> None then (Inl (RuntimeError ''score has already been finalized''), s)
      else case strict_str reason of
        None \<Rightarrow> (Inl (ValueError ''score failure reason must be nonempty''), s)
      | Some r \<Rightarrow>
          if r = [] then (Inl (ValueError ''score failure reason must be nonempty''), s)
          else (Inr (), if ds_diagnostic s = None then s\<lparr>ds_diagnostic := Some r\<rparr> else s))"

text \<open>The diagnostic of the next own sample, or nothing when it continues the series.\<close>

definition descent_check :: "int \<Rightarrow> descent_scorer \<Rightarrow> string option" where
  "descent_check timestamp_ns s =
     (if ds_expected s \<le> int (length (ds_samples s)) then Some ''ground_truth_sample_overrun''
      else case descent_last_timestamp s of
        None \<Rightarrow> None
      | Some previous \<Rightarrow>
          (let expected = previous + dr_sample_interval_ns (ds_rules s) in
           if timestamp_ns = previous then Some ''ground_truth_timestamp_duplicate''
           else if timestamp_ns < expected then Some ''ground_truth_timestamp_regression''
           else if expected < timestamp_ns then Some ''ground_truth_timestamp_gap''
           else None))"

text \<open>A sample; \<open>None\<close> is an argument of another type.\<close>

definition descent_accept ::
  "ground_truth_sample option \<Rightarrow> descent_scorer \<Rightarrow> unit result \<times> descent_scorer" where
  "descent_accept sample s =
     (if ds_result s \<noteq> None then (Inl (RuntimeError ''score has already been finalized''), s)
      else case sample of
        None \<Rightarrow> (Inl (TypeError ''sample must be GroundTruthSample''), s)
      | Some x \<Rightarrow>
          if gt_run_id x \<noteq> ds_run_id s then
            (Inl (ValueError ''ground truth belongs to another run''), s)
          else if ds_diagnostic s \<noteq> None then (Inr (), s)
          else (case descent_check (gt_sim_timestamp_ns x) s of
              Some diagnostic \<Rightarrow> (Inr (), s\<lparr>ds_diagnostic := Some diagnostic\<rparr>)
            | None \<Rightarrow> (Inr (), s\<lparr>ds_samples := ds_samples s @ [x]\<rparr>)))"

section \<open>The four rules\<close>

text \<open>The first index from \<open>i\<close> on, of the list that starts there, with a property.\<close>

fun first_index :: "(nat \<Rightarrow> 'a \<Rightarrow> bool) \<Rightarrow> nat \<Rightarrow> 'a list \<Rightarrow> nat option" where
  "first_index P i [] = None"
| "first_index P i (x # xs) = (if P i x then Some i else first_index P (Suc i) xs)"

text \<open>Python's \<open>min\<close> and \<open>max\<close> of two floats keep the first argument unless the second wins.\<close>

definition py_min :: "pyfloat \<Rightarrow> pyfloat \<Rightarrow> pyfloat" where
  "py_min a b = (if flt b a then b else a)"

definition py_max :: "pyfloat \<Rightarrow> pyfloat \<Rightarrow> pyfloat" where
  "py_max a b = (if flt a b then b else a)"

text \<open>A quotient whose divisor is not zero: the norm of an orientation, checked before.\<close>

definition fquot :: "pyfloat \<Rightarrow> pyfloat \<Rightarrow> pyfloat" where
  "fquot a b = (case fdiv a b of Inr q \<Rightarrow> q | Inl _ \<Rightarrow> NaN)"

definition tilt_degrees :: "libm \<Rightarrow> pyfloat list \<Rightarrow> pyfloat" where
  "tilt_degrees L q =
     (let x = q ! 0; y = q ! 1;
          world_up_z = fsub (Fin 1) (fquot (fmul (Fin 2) (fadd (fmul x x) (fmul y y))) (sum_squares q))
      in lm_degrees L (lm_acos L (py_max (Fin (- 1)) (py_min (Fin 1) world_up_z))))"

definition settled_sample :: "libm \<Rightarrow> descent_rules \<Rightarrow> ground_truth_sample \<Rightarrow> bool" where
  "settled_sample L rules x \<longleftrightarrow>
     gt_in_contact x
     \<and> fle (lm_sqrt L (sum_squares (gt_linear_velocity_xyz x))) (dr_settled_linear_speed_mps rules)
     \<and> fle (tilt_degrees L (gt_orientation_xyzw x)) (dr_settled_max_tilt_degrees rules)"

definition evaluated_rules :: "libm \<Rightarrow> descent_rules \<Rightarrow> ground_truth_sample list \<Rightarrow> bool list" where
  "evaluated_rules L rules samples =
     (let first_airborne =
            first_index (\<lambda>_ x. flt (dr_rise_height_m rules) (gt_position_xyz x ! 2)) 0 samples;
          first_contact =
            first_index (\<lambda>i x. first_airborne \<noteq> None \<and> the first_airborne < i \<and> gt_in_contact x) 0 samples
      in case first_contact of
           None \<Rightarrow> [False, False, False, False]
         | Some c \<Rightarrow>
             let touchdown = samples ! c;
                 dx = fsub (gt_position_xyz touchdown ! 0) (dr_marker_center_xy_m rules ! 0);
                 dy = fsub (gt_position_xyz touchdown ! 1) (dr_marker_center_xy_m rules ! 1);
                 required = nat (dr_settled_duration_ns rules div dr_sample_interval_ns rules + 1);
                 contact_window = take required (drop c samples)
             in [True,
                 fle (lm_hypot L dx dy) (dr_touchdown_radius_m rules),
                 0 < c \<and> fle (py_max (Fin 0) (fneg (gt_linear_velocity_xyz (samples ! (c - 1)) ! 2)))
                            (dr_safe_preimpact_downward_speed_mps rules),
                 length contact_window = required \<and> list_all (settled_sample L rules) contact_window])"

section \<open>Finalization\<close>

definition descent_outcome :: "libm \<Rightarrow> descent_scorer \<Rightarrow> bool list \<times> string option" where
  "descent_outcome L s =
     (let diagnostic =
            (if ds_diagnostic s = None \<and> int (length (ds_samples s)) \<noteq> ds_expected s
             then Some ''ground_truth_sample_count_mismatch'' else ds_diagnostic s)
      in (if diagnostic = None then evaluated_rules L (ds_rules s) (ds_samples s)
          else [False, False, False, False], diagnostic))"

definition descent_finalize :: "libm \<Rightarrow> descent_scorer \<Rightarrow> score_result result \<times> descent_scorer" where
  "descent_finalize L s =
     (case ds_result s of
        Some r \<Rightarrow> (Inr r, s)
      | None \<Rightarrow>
          (let (outcomes, diagnostic) = descent_outcome L s;
               rules = ds_rules s;
               results = rule_results ''rosbag#/simulation/ground_truth:'' descent_rule_ids
                           (dr_points rules) outcomes;
               timestamp = (case descent_last_timestamp s of None \<Rightarrow> 0 | Some t \<Rightarrow> t);
               events = score_events (ds_run_id s) timestamp descent_event_types results;
               r = \<lparr>sr_run_id = ds_run_id s, sr_ruleset_id = dr_ruleset_id rules,
                    sr_complete = (diagnostic = None), sr_achieved_score = achieved_points results,
                    sr_maximum_available_score = py_sum (dr_points rules),
                    sr_scoring_checksum = dr_scoring_checksum rules,
                    sr_evidence_paths = map ev_evidence_ref events @ [''rosbag#/simulation/ground_truth''],
                    sr_rule_results = results, sr_events = events, sr_diagnostic = diagnostic\<rparr>
           in if length (dr_points rules) \<noteq> 4 then
                (Inl (ValueError ''zip() arguments have different lengths''), s)
              else (Inr r, s\<lparr>ds_result := Some r\<rparr>)))"

end
