(* ===== verification/Score_Competition.thy ===== *)
theory Score_Competition
  imports Score_Descent
begin

text \<open>
  The physical competition scorer, \<open>scorekeeper/competition.py\<close>: the samples it accepts, the
  frozen rules document, the evidence \<open>CompetitionScorer\<close> collects and the evaluation of the
  seven rules. An internal call of \<open>fail\<close> comes after the check that the scorer is open and has
  a nonempty reason, so it only keeps the first diagnostic.
\<close>

section \<open>Constants\<close>

definition competition_rule_ids :: "string list" where
  "competition_rule_ids = [''fm1_landing'', ''fm1_autonomy'', ''payload_2'', ''fm2_autonomy'',
     ''payload_3'', ''fm3_autonomy'', ''payload_4'']"

definition competition_event_types :: "string list" where
  "competition_event_types = map (\<lambda>i. ''competition.'' @ i) competition_rule_ids"

definition MISSION_SEQUENCE :: "(string \<times> string) list" where
  "MISSION_SEQUENCE =
     [(''FM1'', ''STARTED''), (''FM1'', ''COMPLETE''), (''FM2'', ''STARTED''), (''FM2'', ''COMPLETE''),
      (''FM3_3'', ''STARTED''), (''FM3_3'', ''COMPLETE''), (''FM3_4'', ''STARTED''),
      (''FM3_4'', ''COMPLETE''), (''HOME'', ''STARTED''), (''HOME'', ''DISARMED''), (''HOME'', ''COMPLETE'')]"

definition PAYLOAD_SEQUENCE :: "(int \<times> string \<times> string) list" where
  "PAYLOAD_SEQUENCE =
     [(2, ''release'', ''detached''), (3, ''attach'', ''attached''), (3, ''release'', ''detached''),
      (4, ''attach'', ''attached''), (4, ''release'', ''detached'')]"

datatype phase = FM1 | FM2 | FM3_3 | FM3_4 | HOME

fun PHASE_INDEX :: "phase \<Rightarrow> nat" where
  "PHASE_INDEX FM1 = 0"
| "PHASE_INDEX FM2 = 2"
| "PHASE_INDEX FM3_3 = 4"
| "PHASE_INDEX FM3_4 = 6"
| "PHASE_INDEX HOME = 8"

datatype waypoint = WP_H | WP_L | WP_F2 | WP_A | WP_M

definition PICKUP_WAYPOINT :: "int \<Rightarrow> waypoint option" where
  "PICKUP_WAYPOINT marker = (if marker = 3 then Some WP_A else if marker = 4 then Some WP_M else None)"

definition PAYLOAD_PREFIX_LENGTH :: "int \<Rightarrow> nat" where
  "PAYLOAD_PREFIX_LENGTH marker = (if marker = 2 then 1 else if marker = 3 then 3 else 5)"

text \<open>A decimal literal, given in ten-thousandths.\<close>

definition dec4 :: "int \<Rightarrow> pyfloat" where
  "dec4 n = round64 (of_int n / 10000)"

text \<open>Centre, width and height of a waypoint.\<close>

fun WAYPOINTS :: "waypoint \<Rightarrow> pyfloat \<times> pyfloat \<times> pyfloat \<times> pyfloat" where
  "WAYPOINTS WP_H = (dec4 0, dec4 0, dec4 45720, dec4 45720)"
| "WAYPOINTS WP_L = (dec4 (- 914400), dec4 0, dec4 45720, dec4 45720)"
| "WAYPOINTS WP_F2 = (dec4 (- 1524000), dec4 0, dec4 9144, dec4 9144)"
| "WAYPOINTS WP_A = (dec4 (- 457200), dec4 (- 91440), dec4 60960, dec4 60960)"
| "WAYPOINTS WP_M = (dec4 (- 457200), dec4 91440, dec4 60960, dec4 60960)"

definition PAYLOAD_XY_SIZE_M :: "pyfloat \<times> pyfloat" where
  "PAYLOAD_XY_SIZE_M = (dec4 1524, dec4 1524)"

section \<open>Samples\<close>

record payload_sample =
  ps_run_id :: string
  ps_sim_timestamp_ns :: int
  ps_aruco_id :: int
  ps_position_xyz :: "pyfloat list"
  ps_orientation_xyzw :: "pyfloat list"
  ps_linear_velocity_xyz :: "pyfloat list"
  ps_grounded :: bool
  ps_attached :: bool

definition check_aruco_id :: "pyval \<Rightarrow> unit result" where
  "check_aruco_id v =
     guard (\<not> nonneg_int v \<or> 65535 < int_value v) (ValueError ''aruco_id must be an unsigned 16-bit integer'')"

definition PayloadStateSample ::
  "pyval \<Rightarrow> pyval \<Rightarrow> pyval \<Rightarrow> pyval \<Rightarrow> pyval \<Rightarrow> pyval \<Rightarrow> pyval \<Rightarrow> pyval \<Rightarrow> payload_sample result" where
  "PayloadStateSample run_id timestamp aruco_id position orientation lin grounded attached =
     rbind (canonical_run_id run_id) (\<lambda>rid.
     rbind (guard (\<not> nonneg_int timestamp)
       (ValueError ''sim_timestamp_ns must be a nonnegative integer'')) (\<lambda>_.
     rbind (check_aruco_id aruco_id) (\<lambda>_.
     rbind (finite_tuple position ''position_xyz'' 3) (\<lambda>p.
     rbind (finite_tuple orientation ''orientation_xyzw'' 4) (\<lambda>q.
     rbind (guard (sum_squares q = Fin 0) (ValueError ''orientation_xyzw must have nonzero norm'')) (\<lambda>_.
     rbind (finite_tuple lin ''linear_velocity_xyz'' 3) (\<lambda>v.
     case (strict_bool grounded, strict_bool attached) of
       (Some g, Some a) \<Rightarrow>
         Inr \<lparr>ps_run_id = rid, ps_sim_timestamp_ns = int_value timestamp, ps_aruco_id = int_value aruco_id,
           ps_position_xyz = p, ps_orientation_xyzw = q, ps_linear_velocity_xyz = v, ps_grounded = g,
           ps_attached = a\<rparr>
     | _ \<Rightarrow> Inl (ValueError ''payload physical states must be boolean''))))))))"

record payload_event_sample =
  pv_run_id :: string
  pv_sim_timestamp_ns :: int
  pv_event_id :: int
  pv_aruco_id :: int
  pv_command_id :: string
  pv_action :: string
  pv_state :: string
  pv_code :: string

text \<open>The text of a nonempty string.\<close>

definition nonempty_text :: "pyval \<Rightarrow> string option" where
  "nonempty_text v = (case strict_str v of Some s \<Rightarrow> if s = [] then None else Some s | None \<Rightarrow> None)"

definition check_event_stamp :: "pyval \<Rightarrow> pyval \<Rightarrow> unit result" where
  "check_event_stamp timestamp event_id =
     rbind (guard (\<not> nonneg_int timestamp)
       (ValueError ''sim_timestamp_ns must be a nonnegative integer'')) (\<lambda>_.
       guard (\<not> nonneg_int event_id) (ValueError ''event_id must be a nonnegative integer''))"

definition PayloadEventSample ::
  "pyval \<Rightarrow> pyval \<Rightarrow> pyval \<Rightarrow> pyval \<Rightarrow> pyval \<Rightarrow> pyval \<Rightarrow> pyval \<Rightarrow> pyval \<Rightarrow> payload_event_sample result" where
  "PayloadEventSample run_id timestamp event_id aruco_id command_id action state code =
     rbind (canonical_run_id run_id) (\<lambda>rid.
     rbind (check_event_stamp timestamp event_id) (\<lambda>_.
     rbind (check_aruco_id aruco_id) (\<lambda>_.
     case (nonempty_text command_id, nonempty_text action, nonempty_text state, nonempty_text code) of
       (Some c, Some a, Some st, Some k) \<Rightarrow>
         Inr \<lparr>pv_run_id = rid, pv_sim_timestamp_ns = int_value timestamp, pv_event_id = int_value event_id,
           pv_aruco_id = int_value aruco_id, pv_command_id = c, pv_action = a, pv_state = st, pv_code = k\<rparr>
     | _ \<Rightarrow> Inl (ValueError ''payload event strings must be nonempty''))))"

record mission_event_sample =
  me_run_id :: string
  me_sim_timestamp_ns :: int
  me_event_id :: int
  me_phase :: string
  me_state :: string
  me_detail :: string

definition MissionEventSample ::
  "pyval \<Rightarrow> pyval \<Rightarrow> pyval \<Rightarrow> pyval \<Rightarrow> pyval \<Rightarrow> pyval \<Rightarrow> mission_event_sample result" where
  "MissionEventSample run_id timestamp event_id phase_name state detail =
     rbind (canonical_run_id run_id) (\<lambda>rid.
     rbind (check_event_stamp timestamp event_id) (\<lambda>_.
     case (nonempty_text phase_name, nonempty_text state, strict_str detail) of
       (Some p, Some st, Some d) \<Rightarrow>
         Inr \<lparr>me_run_id = rid, me_sim_timestamp_ns = int_value timestamp, me_event_id = int_value event_id,
           me_phase = p, me_state = st, me_detail = d\<rparr>
     | _ \<Rightarrow> Inl (ValueError ''mission event fields are invalid'')))"

section \<open>Rules\<close>

record competition_rules =
  cr_ruleset_id :: string
  cr_scoring_checksum :: string
  cr_sample_interval_ns :: int
  cr_pickup_center_tolerance_m :: pyfloat
  cr_release_position_tolerance_m :: pyfloat
  cr_release_horizontal_speed_mps :: pyfloat
  cr_release_stability_ns :: int
  cr_payload_settle_ns :: int
  cr_release_agl_m :: pyfloat
  cr_deadline_ns :: int
  cr_points :: "pyfloat list"

definition competition_keys :: "string list" where
  "competition_keys = [''schema_version'', ''ruleset_id'', ''sample_interval_ns'',
     ''pickup_center_tolerance_m'', ''release_position_tolerance_m'', ''release_horizontal_speed_mps'',
     ''release_stability_ns'', ''payload_settle_ns'', ''release_agl_m'', ''deadline_ns'', ''points'']"

definition official_points :: "pyfloat list" where
  "official_points = map (\<lambda>i. Fin (of_int i)) [20, 30, 10, 20, 15, 50, 5]"

definition grid_duration :: "(pyval \<times> pyval) list \<Rightarrow> string \<Rightarrow> int result" where
  "grid_duration d name =
     (case strict_int (dict_get d name) of
        None \<Rightarrow> Inl (ValueError (name @ '' must be a positive sample-grid duration''))
      | Some v \<Rightarrow>
          if v < 50000000 \<or> v mod 50000000 \<noteq> 0 then
            Inl (ValueError (name @ '' must be a positive sample-grid duration''))
          else Inr v)"

text \<open>The keys of a JSON object are distinct strings.\<close>

definition load_competition_rules :: "pyval option \<Rightarrow> string \<Rightarrow> competition_rules result" where
  "load_competition_rules decoded checksum =
     (case decoded of
        None \<Rightarrow> Inl (ValueError ''competition rules must be UTF-8 JSON'')
      | Some (VDict d) \<Rightarrow>
          if \<not> has_keys d competition_keys then Inl (ValueError ''competition rules fields changed'')
          else if num_value (dict_get d ''schema_version'') \<noteq> Some 1
             \<or> dict_get d ''ruleset_id'' \<noteq> VStr ''competition_v1'' then
            Inl (ValueError ''unsupported competition ruleset'')
          else if num_value (dict_get d ''sample_interval_ns'') \<noteq> Some 50000000 then
            Inl (ValueError ''competition_v1 sample interval must be 50000000 ns'')
          else
            rbind (each (grid_duration d) [''release_stability_ns'', ''payload_settle_ns'', ''deadline_ns''])
              (\<lambda>durations.
            rbind (guard (durations \<noteq> [2000000000, 1000000000, 600000000000])
              (ValueError ''competition timing policy changed'')) (\<lambda>_.
            case dict_get d ''points'' of
              VDict p \<Rightarrow>
                if map fst p \<noteq> map VStr competition_rule_ids then
                  Inl (ValueError ''competition point identities or order changed'')
                else
                  rbind (each (positive_number p) competition_rule_ids) (\<lambda>points.
                  rbind (guard (points \<noteq> official_points)
                    (ValueError ''competition_v1 allocation must total the official 150 points'')) (\<lambda>_.
                  rbind (each (positive_number d) [''pickup_center_tolerance_m'',
                      ''release_position_tolerance_m'', ''release_horizontal_speed_mps'', ''release_agl_m''])
                    (\<lambda>physical.
                  rbind (guard (physical \<noteq> [dec4 750, dec4 1500, dec4 1000, dec4 100000])
                    (ValueError ''competition_v1 physical thresholds changed'')) (\<lambda>_.
                    Inr \<lparr>cr_ruleset_id = ''competition_v1'', cr_scoring_checksum = checksum,
                      cr_sample_interval_ns = 50000000, cr_pickup_center_tolerance_m = physical ! 0,
                      cr_release_position_tolerance_m = physical ! 1,
                      cr_release_horizontal_speed_mps = physical ! 2,
                      cr_release_stability_ns = durations ! 0, cr_payload_settle_ns = durations ! 1,
                      cr_release_agl_m = physical ! 3, cr_deadline_ns = durations ! 2,
                      cr_points = points\<rparr>))))
            | _ \<Rightarrow> Inl (ValueError ''competition point identities or order changed'')))
      | Some _ \<Rightarrow> Inl (ValueError ''competition rules must be an object''))"

section \<open>Collecting evidence\<close>

record competition_scorer =
  ks_run_id :: string
  ks_rules :: competition_rules
  ks_start_sim_time_ns :: "int option"
  ks_ground_truth :: "ground_truth_sample list"
  ks_payload_states :: "(int, payload_sample list) dict"
  ks_payload_events :: "payload_event_sample list"
  ks_mission_events :: "mission_event_sample list"
  ks_diagnostic :: "string option"
  ks_result :: "score_result option"

definition CompetitionScorer :: "pyval \<Rightarrow> competition_rules option \<Rightarrow> competition_scorer result" where
  "CompetitionScorer run_id rules =
     rbind (canonical_run_id run_id) (\<lambda>rid.
       case rules of
         None \<Rightarrow> Inl (TypeError ''rules must be CompetitionRules'')
       | Some r \<Rightarrow> Inr \<lparr>ks_run_id = rid, ks_rules = r, ks_start_sim_time_ns = None, ks_ground_truth = [],
           ks_payload_states = [(2, []), (3, []), (4, [])], ks_payload_events = [], ks_mission_events = [],
           ks_diagnostic = None, ks_result = None\<rparr>)"

definition states_of :: "int \<Rightarrow> competition_scorer \<Rightarrow> payload_sample list" where
  "states_of marker s = (case map_of (ks_payload_states s) marker of Some xs \<Rightarrow> xs | None \<Rightarrow> [])"

definition competition_last_timestamp :: "competition_scorer \<Rightarrow> int" where
  "competition_last_timestamp s =
     (let ts = map gt_sim_timestamp_ns (ks_ground_truth s)
               @ concat (map (\<lambda>(_, xs). map ps_sim_timestamp_ns xs) (ks_payload_states s))
               @ map pv_sim_timestamp_ns (ks_payload_events s)
               @ map me_sim_timestamp_ns (ks_mission_events s)
      in if ts = [] then 0 else Max (set ts))"

definition competition_fail :: "pyval \<Rightarrow> competition_scorer \<Rightarrow> unit result \<times> competition_scorer" where
  "competition_fail reason s =
     (if ks_result s \<noteq> None then (Inl (RuntimeError ''score has already been finalized''), s)
      else case nonempty_text reason of
        None \<Rightarrow> (Inl (ValueError ''score failure reason must be nonempty''), s)
      | Some r \<Rightarrow> (Inr (), if ks_diagnostic s = None then s\<lparr>ks_diagnostic := Some r\<rparr> else s))"

definition latch :: "string \<Rightarrow> competition_scorer \<Rightarrow> competition_scorer" where
  "latch reason s = (if ks_diagnostic s = None then s\<lparr>ks_diagnostic := Some reason\<rparr> else s)"

text \<open>Consecutive timestamps at one distance.\<close>

fun evenly :: "int \<Rightarrow> int list \<Rightarrow> bool" where
  "evenly d (x # y # zs) \<longleftrightarrow> y - x = d \<and> evenly d (y # zs)"
| "evenly d _ \<longleftrightarrow> True"

definition stream_gap :: "int list \<Rightarrow> string \<Rightarrow> competition_scorer \<Rightarrow> competition_scorer" where
  "stream_gap timestamps diagnostic s =
     (case ks_start_sim_time_ns s of
        None \<Rightarrow> s
      | Some start \<Rightarrow>
          (case filter (\<lambda>t. start \<le> t) timestamps of
             [] \<Rightarrow> s
           | t # ts \<Rightarrow>
               if cr_sample_interval_ns (ks_rules s) < t - start then latch diagnostic s
               else if \<not> evenly (cr_sample_interval_ns (ks_rules s)) (t # ts) then latch diagnostic s
               else s))"

definition latest_timestamp_gap ::
  "int option \<Rightarrow> int \<Rightarrow> string \<Rightarrow> competition_scorer \<Rightarrow> competition_scorer" where
  "latest_timestamp_gap previous current diagnostic s =
     (case ks_start_sim_time_ns s of
        None \<Rightarrow> s
      | Some start \<Rightarrow>
          if (case previous of None \<Rightarrow> True | Some p \<Rightarrow> p < start) then
            (if cr_sample_interval_ns (ks_rules s) < current - start then latch diagnostic s else s)
          else if current - the previous \<noteq> cr_sample_interval_ns (ks_rules s) then latch diagnostic s
          else s)"

definition before_start :: "int \<Rightarrow> competition_scorer \<Rightarrow> bool" where
  "before_start timestamp_ns s \<longleftrightarrow>
     (case ks_start_sim_time_ns s of None \<Rightarrow> False | Some start \<Rightarrow> timestamp_ns < start)"

text \<open>The timestamp of the last entry of a stream.\<close>

definition last_stamp :: "('a \<Rightarrow> int) \<Rightarrow> 'a list \<Rightarrow> int option" where
  "last_stamp stamp xs = (if xs = [] then None else Some (stamp (last xs)))"

text \<open>
  The frame of the four \<open>accept\<close> methods: an open scorer, an argument of the right class,
  and the current run.
\<close>

definition accepting ::
  "('a \<Rightarrow> string) \<Rightarrow> string \<Rightarrow> 'a option \<Rightarrow> ('a \<Rightarrow> competition_scorer \<Rightarrow> competition_scorer)
     \<Rightarrow> competition_scorer \<Rightarrow> unit result \<times> competition_scorer" where
  "accepting run type_error sample f s =
     (if ks_result s \<noteq> None then (Inl (RuntimeError ''score has already been finalized''), s)
      else case sample of
        None \<Rightarrow> (Inl (TypeError type_error), s)
      | Some x \<Rightarrow> (Inr (), if run x \<noteq> ks_run_id s then s else f x s))"

definition take_ground_truth :: "ground_truth_sample \<Rightarrow> competition_scorer \<Rightarrow> competition_scorer" where
  "take_ground_truth x s =
     (if before_start (gt_sim_timestamp_ns x) s then s
      else
        (let previous = last_stamp gt_sim_timestamp_ns (ks_ground_truth s) in
         if (case previous of None \<Rightarrow> False | Some p \<Rightarrow> gt_sim_timestamp_ns x \<le> p) then
           latch ''ground_truth_timestamp_not_increasing'' s
         else latest_timestamp_gap previous (gt_sim_timestamp_ns x) ''ground_truth_timestamp_gap''
           (s\<lparr>ks_ground_truth := ks_ground_truth s @ [x]\<rparr>)))"

definition accept_ground_truth_sample ::
  "ground_truth_sample option \<Rightarrow> competition_scorer \<Rightarrow> unit result \<times> competition_scorer" where
  "accept_ground_truth_sample sample =
     accepting gt_run_id ''sample must be GroundTruthSample'' sample take_ground_truth"

definition payload_diagnostic :: "int \<Rightarrow> string \<Rightarrow> string" where
  "payload_diagnostic marker suffix = ''payload_'' @ str_int marker @ ''_'' @ suffix"

definition take_payload_state :: "payload_sample \<Rightarrow> competition_scorer \<Rightarrow> competition_scorer" where
  "take_payload_state x s =
     (if before_start (ps_sim_timestamp_ns x) s then s
      else case map_of (ks_payload_states s) (ps_aruco_id x) of
        None \<Rightarrow> latch ''unknown_payload_state'' s
      | Some states \<Rightarrow>
          (let previous = last_stamp ps_sim_timestamp_ns states in
           if (case previous of None \<Rightarrow> False | Some p \<Rightarrow> ps_sim_timestamp_ns x \<le> p) then
             latch (payload_diagnostic (ps_aruco_id x) ''timestamp_not_increasing'') s
           else latest_timestamp_gap previous (ps_sim_timestamp_ns x)
               (payload_diagnostic (ps_aruco_id x) ''timestamp_gap'')
             (s\<lparr>ks_payload_states :=
                AList.update (ps_aruco_id x) (states @ [x]) (ks_payload_states s)\<rparr>)))"

definition accept_payload_state_sample ::
  "payload_sample option \<Rightarrow> competition_scorer \<Rightarrow> unit result \<times> competition_scorer" where
  "accept_payload_state_sample sample =
     accepting ps_run_id ''sample must be PayloadStateSample'' sample take_payload_state"

text \<open>What is wrong with the number and the time of the next event of a stream.\<close>

definition event_discontinuity :: "(int \<times> int) option \<Rightarrow> int \<Rightarrow> int \<Rightarrow> string \<Rightarrow> string option" where
  "event_discontinuity previous event_id timestamp_ns stream =
     (case previous of
        None \<Rightarrow> if event_id \<noteq> 0 then Some (stream @ ''_event_id_discontinuity'') else None
      | Some (previous_id, previous_ns) \<Rightarrow>
          if event_id \<noteq> previous_id + 1 then Some (stream @ ''_event_id_discontinuity'')
          else if timestamp_ns < previous_ns then Some (stream @ ''_event_timestamp_regression'')
          else None)"

definition take_payload_event :: "payload_event_sample \<Rightarrow> competition_scorer \<Rightarrow> competition_scorer" where
  "take_payload_event x s =
     (if pv_aruco_id x \<notin> set (dict_keys (ks_payload_states s)) then latch ''unknown_payload_event'' s
      else
        (let xs = ks_payload_events s;
             previous = (if xs = [] then None else Some (pv_event_id (last xs), pv_sim_timestamp_ns (last xs)))
         in case event_discontinuity previous (pv_event_id x) (pv_sim_timestamp_ns x) ''payload'' of
              Some diagnostic \<Rightarrow> latch diagnostic s
            | None \<Rightarrow> s\<lparr>ks_payload_events := xs @ [x]\<rparr>))"

definition accept_payload_event_sample ::
  "payload_event_sample option \<Rightarrow> competition_scorer \<Rightarrow> unit result \<times> competition_scorer" where
  "accept_payload_event_sample sample =
     accepting pv_run_id ''sample must be PayloadEventSample'' sample take_payload_event"

text \<open>The start of the mission, which checks what every stream has so far.\<close>

definition ground_truth_gap :: "competition_scorer \<Rightarrow> competition_scorer" where
  "ground_truth_gap s =
     stream_gap (map gt_sim_timestamp_ns (ks_ground_truth s)) ''ground_truth_timestamp_gap'' s"

definition payload_gap :: "int \<Rightarrow> competition_scorer \<Rightarrow> competition_scorer" where
  "payload_gap marker s =
     stream_gap (map ps_sim_timestamp_ns (states_of marker s)) (payload_diagnostic marker ''timestamp_gap'') s"

definition start_mission :: "int \<Rightarrow> competition_scorer \<Rightarrow> competition_scorer" where
  "start_mission timestamp_ns s =
     fold payload_gap (dict_keys (ks_payload_states s))
       (ground_truth_gap (s\<lparr>ks_start_sim_time_ns := Some timestamp_ns\<rparr>))"

definition take_mission_event :: "mission_event_sample \<Rightarrow> competition_scorer \<Rightarrow> competition_scorer" where
  "take_mission_event x s =
     (let xs = ks_mission_events s;
          previous = (if xs = [] then None else Some (me_event_id (last xs), me_sim_timestamp_ns (last xs)))
      in case event_discontinuity previous (me_event_id x) (me_sim_timestamp_ns x) ''mission'' of
           Some diagnostic \<Rightarrow> latch diagnostic s
         | None \<Rightarrow>
             (let s1 = s\<lparr>ks_mission_events := xs @ [x]\<rparr> in
              if ks_start_sim_time_ns s = None \<and> me_phase x = ''FM1'' \<and> me_state x = ''STARTED'' then
                start_mission (me_sim_timestamp_ns x) s1
              else s1))"

definition accept_mission_event_sample ::
  "mission_event_sample option \<Rightarrow> competition_scorer \<Rightarrow> unit result \<times> competition_scorer" where
  "accept_mission_event_sample sample =
     accepting me_run_id ''sample must be MissionEventSample'' sample take_mission_event"

end
