(* ===== verification/Score_Evaluation.thy ===== *)
theory Score_Evaluation
  imports Score_Competition
begin

text \<open>
  The evaluation of the collected evidence and the score result, \<open>CompetitionScorer\<close> of
  \<open>scorekeeper/competition.py\<close> from \<open>\_mission\_after\_start\<close> to \<open>finalize\<close>.
\<close>

section \<open>Events after the start\<close>

definition mission_after_start :: "competition_scorer \<Rightarrow> mission_event_sample list" where
  "mission_after_start s =
     (case ks_start_sim_time_ns s of
        None \<Rightarrow> []
      | Some start \<Rightarrow> filter (\<lambda>e. start \<le> me_sim_timestamp_ns e) (ks_mission_events s))"

definition payload_after_start :: "competition_scorer \<Rightarrow> payload_event_sample list" where
  "payload_after_start s =
     (case ks_start_sim_time_ns s of
        None \<Rightarrow> []
      | Some start \<Rightarrow> filter (\<lambda>e. start \<le> pv_sim_timestamp_ns e) (ks_payload_events s))"

definition mission_step :: "mission_event_sample \<Rightarrow> string \<times> string" where
  "mission_step e = (me_phase e, me_state e)"

definition payload_step :: "payload_event_sample \<Rightarrow> int \<times> string \<times> string" where
  "payload_step e = (pv_aruco_id e, pv_action e, pv_state e)"

definition mission_prefix :: "nat \<Rightarrow> competition_scorer \<Rightarrow> bool" where
  "mission_prefix n s \<longleftrightarrow> take n (map mission_step (mission_after_start s)) = take n MISSION_SEQUENCE"

definition payload_prefix :: "nat \<Rightarrow> competition_scorer \<Rightarrow> bool" where
  "payload_prefix n s \<longleftrightarrow> take n (map payload_step (payload_after_start s)) = take n PAYLOAD_SEQUENCE
     \<and> list_all (\<lambda>e. pv_code e = ''OK'') (take n (payload_after_start s))"

definition phase_events ::
  "phase \<Rightarrow> competition_scorer \<Rightarrow> (mission_event_sample \<times> mission_event_sample) option" where
  "phase_events ph s =
     (let i = PHASE_INDEX ph; events = mission_after_start s; e = i + (if ph = HOME then 2 else 1) in
      if length events \<le> e \<or> \<not> mission_prefix (e + 1) s then None else Some (events ! i, events ! e))"

definition home_events :: "competition_scorer
    \<Rightarrow> (mission_event_sample \<times> mission_event_sample \<times> mission_event_sample) option" where
  "home_events s =
     (let events = mission_after_start s in
      if length events < length MISSION_SEQUENCE \<or> \<not> mission_prefix (length MISSION_SEQUENCE) s then None
      else Some (events ! 8, events ! 9, events ! 10))"

section \<open>Landings\<close>

definition last_of :: "'a list \<Rightarrow> 'a option" where
  "last_of xs = (if xs = [] then None else Some (last xs))"

definition vehicle_at :: "int \<Rightarrow> competition_scorer \<Rightarrow> ground_truth_sample option" where
  "vehicle_at timestamp_ns s =
     (case ks_start_sim_time_ns s of
        None \<Rightarrow> None
      | Some start \<Rightarrow>
          last_of (filter (\<lambda>x. start \<le> gt_sim_timestamp_ns x \<and> gt_sim_timestamp_ns x \<le> timestamp_ns
            \<and> timestamp_ns - gt_sim_timestamp_ns x \<le> cr_sample_interval_ns (ks_rules s)) (ks_ground_truth s)))"

definition inside_waypoint :: "pyfloat list \<Rightarrow> waypoint \<Rightarrow> bool" where
  "inside_waypoint p w =
     (case WAYPOINTS w of (center_x, center_y, width, height) \<Rightarrow>
        fle (fabs (fsub (p ! 0) center_x)) (half width) \<and> fle (fabs (fsub (p ! 1) center_y)) (half height))"

definition speed :: "libm \<Rightarrow> pyfloat list \<Rightarrow> pyfloat" where
  "speed L v = lm_sqrt L (sum_squares v)"

definition is_landed :: "libm \<Rightarrow> competition_rules \<Rightarrow> waypoint \<Rightarrow> ground_truth_sample \<Rightarrow> bool" where
  "is_landed L rules w x \<longleftrightarrow>
     gt_in_contact x \<and> fle (speed L (gt_linear_velocity_xyz x)) (cr_release_horizontal_speed_mps rules)
     \<and> inside_waypoint (gt_position_xyz x) w"

definition landing :: "libm \<Rightarrow> phase \<Rightarrow> waypoint \<Rightarrow> competition_scorer \<Rightarrow> bool" where
  "landing L ph w s =
     (case phase_events ph s of
        None \<Rightarrow> False
      | Some (_, finished) \<Rightarrow>
          (case vehicle_at (me_sim_timestamp_ns finished) s of
             None \<Rightarrow> False | Some x \<Rightarrow> is_landed L (ks_rules s) w x))"

definition physical_home_landing :: "libm \<Rightarrow> mission_event_sample \<Rightarrow> competition_scorer \<Rightarrow> int option" where
  "physical_home_landing L started s =
     map_option gt_sim_timestamp_ns
       (find (\<lambda>x. me_sim_timestamp_ns started \<le> gt_sim_timestamp_ns x
          \<and> is_landed L (ks_rules s) WP_H x) (ks_ground_truth s))"

definition landed_at :: "libm \<Rightarrow> int \<Rightarrow> competition_scorer \<Rightarrow> bool" where
  "landed_at L timestamp_ns s =
     (case vehicle_at timestamp_ns s of None \<Rightarrow> False | Some x \<Rightarrow> is_landed L (ks_rules s) WP_H x)"

definition home_landing_timestamp :: "libm \<Rightarrow> competition_scorer \<Rightarrow> int option" where
  "home_landing_timestamp L s =
     (case home_events s of
        None \<Rightarrow> None
      | Some (started, disarmed, finished) \<Rightarrow>
          if \<not> (me_sim_timestamp_ns started < me_sim_timestamp_ns disarmed
                \<and> me_sim_timestamp_ns disarmed < me_sim_timestamp_ns finished) then None
          else (case physical_home_landing L started s of
              None \<Rightarrow> None
            | Some t \<Rightarrow>
                if me_sim_timestamp_ns disarmed \<le> t then None
                else if \<not> landed_at L (me_sim_timestamp_ns disarmed) s
                  \<or> \<not> landed_at L (me_sim_timestamp_ns finished) s
                  \<or> \<not> list_all (is_landed L (ks_rules s) WP_H)
                      (filter (\<lambda>x. t \<le> gt_sim_timestamp_ns x \<and> gt_sim_timestamp_ns x \<le> me_sim_timestamp_ns finished)
                        (ks_ground_truth s)) then None
                else Some t))"

definition home_checkpoint_boundary :: "libm \<Rightarrow> competition_scorer \<Rightarrow> int option" where
  "home_checkpoint_boundary L s =
     (let events = mission_after_start s in
      if length events \<le> PHASE_INDEX HOME \<or> \<not> mission_prefix 9 s then None
      else
        (let candidates =
               map me_sim_timestamp_ns (filter (\<lambda>e. me_phase e = ''HOME'' \<and> me_state e \<in> {''DISARMED'', ''COMPLETE''})
                 (drop 9 events))
               @ (case physical_home_landing L (events ! PHASE_INDEX HOME) s of None \<Rightarrow> [] | Some t \<Rightarrow> [t])
         in if candidates = [] then None else Some (Min (set candidates))))"

section \<open>Payload deliveries\<close>

definition payload_event_of :: "int \<Rightarrow> string \<Rightarrow> competition_scorer \<Rightarrow> payload_event_sample option" where
  "payload_event_of marker action s =
     find (\<lambda>e. pv_aruco_id e = marker \<and> pv_action e = action
       \<and> pv_state e = (if action = ''attach'' then ''attached'' else ''detached'') \<and> pv_code e = ''OK'')
       (payload_after_start s)"

definition release_sample_ok :: "libm \<Rightarrow> competition_rules \<Rightarrow> ground_truth_sample \<Rightarrow> bool" where
  "release_sample_ok L rules x =
     (case WAYPOINTS WP_F2 of (target_x, target_y, _, _) \<Rightarrow>
        fle (lm_hypot L (fsub (gt_position_xyz x ! 0) target_x) (fsub (gt_position_xyz x ! 1) target_y))
          (cr_release_position_tolerance_m rules)
        \<and> fle (lm_hypot L (gt_linear_velocity_xyz x ! 0) (gt_linear_velocity_xyz x ! 1))
            (cr_release_horizontal_speed_mps rules)
        \<and> fle (cr_release_agl_m rules) (gt_position_xyz x ! 2))"

definition release_gate :: "libm \<Rightarrow> payload_event_sample \<Rightarrow> competition_scorer \<Rightarrow> bool" where
  "release_gate L event s =
     (let rules = ks_rules s; end_ns = pv_sim_timestamp_ns event; start_ns = end_ns - cr_release_stability_ns rules in
      if (case ks_start_sim_time_ns s of None \<Rightarrow> True | Some start \<Rightarrow> start_ns < start) then False
      else
        (let window = filter (\<lambda>x. start_ns \<le> gt_sim_timestamp_ns x \<and> gt_sim_timestamp_ns x \<le> end_ns) (ks_ground_truth s);
             required = cr_release_stability_ns rules div cr_sample_interval_ns rules + 1
         in if int (length window) \<noteq> required
               \<or> gt_sim_timestamp_ns (hd window) \<noteq> start_ns \<or> gt_sim_timestamp_ns (last window) \<noteq> end_ns
               \<or> \<not> evenly (cr_sample_interval_ns rules) (map gt_sim_timestamp_ns window) then False
            else list_all (release_sample_ok L rules) window))"

definition state_before :: "int \<Rightarrow> int \<Rightarrow> competition_scorer \<Rightarrow> payload_sample option" where
  "state_before marker timestamp_ns s =
     (case ks_start_sim_time_ns s of
        None \<Rightarrow> None
      | Some start \<Rightarrow>
          last_of (filter (\<lambda>x. start \<le> ps_sim_timestamp_ns x \<and> ps_sim_timestamp_ns x < timestamp_ns) (states_of marker s)))"

text \<open>A sample within one interval from an event on.\<close>

definition soon_after :: "payload_event_sample \<Rightarrow> competition_scorer \<Rightarrow> payload_sample \<Rightarrow> bool" where
  "soon_after event s x \<longleftrightarrow> pv_sim_timestamp_ns event \<le> ps_sim_timestamp_ns x
     \<and> ps_sim_timestamp_ns x \<le> pv_sim_timestamp_ns event + cr_sample_interval_ns (ks_rules s)"

definition physical_release :: "int \<Rightarrow> payload_event_sample \<Rightarrow> competition_scorer \<Rightarrow> bool" where
  "physical_release marker event s =
     (case state_before marker (pv_sim_timestamp_ns event) s of
        None \<Rightarrow> False
      | Some attached \<Rightarrow>
          pv_sim_timestamp_ns event - ps_sim_timestamp_ns attached \<le> cr_sample_interval_ns (ks_rules s)
          \<and> ps_attached attached
          \<and> find (\<lambda>x. soon_after event s x \<and> \<not> ps_attached x) (states_of marker s) \<noteq> None)"

definition physical_attach :: "libm \<Rightarrow> int \<Rightarrow> payload_event_sample \<Rightarrow> competition_scorer \<Rightarrow> bool" where
  "physical_attach L marker event s =
     (let states = states_of marker s; rules = ks_rules s in
      case first_index (\<lambda>_ x. soon_after event s x \<and> ps_attached x) 0 states of
        None \<Rightarrow> False
      | Some 0 \<Rightarrow> False
      | Some (Suc i) \<Rightarrow>
          (let previous = states ! i; current = states ! Suc i in
           case (vehicle_at (ps_sim_timestamp_ns current) s, PICKUP_WAYPOINT marker, ks_start_sim_time_ns s) of
             (Some vehicle, Some w, Some start) \<Rightarrow>
               start \<le> ps_sim_timestamp_ns previous
               \<and> ps_sim_timestamp_ns current - ps_sim_timestamp_ns previous = cr_sample_interval_ns rules
               \<and> ps_grounded previous \<and> \<not> ps_attached previous \<and> ps_attached current
               \<and> inside_waypoint (ps_position_xyz current) w \<and> gt_in_contact vehicle
               \<and> fle (lm_hypot L (fsub (ps_position_xyz current ! 0) (gt_position_xyz vehicle ! 0))
                       (fsub (ps_position_xyz current ! 1) (gt_position_xyz vehicle ! 1)))
                   (cr_pickup_center_tolerance_m rules)
               \<and> fle (lm_dist L (ps_position_xyz current) (ps_position_xyz previous))
                   (cr_pickup_center_tolerance_m rules)
           | _ \<Rightarrow> False))"

text \<open>
  The capacity check: the samples of each timestamp replace the latest of their payloads, and
  then at most one payload may be attached.
\<close>

definition attached_count :: "(int, payload_sample) dict \<Rightarrow> nat" where
  "attached_count latest = length (filter (\<lambda>(_, x). ps_attached x) latest)"

fun capacity_loop :: "payload_sample list \<Rightarrow> (int, payload_sample) dict \<Rightarrow> int list \<Rightarrow> bool" where
  "capacity_loop samples latest [] = True"
| "capacity_loop samples latest (t # ts) =
     (let latest' = foldl (\<lambda>d x. AList.update (ps_aruco_id x) x d) latest
                      (filter (\<lambda>x. ps_sim_timestamp_ns x = t) samples)
      in if 1 < attached_count latest' then False else capacity_loop samples latest' ts)"

definition capacity_valid :: "competition_scorer \<Rightarrow> bool" where
  "capacity_valid s =
     (case ks_start_sim_time_ns s of
        None \<Rightarrow> False
      | Some start \<Rightarrow>
          (let samples = filter (\<lambda>x. start \<le> ps_sim_timestamp_ns x) (concat (map snd (ks_payload_states s)))
           in capacity_loop samples [] (sort (remdups (map ps_sim_timestamp_ns samples)))))"

definition yaw :: "libm \<Rightarrow> pyfloat list \<Rightarrow> pyfloat" where
  "yaw L q =
     (let norm = lm_sqrt L (sum_squares q);
          x = fquot (q ! 0) norm; y = fquot (q ! 1) norm; z = fquot (q ! 2) norm; w = fquot (q ! 3) norm
      in lm_atan2 L (fmul (Fin 2) (fadd (fmul w z) (fmul x y)))
           (fsub (Fin 1) (fmul (Fin 2) (fadd (fmul y y) (fmul z z)))))"

definition inside_f2 :: "libm \<Rightarrow> payload_sample \<Rightarrow> bool" where
  "inside_f2 L x =
     (let a = yaw L (ps_orientation_xyzw x);
          half_x = half (fst PAYLOAD_XY_SIZE_M); half_y = half (snd PAYLOAD_XY_SIZE_M);
          extent_x = fadd (fmul (fabs (lm_cos L a)) half_x) (fmul (fabs (lm_sin L a)) half_y);
          extent_y = fadd (fmul (fabs (lm_sin L a)) half_x) (fmul (fabs (lm_cos L a)) half_y)
      in case WAYPOINTS WP_F2 of (center_x, center_y, width, height) \<Rightarrow>
           fle (fadd (fabs (fsub (ps_position_xyz x ! 0) center_x)) extent_x) (half width)
           \<and> fle (fadd (fabs (fsub (ps_position_xyz x ! 1) center_y)) extent_y) (half height))"

definition settle_eligible :: "libm \<Rightarrow> competition_rules \<Rightarrow> payload_sample \<Rightarrow> bool" where
  "settle_eligible L rules x \<longleftrightarrow> ps_grounded x \<and> \<not> ps_attached x
     \<and> fle (speed L (ps_linear_velocity_xyz x)) (cr_release_horizontal_speed_mps rules) \<and> inside_f2 L x"

text \<open>The loop of \<open>\_settled\_timestamp\<close> over the samples after the release.\<close>

fun settled_loop ::
  "(payload_sample \<Rightarrow> bool) \<Rightarrow> int \<Rightarrow> int \<Rightarrow> int option \<Rightarrow> int option \<Rightarrow> payload_sample list \<Rightarrow> int option" where
  "settled_loop ok interval settle started previous [] = None"
| "settled_loop ok interval settle started previous (x # xs) =
     (let t = ps_sim_timestamp_ns x;
          started' = (if \<not> ok x \<or> previous = None \<or> t - the previous \<noteq> interval
                      then (if ok x then Some t else None) else started)
      in if ok x \<and> started' \<noteq> None then
           (if settle \<le> t - the started' then Some t
            else settled_loop ok interval settle started' (Some t) xs)
         else settled_loop ok interval settle started' None xs)"

definition settled_timestamp :: "libm \<Rightarrow> int \<Rightarrow> payload_event_sample \<Rightarrow> competition_scorer \<Rightarrow> int option" where
  "settled_timestamp L marker release s =
     settled_loop (settle_eligible L (ks_rules s)) (cr_sample_interval_ns (ks_rules s))
       (cr_payload_settle_ns (ks_rules s)) None None
       (filter (\<lambda>x. pv_sim_timestamp_ns release < ps_sim_timestamp_ns x) (states_of marker s))"

definition attach_valid ::
  "libm \<Rightarrow> int \<Rightarrow> mission_event_sample \<Rightarrow> payload_event_sample \<Rightarrow> competition_scorer \<Rightarrow> bool" where
  "attach_valid L marker started release s =
     (case payload_event_of marker ''attach'' s of
        None \<Rightarrow> False
      | Some attach \<Rightarrow>
          me_sim_timestamp_ns started \<le> pv_sim_timestamp_ns attach
          \<and> pv_sim_timestamp_ns attach < pv_sim_timestamp_ns release \<and> physical_attach L marker attach s)"

definition delivery :: "libm \<Rightarrow> int \<Rightarrow> phase \<Rightarrow> int option \<Rightarrow> competition_scorer \<Rightarrow> bool \<times> int option" where
  "delivery L marker ph settle_before_ns s =
     (case (phase_events ph s, payload_event_of marker ''release'' s) of
        (Some (started, finished), Some release) \<Rightarrow>
          if \<not> (me_sim_timestamp_ns started \<le> pv_sim_timestamp_ns release
                \<and> pv_sim_timestamp_ns release \<le> me_sim_timestamp_ns finished
                \<and> payload_prefix (PAYLOAD_PREFIX_LENGTH marker) s \<and> release_gate L release s
                \<and> physical_release marker release s) then (False, None)
          else if marker \<in> {3, 4} \<and> \<not> attach_valid L marker started release s then (False, None)
          else
            (let settled = settled_timestamp L marker release s;
                 settled' = (case (settled, settle_before_ns) of
                     (Some t, Some b) \<Rightarrow> if b \<le> t then None else settled
                   | _ \<Rightarrow> settled)
             in (settled' \<noteq> None, settled'))
      | _ \<Rightarrow> (False, None))"

definition settlement_order_valid :: "libm \<Rightarrow> int \<Rightarrow> int option \<Rightarrow> competition_scorer \<Rightarrow> bool" where
  "settlement_order_valid L marker boundary_ns s =
     (case (boundary_ns, payload_event_of marker ''release'' s) of
        (Some b, Some release) \<Rightarrow>
          (case settled_timestamp L marker release s of None \<Rightarrow> True | Some t \<Rightarrow> t < b)
      | _ \<Rightarrow> True)"

section \<open>Evaluation\<close>

definition mission_valid :: "competition_scorer \<Rightarrow> bool" where
  "mission_valid s \<longleftrightarrow> map mission_step (mission_after_start s) = MISSION_SEQUENCE"

definition payload_valid :: "competition_scorer \<Rightarrow> bool" where
  "payload_valid s \<longleftrightarrow> map payload_step (payload_after_start s) = PAYLOAD_SEQUENCE
     \<and> list_all (\<lambda>e. pv_code e = ''OK'') (payload_after_start s)"

definition attach_boundary :: "int \<Rightarrow> competition_scorer \<Rightarrow> int option" where
  "attach_boundary marker s = map_option pv_sim_timestamp_ns (payload_event_of marker ''attach'' s)"

definition rule_outcomes :: "libm \<Rightarrow> competition_scorer \<Rightarrow> bool list" where
  "rule_outcomes L s =
     (let fm1_landing = landing L FM1 WP_L s;
          fm1_autonomy = (fm1_landing \<and> mission_prefix 2 s);
          payload_2 = (fst (delivery L 2 FM2 (attach_boundary 3 s) s) \<and> fm1_autonomy);
          fm2_autonomy = (payload_2 \<and> mission_prefix 4 s);
          payload_3 = (fst (delivery L 3 FM3_3 (attach_boundary 4 s) s) \<and> fm2_autonomy \<and> capacity_valid s);
          fm3_autonomy = (payload_3 \<and> mission_prefix 6 s);
          payload_4 = (fst (delivery L 4 FM3_4 (home_checkpoint_boundary L s) s) \<and> fm3_autonomy \<and> capacity_valid s)
      in [fm1_landing, fm1_autonomy, payload_2, fm2_autonomy, payload_3, fm3_autonomy, payload_4])"

definition all_settlements_valid :: "libm \<Rightarrow> competition_scorer \<Rightarrow> bool" where
  "all_settlements_valid L s \<longleftrightarrow>
     settlement_order_valid L 2 (attach_boundary 3 s) s \<and> settlement_order_valid L 3 (attach_boundary 4 s) s
     \<and> settlement_order_valid L 4 (home_checkpoint_boundary L s) s"

definition deadline_valid :: "competition_scorer \<Rightarrow> bool" where
  "deadline_valid s =
     (case (phase_events HOME s, ks_start_sim_time_ns s) of
        (Some (_, finished), Some start) \<Rightarrow> me_sim_timestamp_ns finished - start \<le> cr_deadline_ns (ks_rules s)
      | _ \<Rightarrow> False)"

definition home_complete_claimed :: "competition_scorer \<Rightarrow> bool" where
  "home_complete_claimed s \<longleftrightarrow>
     list_ex (\<lambda>e. me_phase e = ''HOME'' \<and> me_state e = ''COMPLETE'') (mission_after_start s)"

definition competition_evaluate :: "libm \<Rightarrow> competition_scorer \<Rightarrow> bool list \<times> bool \<times> string option" where
  "competition_evaluate L s =
     (if ks_start_sim_time_ns s = None then (replicate 7 False, False, Some ''mission_start_missing'')
      else
        (let outcomes = rule_outcomes L s;
             home_landed = (home_landing_timestamp L s \<noteq> None);
             finished = (ks_diagnostic s = None \<and> mission_valid s \<and> payload_valid s \<and> capacity_valid s
                         \<and> all_settlements_valid L s \<and> home_landed \<and> deadline_valid s)
         in if ks_diagnostic s \<noteq> None then (replicate 7 False, False, ks_diagnostic s)
            else if home_complete_claimed s \<and> home_events s = None then
              (outcomes, False, Some ''home_disarm_missing'')
            else (outcomes, finished,
              if \<not> mission_valid s then Some ''mission_sequence_invalid''
              else if \<not> payload_valid s then Some ''payload_event_sequence_invalid''
              else if \<not> capacity_valid s then Some ''payload_capacity_exceeded''
              else if \<not> all_settlements_valid L s then Some ''physical_sequence_invalid''
              else if \<not> home_landed then Some ''home_completion_invalid''
              else if \<not> deadline_valid s then Some ''home_deadline_exceeded''
              else None)))"

definition competition_evidence :: "string list" where
  "competition_evidence = [''rosbag#/simulation/ground_truth'', ''rosbag#/simulation/payload_state'',
     ''rosbag#/simulation/payload_events'', ''rosbag#/simulation/mission_events'']"

definition competition_finalize :: "libm \<Rightarrow> competition_scorer \<Rightarrow> score_result result \<times> competition_scorer" where
  "competition_finalize L s =
     (case ks_result s of
        Some r \<Rightarrow> (Inr r, s)
      | None \<Rightarrow>
          (let (outcomes, finished, diagnostic) = competition_evaluate L s;
               rules = ks_rules s;
               results = rule_results ''rosbag#competition:'' competition_rule_ids (cr_points rules) outcomes;
               events = score_events (ks_run_id s) (competition_last_timestamp s) competition_event_types results;
               r = \<lparr>sr_run_id = ks_run_id s, sr_ruleset_id = cr_ruleset_id rules, sr_complete = finished,
                    sr_achieved_score = achieved_points results,
                    sr_maximum_available_score = py_sum (cr_points rules),
                    sr_scoring_checksum = cr_scoring_checksum rules,
                    sr_evidence_paths = map ev_evidence_ref events @ competition_evidence,
                    sr_rule_results = results, sr_events = events, sr_diagnostic = diagnostic\<rparr>
           in if length (cr_points rules) \<noteq> 7 then
                (Inl (ValueError ''zip() arguments have different lengths''), s)
              else (Inr r, s\<lparr>ks_result := Some r\<rparr>)))"

end
