(* ===== verification/Score_Awards.thy ===== *)
theory Score_Awards
  imports Score_Evaluation
begin

text \<open>
  What a competition score means: the chain of awards, the physical facts behind a complete
  flight and behind an awarded payload, and the loops of the evaluation against their
  specifications.
\<close>

section \<open>The chain of awards\<close>

text \<open>The first \<open>n\<close> of seven rules pass.\<close>

definition first_rules :: "nat \<Rightarrow> bool list" where
  "first_rules n = replicate n True @ replicate (7 - n) False"

definition award_totals :: "int list" where
  "award_totals = [0, 20, 50, 60, 80, 95, 145, 150]"

lemma chain_of_awards:
  assumes "b2 \<longrightarrow> b1" "b3 \<longrightarrow> b2" "b4 \<longrightarrow> b3" "b5 \<longrightarrow> b4" "b6 \<longrightarrow> b5" "b7 \<longrightarrow> b6"
  shows "\<exists>n\<le>7. [b1, b2, b3, b4, b5, b6, b7] = first_rules n"
proof -
  have "[b1, b2, b3, b4, b5, b6, b7] =
      first_rules (of_bool b1 + of_bool b2 + of_bool b3 + of_bool b4 + of_bool b5 + of_bool b6 + of_bool b7)"
    using assms by (cases b1; cases b2; cases b3; cases b4; cases b5; cases b6; cases b7)
      (simp_all add: first_rules_def numeral_eq_Suc)
  moreover have "of_bool b1 + of_bool b2 + of_bool b3 + of_bool b4 + of_bool b5 + of_bool b6 + of_bool b7 \<le> (7 :: nat)"
    by (simp add: of_bool_def)
  ultimately show ?thesis by blast
qed

lemma rule_outcomes_chain: "\<exists>n\<le>7. rule_outcomes L s = first_rules n"
  unfolding rule_outcomes_def Let_def by (rule chain_of_awards) simp_all

lemma evaluate_outcomes:
  assumes "competition_evaluate L s = (outcomes, finished, diagnostic)"
  shows "outcomes = replicate 7 False
    \<or> outcomes = rule_outcomes L s \<and> ks_diagnostic s = None \<and> ks_start_sim_time_ns s \<noteq> None"
  using assms by (auto simp: competition_evaluate_def Let_def split: if_splits)

lemma at_most_seven:
  assumes "n \<le> (7 :: nat)"
  obtains "n = 0" | "n = 1" | "n = 2" | "n = 3" | "n = 4" | "n = 5" | "n = 6" | "n = 7"
  using assms by linarith

lemma awarded_points:
  assumes "n \<le> 7"
  shows "map (\<lambda>(pts, passed). if passed then pts else Fin 0) (zip official_points (first_rules n))
    = map (\<lambda>i. Fin (of_int i)) (take n [20, 30, 10, 20, 15, 50, 5] @ replicate (7 - n) 0)"
  by (rule at_most_seven [OF assms]) (simp_all add: official_points_def first_rules_def numeral_eq_Suc)

lemma award_totals_nth:
  assumes "n \<le> 7"
  shows "sum_list (take n [20, 30, 10, 20, 15, 50, 5] @ replicate (7 - n) 0) = award_totals ! n"
    and "sum_list (map abs (take n [20, 30, 10, 20, 15, 50, 5] @ replicate (7 - n) 0)) < (2 ^ 53 :: int)"
  by (rule at_most_seven [OF assms]; simp add: award_totals_def eval_nat_numeral)+

lemma awarded_total:
  assumes "n \<le> 7"
  shows "achieved_points (rule_results prefix competition_rule_ids official_points (first_rules n))
    = Fin (of_int (award_totals ! n))"
proof -
  have "map ru_awarded_points (rule_results prefix competition_rule_ids official_points (first_rules n))
      = map (\<lambda>(pts, passed). if passed then pts else Fin 0) (zip official_points (first_rules n))"
    using assms by (intro awarded_rule_results)
      (simp_all add: competition_rule_ids_def official_points_def first_rules_def)
  then show ?thesis
    unfolding achieved_points_def awarded_points [OF assms]
    by (simp only: py_sum_int [OF award_totals_nth(2) [OF assms]] award_totals_nth(1) [OF assms])
qed

lemma finalize_fresh:
  assumes "competition_finalize L s = (Inr r, s')" "ks_result s = None"
  obtains outcomes finished diagnostic where
    "competition_evaluate L s = (outcomes, finished, diagnostic)" "length (cr_points (ks_rules s)) = 7"
    "sr_complete r = finished" "sr_diagnostic r = diagnostic"
    "sr_rule_results r = rule_results ''rosbag#competition:'' competition_rule_ids (cr_points (ks_rules s)) outcomes"
    "sr_achieved_score r = achieved_points (sr_rule_results r)" "s' = s\<lparr>ks_result := Some r\<rparr>"
proof (cases "competition_evaluate L s")
  case (fields outcomes finished diagnostic)
  then show thesis
    using assms that [OF fields] by (auto simp: competition_finalize_def Let_def split: if_splits)
qed

text \<open>
  C24. The awards form a chain. With the official points, the score of a flight is 0, 20, 50,
  60, 80, 95, 145 or 150: the passed rules are the first \<open>n\<close> of the seven, in their order, for
  some \<open>n\<close>, and any pass requires that the mission was started and no diagnostic was recorded.
\<close>

theorem awards_form_a_chain:
  assumes "competition_finalize L s = (Inr r, s')" and "ks_result s = None"
    and "cr_points (ks_rules s) = official_points"
  shows "\<exists>n\<le>7. map ru_passed (sr_rule_results r) = first_rules n
    \<and> sr_achieved_score r = Fin (of_int (award_totals ! n))
    \<and> (n = 0 \<or> ks_diagnostic s = None \<and> ks_start_sim_time_ns s \<noteq> None)"
proof (rule finalize_fresh [OF assms(1,2)])
  fix outcomes finished diagnostic
  assume e: "competition_evaluate L s = (outcomes, finished, diagnostic)"
    and r: "sr_rule_results r = rule_results ''rosbag#competition:'' competition_rule_ids (cr_points (ks_rules s)) outcomes"
      "sr_achieved_score r = achieved_points (sr_rule_results r)"
  have "outcomes = first_rules 0 \<or> (\<exists>n\<le>7. outcomes = first_rules n) \<and> ks_diagnostic s = None
      \<and> ks_start_sim_time_ns s \<noteq> None"
    using evaluate_outcomes [OF e] rule_outcomes_chain [of L s] by (auto simp: first_rules_def)
  then obtain n where n: "n \<le> 7" "outcomes = first_rules n"
      "n = 0 \<or> ks_diagnostic s = None \<and> ks_start_sim_time_ns s \<noteq> None"
    by (metis zero_le)
  have "map ru_passed (sr_rule_results r) = outcomes"
    unfolding r(1) assms(3) n(2) using n(1) by (intro passed_rule_results)
      (simp_all add: competition_rule_ids_def official_points_def first_rules_def)
  then show ?thesis
    using n awarded_total [OF n(1)] r unfolding assms(3) by auto
qed

section \<open>Complete flights\<close>

text \<open>
  The physical claim of a complete flight: the eleven mission steps and the five payload
  steps, nothing else, in order; a landing on the home pad that lasts from some sample before
  the disarm event to the end; and the end within the deadline.
\<close>

definition home_flight :: "libm \<Rightarrow> competition_scorer \<Rightarrow> int \<Rightarrow> bool" where
  "home_flight L s start \<longleftrightarrow>
     (\<exists>events t. mission_after_start s = events \<and> map mission_step events = MISSION_SEQUENCE
        \<and> me_sim_timestamp_ns (events ! 8) \<le> t \<and> t < me_sim_timestamp_ns (events ! 9)
        \<and> me_sim_timestamp_ns (events ! 9) < me_sim_timestamp_ns (events ! 10)
        \<and> me_sim_timestamp_ns (events ! 10) - start \<le> cr_deadline_ns (ks_rules s)
        \<and> (\<exists>x\<in>set (ks_ground_truth s). gt_sim_timestamp_ns x = t)
        \<and> (\<forall>x\<in>set (ks_ground_truth s). t \<le> gt_sim_timestamp_ns x
             \<and> gt_sim_timestamp_ns x \<le> me_sim_timestamp_ns (events ! 10) \<longrightarrow> is_landed L (ks_rules s) WP_H x))"

lemma evaluate_complete:
  assumes "competition_evaluate L s = (outcomes, finished, diagnostic)"
  shows "finished \<longleftrightarrow> diagnostic = None"
    and "finished \<Longrightarrow> ks_diagnostic s = None \<and> mission_valid s \<and> payload_valid s \<and> capacity_valid s
      \<and> home_landing_timestamp L s \<noteq> None \<and> deadline_valid s"
  using assms by (cases "ks_diagnostic s"; auto simp: competition_evaluate_def Let_def split: if_splits)+

lemma home_events_Some:
  assumes "home_events s = Some (a, b, c)"
  shows "a = mission_after_start s ! 8" "b = mission_after_start s ! 9" "c = mission_after_start s ! 10"
  using assms by (auto simp: home_events_def Let_def split: if_splits)

lemma home_landing_SomeE:
  assumes "home_landing_timestamp L s = Some t"
  obtains started disarmed finished where "home_events s = Some (started, disarmed, finished)"
    "me_sim_timestamp_ns started \<le> t" "t < me_sim_timestamp_ns disarmed"
    "me_sim_timestamp_ns disarmed < me_sim_timestamp_ns finished"
    "\<exists>x\<in>set (ks_ground_truth s). gt_sim_timestamp_ns x = t"
    "\<forall>x\<in>set (ks_ground_truth s). t \<le> gt_sim_timestamp_ns x
       \<and> gt_sim_timestamp_ns x \<le> me_sim_timestamp_ns finished \<longrightarrow> is_landed L (ks_rules s) WP_H x"
  using assms
  by (fastforce simp: home_landing_timestamp_def physical_home_landing_def find_Some_iff list_all_iff
      split: option.splits if_splits prod.splits)

text \<open>
  C8. A complete score is a complete flight. A result is complete exactly when it has no
  diagnostic; then the evidence has no gap, the mission and payload steps are exactly the
  prescribed ones, at no time two payloads were carried, and the vehicle landed on the home
  pad before it was disarmed and stayed there to the end, within the deadline.
\<close>

theorem complete_flight_sound:
  assumes "competition_finalize L s = (Inr r, s')" and "ks_result s = None"
  shows "(sr_complete r \<longleftrightarrow> sr_diagnostic r = None)
    \<and> (sr_complete r \<longrightarrow> ks_diagnostic s = None \<and> payload_valid s \<and> capacity_valid s
         \<and> (\<exists>start. ks_start_sim_time_ns s = Some start \<and> home_flight L s start))"
proof (rule finalize_fresh [OF assms])
  fix outcomes finished diagnostic
  assume e: "competition_evaluate L s = (outcomes, finished, diagnostic)"
    and r: "sr_complete r = finished" "sr_diagnostic r = diagnostic"
  have "\<exists>start. ks_start_sim_time_ns s = Some start \<and> home_flight L s start" if f: finished
  proof -
    from evaluate_complete(2) [OF e f] obtain t where t: "home_landing_timestamp L s = Some t"
        and m: "mission_valid s" "deadline_valid s" by blast
    show ?thesis
    proof (rule home_landing_SomeE [OF t])
      fix a b c
      assume h: "home_events s = Some (a, b, c)" "me_sim_timestamp_ns a \<le> t" "t < me_sim_timestamp_ns b"
        "me_sim_timestamp_ns b < me_sim_timestamp_ns c" "\<exists>x\<in>set (ks_ground_truth s). gt_sim_timestamp_ns x = t"
        "\<forall>x\<in>set (ks_ground_truth s). t \<le> gt_sim_timestamp_ns x
           \<and> gt_sim_timestamp_ns x \<le> me_sim_timestamp_ns c \<longrightarrow> is_landed L (ks_rules s) WP_H x"
      obtain start where start: "ks_start_sim_time_ns s = Some start"
          "me_sim_timestamp_ns (mission_after_start s ! 10) - start \<le> cr_deadline_ns (ks_rules s)"
        using m(2) by (auto simp: deadline_valid_def phase_events_def Let_def split: option.splits if_splits)
      have "home_flight L s start"
        unfolding home_flight_def using h m(1) start home_events_Some [OF h(1)]
        by (intro exI [of _ "mission_after_start s"] exI [of _ t]) (auto simp: mission_valid_def)
      with start(1) show ?thesis by blast
    qed
  qed
  then show ?thesis
    using evaluate_complete [OF e] r by auto
qed

end
