(* ===== verification/Score_Settle.thy ===== *)
theory Score_Settle
  imports Score_Awards
begin

text \<open>
  The settling of a released payload: the loop of \<open>\_settled\_timestamp\<close> against its
  specification, and the physical facts behind an awarded payload.
\<close>

section \<open>Settling runs\<close>

text \<open>
  The samples from \<open>i\<close> to \<open>j\<close> are all eligible and one interval apart, and span the time a
  payload has to lie still.
\<close>

definition still_run :: "(payload_sample \<Rightarrow> bool) \<Rightarrow> int \<Rightarrow> payload_sample list \<Rightarrow> nat \<Rightarrow> nat \<Rightarrow> bool" where
  "still_run ok interval xs i j \<longleftrightarrow> i \<le> j \<and> (\<forall>k\<in>{i..j}. ok (xs ! k))
     \<and> (\<forall>k\<in>{i..<j}. ps_sim_timestamp_ns (xs ! Suc k) - ps_sim_timestamp_ns (xs ! k) = interval)"

definition settles :: "(payload_sample \<Rightarrow> bool) \<Rightarrow> int \<Rightarrow> int \<Rightarrow> payload_sample list \<Rightarrow> nat \<Rightarrow> bool" where
  "settles ok interval settle xs j \<longleftrightarrow>
     (\<exists>i\<le>j. still_run ok interval xs i j
        \<and> settle \<le> ps_sim_timestamp_ns (xs ! j) - ps_sim_timestamp_ns (xs ! i))"

lemma still_run_ok: "still_run ok d xs i j \<Longrightarrow> i \<le> k \<Longrightarrow> k \<le> j \<Longrightarrow> ok (xs ! k)"
  by (simp add: still_run_def)

lemma still_run_self [simp]: "still_run ok d xs i i \<longleftrightarrow> ok (xs ! i)"
  by (simp add: still_run_def)

lemma still_run_Suc:
  "i \<le> j \<Longrightarrow> still_run ok d xs i (Suc j) \<longleftrightarrow>
     still_run ok d xs i j \<and> ok (xs ! Suc j) \<and> ps_sim_timestamp_ns (xs ! Suc j) - ps_sim_timestamp_ns (xs ! j) = d"
  by (auto simp: still_run_def atLeastAtMostSuc_conv atLeastLessThanSuc)

lemma still_run_span:
  assumes "still_run ok d xs i j"
  shows "ps_sim_timestamp_ns (xs ! j) - ps_sim_timestamp_ns (xs ! i) = int (j - i) * d"
proof -
  have "i \<le> j" using assms by (simp add: still_run_def)
  then show ?thesis
    using assms
  proof (induction j rule: dec_induct)
    case (step j)
    then show ?case
      using still_run_Suc [of i j ok d xs] by (simp add: Suc_diff_le algebra_simps)
  qed simp
qed

lemma still_run_extend:
  assumes "still_run ok d xs i j" "still_run ok d xs i' j"
  shows "still_run ok d xs (min i i') j"
  using assms by (simp add: min_def)

text \<open>What the loop remembers after the samples before \<open>n\<close>: the maximal run that ends there.\<close>

definition run_state ::
  "(payload_sample \<Rightarrow> bool) \<Rightarrow> int \<Rightarrow> payload_sample list \<Rightarrow> nat \<Rightarrow> int option \<Rightarrow> int option \<Rightarrow> bool" where
  "run_state ok d xs n started previous \<longleftrightarrow>
     previous = None \<and> (n = 0 \<or> \<not> ok (xs ! (n - 1)))
     \<or> (\<exists>m i. n = Suc m \<and> still_run ok d xs i m \<and> (\<forall>i'. still_run ok d xs i' m \<longrightarrow> i \<le> i')
          \<and> previous = Some (ps_sim_timestamp_ns (xs ! m)) \<and> started = Some (ps_sim_timestamp_ns (xs ! i)))"

lemma run_state_restart:
  assumes "ok (xs ! n)"
    and "n = 0 \<or> \<not> ok (xs ! (n - 1)) \<or> ps_sim_timestamp_ns (xs ! n) - ps_sim_timestamp_ns (xs ! (n - 1)) \<noteq> d"
  shows "still_run ok d xs i n \<longleftrightarrow> i = n"
proof -
  have "i = n" if "still_run ok d xs i n"
  proof (rule ccontr)
    assume "i \<noteq> n"
    with that obtain m where m: "n = Suc m" "i \<le> m"
      by (cases n) (auto simp: still_run_def)
    then show False
      using that assms(2) still_run_Suc [of i m ok d xs] still_run_ok [of ok d xs i m m] by auto
  qed
  then show ?thesis using assms(1) by auto
qed

lemma settles_maximal:
  assumes "0 < d" "still_run ok d xs i j" "\<forall>i'. still_run ok d xs i' j \<longrightarrow> i \<le> i'"
  shows "settles ok d settle xs j \<longleftrightarrow> settle \<le> ps_sim_timestamp_ns (xs ! j) - ps_sim_timestamp_ns (xs ! i)"
proof
  assume "settles ok d settle xs j"
  then obtain i' where i': "still_run ok d xs i' j"
      "settle \<le> ps_sim_timestamp_ns (xs ! j) - ps_sim_timestamp_ns (xs ! i')"
    by (auto simp: settles_def)
  have "int (j - i') * d \<le> int (j - i) * d"
    using assms(1,3) i'(1) by (intro mult_right_mono) auto
  then show "settle \<le> ps_sim_timestamp_ns (xs ! j) - ps_sim_timestamp_ns (xs ! i)"
    using i'(2) still_run_span [OF i'(1)] still_run_span [OF assms(2)] by linarith
next
  assume "settle \<le> ps_sim_timestamp_ns (xs ! j) - ps_sim_timestamp_ns (xs ! i)"
  then show "settles ok d settle xs j"
    using assms(2) by (auto simp: settles_def still_run_def)
qed

lemma settled_loop_exact:
  assumes "0 < d" "run_state ok d xs n started previous" "n \<le> length xs"
  shows "settled_loop ok d settle started previous (drop n xs)
    = map_option (\<lambda>j. ps_sim_timestamp_ns (xs ! j)) (first_index (\<lambda>j _. settles ok d settle xs j) n (drop n xs))"
  using assms(2,3)
proof (induction "length xs - n" arbitrary: n started previous)
  case 0
  then show ?case by simp
next
  case (Suc k)
  then have n: "n < length xs" by simp
  let ?x = "xs ! n" let ?t = "ps_sim_timestamp_ns ?x"
  have split: "drop n xs = ?x # drop (Suc n) xs"
    using n by (simp add: Cons_nth_drop_Suc)
  have IH: "settled_loop ok d settle st pv (drop (Suc n) xs)
      = map_option (\<lambda>j. ps_sim_timestamp_ns (xs ! j))
          (first_index (\<lambda>j _. settles ok d settle xs j) (Suc n) (drop (Suc n) xs))"
    if "run_state ok d xs (Suc n) st pv" for st pv
    using Suc.hyps(2) n that by (intro Suc.hyps(1)) auto
  show ?case
  proof (cases "ok ?x")
    case False
    then have "\<not> settles ok d settle xs n"
      by (auto simp: settles_def dest: still_run_ok [of _ _ _ _ n n])
    moreover have "run_state ok d xs (Suc n) None None"
      using False by (simp add: run_state_def)
    ultimately show ?thesis
      unfolding split using IH False by simp
  next
    case True
    obtain i where i: "still_run ok d xs i n" "\<forall>i'. still_run ok d xs i' n \<longrightarrow> i \<le> i'"
        "(if previous = None \<or> ?t - the previous \<noteq> d then Some ?t else started) = Some (ps_sim_timestamp_ns (xs ! i))"
    proof (cases "previous = None \<or> ?t - the previous \<noteq> d")
      case restart: True
      have "n = 0 \<or> \<not> ok (xs ! (n - 1)) \<or> ?t - ps_sim_timestamp_ns (xs ! (n - 1)) \<noteq> d"
        using Suc.prems(1) restart by (auto simp: run_state_def)
      then have runs: "still_run ok d xs i' n \<longleftrightarrow> i' = n" for i'
        by (rule run_state_restart [of ok xs n d, OF True])
      show thesis
        by (rule that [of n]) (simp_all add: runs restart True)
    next
      case False
      with Suc.prems(1) obtain m i where m: "n = Suc m" "still_run ok d xs i m"
          "\<forall>i'. still_run ok d xs i' m \<longrightarrow> i \<le> i'" "started = Some (ps_sim_timestamp_ns (xs ! i))"
          "previous = Some (ps_sim_timestamp_ns (xs ! m))"
        unfolding run_state_def by blast
      have gap: "?t - ps_sim_timestamp_ns (xs ! m) = d"
        using False m(5) by simp
      have le: "i \<le> m" using m(2) by (simp add: still_run_def)
      have "i \<le> i'" if "still_run ok d xs i' n" for i'
        using that le m(1,3) still_run_Suc [of i' m ok d xs] by (cases "i' \<le> m") auto
      moreover have "still_run ok d xs i n"
        using le m(1,2) gap True still_run_Suc [of i m ok d xs] by simp
      ultimately show thesis
        using that [of i] False m(4) by simp
    qed
    have "run_state ok d xs (Suc n) (Some (ps_sim_timestamp_ns (xs ! i))) (Some ?t)"
      using i(1,2) by (auto simp: run_state_def)
    moreover have "(if \<not> ok ?x \<or> previous = None \<or> ?t - the previous \<noteq> d
        then (if ok ?x then Some ?t else None) else started) = Some (ps_sim_timestamp_ns (xs ! i))"
      using i(3) unfolding if_P [OF True] using True by (simp split: if_splits)
    ultimately show ?thesis
      unfolding split settled_loop.simps Let_def first_index.simps
      using IH True settles_maximal [OF assms(1) i(1,2), of settle] by simp
  qed
qed

definition samples_after :: "payload_event_sample \<Rightarrow> payload_sample list \<Rightarrow> payload_sample list" where
  "samples_after release xs = filter (\<lambda>x. pv_sim_timestamp_ns release < ps_sim_timestamp_ns x) xs"

lemma settled_timestamp_eq:
  assumes "0 < cr_sample_interval_ns (ks_rules s)"
  shows "settled_timestamp L marker release s =
    (let xs = samples_after release (states_of marker s) in
     map_option (\<lambda>j. ps_sim_timestamp_ns (xs ! j))
       (first_index (\<lambda>j _. settles (settle_eligible L (ks_rules s)) (cr_sample_interval_ns (ks_rules s))
          (cr_payload_settle_ns (ks_rules s)) xs j) 0 xs))"
  using settled_loop_exact [OF assms, of "settle_eligible L (ks_rules s)" "samples_after release (states_of marker s)"
      0 None None "cr_payload_settle_ns (ks_rules s)"]
  by (simp add: settled_timestamp_def samples_after_def run_state_def Let_def)

section \<open>Awarded payloads\<close>

lemma first_index_Some:
  "first_index P i xs = Some j \<Longrightarrow> i \<le> j \<and> j < i + length xs \<and> P j (xs ! (j - i))"
  by (induction xs arbitrary: i) (fastforce simp: nth_Cons' split: if_splits)+

lemma evenly_nth: "evenly d ts \<Longrightarrow> k < length ts \<Longrightarrow> ts ! k = hd ts + int k * d"
proof (induction d ts arbitrary: k rule: evenly.induct)
  case (1 d x y zs)
  then show ?case by (cases k) (auto simp: algebra_simps)
qed (auto simp: less_Suc_eq_0_disj)

text \<open>
  The vehicle hovered over the target: on every instant of the sample grid from the required
  time before the release to the release there is a sample within the release tolerances.
\<close>

definition hovered :: "libm \<Rightarrow> competition_scorer \<Rightarrow> payload_event_sample \<Rightarrow> bool" where
  "hovered L s release \<longleftrightarrow>
     (\<forall>k. int k * cr_sample_interval_ns (ks_rules s) \<le> cr_release_stability_ns (ks_rules s) \<longrightarrow>
        (\<exists>x\<in>set (ks_ground_truth s). gt_sim_timestamp_ns x
             = pv_sim_timestamp_ns release - cr_release_stability_ns (ks_rules s) + int k * cr_sample_interval_ns (ks_rules s)
           \<and> release_sample_ok L (ks_rules s) x))"

text \<open>The payload came off at the release: attached just before, detached just after.\<close>

definition came_off :: "int \<Rightarrow> competition_scorer \<Rightarrow> payload_event_sample \<Rightarrow> bool" where
  "came_off marker s release \<longleftrightarrow>
     (\<exists>x\<in>set (states_of marker s). ps_attached x \<and> ps_sim_timestamp_ns x < pv_sim_timestamp_ns release
        \<and> pv_sim_timestamp_ns release - ps_sim_timestamp_ns x \<le> cr_sample_interval_ns (ks_rules s))
     \<and> (\<exists>x\<in>set (states_of marker s). \<not> ps_attached x \<and> soon_after release s x)"

text \<open>The payload lay still in the target zone for the required time, before the boundary.\<close>

definition lay_still :: "libm \<Rightarrow> int \<Rightarrow> int option \<Rightarrow> competition_scorer \<Rightarrow> payload_event_sample \<Rightarrow> bool" where
  "lay_still L marker boundary s release \<longleftrightarrow>
     (\<exists>j<length (samples_after release (states_of marker s)).
        settles (settle_eligible L (ks_rules s)) (cr_sample_interval_ns (ks_rules s))
          (cr_payload_settle_ns (ks_rules s)) (samples_after release (states_of marker s)) j
        \<and> (case boundary of None \<Rightarrow> True
            | Some b \<Rightarrow> ps_sim_timestamp_ns (samples_after release (states_of marker s) ! j) < b))"

definition physically_delivered ::
  "libm \<Rightarrow> int \<Rightarrow> phase \<Rightarrow> int option \<Rightarrow> competition_scorer \<Rightarrow> bool" where
  "physically_delivered L marker ph boundary s \<longleftrightarrow>
     (\<exists>started finished. \<exists>release\<in>set (ks_payload_events s).
        phase_events ph s = Some (started, finished)
        \<and> pv_aruco_id release = marker \<and> pv_action release = ''release'' \<and> pv_code release = ''OK''
        \<and> me_sim_timestamp_ns started \<le> pv_sim_timestamp_ns release
        \<and> pv_sim_timestamp_ns release \<le> me_sim_timestamp_ns finished
        \<and> hovered L s release \<and> came_off marker s release \<and> lay_still L marker boundary s release
        \<and> (marker = 2 \<or> attach_valid L marker started release s))"

lemma release_gate_hovered:
  assumes "release_gate L release s" "0 < cr_sample_interval_ns (ks_rules s)"
  shows "hovered L s release"
proof -
  let ?d = "cr_sample_interval_ns (ks_rules s)" let ?h = "cr_release_stability_ns (ks_rules s)"
  let ?t = "pv_sim_timestamp_ns release"
  let ?w = "filter (\<lambda>x. ?t - ?h \<le> gt_sim_timestamp_ns x \<and> gt_sim_timestamp_ns x \<le> ?t) (ks_ground_truth s)"
  have w: "int (length ?w) = ?h div ?d + 1" "gt_sim_timestamp_ns (hd ?w) = ?t - ?h"
      "evenly ?d (map gt_sim_timestamp_ns ?w)" "list_all (release_sample_ok L (ks_rules s)) ?w"
    using assms(1) by (auto simp: release_gate_def Let_def split: option.splits if_splits)
  have "\<exists>x\<in>set (ks_ground_truth s). gt_sim_timestamp_ns x = ?t - ?h + int k * ?d \<and> release_sample_ok L (ks_rules s) x"
    if k: "int k * ?d \<le> ?h" for k
  proof -
    have "int k \<le> ?h div ?d"
      using k assms(2) by (simp add: zdiv_mono1 [of "int k * ?d" ?h ?d, simplified])
    then have len: "k < length ?w"
      using w(1) by linarith
    then have ne: "?w \<noteq> []" by auto
    have "gt_sim_timestamp_ns (?w ! k) = ?t - ?h + int k * ?d"
      using evenly_nth [OF w(3), of k] len w(2) ne by (simp add: hd_map)
    moreover have "?w ! k \<in> set ?w"
      using len by (rule nth_mem)
    ultimately show ?thesis
      using w(4) by (auto simp: list_all_iff)
  qed
  then show ?thesis by (simp add: hovered_def)
qed

lemma physical_release_came_off: "physical_release marker release s \<Longrightarrow> came_off marker s release"
  by (fastforce simp: physical_release_def came_off_def state_before_def last_of_def find_Some_iff
      dest: last_in_set split: option.splits if_splits)

lemma delivery_physical:
  assumes "fst (delivery L marker ph boundary s)" "0 < cr_sample_interval_ns (ks_rules s)" "marker \<in> {2, 3, 4}"
  shows "physically_delivered L marker ph boundary s"
proof -
  obtain started finished release t where
    d: "phase_events ph s = Some (started, finished)" "payload_event_of marker ''release'' s = Some release"
      "me_sim_timestamp_ns started \<le> pv_sim_timestamp_ns release"
      "pv_sim_timestamp_ns release \<le> me_sim_timestamp_ns finished"
      "release_gate L release s" "physical_release marker release s"
      "marker = 2 \<or> attach_valid L marker started release s"
      "settled_timestamp L marker release s = Some t" "case boundary of None \<Rightarrow> True | Some b \<Rightarrow> t < b"
    using assms(1,3) by (auto simp: delivery_def Let_def split: option.splits if_splits)
  have "release \<in> set (ks_payload_events s) \<and> pv_aruco_id release = marker \<and> pv_action release = ''release''
      \<and> pv_code release = ''OK''"
    using d(2) by (auto simp: payload_event_of_def find_Some_iff payload_after_start_def
        split: option.splits dest: nth_mem)
  moreover have "lay_still L marker boundary s release"
    using d(8,9) settled_timestamp_eq [OF assms(2), of L marker release]
    by (auto simp: lay_still_def Let_def dest!: first_index_Some split: option.splits)
  ultimately show ?thesis
    using d release_gate_hovered [OF d(5) assms(2)] physical_release_came_off [OF d(6)]
    by (auto simp: physically_delivered_def)
qed

section \<open>Properties\<close>

text \<open>
  C22. The settling time is exact. On any series of samples the one-pass loop of the scorer
  returns the time of the first sample at which a payload has settled: the first that ends a
  series of samples after the release, each eligible and one interval after the other, that
  spans the required time; and it returns nothing when there is none.
\<close>

theorem settled_timestamp_exact:
  assumes "0 < cr_sample_interval_ns (ks_rules s)"
  shows "settled_timestamp L marker release s =
    (let xs = samples_after release (states_of marker s) in
     map_option (\<lambda>j. ps_sim_timestamp_ns (xs ! j))
       (first_index (\<lambda>j _. settles (settle_eligible L (ks_rules s)) (cr_sample_interval_ns (ks_rules s))
          (cr_payload_settle_ns (ks_rules s)) xs j) 0 xs))"
  by (rule settled_timestamp_eq [OF assms])

text \<open>
  C7. An awarded rule is a physical fact. Whatever events were claimed, the landing rule passes
  only if the vehicle stood on the landing pad, and a payload rule only if the payload was
  picked up there by a standing vehicle, came off under a vehicle that had hovered over the
  target within the tolerances on every instant of the sample grid, and then lay still in the
  target zone for the required time, before the next payload was taken or the flight ended.
\<close>

theorem awards_are_physical:
  assumes "competition_finalize L s = (Inr r, s')" and "ks_result s = None"
    and "0 < cr_sample_interval_ns (ks_rules s)" and "passed = map ru_passed (sr_rule_results r)"
  shows "(passed ! 0 \<longrightarrow> (\<exists>x\<in>set (ks_ground_truth s). is_landed L (ks_rules s) WP_L x))
    \<and> (passed ! 2 \<longrightarrow> physically_delivered L 2 FM2 (attach_boundary 3 s) s)
    \<and> (passed ! 4 \<longrightarrow> physically_delivered L 3 FM3_3 (attach_boundary 4 s) s)
    \<and> (passed ! 6 \<longrightarrow> physically_delivered L 4 FM3_4 (home_checkpoint_boundary L s) s)"
proof (rule finalize_fresh [OF assms(1,2)])
  fix outcomes finished diagnostic
  assume e: "competition_evaluate L s = (outcomes, finished, diagnostic)"
    and n: "length (cr_points (ks_rules s)) = 7"
    and r: "sr_rule_results r = rule_results ''rosbag#competition:'' competition_rule_ids (cr_points (ks_rules s)) outcomes"
  have outcomes: "outcomes = replicate 7 False \<or> outcomes = rule_outcomes L s"
    using evaluate_outcomes [OF e] by blast
  then have "length outcomes = 7"
    by (auto simp: rule_outcomes_def Let_def)
  then have passed: "passed = outcomes"
    unfolding assms(4) r using n by (intro passed_rule_results) (simp_all add: competition_rule_ids_def)
  have landed: "\<exists>x\<in>set (ks_ground_truth s). is_landed L (ks_rules s) WP_L x" if "landing L FM1 WP_L s"
    using that by (fastforce simp: landing_def vehicle_at_def last_of_def dest: last_in_set
        split: option.splits if_splits)
  show ?thesis
    using outcomes unfolding passed
    by (elim disjE) (auto simp: rule_outcomes_def Let_def numeral_eq_Suc landed
        intro!: delivery_physical [OF _ assms(3), simplified numeral_eq_Suc])
qed

end
