(* ===== verification/Score_Evidence.thy ===== *)
theory Score_Evidence
  imports Score_Evaluation
begin

text \<open>
  The evidence a competition scorer can hold: what every sequence of its operations preserves,
  and the capacity check against its specification on such evidence.
\<close>

section \<open>Series of timestamps\<close>

text \<open>
  From the start on, a series begins within one interval and continues on the sample grid.
\<close>

definition on_grid :: "int \<Rightarrow> int option \<Rightarrow> int list \<Rightarrow> bool" where
  "on_grid d start ts \<longleftrightarrow>
     (case start of
        None \<Rightarrow> True
      | Some st \<Rightarrow> (let after = filter (\<lambda>t. st \<le> t) ts in
          after = [] \<or> hd after - st \<le> d \<and> evenly d after))"

abbreviation increasing :: "int list \<Rightarrow> bool" where
  "increasing \<equiv> sorted_wrt (<)"

lemma evenly_snoc: "xs \<noteq> [] \<Longrightarrow> evenly d (xs @ [t]) \<longleftrightarrow> evenly d xs \<and> t - last xs = d"
  by (induction d xs rule: evenly.induct) auto

lemma increasing_last: "increasing ts \<Longrightarrow> x \<in> set ts \<Longrightarrow> x \<le> last ts"
  by (induction ts) (auto intro: less_imp_le)

lemma increasing_snoc: "increasing (ts @ [t]) \<longleftrightarrow> increasing ts \<and> (ts = [] \<or> last ts < t)"
proof (cases "ts = []")
  case False
  have "(\<forall>x\<in>set ts. x < t) \<longleftrightarrow> last ts < t" if "increasing ts"
    using increasing_last [OF that] False by (fastforce dest: last_in_set)
  then show ?thesis using False by (auto simp: sorted_wrt_append)
qed simp

lemma on_grid_None [simp]: "on_grid d None ts"
  by (simp add: on_grid_def)

lemma on_grid_Nil [simp]: "on_grid d start []"
  by (simp add: on_grid_def split: option.splits)

lemma on_grid_snoc:
  assumes "increasing ts" "st \<le> t"
  shows "on_grid d (Some st) (ts @ [t]) \<longleftrightarrow>
    (if ts = [] \<or> last ts < st then t - st \<le> d else on_grid d (Some st) ts \<and> t - last ts = d)"
proof (cases "ts = [] \<or> last ts < st")
  case True
  then have "filter (\<lambda>t. st \<le> t) ts = []"
    using increasing_last [OF assms(1)] by (fastforce simp: filter_empty_conv)
  then show ?thesis
    using True assms(2) by (simp add: on_grid_def)
next
  case False
  then obtain us l where us: "ts = us @ [l]" "st \<le> l"
    by (metis last_snoc linorder_not_less rev_exhaust)
  then show ?thesis
    using assms(2) evenly_snoc [of "filter (\<lambda>t. st \<le> t) us @ [l]" d t]
    by (auto simp: on_grid_def Let_def hd_append)
qed

section \<open>Latching\<close>

lemma latch_simps [simp]:
  "ks_run_id (latch r s) = ks_run_id s" "ks_rules (latch r s) = ks_rules s"
  "ks_start_sim_time_ns (latch r s) = ks_start_sim_time_ns s" "ks_ground_truth (latch r s) = ks_ground_truth s"
  "ks_payload_states (latch r s) = ks_payload_states s" "ks_payload_events (latch r s) = ks_payload_events s"
  "ks_mission_events (latch r s) = ks_mission_events s" "ks_result (latch r s) = ks_result s"
  "ks_diagnostic (latch r s) \<noteq> None"
  by (auto simp: latch_def)

text \<open>What a step may change of the diagnostic: it is kept once it is there.\<close>

lemma latch_keeps: "ks_diagnostic s = Some d \<Longrightarrow> latch r s = s"
  by (simp add: latch_def)

text \<open>Two scorers with the same evidence and configuration.\<close>

definition same_evidence :: "competition_scorer \<Rightarrow> competition_scorer \<Rightarrow> bool" where
  "same_evidence a b \<longleftrightarrow> ks_run_id a = ks_run_id b \<and> ks_rules a = ks_rules b
     \<and> ks_start_sim_time_ns a = ks_start_sim_time_ns b \<and> ks_ground_truth a = ks_ground_truth b
     \<and> ks_payload_states a = ks_payload_states b \<and> ks_payload_events a = ks_payload_events b
     \<and> ks_mission_events a = ks_mission_events b \<and> ks_result a = ks_result b"

lemma same_evidence_refl [simp]: "same_evidence s s"
  by (simp add: same_evidence_def)

lemma same_evidence_latch [simp]: "same_evidence (latch r s) s"
  by (simp add: same_evidence_def)

lemma stream_gap_spec:
  "same_evidence (stream_gap ts r s) s"
  "ks_diagnostic (stream_gap ts r s) = None \<longleftrightarrow>
     ks_diagnostic s = None \<and> on_grid (cr_sample_interval_ns (ks_rules s)) (ks_start_sim_time_ns s) ts"
  by (auto simp: stream_gap_def on_grid_def Let_def split: option.splits list.splits)

lemma latest_timestamp_gap_spec:
  "same_evidence (latest_timestamp_gap p t r s) s"
  "ks_diagnostic (latest_timestamp_gap p t r s) = None \<longleftrightarrow>
     ks_diagnostic s = None \<and> (case ks_start_sim_time_ns s of
       None \<Rightarrow> True
     | Some st \<Rightarrow> (if p = None \<or> the p < st then t - st \<le> cr_sample_interval_ns (ks_rules s)
                    else t - the p = cr_sample_interval_ns (ks_rules s)))"
  by (auto simp: latest_timestamp_gap_def split: option.splits)

section \<open>The invariant\<close>

definition streams :: "competition_scorer \<Rightarrow> int list list" where
  "streams s = map gt_sim_timestamp_ns (ks_ground_truth s)
     # map (\<lambda>(_, xs). map ps_sim_timestamp_ns xs) (ks_payload_states s)"

text \<open>Events numbered from 0 without a gap, at nondecreasing times.\<close>

definition numbered :: "('a \<Rightarrow> int) \<Rightarrow> ('a \<Rightarrow> int) \<Rightarrow> 'a list \<Rightarrow> bool" where
  "numbered number stamp xs \<longleftrightarrow> map number xs = map int [0..<length xs] \<and> sorted (map stamp xs)"

lemma keys_update_present: "map_of d k \<noteq> None \<Longrightarrow> map fst (AList.update k v d) = map fst d"
  by (induction d) auto

definition three_payloads :: "(int, 'a) dict \<Rightarrow> bool" where
  "three_payloads d \<longleftrightarrow> dict_keys d = [2, 3, 4]"

lemma three_payloads_update [simp]:
  "three_payloads d \<Longrightarrow> map_of d k = Some w \<Longrightarrow> three_payloads (AList.update k v d)"
  by (metis keys_update_present option.distinct(1) three_payloads_def)

definition evidence_ok :: "competition_scorer \<Rightarrow> bool" where
  "evidence_ok s \<longleftrightarrow>
     three_payloads (ks_payload_states s)
     \<and> list_all increasing (streams s)
     \<and> list_all (\<lambda>(m, xs). list_all (\<lambda>x. ps_aruco_id x = m) xs) (ks_payload_states s)
     \<and> numbered pv_event_id pv_sim_timestamp_ns (ks_payload_events s)
     \<and> numbered me_event_id me_sim_timestamp_ns (ks_mission_events s)
     \<and> (ks_diagnostic s = None \<longrightarrow>
          list_all (on_grid (cr_sample_interval_ns (ks_rules s)) (ks_start_sim_time_ns s)) (streams s))"

lemma evidence_ok_diagnosed:
  "evidence_ok a \<Longrightarrow> same_evidence b a \<Longrightarrow> ks_diagnostic b \<noteq> None \<Longrightarrow> evidence_ok b"
  by (auto simp: evidence_ok_def same_evidence_def streams_def)

lemma evidence_ok_latch [simp]: "evidence_ok s \<Longrightarrow> evidence_ok (latch r s)"
  by (rule evidence_ok_diagnosed [OF _ same_evidence_latch]) simp_all

lemma list_all_streams:
  "list_all P (streams s) \<longleftrightarrow> P (map gt_sim_timestamp_ns (ks_ground_truth s))
     \<and> list_all (\<lambda>(_, xs). P (map ps_sim_timestamp_ns xs)) (ks_payload_states s)"
  by (simp add: streams_def list.pred_map o_def case_prod_unfold)

lemma numbered_snoc:
  assumes "numbered number stamp xs"
    and "event_discontinuity (if xs = [] then None else Some (number (last xs), stamp (last xs)))
           (number x) (stamp x) name = None"
  shows "numbered number stamp (xs @ [x])"
proof (cases xs rule: rev_cases)
  case Nil
  then show ?thesis
    using assms(2) by (simp add: numbered_def event_discontinuity_def split: if_splits)
next
  case (snoc ys y)
  have "stamp z \<le> stamp y" if "z \<in> set ys" for z
    using assms(1) that by (simp add: numbered_def snoc sorted_append)
  then show ?thesis
    using assms by (fastforce simp: numbered_def event_discontinuity_def snoc sorted_append split: if_splits)
qed

text \<open>A sample at the end of one stream.\<close>

lemma latest_gap_grid:
  assumes "increasing ts" "\<not> before_start t s" "p = (if ts = [] then None else Some (last ts))"
    and "ks_diagnostic (latest_timestamp_gap p t r s') = None"
    and "ks_start_sim_time_ns s' = ks_start_sim_time_ns s" "ks_rules s' = ks_rules s"
    and "on_grid (cr_sample_interval_ns (ks_rules s)) (ks_start_sim_time_ns s) ts"
  shows "on_grid (cr_sample_interval_ns (ks_rules s)) (ks_start_sim_time_ns s) (ts @ [t])"
proof (cases "ks_start_sim_time_ns s")
  case (Some st)
  then have "st \<le> t" using assms(2) by (simp add: before_start_def)
  then show ?thesis
    using assms(3-7) Some on_grid_snoc [OF assms(1), of st t "cr_sample_interval_ns (ks_rules s)"]
    by (simp add: latest_timestamp_gap_spec split: if_splits)
qed simp

lemma last_stamp_map: "last_stamp f xs = (if map f xs = [] then None else Some (last (map f xs)))"
  by (simp add: last_stamp_def last_map)

lemma take_ground_truth_ok:
  assumes "evidence_ok s"
  shows "evidence_ok (take_ground_truth x s)"
proof -
  let ?ts = "map gt_sim_timestamp_ns (ks_ground_truth s)" and ?t = "gt_sim_timestamp_ns x"
  let ?p = "last_stamp gt_sim_timestamp_ns (ks_ground_truth s)"
  let ?s' = "s\<lparr>ks_ground_truth := ks_ground_truth s @ [x]\<rparr>"
  show ?thesis
  proof (cases "before_start ?t s \<or> (case ?p of None \<Rightarrow> False | Some p \<Rightarrow> ?t \<le> p)")
    case True
    then show ?thesis
      using assms by (auto simp: take_ground_truth_def Let_def)
  next
    case False
    then have eq: "take_ground_truth x s = latest_timestamp_gap ?p ?t ''ground_truth_timestamp_gap'' ?s'"
      by (simp add: take_ground_truth_def Let_def)
    have inc: "increasing ?ts" and inc': "increasing (?ts @ [?t])"
      using assms False by (auto simp: evidence_ok_def streams_def increasing_snoc last_stamp_map split: if_splits)
    let ?r = "latest_timestamp_gap ?p ?t ''ground_truth_timestamp_gap'' ?s'"
    have "on_grid (cr_sample_interval_ns (ks_rules s)) (ks_start_sim_time_ns s) (?ts @ [?t])"
      if d: "ks_diagnostic ?r = None"
    proof (rule latest_gap_grid [OF inc _ _ d])
      show "on_grid (cr_sample_interval_ns (ks_rules s)) (ks_start_sim_time_ns s) ?ts"
        using assms d by (simp add: evidence_ok_def streams_def latest_timestamp_gap_spec)
    qed (use False in \<open>simp_all add: last_stamp_map\<close>)
    moreover have "same_evidence ?r ?s'"
      by (rule latest_timestamp_gap_spec)
    ultimately show ?thesis
      unfolding eq using assms inc'
      by (auto simp: evidence_ok_def streams_def same_evidence_def latest_timestamp_gap_spec(2))
  qed
qed

lemma set_alist_update: "set (AList.update k v d) \<subseteq> insert (k, v) (set d)"
  by (induction d) auto

lemma list_all_update: "list_all P d \<Longrightarrow> P (k, v) \<Longrightarrow> list_all P (AList.update k v d)"
  using set_alist_update [of k v d] by (auto simp: list_all_iff)

lemma take_payload_state_ok:
  assumes "evidence_ok s"
  shows "evidence_ok (take_payload_state x s)"
proof -
  let ?m = "ps_aruco_id x" and ?t = "ps_sim_timestamp_ns x"
  show ?thesis
  proof (cases "map_of (ks_payload_states s) ?m")
    case None
    then show ?thesis
      using assms by (auto simp: take_payload_state_def)
  next
    case (Some states)
    let ?ts = "map ps_sim_timestamp_ns states" and ?p = "last_stamp ps_sim_timestamp_ns states"
    let ?s' = "s\<lparr>ks_payload_states := AList.update ?m (states @ [x]) (ks_payload_states s)\<rparr>"
    show ?thesis
    proof (cases "before_start ?t s \<or> (case ?p of None \<Rightarrow> False | Some p \<Rightarrow> ?t \<le> p)")
      case True
      then show ?thesis
        using assms Some by (auto simp: take_payload_state_def Let_def)
    next
      case False
      let ?r = "latest_timestamp_gap ?p ?t (payload_diagnostic ?m ''timestamp_gap'') ?s'"
      have eq: "take_payload_state x s = ?r"
        using False Some by (simp add: take_payload_state_def Let_def)
      have entry: "(?m, states) \<in> set (ks_payload_states s)"
        using Some by (rule map_of_SomeD)
      have inc: "increasing ?ts" and inc': "increasing (?ts @ [?t])"
        using assms False entry
        by (force simp: evidence_ok_def streams_def list_all_iff increasing_snoc last_stamp_map split: if_splits)+
      have grid: "on_grid (cr_sample_interval_ns (ks_rules s)) (ks_start_sim_time_ns s) (?ts @ [?t])"
        if d: "ks_diagnostic ?r = None"
      proof (rule latest_gap_grid [OF inc _ _ d])
        show "on_grid (cr_sample_interval_ns (ks_rules s)) (ks_start_sim_time_ns s) ?ts"
          using assms d entry by (force simp: evidence_ok_def streams_def latest_timestamp_gap_spec list_all_iff)
      qed (use False in \<open>simp_all add: last_stamp_map\<close>)
      have same: "same_evidence ?r ?s'"
        by (rule latest_timestamp_gap_spec)
      have ok: "three_payloads (ks_payload_states s)" "list_all increasing (streams s)"
        "list_all (\<lambda>(m, xs). list_all (\<lambda>x. ps_aruco_id x = m) xs) (ks_payload_states s)"
        using assms by (simp_all add: evidence_ok_def)
      have aruco: "list_all (\<lambda>y. ps_aruco_id y = ?m) states"
        using ok(3) entry by (auto simp: list_all_iff)
      have "list_all increasing (streams ?s')"
        using ok(2) inc' list_all_update [of "\<lambda>(_, xs). increasing (map ps_sim_timestamp_ns xs)"
            "ks_payload_states s" ?m "states @ [x]"]
        by (simp add: list_all_streams)
      moreover have "list_all (\<lambda>(m, xs). list_all (\<lambda>x. ps_aruco_id x = m) xs) (ks_payload_states ?s')"
        using ok(3) aruco by (simp add: list_all_update)
      moreover have "list_all (on_grid (cr_sample_interval_ns (ks_rules s)) (ks_start_sim_time_ns s)) (streams ?s')"
        if d: "ks_diagnostic ?r = None"
      proof -
        have "list_all (on_grid (cr_sample_interval_ns (ks_rules s)) (ks_start_sim_time_ns s)) (streams s)"
          using assms d by (simp add: evidence_ok_def latest_timestamp_gap_spec)
        then show ?thesis
          using grid [OF d] list_all_update [of "\<lambda>(_, xs). on_grid (cr_sample_interval_ns (ks_rules s))
              (ks_start_sim_time_ns s) (map ps_sim_timestamp_ns xs)" "ks_payload_states s" ?m "states @ [x]"]
          by (simp add: list_all_streams)
      qed
      ultimately show ?thesis
        unfolding eq using assms same ok(1) Some
        by (auto simp: evidence_ok_def streams_def same_evidence_def)
    qed
  qed
qed

lemma take_payload_event_ok:
  assumes "evidence_ok s"
  shows "evidence_ok (take_payload_event x s)"
proof -
  have "evidence_ok (s\<lparr>ks_payload_events := ks_payload_events s @ [x]\<rparr>)"
    if "event_discontinuity (if ks_payload_events s = [] then None
          else Some (pv_event_id (last (ks_payload_events s)), pv_sim_timestamp_ns (last (ks_payload_events s))))
        (pv_event_id x) (pv_sim_timestamp_ns x) ''payload'' = None"
    using assms numbered_snoc [OF _ that] by (auto simp: evidence_ok_def streams_def)
  then show ?thesis
    using assms by (auto simp: take_payload_event_def Let_def split: option.splits)
qed

lemma same_evidence_trans: "same_evidence a b \<Longrightarrow> same_evidence b c \<Longrightarrow> same_evidence a c"
  by (simp add: same_evidence_def)

lemma payload_gaps_spec:
  "same_evidence (fold payload_gap ms s) s
   \<and> (ks_diagnostic (fold payload_gap ms s) = None \<longleftrightarrow> ks_diagnostic s = None
     \<and> list_all (\<lambda>m. on_grid (cr_sample_interval_ns (ks_rules s)) (ks_start_sim_time_ns s)
          (map ps_sim_timestamp_ns (states_of m s))) ms)"
proof (induction ms arbitrary: s)
  case (Cons m ms)
  have g: "same_evidence (payload_gap m s) s"
    by (simp add: payload_gap_def stream_gap_spec)
  have states: "states_of k (payload_gap m s) = states_of k s" for k
    using g by (simp add: states_of_def same_evidence_def)
  show ?case
    using Cons.IH [of "payload_gap m s"] g states same_evidence_trans [OF _ g]
    by (auto simp: payload_gap_def stream_gap_spec same_evidence_def)
qed simp

lemma start_mission_ok:
  assumes "evidence_ok s" "ks_start_sim_time_ns s = None"
  shows "evidence_ok (start_mission t s)"
proof -
  let ?s1 = "s\<lparr>ks_start_sim_time_ns := Some t\<rparr>" and ?s2 = "ground_truth_gap (s\<lparr>ks_start_sim_time_ns := Some t\<rparr>)"
  let ?d = "cr_sample_interval_ns (ks_rules s)"
  have g: "same_evidence ?s2 ?s1"
    by (simp add: ground_truth_gap_def stream_gap_spec)
  then have f: "same_evidence (start_mission t s) ?s1"
    unfolding start_mission_def using payload_gaps_spec same_evidence_trans by blast
  have keys: "dict_keys (ks_payload_states s) = [2, 3, 4]"
    using assms(1) by (simp add: evidence_ok_def three_payloads_def)
  have "list_all (on_grid ?d (Some t)) (streams s)" if d: "ks_diagnostic (start_mission t s) = None"
  proof -
    have "ks_diagnostic ?s2 = None" and payloads: "list_all (\<lambda>m. on_grid (cr_sample_interval_ns (ks_rules ?s2))
        (ks_start_sim_time_ns ?s2) (map ps_sim_timestamp_ns (states_of m ?s2))) (dict_keys (ks_payload_states s))"
      using d payload_gaps_spec [of "dict_keys (ks_payload_states s)" ?s2] unfolding start_mission_def by blast+
    then have truth: "on_grid ?d (Some t) (map gt_sim_timestamp_ns (ks_ground_truth s))"
      by (simp add: ground_truth_gap_def stream_gap_spec)
    have "states_of m ?s2 = states_of m s" for m
      using g by (simp add: states_of_def same_evidence_def)
    then have "on_grid ?d (Some t) (map ps_sim_timestamp_ns (states_of m s))" if "m \<in> {2, 3, 4}" for m
      using payloads g that by (auto simp: keys list_all_iff same_evidence_def)
    moreover have "states_of m s = xs" "m \<in> {2, 3, 4}" if "(m, xs) \<in> set (ks_payload_states s)" for m xs
    proof -
      have "distinct (map fst (ks_payload_states s))" using keys by simp
      then show "states_of m s = xs" using that by (simp add: states_of_def)
      have "m \<in> set (map fst (ks_payload_states s))" using that by force
      then show "m \<in> {2, 3, 4}" unfolding keys by simp
    qed
    ultimately have "on_grid ?d (Some t) (map ps_sim_timestamp_ns xs)"
      if "(m, xs) \<in> set (ks_payload_states s)" for m xs
      using that by metis
    then show ?thesis
      using truth unfolding list_all_streams by (auto simp: list_all_iff)
  qed
  moreover have "streams (start_mission t s) = streams s"
    using f by (simp add: same_evidence_def streams_def)
  ultimately show ?thesis
    using assms(1) f unfolding evidence_ok_def same_evidence_def by simp
qed

lemma take_mission_event_ok:
  assumes "evidence_ok s"
  shows "evidence_ok (take_mission_event x s)"
proof -
  have "evidence_ok (s\<lparr>ks_mission_events := ks_mission_events s @ [x]\<rparr>)"
    if "event_discontinuity (if ks_mission_events s = [] then None
          else Some (me_event_id (last (ks_mission_events s)), me_sim_timestamp_ns (last (ks_mission_events s))))
        (me_event_id x) (me_sim_timestamp_ns x) ''mission'' = None"
    using assms numbered_snoc [OF _ that] by (auto simp: evidence_ok_def streams_def)
  then show ?thesis
    using assms
    by (auto simp: take_mission_event_def Let_def start_mission_ok split: option.splits)
qed

section \<open>Reachable evidence\<close>

datatype score_op =
    Truth "ground_truth_sample option"
  | State "payload_sample option"
  | PayloadEvent "payload_event_sample option"
  | MissionEvent "mission_event_sample option"
  | Fail pyval
  | Finalize libm

fun score_step :: "score_op \<Rightarrow> competition_scorer \<Rightarrow> competition_scorer" where
  "score_step (Truth x) s = snd (accept_ground_truth_sample x s)"
| "score_step (State x) s = snd (accept_payload_state_sample x s)"
| "score_step (PayloadEvent x) s = snd (accept_payload_event_sample x s)"
| "score_step (MissionEvent x) s = snd (accept_mission_event_sample x s)"
| "score_step (Fail reason) s = snd (competition_fail reason s)"
| "score_step (Finalize L) s = snd (competition_finalize L s)"

lemmas accept_defs = accept_ground_truth_sample_def accept_payload_state_sample_def
  accept_payload_event_sample_def accept_mission_event_sample_def accepting_def

lemma evidence_ok_result: "evidence_ok (s\<lparr>ks_result := r\<rparr>) = evidence_ok s"
  by (simp add: evidence_ok_def streams_def)

lemma competition_finalize_cases:
  "snd (competition_finalize L s) = s \<or>
     ks_result s = None \<and> (\<exists>r. competition_finalize L s = (Inr r, s\<lparr>ks_result := Some r\<rparr>))"
  by (auto simp: competition_finalize_def Let_def split: option.splits prod.splits)

lemma competition_fail_latch:
  "snd (competition_fail reason s) = s \<or> (\<exists>r. snd (competition_fail reason s) = latch r s)"
  by (auto simp: competition_fail_def latch_def split: option.splits)

lemma score_step_ok: "evidence_ok s \<Longrightarrow> evidence_ok (score_step x s)"
proof (cases x)
  case (Fail reason)
  assume "evidence_ok s"
  then show ?thesis
    using competition_fail_latch [of reason s] Fail by auto
next
  case (Finalize L)
  assume "evidence_ok s"
  then show ?thesis
    using competition_finalize_cases [of L s] Finalize by (auto simp: evidence_ok_result)
qed (auto simp: accept_defs take_ground_truth_ok take_payload_state_ok take_payload_event_ok
    take_mission_event_ok split: option.splits)

lemma CompetitionScorer_ok:
  assumes "CompetitionScorer run_id rules = Inr s"
  shows "evidence_ok s"
proof -
  have "ks_payload_states s = [(2, []), (3, []), (4, [])]" "ks_ground_truth s = []"
    "ks_payload_events s = []" "ks_mission_events s = []" "ks_start_sim_time_ns s = None"
    using assms unfolding CompetitionScorer_def rbind_eq_Inr
    by (cases rules; clarsimp)+
  then show ?thesis
    by (simp add: evidence_ok_def three_payloads_def streams_def numbered_def)
qed

definition score_run :: "score_op list \<Rightarrow> competition_scorer \<Rightarrow> competition_scorer" where
  "score_run xs s = fold score_step xs s"

lemma score_run_ok: "evidence_ok s \<Longrightarrow> evidence_ok (score_run xs s)"
  by (induction xs arbitrary: s) (simp_all add: score_run_def score_step_ok)

text \<open>
  C23. The evidence has no gap. Whatever samples, events, failures and finalizations a scorer
  receives: each of its four sample series is strictly increasing and both event series are
  numbered 0, 1, 2, \<dots> at nondecreasing times; and as long as no diagnostic is recorded, every
  sample series lies, from the start of the mission on, on one sample grid without a hole and
  begins within one interval of the start.
\<close>

theorem evidence_gap_free:
  assumes "CompetitionScorer run_id rules = Inr s0" and "s = score_run ops s0"
  shows "list_all increasing (streams s) \<and> length (streams s) = 4
    \<and> numbered pv_event_id pv_sim_timestamp_ns (ks_payload_events s)
    \<and> numbered me_event_id me_sim_timestamp_ns (ks_mission_events s)
    \<and> (ks_diagnostic s \<noteq> None \<or> list_all (on_grid (cr_sample_interval_ns (ks_rules s)) (ks_start_sim_time_ns s)) (streams s))"
proof -
  have ok: "evidence_ok s"
    unfolding assms(2) by (rule score_run_ok [OF CompetitionScorer_ok [OF assms(1)]])
  have "length (ks_payload_states s) = length (dict_keys (ks_payload_states s))"
    by simp
  also have "\<dots> = 3"
    using ok by (simp only: evidence_ok_def three_payloads_def) simp
  finally have "length (streams s) = 4"
    by (simp add: streams_def)
  then show ?thesis
    using ok unfolding evidence_ok_def by blast
qed

section \<open>Finalized scores\<close>

lemma finalized_step:
  assumes "ks_result s = Some r"
  shows "score_step x s = s"
  using assms by (cases x) (auto simp: accept_defs competition_fail_def competition_finalize_def)

lemma finalized_run: "ks_result s = Some r \<Longrightarrow> score_run xs s = s"
  by (induction xs) (simp_all add: score_run_def finalized_step)

text \<open>
  A finalized score is final: after \<open>finalize\<close> has returned a result, no operation changes
  the scorer, every later \<open>finalize\<close> returns the same result, and every sample, event or
  failure raises.
\<close>

theorem finalized_score_is_final:
  assumes "competition_finalize L s = (Inr r, s')"
  shows "score_run xs s' = s' \<and> competition_finalize L' s' = (Inr r, s')
    \<and> isl (fst (accept_ground_truth_sample x s')) \<and> isl (fst (accept_payload_state_sample y s'))
    \<and> isl (fst (accept_payload_event_sample e s')) \<and> isl (fst (accept_mission_event_sample m s'))
    \<and> isl (fst (competition_fail reason s'))"
proof -
  have "ks_result s' = Some r"
    using assms by (auto simp: competition_finalize_def Let_def split: option.splits prod.splits if_splits)
  then show ?thesis
    using finalized_run by (auto simp: accept_defs competition_fail_def competition_finalize_def)
qed

end
