(* ===== verification/Score_Capacity.thy ===== *)
theory Score_Capacity
  imports Score_Evidence
begin

text \<open>
  The capacity check of the competition scorer against its specification: at no time is more
  than one payload known to be attached.
\<close>

section \<open>The latest samples\<close>

lemma last_of_Nil [simp]: "last_of [] = None"
  by (simp add: last_of_def)

lemma last_of_single [simp]: "last_of [x] = Some x"
  by (simp add: last_of_def)

lemma last_of_append: "last_of (xs @ ys) = (case last_of ys of None \<Rightarrow> last_of xs | Some y \<Rightarrow> Some y)"
  by (simp add: last_of_def)

text \<open>Updating a dictionary with a list of samples leaves the last one of each payload.\<close>

lemma map_of_updates:
  "map_of (foldl (\<lambda>d x. AList.update (f x) x d) d xs) m =
     (case last_of (filter (\<lambda>x. f x = m) xs) of Some x \<Rightarrow> Some x | None \<Rightarrow> map_of d m)"
  by (induction xs rule: rev_induct) (auto simp: update_conv' last_of_append)

lemma distinct_updates:
  "distinct (map fst d) \<Longrightarrow> distinct (map fst (foldl (\<lambda>d x. AList.update (f x) x d) d xs))"
  by (induction xs arbitrary: d) (simp_all add: distinct_update)

lemma attached_count_card:
  assumes "distinct (map fst d)"
  shows "attached_count d = card {m. \<exists>x. map_of d m = Some x \<and> ps_attached x}"
proof -
  let ?f = "filter (\<lambda>(_, x). ps_attached x) d"
  have "distinct (map fst ?f)"
    using assms by (rule distinct_map_filter)
  then have "length ?f = card (set (map fst ?f))"
    by (metis distinct_card length_map)
  also have "set (map fst ?f) = {m. \<exists>x. map_of d m = Some x \<and> ps_attached x}"
    using assms by (force simp: image_iff)
  finally show ?thesis by (simp add: attached_count_def)
qed

section \<open>The loop\<close>

text \<open>The last sample of a payload up to a time.\<close>

definition known_at :: "payload_sample list \<Rightarrow> int \<Rightarrow> int \<Rightarrow> payload_sample option" where
  "known_at samples m t = last_of (filter (\<lambda>x. ps_aruco_id x = m \<and> ps_sim_timestamp_ns x \<le> t) samples)"

definition carried_at :: "payload_sample list \<Rightarrow> int \<Rightarrow> int set" where
  "carried_at samples t = {m. \<exists>x. known_at samples m t = Some x \<and> ps_attached x}"

text \<open>Every payload's samples are in increasing time.\<close>

definition ordered_samples :: "payload_sample list \<Rightarrow> bool" where
  "ordered_samples samples \<longleftrightarrow>
     (\<forall>m. sorted (map ps_sim_timestamp_ns (filter (\<lambda>x. ps_aruco_id x = m) samples)))"

lemma sorted_split:
  fixes t :: int
  assumes "sorted (map f xs)"
  shows "filter (\<lambda>x. f x \<le> t) xs = filter (\<lambda>x. f x < t) xs @ filter (\<lambda>x. f x = t) xs"
  using assms
proof (induction xs)
  case (Cons x xs)
  then show ?case
    by (cases "f x < t") (auto simp: filter_empty_conv not_less antisym_conv1)
qed simp

lemma known_at_step:
  assumes "ordered_samples samples"
    and "\<And>m. map_of latest m = last_of (filter (\<lambda>x. ps_aruco_id x = m \<and> ps_sim_timestamp_ns x < t) samples)"
  shows "map_of (foldl (\<lambda>d x. AList.update (ps_aruco_id x) x d) latest
      (filter (\<lambda>x. ps_sim_timestamp_ns x = t) samples)) m = known_at samples m t"
proof -
  let ?xs = "filter (\<lambda>x. ps_aruco_id x = m) samples"
  have "filter (\<lambda>x. ps_sim_timestamp_ns x \<le> t) ?xs =
      filter (\<lambda>x. ps_sim_timestamp_ns x < t) ?xs @ filter (\<lambda>x. ps_sim_timestamp_ns x = t) ?xs"
    using assms(1) by (intro sorted_split) (simp add: ordered_samples_def)
  then have "known_at samples m t = last_of (filter (\<lambda>x. ps_aruco_id x = m \<and> ps_sim_timestamp_ns x < t) samples
      @ filter (\<lambda>x. ps_aruco_id x = m \<and> ps_sim_timestamp_ns x = t) samples)"
    by (simp add: known_at_def conj_commute)
  then show ?thesis
    by (simp add: map_of_updates assms(2) last_of_append conj_commute split: option.splits)
qed

lemma capacity_loop_exact:
  assumes "ordered_samples samples" "sorted ts" "distinct ts" "distinct (map fst latest)"
    and "\<And>m. map_of latest m = last_of (filter (\<lambda>x. ps_aruco_id x = m \<and> ps_sim_timestamp_ns x \<in> old) samples)"
    and "ps_sim_timestamp_ns ` set samples = old \<union> set ts" "\<And>a b. a \<in> old \<Longrightarrow> b \<in> set ts \<Longrightarrow> a < b"
  shows "capacity_loop samples latest ts \<longleftrightarrow> (\<forall>t\<in>set ts. card (carried_at samples t) \<le> 1)"
  using assms(2-7)
proof (induction ts arbitrary: latest old)
  case (Cons t ts)
  let ?new = "foldl (\<lambda>d x. AList.update (ps_aruco_id x) x d) latest (filter (\<lambda>x. ps_sim_timestamp_ns x = t) samples)"
  have old: "ps_sim_timestamp_ns x \<in> old \<longleftrightarrow> ps_sim_timestamp_ns x < t"
    and new: "ps_sim_timestamp_ns x \<in> insert t old \<longleftrightarrow> ps_sim_timestamp_ns x \<le> t" if "x \<in> set samples" for x
    using that Cons.prems(1,2,5) Cons.prems(6) [of "ps_sim_timestamp_ns x" t] by (force simp: order.strict_iff_order)+
  have "map_of latest m = last_of (filter (\<lambda>x. ps_aruco_id x = m \<and> ps_sim_timestamp_ns x < t) samples)" for m
    unfolding Cons.prems(4) using old by (intro arg_cong [where f = last_of] filter_cong) auto
  then have known: "map_of ?new m = known_at samples m t" for m
    by (rule known_at_step [OF assms(1)])
  have keys: "distinct (map fst ?new)"
    using Cons.prems(3) by (rule distinct_updates)
  have "attached_count ?new = card (carried_at samples t)"
    by (simp add: attached_count_card [OF keys] carried_at_def known)
  moreover have "capacity_loop samples ?new ts \<longleftrightarrow> (\<forall>t\<in>set ts. card (carried_at samples t) \<le> 1)"
  proof (rule Cons.IH [OF _ _ keys])
    show "map_of ?new m = last_of (filter (\<lambda>x. ps_aruco_id x = m \<and> ps_sim_timestamp_ns x \<in> insert t old) samples)" for m
      unfolding known known_at_def using new by (intro arg_cong [where f = last_of] filter_cong) auto
    show "ps_sim_timestamp_ns ` set samples = insert t old \<union> set ts"
      using Cons.prems(5) by auto
    show "a < b" if "a \<in> insert t old" "b \<in> set ts" for a b
      using that Cons.prems(1,2,6) by (auto simp: order.strict_iff_order)
  qed (use Cons.prems(1,2) in auto)
  ultimately show ?case
    by (auto simp: Let_def)
qed simp

section \<open>Exactness\<close>

definition samples_from :: "int \<Rightarrow> competition_scorer \<Rightarrow> payload_sample list" where
  "samples_from start s = filter (\<lambda>x. start \<le> ps_sim_timestamp_ns x) (concat (map snd (ks_payload_states s)))"

lemma evidence_ordered:
  assumes "evidence_ok s"
  shows "ordered_samples (samples_from start s)"
  unfolding ordered_samples_def
proof
  fix m
  obtain a b c where d: "ks_payload_states s = [(2, a), (3, b), (4, c)]"
    using assms by (auto simp: evidence_ok_def three_payloads_def)
  have ok: "\<forall>x\<in>set a. ps_aruco_id x = 2" "\<forall>x\<in>set b. ps_aruco_id x = 3" "\<forall>x\<in>set c. ps_aruco_id x = 4"
      "sorted (map ps_sim_timestamp_ns a)" "sorted (map ps_sim_timestamp_ns b)" "sorted (map ps_sim_timestamp_ns c)"
    using assms unfolding evidence_ok_def list_all_streams d
    by (auto simp: list_all_iff intro!: strict_sorted_imp_sorted)
  then have "filter (\<lambda>x. ps_aruco_id x = m) (a @ b @ c) =
      (if m = 2 then a else if m = 3 then b else if m = 4 then c else [])"
    by (auto simp: filter_empty_conv filter_id_conv)
  then have "sorted (map ps_sim_timestamp_ns (filter (\<lambda>x. ps_aruco_id x = m) (a @ b @ c)))"
    using ok(4-6) by (simp only:) auto
  then have "sorted (map ps_sim_timestamp_ns (filter (\<lambda>x. start \<le> ps_sim_timestamp_ns x)
      (filter (\<lambda>x. ps_aruco_id x = m) (a @ b @ c))))"
    by (rule sorted_filter)
  then show "sorted (map ps_sim_timestamp_ns (filter (\<lambda>x. ps_aruco_id x = m) (samples_from start s)))"
    by (simp add: samples_from_def d conj_commute)
qed

text \<open>Between two timestamps nothing changes.\<close>

lemma carried_at_between:
  "carried_at samples t = {} \<or> (\<exists>u\<in>ps_sim_timestamp_ns ` set samples. carried_at samples t = carried_at samples u)"
proof (cases "\<exists>x\<in>set samples. ps_sim_timestamp_ns x \<le> t")
  case True
  let ?U = "{u \<in> ps_sim_timestamp_ns ` set samples. u \<le> t}"
  have U: "Max ?U \<in> ?U"
    using True by (intro Max_in) auto
  have "ps_sim_timestamp_ns x \<le> t \<longleftrightarrow> ps_sim_timestamp_ns x \<le> Max ?U" if "x \<in> set samples" for x
  proof
    assume "ps_sim_timestamp_ns x \<le> t"
    with that show "ps_sim_timestamp_ns x \<le> Max ?U"
      by (intro Max_ge) auto
  next
    assume "ps_sim_timestamp_ns x \<le> Max ?U"
    with U show "ps_sim_timestamp_ns x \<le> t" by auto
  qed
  then have "known_at samples m t = known_at samples m (Max ?U)" for m
    unfolding known_at_def by (intro arg_cong [where f = last_of] filter_cong) auto
  then show ?thesis
    using U by (auto simp: carried_at_def)
next
  case False
  then have "filter (\<lambda>x. ps_aruco_id x = m \<and> ps_sim_timestamp_ns x \<le> t) samples = []" for m
    by (auto simp: filter_empty_conv)
  then show ?thesis by (simp add: carried_at_def known_at_def)
qed

text \<open>
  C25. The capacity check is exact. On the evidence of any reachable scorer whose mission was
  started, the check succeeds exactly when at no time, from the start on, the latest samples
  of two payloads say that they are attached.
\<close>

theorem capacity_valid_exact:
  assumes "CompetitionScorer run_id rules = Inr s0" and "s = score_run ops s0"
    and "ks_start_sim_time_ns s = Some start"
  shows "capacity_valid s \<longleftrightarrow> (\<forall>t. card (carried_at (samples_from start s) t) \<le> 1)"
proof -
  let ?xs = "samples_from start s"
  have ok: "evidence_ok s"
    unfolding assms(2) by (rule score_run_ok [OF CompetitionScorer_ok [OF assms(1)]])
  have "capacity_valid s \<longleftrightarrow> (\<forall>t\<in>ps_sim_timestamp_ns ` set ?xs. card (carried_at ?xs t) \<le> 1)"
    using capacity_loop_exact [OF evidence_ordered [OF ok], of "sort (remdups (map ps_sim_timestamp_ns ?xs))" "[]" "{}" start]
    by (simp add: capacity_valid_def assms(3) samples_from_def Let_def)
  also have "\<dots> \<longleftrightarrow> (\<forall>t. card (carried_at ?xs t) \<le> 1)"
    using carried_at_between [of ?xs] by (metis card.empty zero_le)
  finally show ?thesis .
qed

end
