(* ===== verification/Score_Examples.thy ===== *)
theory Score_Examples
  imports Score_Settle Score_Capacity
begin

text \<open>
  A complete flight, sample by sample, and what the properties of the competition scorer say
  about it.
\<close>

section \<open>A flight of seventeen samples\<close>

text \<open>Rules with a sample interval of one nanosecond, and a libm of axis-parallel geometry.\<close>

definition flight_rules :: competition_rules where
  "flight_rules = \<lparr>cr_ruleset_id = ''competition_v1'', cr_scoring_checksum = '''', cr_sample_interval_ns = 1,
     cr_pickup_center_tolerance_m = Fin 1, cr_release_position_tolerance_m = Fin 1,
     cr_release_horizontal_speed_mps = Fin 1, cr_release_stability_ns = 0, cr_payload_settle_ns = 0,
     cr_release_agl_m = Fin 10, cr_deadline_ns = 100, cr_points = official_points\<rparr>"

definition flight_libm :: libm where
  "flight_libm = \<lparr>lm_sqrt = (\<lambda>x. x), lm_hypot = (\<lambda>x y. fadd (fabs x) (fabs y)),
     lm_dist = (\<lambda>p q. fabs (fsub (p ! 0) (q ! 0))), lm_atan2 = (\<lambda>_ _. Fin 0), lm_sin = (\<lambda>_. Fin 0),
     lm_cos = (\<lambda>_. Fin 1), lm_acos = (\<lambda>_. Fin 0), lm_degrees = (\<lambda>x. x)\<rparr>"

definition over :: "waypoint \<Rightarrow> pyfloat \<Rightarrow> pyfloat list" where
  "over w z = (case WAYPOINTS w of (x, y, _, _) \<Rightarrow> [x, y, z])"

definition at_rest :: "pyfloat list" where
  "at_rest = [Fin 0, Fin 0, Fin 0]"

definition upright :: "pyfloat list" where
  "upright = [Fin 0, Fin 0, Fin 0, Fin 1]"

text \<open>
  The vehicle stands on the landing pad at 1, picks payload 3 up at 6 and payload 4 at 10, and
  stands on the home pad from 14 on; otherwise it hovers over the target.
\<close>

definition vehicle_sample :: "int \<Rightarrow> ground_truth_sample" where
  "vehicle_sample t =
     (let w = (if t = 1 then WP_L else if t = 6 then WP_A else if t = 10 then WP_M
               else if 14 \<le> t then WP_H else WP_F2);
          ground = (w \<noteq> WP_F2)
      in \<lparr>gt_run_id = sample_run_id, gt_sim_timestamp_ns = t,
          gt_position_xyz = over w (if ground then Fin 0 else Fin 10), gt_orientation_xyzw = upright,
          gt_linear_velocity_xyz = at_rest, gt_angular_velocity_xyz = at_rest, gt_in_contact = ground\<rparr>)"

text \<open>Payloads 2, 3 and 4 are carried at 0 to 2, at 6 and at 10.\<close>

definition payload_at :: "int \<Rightarrow> int \<Rightarrow> payload_sample" where
  "payload_at m t =
     (let carried = (m = 2 \<and> t \<le> 2 \<or> m = 3 \<and> t = 6 \<or> m = 4 \<and> t = 10);
          w = (if m = 3 \<and> t \<le> 6 then WP_A else if m = 4 \<and> t \<le> 10 then WP_M else WP_F2)
      in \<lparr>ps_run_id = sample_run_id, ps_sim_timestamp_ns = t, ps_aruco_id = m,
          ps_position_xyz = over w (Fin 0), ps_orientation_xyzw = upright,
          ps_linear_velocity_xyz = at_rest, ps_grounded = (\<not> carried), ps_attached = carried\<rparr>)"

definition flight_times :: "int list" where
  "flight_times = [0, 1, 2, 3, 4, 5, 6, 7, 8, 9, 10, 11, 12, 13, 14, 15, 16]"

definition payload_event :: "int \<Rightarrow> int \<Rightarrow> int \<times> string \<times> string \<Rightarrow> payload_event_sample" where
  "payload_event t i e =
     (case e of (m, action, st) \<Rightarrow>
        \<lparr>pv_run_id = sample_run_id, pv_sim_timestamp_ns = t, pv_event_id = i, pv_aruco_id = m,
         pv_command_id = ''command'', pv_action = action, pv_state = st, pv_code = ''OK''\<rparr>)"

definition mission_event :: "int \<Rightarrow> int \<Rightarrow> string \<times> string \<Rightarrow> mission_event_sample" where
  "mission_event t i e =
     (case e of (ph, st) \<Rightarrow>
        \<lparr>me_run_id = sample_run_id, me_sim_timestamp_ns = t, me_event_id = i, me_phase = ph,
         me_state = st, me_detail = ''''\<rparr>)"

definition flight_ops :: "score_op list" where
  "flight_ops =
     map (\<lambda>t. Truth (Some (vehicle_sample t))) flight_times
     @ concat (map (\<lambda>m. map (\<lambda>t. State (Some (payload_at m t))) flight_times) [2, 3, 4])
     @ map (\<lambda>(t, i, e). PayloadEvent (Some (payload_event t i e)))
         (zip [3, 6, 7, 10, 11] (zip [0, 1, 2, 3, 4] PAYLOAD_SEQUENCE))
     @ map (\<lambda>(t, i, e). MissionEvent (Some (mission_event t i e)))
         (zip [0, 1, 2, 4, 5, 8, 9, 12, 13, 15, 16] (zip [0, 1, 2, 3, 4, 5, 6, 7, 8, 9, 10] MISSION_SEQUENCE))"

definition fresh_scorer :: competition_scorer where
  "fresh_scorer = \<lparr>ks_run_id = sample_run_id, ks_rules = flight_rules, ks_start_sim_time_ns = None,
     ks_ground_truth = [], ks_payload_states = [(2, []), (3, []), (4, [])], ks_payload_events = [],
     ks_mission_events = [], ks_diagnostic = None, ks_result = None\<rparr>"

definition flight :: competition_scorer where
  "flight = score_run flight_ops fresh_scorer"


section \<open>Its geometry\<close>

lemma dec4_values:
  "dec4 0 = Fin 0"
  "dec4 45720 = Fin (5147614374084477 / 1125899906842624)"
  "dec4 (- 914400) = Fin (- (1608629491901399 / 17592186044416))"
  "dec4 (- 1524000) = Fin (- (5362098306337997 / 35184372088832))"
  "dec4 9144 = Fin (8236182998535163 / 9007199254740992)"
  "dec4 (- 457200) = Fin (- (1608629491901399 / 35184372088832))"
  "dec4 (- 91440) = Fin (- (5147614374084477 / 562949953421312))"
  "dec4 91440 = Fin (5147614374084477 / 562949953421312)"
  "dec4 60960 = Fin (1715871458028159 / 281474976710656)"
  "dec4 1524 = Fin (5490788665690109 / 36028797018963968)"
  by (simp_all add: dec4_def rounding)

lemmas geometry = dec4_values over_def at_rest_def upright_def flight_libm_def flight_rules_def
  PAYLOAD_XY_SIZE_M_def

lemma landed_L: "is_landed flight_libm flight_rules WP_L (vehicle_sample 1)"
  by (simp add: is_landed_def vehicle_sample_def geometry speed_def sum_squares_def inside_waypoint_def rounding fadd_def fmul_def)

lemma landed_H: "13 \<le> t \<Longrightarrow> is_landed flight_libm flight_rules WP_H (vehicle_sample t) \<longleftrightarrow> 14 \<le> t"
  by (simp add: is_landed_def vehicle_sample_def geometry speed_def sum_squares_def inside_waypoint_def rounding fadd_def fmul_def)

lemma over_target: "t \<in> {3, 7, 11} \<Longrightarrow> release_sample_ok flight_libm flight_rules (vehicle_sample t)"
  by (auto simp: release_sample_ok_def vehicle_sample_def geometry rounding fadd_def)

lemma in_target: "settle_eligible flight_libm flight_rules (payload_at m t)"
  if "(m, t) \<in> {(2, 4), (3, 8), (4, 12)}"
  using that by (auto simp: settle_eligible_def payload_at_def geometry inside_f2_def speed_def sum_squares_def
     yaw_def fquot_def rounding fadd_def fmul_def)

lemma stamps [simp]:
  "gt_sim_timestamp_ns (vehicle_sample t) = t" "gt_run_id (vehicle_sample t) = sample_run_id"
  "ps_sim_timestamp_ns (payload_at m t) = t" "ps_run_id (payload_at m t) = sample_run_id"
  "ps_aruco_id (payload_at m t) = m"
  "pv_sim_timestamp_ns (payload_event t i e) = t" "pv_event_id (payload_event t i e) = i"
  "payload_step (payload_event t i e) = e" "pv_aruco_id (payload_event t i e) = fst e"
  "pv_action (payload_event t i e) = fst (snd e)" "pv_state (payload_event t i e) = snd (snd e)"
  "pv_run_id (payload_event t i e) = sample_run_id" "pv_code (payload_event t i e) = ''OK''"
  "me_sim_timestamp_ns (mission_event t i d) = t" "me_event_id (mission_event t i d) = i"
  "mission_step (mission_event t i d) = d" "me_phase (mission_event t i d) = fst d"
  "me_state (mission_event t i d) = snd d" "me_run_id (mission_event t i d) = sample_run_id"
  by (simp_all add: vehicle_sample_def payload_at_def payload_event_def mission_event_def payload_step_def
      mission_step_def Let_def split: prod.splits)

lemma payload_state [simp]:
  "ps_attached (payload_at m t) \<longleftrightarrow> (m = 2 \<and> t \<le> 2 \<or> m = 3 \<and> t = 6 \<or> m = 4 \<and> t = 10)"
  "ps_grounded (payload_at m t) \<longleftrightarrow> \<not> ps_attached (payload_at m t)"
  by (simp_all add: payload_at_def Let_def)

section \<open>Its evidence\<close>

lemma flight_eq:
  "flight = \<lparr>ks_run_id = sample_run_id, ks_rules = flight_rules, ks_start_sim_time_ns = Some 0,
     ks_ground_truth = map vehicle_sample flight_times,
     ks_payload_states = map (\<lambda>m. (m, map (payload_at m) flight_times)) [2, 3, 4],
     ks_payload_events = map (\<lambda>(t, i, e). payload_event t i e)
         (zip [3, 6, 7, 10, 11] (zip [0, 1, 2, 3, 4] PAYLOAD_SEQUENCE)),
     ks_mission_events = map (\<lambda>(t, i, e). mission_event t i e)
         (zip [0, 1, 2, 4, 5, 8, 9, 12, 13, 15, 16] (zip [0, 1, 2, 3, 4, 5, 6, 7, 8, 9, 10] MISSION_SEQUENCE)),
     ks_diagnostic = None, ks_result = None\<rparr>"
  by (simp add: flight_def score_run_def flight_ops_def fresh_scorer_def flight_times_def PAYLOAD_SEQUENCE_def
     MISSION_SEQUENCE_def accept_defs take_ground_truth_def take_payload_state_def take_payload_event_def
     take_mission_event_def before_start_def last_stamp_def latest_timestamp_gap_def event_discontinuity_def
     start_mission_def ground_truth_gap_def payload_gap_def stream_gap_def states_of_def flight_rules_def)

lemma flight_sel:
  "ks_rules flight = flight_rules" "ks_start_sim_time_ns flight = Some 0" "ks_diagnostic flight = None"
  "ks_result flight = None" "ks_ground_truth flight = map vehicle_sample flight_times"
  "ks_payload_events flight = map (\<lambda>(t, i, e). payload_event t i e)
     (zip [3, 6, 7, 10, 11] (zip [0, 1, 2, 3, 4] PAYLOAD_SEQUENCE))"
  "ks_mission_events flight = map (\<lambda>(t, i, e). mission_event t i e)
     (zip [0, 1, 2, 4, 5, 8, 9, 12, 13, 15, 16] (zip [0, 1, 2, 3, 4, 5, 6, 7, 8, 9, 10] MISSION_SEQUENCE))"
  "states_of 2 flight = map (payload_at 2) flight_times" "states_of 3 flight = map (payload_at 3) flight_times"
  "states_of 4 flight = map (payload_at 4) flight_times"
  "concat (map snd (ks_payload_states flight)) =
     map (payload_at 2) flight_times @ map (payload_at 3) flight_times @ map (payload_at 4) flight_times"
  "cr_sample_interval_ns flight_rules = 1" "cr_release_stability_ns flight_rules = 0"
  "cr_payload_settle_ns flight_rules = 0" "cr_deadline_ns flight_rules = 100" "cr_points flight_rules = official_points"
  by (simp_all add: flight_eq flight_rules_def states_of_def)

section \<open>Its evaluation\<close>

lemma flight_mission:
  "mission_after_start flight = ks_mission_events flight"
  "map mission_step (ks_mission_events flight) = MISSION_SEQUENCE"
  by (simp_all add: mission_after_start_def flight_sel MISSION_SEQUENCE_def)

lemma flight_payload:
  "payload_after_start flight = ks_payload_events flight"
  "map payload_step (ks_payload_events flight) = PAYLOAD_SEQUENCE"
  "list_all (\<lambda>e. pv_code e = ''OK'') (ks_payload_events flight)"
  by (simp_all add: payload_after_start_def flight_sel PAYLOAD_SEQUENCE_def)

lemma flight_prefix: "mission_prefix n flight" "payload_prefix n flight"
  unfolding mission_prefix_def payload_prefix_def flight_mission flight_payload
  using flight_payload(3) by (auto simp: list_all_iff dest: in_set_takeD)

lemma flight_phases:
  "phase_events FM1 flight = Some (mission_event 0 0 (''FM1'', ''STARTED''), mission_event 1 1 (''FM1'', ''COMPLETE''))"
  "phase_events FM2 flight = Some (mission_event 2 2 (''FM2'', ''STARTED''), mission_event 4 3 (''FM2'', ''COMPLETE''))"
  "phase_events FM3_3 flight = Some (mission_event 5 4 (''FM3_3'', ''STARTED''), mission_event 8 5 (''FM3_3'', ''COMPLETE''))"
  "phase_events FM3_4 flight = Some (mission_event 9 6 (''FM3_4'', ''STARTED''), mission_event 12 7 (''FM3_4'', ''COMPLETE''))"
  "phase_events HOME flight = Some (mission_event 13 8 (''HOME'', ''STARTED''), mission_event 16 10 (''HOME'', ''COMPLETE''))"
  "home_events flight = Some (mission_event 13 8 (''HOME'', ''STARTED''), mission_event 15 9 (''HOME'', ''DISARMED''),
     mission_event 16 10 (''HOME'', ''COMPLETE''))"
  by (simp_all add: phase_events_def home_events_def flight_prefix flight_mission(1) flight_sel MISSION_SEQUENCE_def)

lemma flight_vehicle: "t \<in> set flight_times \<Longrightarrow> vehicle_at t flight = Some (vehicle_sample t)"
  by (auto simp: vehicle_at_def flight_sel flight_times_def last_of_def)

lemma flight_vehicles:
  "vehicle_at 1 flight = Some (vehicle_sample 1)" "vehicle_at 6 flight = Some (vehicle_sample 6)"
  "vehicle_at 10 flight = Some (vehicle_sample 10)" "vehicle_at 15 flight = Some (vehicle_sample 15)"
  "vehicle_at 16 flight = Some (vehicle_sample 16)"
  by (simp_all add: flight_vehicle flight_times_def)

lemma flight_home_landing:
  "physical_home_landing flight_libm (mission_event 13 i e) flight = Some 14"
  by (simp add: physical_home_landing_def flight_sel flight_times_def landed_H)

lemma flight_home: "home_landing_timestamp flight_libm flight = Some 14"
  by (simp add: home_landing_timestamp_def flight_phases flight_home_landing landed_at_def flight_vehicles flight_sel landed_H)
    (simp add: flight_times_def landed_H)

lemma flight_boundary: "home_checkpoint_boundary flight_libm flight = Some 14"
  by (simp add: home_checkpoint_boundary_def flight_prefix flight_mission(1))
    (simp add: flight_sel MISSION_SEQUENCE_def flight_home_landing)

lemma flight_landing: "landing flight_libm FM1 WP_L flight"
  by (simp add: landing_def flight_phases flight_vehicles flight_sel landed_L)

lemma flight_events:
  "payload_event_of 2 ''release'' flight = Some (payload_event 3 0 (2, ''release'', ''detached''))"
  "payload_event_of 3 ''attach'' flight = Some (payload_event 6 1 (3, ''attach'', ''attached''))"
  "payload_event_of 3 ''release'' flight = Some (payload_event 7 2 (3, ''release'', ''detached''))"
  "payload_event_of 4 ''attach'' flight = Some (payload_event 10 3 (4, ''attach'', ''attached''))"
  "payload_event_of 4 ''release'' flight = Some (payload_event 11 4 (4, ''release'', ''detached''))"
  by (simp_all add: payload_event_of_def flight_payload(1) flight_sel PAYLOAD_SEQUENCE_def)

lemma flight_gate:
  "release_gate flight_libm (payload_event 3 i e) flight" "release_gate flight_libm (payload_event 7 i e) flight"
  "release_gate flight_libm (payload_event 11 i e) flight"
  by (simp_all add: release_gate_def flight_sel flight_times_def over_target del: One_nat_def)

lemma flight_release:
  "physical_release 2 (payload_event 3 i e) flight"
  "physical_release 3 (payload_event 7 i e) flight"
  "physical_release 4 (payload_event 11 i e) flight"
  by (simp_all add: physical_release_def state_before_def flight_sel soon_after_def last_of_def flight_times_def)

lemma flight_settled:
  "settled_timestamp flight_libm 2 (payload_event 3 i e) flight = Some 4"
  "settled_timestamp flight_libm 3 (payload_event 7 i e) flight = Some 8"
  "settled_timestamp flight_libm 4 (payload_event 11 i e) flight = Some 12"
  by (simp_all add: settled_timestamp_def flight_sel flight_times_def in_target)

lemma pickup_places:
  "inside_waypoint (ps_position_xyz (payload_at 3 6)) WP_A"
  "inside_waypoint (ps_position_xyz (payload_at 4 10)) WP_M"
  by (simp_all add: inside_waypoint_def payload_at_def geometry rounding)

lemma pickup_distances:
  "fle (lm_hypot flight_libm (fsub (ps_position_xyz (payload_at 3 6) ! 0) (gt_position_xyz (vehicle_sample 6) ! 0))
     (fsub (ps_position_xyz (payload_at 3 6) ! 1) (gt_position_xyz (vehicle_sample 6) ! 1)))
     (cr_pickup_center_tolerance_m flight_rules)"
  "fle (lm_hypot flight_libm (fsub (ps_position_xyz (payload_at 4 10) ! 0) (gt_position_xyz (vehicle_sample 10) ! 0))
     (fsub (ps_position_xyz (payload_at 4 10) ! 1) (gt_position_xyz (vehicle_sample 10) ! 1)))
     (cr_pickup_center_tolerance_m flight_rules)"
  "fle (lm_dist flight_libm (ps_position_xyz (payload_at 3 6)) (ps_position_xyz (payload_at 3 5)))
     (cr_pickup_center_tolerance_m flight_rules)"
  "fle (lm_dist flight_libm (ps_position_xyz (payload_at 4 10)) (ps_position_xyz (payload_at 4 9)))
     (cr_pickup_center_tolerance_m flight_rules)"
  by (simp_all add: payload_at_def vehicle_sample_def geometry rounding fadd_def)

lemma pickup_contacts: "gt_in_contact (vehicle_sample 6)" "gt_in_contact (vehicle_sample 10)"
  by (simp_all add: vehicle_sample_def)

lemma flight_attach:
  "physical_attach flight_libm 3 (payload_event 6 i e) flight"
  "physical_attach flight_libm 4 (payload_event 10 i e) flight"
  unfolding physical_attach_def flight_sel
  by (simp_all add: flight_sel soon_after_def flight_times_def flight_vehicles PICKUP_WAYPOINT_def
      pickup_places pickup_distances [simplified] pickup_contacts Let_def)

lemma flight_capacity_loop:
  assumes "set ts \<subseteq> set flight_times" "dict_keys latest \<in> {[], [2, 3, 4]}"
  shows "capacity_loop (concat (map snd (ks_payload_states flight))) latest ts"
  using assms
proof (induction ts arbitrary: latest)
  case (Cons t ts)
  have "filter (\<lambda>x. ps_sim_timestamp_ns x = t) (concat (map snd (ks_payload_states flight)))
      = [payload_at 2 t, payload_at 3 t, payload_at 4 t]"
    using Cons.prems(1) by (auto simp: flight_sel flight_times_def)
  moreover have "foldl (\<lambda>d x. AList.update (ps_aruco_id x) x d) latest [payload_at 2 t, payload_at 3 t, payload_at 4 t]
      = [(2, payload_at 2 t), (3, payload_at 3 t), (4, payload_at 4 t)]"
    using Cons.prems(2) by auto
  ultimately show ?case
    using Cons by (auto simp: attached_count_def)
qed simp

lemma flight_capacity: "capacity_valid flight"
proof -
  have "filter (\<lambda>x. 0 \<le> ps_sim_timestamp_ns x) (concat (map snd (ks_payload_states flight)))
      = concat (map snd (ks_payload_states flight))"
    by (simp add: flight_sel flight_times_def)
  then show ?thesis
    unfolding capacity_valid_def flight_sel(2) Let_def option.case
    by (simp only:) (rule flight_capacity_loop, auto simp: flight_sel(11))
qed

lemma flight_attach_valid:
  "attach_valid flight_libm 3 (mission_event 5 4 d) (payload_event 7 i e) flight"
  "attach_valid flight_libm 4 (mission_event 9 6 d) (payload_event 11 i e) flight"
  by (simp_all add: attach_valid_def flight_events flight_attach)

lemma flight_boundaries: "attach_boundary 3 flight = Some 6" "attach_boundary 4 flight = Some 10"
  by (simp_all add: attach_boundary_def flight_events)

lemma flight_outcomes: "rule_outcomes flight_libm flight = replicate 7 True"
  by (simp add: rule_outcomes_def delivery_def flight_boundaries flight_boundary flight_phases flight_events
      flight_prefix flight_gate flight_release flight_settled flight_attach_valid flight_landing flight_capacity
      numeral_eq_Suc)

lemma flight_valid: "mission_valid flight" "payload_valid flight" "deadline_valid flight"
    "all_settlements_valid flight_libm flight"
  by (simp_all only: mission_valid_def payload_valid_def flight_mission flight_payload simp_thms)
    (simp_all add: deadline_valid_def flight_phases flight_sel all_settlements_valid_def settlement_order_valid_def
      flight_boundaries flight_boundary flight_events flight_settled)

lemma flight_evaluate: "competition_evaluate flight_libm flight = (replicate 7 True, True, None)"
  by (simp add: competition_evaluate_def flight_sel(2,3) flight_outcomes flight_valid flight_capacity flight_home
      flight_phases)

definition flight_result :: score_result where
  "flight_result = projr (fst (competition_finalize flight_libm flight))"

lemma flight_finalize:
  "competition_finalize flight_libm flight = (Inr flight_result, flight\<lparr>ks_result := Some flight_result\<rparr>)"
  by (simp add: flight_result_def competition_finalize_def flight_evaluate flight_sel Let_def official_points_def)

lemma flight_passed: "map ru_passed (sr_rule_results flight_result) = replicate 7 True"
  by (simp add: flight_result_def competition_finalize_def flight_evaluate flight_sel Let_def official_points_def
      passed_rule_results competition_rule_ids_def)

lemma flight_complete: "sr_complete flight_result"
  by (simp add: flight_result_def competition_finalize_def flight_evaluate flight_sel Let_def official_points_def)

lemma flight_reached:
  "CompetitionScorer (VStr sample_run_id) (Some flight_rules) = Inr fresh_scorer"
  by (simp add: CompetitionScorer_def canonical_run_id_def fresh_scorer_def)

section \<open>What the properties say of it\<close>

lemma awards_form_a_chain_witness: "sr_achieved_score flight_result = Fin 150"
proof -
  obtain n where n: "n \<le> 7" "replicate 7 True = first_rules n"
      "sr_achieved_score flight_result = Fin (of_int (award_totals ! n))"
    using awards_form_a_chain [OF flight_finalize] unfolding flight_passed by (auto simp: flight_sel)
  then have "n = 7"
    by (cases rule: at_most_seven [OF n(1)]) (simp_all add: first_rules_def numeral_eq_Suc)
  then show ?thesis
    using n(3) by (simp add: award_totals_def)
qed

lemma complete_flight_sound_witness: "home_flight flight_libm flight 0"
  using complete_flight_sound [OF flight_finalize] by (simp add: flight_sel flight_complete)

lemma settled_timestamp_exact_witness:
  "map_option (\<lambda>j. ps_sim_timestamp_ns (samples_after (payload_event 3 0 (2, ''release'', ''detached''))
      (states_of 2 flight) ! j))
    (first_index (\<lambda>j _. settles (settle_eligible flight_libm flight_rules) 1 0
       (samples_after (payload_event 3 0 (2, ''release'', ''detached'')) (states_of 2 flight)) j) 0
       (samples_after (payload_event 3 0 (2, ''release'', ''detached'')) (states_of 2 flight))) = Some 4"
  using settled_timestamp_exact [of flight flight_libm 2 "payload_event 3 0 (2, ''release'', ''detached'')"]
  unfolding flight_settled by (simp add: flight_sel(1,12,14) Let_def)

lemma awards_are_physical_witness: "physically_delivered flight_libm 3 FM3_3 (Some 10) flight"
  using awards_are_physical [OF flight_finalize _ _ refl]
  by (simp add: flight_sel(1,4,12) flight_passed flight_boundaries del: replicate.simps)

lemma evidence_gap_free_witness:
  "list_all increasing (streams flight) \<and> list_all (on_grid 1 (Some 0)) (streams flight)"
  using evidence_gap_free [OF flight_reached flight_def] by (simp add: flight_sel(1-3,12))

lemma finalized_score_is_final_witness:
  "score_run [Fail (VStr ''late''), Truth (Some (vehicle_sample 17))] (flight\<lparr>ks_result := Some flight_result\<rparr>)
    = flight\<lparr>ks_result := Some flight_result\<rparr>"
  using finalized_score_is_final [OF flight_finalize] by blast

lemma capacity_valid_exact_witness: "\<forall>t. card (carried_at (samples_from 0 flight) t) \<le> 1"
  using capacity_valid_exact [OF flight_reached flight_def flight_sel(2)] flight_capacity by blast

end
