(* ===== verification/Score_Finalizer.thy ===== *)
theory Score_Finalizer
  imports Score_Awards Py_IO
begin

text \<open>
  Finalization of a score: \<open>persist\_score\_outputs\<close> of \<open>scorekeeper/output.py\<close> and
  \<open>\_ScoreFinalizer\<close> of \<open>scorekeeper/\_finalization.py\<close>.

  The two output files are part of the state. Everything else the code does to the outside, and
  every system call on the files, is an action; the log lists the actions in order, and
  \<open>env\<close> decides from the log so far whether the next one raises. \<open>encode\<close> is the line
  \<open>json.dumps\<close> gives for a document, as UTF-8 bytes. A file that was created and not known
  to be written to its end is \<open>Partial\<close>.
\<close>

section \<open>Outside\<close>

datatype score_file = EventsFile | ResultFile

datatype file_content = Partial | Full string

datatype score_action =
    MakeScoring
  | CheckFile score_file
  | CreateFile score_file
  | WriteFile score_file string
  | FlushFile score_file
  | SyncFile score_file
  | CloseFile score_file
  | OpenScoring
  | SyncScoring
  | CloseScoring
  | Publish score_event
  | Flush
  | WriteStatus runtime_status
  | WriteQuiescence string

type_synonym score_env = "score_action list \<Rightarrow> score_action \<Rightarrow> exn option"

record 'k finalizer =
  fi_scorer :: 'k
  fi_result :: "score_result option"
  fi_failure_written :: bool
  fi_quiescent :: bool
  fi_files :: "score_file \<Rightarrow> file_content option"
  fi_log :: "score_action list"

definition ScoreFinalizer :: "'k \<Rightarrow> (score_file \<Rightarrow> file_content option) \<Rightarrow> 'k finalizer" where
  "ScoreFinalizer scorer files =
     \<lparr>fi_scorer = scorer, fi_result = None, fi_failure_written = False, fi_quiescent = False,
      fi_files = files, fi_log = []\<rparr>"

definition act :: "score_env \<Rightarrow> score_action \<Rightarrow> ('k finalizer, unit) io" where
  "act env a = (\<lambda>s.
     (case env (fi_log s) a of Some x \<Rightarrow> Inl x | None \<Rightarrow> Inr (), s\<lparr>fi_log := fi_log s @ [a]\<rparr>))"

text \<open>A computation that touches no state, and one on the scorer alone.\<close>

definition pure_call :: "'a result \<Rightarrow> ('k finalizer, 'a) io" where
  "pure_call r = (\<lambda>s. (r, s))"

definition scorer_call :: "('k \<Rightarrow> 'a result \<times> 'k) \<Rightarrow> ('k finalizer, 'a) io" where
  "scorer_call f = (\<lambda>s. case f (fi_scorer s) of (r, k) \<Rightarrow> (r, s\<lparr>fi_scorer := k\<rparr>))"

section \<open>Persistence\<close>

definition set_file :: "score_file \<Rightarrow> file_content \<Rightarrow> ('k finalizer, unit) io" where
  "set_file f c = imodify (\<lambda>s. s\<lparr>fi_files := (fi_files s)(f := Some c)\<rparr>)"

definition require_absent :: "score_env \<Rightarrow> score_file \<Rightarrow> ('k finalizer, unit) io" where
  "require_absent env f =
     ibind (act env (CheckFile f)) (\<lambda>_.
     ibind (iget (\<lambda>s. fi_files s f)) (\<lambda>file.
       if file \<noteq> None then iraise FileExistsError else ireturn ()))"

text \<open>The exclusive creation fails when the file exists.\<close>

definition write_new :: "score_env \<Rightarrow> score_file \<Rightarrow> string \<Rightarrow> ('k finalizer, unit) io" where
  "write_new env f payload =
     ibind (iget (\<lambda>s. fi_files s f)) (\<lambda>file.
       if file \<noteq> None then iraise FileExistsError
       else
         ibind (act env (CreateFile f)) (\<lambda>_.
         ibind (set_file f Partial) (\<lambda>_.
           ifinally
             (ibind (act env (WriteFile f payload)) (\<lambda>_.
              ibind (act env (FlushFile f)) (\<lambda>_.
              ibind (set_file f (Full payload)) (\<lambda>_.
                act env (SyncFile f)))))
             (act env (CloseFile f)))))"

definition sync_scoring :: "score_env \<Rightarrow> ('k finalizer, unit) io" where
  "sync_scoring env =
     ibind (act env OpenScoring) (\<lambda>_. ifinally (act env SyncScoring) (act env CloseScoring))"

definition persist_score_outputs ::
  "(pyval \<Rightarrow> string result) \<Rightarrow> score_env \<Rightarrow> score_result \<Rightarrow> ('k finalizer, unit) io" where
  "persist_score_outputs encode env r =
     ibind (act env MakeScoring) (\<lambda>_.
     ibind (require_absent env EventsFile) (\<lambda>_.
     ibind (require_absent env ResultFile) (\<lambda>_.
     ibind (pure_call (each (\<lambda>e. encode (event_to_document e)) (sr_events r))) (\<lambda>lines.
     ibind (write_new env EventsFile (concat lines)) (\<lambda>_.
       ifinally
         (ibind (pure_call (encode (result_document r))) (\<lambda>line. write_new env ResultFile line))
         (sync_scoring env))))))"

section \<open>The finalizer\<close>

text \<open>The operations of the scorer the finalizer uses.\<close>

record 'k scorer_ops =
  so_run_id :: "'k \<Rightarrow> string"
  so_last_sim_timestamp_ns :: "'k \<Rightarrow> int option"
  so_fail :: "pyval \<Rightarrow> 'k \<Rightarrow> unit result \<times> 'k"
  so_finalize :: "'k \<Rightarrow> score_result result \<times> 'k"

definition finalizer_fail :: "'k scorer_ops \<Rightarrow> pyval \<Rightarrow> ('k finalizer, unit) io" where
  "finalizer_fail so reason =
     (if nonempty_text reason = None then iraise (ValueError ''failure reason must be nonempty'')
      else
        ibind (iget (\<lambda>s. fi_quiescent s \<or> fi_result s \<noteq> None)) (\<lambda>closed.
          if closed then ireturn () else scorer_call (so_fail so reason)))"

fun publish_events :: "score_env \<Rightarrow> score_event list \<Rightarrow> ('k finalizer, unit) io" where
  "publish_events env [] = ireturn ()"
| "publish_events env (e # es) = ibind (act env (Publish e)) (\<lambda>_. publish_events env es)"

text \<open>A status is checked when it is built; then the protocol writes it.\<close>

definition write_status :: "score_env \<Rightarrow> runtime_status \<Rightarrow> ('k finalizer, unit) io" where
  "write_status env st = ibind (pure_call (status_post_init st)) (\<lambda>_. act env (WriteStatus st))"

definition score_finished :: "string \<Rightarrow> score_result \<Rightarrow> runtime_status" where
  "score_finished run_id r =
     \<lparr>rs_type = ScoreFinishedStatus, rs_run_id = VStr run_id,
      rs_fields = [FieldVal (VInt (ev_sim_timestamp_ns (last (sr_events r))))]\<rparr>"

definition score_failed :: "string \<Rightarrow> score_result \<Rightarrow> runtime_status" where
  "score_failed run_id r =
     \<lparr>rs_type = RuntimeFailureStatus, rs_run_id = VStr run_id,
      rs_fields = [FieldVal (VStr ''scorekeeper''),
        FieldVal (VStr (case sr_diagnostic r of
            Some d \<Rightarrow> if d = [] then ''score_incomplete'' else d
          | None \<Rightarrow> ''score_incomplete'')),
        FieldVal (VTuple [VStr ''scoring/events.jsonl'', VStr ''scoring/result.json''])]\<rparr>"

definition report :: "'k scorer_ops \<Rightarrow> score_env \<Rightarrow> score_result \<Rightarrow> ('k finalizer, unit) io" where
  "report so env r =
     ibind (iget (\<lambda>s. so_run_id so (fi_scorer s))) (\<lambda>run_id.
       if sr_complete r then
         ibind (pure_call (finished_status r)) (\<lambda>_. write_status env (score_finished run_id r))
       else
         ibind (iget fi_failure_written) (\<lambda>written.
           if written then ireturn ()
           else ibind (write_status env (score_failed run_id r)) (\<lambda>_.
                  imodify (\<lambda>s. s\<lparr>fi_failure_written := True\<rparr>))))"

definition finalizer_finalize :: "'k scorer_ops \<Rightarrow> (pyval \<Rightarrow> string result) \<Rightarrow> score_env \<Rightarrow> int option
    \<Rightarrow> ('k finalizer, score_result) io" where
  "finalizer_finalize so encode env source_ns =
     ibind (iget fi_result) (\<lambda>earlier.
       case earlier of
         Some r \<Rightarrow> ireturn r
       | None \<Rightarrow>
           ibind (iget (\<lambda>s. source_ns \<noteq> None \<and> so_last_sim_timestamp_ns so (fi_scorer s) \<noteq> source_ns))
             (\<lambda>mismatch.
           ibind (if mismatch then scorer_call (so_fail so (VStr ''source_finished_timestamp_mismatch''))
                  else ireturn ()) (\<lambda>_.
           ibind (scorer_call (so_finalize so)) (\<lambda>r.
           ibind (persist_score_outputs encode env r) (\<lambda>_.
           ibind (publish_events env (sr_events r)) (\<lambda>_.
           ibind (act env Flush) (\<lambda>_.
           ibind (report so env r) (\<lambda>_.
           ibind (imodify (\<lambda>s. s\<lparr>fi_result := Some r\<rparr>)) (\<lambda>_. ireturn r)))))))))"

definition finalizer_quiesce ::
  "'k scorer_ops \<Rightarrow> (pyval \<Rightarrow> string result) \<Rightarrow> score_env \<Rightarrow> ('k finalizer, unit) io" where
  "finalizer_quiesce so encode env =
     ibind (iget fi_quiescent) (\<lambda>quiescent.
       if quiescent then ireturn ()
       else
         ibind (finalizer_finalize so encode env None) (\<lambda>_.
         ibind (imodify (\<lambda>s. s\<lparr>fi_quiescent := True\<rparr>)) (\<lambda>_.
           act env (WriteQuiescence ''scorekeeper''))))"

end
