(* ===== verification/Score_Report.thy ===== *)
theory Score_Report
  imports Score_Finalizer "HOL-Library.Sublist"
begin

text \<open>
  What the finalization of a score does to the outside, for any scorer that keeps the contract
  \<open>scorer\_contract\<close>: the files are never replaced, and what is published and reported is a
  prefix of one fixed sequence.
\<close>

section \<open>The visible log\<close>

fun visible :: "score_action \<Rightarrow> bool" where
  "visible (Publish e) = True"
| "visible Flush = True"
| "visible (WriteStatus st) = True"
| "visible (WriteQuiescence name) = True"
| "visible _ = False"

definition score_status :: "string \<Rightarrow> score_result \<Rightarrow> runtime_status" where
  "score_status run_id r = (if sr_complete r then score_finished run_id r else score_failed run_id r)"

text \<open>What one score is to be reported with, up to the status and up to the end.\<close>

definition report_log :: "string \<Rightarrow> score_result \<Rightarrow> score_action list" where
  "report_log run_id r = map Publish (sr_events r) @ [Flush, WriteStatus (score_status run_id r)]"

definition stored :: "(pyval \<Rightarrow> string result) \<Rightarrow> score_result
    \<Rightarrow> (score_file \<Rightarrow> file_content option) \<Rightarrow> bool" where
  "stored encode r files \<longleftrightarrow>
     (\<exists>lines line. each (\<lambda>e. encode (event_to_document e)) (sr_events r) = Inr lines
        \<and> encode (result_document r) = Inr line
        \<and> files EventsFile = Some (Full (concat lines)) \<and> files ResultFile = Some (Full line))"

text \<open>A later state of the same finalizer, with more storage actions and no file replaced.\<close>

definition later :: "'k finalizer \<Rightarrow> 'k finalizer \<Rightarrow> bool" where
  "later s t \<longleftrightarrow> (\<exists>files log. t = s\<lparr>fi_files := files, fi_log := fi_log s @ log\<rparr>
     \<and> filter visible log = [] \<and> (\<forall>f c. fi_files s f = Some c \<longrightarrow> files f = Some c))"

lemma later_refl [simp]: "later s s"
  unfolding later_def by (intro exI [of _ "fi_files s"] exI [of _ "[]"]) simp

lemma later_trans: "later a b \<Longrightarrow> later b c \<Longrightarrow> later a c"
  unfolding later_def by (elim exE conjE) (force intro!: exI)

lemma later_sel:
  assumes "later s t"
  shows "fi_scorer t = fi_scorer s" "fi_result t = fi_result s" "fi_failure_written t = fi_failure_written s"
    "fi_quiescent t = fi_quiescent s" "filter visible (fi_log t) = filter visible (fi_log s)"
    "fi_files s f = Some c \<Longrightarrow> fi_files t f = Some c"
  using assms by (auto simp: later_def)

section \<open>Persistence\<close>

lemma wp_act:
  "wp (act env a) Q E s \<longleftrightarrow>
     (case env (fi_log s) a of Some x \<Rightarrow> E x (s\<lparr>fi_log := fi_log s @ [a]\<rparr>)
      | None \<Rightarrow> Q () (s\<lparr>fi_log := fi_log s @ [a]\<rparr>))"
  by (simp add: wp_def act_def split: option.splits)

lemma wp_pure_call: "wp (pure_call r) Q E s \<longleftrightarrow> (case r of Inl x \<Rightarrow> E x s | Inr y \<Rightarrow> Q y s)"
  by (simp add: wp_def pure_call_def)

lemma wp_scorer_call:
  "wp (scorer_call f) Q E s \<longleftrightarrow>
     (case f (fi_scorer s) of
        (Inl x, k) \<Rightarrow> E x (s\<lparr>fi_scorer := k\<rparr>) | (Inr y, k) \<Rightarrow> Q y (s\<lparr>fi_scorer := k\<rparr>))"
  by (simp add: wp_def scorer_call_def split: prod.splits sum.splits)

text \<open>A storage action, and the rules for one after another.\<close>

lemma later_act: "later s t \<Longrightarrow> \<not> visible a \<Longrightarrow> later s (t\<lparr>fi_log := fi_log t @ [a]\<rparr>)"
  by (rule later_trans) (auto simp: later_def intro!: exI [of _ "[a]"])

lemma wp_storage:
  assumes "\<not> visible a" "later s t" "\<And>t'. later s t' \<Longrightarrow> fi_files t' = fi_files t \<Longrightarrow> Q () t'"
    and "\<And>x t'. later s t' \<Longrightarrow> fi_files t' = fi_files t \<Longrightarrow> E x t'"
  shows "wp (act env a) Q E t"
  using later_act [OF assms(2,1)] assms(3,4) by (simp add: wp_act split: option.splits)

lemma later_set_file:
  assumes "later s t" "fi_files s f = None"
  shows "later s (t\<lparr>fi_files := (fi_files t)(f := Some c)\<rparr>)"
proof -
  obtain files log where t: "t = s\<lparr>fi_files := files, fi_log := fi_log s @ log\<rparr>" "filter visible log = []"
      "\<forall>f c. fi_files s f = Some c \<longrightarrow> files f = Some c"
    using assms(1) by (auto simp: later_def)
  show ?thesis
    unfolding later_def using t assms(2) by (intro exI [of _ "files(f := Some c)"] exI [of _ log]) auto
qed

lemma write_new_spec:
  "wp (write_new env f payload)
     (\<lambda>_ t. later s t \<and> fi_files s f = None \<and> fi_files t = (fi_files s)(f := Some (Full payload)))
     (\<lambda>_. later s) s"
proof (cases "fi_files s f")
  case None
  have set: "wp (set_file f c) Q E t"
    if "later s t" "\<And>t'. later s t' \<Longrightarrow> fi_files t' = (fi_files t)(f := Some c) \<Longrightarrow> Q () t'" for c Q E t
    using later_set_file [OF that(1) None] that(2) by (simp add: set_file_def)
  show ?thesis
    using None unfolding write_new_def wp_ibind wp_iget wp_ifinally wp_if
    by (auto intro!: wp_storage [where s = s] set)
qed (simp add: write_new_def)

lemma require_absent_spec:
  "wp (require_absent env f) (\<lambda>_ t. later s t \<and> fi_files s f = None \<and> fi_files t = fi_files s) (\<lambda>_. later s) s"
  unfolding require_absent_def wp_ibind by (rule wp_storage [where s = s]) auto

lemma sync_scoring_spec:
  "wp (sync_scoring env) (\<lambda>_ t. later s t \<and> fi_files t = fi_files s) (\<lambda>_. later s) s"
  unfolding sync_scoring_def wp_ibind wp_ifinally by (auto intro!: wp_storage [where s = s])

text \<open>One of these computations after others.\<close>

lemma wp_later:
  assumes "wp m R (\<lambda>_. later t) t" "later s t"
    and "\<And>x u. R x u \<Longrightarrow> Q x u" "\<And>e u. later s u \<Longrightarrow> E e u"
  shows "wp m Q E t"
  using assms(1) by (rule wp_mono) (use assms(2-4) later_trans in blast)+

lemma persist_spec:
  "wp (persist_score_outputs encode env r)
     (\<lambda>_ t. later s t \<and> fi_files s EventsFile = None \<and> stored encode r (fi_files t)) (\<lambda>_. later s) s"
proof -
  have sync: "wp (sync_scoring env) (\<lambda>_ t'. later s t' \<and> P (fi_files t')) (\<lambda>_. later s) t"
    if "later s t" "P (fi_files t)" for t P
    using that later_trans by (intro wp_later [OF sync_scoring_spec that(1)]) auto
  have result: "wp (ifinally (ibind (pure_call (encode (result_document r))) (write_new env ResultFile)) (sync_scoring env))
      (\<lambda>_ t'. later s t' \<and> stored encode r (fi_files t')) (\<lambda>_. later s) t"
    if t: "later s t" "fi_files t EventsFile = Some (Full (concat lines))"
      and lines: "each (\<lambda>e. encode (event_to_document e)) (sr_events r) = Inr lines" for t lines
  proof (cases "encode (result_document r)")
    case (Inl x)
    then show ?thesis
      using sync [OF t(1), of "\<lambda>_. True"] by (auto simp: wp_pure_call intro: wp_mono)
  next
    case (Inr line)
    have "wp (write_new env ResultFile line)
        (\<lambda>_ u. later s u \<and> stored encode r (fi_files u)) (\<lambda>_. later s) t"
      using t lines Inr later_trans [OF t(1)]
      by (intro wp_later [OF write_new_spec t(1)]) (auto simp: stored_def)
    then show ?thesis
      using sync [where P = "\<lambda>_. True"] sync [where P = "stored encode r"] Inr
      by (auto simp: wp_pure_call intro: wp_mono)
  qed
  have events: "wp (write_new env EventsFile (concat lines)) (\<lambda>_. wp
        (ifinally (ibind (pure_call (encode (result_document r))) (write_new env ResultFile)) (sync_scoring env))
        (\<lambda>_ t'. later s t' \<and> stored encode r (fi_files t')) (\<lambda>_. later s))
      (\<lambda>_. later s) t"
    if "later s t" "fi_files t = fi_files s" "fi_files s EventsFile = None"
      and lines: "each (\<lambda>e. encode (event_to_document e)) (sr_events r) = Inr lines" for t lines
    using that(3) result [OF later_trans [OF that(1)] _ lines]
    by (intro wp_later [OF write_new_spec that(1)]) auto
  have absent: "wp (require_absent env f) Q (\<lambda>_. later s) t"
    if "later s t" "\<And>u. later s u \<Longrightarrow> fi_files t f = None \<Longrightarrow> fi_files u = fi_files t \<Longrightarrow> Q () u" for f Q t
    using that later_trans by (intro wp_later [OF require_absent_spec that(1)]) auto
  show ?thesis
    unfolding persist_score_outputs_def
    by (simp only: wp_ibind [of "act env MakeScoring"] wp_ibind [of "require_absent env _"]
        wp_ibind [of "pure_call _"] wp_ibind [of "write_new env EventsFile _"])
      (auto simp: wp_pure_call simp del: wp_ibind wp_ifinally intro!: wp_storage [where s = s] absent events
        split: sum.splits)
qed

section \<open>The contract of a scorer\<close>

text \<open>
  A scorer keeps its run and, once it has returned a result, returns it again without a change
  and refuses failures.
\<close>

locale scorer_contract =
  fixes so :: "'k scorer_ops"
    and settled :: "'k \<Rightarrow> score_result option"
  assumes finalize_returns: "so_finalize so k = (Inr r, k') \<Longrightarrow> settled k' = Some r"
    and finalize_again: "settled k = Some r \<Longrightarrow> so_finalize so k = (Inr r, k)"
    and fail_settled: "settled k = Some r \<Longrightarrow> isl (fst (so_fail so x k)) \<and> snd (so_fail so x k) = k"
    and run_kept: "so_run_id so (snd (so_finalize so k)) = so_run_id so k"
      "so_run_id so (snd (so_fail so x k)) = so_run_id so k"

text \<open>
  Before the first visible action nothing was reported; afterwards the visible log is a prefix of
  the report of the scorer's result, whose files are stored.
\<close>

definition finalizer_inv :: "('k \<Rightarrow> string) \<Rightarrow> ('k \<Rightarrow> score_result option) \<Rightarrow> (pyval \<Rightarrow> string result)
    \<Rightarrow> 'k finalizer \<Rightarrow> bool" where
  "finalizer_inv run_id settled encode s \<longleftrightarrow>
     filter visible (fi_log s) = [] \<and> fi_result s = None \<and> \<not> fi_quiescent s \<and> \<not> fi_failure_written s
     \<or> (\<exists>r. settled (fi_scorer s) = Some r \<and> stored encode r (fi_files s)
        \<and> (if fi_result s = None
           then \<not> fi_quiescent s \<and> prefix (filter visible (fi_log s)) (report_log (run_id (fi_scorer s)) r)
           else fi_result s = Some r
             \<and> filter visible (fi_log s) = report_log (run_id (fi_scorer s)) r
                 @ (if fi_quiescent s then [WriteQuiescence ''scorekeeper''] else [])))"

lemma stored_later: "stored encode r (fi_files s) \<Longrightarrow> later s t \<Longrightarrow> stored encode r (fi_files t)"
  unfolding stored_def using later_sel(6) by metis

lemma finalizer_inv_later:
  "finalizer_inv run_id settled encode s \<Longrightarrow> later s t \<Longrightarrow> finalizer_inv run_id settled encode t"
  using stored_later [of encode _ s t] unfolding finalizer_inv_def
  by (elim disjE exE conjE) (auto simp: later_sel(1-5))

text \<open>A state in the middle of the report, after the visible actions \<open>xs\<close>.\<close>

definition reporting :: "('k \<Rightarrow> string) \<Rightarrow> ('k \<Rightarrow> score_result option) \<Rightarrow> (pyval \<Rightarrow> string result)
    \<Rightarrow> string \<Rightarrow> score_result \<Rightarrow> score_action list \<Rightarrow> 'k finalizer \<Rightarrow> bool" where
  "reporting run_id settled encode rid r xs s \<longleftrightarrow>
     run_id (fi_scorer s) = rid \<and> settled (fi_scorer s) = Some r \<and> stored encode r (fi_files s) \<and> fi_result s = None
     \<and> \<not> fi_quiescent s \<and> \<not> fi_failure_written s \<and> filter visible (fi_log s) = xs"

lemma reporting_inv:
  "reporting run_id settled encode rid r xs s \<Longrightarrow> prefix xs (report_log rid r)
    \<Longrightarrow> finalizer_inv run_id settled encode s"
  by (auto simp: reporting_def finalizer_inv_def)

lemma wp_visible:
  assumes "reporting run_id settled encode rid r xs s" "visible a"
    and "\<And>t. reporting run_id settled encode rid r (xs @ [a]) t \<Longrightarrow> Q () t"
    and "\<And>e t. reporting run_id settled encode rid r (xs @ [a]) t \<Longrightarrow> E e t"
  shows "wp (act env a) Q E s"
  using assms by (auto simp: wp_act reporting_def split: option.splits)

lemma wp_publish:
  assumes "reporting run_id settled encode rid r xs s" "prefix (xs @ map Publish es) (report_log rid r)"
    and "\<And>t. reporting run_id settled encode rid r (xs @ map Publish es) t \<Longrightarrow> Q () t"
    and "\<And>e t. finalizer_inv run_id settled encode t \<Longrightarrow> E e t"
  shows "wp (publish_events env es) Q E s"
  using assms(1,2,3)
proof (induction es arbitrary: xs s)
  case (Cons e es)
  have p: "prefix (xs @ [Publish e]) (report_log rid r)"
    using Cons.prems(2) by (auto simp: prefix_def)
  show ?case
    unfolding publish_events.simps wp_ibind
  proof (rule wp_visible [OF Cons.prems(1)])
    show "wp (publish_events env es) Q E t"
      if "reporting run_id settled encode rid r (xs @ [Publish e]) t" for t
      using Cons.prems by (intro Cons.IH [OF that]) simp_all
    show "E x t" if "reporting run_id settled encode rid r (xs @ [Publish e]) t" for x t
      by (rule assms(4) [OF reporting_inv [OF that p]])
  qed simp
qed simp

lemma wp_report:
  assumes "reporting (so_run_id so) settled encode rid r (map Publish (sr_events r) @ [Flush]) s"
    and "\<And>t fw. reporting (so_run_id so) settled encode rid r (report_log rid r) t
        \<Longrightarrow> Q () (t\<lparr>fi_failure_written := fw\<rparr>)"
    and "\<And>e t. finalizer_inv (so_run_id so) settled encode t \<Longrightarrow> E e t"
  shows "wp (report so env r) Q E s"
proof -
  have s: "so_run_id so (fi_scorer s) = rid" "\<not> fi_failure_written s"
    using assms(1) by (auto simp: reporting_def)
  have e: "E e s" for e
    using reporting_inv [OF assms(1)] assms(3) by (simp add: report_log_def prefix_def)
  have w: "wp (act env (WriteStatus (score_status rid r))) Q' E s"
    if "\<And>t. reporting (so_run_id so) settled encode rid r (report_log rid r) t \<Longrightarrow> Q' () t" for Q'
  proof (rule wp_visible [OF assms(1)])
    fix t
    assume "reporting (so_run_id so) settled encode rid r
      ((map Publish (sr_events r) @ [Flush]) @ [WriteStatus (score_status rid r)]) t"
    then have t: "reporting (so_run_id so) settled encode rid r (report_log rid r) t"
      by (simp add: report_log_def)
    show "Q' () t" by (rule that [OF t])
    show "E e t" for e by (rule assms(3) [OF reporting_inv [OF t]]) simp
  qed simp
  have same: "t = t\<lparr>fi_failure_written := fi_failure_written t\<rparr>" for t :: "'a finalizer" by simp
  have q: "Q () t" if "reporting (so_run_id so) settled encode rid r (report_log rid r) t" for t
    using assms(2) [OF that] same by metis
  show ?thesis
    using w [of Q, OF q] w [of "\<lambda>_ t. Q () (t\<lparr>fi_failure_written := True\<rparr>)", OF assms(2)] e s
    unfolding report_def write_status_def score_status_def
    by (auto simp: wp_pure_call split: sum.splits if_splits)
qed

context scorer_contract
begin

abbreviation ok :: "(pyval \<Rightarrow> string result) \<Rightarrow> 'k finalizer \<Rightarrow> bool" where
  "ok encode \<equiv> finalizer_inv (so_run_id so) settled encode"

text \<open>A call of the scorer that leaves a settled scorer alone.\<close>

lemma ok_scorer:
  assumes "ok encode s" "settled (fi_scorer s) \<noteq> None \<Longrightarrow> k = fi_scorer s"
  shows "ok encode (s\<lparr>fi_scorer := k\<rparr>)"
  using assms by (cases "settled (fi_scorer s)") (auto simp: finalizer_inv_def)

lemma fail_call_ok:
  "ok encode s \<Longrightarrow> wp (scorer_call (so_fail so x)) (\<lambda>_ t. ok encode t \<and> (fi_result t = fi_result s)) (\<lambda>_. ok encode) s"
proof -
  assume s: "ok encode s"
  have "settled (fi_scorer s) \<noteq> None \<Longrightarrow> snd (so_fail so x (fi_scorer s)) = fi_scorer s"
    using fail_settled by blast
  from ok_scorer [OF s this] show ?thesis
    by (auto simp: wp_scorer_call split: prod.splits sum.splits)
qed

lemma failing_ok: "ok encode s \<Longrightarrow> wp (finalizer_fail so x) (\<lambda>_. ok encode) (\<lambda>_. ok encode) s"
  unfolding finalizer_fail_def by (auto intro: wp_mono [OF fail_call_ok])

text \<open>The report of a fresh result, once its files are stored.\<close>

lemma publication_ok:
  assumes "reporting (so_run_id so) settled encode rid r [] s"
  shows "wp (publish_events env (sr_events r)) (\<lambda>_. wp (act env Flush) (\<lambda>_. wp (report so env r)
      (\<lambda>_ t. ok encode (t\<lparr>fi_result := Some r\<rparr>) \<and> \<not> fi_quiescent t) (\<lambda>_. ok encode)) (\<lambda>_. ok encode)) (\<lambda>_. ok encode) s"
proof (rule wp_publish [OF assms])
  let ?xs = "map Publish (sr_events r)"
  fix t
  assume t: "reporting (so_run_id so) settled encode rid r ([] @ ?xs) t"
  show "wp (act env Flush) (\<lambda>_. wp (report so env r) (\<lambda>_ t. ok encode (t\<lparr>fi_result := Some r\<rparr>) \<and> \<not> fi_quiescent t) (\<lambda>_. ok encode)) (\<lambda>_. ok encode) t"
  proof (rule wp_visible [OF t])
    fix u
    assume "reporting (so_run_id so) settled encode rid r (([] @ ?xs) @ [Flush]) u"
    then have u: "reporting (so_run_id so) settled encode rid r (?xs @ [Flush]) u" by simp
    show "wp (report so env r) (\<lambda>_ t. ok encode (t\<lparr>fi_result := Some r\<rparr>) \<and> \<not> fi_quiescent t) (\<lambda>_. ok encode) u"
      by (rule wp_report [OF u]) (auto simp: reporting_def finalizer_inv_def)
    show "ok encode u"
      by (rule reporting_inv [OF u]) (simp add: report_log_def prefix_def)
  qed simp
qed (simp_all add: report_log_def)

lemma finalizing_ok:
  assumes "ok encode s"
  shows "wp (finalizer_finalize so encode env source) (\<lambda>r t. ok encode t \<and> fi_result t = Some r \<and> (fi_quiescent t \<longrightarrow> fi_quiescent s)) (\<lambda>_. ok encode) s"
proof (cases "fi_result s")
  case None
  then have quiescent: "\<not> fi_quiescent s"
    using assms by (auto simp: finalizer_inv_def)
  have tail: "wp (scorer_call (so_finalize so)) (\<lambda>r. wp (persist_score_outputs encode env r)
      (\<lambda>_. wp (publish_events env (sr_events r)) (\<lambda>_. wp (act env Flush) (\<lambda>_. wp (report so env r)
        (\<lambda>_ t. ok encode (t\<lparr>fi_result := Some r\<rparr>) \<and> \<not> fi_quiescent t) (\<lambda>_. ok encode)) (\<lambda>_. ok encode)) (\<lambda>_. ok encode))
      (\<lambda>_. ok encode)) (\<lambda>_. ok encode) t"
    if t: "ok encode t" "fi_result t = None" for t
  proof (cases "so_finalize so (fi_scorer t)")
    case (Pair x k)
    let ?t = "t\<lparr>fi_scorer := k\<rparr>"
    have "settled (fi_scorer t) \<noteq> None \<Longrightarrow> k = fi_scorer t"
      using finalize_again Pair by auto
    from ok_scorer [OF t(1) this] have k: "ok encode ?t" .
    show ?thesis
    proof (cases x)
      case (Inr r)
      have settled: "settled k = Some r"
        using finalize_returns Pair Inr by blast
      have "wp (persist_score_outputs encode env r)
          (\<lambda>_. wp (publish_events env (sr_events r)) (\<lambda>_. wp (act env Flush) (\<lambda>_. wp (report so env r)
            (\<lambda>_ t. ok encode (t\<lparr>fi_result := Some r\<rparr>) \<and> \<not> fi_quiescent t) (\<lambda>_. ok encode)) (\<lambda>_. ok encode)) (\<lambda>_. ok encode))
          (\<lambda>_. ok encode) ?t"
      proof (rule wp_mono [OF persist_spec])
        fix u
        assume u: "later ?t u \<and> fi_files ?t EventsFile = None \<and> stored encode r (fi_files u)"
        then have "reporting (so_run_id so) settled encode (so_run_id so k) r [] u"
          using k settled t(2) later_sel [of ?t u] unfolding reporting_def finalizer_inv_def
          by (auto simp: stored_def)
        then show "wp (publish_events env (sr_events r)) (\<lambda>_. wp (act env Flush) (\<lambda>_. wp (report so env r)
            (\<lambda>_ t. ok encode (t\<lparr>fi_result := Some r\<rparr>) \<and> \<not> fi_quiescent t) (\<lambda>_. ok encode)) (\<lambda>_. ok encode)) (\<lambda>_. ok encode) u"
          by (rule publication_ok)
      qed (rule finalizer_inv_later [OF k])
      then show ?thesis
        using Pair Inr by (simp add: wp_scorer_call)
    qed (use k Pair in \<open>simp add: wp_scorer_call\<close>)
  qed
  show ?thesis
    using None assms quiescent unfolding finalizer_finalize_def
    by (auto intro!: tail wp_mono [OF fail_call_ok])
qed (use assms in \<open>simp add: finalizer_finalize_def\<close>)

lemma quiescing_ok:
  assumes "ok encode s"
  shows "wp (finalizer_quiesce so encode env) (\<lambda>_. ok encode) (\<lambda>_. ok encode) s"
proof (cases "fi_quiescent s")
  case False
  then show ?thesis
    unfolding finalizer_quiesce_def using assms
    by (auto intro!: wp_mono [OF finalizing_ok [OF assms]] simp: wp_act finalizer_inv_def split: option.splits if_splits)
qed (use assms in \<open>simp add: finalizer_quiesce_def\<close>)

end

end
