(* ===== verification/Score_Runtime.thy ===== *)
theory Score_Runtime
  imports Score_Report
begin

text \<open>
  The two scorekeeper runtimes around a scorer and its finalizer: \<open>CompetitionScorekeeperRuntime\<close>
  of \<open>scorekeeper/competition\_runtime.py\<close> and \<open>ScorekeeperRuntime\<close> of
  \<open>scorekeeper/runtime.py\<close>. The scorer is the one object the runtime and its finalizer share,
  and is kept in the finalizer. An argument of another class is \<open>None\<close>.
\<close>

section \<open>The competition runtime\<close>

record competition_runtime =
  qr_run_id :: string
  qr_finalizer :: "competition_scorer finalizer"
  qr_ground_truth_timestamp_ns :: "int option"
  qr_payload_timestamps_ns :: "(int, int option) dict"
  qr_last_payload_event_id :: "int option"
  qr_last_payload_event_timestamp_ns :: "int option"
  qr_home_disarmed_timestamp_ns :: "int option"
  qr_home_complete_timestamp_ns :: "int option"

definition CompetitionScorekeeperRuntime :: "pyval \<Rightarrow> competition_scorer option
    \<Rightarrow> (score_file \<Rightarrow> file_content option) \<Rightarrow> competition_runtime result" where
  "CompetitionScorekeeperRuntime run_id scorer files =
     rbind (canonical_run_id run_id) (\<lambda>rid.
       case scorer of
         None \<Rightarrow> Inl (ValueError ''scorer must belong to the current run'')
       | Some k \<Rightarrow>
           if ks_run_id k \<noteq> rid then Inl (ValueError ''scorer must belong to the current run'')
           else Inr \<lparr>qr_run_id = rid, qr_finalizer = ScoreFinalizer k files,
             qr_ground_truth_timestamp_ns = None,
             qr_payload_timestamps_ns = [(2, None), (3, None), (4, None)],
             qr_last_payload_event_id = None, qr_last_payload_event_timestamp_ns = None,
             qr_home_disarmed_timestamp_ns = None, qr_home_complete_timestamp_ns = None\<rparr>)"

definition on_finalizer :: "(competition_scorer finalizer, 'a) io \<Rightarrow> (competition_runtime, 'a) io" where
  "on_finalizer m = (\<lambda>s. case m (qr_finalizer s) of (r, f) \<Rightarrow> (r, s\<lparr>qr_finalizer := f\<rparr>))"

definition observed_by :: "int option \<Rightarrow> int \<Rightarrow> bool" where
  "observed_by stamp timestamp_ns = (case stamp of None \<Rightarrow> False | Some t \<Rightarrow> t \<le> timestamp_ns)"

definition observed_through :: "int option \<Rightarrow> int \<Rightarrow> bool" where
  "observed_through stamp timestamp_ns = (case stamp of None \<Rightarrow> False | Some t \<Rightarrow> timestamp_ns \<le> t)"

definition competition_inputs_observed :: "int \<Rightarrow> competition_runtime \<Rightarrow> bool" where
  "competition_inputs_observed timestamp_ns s \<longleftrightarrow>
     observed_through (qr_ground_truth_timestamp_ns s) timestamp_ns
     \<and> list_all (\<lambda>(_, t). observed_through t timestamp_ns) (qr_payload_timestamps_ns s)
     \<and> observed_through (qr_last_payload_event_id s) 4
     \<and> observed_by (qr_last_payload_event_timestamp_ns s) timestamp_ns
     \<and> observed_by (qr_home_disarmed_timestamp_ns s) timestamp_ns
     \<and> qr_home_complete_timestamp_ns s \<noteq> None
     \<and> the (qr_home_disarmed_timestamp_ns s) < the (qr_home_complete_timestamp_ns s)
     \<and> observed_by (qr_home_complete_timestamp_ns s) timestamp_ns"

text \<open>The frame of the four inputs: nothing is accepted after the result.\<close>

definition observing :: "('a \<Rightarrow> string) \<Rightarrow> string \<Rightarrow> 'a option \<Rightarrow> ('a \<Rightarrow> (competition_runtime, unit) io)
    \<Rightarrow> (competition_runtime, unit) io" where
  "observing run type_error sample body = (\<lambda>s.
     if fi_quiescent (qr_finalizer s) \<or> fi_result (qr_finalizer s) \<noteq> None then (Inr (), s)
     else case sample of
       None \<Rightarrow> (Inl (TypeError type_error), s)
     | Some x \<Rightarrow> if run x \<noteq> qr_run_id s then (Inr (), s) else body x s)"

definition latest_ns :: "int option \<Rightarrow> int \<Rightarrow> int option" where
  "latest_ns observed t = (if observed = None \<or> the observed < t then Some t else observed)"

definition runtime_accept_ground_truth :: "ground_truth_sample option \<Rightarrow> (competition_runtime, unit) io" where
  "runtime_accept_ground_truth sample =
     observing gt_run_id ''sample must be GroundTruthSample'' sample (\<lambda>x.
       ibind (imodify (\<lambda>s. s\<lparr>qr_ground_truth_timestamp_ns :=
           latest_ns (qr_ground_truth_timestamp_ns s) (gt_sim_timestamp_ns x)\<rparr>)) (\<lambda>_.
         on_finalizer (scorer_call (accept_ground_truth_sample (Some x)))))"

definition runtime_accept_payload_state :: "payload_sample option \<Rightarrow> (competition_runtime, unit) io" where
  "runtime_accept_payload_state sample =
     observing ps_run_id ''sample must be PayloadStateSample'' sample (\<lambda>x.
       ibind (imodify (\<lambda>s.
           case map_of (qr_payload_timestamps_ns s) (ps_aruco_id x) of
             None \<Rightarrow> s
           | Some observed \<Rightarrow>
               s\<lparr>qr_payload_timestamps_ns := AList.update (ps_aruco_id x)
                  (latest_ns observed (ps_sim_timestamp_ns x)) (qr_payload_timestamps_ns s)\<rparr>)) (\<lambda>_.
         on_finalizer (scorer_call (accept_payload_state_sample (Some x)))))"

definition runtime_accept_payload_event :: "payload_event_sample option \<Rightarrow> (competition_runtime, unit) io" where
  "runtime_accept_payload_event sample =
     observing pv_run_id ''sample must be PayloadEventSample'' sample (\<lambda>x.
       ibind (on_finalizer (scorer_call (accept_payload_event_sample (Some x)))) (\<lambda>_.
         imodify (\<lambda>s.
           if qr_last_payload_event_id s = None \<or> the (qr_last_payload_event_id s) < pv_event_id x then
             s\<lparr>qr_last_payload_event_id := Some (pv_event_id x),
               qr_last_payload_event_timestamp_ns := Some (pv_sim_timestamp_ns x)\<rparr>
           else s)))"

definition runtime_accept_mission_event :: "mission_event_sample option \<Rightarrow> (competition_runtime, unit) io" where
  "runtime_accept_mission_event sample =
     observing me_run_id ''sample must be MissionEventSample'' sample (\<lambda>x.
       ibind (on_finalizer (scorer_call (accept_mission_event_sample (Some x)))) (\<lambda>_.
         imodify (\<lambda>s.
           if me_phase x \<noteq> ''HOME'' then s
           else if me_state x = ''DISARMED'' then
             s\<lparr>qr_home_disarmed_timestamp_ns := Some (me_sim_timestamp_ns x)\<rparr>
           else if me_state x = ''COMPLETE'' then
             s\<lparr>qr_home_complete_timestamp_ns := Some (me_sim_timestamp_ns x)\<rparr>
           else s)))"

definition competition_ops :: "libm \<Rightarrow> competition_scorer scorer_ops" where
  "competition_ops L = \<lparr>so_run_id = ks_run_id,
     so_last_sim_timestamp_ns = (\<lambda>s. Some (competition_last_timestamp s)),
     so_fail = competition_fail, so_finalize = competition_finalize L\<rparr>"

definition runtime_fail :: "libm \<Rightarrow> pyval \<Rightarrow> (competition_runtime, unit) io" where
  "runtime_fail L reason = on_finalizer (finalizer_fail (competition_ops L) reason)"

definition accept_source_finished :: "libm \<Rightarrow> (pyval \<Rightarrow> string result) \<Rightarrow> score_env \<Rightarrow> pyval
    \<Rightarrow> (competition_runtime, score_result) io" where
  "accept_source_finished L encode env timestamp_ns =
     (if nonneg_int timestamp_ns then
        on_finalizer (finalizer_finalize (competition_ops L) encode env (Some (int_value timestamp_ns)))
      else iraise (ValueError ''source-finished timestamp must be nonnegative''))"

definition begin_finalization ::
  "libm \<Rightarrow> (pyval \<Rightarrow> string result) \<Rightarrow> score_env \<Rightarrow> (competition_runtime, unit) io" where
  "begin_finalization L encode env = on_finalizer (finalizer_quiesce (competition_ops L) encode env)"

section \<open>The descent runtime\<close>

record scenario_sample =
  sa_run_id :: string
  sa_sim_timestamp_ns :: int
  sa_event_id :: int
  sa_magnet_id :: string
  sa_state :: string

definition ScenarioSample ::
  "pyval \<Rightarrow> pyval \<Rightarrow> pyval \<Rightarrow> pyval \<Rightarrow> pyval \<Rightarrow> scenario_sample result" where
  "ScenarioSample run_id timestamp event_id magnet_id state =
     rbind (canonical_run_id run_id) (\<lambda>rid.
       if \<not> nonneg_int timestamp \<or> \<not> nonneg_int event_id then
         Inl (ValueError ''scenario sample has invalid fields'')
       else case (nonempty_text magnet_id, nonempty_text state) of
         (Some m, Some st) \<Rightarrow>
           Inr \<lparr>sa_run_id = rid, sa_sim_timestamp_ns = int_value timestamp,
             sa_event_id = int_value event_id, sa_magnet_id = m, sa_state = st\<rparr>
       | _ \<Rightarrow> Inl (ValueError ''scenario sample has invalid fields''))"

record descent_runtime =
  dn_run_id :: string
  dn_finalizer :: "descent_scorer finalizer"
  dn_scenario_events :: "(int, scenario_sample) dict"
  dn_scenario_failure :: "string option"
  dn_last_observed_ns :: "int option"

definition ScorekeeperRuntime :: "pyval \<Rightarrow> descent_scorer option
    \<Rightarrow> (score_file \<Rightarrow> file_content option) \<Rightarrow> descent_runtime result" where
  "ScorekeeperRuntime run_id scorer files =
     rbind (canonical_run_id run_id) (\<lambda>rid.
       case scorer of
         None \<Rightarrow> Inl (ValueError ''scorer must belong to the current run'')
       | Some k \<Rightarrow>
           if ds_run_id k \<noteq> rid then Inl (ValueError ''scorer must belong to the current run'')
           else Inr \<lparr>dn_run_id = rid, dn_finalizer = ScoreFinalizer k files, dn_scenario_events = [],
             dn_scenario_failure = None, dn_last_observed_ns = None\<rparr>)"

definition on_descent :: "(descent_scorer finalizer, 'a) io \<Rightarrow> (descent_runtime, 'a) io" where
  "on_descent m = (\<lambda>s. case m (dn_finalizer s) of (r, f) \<Rightarrow> (r, s\<lparr>dn_finalizer := f\<rparr>))"

definition descent_inputs_observed :: "int \<Rightarrow> descent_runtime \<Rightarrow> bool" where
  "descent_inputs_observed timestamp_ns s \<longleftrightarrow>
     dn_scenario_events s \<noteq> [] \<and> observed_through (dn_last_observed_ns s) timestamp_ns"

definition descent_observing :: "('a \<Rightarrow> string) \<Rightarrow> string \<Rightarrow> 'a option \<Rightarrow> ('a \<Rightarrow> (descent_runtime, unit) io)
    \<Rightarrow> (descent_runtime, unit) io" where
  "descent_observing run type_error sample body = (\<lambda>s.
     if fi_quiescent (dn_finalizer s) \<or> fi_result (dn_finalizer s) \<noteq> None then (Inr (), s)
     else case sample of
       None \<Rightarrow> (Inl (TypeError type_error), s)
     | Some x \<Rightarrow> if run x \<noteq> dn_run_id s then (Inr (), s) else body x s)"

definition accept_scenario :: "scenario_sample option \<Rightarrow> (descent_runtime, unit) io" where
  "accept_scenario sample =
     descent_observing sa_run_id ''sample must be ScenarioSample'' sample (\<lambda>x. imodify (\<lambda>s.
       case map_of (dn_scenario_events s) (sa_event_id x) of
         Some previous \<Rightarrow>
           if previous \<noteq> x \<and> dn_scenario_failure s = None then
             s\<lparr>dn_scenario_failure := Some ''scenario_event_conflict''\<rparr>
           else s
       | None \<Rightarrow>
           (let s1 = s\<lparr>dn_scenario_events := AList.update (sa_event_id x) x (dn_scenario_events s)\<rparr> in
            if sa_state x \<noteq> ''INACTIVE'' \<and> dn_scenario_failure s = None then
              s1\<lparr>dn_scenario_failure := Some ''scenario_not_inactive''\<rparr>
            else s1)))"

definition descent_accept_ground_truth :: "ground_truth_sample option \<Rightarrow> (descent_runtime, unit) io" where
  "descent_accept_ground_truth sample =
     descent_observing gt_run_id ''sample must be GroundTruthSample'' sample (\<lambda>x.
       ibind (imodify (\<lambda>s. s\<lparr>dn_last_observed_ns :=
           latest_ns (dn_last_observed_ns s) (gt_sim_timestamp_ns x)\<rparr>)) (\<lambda>_.
         on_descent (scorer_call (descent_accept (Some x)))))"

definition descent_ops :: "libm \<Rightarrow> descent_scorer scorer_ops" where
  "descent_ops L = \<lparr>so_run_id = ds_run_id, so_last_sim_timestamp_ns = descent_last_timestamp,
     so_fail = descent_fail, so_finalize = descent_finalize L\<rparr>"

definition descent_runtime_fail :: "libm \<Rightarrow> pyval \<Rightarrow> (descent_runtime, unit) io" where
  "descent_runtime_fail L reason = on_descent (finalizer_fail (descent_ops L) reason)"

definition descent_runtime_finalize :: "libm \<Rightarrow> (pyval \<Rightarrow> string result) \<Rightarrow> score_env \<Rightarrow> int option
    \<Rightarrow> (descent_runtime, score_result) io" where
  "descent_runtime_finalize L encode env source_ns =
     ibind (iget (\<lambda>s. fi_result (dn_finalizer s))) (\<lambda>earlier.
       case earlier of
         Some r \<Rightarrow> ireturn r
       | None \<Rightarrow>
           ibind (iget (\<lambda>s. if dn_scenario_events s = [] then Some ''scenario_initialization_missing''
                            else dn_scenario_failure s)) (\<lambda>failure.
           ibind (case failure of
                    None \<Rightarrow> ireturn ()
                  | Some reason \<Rightarrow> on_descent (scorer_call (descent_fail (VStr reason)))) (\<lambda>_.
             on_descent (finalizer_finalize (descent_ops L) encode env source_ns))))"

definition descent_source_finished :: "libm \<Rightarrow> (pyval \<Rightarrow> string result) \<Rightarrow> score_env \<Rightarrow> pyval
    \<Rightarrow> (descent_runtime, score_result) io" where
  "descent_source_finished L encode env timestamp_ns =
     (if nonneg_int timestamp_ns then
        descent_runtime_finalize L encode env (Some (int_value timestamp_ns))
      else iraise (ValueError ''source-finished timestamp must be nonnegative''))"

definition descent_begin_finalization ::
  "libm \<Rightarrow> (pyval \<Rightarrow> string result) \<Rightarrow> score_env \<Rightarrow> (descent_runtime, unit) io" where
  "descent_begin_finalization L encode env =
     ibind (iget (\<lambda>s. fi_quiescent (dn_finalizer s))) (\<lambda>quiescent.
       if quiescent then ireturn ()
       else
         ibind (descent_runtime_finalize L encode env None) (\<lambda>_.
           on_descent (finalizer_quiesce (descent_ops L) encode env)))"

section \<open>Both scorers keep the contract\<close>

interpretation competition: scorer_contract "competition_ops L" ks_result for L
proof
  show "ks_result k' = Some r" if "so_finalize (competition_ops L) k = (Inr r, k')" for k r k'
    using that by (auto simp: competition_ops_def competition_finalize_def Let_def
        split: option.splits prod.splits if_splits)
qed (auto simp: competition_ops_def competition_finalize_def competition_fail_def Let_def
    split: option.splits prod.splits)

interpretation descent: scorer_contract "descent_ops L" ds_result for L
proof
  show "ds_result k' = Some r" if "so_finalize (descent_ops L) k = (Inr r, k')" for k r k'
    using that by (auto simp: descent_ops_def descent_finalize_def Let_def
        split: option.splits prod.splits if_splits)
qed (auto simp: descent_ops_def descent_finalize_def descent_fail_def Let_def
    split: option.splits prod.splits)

end
