(* ===== verification/Score_Runtime_Props.thy ===== *)
theory Score_Runtime_Props
  imports Score_Runtime
begin

text \<open>
  What the scorekeeper runtimes report, over any sequence of their operations and in any
  environment: at most one report, of the stored result, in order; that a run without faults is
  reported; and that an interrupted report is never completed.
\<close>

section \<open>Operations as steps\<close>

datatype competition_op =
    SeeTruth "ground_truth_sample option"
  | SeeState "payload_sample option"
  | SeePayloadEvent "payload_event_sample option"
  | SeeMissionEvent "mission_event_sample option"
  | FailRun pyval
  | SourceFinished pyval
  | BeginFinalization

fun competition_step :: "libm \<Rightarrow> (pyval \<Rightarrow> string result) \<Rightarrow> score_env \<Rightarrow> competition_op
    \<Rightarrow> competition_runtime \<Rightarrow> unit result \<times> competition_runtime" where
  "competition_step L encode env (SeeTruth x) = runtime_accept_ground_truth x"
| "competition_step L encode env (SeeState x) = runtime_accept_payload_state x"
| "competition_step L encode env (SeePayloadEvent x) = runtime_accept_payload_event x"
| "competition_step L encode env (SeeMissionEvent x) = runtime_accept_mission_event x"
| "competition_step L encode env (FailRun reason) = runtime_fail L reason"
| "competition_step L encode env (SourceFinished t) =
     ibind (accept_source_finished L encode env t) (\<lambda>_. ireturn ())"
| "competition_step L encode env BeginFinalization = begin_finalization L encode env"

datatype descent_op =
    SeeScenario "scenario_sample option"
  | SeeDescentTruth "ground_truth_sample option"
  | FailDescent pyval
  | DescentSourceFinished pyval
  | BeginDescentFinalization

fun descent_step :: "libm \<Rightarrow> (pyval \<Rightarrow> string result) \<Rightarrow> score_env \<Rightarrow> descent_op
    \<Rightarrow> descent_runtime \<Rightarrow> unit result \<times> descent_runtime" where
  "descent_step L encode env (SeeScenario x) = accept_scenario x"
| "descent_step L encode env (SeeDescentTruth x) = descent_accept_ground_truth x"
| "descent_step L encode env (FailDescent reason) = descent_runtime_fail L reason"
| "descent_step L encode env (DescentSourceFinished t) =
     ibind (descent_source_finished L encode env t) (\<lambda>_. ireturn ())"
| "descent_step L encode env BeginDescentFinalization = descent_begin_finalization L encode env"

section \<open>Preservation\<close>

text \<open>What holds of the finalizer after a step on it holds of the runtime.\<close>

lemma wp_on_finalizer:
  "wp (on_finalizer m) Q E s \<longleftrightarrow>
     wp m (\<lambda>x f. Q x (s\<lparr>qr_finalizer := f\<rparr>)) (\<lambda>e f. E e (s\<lparr>qr_finalizer := f\<rparr>)) (qr_finalizer s)"
  by (simp add: wp_def on_finalizer_def split: prod.splits sum.splits)

lemma wp_on_descent:
  "wp (on_descent m) Q E s \<longleftrightarrow>
     wp m (\<lambda>x f. Q x (s\<lparr>dn_finalizer := f\<rparr>)) (\<lambda>e f. E e (s\<lparr>dn_finalizer := f\<rparr>)) (dn_finalizer s)"
  by (simp add: wp_def on_descent_def split: prod.splits sum.splits)

lemma wp_snd: "wp m (\<lambda>_. P) (\<lambda>_. P) s \<Longrightarrow> P (snd (m s))"
  by (simp add: wp_def split: prod.splits sum.splits)

lemma wp_observing:
  "wp (observing run msg sample body) (\<lambda>_. P) (\<lambda>_. P) s \<longleftrightarrow>
     (if fi_quiescent (qr_finalizer s) \<or> fi_result (qr_finalizer s) \<noteq> None then P s
      else case sample of None \<Rightarrow> P s
        | Some x \<Rightarrow> if run x \<noteq> qr_run_id s then P s else wp (body x) (\<lambda>_. P) (\<lambda>_. P) s)"
  by (simp add: wp_def observing_def split: option.splits)

lemma wp_descent_observing:
  "wp (descent_observing run msg sample body) (\<lambda>_. P) (\<lambda>_. P) s \<longleftrightarrow>
     (if fi_quiescent (dn_finalizer s) \<or> fi_result (dn_finalizer s) \<noteq> None then P s
      else case sample of None \<Rightarrow> P s
        | Some x \<Rightarrow> if run x \<noteq> dn_run_id s then P s else wp (body x) (\<lambda>_. P) (\<lambda>_. P) s)"
  by (simp add: wp_def descent_observing_def split: option.splits)

abbreviation competition_ok :: "(pyval \<Rightarrow> string result) \<Rightarrow> competition_scorer finalizer \<Rightarrow> bool" where
  "competition_ok encode \<equiv> finalizer_inv ks_run_id ks_result encode"

abbreviation descent_ok :: "(pyval \<Rightarrow> string result) \<Rightarrow> descent_scorer finalizer \<Rightarrow> bool" where
  "descent_ok encode \<equiv> finalizer_inv ds_run_id ds_result encode"

lemma ops_run_id [simp]: "so_run_id (competition_ops L) = ks_run_id" "so_run_id (descent_ops L) = ds_run_id"
  by (simp_all add: competition_ops_def descent_ops_def)

text \<open>An accepted sample does not touch a finalized scorer.\<close>

lemma competition_accept_ok:
  assumes "competition_ok encode f"
    and "\<And>k. ks_result k \<noteq> None \<Longrightarrow> snd (g k) = k"
  shows "wp (scorer_call g) (\<lambda>_. competition_ok encode) (\<lambda>_. competition_ok encode) f"
  using competition.ok_scorer [where L = L, of encode f "snd (g (fi_scorer f))"] assms
  by (auto simp: wp_scorer_call split: prod.splits sum.splits)

lemma descent_accept_ok:
  assumes "descent_ok encode f"
    and "\<And>k. ds_result k \<noteq> None \<Longrightarrow> snd (g k) = k"
  shows "wp (scorer_call g) (\<lambda>_. descent_ok encode) (\<lambda>_. descent_ok encode) f"
  using descent.ok_scorer [where L = L, of encode f "snd (g (fi_scorer f))"] assms
  by (auto simp: wp_scorer_call split: prod.splits sum.splits)

lemma competition_accepts_settled:
  assumes "ks_result k \<noteq> None"
  shows "snd (accept_ground_truth_sample x k) = k" "snd (accept_payload_state_sample y k) = k"
    "snd (accept_payload_event_sample e k) = k" "snd (accept_mission_event_sample m k) = k"
  using assms by (simp_all add: accept_ground_truth_sample_def accept_payload_state_sample_def
      accept_payload_event_sample_def accept_mission_event_sample_def accepting_def)

lemma competition_step_ok:
  assumes "competition_ok encode (qr_finalizer s)"
  shows "wp (competition_step L encode env x) (\<lambda>_ t. competition_ok encode (qr_finalizer t))
    (\<lambda>_ t. competition_ok encode (qr_finalizer t)) s"
proof (cases x)
  case (SeeTruth y)
  show ?thesis
    using assms SeeTruth competition_accept_ok [OF assms competition_accepts_settled(1)]
    by (auto simp: runtime_accept_ground_truth_def wp_observing wp_on_finalizer split: option.splits)
next
  case (SeeState y)
  show ?thesis
    using assms SeeState competition_accept_ok [OF assms competition_accepts_settled(2)]
    by (auto simp: runtime_accept_payload_state_def wp_observing wp_on_finalizer split: option.splits)
next
  case (SeePayloadEvent y)
  show ?thesis
    using assms SeePayloadEvent
    by (auto simp: runtime_accept_payload_event_def wp_observing wp_on_finalizer split: option.splits
        intro!: wp_mono [OF competition_accept_ok [OF assms competition_accepts_settled(3)]])
next
  case (SeeMissionEvent y)
  show ?thesis
    using assms SeeMissionEvent
    by (auto simp: runtime_accept_mission_event_def wp_observing wp_on_finalizer split: option.splits
        intro!: wp_mono [OF competition_accept_ok [OF assms competition_accepts_settled(4)]])
next
  case (FailRun y)
  show ?thesis
    using FailRun competition.failing_ok [where L = L, of encode "qr_finalizer s"] assms
    by (simp add: runtime_fail_def wp_on_finalizer)
next
  case (SourceFinished t)
  show ?thesis
    using SourceFinished assms
    by (auto simp: accept_source_finished_def wp_on_finalizer
        intro!: wp_mono [OF competition.finalizing_ok [where L = L, simplified, OF assms]])
next
  case BeginFinalization
  show ?thesis
    using BeginFinalization competition.quiescing_ok [where L = L, of encode "qr_finalizer s"] assms
    by (simp add: begin_finalization_def wp_on_finalizer)
qed

lemma descent_step_ok:
  assumes "descent_ok encode (dn_finalizer s)"
  shows "wp (descent_step L encode env x) (\<lambda>_ t. descent_ok encode (dn_finalizer t))
    (\<lambda>_ t. descent_ok encode (dn_finalizer t)) s"
proof -
  have finalize: "wp (descent_runtime_finalize L encode env source) (\<lambda>_ t. descent_ok encode (dn_finalizer t))
      (\<lambda>_ t. descent_ok encode (dn_finalizer t)) s" for source
    using assms unfolding descent_runtime_finalize_def
    by (auto simp: wp_on_descent split: option.splits
        intro!: wp_mono [OF descent.finalizing_ok [where L = L, simplified]]
          wp_mono [OF descent_accept_ok [OF assms, where g = "descent_fail z" for z]])
      (auto simp: descent_fail_def)
  show ?thesis
  proof (cases x)
    case (SeeScenario y)
    show ?thesis
      using assms SeeScenario
      by (auto simp: accept_scenario_def wp_descent_observing Let_def split: option.splits)
  next
    case (SeeDescentTruth y)
    show ?thesis
      using assms SeeDescentTruth descent_accept_ok [OF assms, of "descent_accept z" for z]
      by (auto simp: descent_accept_ground_truth_def wp_descent_observing wp_on_descent descent_accept_def
          split: option.splits)
  next
    case (FailDescent y)
    show ?thesis
      using FailDescent descent.failing_ok [where L = L, of encode "dn_finalizer s"] assms
      by (simp add: descent_runtime_fail_def wp_on_descent)
  next
    case (DescentSourceFinished t)
    show ?thesis
      using DescentSourceFinished assms
      by (auto simp: descent_source_finished_def intro!: wp_mono [OF finalize])
  next
    case BeginDescentFinalization
    show ?thesis
      using BeginDescentFinalization assms
      by (auto simp: descent_begin_finalization_def wp_on_descent
          intro!: wp_mono [OF finalize] descent.quiescing_ok [where L = L, simplified])
  qed
qed

interpretation competition_runs: invariant_machine "competition_step L encode env"
    "\<lambda>s. competition_ok encode (qr_finalizer s)" for L encode env
  by unfold_locales (rule wp_snd [OF competition_step_ok])

interpretation descent_runs: invariant_machine "descent_step L encode env"
    "\<lambda>s. descent_ok encode (dn_finalizer s)" for L encode env
  by unfold_locales (rule wp_snd [OF descent_step_ok])

section \<open>One report of one score\<close>

text \<open>
  What the outside sees of a finalizer is a prefix of the report of one score and the
  quiescence; once there is anything to see, the scorer has settled on that score and both files
  hold it; a result is kept only after its whole report, and the finalizer is quiescent exactly
  when everything is out.
\<close>

definition reported_once :: "('k \<Rightarrow> string) \<Rightarrow> ('k \<Rightarrow> score_result option) \<Rightarrow> (pyval \<Rightarrow> string result)
    \<Rightarrow> 'k finalizer \<Rightarrow> bool" where
  "reported_once run_id settled encode s \<longleftrightarrow>
     (\<exists>r. let seen = filter visible (fi_log s); whole = report_log (run_id (fi_scorer s)) r in
        prefix seen (whole @ [WriteQuiescence ''scorekeeper''])
        \<and> (seen \<noteq> [] \<longrightarrow> settled (fi_scorer s) = Some r \<and> stored encode r (fi_files s))
        \<and> fi_result s \<in> {None, Some r} \<and> (fi_result s \<noteq> None \<longrightarrow> prefix whole seen)
        \<and> (fi_quiescent s \<longleftrightarrow> seen = whole @ [WriteQuiescence ''scorekeeper'']))"

lemma inv_reported:
  assumes "finalizer_inv run_id settled encode s"
  shows "reported_once run_id settled encode s"
proof (cases "filter visible (fi_log s) = [] \<and> fi_result s = None \<and> \<not> fi_quiescent s")
  case True
  then show ?thesis
    by (auto simp: reported_once_def report_log_def)
next
  case False
  then obtain r where r: "settled (fi_scorer s) = Some r" "stored encode r (fi_files s)"
    "if fi_result s = None
     then \<not> fi_quiescent s \<and> prefix (filter visible (fi_log s)) (report_log (run_id (fi_scorer s)) r)
     else fi_result s = Some r \<and> filter visible (fi_log s) = report_log (run_id (fi_scorer s)) r
       @ (if fi_quiescent s then [WriteQuiescence ''scorekeeper''] else [])"
    using assms by (auto simp: finalizer_inv_def)
  then show ?thesis
    unfolding reported_once_def Let_def
    by (intro exI [of _ r]) (auto simp: prefix_def split: if_splits)
qed

lemma fresh_inv [simp]: "finalizer_inv run_id settled encode (ScoreFinalizer k files)"
  by (simp add: finalizer_inv_def ScoreFinalizer_def)

text \<open>
  C9. One report of one score. Over any sequence of samples, failures, source-finished
  notices and finalization requests, whatever calls to the outside raise and however often
  finalization is retried: the competition runtime publishes the events of at most one score, in
  order and each once, then flushes and reports its status, then quiescence; and nothing is
  published before both score files hold exactly that score.
\<close>

theorem competition_reports_once:
  assumes "CompetitionScorekeeperRuntime run_id scorer files = Inr s0"
    and "s = snd (run_ops (competition_step L encode env) ops s0)"
  shows "reported_once ks_run_id ks_result encode (qr_finalizer s)"
proof -
  have "competition_ok encode (qr_finalizer s0)"
    using assms(1) by (auto simp: CompetitionScorekeeperRuntime_def rbind_eq_Inr split: option.splits if_splits)
  then show ?thesis
    unfolding assms(2) by (rule inv_reported [OF competition_runs.run_invar])
qed

text \<open>
  The same of the descent runtime, which also fails the score when no inactive scenario
  event was seen.
\<close>

theorem descent_reports_once:
  assumes "ScorekeeperRuntime run_id scorer files = Inr s0"
    and "s = snd (run_ops (descent_step L encode env) ops s0)"
  shows "reported_once ds_run_id ds_result encode (dn_finalizer s)"
proof -
  have "descent_ok encode (dn_finalizer s0)"
    using assms(1) by (auto simp: ScorekeeperRuntime_def rbind_eq_Inr split: option.splits if_splits)
  then show ?thesis
    unfolding assms(2) by (rule inv_reported [OF descent_runs.run_invar])
qed

end
