(* ===== verification/Score_Runtime_Live.thy ===== *)
theory Score_Runtime_Live
  imports Score_Runtime_Props
begin

text \<open>
  The two ends of a finalization: without faults every score is reported to its end; and a
  report that was interrupted after the events file was created is never completed.
\<close>

section \<open>Calm surroundings\<close>

definition calm :: score_env where
  "calm before a = None"

lemma wp_calm [simp]: "wp (act calm a) Q E s \<longleftrightarrow> Q () (s\<lparr>fi_log := fi_log s @ [a]\<rparr>)"
  by (simp add: wp_act calm_def)

lemma wp_publish_calm [simp]:
  "wp (publish_events calm es) Q E s \<longleftrightarrow> Q () (s\<lparr>fi_log := fi_log s @ map Publish es\<rparr>)"
  by (induction es arbitrary: s) simp_all

section \<open>Documents\<close>

text \<open>
  The values \<open>json.dumps\<close> with \<open>allow_nan=False\<close> gives a line for, whatever else it does: no
  float among them is NaN or infinite, keys are text, and integers have 64 bits, so that the
  limit on the digits of an integer does not matter. Any other value may be refused.
\<close>

fun json_value :: "pyval \<Rightarrow> bool" where
  "json_value VNone \<longleftrightarrow> True"
| "json_value (VBool b) \<longleftrightarrow> True"
| "json_value (VInt i) \<longleftrightarrow> \<bar>i\<bar> < 2 ^ 63"
| "json_value (VFloat f) \<longleftrightarrow> isfinite f"
| "json_value (VStr s) \<longleftrightarrow> True"
| "json_value (VBytes s) \<longleftrightarrow> False"
| "json_value (VTuple xs) \<longleftrightarrow> list_all json_value xs"
| "json_value (VList xs) \<longleftrightarrow> list_all json_value xs"
| "json_value (VDict d) \<longleftrightarrow> list_all (\<lambda>kv. strict_str (fst kv) \<noteq> None \<and> json_value (snd kv)) d"
| "json_value (VObj t) \<longleftrightarrow> False"

definition json_encoder :: "(pyval \<Rightarrow> string result) \<Rightarrow> bool" where
  "json_encoder encode \<longleftrightarrow> (\<forall>d. json_value d \<longrightarrow> (\<exists>line. encode d = Inr line))"

lemma json_object_value [simp]: "json_value (json_object kvs) \<longleftrightarrow> list_all (\<lambda>kv. json_value (snd kv)) kvs"
  by (simp add: json_object_def list.pred_map comp_def)

text \<open>An encoder that refuses what \<open>json.dumps\<close> refuses, such as NaN.\<close>

definition strict_line :: "pyval \<Rightarrow> string result" where
  "strict_line d = (if json_value d then Inr ''line'' else Inl (ValueError ''not JSON compliant''))"

lemma strict_line_encodes: "json_encoder strict_line"
  by (simp add: json_encoder_def strict_line_def)

lemma strict_line_refuses: "isl (strict_line (VFloat NaN))" "isl (strict_line (VList [VFloat PosInf]))"
  by (simp_all add: strict_line_def)

text \<open>The documents of a result: its lines of the events file and its result file.\<close>

definition json_result :: "score_result \<Rightarrow> bool" where
  "json_result r \<longleftrightarrow> json_value (result_document r) \<and> list_all (\<lambda>e. json_value (event_to_document e)) (sr_events r)"

lemma json_resultI:
  assumes "isfinite (sr_achieved_score r)" "isfinite (sr_maximum_available_score r)"
    and "\<And>u. u \<in> set (sr_rule_results r) \<Longrightarrow> isfinite (ru_awarded_points u) \<and> isfinite (ru_available_points u)"
    and "\<And>e. e \<in> set (sr_events r) \<Longrightarrow>
      isfinite (ev_value e) \<and> \<bar>ev_sim_timestamp_ns e\<bar> < 2 ^ 63 \<and> \<bar>ev_event_id e\<bar> < 2 ^ 63"
  shows "json_result r"
  using assms by (auto simp: json_result_def result_document_def event_to_document_def rule_to_document_def
      list_all_iff split: option.splits)

section \<open>Without faults\<close>

lemma each_total: "list_all (\<lambda>x. \<exists>y. f x = Inr y) xs \<Longrightarrow> \<exists>ys. each f xs = Inr ys"
  by (induction xs) force+

lemma persist_calm:
  assumes "json_encoder encode" "json_result r" "fi_files s = (\<lambda>_. None)"
  shows "wp (persist_score_outputs encode calm r) (\<lambda>_. later s) (\<lambda>_ _. False) s"
proof -
  obtain lines where lines: "each (\<lambda>e. encode (event_to_document e)) (sr_events r) = Inr lines"
    using each_total [of "\<lambda>e. encode (event_to_document e)" "sr_events r"] assms(1,2)
    by (auto simp: json_encoder_def json_result_def list_all_iff)
  obtain line where line: "encode (result_document r) = Inr line"
    using assms(1,2) by (auto simp: json_encoder_def json_result_def)
  have returns: "wp (persist_score_outputs encode calm r) (\<lambda>_ _. True) (\<lambda>_ _. False) s"
    using assms(3) by (simp add: persist_score_outputs_def require_absent_def write_new_def set_file_def
        sync_scoring_def wp_pure_call lines line)
  show ?thesis
    using wp_conj [OF returns persist_spec] by (rule wp_mono) auto
qed

text \<open>The status of a result is a valid one.\<close>

lemma score_status_valid:
  assumes "canonical_uuid rid" "0 \<le> ev_sim_timestamp_ns (last (sr_events r))"
  shows "status_post_init (score_status rid r) = Inr ()"
  using assms by (simp add: score_status_def score_finished_def score_failed_def status_post_init_def
      canonical_run_id_def fields_post_init_def failure_post_init_def require_timestamp_def
      valid_diagnostic_path_def split: option.splits)

lemma last_score_event:
  "ev_sim_timestamp_ns (last (score_events rid t types results)) = t"
  using score_event_stamp [OF last_in_set [OF score_events_not_Nil]] .

lemma report_calm:
  assumes "canonical_uuid rid" "sr_events r \<noteq> []" "0 \<le> ev_sim_timestamp_ns (last (sr_events r))"
    and "so_run_id so (fi_scorer s) = rid" "\<not> fi_failure_written s"
  shows "wp (report so calm r) (\<lambda>_ t. \<exists>fw. t = s\<lparr>fi_failure_written := fw,
      fi_log := fi_log s @ [WriteStatus (score_status rid r)]\<rparr>) (\<lambda>_ _. False) s"
proof (cases "sr_complete r")
  case True
  then have "status_post_init (score_finished rid r) = Inr ()"
    using score_status_valid [OF assms(1,3)] by (simp add: score_status_def)
  then show ?thesis
    using True assms by (auto simp: report_def write_status_def wp_pure_call finished_status_def
        score_status_def intro!: exI [of _ "fi_failure_written s"])
next
  case False
  then have "status_post_init (score_failed rid r) = Inr ()"
    using score_status_valid [OF assms(1,3)] by (simp add: score_status_def)
  then show ?thesis
    using False assms by (auto simp: report_def write_status_def wp_pure_call score_status_def
        intro!: exI [of _ True])
qed

lemma length_official: "length official_points = 7"
  by (simp add: official_points_def)

lemma competition_finalizes:
  assumes "ks_result k = None" "cr_points (ks_rules k) = official_points"
  obtains r where "competition_finalize L k = (Inr r, k\<lparr>ks_result := Some r\<rparr>)" "sr_events r \<noteq> []"
    "ev_sim_timestamp_ns (last (sr_events r)) = competition_last_timestamp k"
proof (rule that)
  let ?r = "projr (fst (competition_finalize L k))"
  show "competition_finalize L k = (Inr ?r, k\<lparr>ks_result := Some ?r\<rparr>)" "sr_events ?r \<noteq> []"
      "ev_sim_timestamp_ns (last (sr_events ?r)) = competition_last_timestamp k"
    using assms(1) length_official unfolding assms(2) [symmetric]
    by (simp_all add: competition_finalize_def Let_def last_score_event split: prod.splits)
qed

text \<open>With the official points every number of a score is finite.\<close>

lemma official_points_finite: "pts \<in> set official_points \<Longrightarrow> isfinite pts"
  by (auto simp: official_points_def)

lemma rule_result_points:
  "u \<in> set (rule_results ref_prefix ids points outcomes) \<Longrightarrow>
   ru_available_points u \<in> set points \<and> ru_awarded_points u \<in> {ru_available_points u, Fin 0}"
  by (auto simp: rule_results_def elim!: in_set_zipE)

lemma score_event_range:
  "e \<in> set (score_events rid t types results) \<Longrightarrow> ev_sim_timestamp_ns e = t
     \<and> ev_value e \<in> set (map ru_awarded_points results @ [achieved_points results])
     \<and> 0 \<le> ev_event_id e \<and> ev_event_id e \<le> int (length results)"
  by (auto simp: score_events_def simp del: upt_Suc elim!: in_set_zipE)

lemma official_maximum: "py_sum official_points = Fin 150"
  unfolding official_points_def by (subst py_sum_int) simp_all

lemma competition_json:
  assumes "competition_finalize L k = (Inr r, k')" and "ks_result k = None"
    and "cr_points (ks_rules k) = official_points" and "\<bar>competition_last_timestamp k\<bar> < 2 ^ 63"
  shows "json_result r"
proof (cases "competition_evaluate L k")
  case (fields outcomes finished diagnostic)
  let ?rows = "rule_results ''rosbag#competition:'' competition_rule_ids official_points outcomes"
  have "outcomes = first_rules 0 \<or> (\<exists>n\<le>7. outcomes = first_rules n)"
    using evaluate_outcomes [OF fields] rule_outcomes_chain [of L k] by (auto simp: first_rules_def)
  then obtain n where n: "n \<le> 7" "outcomes = first_rules n"
    by (metis zero_le)
  have r: "sr_rule_results r = ?rows" "sr_achieved_score r = achieved_points ?rows"
      "sr_maximum_available_score r = py_sum official_points"
      "sr_events r = score_events (ks_run_id k) (competition_last_timestamp k) competition_event_types ?rows"
    using assms(1-3) fields by (auto simp: competition_finalize_def Let_def split: if_splits)
  have total: "isfinite (achieved_points ?rows)"
    unfolding n(2) awarded_total [OF n(1)] by simp
  have row: "isfinite (ru_awarded_points u) \<and> isfinite (ru_available_points u)" if "u \<in> set ?rows" for u
    using rule_result_points [OF that] official_points_finite by auto
  have "isfinite v" if "v \<in> set (map ru_awarded_points ?rows @ [achieved_points ?rows])" for v
    using that total row by auto
  moreover have "length ?rows \<le> 7"
    by (simp add: competition_rule_ids_def)
  ultimately have "isfinite (ev_value e) \<and> \<bar>ev_sim_timestamp_ns e\<bar> < 2 ^ 63 \<and> \<bar>ev_event_id e\<bar> < 2 ^ 63"
    if "e \<in> set (sr_events r)" for e
    using score_event_range [OF that [unfolded r(4)]] assms(4) by force
  then show ?thesis
    using total row by (intro json_resultI) (simp_all add: r official_maximum)
qed

text \<open>
  C26. Without faults every score is reported. The encoder is any that accepts the documents
  without NaN and infinite floats, and the rules are the official ones. When no call to the
  outside raises, the run directory holds no score yet and the runtime has reported nothing, a
  finalization request returns, publishes the whole report of the score, writes the quiescence
  and leaves the runtime quiescent: every document of the score is one the encoder accepts.
\<close>

theorem finalization_reports:
  assumes "json_encoder encode" and "qr_finalizer s = f"
    and "fi_result f = None" and "\<not> fi_quiescent f" and "\<not> fi_failure_written f" and "fi_files f = (\<lambda>_. None)"
    and "canonical_uuid (ks_run_id (fi_scorer f))" and "ks_result (fi_scorer f) = None"
    and "cr_points (ks_rules (fi_scorer f)) = official_points"
    and "0 \<le> competition_last_timestamp (fi_scorer f)" and "competition_last_timestamp (fi_scorer f) < 2 ^ 63"
  shows "\<exists>r t. begin_finalization L encode calm s = (Inr (), t)
    \<and> fi_quiescent (qr_finalizer t) \<and> fi_result (qr_finalizer t) = Some r
    \<and> filter visible (fi_log (qr_finalizer t)) = filter visible (fi_log f)
        @ report_log (ks_run_id (fi_scorer f)) r @ [WriteQuiescence ''scorekeeper'']"
proof -
  have so_finalize: "so_finalize (competition_ops L) = competition_finalize L"
    by (simp add: competition_ops_def)
  let ?rid = "ks_run_id (fi_scorer f)"
  obtain r where r: "competition_finalize L (fi_scorer f) = (Inr r, fi_scorer f\<lparr>ks_result := Some r\<rparr>)"
      "sr_events r \<noteq> []" "ev_sim_timestamp_ns (last (sr_events r)) = competition_last_timestamp (fi_scorer f)"
    using competition_finalizes [OF assms(8,9)] by metis
  let ?f = "f\<lparr>fi_scorer := fi_scorer f\<lparr>ks_result := Some r\<rparr>\<rparr>"
  have persist: "wp (persist_score_outputs encode calm r) (\<lambda>_. later ?f) (\<lambda>_ _. False) ?f"
    using assms(1,6) competition_json [OF r(1) assms(8,9)] assms(10,11) by (intro persist_calm) simp_all
  have "wp (begin_finalization L encode calm) (\<lambda>_ t. fi_quiescent (qr_finalizer t)
      \<and> fi_result (qr_finalizer t) = Some r
      \<and> filter visible (fi_log (qr_finalizer t)) = filter visible (fi_log f)
          @ report_log ?rid r @ [WriteQuiescence ''scorekeeper'']) (\<lambda>_ _. False) s"
    unfolding begin_finalization_def finalizer_quiesce_def finalizer_finalize_def
    using assms(3-11) r
    by (auto simp: assms(2) wp_on_finalizer wp_scorer_call so_finalize later_sel report_log_def
        intro!: wp_mono [OF persist] wp_mono [OF report_calm [where rid = ?rid]])
  then show ?thesis
    by (rule wp_returns) auto
qed

section \<open>After an interruption\<close>

definition stuck :: "'k finalizer \<Rightarrow> score_action list \<Rightarrow> bool" where
  "stuck f seen \<longleftrightarrow> fi_result f = None \<and> \<not> fi_quiescent f \<and> fi_files f EventsFile \<noteq> None
     \<and> filter visible (fi_log f) = seen"

lemma stuck_later: "stuck f seen \<Longrightarrow> later f t \<Longrightarrow> stuck t seen"
  by (auto simp: stuck_def later_sel)

lemma stuck_scorer [simp]: "stuck (f\<lparr>fi_scorer := k\<rparr>) seen = stuck f seen"
  by (simp add: stuck_def)

lemma finalize_stuck:
  assumes "stuck f seen"
  shows "wp (finalizer_finalize so encode env source) (\<lambda>_ _. False) (\<lambda>_ t. stuck t seen) f"
proof -
  have call: "wp (scorer_call g) Q (\<lambda>_ t. stuck t seen) u"
    if "stuck u seen" "\<And>x t. stuck t seen \<Longrightarrow> Q x t" for g Q u
    using that by (auto simp: wp_scorer_call split: prod.splits sum.splits)
  have persist: "wp (persist_score_outputs encode env r) Q (\<lambda>_ t. stuck t seen) u" if "stuck u seen" for r Q u
  proof (rule wp_mono [OF persist_spec])
    show "Q x t" if "later u t \<and> fi_files u EventsFile = None \<and> stored encode r (fi_files t)" for x t
      using that \<open>stuck u seen\<close> by (simp add: stuck_def)
  qed (rule stuck_later [OF that])
  have "fi_result f = None"
    using assms by (simp add: stuck_def)
  then show ?thesis
    unfolding finalizer_finalize_def using assms by (auto intro!: call persist)
qed

lemma competition_stuck:
  assumes "stuck (qr_finalizer s) seen"
  shows "wp (competition_step L encode env x) (\<lambda>_ t. stuck (qr_finalizer t) seen)
    (\<lambda>_ t. stuck (qr_finalizer t) seen) s"
proof -
  have call: "wp (scorer_call g) (\<lambda>_ f. stuck f seen) (\<lambda>_ f. stuck f seen) (qr_finalizer s)" for g
    using assms by (auto simp: wp_scorer_call split: prod.splits sum.splits)
  have finalize: "wp (finalizer_finalize (competition_ops L) encode env source) Q (\<lambda>_ f. stuck f seen) (qr_finalizer s)"
    for source Q
    by (rule wp_mono [OF finalize_stuck [OF assms]]) simp_all
  show ?thesis
    using assms call finalize
    by (cases x) (auto simp: runtime_accept_ground_truth_def runtime_accept_payload_state_def
        runtime_accept_payload_event_def runtime_accept_mission_event_def runtime_fail_def finalizer_fail_def
        accept_source_finished_def begin_finalization_def finalizer_quiesce_def wp_observing wp_on_finalizer
        split: option.splits intro!: wp_mono [OF call])
qed

interpretation competition_stuck: invariant_machine "competition_step L encode env"
    "\<lambda>s. stuck (qr_finalizer s) seen" for L encode env seen
  by unfold_locales (rule wp_snd [OF competition_stuck])

text \<open>
  C27. An interrupted report is lost. Once the events file of the score was created and the
  finalization then raised, every later finalization request and every source-finished notice
  raises, whatever happens in between, and nothing more is published: neither a status nor the
  quiescence is ever written by this runtime.
\<close>

theorem interrupted_report_is_lost:
  assumes "fi_files (qr_finalizer s) EventsFile \<noteq> None" and "fi_result (qr_finalizer s) = None"
    and "\<not> fi_quiescent (qr_finalizer s)" and "t = snd (run_ops (competition_step L encode env) ops s)"
  shows "isl (fst (begin_finalization L encode env t)) \<and> isl (fst (accept_source_finished L encode env x t))
    \<and> fi_result (qr_finalizer t) = None \<and> \<not> fi_quiescent (qr_finalizer t)
    \<and> filter visible (fi_log (qr_finalizer t)) = filter visible (fi_log (qr_finalizer s))"
proof -
  have t: "stuck (qr_finalizer t) (filter visible (fi_log (qr_finalizer s)))"
    unfolding assms(4) using assms(1-3) by (intro competition_stuck.run_invar) (simp add: stuck_def)
  have raises: "isl (fst (m u))" if "wp m (\<lambda>_ _. False) (\<lambda>_ _. True) u" for m :: "('s, 'a) io" and u
    using that by (auto simp: wp_def split: prod.splits sum.splits)
  have "isl (fst (begin_finalization L encode env t))"
    using t by (intro raises)
      (auto simp: begin_finalization_def finalizer_quiesce_def wp_on_finalizer stuck_def [of "qr_finalizer t"]
        intro!: wp_mono [OF finalize_stuck [OF t]])
  moreover have "isl (fst (accept_source_finished L encode env x t))"
    by (intro raises)
      (auto simp: accept_source_finished_def wp_on_finalizer intro!: wp_mono [OF finalize_stuck [OF t]])
  ultimately show ?thesis
    using t by (simp add: stuck_def)
qed

end
