(* ===== verification/Score_Runtime_Examples.thy ===== *)
theory Score_Runtime_Examples
  imports Score_Examples Score_Runtime_Live
begin

text \<open>The runtimes on concrete scorers: the flight of \<open>Score\_Examples\<close>, and a descent.\<close>

section \<open>The flight\<close>

definition plain_line :: "pyval \<Rightarrow> string result" where
  "plain_line d = Inr ''line''"

definition flight_runtime :: "(score_file \<Rightarrow> file_content option) \<Rightarrow> competition_runtime" where
  "flight_runtime files = projr (CompetitionScorekeeperRuntime (VStr sample_run_id) (Some flight) files)"

lemma flight_runtime_made:
  "CompetitionScorekeeperRuntime (VStr sample_run_id) (Some flight) files = Inr (flight_runtime files)"
  "qr_finalizer (flight_runtime files) = ScoreFinalizer flight files"
  by (simp_all add: flight_runtime_def CompetitionScorekeeperRuntime_def canonical_run_id_def flight_eq)

lemma flight_last: "0 \<le> competition_last_timestamp flight"
proof -
  have "16 \<in> set (map gt_sim_timestamp_ns (ks_ground_truth flight))"
    by (simp add: flight_sel flight_times_def)
  then have "(16 :: int) \<le> competition_last_timestamp flight"
    unfolding competition_last_timestamp_def Let_def by (auto intro!: Max_ge)
  then show ?thesis by simp
qed

lemma flight_early: "competition_last_timestamp flight < 2 ^ 63"
proof -
  have "competition_last_timestamp flight \<le> 16"
    unfolding competition_last_timestamp_def Let_def
    by (simp add: flight_eq flight_times_def MISSION_SEQUENCE_def PAYLOAD_SEQUENCE_def)
  then show ?thesis by simp
qed

text \<open>An environment in which the first publication fails, every time.\<close>

definition no_publisher :: score_env where
  "no_publisher before a = (case a of Publish e \<Rightarrow> Some (RuntimeError ''publisher is gone'') | _ \<Rightarrow> None)"

lemma competition_reports_once_witness:
  "reported_once ks_run_id ks_result plain_line (qr_finalizer
     (snd (run_ops (competition_step flight_libm plain_line no_publisher)
       [SourceFinished (VInt 16), FailRun (VStr ''late''), BeginFinalization] (flight_runtime (\<lambda>_. None)))))"
  by (rule competition_reports_once [OF flight_runtime_made(1) refl])

lemma finalization_reports_witness:
  "\<exists>r t. begin_finalization flight_libm strict_line calm (flight_runtime (\<lambda>_. None)) = (Inr (), t)
     \<and> fi_quiescent (qr_finalizer t)
     \<and> filter visible (fi_log (qr_finalizer t)) = report_log sample_run_id r @ [WriteQuiescence ''scorekeeper'']"
proof -
  have "ks_run_id flight = sample_run_id"
    by (simp add: flight_eq)
  then show ?thesis
    using finalization_reports [OF strict_line_encodes flight_runtime_made(2), where L = flight_libm]
      flight_last flight_early
    by (auto simp: ScoreFinalizer_def flight_sel)
qed

lemma interrupted_report_is_lost_witness:
  "isl (fst (begin_finalization flight_libm plain_line calm
     (snd (run_ops (competition_step flight_libm plain_line calm) [BeginFinalization, SourceFinished (VInt 16)]
       (flight_runtime (\<lambda>_. Some Partial))))))"
  by (rule interrupted_report_is_lost [THEN conjunct1, OF _ _ _ refl])
    (simp_all add: flight_runtime_made ScoreFinalizer_def)

section \<open>A descent\<close>

definition still_descent :: descent_scorer where
  "still_descent =
     \<lparr>ds_run_id = sample_run_id,
      ds_rules = \<lparr>dr_ruleset_id = ''descent_v1'', dr_scoring_checksum = '''', dr_sample_interval_ns = 1,
        dr_marker_center_xy_m = [Fin 0, Fin 0], dr_rise_height_m = Fin 1, dr_touchdown_radius_m = Fin 1,
        dr_safe_preimpact_downward_speed_mps = Fin 1, dr_settled_duration_ns = 1,
        dr_settled_linear_speed_mps = Fin 1, dr_settled_max_tilt_degrees = Fin 1,
        dr_points = [Fin 25, Fin 25, Fin 25, Fin 25]\<rparr>,
      ds_expected = 1, ds_samples = [vehicle_sample 0], ds_diagnostic = None, ds_result = None\<rparr>"

lemma descent_reports_once_witness:
  "reported_once ds_run_id ds_result plain_line (dn_finalizer
     (snd (run_ops (descent_step flight_libm plain_line no_publisher)
       [DescentSourceFinished (VInt 0), BeginDescentFinalization]
       (projr (ScorekeeperRuntime (VStr sample_run_id) (Some still_descent) (\<lambda>_. None))))))"
proof (rule descent_reports_once [OF _ refl])
  show "ScorekeeperRuntime (VStr sample_run_id) (Some still_descent) (\<lambda>_. None)
      = Inr (projr (ScorekeeperRuntime (VStr sample_run_id) (Some still_descent) (\<lambda>_. None)))"
    by (simp add: ScorekeeperRuntime_def canonical_run_id_def still_descent_def)
qed

end
