(* ===== verification/Vfs_Contract.thy ===== *)
theory Vfs_Contract
  imports Score_Descent
begin

text \<open>
  The configuration of the 2027 competition, \<open>artifacts/vfs\_contract.py\<close>: the course, the
  scenario and their validation. A YAML document is given as the value \<open>yaml.safe\_load\<close> returns
  for it (\<open>None\<close> when it cannot be read); its mappings keep their order. Mappings of the result
  are association lists in the order of their insertion.
\<close>

section \<open>Configuration\<close>

text \<open>A decimal literal: \<open>n\<close> divided by a power of ten.\<close>

definition decimal :: "int \<Rightarrow> nat \<Rightarrow> pyfloat" where
  "decimal n k = round64 (of_int n / 10 ^ k)"

definition VFS_PROFILE :: string where
  "VFS_PROFILE = ''competition_2027_v1''"

definition VFS_PAYLOAD_IDS :: "int list" where
  "VFS_PAYLOAD_IDS = [2, 3, 4]"

record vfs_waypoint =
  wp_name :: string
  wp_x :: pyfloat
  wp_y :: pyfloat
  wp_role :: string
  wp_width :: "pyfloat option"
  wp_height :: "pyfloat option"
  wp_radius :: "pyfloat option"

definition center_xy_m :: "vfs_waypoint \<Rightarrow> pyfloat \<times> pyfloat" where
  "center_xy_m w = (wp_x w, wp_y w)"

definition waypoint_contains :: "libm \<Rightarrow> vfs_waypoint \<Rightarrow> pyfloat \<times> pyfloat \<Rightarrow> pyfloat \<Rightarrow> bool" where
  "waypoint_contains L w xy margin =
     (let dx = fsub (fst xy) (wp_x w); dy = fsub (snd xy) (wp_y w) in
      case wp_radius w of
        Some r \<Rightarrow> fle (fadd (lm_hypot L dx dy) margin) (fadd r (decimal 1 9))
      | None \<Rightarrow>
          (case (wp_width w, wp_height w) of
             (Some wd, Some ht) \<Rightarrow>
               fle (fadd (fabs dx) margin) (fadd (half wd) (decimal 1 9))
               \<and> fle (fadd (fabs dy) margin) (fadd (half ht) (decimal 1 9))
           | _ \<Rightarrow> fle (lm_hypot L dx dy) (decimal 1 9) \<and> margin = Fin 0))"

record vfs_attempt =
  va_duration_seconds :: pyfloat
  va_acquisition_agl_m :: pyfloat
  va_transit_agl_m :: pyfloat
  va_release_agl_m :: pyfloat
  va_minimum_agl_m :: pyfloat
  va_inspection_timeout_s :: pyfloat
  va_approval_timeout_s :: pyfloat
  va_initial_wait_timeout_s :: pyfloat
  va_recovery_timeout_s :: pyfloat
  va_ground_contact_epsilon_m :: pyfloat
  va_aircraft_radius_m :: pyfloat

definition ATTEMPT_FIELDS :: "string list" where
  "ATTEMPT_FIELDS = [''duration_seconds'', ''acquisition_agl_m'', ''transit_agl_m'', ''release_agl_m'',
     ''minimum_agl_m'', ''inspection_timeout_s'', ''approval_timeout_s'', ''initial_wait_timeout_s'',
     ''recovery_timeout_s'', ''ground_contact_epsilon_m'', ''aircraft_radius_m'']"

record vfs_course =
  vc_waypoints :: "(string, vfs_waypoint) dict"
  vc_attempt :: vfs_attempt
  vc_ground_z_m :: pyfloat

record vfs_payload_geometry =
  vg_size_m :: "pyfloat list"
  vg_water_mass_kg :: pyfloat
  vg_tare_mass_kg :: pyfloat
  vg_marker_size_m :: pyfloat

definition total_mass_kg :: "vfs_payload_geometry \<Rightarrow> pyfloat" where
  "total_mass_kg g = fadd (vg_water_mass_kg g) (vg_tare_mass_kg g)"

record vfs_camera =
  vm_width_px :: int
  vm_height_px :: int
  vm_update_rate_hz :: int
  vm_horizontal_fov_rad :: pyfloat
  vm_body_position_m :: "pyfloat list"

record vfs_payload_interaction =
  vi_pickup_max_center_error_m :: pyfloat
  vi_settle_position_tolerance_m :: pyfloat
  vi_settle_time_s :: pyfloat

definition INTERACTION_FIELDS :: "string list" where
  "INTERACTION_FIELDS = [''pickup_max_center_error_m'', ''settle_position_tolerance_m'', ''settle_time_s'']"

record vfs_payload =
  vp_aruco_id :: int
  vp_color :: string
  vp_initial :: string
  vp_delivery :: string
  vp_release_offset_xy_m :: "pyfloat list"

record vfs_scenario =
  vs_seed :: int
  vs_aircraft_empty_mass_kg :: pyfloat
  vs_camera :: vfs_camera
  vs_range_update_rate_hz :: int
  vs_payload_interaction :: vfs_payload_interaction
  vs_payload_geometry :: vfs_payload_geometry
  vs_payloads :: "vfs_payload list"
  vs_targets :: "(int, string) dict"
  vs_assumptions :: "(string, bool) dict"
  vs_payload_capacity :: int

definition payload_of :: "vfs_scenario \<Rightarrow> int \<Rightarrow> vfs_payload result" where
  "payload_of s aruco_id =
     (case find (\<lambda>p. vp_aruco_id p = aruco_id) (vs_payloads s) of
        Some p \<Rightarrow> Inr p
      | None \<Rightarrow> Inl (ValueError (''unknown payload ID: '' @ str_int aruco_id)))"

section \<open>Readers\<close>

definition refuse :: "bool \<Rightarrow> string \<Rightarrow> unit result" where
  "refuse bad message = guard bad (ValueError message)"

text \<open>The value of a key of a mapping; the sources ask only for keys they have checked.\<close>

definition entry :: "(pyval \<times> pyval) list \<Rightarrow> string \<Rightarrow> pyval" where
  "entry d k = (case map_of d (VStr k) of Some v \<Rightarrow> v | None \<Rightarrow> VNone)"

definition vfs_object :: "pyval \<Rightarrow> string list \<Rightarrow> string \<Rightarrow> (pyval \<times> pyval) list result" where
  "vfs_object v ks name =
     (case v of
        VDict d \<Rightarrow> if has_keys d ks then Inr d else Inl (ValueError (name @ '' has missing or unknown fields''))
      | _ \<Rightarrow> Inl (ValueError (name @ '' has missing or unknown fields'')))"

definition vfs_number :: "bool \<Rightarrow> string \<Rightarrow> pyval \<Rightarrow> pyfloat result" where
  "vfs_number positive name v =
     (if \<not> is_number v then Inl (ValueError (name @ '' must be a finite number''))
      else
        rbind (py_isfinite v) (\<lambda>ok.
        rbind (refuse (\<not> ok) (name @ '' must be a finite number'')) (\<lambda>_.
        rbind (float_of v) (\<lambda>x.
        rbind (refuse (positive \<and> fle x (Fin 0)) (name @ '' must be positive'')) (\<lambda>_. Inr x)))))"

definition vfs_vector :: "bool \<Rightarrow> string \<Rightarrow> nat \<Rightarrow> pyval \<Rightarrow> pyfloat list result" where
  "vfs_vector positive name n v =
     (let bad = Inl (ValueError (name @ '' must have '' @ str_int (int n) @ '' coordinates''));
          vector = (\<lambda>xs. if length xs \<noteq> n then bad else each (vfs_number positive name) xs)
      in case v of VList xs \<Rightarrow> vector xs | VTuple xs \<Rightarrow> vector xs | _ \<Rightarrow> bad)"

text \<open>Named numbers, read in the order of the document.\<close>

definition vfs_numbers :: "(pyval \<times> pyval) list \<Rightarrow> (string, pyfloat) dict result" where
  "vfs_numbers d = each (\<lambda>(k, v).
     (case strict_str k of
        None \<Rightarrow> Inl KeyError
      | Some name \<Rightarrow> rbind (vfs_number True name v) (\<lambda>x. Inr (name, x)))) d"

definition number_of :: "(string, pyfloat) dict \<Rightarrow> string \<Rightarrow> pyfloat" where
  "number_of d k = (case map_of d k of Some x \<Rightarrow> x | None \<Rightarrow> NaN)"

definition optional_number :: "(pyval \<times> pyval) list \<Rightarrow> string \<Rightarrow> string \<Rightarrow> pyfloat option result" where
  "optional_number d k name =
     (if VStr k \<in> set (dict_keys d) then rbind (vfs_number True name (entry d k)) (\<lambda>x. Inr (Some x))
      else Inr None)"

section \<open>The course\<close>

definition COURSE_WAYPOINTS :: "string list" where
  "COURSE_WAYPOINTS = [''H'', ''S'', ''D'', ''L'', ''A'', ''B'', ''C'', ''P2'', ''P3'', ''P4'', ''L2'', ''L3'', ''L4'']"

definition nonempty_role :: "pyval \<Rightarrow> string option" where
  "nonempty_role v = (case strict_str v of Some r \<Rightarrow> if r = [] then None else Some r | None \<Rightarrow> None)"

text \<open>An entry of the waypoint mapping.\<close>

definition read_waypoint :: "pyval \<times> pyval \<Rightarrow> (string \<times> vfs_waypoint) result" where
  "read_waypoint kv =
     (case kv of
        (VStr name, VDict d) \<Rightarrow>
          (let extras = set (dict_keys d) - {VStr ''x'', VStr ''y'', VStr ''role''} in
           rbind (refuse (name = []) ''invalid VFS waypoint'') (\<lambda>_.
           rbind (refuse (\<not> {VStr ''x'', VStr ''y'', VStr ''role''} \<subseteq> set (dict_keys d)
                   \<or> extras \<notin> {{}, {VStr ''radius''}, {VStr ''width'', VStr ''height''}})
                 (''invalid waypoint geometry: '' @ name)) (\<lambda>_.
           case nonempty_role (entry d ''role'') of
             None \<Rightarrow> Inl (ValueError ''waypoint role must be nonempty'')
           | Some role \<Rightarrow>
               rbind (vfs_number False name (entry d ''x'')) (\<lambda>x.
               rbind (vfs_number False name (entry d ''y'')) (\<lambda>y.
               rbind (optional_number d ''width'' name) (\<lambda>width.
               rbind (optional_number d ''height'' name) (\<lambda>height.
               rbind (optional_number d ''radius'' name) (\<lambda>radius.
                 Inr (name, \<lparr>wp_name = name, wp_x = x, wp_y = y, wp_role = role, wp_width = width,
                   wp_height = height, wp_radius = radius\<rparr>)))))))))
      | _ \<Rightarrow> Inl (ValueError ''invalid VFS waypoint''))"

definition waypoint_named :: "(string, vfs_waypoint) dict \<Rightarrow> string \<Rightarrow> vfs_waypoint result" where
  "waypoint_named ws name = (case map_of ws name of Some w \<Rightarrow> Inr w | None \<Rightarrow> Inl KeyError)"

lemma waypoint_named_eq_Inr [simp]: "waypoint_named ws name = Inr w \<longleftrightarrow> map_of ws name = Some w"
  by (simp add: waypoint_named_def split: option.splits)

definition radius_or_zero :: "vfs_waypoint \<Rightarrow> pyfloat" where
  "radius_or_zero w = (case wp_radius w of Some r \<Rightarrow> r | None \<Rightarrow> Fin 0)"

text \<open>The checks on the waypoints of a course.\<close>

definition check_waypoints :: "libm \<Rightarrow> (string, vfs_waypoint) dict \<Rightarrow> unit result" where
  "check_waypoints L ws =
     rbind (each (\<lambda>name. rbind (waypoint_named ws name) (\<lambda>w.
       refuse (wp_radius w = None) (name @ '' must be circular''))) [''H'', ''A'', ''B'', ''C'']) (\<lambda>_.
     rbind (each (\<lambda>name. rbind (waypoint_named ws name) (\<lambda>w.
       refuse (wp_width w = None) (name @ '' must be rectangular''))) [''S'', ''D'', ''L'']) (\<lambda>_.
     rbind (waypoint_named ws ''H'') (\<lambda>home.
     rbind (waypoint_named ws ''S'') (\<lambda>start.
     rbind (refuse (center_xy_m home \<noteq> (Fin 0, Fin 0)
               \<or> \<not> waypoint_contains L start (Fin 0, Fin 0) (radius_or_zero home))
             ''H must be the origin and fully inside S'') (\<lambda>_.
     rbind (waypoint_named ws ''D'') (\<lambda>drop.
     rbind (each (\<lambda>name. rbind (waypoint_named ws name) (\<lambda>w.
       refuse (\<not> waypoint_contains L drop (center_xy_m w) (radius_or_zero w))
         (name @ '' must be fully inside D''))) [''A'', ''B'', ''C'']) (\<lambda>_. Inr ())))))))"

definition read_attempt :: "pyval \<Rightarrow> vfs_attempt result" where
  "read_attempt v =
     rbind (vfs_object v ATTEMPT_FIELDS ''attempt'') (\<lambda>d.
     rbind (vfs_numbers d) (\<lambda>ns.
     let a = \<lparr>va_duration_seconds = number_of ns ''duration_seconds'',
           va_acquisition_agl_m = number_of ns ''acquisition_agl_m'',
           va_transit_agl_m = number_of ns ''transit_agl_m'', va_release_agl_m = number_of ns ''release_agl_m'',
           va_minimum_agl_m = number_of ns ''minimum_agl_m'',
           va_inspection_timeout_s = number_of ns ''inspection_timeout_s'',
           va_approval_timeout_s = number_of ns ''approval_timeout_s'',
           va_initial_wait_timeout_s = number_of ns ''initial_wait_timeout_s'',
           va_recovery_timeout_s = number_of ns ''recovery_timeout_s'',
           va_ground_contact_epsilon_m = number_of ns ''ground_contact_epsilon_m'',
           va_aircraft_radius_m = number_of ns ''aircraft_radius_m''\<rparr>
     in rbind (refuse (va_duration_seconds a \<noteq> Fin 600 \<or> va_minimum_agl_m a \<noteq> decimal 9144 3)
             ''VFS flight limit must be 600 s and minimum altitude 9.144 m'') (\<lambda>_.
        rbind (refuse (flt (py_min (va_transit_agl_m a) (va_release_agl_m a)) (va_minimum_agl_m a))
             ''transit and release heights must meet the minimum altitude'') (\<lambda>_. Inr a))))"

definition validate_vfs_course :: "libm \<Rightarrow> pyval \<Rightarrow> vfs_course result" where
  "validate_vfs_course L document =
     rbind (vfs_object document [''schema_version'', ''profile'', ''units'', ''origin'', ''waypoints'', ''attempt'']
              ''course'') (\<lambda>doc.
     rbind (refuse (entry doc ''schema_version'' \<noteq> VInt 1 \<or> entry doc ''profile'' \<noteq> VStr VFS_PROFILE)
              ''unsupported VFS course profile/version'') (\<lambda>_.
     rbind (refuse (entry doc ''units'' \<noteq> VStr ''meters'' \<or> entry doc ''origin'' \<noteq> VStr ''H'')
              ''VFS course uses metres and H origin'') (\<lambda>_.
     case entry doc ''waypoints'' of
       VDict raw \<Rightarrow>
         rbind (refuse (\<not> set (map VStr COURSE_WAYPOINTS) \<subseteq> set (dict_keys raw))
                  ''VFS course is missing required waypoints'') (\<lambda>_.
         rbind (each read_waypoint raw) (\<lambda>ws.
         rbind (check_waypoints L ws) (\<lambda>_.
         rbind (read_attempt (entry doc ''attempt'')) (\<lambda>attempt.
           Inr \<lparr>vc_waypoints = ws, vc_attempt = attempt, vc_ground_z_m = Fin 0\<rparr>))))
     | _ \<Rightarrow> Inl (ValueError ''VFS course is missing required waypoints''))))"

section \<open>The scenario\<close>

definition read_camera :: "pyval \<Rightarrow> vfs_camera result" where
  "read_camera v =
     rbind (vfs_object v [''width_px'', ''height_px'', ''update_rate_hz'', ''horizontal_fov_rad'',
              ''body_position_m''] ''camera'') (\<lambda>d.
     rbind (refuse (entry d ''width_px'' \<noteq> VInt 640 \<or> entry d ''height_px'' \<noteq> VInt 480
               \<or> entry d ''update_rate_hz'' \<noteq> VInt 20) ''VFS camera must be 640x480 at 20 Hz'') (\<lambda>_.
     rbind (vfs_vector False ''camera body position'' 3 (entry d ''body_position_m'')) (\<lambda>body.
     rbind (vfs_number True ''camera FOV'' (entry d ''horizontal_fov_rad'')) (\<lambda>fov.
     rbind (refuse (fle (decimal 3141592653589793 15) fov) ''camera FOV must be below pi'') (\<lambda>_.
       Inr \<lparr>vm_width_px = 640, vm_height_px = 480, vm_update_rate_hz = 20,
         vm_horizontal_fov_rad = fov, vm_body_position_m = body\<rparr>)))))"

definition read_interaction :: "pyval \<Rightarrow> vfs_payload_interaction result" where
  "read_interaction v =
     rbind (vfs_object v INTERACTION_FIELDS ''payload interaction'') (\<lambda>d.
     rbind (vfs_numbers d) (\<lambda>ns.
       Inr \<lparr>vi_pickup_max_center_error_m = number_of ns ''pickup_max_center_error_m'',
         vi_settle_position_tolerance_m = number_of ns ''settle_position_tolerance_m'',
         vi_settle_time_s = number_of ns ''settle_time_s''\<rparr>))"

definition read_geometry :: "pyval \<Rightarrow> vfs_payload_geometry result" where
  "read_geometry v =
     rbind (vfs_object v [''size_m'', ''water_mass_kg'', ''tare_mass_kg'', ''marker_size_m''] ''payload geometry'') (\<lambda>d.
     rbind (vfs_vector True ''payload size'' 3 (entry d ''size_m'')) (\<lambda>size.
     rbind (vfs_number True ''water mass'' (entry d ''water_mass_kg'')) (\<lambda>water.
     rbind (vfs_number True ''tare mass'' (entry d ''tare_mass_kg'')) (\<lambda>tare.
     rbind (vfs_number True ''marker size'' (entry d ''marker_size_m'')) (\<lambda>marker.
     rbind (refuse (flt water (decimal 136077711 8)
               \<or> flt (decimal 12192 4) (py_max (py_max (size ! 0) (size ! 1)) (size ! 2)))
              ''payload must contain at least 3 lb water and fit inside 4 ft'') (\<lambda>_.
     rbind (refuse (marker \<noteq> decimal 1 1 \<or> flt (py_min (size ! 0) (size ! 1)) marker)
              ''VFS payload marker must be 100 mm and fit the container'') (\<lambda>_.
       Inr \<lparr>vg_size_m = size, vg_water_mass_kg = water, vg_tare_mass_kg = tare,
         vg_marker_size_m = marker\<rparr>)))))))"

text \<open>Membership in a set of strings, which hashes the value first.\<close>

definition among :: "pyval \<Rightarrow> string list \<Rightarrow> bool result" where
  "among v names =
     (if hashable v then Inr (v \<in> set (map VStr names)) else Inl (TypeError ''unhashable type''))"

definition read_payload :: "pyval \<Rightarrow> vfs_payload result" where
  "read_payload v =
     rbind (vfs_object v [''aruco_id'', ''color'', ''initial'', ''delivery'', ''release_offset_xy_m''] ''payload'') (\<lambda>d.
     case strict_int (entry d ''aruco_id'') of
       None \<Rightarrow> Inl (ValueError ''VFS payload IDs must be 2, 3 and 4'')
     | Some aruco_id \<Rightarrow>
         rbind (refuse (aruco_id \<notin> set VFS_PAYLOAD_IDS) ''VFS payload IDs must be 2, 3 and 4'') (\<lambda>_.
         rbind (among (entry d ''color'') [''red'', ''yellow'', ''blue'']) (\<lambda>known.
         case (strict_str (entry d ''color''), nonempty_role (entry d ''initial''),
               nonempty_role (entry d ''delivery'')) of
           (Some color, Some initial, Some delivery) \<Rightarrow>
             rbind (refuse (\<not> known) ''invalid payload color or waypoint reference'') (\<lambda>_.
             rbind (vfs_vector False ''release offset'' 2 (entry d ''release_offset_xy_m'')) (\<lambda>offset.
               Inr \<lparr>vp_aruco_id = aruco_id, vp_color = color, vp_initial = initial,
                 vp_delivery = delivery, vp_release_offset_xy_m = offset\<rparr>))
         | _ \<Rightarrow> Inl (ValueError ''invalid payload color or waypoint reference''))))"

definition target_key :: "pyval \<Rightarrow> int result" where
  "target_key k =
     (case k of
        VInt i \<Rightarrow> Inr i
      | VStr s \<Rightarrow>
          if s = ''2'' then Inr 2 else if s = ''3'' then Inr 3 else if s = ''4'' then Inr 4
          else Inl (ValueError ''target keys must be payload IDs'')
      | _ \<Rightarrow> Inl (ValueError ''target keys must be payload IDs''))"

fun read_targets :: "(int, string) dict \<Rightarrow> (pyval \<times> pyval) list \<Rightarrow> (int, string) dict result" where
  "read_targets targets [] = Inr targets"
| "read_targets targets ((k, v) # rest) =
     rbind (target_key k) (\<lambda>payload_id.
       if payload_id \<notin> set VFS_PAYLOAD_IDS \<or> payload_id \<in> set (dict_keys targets) then
         Inl (ValueError ''targets must assign A, B or C once to each payload'')
       else
         rbind (among v [''A'', ''B'', ''C'']) (\<lambda>known.
         case strict_str v of
           None \<Rightarrow> Inl (ValueError ''targets must assign A, B or C once to each payload'')
         | Some name \<Rightarrow>
             rbind (refuse (\<not> known) ''targets must assign A, B or C once to each payload'') (\<lambda>_.
               read_targets (targets @ [(payload_id, name)]) rest)))"

definition ASSUMPTIONS :: "(string, bool) dict" where
  "ASSUMPTIONS = [(''rigid_containers'', True), (''liquid_and_breakage_simulated'', False),
     (''failed_payloads_physically_removed'', False), (''ground_mission_simulated'', False)]"

definition read_assumptions :: "pyval \<Rightarrow> (string, bool) dict result" where
  "read_assumptions v =
     rbind (vfs_object v (map fst ASSUMPTIONS) ''assumptions'') (\<lambda>d.
     rbind (refuse (list_ex (\<lambda>(name, b). entry d name \<noteq> VBool b) ASSUMPTIONS)
              ''unsupported VFS physical assumptions'') (\<lambda>_.
       Inr (map (\<lambda>(k, v). (case k of VStr s \<Rightarrow> s | _ \<Rightarrow> [], v = VBool True)) d)))"

definition validate_vfs_scenario :: "pyval \<Rightarrow> vfs_scenario result" where
  "validate_vfs_scenario document =
     rbind (vfs_object document [''schema_version'', ''profile'', ''seed'', ''vehicle'', ''camera'', ''range_sensor'',
       ''payload_interaction'', ''payload_geometry'', ''payloads'', ''mission'', ''assumptions''] ''scenario'') (\<lambda>doc.
     rbind (refuse (entry doc ''schema_version'' \<noteq> VInt 1 \<or> entry doc ''profile'' \<noteq> VStr VFS_PROFILE)
              ''unsupported VFS scenario profile/version'') (\<lambda>_.
     case strict_int (entry doc ''seed'') of
       None \<Rightarrow> Inl (ValueError ''scenario seed must be an unsigned 32-bit integer'')
     | Some seed \<Rightarrow>
         rbind (refuse (seed < 0 \<or> 0xFFFFFFFF < seed) ''scenario seed must be an unsigned 32-bit integer'') (\<lambda>_.
         rbind (vfs_object (entry doc ''vehicle'') [''payload_capacity'', ''aircraft_empty_mass_kg''] ''vehicle'') (\<lambda>vehicle.
         rbind (refuse (entry vehicle ''payload_capacity'' \<noteq> VInt 1) ''VFS payload capacity must be one'') (\<lambda>_.
         rbind (read_camera (entry doc ''camera'')) (\<lambda>camera.
         rbind (vfs_object (entry doc ''range_sensor'') [''update_rate_hz''] ''range sensor'') (\<lambda>range_doc.
         rbind (refuse (entry range_doc ''update_rate_hz'' \<noteq> VInt 20) ''VFS range sensor must run at 20 Hz'') (\<lambda>_.
         rbind (read_interaction (entry doc ''payload_interaction'')) (\<lambda>interaction.
         rbind (read_geometry (entry doc ''payload_geometry'')) (\<lambda>geometry.
         case entry doc ''payloads'' of
           VList raw \<Rightarrow>
             rbind (refuse (length raw \<noteq> 3) ''VFS requires three payloads'') (\<lambda>_.
             rbind (each read_payload raw) (\<lambda>payloads.
             rbind (refuse (sort (map vp_aruco_id payloads) \<noteq> VFS_PAYLOAD_IDS) ''VFS payload IDs must be unique'') (\<lambda>_.
             rbind (vfs_object (entry doc ''mission'') [''targets''] ''mission'') (\<lambda>mission.
             case entry mission ''targets'' of
               VDict raw_targets \<Rightarrow>
                 rbind (read_targets [] raw_targets) (\<lambda>targets.
                 rbind (refuse (set (dict_keys targets) \<noteq> set VFS_PAYLOAD_IDS) ''targets must include each payload'') (\<lambda>_.
                 rbind (read_assumptions (entry doc ''assumptions'')) (\<lambda>assumptions.
                 rbind (vfs_number True ''empty aircraft mass'' (entry vehicle ''aircraft_empty_mass_kg'')) (\<lambda>mass.
                   Inr \<lparr>vs_seed = seed, vs_aircraft_empty_mass_kg = mass, vs_camera = camera,
                     vs_range_update_rate_hz = 20, vs_payload_interaction = interaction,
                     vs_payload_geometry = geometry, vs_payloads = payloads, vs_targets = targets,
                     vs_assumptions = assumptions, vs_payload_capacity = 1\<rparr>))))
             | _ \<Rightarrow> Inl (ValueError ''targets must be an object'')))))
         | _ \<Rightarrow> Inl (ValueError ''VFS requires three payloads'')))))))))))"

section \<open>Course and scenario together\<close>

definition payload_target_xy :: "vfs_course \<Rightarrow> vfs_scenario \<Rightarrow> int \<Rightarrow> (pyfloat \<times> pyfloat) result" where
  "payload_target_xy course scenario aruco_id =
     rbind (payload_of scenario aruco_id) (\<lambda>payload.
       case map_of (vs_targets scenario) aruco_id of
         None \<Rightarrow> Inl KeyError
       | Some name \<Rightarrow>
           rbind (waypoint_named (vc_waypoints course) name) (\<lambda>point.
             Inr (fadd (wp_x point) (vp_release_offset_xy_m payload ! 0),
                  fadd (wp_y point) (vp_release_offset_xy_m payload ! 1))))"

definition resolve_waypoint_xy :: "vfs_course \<Rightarrow> vfs_scenario \<Rightarrow> string option \<Rightarrow> int option
    \<Rightarrow> (pyfloat \<times> pyfloat) result" where
  "resolve_waypoint_xy course scenario name payload_target =
     (case (name, payload_target) of
        (None, Some aruco_id) \<Rightarrow> payload_target_xy course scenario aruco_id
      | (Some n, None) \<Rightarrow>
          (case map_of (vc_waypoints course) n of
             None \<Rightarrow> Inl (ValueError (''unknown course waypoint: '' @ n))
           | Some w \<Rightarrow> Inr (center_xy_m w))
      | _ \<Rightarrow> Inl (ValueError ''choose exactly one waypoint or payload target''))"

definition check_payload :: "libm \<Rightarrow> vfs_course \<Rightarrow> vfs_scenario \<Rightarrow> pyfloat \<Rightarrow> vfs_payload \<Rightarrow> unit result" where
  "check_payload L course scenario margin p =
     (let ws = vc_waypoints course in
      case (map_of ws (vp_initial p), map_of ws (vp_delivery p)) of
        (Some initial, Some delivery) \<Rightarrow>
          rbind (waypoint_named ws ''S'') (\<lambda>start.
          rbind (waypoint_named ws ''H'') (\<lambda>home.
          rbind (refuse (\<not> waypoint_contains L start (center_xy_m initial) margin
                    \<or> waypoint_contains L home (center_xy_m initial) (fneg margin))
                   ''initial payloads must fit in S outside H'') (\<lambda>_.
          rbind (waypoint_named ws ''L'') (\<lambda>landing_zone.
          rbind (refuse (\<not> waypoint_contains L landing_zone (center_xy_m delivery) margin)
                   ''delivery points must fit in L'') (\<lambda>_.
          rbind (payload_target_xy course scenario (vp_aruco_id p)) (\<lambda>target.
          case map_of (vs_targets scenario) (vp_aruco_id p) of
            None \<Rightarrow> Inl KeyError
          | Some name \<Rightarrow>
              rbind (waypoint_named ws name) (\<lambda>zone.
                refuse (\<not> waypoint_contains L zone target margin)
                  ''release offset does not fit the selected target'')))))))
      | _ \<Rightarrow> Inl (ValueError ''payload references an unknown waypoint''))"

definition validate_vfs_configuration :: "libm \<Rightarrow> vfs_course \<Rightarrow> vfs_scenario \<Rightarrow> unit result" where
  "validate_vfs_configuration L course scenario =
     (let size = vg_size_m (vs_payload_geometry scenario);
          margin = half (lm_hypot L (size ! 0) (size ! 1))
      in rbind (each (check_payload L course scenario margin) (vs_payloads scenario)) (\<lambda>_. Inr ()))"

end
