(* ===== verification/Vfs_Contract_Props.thy ===== *)
theory Vfs_Contract_Props
  imports Vfs_Contract
begin

text \<open>
  What a validated configuration is: the shapes and places of the waypoints, the identities and
  targets of the payloads, and that every payload has a resolved place that fits its target.
\<close>

section \<open>Scenarios\<close>

definition valid_targets :: "vfs_scenario \<Rightarrow> bool" where
  "valid_targets sc \<longleftrightarrow> dict_ok (vs_targets sc) \<and> set (dict_keys (vs_targets sc)) = set VFS_PAYLOAD_IDS
     \<and> snd ` set (vs_targets sc) \<subseteq> {''A'', ''B'', ''C''}"

lemma refuse_eq_Inr [simp]: "refuse bad message = Inr u \<longleftrightarrow> \<not> bad"
  by (simp add: refuse_def)

text \<open>The branches of a value that may be an object, a list or a string.\<close>

lemma case_Inr [simp]:
  "(case v of VDict d \<Rightarrow> f d | _ \<Rightarrow> Inl e) = Inr y \<longleftrightarrow> (\<exists>d. v = VDict d \<and> f d = Inr y)"
  "(case v of VList xs \<Rightarrow> g xs | _ \<Rightarrow> Inl e) = Inr y \<longleftrightarrow> (\<exists>xs. v = VList xs \<and> g xs = Inr y)"
  "(case x of None \<Rightarrow> Inl e | Some a \<Rightarrow> h a) = Inr y \<longleftrightarrow> (\<exists>a. x = Some a \<and> h a = Inr y)"
  by (auto split: pyval.splits option.splits)

lemma each_Inr_set: "each f xs = Inr ys \<Longrightarrow> x \<in> set xs \<Longrightarrow> \<exists>y\<in>set ys. f x = Inr y"
  by (induction xs arbitrary: ys) auto

lemma each_Inr_length: "each f xs = Inr ys \<Longrightarrow> length ys = length xs"
  by (induction xs arbitrary: ys) auto

lemma read_targets_ok:
  assumes "read_targets targets raw = Inr result" and "dict_ok targets"
    and "snd ` set targets \<subseteq> {''A'', ''B'', ''C''}"
  shows "dict_ok result \<and> snd ` set result \<subseteq> {''A'', ''B'', ''C''}"
  using assms
proof (induction targets raw rule: read_targets.induct)
  case (1 targets)
  then show ?case by simp
next
  case (2 targets k v rest)
  then obtain i name where i: "target_key k = Inr i" "i \<in> set VFS_PAYLOAD_IDS" "i \<notin> set (dict_keys targets)"
    and v: "v = VStr name" "among v [''A'', ''B'', ''C''] = Inr True"
    and rest: "read_targets (targets @ [(i, name)]) rest = Inr result"
    by (auto simp: among_def split: if_splits option.splits)
  have n: "name \<in> {''A'', ''B'', ''C''}"
    using v by (auto simp: among_def split: if_splits)
  show ?case
    using "2.IH" [of i name] rest i v n "2.prems"(2,3) by (auto simp: image_iff)
qed

lemma validated_ids:
  "validate_vfs_scenario document = Inr sc \<Longrightarrow> sort (map vp_aruco_id (vs_payloads sc)) = VFS_PAYLOAD_IDS"
  unfolding validate_vfs_scenario_def by auto

lemma validated_targets:
  assumes "validate_vfs_scenario document = Inr sc"
  shows "valid_targets sc"
proof -
  obtain raw where t: "read_targets [] raw = Inr (vs_targets sc)"
    and k: "set (dict_keys (vs_targets sc)) = set VFS_PAYLOAD_IDS"
    using assms unfolding validate_vfs_scenario_def
    by auto
  then show ?thesis
    using read_targets_ok [OF t] by (simp add: valid_targets_def)
qed

text \<open>
  A scenario the validation accepts has the payloads 2, 3 and 4, each once, and assigns each of
  them one of the targets A, B and C; its seed is an unsigned 32-bit number and the vehicle carries
  one payload.
\<close>

theorem validated_scenario_well_formed:
  assumes "validate_vfs_scenario document = Inr sc"
  shows "valid_targets sc \<and> sort (map vp_aruco_id (vs_payloads sc)) = VFS_PAYLOAD_IDS
    \<and> 0 \<le> vs_seed sc \<and> vs_seed sc < 2 ^ 32 \<and> vs_payload_capacity sc = 1"
  using assms validated_targets [OF assms] unfolding validate_vfs_scenario_def
  by auto

section \<open>Courses\<close>

definition is_circle :: "vfs_course \<Rightarrow> string \<Rightarrow> bool" where
  "is_circle course name \<longleftrightarrow> (\<exists>w. map_of (vc_waypoints course) name = Some w \<and> wp_radius w \<noteq> None)"

definition is_rectangle :: "vfs_course \<Rightarrow> string \<Rightarrow> bool" where
  "is_rectangle course name \<longleftrightarrow> (\<exists>w. map_of (vc_waypoints course) name = Some w \<and> wp_width w \<noteq> None)"

lemma read_attempt_limits:
  "read_attempt v = Inr a \<Longrightarrow> va_duration_seconds a = Fin 600 \<and> va_minimum_agl_m a = decimal 9144 3"
  by (auto simp: read_attempt_def Let_def)

text \<open>
  A course the validation accepts has H at the origin, a circle inside the start zone, and
  circular targets inside the drop zone; the flight limits are the official ones.
\<close>

theorem validated_course_well_formed:
  assumes "validate_vfs_course L document = Inr course"
  shows "(\<forall>name\<in>set [''H'', ''A'', ''B'', ''C'']. is_circle course name)
    \<and> (\<forall>name\<in>set [''S'', ''D'', ''L'']. is_rectangle course name)
    \<and> (\<exists>h s. map_of (vc_waypoints course) ''H'' = Some h \<and> map_of (vc_waypoints course) ''S'' = Some s
         \<and> center_xy_m h = (Fin 0, Fin 0) \<and> waypoint_contains L s (Fin 0, Fin 0) (radius_or_zero h))
    \<and> (\<forall>name\<in>set [''A'', ''B'', ''C'']. \<exists>w d. map_of (vc_waypoints course) name = Some w
         \<and> map_of (vc_waypoints course) ''D'' = Some d \<and> waypoint_contains L d (center_xy_m w) (radius_or_zero w))
    \<and> va_duration_seconds (vc_attempt course) = Fin 600
    \<and> va_minimum_agl_m (vc_attempt course) = decimal 9144 3"
proof -
  obtain ws doc where ws: "check_waypoints L ws = Inr ()" "vc_waypoints course = ws"
    and a: "read_attempt (entry doc ''attempt'') = Inr (vc_attempt course)"
    using assms unfolding validate_vfs_course_def by auto
  have "va_duration_seconds (vc_attempt course) = Fin 600 \<and> va_minimum_agl_m (vc_attempt course) = decimal 9144 3"
    using a by (rule read_attempt_limits)
  then show ?thesis
    using ws by (auto simp: check_waypoints_def is_circle_def is_rectangle_def)
qed

section \<open>Both together\<close>

definition container_margin :: "libm \<Rightarrow> vfs_scenario \<Rightarrow> pyfloat" where
  "container_margin L sc =
     half (lm_hypot L (vg_size_m (vs_payload_geometry sc) ! 0) (vg_size_m (vs_payload_geometry sc) ! 1))"

text \<open>Where a payload starts, is delivered and is to be dropped.\<close>

definition placed :: "libm \<Rightarrow> vfs_course \<Rightarrow> vfs_scenario \<Rightarrow> vfs_payload \<Rightarrow> bool" where
  "placed L course sc p \<longleftrightarrow>
     (\<exists>i start home. map_of (vc_waypoints course) (vp_initial p) = Some i
        \<and> map_of (vc_waypoints course) ''S'' = Some start \<and> map_of (vc_waypoints course) ''H'' = Some home
        \<and> waypoint_contains L start (center_xy_m i) (container_margin L sc)
        \<and> \<not> waypoint_contains L home (center_xy_m i) (fneg (container_margin L sc)))
     \<and> (\<exists>d zone. map_of (vc_waypoints course) (vp_delivery p) = Some d
        \<and> map_of (vc_waypoints course) ''L'' = Some zone
        \<and> waypoint_contains L zone (center_xy_m d) (container_margin L sc))
     \<and> (\<exists>name zone xy. map_of (vs_targets sc) (vp_aruco_id p) = Some name
        \<and> map_of (vc_waypoints course) name = Some zone
        \<and> resolve_waypoint_xy course sc None (Some (vp_aruco_id p)) = Inr xy
        \<and> waypoint_contains L zone xy (container_margin L sc))"

lemma check_payload_placed:
  assumes "check_payload L course sc (container_margin L sc) p = Inr ()"
  shows "placed L course sc p"
proof -
  obtain i d where id: "map_of (vc_waypoints course) (vp_initial p) = Some i"
      "map_of (vc_waypoints course) (vp_delivery p) = Some d"
    using assms by (auto simp: check_payload_def Let_def split: option.splits)
  show ?thesis
    using assms by (auto simp: check_payload_def Let_def id placed_def resolve_waypoint_xy_def)
qed

text \<open>
  C40. In a validated configuration every one of the payloads 2, 3 and 4 starts in the start zone
  outside H, is delivered in the landing zone, and has a place to be dropped that resolves without
  error and fits its target, each time with half the diagonal of the container to spare.
\<close>

theorem validated_payloads_placed:
  assumes "validate_vfs_scenario document = Inr sc" and "validate_vfs_configuration L course sc = Inr ()"
    and "aruco_id \<in> set VFS_PAYLOAD_IDS"
  shows "\<exists>p. payload_of sc aruco_id = Inr p \<and> vp_aruco_id p = aruco_id \<and> placed L course sc p"
proof -
  have "aruco_id \<in> set (map vp_aruco_id (vs_payloads sc))"
    using validated_ids [OF assms(1)] assms(3) by (metis set_sort)
  then obtain p where p: "find (\<lambda>p. vp_aruco_id p = aruco_id) (vs_payloads sc) = Some p"
    by (cases "find (\<lambda>p. vp_aruco_id p = aruco_id) (vs_payloads sc)") (auto simp: find_None_iff)
  have "p \<in> set (vs_payloads sc)" "vp_aruco_id p = aruco_id"
    using p by (auto simp: find_Some_iff)
  moreover obtain us where "each (check_payload L course sc (container_margin L sc)) (vs_payloads sc) = Inr us"
    using assms(2) by (auto simp: validate_vfs_configuration_def Let_def container_margin_def)
  ultimately have "placed L course sc p"
    using each_Inr_set by (intro check_payload_placed) fastforce
  then show ?thesis
    using p \<open>vp_aruco_id p = aruco_id\<close> by (auto simp: payload_of_def)
qed

end
