(* ===== verification/Vfs_Geometry.thy ===== *)
theory Vfs_Geometry
  imports Vfs_Contract Score_Competition "HOL-Library.Product_Lexorder"
begin

text \<open>
  The plane geometry of \<open>scorekeeper/vfs.py\<close>: the points at which a box touches the ground, their
  convex hull, and whether it meets a waypoint. Points are pairs of floats; \<open>sorted\<close> orders them
  lexicographically, which the order on \<open>pyfloat\<close> gives for all values but NaN.
\<close>

section \<open>The order of floats\<close>

instantiation pyfloat :: linorder
begin

definition less_eq_pyfloat :: "pyfloat \<Rightarrow> pyfloat \<Rightarrow> bool" where
  "less_eq_pyfloat a b \<longleftrightarrow> b = NaN \<or> (a \<noteq> NaN \<and> fle a b)"

definition less_pyfloat :: "pyfloat \<Rightarrow> pyfloat \<Rightarrow> bool" where
  "less_pyfloat a b \<longleftrightarrow> a \<le> b \<and> \<not> b \<le> a" for a b :: pyfloat

instance
proof
  fix a b c :: pyfloat
  show "(a < b) = (a \<le> b \<and> \<not> b \<le> a)"
    by (simp add: less_pyfloat_def)
  show "a \<le> a"
    by (cases a) (simp_all add: less_eq_pyfloat_def)
  show "a \<le> c" if "a \<le> b" "b \<le> c"
    using that by (cases a; cases b; cases c) (simp_all add: less_eq_pyfloat_def)
  show "a = b" if "a \<le> b" "b \<le> a"
    using that by (cases a; cases b) (simp_all add: less_eq_pyfloat_def)
  show "a \<le> b \<or> b \<le> a"
    by (cases a; cases b) (auto simp: less_eq_pyfloat_def)
qed

end

lemma fle_linorder: "a \<noteq> NaN \<Longrightarrow> b \<noteq> NaN \<Longrightarrow> fle a b \<longleftrightarrow> a \<le> b"
  by (simp add: less_eq_pyfloat_def)

type_synonym plane_point = "pyfloat \<times> pyfloat"

section \<open>Zones\<close>

text \<open>Membership in a waypoint, shrunk by a margin.\<close>

definition zone_holds :: "libm \<Rightarrow> vfs_waypoint \<Rightarrow> plane_point \<Rightarrow> pyfloat \<Rightarrow> bool" where
  "zone_holds L w p inward =
     (let dx = fsub (fst p) (wp_x w); dy = fsub (snd p) (wp_y w) in
      case wp_radius w of
        Some r \<Rightarrow> fle (lm_hypot L dx dy) (fadd (fsub r inward) (decimal 1 9))
      | None \<Rightarrow>
          (case (wp_width w, wp_height w) of
             (Some width, Some height) \<Rightarrow>
               fle (fabs dx) (fadd (fsub (half width) inward) (decimal 1 9))
               \<and> fle (fabs dy) (fadd (fsub (half height) inward) (decimal 1 9))
           | _ \<Rightarrow> False))"

section \<open>Contact points\<close>

text \<open>The rotation matrix of a unit quaternion, by rows.\<close>

definition rotation :: "pyfloat \<Rightarrow> pyfloat \<Rightarrow> pyfloat \<Rightarrow> pyfloat \<Rightarrow> (pyfloat \<times> pyfloat \<times> pyfloat) list" where
  "rotation qx qy qz qw =
     (let diagonal = (\<lambda>a b. fsub (Fin 1) (fmul (Fin 2) (fadd (fmul a a) (fmul b b))));
          minus = (\<lambda>a b c d. fmul (Fin 2) (fsub (fmul a b) (fmul c d)));
          plus = (\<lambda>a b c d. fmul (Fin 2) (fadd (fmul a b) (fmul c d)))
      in [(diagonal qy qz, minus qx qy qz qw, plus qx qz qy qw),
          (plus qx qy qz qw, diagonal qx qz, minus qy qz qx qw),
          (minus qx qz qy qw, plus qy qz qx qw, diagonal qx qy)])"

text \<open>A coordinate of a corner.\<close>

definition corner_at :: "pyfloat \<Rightarrow> pyfloat \<times> pyfloat \<times> pyfloat \<Rightarrow> pyfloat \<times> pyfloat \<times> pyfloat \<Rightarrow> pyfloat" where
  "corner_at center row offset =
     (case (row, offset) of ((a, b, c), (dx, dy, dz)) \<Rightarrow>
        fadd (fadd (fadd center (fmul a dx)) (fmul b dy)) (fmul c dz))"

definition corners :: "pyfloat list \<Rightarrow> (pyfloat \<times> pyfloat \<times> pyfloat) list \<Rightarrow> pyfloat list
    \<Rightarrow> (pyfloat \<times> pyfloat \<times> pyfloat) list" where
  "corners center rows extent =
     (let hx = half (extent ! 0); hy = half (extent ! 1); hz = half (extent ! 2) in
      [(corner_at (center ! 0) (rows ! 0) (dx, dy, dz), corner_at (center ! 1) (rows ! 1) (dx, dy, dz),
        corner_at (center ! 2) (rows ! 2) (dx, dy, dz)).
        dx \<leftarrow> [fneg hx, hx], dy \<leftarrow> [fneg hy, hy], dz \<leftarrow> [fneg hz, hz]])"

text \<open>The least element of a nonempty list, as \<open>min\<close> finds it.\<close>

definition min_of :: "pyfloat list \<Rightarrow> pyfloat" where
  "min_of xs = foldl py_min (hd xs) (tl xs)"

definition contact_points :: "libm \<Rightarrow> payload_sample \<Rightarrow> pyfloat list \<Rightarrow> pyfloat \<Rightarrow> pyfloat \<Rightarrow> plane_point list" where
  "contact_points L sample extent ground_z epsilon =
     (if \<not> ps_grounded sample then []
      else
        (let q = ps_orientation_xyzw sample; qx = q ! 0; qy = q ! 1; qz = q ! 2; qw = q ! 3;
             norm = lm_sqrt L (fadd (fadd (fadd (fmul qx qx) (fmul qy qy)) (fmul qz qz)) (fmul qw qw))
         in if fle norm (decimal 1 12) then []
            else
              (let cs = corners (ps_position_xyz sample)
                          (rotation (fquot qx norm) (fquot qy norm) (fquot qz norm) (fquot qw norm)) extent;
                   lowest_z = min_of (map (\<lambda>(_, _, z). z) cs)
               in if flt epsilon (fabs (fsub lowest_z ground_z)) then []
                  else map (\<lambda>(x, y, _). (x, y))
                    (filter (\<lambda>(_, _, z). fle (fsub z lowest_z) epsilon \<and> fle (fabs (fsub z ground_z)) epsilon) cs))))"

section \<open>Convex hulls\<close>

definition orientation :: "plane_point \<Rightarrow> plane_point \<Rightarrow> plane_point \<Rightarrow> pyfloat" where
  "orientation a b c =
     fsub (fmul (fsub (fst b) (fst a)) (fsub (snd c) (snd a))) (fmul (fsub (snd b) (snd a)) (fsub (fst c) (fst a)))"

text \<open>The stack of a monotone chain, its last point first: points that do not turn left are dropped.\<close>

fun drop_turns :: "plane_point \<Rightarrow> plane_point list \<Rightarrow> plane_point list" where
  "drop_turns p (b # a # rest) =
     (if fle (orientation a b p) (Fin 0) then drop_turns p (a # rest) else b # a # rest)"
| "drop_turns p stack = stack"

definition chain :: "plane_point list \<Rightarrow> plane_point list" where
  "chain points = foldl (\<lambda>stack p. p # drop_turns p stack) [] points"

definition convex_hull :: "plane_point list \<Rightarrow> plane_point list" where
  "convex_hull points =
     (let unique = sort (remdups points) in
      if length unique \<le> 1 then unique
      else rev (tl (chain unique)) @ rev (tl (chain (rev unique))))"

definition segments :: "plane_point list \<Rightarrow> (plane_point \<times> plane_point) list" where
  "segments points =
     (if length points < 2 then []
      else if length points = 2 then [(points ! 0, points ! 1)]
      else zip points (rotate1 points))"

text \<open>The side is \<open>None\<close> until an edge decides it.\<close>

fun same_side :: "plane_point \<Rightarrow> bool option \<Rightarrow> (plane_point \<times> plane_point) list \<Rightarrow> bool" where
  "same_side p side [] = True"
| "same_side p side ((a, b) # edges) =
     (let c = orientation a b p in
      if fle (fabs c) (decimal 1 9) then same_side p side edges
      else
        (let current = flt (Fin 0) c in
         if side \<noteq> None \<and> side \<noteq> Some current then False else same_side p (Some current) edges))"

definition point_in_polygon :: "plane_point \<Rightarrow> plane_point list \<Rightarrow> bool" where
  "point_in_polygon p polygon = (if length polygon < 3 then False else same_side p None (segments polygon))"

definition segment_distance :: "libm \<Rightarrow> plane_point \<Rightarrow> plane_point \<Rightarrow> plane_point \<Rightarrow> pyfloat" where
  "segment_distance L p a b =
     (let dx = fsub (fst b) (fst a); dy = fsub (snd b) (snd a);
          px = fsub (fst p) (fst a); py = fsub (snd p) (snd a);
          length_squared = fadd (fmul dx dx) (fmul dy dy)
      in if fle length_squared (decimal 1 18) then lm_hypot L px py
         else
           (let fraction = py_max (Fin 0) (py_min (Fin 1)
                  (fquot (fadd (fmul px dx) (fmul py dy)) length_squared))
            in lm_hypot L (fsub px (fmul fraction dx)) (fsub py (fmul fraction dy))))"

definition overlaps :: "pyfloat \<Rightarrow> pyfloat \<Rightarrow> pyfloat \<Rightarrow> pyfloat \<Rightarrow> bool" where
  "overlaps a b c d \<longleftrightarrow>
     fle (py_max (py_min a b) (py_min c d)) (fadd (py_min (py_max a b) (py_max c d)) (decimal 1 9))"

definition segments_intersect :: "plane_point \<Rightarrow> plane_point \<Rightarrow> plane_point \<Rightarrow> plane_point \<Rightarrow> bool" where
  "segments_intersect a b c d =
     (if flt (decimal 1 18) (fmul (orientation a b c) (orientation a b d))
         \<or> flt (decimal 1 18) (fmul (orientation c d a) (orientation c d b)) then False
      else overlaps (fst a) (fst b) (fst c) (fst d) \<and> overlaps (snd a) (snd b) (snd c) (snd d))"

section \<open>Payloads in zones\<close>

definition rectangle :: "vfs_waypoint \<Rightarrow> pyfloat \<Rightarrow> pyfloat \<Rightarrow> plane_point list" where
  "rectangle w width height =
     (let left = fsub (wp_x w) (half width); right = fadd (wp_x w) (half width);
          bottom = fsub (wp_y w) (half height); top = fadd (wp_y w) (half height)
      in [(left, bottom), (right, bottom), (right, top), (left, top)])"

definition payload_contained ::
  "libm \<Rightarrow> payload_sample \<Rightarrow> vfs_waypoint \<Rightarrow> pyfloat list \<Rightarrow> pyfloat \<Rightarrow> pyfloat \<Rightarrow> bool" where
  "payload_contained L sample w extent ground_z epsilon =
     (let points = convex_hull (contact_points L sample extent ground_z epsilon) in
      if points = [] then False
      else if list_ex (\<lambda>p. zone_holds L w p (Fin 0)) points then True
      else case wp_radius w of
        Some r \<Rightarrow>
          point_in_polygon (wp_x w, wp_y w) points
          \<or> list_ex (\<lambda>(a, b). fle (segment_distance L (wp_x w, wp_y w) a b) (fadd r (decimal 1 9))) (segments points)
      | None \<Rightarrow>
          (case (wp_width w, wp_height w) of
             (Some width, Some height) \<Rightarrow>
               list_ex (\<lambda>corner. point_in_polygon corner points) (rectangle w width height)
               \<or> list_ex (\<lambda>(a, b). list_ex (\<lambda>(c, d). segments_intersect a b c d)
                    (segments (rectangle w width height))) (segments points)
           | _ \<Rightarrow> False))"

end
