(* ===== verification/Vfs_Judge.thy ===== *)
theory Vfs_Judge
  imports Vfs_Geometry Py_IO
begin

text \<open>
  \<open>VfsJudge\<close> of \<open>scorekeeper/vfs.py\<close>: the attempt clock, the evidence of the vehicle and the
  payloads, and the decisions on the checks the flight code requests. The class keeps its state
  in a record; a method that raises keeps the changes it has made. The detail of a request is
  decoded by \<open>json.loads\<close>, a parameter: \<open>None\<close> is a text it refuses.
\<close>

section \<open>Values\<close>

datatype judge_outcome = Approved | Rejected | ErrorOutcome

datatype attempt_state = Waiting | Active | Paused | AttemptApproved | Finished

record vehicle_status_sample =
  vt_run_id :: string
  vt_sim_timestamp_ns :: int
  vt_sequence_id :: int
  vt_vehicle_id :: string
  vt_armed :: bool
  vt_mode :: string
  vt_failsafe_active :: bool
  vt_failsafe_reason :: string

definition VehicleStatusSample ::
  "pyval \<Rightarrow> pyval \<Rightarrow> pyval \<Rightarrow> string \<Rightarrow> pyval \<Rightarrow> string \<Rightarrow> pyval \<Rightarrow> pyval \<Rightarrow> vehicle_status_sample result" where
  "VehicleStatusSample run_id timestamp sequence_id vehicle_id armed mode failsafe_active failsafe_reason =
     rbind (canonical_run_id run_id) (\<lambda>rid.
     rbind (refuse (\<not> nonneg_int timestamp) ''timestamp must be a nonnegative integer'') (\<lambda>_.
     rbind (refuse (\<not> nonneg_int sequence_id) ''sequence_id must be a nonnegative integer'') (\<lambda>_.
     rbind (refuse (vehicle_id = [] \<or> mode = []) ''vehicle_id and mode must be nonempty'') (\<lambda>_.
     case (strict_bool armed, strict_bool failsafe_active) of
       (Some a, Some f) \<Rightarrow>
         (case strict_str failsafe_reason of
            Some r \<Rightarrow>
              if f = (r = []) then Inl (ValueError ''failsafe reason must match active state'')
              else Inr \<lparr>vt_run_id = rid, vt_sim_timestamp_ns = int_value timestamp,
                vt_sequence_id = int_value sequence_id, vt_vehicle_id = vehicle_id, vt_armed = a,
                vt_mode = mode, vt_failsafe_active = f, vt_failsafe_reason = r\<rparr>
          | None \<Rightarrow> Inl (ValueError ''failsafe reason must match active state''))
     | _ \<Rightarrow> Inl (ValueError ''vehicle status flags must be booleans'')))))"

record judge_decision =
  de_run_id :: string
  de_sim_timestamp_ns :: int
  de_decision_id :: int
  de_request_id :: string
  de_request_event_id :: int
  de_phase :: string
  de_checkpoint :: string
  de_outcome :: judge_outcome
  de_eligible_aruco_ids :: "int list"
  de_active_elapsed_ns :: int
  de_reason_code :: string
  de_evidence_refs :: "string list"

record attempt_status =
  as_run_id :: string
  as_sim_timestamp_ns :: int
  as_sequence_id :: int
  as_state :: attempt_state
  as_active_elapsed_ns :: int
  as_approval_timestamp_ns :: int
  as_started :: bool

section \<open>The judge\<close>

record vfs_judge =
  vj_run_id :: string
  vj_course :: vfs_course
  vj_scenario :: vfs_scenario
  vj_truth :: "ground_truth_sample option"
  vj_status :: "vehicle_status_sample option"
  vj_payloads :: "(int, payload_sample) dict"
  vj_requests :: "(string, string \<times> string \<times> judge_decision) dict"
  vj_decision_id :: int
  vj_status_sequence :: int
  vj_started_at_ns :: "int option"
  vj_active_since_ns :: "int option"
  vj_active_accumulated_ns :: int
  vj_paused :: bool
  vj_approval_ns :: int
  vj_phase :: string
  vj_finished :: bool
  vj_terminal_failure_reason :: "string option"
  vj_payload_grounded_since :: "(int, int) dict"
  vj_takeoff_count :: nat
  vj_fm1_d_approved :: bool
  vj_fm2_approved :: bool
  vj_fm2_airborne :: bool
  vj_fm2_eligible_ids :: "int list"
  vj_leg_peak_agl_m :: pyfloat

definition VfsJudge :: "pyval \<Rightarrow> vfs_course \<Rightarrow> vfs_scenario \<Rightarrow> vfs_judge result" where
  "VfsJudge run_id course scenario =
     rbind (canonical_run_id run_id) (\<lambda>rid.
       Inr \<lparr>vj_run_id = rid, vj_course = course, vj_scenario = scenario, vj_truth = None,
         vj_status = None, vj_payloads = [], vj_requests = [], vj_decision_id = 0,
         vj_status_sequence = 0, vj_started_at_ns = None, vj_active_since_ns = None,
         vj_active_accumulated_ns = 0, vj_paused = False, vj_approval_ns = 0, vj_phase = [],
         vj_finished = False, vj_terminal_failure_reason = None, vj_payload_grounded_since = [],
         vj_takeoff_count = 0, vj_fm1_d_approved = False, vj_fm2_approved = False,
         vj_fm2_airborne = False, vj_fm2_eligible_ids = [], vj_leg_peak_agl_m = Fin 0\<rparr>)"

definition STATUS_FRESHNESS_NS :: int where
  "STATUS_FRESHNESS_NS = 500000000"

text \<open>\<open>int(float(seconds) * 1e9)\<close>, which truncates and refuses the special values.\<close>

definition nanoseconds :: "pyfloat \<Rightarrow> int result" where
  "nanoseconds seconds =
     (case fmul seconds (Fin 1000000000) of
        Fin q \<Rightarrow> Inr (if 0 \<le> q then \<lfloor>q\<rfloor> else \<lceil>q\<rceil>)
      | NaN \<Rightarrow> Inl (ValueError ''cannot convert float NaN to integer'')
      | _ \<Rightarrow> Inl OverflowError)"

definition payload_targets :: "vfs_scenario \<Rightarrow> (int, string) dict" where
  "payload_targets scenario = vs_targets scenario"

section \<open>The clock\<close>

definition active_elapsed_ns :: "vfs_judge \<Rightarrow> int" where
  "active_elapsed_ns s =
     (case (vj_active_since_ns s, vj_truth s) of
        (Some since, Some x) \<Rightarrow> vj_active_accumulated_ns s + gt_sim_timestamp_ns x - since
      | _ \<Rightarrow> vj_active_accumulated_ns s)"

definition active_elapsed_at :: "int \<Rightarrow> vfs_judge \<Rightarrow> int" where
  "active_elapsed_at t s =
     (case vj_active_since_ns s of
        None \<Rightarrow> vj_active_accumulated_ns s
      | Some since \<Rightarrow> vj_active_accumulated_ns s + max 0 (t - since))"

definition attempt_state_of :: "vfs_judge \<Rightarrow> attempt_state" where
  "attempt_state_of s =
     (if vj_finished s then Finished
      else if vj_started_at_ns s = None then Waiting
      else if vj_paused s \<and> vj_approval_ns s \<noteq> 0 then AttemptApproved
      else if vj_paused s then Paused
      else Active)"

definition attempt_status_of :: "vfs_judge \<Rightarrow> attempt_status" where
  "attempt_status_of s =
     \<lparr>as_run_id = vj_run_id s,
      as_sim_timestamp_ns = (case vj_truth s of Some x \<Rightarrow> gt_sim_timestamp_ns x | None \<Rightarrow> 0),
      as_sequence_id = vj_status_sequence s, as_state = attempt_state_of s,
      as_active_elapsed_ns = active_elapsed_ns s, as_approval_timestamp_ns = vj_approval_ns s,
      as_started = (vj_started_at_ns s \<noteq> None)\<rparr>"

text \<open>A running clock is stopped at a time.\<close>

definition stop_clock :: "int \<Rightarrow> vfs_judge \<Rightarrow> vfs_judge" where
  "stop_clock t s =
     (case vj_active_since_ns s of
        None \<Rightarrow> s
      | Some since \<Rightarrow>
          s\<lparr>vj_active_accumulated_ns := vj_active_accumulated_ns s + (t - since),
            vj_active_since_ns := None\<rparr>)"

section \<open>Evidence\<close>

definition same_run :: "string \<Rightarrow> (vfs_judge, unit) io" where
  "same_run run_id = (\<lambda>s.
     if run_id \<noteq> vj_run_id s then (Inl (ValueError ''evidence belongs to another run''), s)
     else (Inr (), s))"

text \<open>Whether the aircraft at a position is wholly inside a waypoint.\<close>

definition aircraft_inside :: "libm \<Rightarrow> vfs_course \<Rightarrow> string \<Rightarrow> ground_truth_sample \<Rightarrow> bool result" where
  "aircraft_inside L course name x =
     rbind (waypoint_named (vc_waypoints course) name) (\<lambda>w.
       Inr (zone_holds L w (gt_position_xyz x ! 0, gt_position_xyz x ! 1)
              (va_aircraft_radius_m (vc_attempt course))))"

definition above_ground :: "vfs_judge \<Rightarrow> ground_truth_sample \<Rightarrow> pyfloat" where
  "above_ground s x = fsub (gt_position_xyz x ! 2) (vc_ground_z_m (vj_course s))"

definition note_truth :: "ground_truth_sample \<Rightarrow> vfs_judge \<Rightarrow> vfs_judge" where
  "note_truth x s =
     (if gt_in_contact x then s\<lparr>vj_truth := Some x\<rparr>
      else s\<lparr>vj_truth := Some x, vj_leg_peak_agl_m := py_max (vj_leg_peak_agl_m s) (above_ground s x)\<rparr>)"

definition terminate :: "string \<Rightarrow> vfs_judge \<Rightarrow> vfs_judge" where
  "terminate reason s = s\<lparr>vj_finished := True, vj_terminal_failure_reason := Some reason\<rparr>"

definition check_approval_timeout :: "int \<Rightarrow> (vfs_judge, unit) io" where
  "check_approval_timeout t =
     ibind (iget id) (\<lambda>s.
       if vj_paused s \<and> vj_approval_ns s \<noteq> 0 then
         ibind (ilift (nanoseconds (va_approval_timeout_s (vc_attempt (vj_course s))))) (\<lambda>timeout.
           imodify (if timeout < t - vj_approval_ns s then terminate ''approval_timeout'' else id))
       else ireturn ())"

definition take_off :: "ground_truth_sample \<Rightarrow> vfs_judge \<Rightarrow> vfs_judge" where
  "take_off x s =
     (let t = gt_sim_timestamp_ns x;
          s1 = s\<lparr>vj_takeoff_count := Suc (vj_takeoff_count s),
                 vj_fm2_airborne := (vj_fm2_airborne s \<or> vj_phase s = ''FM2''),
                 vj_leg_peak_agl_m := above_ground s x\<rparr>
      in if vj_started_at_ns s = None then s1\<lparr>vj_started_at_ns := Some t, vj_active_since_ns := Some t\<rparr>
         else if vj_paused s \<and> \<not> vj_finished s then
           s1\<lparr>vj_paused := False, vj_active_since_ns := Some t, vj_approval_ns := 0\<rparr>
         else s1)"

text \<open>A landing inside H in the last phase pauses the clock.\<close>

definition touch_down :: "libm \<Rightarrow> ground_truth_sample \<Rightarrow> (vfs_judge, unit) io" where
  "touch_down L x =
     ibind (iget id) (\<lambda>s.
     ibind (ilift (aircraft_inside L (vj_course s) ''H'' x)) (\<lambda>inside.
       imodify (if inside \<and> vj_active_since_ns s \<noteq> None
                then (\<lambda>s. (stop_clock (gt_sim_timestamp_ns x) s)\<lparr>vj_paused := True\<rparr>) else id)))"

definition check_active_deadline :: "int \<Rightarrow> (vfs_judge, unit) io" where
  "check_active_deadline t =
     ibind (iget id) (\<lambda>s.
     ibind (ilift (nanoseconds (va_duration_seconds (vc_attempt (vj_course s))))) (\<lambda>duration.
       imodify (if duration < active_elapsed_ns s
                then (\<lambda>s. terminate ''active_deadline_exceeded'' (stop_clock t s)) else id)))"

text \<open>Leaving the ground, and returning to it.\<close>

definition contact_change :: "libm \<Rightarrow> ground_truth_sample option \<Rightarrow> ground_truth_sample \<Rightarrow> (vfs_judge, unit) io" where
  "contact_change L previous x =
     (case previous of
        None \<Rightarrow> ireturn ()
      | Some p \<Rightarrow>
          ibind (iget vj_phase) (\<lambda>phase_name.
            if gt_in_contact p \<and> \<not> gt_in_contact x then imodify (take_off x)
            else if \<not> gt_in_contact p \<and> gt_in_contact x \<and> phase_name = ''FM3'' then touch_down L x
            else ireturn ()))"

definition judge_accept_ground_truth :: "libm \<Rightarrow> ground_truth_sample \<Rightarrow> (vfs_judge, attempt_status) io" where
  "judge_accept_ground_truth L x =
     ibind (same_run (gt_run_id x)) (\<lambda>_.
     ibind (iget vj_truth) (\<lambda>previous.
       if (case previous of Some p \<Rightarrow> gt_sim_timestamp_ns x \<le> gt_sim_timestamp_ns p | None \<Rightarrow> False) then
         iraise (ValueError ''ground truth timestamps must increase'')
       else
         ibind (imodify (note_truth x)) (\<lambda>_.
         ibind (check_approval_timeout (gt_sim_timestamp_ns x)) (\<lambda>_.
         ibind (contact_change L previous x) (\<lambda>_.
         ibind (check_active_deadline (gt_sim_timestamp_ns x)) (\<lambda>_.
         ibind (imodify (\<lambda>s. s\<lparr>vj_status_sequence := vj_status_sequence s + 1\<rparr>)) (\<lambda>_.
           iget attempt_status_of)))))))"

text \<open>A disarmed vehicle that stands in H after a flight of the second phase pauses the clock.\<close>

definition landed_fm2 :: "vehicle_status_sample \<Rightarrow> vfs_judge \<Rightarrow> ground_truth_sample option" where
  "landed_fm2 v s =
     (case vj_truth s of
        Some x \<Rightarrow>
          if vj_phase s = ''FM2'' \<and> vj_fm2_airborne s \<and> vj_started_at_ns s \<noteq> None
             \<and> vj_active_since_ns s \<noteq> None \<and> \<not> vt_armed v \<and> gt_in_contact x
          then Some x else None
      | None \<Rightarrow> None)"

definition judge_accept_vehicle_status :: "libm \<Rightarrow> vehicle_status_sample \<Rightarrow> (vfs_judge, unit) io" where
  "judge_accept_vehicle_status L v =
     ibind (same_run (vt_run_id v)) (\<lambda>_.
     ibind (iget vj_status) (\<lambda>previous.
       if (case previous of
             Some p \<Rightarrow> vt_sim_timestamp_ns v \<le> vt_sim_timestamp_ns p
               \<or> vt_sequence_id v \<noteq> vt_sequence_id p + 1
           | None \<Rightarrow> False) then
         iraise (ValueError ''vehicle status must be ordered and contiguous'')
       else
         ibind (imodify (\<lambda>s. s\<lparr>vj_status := Some v\<rparr>)) (\<lambda>_.
         ibind (iget id) (\<lambda>s.
           case landed_fm2 v s of
             None \<Rightarrow> ireturn ()
           | Some x \<Rightarrow>
               ibind (ilift (aircraft_inside L (vj_course s) ''H'' x)) (\<lambda>inside.
                 if inside \<and> \<bar>vt_sim_timestamp_ns v - gt_sim_timestamp_ns x\<bar> \<le> STATUS_FRESHNESS_NS then
                   imodify (\<lambda>s. (stop_clock (max (vt_sim_timestamp_ns v) (gt_sim_timestamp_ns x)) s)
                     \<lparr>vj_paused := True\<rparr>)
                 else ireturn ())))))"

definition payload_at_rest :: "libm \<Rightarrow> payload_sample \<Rightarrow> bool" where
  "payload_at_rest L p \<longleftrightarrow> ps_grounded p \<and> fle (lm_sqrt L (sum_squares (ps_linear_velocity_xyz p))) (decimal 1 1)"

definition note_payload :: "libm \<Rightarrow> payload_sample \<Rightarrow> vfs_judge \<Rightarrow> vfs_judge" where
  "note_payload L p s =
     (let since = vj_payload_grounded_since s; marker = ps_aruco_id p in
      s\<lparr>vj_payloads := AList.update marker p (vj_payloads s),
        vj_payload_grounded_since :=
          (if payload_at_rest L p then
             (if map_of since marker = None then AList.update marker (ps_sim_timestamp_ns p) since else since)
           else AList.delete marker since)\<rparr>)"

definition judge_accept_payload_state :: "libm \<Rightarrow> payload_sample \<Rightarrow> (vfs_judge, unit) io" where
  "judge_accept_payload_state L p =
     ibind (same_run (ps_run_id p)) (\<lambda>_.
     ibind (iget (\<lambda>s. map_of (vj_payloads s) (ps_aruco_id p))) (\<lambda>previous.
       if (case previous of Some q \<Rightarrow> ps_sim_timestamp_ns p \<le> ps_sim_timestamp_ns q | None \<Rightarrow> False) then
         iraise (ValueError ''payload timestamps must increase'')
       else imodify (note_payload L p)))"

definition judge_accept_payload_event :: "payload_event_sample \<Rightarrow> (vfs_judge, unit) io" where
  "judge_accept_payload_event e = same_run (pv_run_id e)"

section \<open>Decisions\<close>

definition EVIDENCE_FRESHNESS_NS :: int where
  "EVIDENCE_FRESHNESS_NS = 50000000"

definition fresh :: "int \<Rightarrow> int \<Rightarrow> int \<Rightarrow> bool" where
  "fresh bound now stamp \<longleftrightarrow> 0 \<le> now - stamp \<and> now - stamp \<le> bound"

definition fresh_status :: "int \<Rightarrow> vfs_judge \<Rightarrow> bool" where
  "fresh_status now s =
     (case vj_status s of None \<Rightarrow> False | Some v \<Rightarrow> fresh STATUS_FRESHNESS_NS now (vt_sim_timestamp_ns v))"

text \<open>The state of a payload that is current at a time.\<close>

definition current_payload :: "int \<Rightarrow> vfs_judge \<Rightarrow> int \<Rightarrow> payload_sample option" where
  "current_payload now s marker =
     (case map_of (vj_payloads s) marker of
        None \<Rightarrow> None
      | Some p \<Rightarrow> if fresh EVIDENCE_FRESHNESS_NS now (ps_sim_timestamp_ns p) then Some p else None)"

definition contained :: "libm \<Rightarrow> vfs_judge \<Rightarrow> payload_sample \<Rightarrow> vfs_waypoint \<Rightarrow> bool" where
  "contained L s p w =
     payload_contained L p w (vg_size_m (vs_payload_geometry (vj_scenario s)))
       (vc_ground_z_m (vj_course s)) (va_ground_contact_epsilon_m (vc_attempt (vj_course s)))"

definition settled_for :: "vfs_judge \<Rightarrow> int \<Rightarrow> payload_sample \<Rightarrow> int" where
  "settled_for s marker p =
     (case map_of (vj_payload_grounded_since s) marker of
        Some since \<Rightarrow> ps_sim_timestamp_ns p - since
      | None \<Rightarrow> 0)"

text \<open>Generators over calls that may raise: the items with a property, and whether all have it.\<close>

fun keep :: "('a \<Rightarrow> bool result) \<Rightarrow> 'a list \<Rightarrow> 'a list result" where
  "keep f [] = Inr []"
| "keep f (x # xs) = rbind (f x) (\<lambda>b. rbind (keep f xs) (\<lambda>ys. Inr (if b then x # ys else ys)))"

fun all_hold :: "('a \<Rightarrow> bool result) \<Rightarrow> 'a list \<Rightarrow> bool result" where
  "all_hold f [] = Inr True"
| "all_hold f (x # xs) = rbind (f x) (\<lambda>b. if b then all_hold f xs else Inr False)"

lemma keep_filter: "keep f xs = Inr ys \<Longrightarrow> ys = filter (\<lambda>x. f x = Inr True) xs"
  by (induction xs arbitrary: ys) (auto split: if_splits)

lemma all_hold_True: "all_hold f xs = Inr True \<Longrightarrow> x \<in> set xs \<Longrightarrow> f x = Inr True"
  by (induction xs) (auto split: if_splits)

definition eligible_payload :: "libm \<Rightarrow> int \<Rightarrow> int \<Rightarrow> vfs_judge \<Rightarrow> int \<Rightarrow> bool result" where
  "eligible_payload L now settle s marker =
     (case current_payload now s marker of
        None \<Rightarrow> Inr False
      | Some p \<Rightarrow>
          if settled_for s marker p < settle then Inr False
          else
            rbind (waypoint_named (vc_waypoints (vj_course s))
                     (the (map_of (payload_targets (vj_scenario s)) marker))) (\<lambda>w.
              Inr (contained L s p w)))"

definition eligible :: "libm \<Rightarrow> int \<Rightarrow> vfs_judge \<Rightarrow> int list result" where
  "eligible L now s =
     rbind (nanoseconds (vi_settle_time_s (vs_payload_interaction (vj_scenario s)))) (\<lambda>settle.
       keep (eligible_payload L now settle s) (sort (dict_keys (payload_targets (vj_scenario s)))))"

record verdict =
  vd_outcome :: judge_outcome
  vd_reason :: string
  vd_eligible :: "int list"
  vd_refs :: "string list"

definition rejection :: "string \<Rightarrow> string list \<Rightarrow> verdict" where
  "rejection reason refs = \<lparr>vd_outcome = Rejected, vd_reason = reason, vd_eligible = [], vd_refs = refs\<rparr>"

definition evidence_error :: "string \<Rightarrow> string list \<Rightarrow> verdict" where
  "evidence_error reason refs = \<lparr>vd_outcome = ErrorOutcome, vd_reason = reason, vd_eligible = [], vd_refs = refs\<rparr>"

definition approval :: "string \<Rightarrow> int list \<Rightarrow> string list \<Rightarrow> verdict" where
  "approval reason ids refs = \<lparr>vd_outcome = Approved, vd_reason = reason, vd_eligible = ids, vd_refs = refs\<rparr>"

text \<open>The vehicle rests disarmed inside a waypoint.\<close>

definition parked :: "libm \<Rightarrow> vfs_course \<Rightarrow> string \<Rightarrow> ground_truth_sample \<Rightarrow> vehicle_status_sample \<Rightarrow> bool result" where
  "parked L course name x v =
     (if gt_in_contact x then
        rbind (aircraft_inside L course name x) (\<lambda>inside. Inr (inside \<and> \<not> vt_armed v))
      else Inr False)"

definition fm1_verdict :: "libm \<Rightarrow> string \<Rightarrow> string list \<Rightarrow> ground_truth_sample \<Rightarrow> vehicle_status_sample
    \<Rightarrow> (vfs_judge, verdict) io" where
  "fm1_verdict L checkpoint refs x v =
     ibind (iget id) (\<lambda>s.
     ibind (ilift (aircraft_inside L (vj_course s) checkpoint x)) (\<lambda>inside.
       let ordered = checkpoint = ''D'' \<and> vj_phase s = ''FM1'' \<and> 1 \<le> vj_takeoff_count s
             \<or> checkpoint = ''H'' \<and> vj_fm1_d_approved s \<and> 2 \<le> vj_takeoff_count s
       in if gt_in_contact x \<and> inside \<and> ordered \<and> \<not> vt_armed v
             \<and> fle (va_minimum_agl_m (vc_attempt (vj_course s))) (vj_leg_peak_agl_m s)
          then
            ibind (imodify (\<lambda>s. s\<lparr>vj_fm1_d_approved := (vj_fm1_d_approved s \<or> checkpoint = ''D'')\<rparr>)) (\<lambda>_.
              ireturn (approval ''landing_approved'' [] refs))
          else ireturn (rejection ''physical_requirements_not_met'' refs)))"

definition payload_refs :: "int list \<Rightarrow> vfs_judge \<Rightarrow> string list" where
  "payload_refs markers s =
     concat (map (\<lambda>marker.
       case map_of (vj_payloads s) marker of
         None \<Rightarrow> []
       | Some p \<Rightarrow> [''payload-state#'' @ str_int marker @ ''/'' @ str_int (ps_sim_timestamp_ns p)]) markers)"

definition freeze_eligible :: "int \<Rightarrow> int list \<Rightarrow> vfs_judge \<Rightarrow> vfs_judge" where
  "freeze_eligible now ids s =
     (stop_clock now s)\<lparr>vj_paused := True, vj_approval_ns := now, vj_fm2_approved := True,
        vj_fm2_eligible_ids := ids, vj_finished := (vj_finished s \<or> ids = [])\<rparr>"

definition fm2_verdict :: "libm \<Rightarrow> int \<Rightarrow> string list \<Rightarrow> ground_truth_sample \<Rightarrow> vehicle_status_sample
    \<Rightarrow> (vfs_judge, verdict) io" where
  "fm2_verdict L now refs x v =
     ibind (iget id) (\<lambda>s.
       let markers = dict_keys (payload_targets (vj_scenario s));
           all_refs = refs @ payload_refs (sort markers) s
       in if \<not> list_all (\<lambda>marker. current_payload now s marker \<noteq> None) markers then
            ireturn (evidence_error ''evidence_stale_or_missing'' all_refs)
          else
            ibind (ilift (parked L (vj_course s) ''H'' x v)) (\<lambda>home.
              if home then
                ibind (ilift (eligible L now s)) (\<lambda>ids.
                ibind (imodify (freeze_eligible now ids)) (\<lambda>_.
                  ireturn (approval ''eligible_payloads_frozen'' ids all_refs)))
              else ireturn (rejection ''physical_requirements_not_met'' all_refs)))"

text \<open>A payload that was carried to L and let go there.\<close>

definition retrieved :: "libm \<Rightarrow> int \<Rightarrow> vfs_judge \<Rightarrow> int \<Rightarrow> bool result" where
  "retrieved L now s marker =
     (case current_payload now s marker of
        None \<Rightarrow> Inr False
      | Some p \<Rightarrow>
          if ps_grounded p \<and> \<not> ps_attached p then
            rbind (waypoint_named (vc_waypoints (vj_course s)) ''L'') (\<lambda>w. Inr (contained L s p w))
          else Inr False)"

definition fm3_verdict :: "libm \<Rightarrow> int \<Rightarrow> string list \<Rightarrow> ground_truth_sample \<Rightarrow> vehicle_status_sample
    \<Rightarrow> (vfs_judge, verdict) io" where
  "fm3_verdict L now refs x v =
     ibind (iget id) (\<lambda>s.
       let markers = vj_fm2_eligible_ids s;
           all_refs = refs @ payload_refs markers s;
           evidence = list_all (\<lambda>marker. current_payload now s marker \<noteq> None) markers
       in ibind (ilift (aircraft_inside L (vj_course s) ''H'' x)) (\<lambda>inside.
          ibind (ilift (if evidence then all_hold (retrieved L now s) markers else Inr False)) (\<lambda>all_retrieved.
            case vj_terminal_failure_reason s of
              Some reason \<Rightarrow> ireturn (rejection reason all_refs)
            | None \<Rightarrow>
                if \<not> evidence then ireturn (evidence_error ''evidence_stale_or_missing'' all_refs)
                else if \<not> all_retrieved then ireturn (rejection ''payload_retrieval_incomplete'' all_refs)
                else if vj_phase s = ''FM3'' \<and> vj_fm2_approved s \<and> gt_in_contact x \<and> inside \<and> \<not> vt_armed v then
                  ibind (imodify (\<lambda>s. s\<lparr>vj_finished := True\<rparr>)) (\<lambda>_.
                    ireturn (approval ''attempt_complete'' [] all_refs))
                else ireturn (rejection ''physical_requirements_not_met'' all_refs))))"

definition check_refs :: "mission_event_sample \<Rightarrow> vfs_judge \<Rightarrow> string list" where
  "check_refs e s =
     [''mission-events#'' @ str_int (me_event_id e)]
     @ (case vj_truth s of
          Some x \<Rightarrow> if gt_sim_timestamp_ns x \<le> me_sim_timestamp_ns e
                    then [''groundtruth#'' @ str_int (gt_sim_timestamp_ns x)] else []
        | None \<Rightarrow> [])
     @ (case vj_status s of
          Some v \<Rightarrow> if vt_sim_timestamp_ns v \<le> me_sim_timestamp_ns e
                    then [''vehicle-status#'' @ str_int (vt_sequence_id v)] else []
        | None \<Rightarrow> [])"

text \<open>The vehicle evidence a check is judged on: a fresh position and a fresh status.\<close>

definition vehicle_evidence :: "int \<Rightarrow> vfs_judge \<Rightarrow> (ground_truth_sample \<times> vehicle_status_sample) option" where
  "vehicle_evidence now s =
     (case (vj_truth s, vj_status s) of
        (Some x, Some v) \<Rightarrow>
          if fresh EVIDENCE_FRESHNESS_NS now (gt_sim_timestamp_ns x) \<and> fresh_status now s then Some (x, v)
          else None
      | _ \<Rightarrow> None)"

definition check_verdict :: "libm \<Rightarrow> mission_event_sample \<Rightarrow> string \<Rightarrow> (vfs_judge, verdict) io" where
  "check_verdict L e checkpoint =
     ibind (iget id) (\<lambda>s.
       let refs = check_refs e s; now = me_sim_timestamp_ns e in
       case vehicle_evidence now s of
         None \<Rightarrow> ireturn (evidence_error ''evidence_stale_or_missing'' refs)
       | Some (x, v) \<Rightarrow>
           if me_phase e = ''FM1'' \<and> checkpoint \<in> {''D'', ''H''} then fm1_verdict L checkpoint refs x v
           else if me_phase e = ''FM2'' \<and> checkpoint = [] then fm2_verdict L now refs x v
           else if me_phase e = ''FM3'' \<and> checkpoint = [] then fm3_verdict L now refs x v
           else ireturn (evidence_error ''invalid_check_request'' refs))"

definition decision_of :: "mission_event_sample \<Rightarrow> string \<Rightarrow> string \<Rightarrow> verdict \<Rightarrow> int \<Rightarrow> vfs_judge \<Rightarrow> judge_decision" where
  "decision_of e request_id checkpoint d elapsed s =
     \<lparr>de_run_id = vj_run_id s, de_sim_timestamp_ns = me_sim_timestamp_ns e,
      de_decision_id = vj_decision_id s, de_request_id = request_id,
      de_request_event_id = me_event_id e, de_phase = me_phase e, de_checkpoint = checkpoint,
      de_outcome = vd_outcome d, de_eligible_aruco_ids = vd_eligible d,
      de_active_elapsed_ns = elapsed, de_reason_code = vd_reason d, de_evidence_refs = vd_refs d\<rparr>"

text \<open>A decision takes the next identity.\<close>

definition next_decision :: "(vfs_judge, unit) io" where
  "next_decision = imodify (\<lambda>s. s\<lparr>vj_decision_id := vj_decision_id s + 1\<rparr>)"

definition judge_decision_on :: "libm \<Rightarrow> mission_event_sample \<Rightarrow> string \<Rightarrow> string
    \<Rightarrow> (vfs_judge, judge_decision) io" where
  "judge_decision_on L e request_id checkpoint =
     ibind (check_verdict L e checkpoint) (\<lambda>d.
     ibind (iget (\<lambda>s. decision_of e request_id checkpoint d (active_elapsed_ns s) s)) (\<lambda>decision.
     ibind next_decision (\<lambda>_. ireturn decision)))"

definition error_decision :: "mission_event_sample \<Rightarrow> string \<Rightarrow> string \<Rightarrow> string \<Rightarrow> (vfs_judge \<Rightarrow> int)
    \<Rightarrow> (vfs_judge, judge_decision) io" where
  "error_decision e request_id checkpoint reason elapsed =
     ibind (iget (\<lambda>s. decision_of e request_id checkpoint
              (evidence_error reason [''mission-events#'' @ str_int (me_event_id e)]) (elapsed s) s)) (\<lambda>decision.
     ibind next_decision (\<lambda>_. ireturn decision))"

text \<open>The checkpoint and the identity of a request, when its detail is one.\<close>

definition parse_request :: "pyval option \<Rightarrow> (string \<times> string) option" where
  "parse_request decoded =
     (case decoded of
        Some (VDict d) \<Rightarrow>
          if has_keys d [''checkpoint'', ''request_id''] then
            (case (strict_str (entry d ''checkpoint''), strict_str (entry d ''request_id'')) of
               (Some checkpoint, Some request_id) \<Rightarrow>
                 if request_id = [] then None else Some (checkpoint, request_id)
             | _ \<Rightarrow> None)
          else None
      | _ \<Rightarrow> None)"

text \<open>
  The answer to a request: an earlier answer to the same request, an error when the identity was
  used for another one, and otherwise a new decision, which is kept.
\<close>

definition answer_request :: "mission_event_sample \<Rightarrow> string \<Rightarrow> string \<Rightarrow> (vfs_judge, judge_decision) io
    \<Rightarrow> (vfs_judge, judge_decision list) io" where
  "answer_request e checkpoint request_id decide =
     ibind (iget (\<lambda>s. map_of (vj_requests s) request_id)) (\<lambda>previous.
       case previous of
         Some (phase_name, point, decision) \<Rightarrow>
           if phase_name = me_phase e \<and> point = checkpoint then ireturn [decision]
           else ibind (error_decision e request_id checkpoint ''request_id_conflict'' active_elapsed_ns) (\<lambda>d.
             ireturn [d])
       | None \<Rightarrow>
           ibind decide (\<lambda>decision.
           ibind (imodify (\<lambda>s. s\<lparr>vj_requests :=
               AList.update request_id (me_phase e, checkpoint, decision) (vj_requests s)\<rparr>)) (\<lambda>_.
             ireturn [decision])))"

definition check_request :: "(string \<Rightarrow> pyval option) \<Rightarrow> mission_event_sample
    \<Rightarrow> (string \<Rightarrow> string \<Rightarrow> (vfs_judge, judge_decision) io) \<Rightarrow> (vfs_judge, judge_decision list) io" where
  "check_request decode e decide =
     (case parse_request (decode (me_detail e)) of
        None \<Rightarrow>
          ibind (error_decision e [] [] ''invalid_request_detail'' active_elapsed_ns) (\<lambda>d. ireturn [d])
      | Some (checkpoint, request_id) \<Rightarrow> answer_request e checkpoint request_id (decide checkpoint request_id))"

definition start_phase :: "string \<Rightarrow> vfs_judge \<Rightarrow> vfs_judge" where
  "start_phase phase_name s =
     (let s1 = s\<lparr>vj_phase := phase_name\<rparr> in
      if phase_name = ''FM2'' then
        s1\<lparr>vj_fm2_airborne := (case vj_truth s of Some x \<Rightarrow> \<not> gt_in_contact x | None \<Rightarrow> False)\<rparr>
      else s1)"

definition judge_accept_mission_event :: "libm \<Rightarrow> (string \<Rightarrow> pyval option) \<Rightarrow> mission_event_sample
    \<Rightarrow> (vfs_judge, judge_decision list) io" where
  "judge_accept_mission_event L decode e =
     ibind (same_run (me_run_id e)) (\<lambda>_.
       if me_state e = ''STARTED'' \<and> me_phase e \<in> {''FM1'', ''FM2'', ''FM3''} then
         ibind (imodify (start_phase (me_phase e))) (\<lambda>_. ireturn [])
       else if me_state e \<noteq> ''CHECK_REQUESTED'' then ireturn []
       else check_request decode e (\<lambda>checkpoint request_id. judge_decision_on L e request_id checkpoint))"

definition reject_mission_event_missing_evidence :: "(string \<Rightarrow> pyval option) \<Rightarrow> mission_event_sample
    \<Rightarrow> (vfs_judge, judge_decision list) io" where
  "reject_mission_event_missing_evidence decode e =
     ibind (same_run (me_run_id e)) (\<lambda>_.
       if me_state e \<noteq> ''CHECK_REQUESTED'' then ireturn []
       else check_request decode e (\<lambda>checkpoint request_id.
         error_decision e request_id checkpoint ''evidence_stale_or_missing''
           (active_elapsed_at (me_sim_timestamp_ns e))))"

end
