(* ===== verification/Vfs_Scorer.thy ===== *)
theory Vfs_Scorer
  imports Vfs_Judge Score_Finalizer
begin

text \<open>
  The rules of the 2027 competition and \<open>VfsScorer\<close> of \<open>scorekeeper/vfs.py\<close>. The rules file is
  given as what \<open>json.loads\<close> makes of it and its SHA-256. Points are floats; the sum over no
  payload, which Python gives as the integer 0, is the float 0 here. A reason for a failure is a
  string.
\<close>

section \<open>Rules\<close>

record vfs_rules =
  vu_ruleset_id :: string
  vu_scoring_checksum :: string
  vu_point_a_manual :: pyfloat
  vu_point_a_autonomous :: pyfloat
  vu_target_points :: "(string, pyfloat) dict"
  vu_recovery_points :: pyfloat
  vu_autonomy_bonus :: pyfloat
  vu_time_bonuses :: "(int \<times> pyfloat) list"
  vu_weight_multipliers :: "(pyfloat \<times> pyfloat) list"
  vu_deduction_points :: pyfloat

definition maximum_available_score :: pyfloat where
  "maximum_available_score = Fin 380"

definition multiplier :: "vfs_rules \<Rightarrow> pyfloat \<Rightarrow> pyfloat result" where
  "multiplier u weight_lb =
     (case find (\<lambda>(upper, _). flt weight_lb upper) (vu_weight_multipliers u) of
        Some (_, m) \<Rightarrow> Inr m
      | None \<Rightarrow>
          if vu_weight_multipliers u = [] then Inl (OtherException ''IndexError'')
          else Inr (snd (last (vu_weight_multipliers u))))"

definition time_bonus :: "vfs_rules \<Rightarrow> int \<Rightarrow> pyfloat result" where
  "time_bonus u remaining_ns =
     rbind (int_div remaining_ns 1000000000) (\<lambda>seconds.
       case [points. (threshold, points) \<leftarrow> vu_time_bonuses u, fle (Fin (of_int threshold)) seconds] of
         [] \<Rightarrow> Inr (Fin 0)
       | x # xs \<Rightarrow> Inr (foldl py_max x xs))"

definition expected_time :: "(int \<times> int) list" where
  "expected_time = [(0, 0), (30, 1), (60, 3), (90, 5), (120, 7), (150, 9), (180, 11), (210, 13), (240, 15)]"

definition expected_weight :: "(pyfloat \<times> pyfloat) list" where
  "expected_weight = [(Fin 10, decimal 15 1), (Fin 12, decimal 14 1), (Fin 14, decimal 13 1),
     (Fin 16, decimal 12 1), (Fin 18, decimal 11 1), (Fin 20, decimal 105 2), (round64 (10 ^ 300), Fin 1)]"

definition expected_targets :: "(string \<times> int) list" where
  "expected_targets = [(''A'', 5), (''B'', 10), (''C'', 30)]"

text \<open>Equality of a value of the document with a number.\<close>

definition is_num :: "pyval \<Rightarrow> pyfloat \<Rightarrow> bool" where
  "is_num v f \<longleftrightarrow> map_option Fin (num_value v) = Some f"

definition points_expected :: "pyval \<Rightarrow> bool" where
  "points_expected v \<longleftrightarrow>
     (case v of
        VDict p \<Rightarrow>
          has_keys p [''A_manual'', ''A_autonomous'', ''BP_by_target'', ''CP_per_payload'', ''autonomy_bonus'']
          \<and> is_num (dict_get p ''A_manual'') (Fin 55) \<and> is_num (dict_get p ''A_autonomous'') (Fin 65)
          \<and> is_num (dict_get p ''CP_per_payload'') (Fin 30) \<and> is_num (dict_get p ''autonomy_bonus'') (Fin 15)
          \<and> (case dict_get p ''BP_by_target'' of
               VDict t \<Rightarrow> has_keys t (map fst expected_targets)
                 \<and> list_all (\<lambda>(k, n). is_num (dict_get t k) (Fin (of_int n))) expected_targets
             | _ \<Rightarrow> False)
      | _ \<Rightarrow> False)"

text \<open>The rows of a table: the objects among its items. Text and objects have none.\<close>

definition table_rows :: "(pyval \<times> pyval) list \<Rightarrow> string \<Rightarrow> (pyval \<times> pyval) list list result" where
  "table_rows d name =
     (case map_of d (VStr name) of
        None \<Rightarrow> Inr []
      | Some (VList xs) \<Rightarrow> Inr (concat (map (\<lambda>x. case x of VDict r \<Rightarrow> [r] | _ \<Rightarrow> []) xs))
      | Some (VDict _) \<Rightarrow> Inr []
      | Some (VStr _) \<Rightarrow> Inr []
      | Some _ \<Rightarrow> Inl (TypeError ''object is not iterable''))"

definition table_is :: "string \<Rightarrow> string \<Rightarrow> (pyfloat \<times> pyfloat) list \<Rightarrow> (pyval \<times> pyval) list list \<Rightarrow> bool" where
  "table_is left right expected rows \<longleftrightarrow>
     list_all2 (\<lambda>r (a, b). is_num (dict_get r left) a \<and> is_num (dict_get r right) b) rows expected"

text \<open>Reading a row by its keys fails on an item that is not an object.\<close>

definition only_objects :: "(pyval \<times> pyval) list \<Rightarrow> string \<Rightarrow> unit result" where
  "only_objects d name =
     (case map_of d (VStr name) of
        Some (VList xs) \<Rightarrow>
          if list_all (\<lambda>x. case x of VDict _ \<Rightarrow> True | _ \<Rightarrow> False) xs then Inr ()
          else Inl (TypeError ''row is not subscriptable by a key'')
      | _ \<Rightarrow> Inr ())"

definition vfs_rule_keys :: "string list" where
  "vfs_rule_keys = [''schema_version'', ''ruleset_id'', ''points'', ''time_bonus'', ''weight_multiplier'',
     ''deduction_points'']"

text \<open>The targets keep the order of the document.\<close>

definition target_points :: "pyval \<Rightarrow> (string, pyfloat) dict" where
  "target_points v =
     (case v of
        VDict t \<Rightarrow> concat (map (\<lambda>(k, x). case (strict_str k, num_value x) of
            (Some name, Some q) \<Rightarrow> [(name, Fin q)] | _ \<Rightarrow> []) t)
      | _ \<Rightarrow> [])"

definition load_vfs_rules :: "pyval result \<Rightarrow> string \<Rightarrow> vfs_rules result" where
  "load_vfs_rules decoded checksum =
     rbind decoded (\<lambda>document.
     case document of
       VDict d \<Rightarrow>
         rbind (refuse (\<not> is_num (dict_get d ''schema_version'') (Fin 1)
                   \<or> dict_get d ''ruleset_id'' \<noteq> VStr ''competition_2027_v1'') ''unsupported VFS ruleset'') (\<lambda>_.
         rbind (table_rows d ''time_bonus'') (\<lambda>times.
         rbind (table_rows d ''weight_multiplier'') (\<lambda>weights.
         rbind (refuse (\<not> has_keys d vfs_rule_keys \<or> \<not> points_expected (dict_get d ''points'')
                   \<or> \<not> table_is ''minimum_remaining_seconds'' ''points''
                        (map (\<lambda>(s, p). (Fin (of_int s), Fin (of_int p))) expected_time) times
                   \<or> \<not> table_is ''upper_bound_lb'' ''multiplier'' expected_weight weights
                   \<or> \<not> is_num (dict_get d ''deduction_points'') (Fin 25))
                  ''official VFS scoring policy changed'') (\<lambda>_.
         rbind (only_objects d ''time_bonus'') (\<lambda>_.
         rbind (only_objects d ''weight_multiplier'') (\<lambda>_.
           Inr \<lparr>vu_ruleset_id = ''competition_2027_v1'', vu_scoring_checksum = checksum,
             vu_point_a_manual = Fin 55, vu_point_a_autonomous = Fin 65,
             vu_target_points =
               (case dict_get d ''points'' of VDict p \<Rightarrow> target_points (dict_get p ''BP_by_target'') | _ \<Rightarrow> []),
             vu_recovery_points = Fin 30, vu_autonomy_bonus = Fin 15,
             vu_time_bonuses = map (\<lambda>(s, p). (s, Fin (of_int p))) expected_time,
             vu_weight_multipliers = expected_weight, vu_deduction_points = Fin 25\<rparr>))))))
     | _ \<Rightarrow> Inl AttributeError)"

section \<open>The scorer\<close>

record vfs_scorer =
  vk_run_id :: string
  vk_rules :: vfs_rules
  vk_course :: vfs_course
  vk_scenario :: vfs_scenario
  vk_weight_lb :: pyfloat
  vk_a :: pyfloat
  vk_bp :: pyfloat
  vk_cp :: pyfloat
  vk_ba :: pyfloat
  vk_ca :: pyfloat
  vk_t :: pyfloat
  vk_deductions :: pyfloat
  vk_active_ns :: "int option"
  vk_home_before_deadline :: bool
  vk_refs :: "(string, string) dict"
  vk_last_timestamp_ns :: int
  vk_diagnostic :: "string option"
  vk_phase :: string
  vk_truth :: "ground_truth_sample option"
  vk_payloads :: "(int, payload_sample) dict"
  vk_last_vehicle_status :: "vehicle_status_sample option"
  vk_autonomous :: "(string, bool) dict"
  vk_bp_invalid :: "(string \<times> string) option"
  vk_cp_invalid :: "(string \<times> string) option"
  vk_penalties :: "(string \<times> string) list"
  vk_fm2_eligible_ids :: "int set"

definition VfsScorer :: "pyval \<Rightarrow> vfs_rules \<Rightarrow> vfs_course \<Rightarrow> vfs_scenario \<Rightarrow> pyfloat \<Rightarrow> vfs_scorer result" where
  "VfsScorer run_id rules course scenario weight_lb =
     rbind (canonical_run_id run_id) (\<lambda>rid.
     rbind (refuse (\<not> isfinite weight_lb \<or> flt weight_lb (Fin 0))
              ''unloaded weight must be nonnegative and finite'') (\<lambda>_.
       Inr \<lparr>vk_run_id = rid, vk_rules = rules, vk_course = course, vk_scenario = scenario,
         vk_weight_lb = weight_lb, vk_a = Fin 0, vk_bp = Fin 0, vk_cp = Fin 0, vk_ba = Fin 0,
         vk_ca = Fin 0, vk_t = Fin 0, vk_deductions = Fin 0, vk_active_ns = None,
         vk_home_before_deadline = False, vk_refs = [], vk_last_timestamp_ns = 0, vk_diagnostic = None,
         vk_phase = [], vk_truth = None, vk_payloads = [], vk_last_vehicle_status = None,
         vk_autonomous = [(''FM1'', True), (''FM2'', True), (''FM3'', True)], vk_bp_invalid = None,
         vk_cp_invalid = None, vk_penalties = [], vk_fm2_eligible_ids = {}\<rparr>))"

definition scorer_fail :: "pyval \<Rightarrow> vfs_scorer \<Rightarrow> unit result \<times> vfs_scorer" where
  "scorer_fail reason s =
     (case nonempty_text reason of
        None \<Rightarrow> (Inl (ValueError ''failure reason must be nonempty''), s)
      | Some r \<Rightarrow> (Inr (), if vk_diagnostic s = None then s\<lparr>vk_diagnostic := Some r\<rparr> else s))"

definition observe :: "int \<Rightarrow> vfs_scorer \<Rightarrow> vfs_scorer" where
  "observe t s = s\<lparr>vk_last_timestamp_ns := max (vk_last_timestamp_ns s) t\<rparr>"

definition set_ref :: "string \<Rightarrow> string \<Rightarrow> vfs_scorer \<Rightarrow> vfs_scorer" where
  "set_ref name r s = s\<lparr>vk_refs := AList.update name r (vk_refs s)\<rparr>"

section \<open>Components of the score\<close>

definition invalidate_bp :: "string \<Rightarrow> string \<Rightarrow> vfs_scorer \<Rightarrow> vfs_scorer" where
  "invalidate_bp reason r s =
     set_ref ''BP'' (r @ '':'' @ reason) (s\<lparr>vk_bp_invalid := Some (reason, r), vk_bp := Fin 0\<rparr>)"

definition invalidate_cp :: "string \<Rightarrow> string \<Rightarrow> vfs_scorer \<Rightarrow> vfs_scorer" where
  "invalidate_cp reason r s =
     set_ref ''CP'' (r @ '':'' @ reason) (s\<lparr>vk_cp_invalid := Some (reason, r), vk_cp := Fin 0\<rparr>)"

definition add_penalty :: "string \<Rightarrow> string \<Rightarrow> vfs_scorer \<Rightarrow> vfs_scorer" where
  "add_penalty reason r s =
     set_ref ''deductions'' (r @ '':'' @ reason)
       (s\<lparr>vk_deductions := fadd (vk_deductions s) (vu_deduction_points (vk_rules s)),
          vk_penalties := vk_penalties s @ [(reason, r)]\<rparr>)"

definition record_fm1 :: "bool \<Rightarrow> bool \<Rightarrow> string \<Rightarrow> vfs_scorer \<Rightarrow> vfs_scorer" where
  "record_fm1 autonomous complete_run r s =
     set_ref ''A'' r (s\<lparr>vk_a :=
       (if complete_run
        then if autonomous then vu_point_a_autonomous (vk_rules s) else vu_point_a_manual (vk_rules s)
        else Fin 0)\<rparr>)"

definition points_of :: "vfs_scorer \<Rightarrow> int \<Rightarrow> pyfloat result" where
  "points_of s marker =
     (case map_of (payload_targets (vk_scenario s)) marker of
        None \<Rightarrow> Inl KeyError
      | Some target \<Rightarrow>
          (case map_of (vu_target_points (vk_rules s)) target of None \<Rightarrow> Inl KeyError | Some p \<Rightarrow> Inr p))"

definition record_fm2 :: "int list \<Rightarrow> bool \<Rightarrow> string \<Rightarrow> (vfs_scorer, unit) io" where
  "record_fm2 ids autonomous r =
     ibind (iget id) (\<lambda>s.
     ibind (ilift (each (points_of s) ids)) (\<lambda>points.
       imodify (\<lambda>s. set_ref ''BA'' r (set_ref ''BP'' r
         (s\<lparr>vk_bp := (if vk_bp_invalid s \<noteq> None then Fin 0 else py_sum points),
            vk_ba := (if autonomous \<and> ids \<noteq> [] then vu_autonomy_bonus (vk_rules s) else Fin 0)\<rparr>)))))"

definition record_fm3 :: "int list \<Rightarrow> bool \<Rightarrow> string \<Rightarrow> vfs_scorer \<Rightarrow> vfs_scorer" where
  "record_fm3 ids autonomous r s =
     set_ref ''CA'' r
       ((case vk_cp_invalid s of
           Some (reason, invalidation) \<Rightarrow>
             set_ref ''CP'' (invalidation @ '':'' @ reason) (s\<lparr>vk_cp := Fin 0\<rparr>)
         | None \<Rightarrow>
             set_ref ''CP'' r
               (s\<lparr>vk_cp := fmul (Fin (of_nat (length ids))) (vu_recovery_points (vk_rules s))\<rparr>))
        \<lparr>vk_ca := (if autonomous \<and> ids \<noteq> [] then vu_autonomy_bonus (vk_rules s) else Fin 0)\<rparr>)"

definition record_active_time :: "int \<Rightarrow> bool \<Rightarrow> (vfs_scorer, unit) io" where
  "record_active_time active_elapsed home =
     (if active_elapsed < 0 then iraise (ValueError ''timestamp must be a nonnegative integer'')
      else imodify (\<lambda>s. s\<lparr>vk_active_ns := Some active_elapsed, vk_home_before_deadline := home\<rparr>))"

section \<open>Evidence\<close>

definition AUTONOMOUS_MODES :: "string list" where
  "AUTONOMOUS_MODES = [''GUIDED'', ''LAND'']"

text \<open>A touch-down outside the landing zones, and one in failsafe, cost a penalty.\<close>

definition allowed_zone :: "libm \<Rightarrow> vfs_course \<Rightarrow> ground_truth_sample \<Rightarrow> bool" where
  "allowed_zone L course x =
     list_ex (\<lambda>name. case map_of (vc_waypoints course) name of
         None \<Rightarrow> False
       | Some w \<Rightarrow> zone_holds L w (gt_position_xyz x ! 0, gt_position_xyz x ! 1) (Fin 0))
       [''S'', ''D'', ''L'', ''H'']"

definition failsafe_status :: "int \<Rightarrow> vfs_scorer \<Rightarrow> vehicle_status_sample option" where
  "failsafe_status now s =
     (case vk_last_vehicle_status s of
        None \<Rightarrow> None
      | Some v \<Rightarrow>
          if vt_failsafe_active v \<and> fresh STATUS_FRESHNESS_NS now (vt_sim_timestamp_ns v) then Some v else None)"

definition judge_touch_down :: "libm \<Rightarrow> ground_truth_sample \<Rightarrow> vfs_scorer \<Rightarrow> vfs_scorer" where
  "judge_touch_down L x s =
     (let now = gt_sim_timestamp_ns x;
          s1 = (if allowed_zone L (vk_course s) x then s
                else add_penalty ''off_course_contact'' (''ground-truth#'' @ str_int now) s)
      in case failsafe_status now s1 of
           None \<Rightarrow> s1
         | Some v \<Rightarrow> add_penalty ''failsafe_landing'' (''vehicle-status#'' @ str_int (vt_sequence_id v)) s1)"

definition scorer_accept_ground_truth :: "libm \<Rightarrow> ground_truth_sample \<Rightarrow> vfs_scorer \<Rightarrow> vfs_scorer" where
  "scorer_accept_ground_truth L x s =
     (if gt_run_id x \<noteq> vk_run_id s then s
      else
        (let s1 = (observe (gt_sim_timestamp_ns x) s)\<lparr>vk_truth := Some x\<rparr> in
         case vk_truth s of
           Some p \<Rightarrow> if \<not> gt_in_contact p \<and> gt_in_contact x then judge_touch_down L x s1 else s1
         | None \<Rightarrow> s1))"

definition scorer_accept_vehicle_status :: "vehicle_status_sample \<Rightarrow> vfs_scorer \<Rightarrow> vfs_scorer" where
  "scorer_accept_vehicle_status v s =
     (if vt_run_id v \<noteq> vk_run_id s then s
      else
        (let s1 = (observe (vt_sim_timestamp_ns v) s)\<lparr>vk_last_vehicle_status := Some v\<rparr> in
         if vk_phase s \<in> set (dict_keys (vk_autonomous s))
            \<and> (vt_armed v \<and> vt_mode v \<notin> set AUTONOMOUS_MODES \<or> vt_failsafe_active v)
         then s1\<lparr>vk_autonomous := AList.update (vk_phase s) False (vk_autonomous s)\<rparr>
         else s1))"

definition scorer_accept_payload_state :: "payload_sample \<Rightarrow> vfs_scorer \<Rightarrow> vfs_scorer" where
  "scorer_accept_payload_state p s =
     (if ps_run_id p \<noteq> vk_run_id s then s
      else (observe (ps_sim_timestamp_ns p) s)
        \<lparr>vk_payloads := AList.update (ps_aruco_id p) p (vk_payloads s)\<rparr>)"

text \<open>A payload let go too low in the second phase, or away from L in the third.\<close>

definition judge_release :: "libm \<Rightarrow> string \<Rightarrow> ground_truth_sample \<Rightarrow> (vfs_scorer, unit) io" where
  "judge_release L r x =
     ibind (iget id) (\<lambda>s.
       if vk_phase s = ''FM2'' \<and> flt (gt_position_xyz x ! 2) (va_minimum_agl_m (vc_attempt (vk_course s))) then
         imodify (invalidate_bp ''low_release'' r)
       else if vk_phase s = ''FM3'' then
         (if \<not> gt_in_contact x then imodify (invalidate_cp ''airborne_release'' r)
          else
            ibind (ilift (aircraft_inside L (vk_course s) ''L'' x)) (\<lambda>inside.
              if inside then ireturn () else imodify (invalidate_cp ''invalid_landing'' r)))
       else ireturn ())"

definition scorer_accept_payload_event :: "libm \<Rightarrow> payload_event_sample \<Rightarrow> (vfs_scorer, unit) io" where
  "scorer_accept_payload_event L e =
     ibind (iget id) (\<lambda>s.
       if pv_run_id e \<noteq> vk_run_id s then ireturn ()
       else
         ibind (imodify (observe (pv_sim_timestamp_ns e))) (\<lambda>_.
           case vk_truth s of
             Some x \<Rightarrow>
               if pv_action e = ''release'' \<and> pv_state e = ''detached''
               then judge_release L (''payload-events#'' @ str_int (pv_event_id e)) x
               else ireturn ()
           | None \<Rightarrow> ireturn ()))"

definition scorer_accept_mission_event :: "mission_event_sample \<Rightarrow> vfs_scorer \<Rightarrow> vfs_scorer" where
  "scorer_accept_mission_event e s =
     (if me_run_id e \<noteq> vk_run_id s then s
      else
        (let s1 = observe (me_sim_timestamp_ns e) s in
         if me_state e = ''STARTED'' \<and> me_phase e \<in> set (dict_keys (vk_autonomous s))
         then s1\<lparr>vk_phase := me_phase e\<rparr> else s1))"

definition autonomous_in :: "string \<Rightarrow> vfs_scorer \<Rightarrow> bool" where
  "autonomous_in phase_name s = (map_of (vk_autonomous s) phase_name = Some True)"

definition delivered_payload :: "libm \<Rightarrow> vfs_scorer \<Rightarrow> int \<times> payload_sample \<Rightarrow> bool result" where
  "delivered_payload L s = (\<lambda>(marker, p).
     if marker \<in> vk_fm2_eligible_ids s \<and> \<not> ps_attached p then
       rbind (waypoint_named (vc_waypoints (vk_course s)) ''L'') (\<lambda>w.
         Inr (payload_contained L p w (vg_size_m (vs_payload_geometry (vk_scenario s)))
                (vc_ground_z_m (vk_course s)) (va_ground_contact_epsilon_m (vc_attempt (vk_course s)))))
     else Inr False)"

definition scorer_accept_judge_decision :: "libm \<Rightarrow> judge_decision \<Rightarrow> (vfs_scorer, unit) io" where
  "scorer_accept_judge_decision L d =
     ibind (iget id) (\<lambda>s.
       if de_run_id d \<noteq> vk_run_id s \<or> de_outcome d \<noteq> Approved then ireturn ()
       else
         (let r = (case de_evidence_refs d of [] \<Rightarrow> ''judge-decisions'' | x # _ \<Rightarrow> x) in
          ibind (imodify (observe (de_sim_timestamp_ns d))) (\<lambda>_.
            if de_phase d = ''FM1'' \<and> de_checkpoint d = ''H'' then
              imodify (record_fm1 (autonomous_in ''FM1'' s) True r)
            else if de_phase d = ''FM2'' then
              ibind (imodify (\<lambda>s. s\<lparr>vk_fm2_eligible_ids := set (de_eligible_aruco_ids d)\<rparr>)) (\<lambda>_.
              ibind (record_fm2 (de_eligible_aruco_ids d) (autonomous_in ''FM2'' s) r) (\<lambda>_.
                record_active_time (de_active_elapsed_ns d) False))
            else if de_phase d = ''FM3'' then
              ibind (ilift (keep (delivered_payload L s) (vk_payloads s))) (\<lambda>delivered.
              ibind (imodify (record_fm3 (map fst delivered) (autonomous_in ''FM3'' s) r)) (\<lambda>_.
                record_active_time (de_active_elapsed_ns d) True))
            else ireturn ())))"

section \<open>The result\<close>

definition late_home :: "int \<Rightarrow> vfs_scorer \<Rightarrow> bool" where
  "late_home duration_ns s \<longleftrightarrow>
     (case vk_active_ns s of None \<Rightarrow> False | Some active \<Rightarrow> duration_ns < active)
     \<and> \<not> vk_home_before_deadline s \<and> ''late_home'' \<notin> set (map fst (vk_penalties s))"

definition time_awarded :: "int \<Rightarrow> vfs_scorer \<Rightarrow> int option" where
  "time_awarded duration_ns s =
     (case vk_active_ns s of
        None \<Rightarrow> None
      | Some active \<Rightarrow>
          if flt (Fin 0) (vk_cp s) \<and> vk_home_before_deadline s \<and> active \<le> duration_ns
          then Some (duration_ns - active) else None)"

definition achieved_score :: "pyfloat \<Rightarrow> vfs_scorer \<Rightarrow> pyfloat" where
  "achieved_score m s =
     py_max (Fin 0)
       (fsub (fadd (fadd (fadd (fadd (vk_a s) (fmul m (fadd (vk_bp s) (vk_cp s)))) (vk_ba s)) (vk_ca s)) (vk_t s))
          (vk_deductions s))"

definition score_values :: "pyfloat \<Rightarrow> vfs_scorer \<Rightarrow> (string \<times> pyfloat \<times> pyfloat) list" where
  "score_values m s =
     [(''A'', vk_a s, Fin 65), (''BP'', vk_bp s, Fin 90), (''CP'', vk_cp s, Fin 90), (''R'', m, decimal 15 1),
      (''BA'', vk_ba s, Fin 15), (''CA'', vk_ca s, Fin 15), (''T'', vk_t s, Fin 15),
      (''deductions'', vk_deductions s, Fin 0)]"

definition score_row :: "vfs_scorer \<Rightarrow> string \<times> pyfloat \<times> pyfloat \<Rightarrow> rule_result" where
  "score_row s = (\<lambda>(name, value, available).
     \<lparr>ru_rule_id = name, ru_passed = (value = available \<and> value \<noteq> NaN), ru_awarded_points = value,
      ru_available_points = available,
      ru_evidence_ref = (case map_of (vk_refs s) name of Some r \<Rightarrow> r | None \<Rightarrow> ''rules#'' @ name)\<rparr>)"

text \<open>Events as pairs of a type, a value and a reference, before they are numbered.\<close>

definition unnumbered_events :: "pyfloat \<Rightarrow> vfs_scorer \<Rightarrow> (string \<times> pyfloat \<times> string) list" where
  "unnumbered_events m s =
     map (\<lambda>(row :: rule_result). (''competition_2027.'' @ ru_rule_id row, ru_awarded_points row, ru_evidence_ref row))
       (map (score_row s) (score_values m s))
     @ map (\<lambda>(reason, r). (''competition_2027.penalty.'' @ reason, fneg (vu_deduction_points (vk_rules s)), r))
         (vk_penalties s)
     @ [(''competition_2027.unloaded_weight_lb'', vk_weight_lb s,
         ''configuration/scenario.yaml#aircraft_empty_mass_kg''),
        (''score.finalized'', achieved_score m s, ''scoring/result.json'')]"

definition number_events :: "string \<Rightarrow> int \<Rightarrow> (string \<times> pyfloat \<times> string) list \<Rightarrow> score_event list" where
  "number_events run_id stamp events =
     map (\<lambda>(i, event_type, value, r).
         \<lparr>ev_run_id = run_id, ev_sim_timestamp_ns = stamp, ev_event_id = int i, ev_event_type = event_type,
          ev_value = value, ev_evidence_ref = r\<rparr>)
       (zip [0..<length events] events)"

definition in_order :: "'a list \<Rightarrow> 'a list" where
  "in_order xs = rev (remdups (rev xs))"

definition score_result_of :: "pyfloat \<Rightarrow> int \<Rightarrow> vfs_scorer \<Rightarrow> score_result" where
  "score_result_of m stamp s =
     (let rows = map (score_row s) (score_values m s) in
      \<lparr>sr_run_id = vk_run_id s, sr_ruleset_id = vu_ruleset_id (vk_rules s),
       sr_complete = (vk_diagnostic s = None), sr_achieved_score = achieved_score m s,
       sr_maximum_available_score = maximum_available_score,
       sr_scoring_checksum = vu_scoring_checksum (vk_rules s),
       sr_evidence_paths = in_order (map ru_evidence_ref rows), sr_rule_results = rows,
       sr_events = number_events (vk_run_id s) stamp (unnumbered_events m s),
       sr_diagnostic = vk_diagnostic s\<rparr>)"

definition vfs_finalize :: "int option \<Rightarrow> (vfs_scorer, score_result) io" where
  "vfs_finalize timestamp_ns =
     ibind (iget (\<lambda>s. case timestamp_ns of None \<Rightarrow> vk_last_timestamp_ns s | Some t \<Rightarrow> t)) (\<lambda>stamp.
       if stamp < 0 then iraise (ValueError ''timestamp must be a nonnegative integer'')
       else
         ibind (iget id) (\<lambda>s.
         ibind (ilift (multiplier (vk_rules s) (vk_weight_lb s))) (\<lambda>m.
         ibind (ilift (nanoseconds (va_duration_seconds (vc_attempt (vk_course s))))) (\<lambda>duration_ns.
         ibind (imodify (if late_home duration_ns s
                         then add_penalty ''late_home'' ''attempt-status#active-deadline'' else id)) (\<lambda>_.
         ibind (case time_awarded duration_ns s of
                  None \<Rightarrow> ireturn ()
                | Some remaining \<Rightarrow>
                    ibind (ilift (time_bonus (vk_rules s) remaining)) (\<lambda>t. imodify (\<lambda>s. s\<lparr>vk_t := t\<rparr>))) (\<lambda>_.
           iget (score_result_of m stamp)))))))"

definition vfs_ops :: "vfs_scorer scorer_ops" where
  "vfs_ops = \<lparr>so_run_id = vk_run_id, so_last_sim_timestamp_ns = (\<lambda>s. Some (vk_last_timestamp_ns s)),
     so_fail = scorer_fail, so_finalize = vfs_finalize None\<rparr>"

end
