(* ===== verification/Vfs_Score_Bounds.thy ===== *)
theory Vfs_Score_Bounds
  imports Vfs_Scorer Vfs_Contract_Props
begin

text \<open>
  Bounds of the score: the components of \<open>VfsScorer\<close> stay within what the rules award, whatever
  it accepts, and so does the result, the rounding of its floating-point sum included.
\<close>

section \<open>Rounding keeps integer bounds\<close>

lemma round_half_even_le:
  assumes "q \<le> of_int n"
  shows "round_half_even q \<le> n"
proof -
  have f: "\<lfloor>q\<rfloor> \<le> n" using assms by linarith
  moreover have "\<lfloor>q\<rfloor> + 1 \<le> n" if "1 / 2 \<le> q - of_int \<lfloor>q\<rfloor>"
    using that assms by linarith
  ultimately show ?thesis by (auto simp: round_half_even_def Let_def)
qed

lemma round_half_even_ge: "of_int n \<le> q \<Longrightarrow> n \<le> round_half_even q"
proof -
  assume "of_int n \<le> q"
  then have "n \<le> \<lfloor>q\<rfloor>" by (simp add: le_floor_iff)
  then show ?thesis by (auto simp: round_half_even_def Let_def)
qed

lemma exponent_le:
  assumes "0 < q" and "q \<le> of_int n" and "n < 2 ^ 53"
  shows "exponent q < 53"
proof (cases "1 \<le> q")
  case True
  have l: "1 \<le> \<lfloor>q\<rfloor>" "\<lfloor>q\<rfloor> < 2 ^ 53"
  proof -
    show "1 \<le> \<lfloor>q\<rfloor>" using True by (simp add: le_floor_iff)
    have "\<lfloor>q\<rfloor> \<le> n" using assms(2) by linarith
    then show "\<lfloor>q\<rfloor> < 2 ^ 53" using assms(3) by linarith
  qed
  have "2 ^ ilog2 \<lfloor>q\<rfloor> \<le> \<lfloor>q\<rfloor>"
    using ilog2_bounds [of "\<lfloor>q\<rfloor>"] l by simp
  then have "(2 :: int) ^ ilog2 \<lfloor>q\<rfloor> < 2 ^ 53"
    using l by linarith
  then have "ilog2 \<lfloor>q\<rfloor> < 53"
    by (rule power_less_imp_less_exp [rotated]) simp
  then show ?thesis using True by (simp add: exponent_def)
next
  case False
  then show ?thesis by (simp add: exponent_def)
qed

text \<open>A number between 0 and an integer of at most 53 bits is rounded to one between them.\<close>

lemma round64_between:
  assumes "0 \<le> q" and "q \<le> of_int n" and "n < 2 ^ 53"
  shows "\<exists>v. round64 q = Fin v \<and> 0 \<le> v \<and> v \<le> of_int n"
proof (cases "q = 0")
  case True
  then show ?thesis using assms(2) by (simp add: round64_def)
next
  case False
  then have q: "0 < q" using assms(1) by simp
  let ?u = "pow2 (ulp_exponent q)" and ?e = "ulp_exponent q"
  let ?v = "of_int (round_half_even (q / ?u)) * ?u"
  have e: "?e \<le> 0"
    using exponent_le [OF q assms(2,3)] q by (simp add: ulp_exponent_def)
  then have u: "?u = 1 / 2 ^ nat (- ?e)"
    by (simp add: pow2_def)
  have "q / ?u \<le> of_int (n * 2 ^ nat (- ?e))"
    using assms(2) by (simp add: u)
  then have "of_int (round_half_even (q / ?u)) \<le> (of_int (n * 2 ^ nat (- ?e)) :: rat)"
    by (simp only: of_int_le_iff round_half_even_le)
  then have "?v \<le> of_int (n * 2 ^ nat (- ?e)) * ?u"
    using less_imp_le [OF pow2_pos] by (rule mult_right_mono)
  also have "\<dots> = of_int n"
    unfolding u by simp
  finally have le: "?v \<le> of_int n" .
  have "0 \<le> round_half_even (q / ?u)"
    using q by (intro round_half_even_ge) (simp add: divide_nonneg_pos)
  then have ge: "0 \<le> ?v"
    using less_imp_le [OF pow2_pos] by simp
  have "(n :: int) < 2 ^ 1024"
    using assms(3) power_increasing [of 53 1024 "2 :: int"] by linarith
  then have "(of_int n :: rat) < of_int (2 ^ 1024)"
    by (simp only: of_int_less_iff)
  then have "of_int n < float_limit"
    unfolding float_limit_def by (simp only: of_int_power of_int_numeral)
  then show ?thesis
    using q le ge by (simp add: round64_def Let_def)
qed

lemma round64_neg:
  assumes "q \<le> 0"
  shows "fle (round64 q) (Fin 0)"
proof -
  have "0 \<le> round_half_even (\<bar>q\<bar> / pow2 (ulp_exponent q))"
    by (intro round_half_even_ge) (simp add: divide_nonneg_pos)
  then have "0 \<le> of_int (round_half_even (\<bar>q\<bar> / pow2 (ulp_exponent q))) * pow2 (ulp_exponent q)"
    by (simp add: less_imp_le)
  then show ?thesis
    using assms by (auto simp: round64_def Let_def)
qed

lemma round64_pos:
  assumes "0 \<le> q"
  shows "fle (Fin 0) (round64 q)"
proof -
  have "0 \<le> round_half_even (\<bar>q\<bar> / pow2 (ulp_exponent q))"
    by (intro round_half_even_ge) (simp add: divide_nonneg_pos)
  then have "0 \<le> of_int (round_half_even (\<bar>q\<bar> / pow2 (ulp_exponent q))) * pow2 (ulp_exponent q)"
    by (simp add: less_imp_le)
  then show ?thesis
    using assms by (auto simp: round64_def Let_def)
qed

section \<open>Numbers between bounds\<close>

definition between :: "int \<Rightarrow> pyfloat \<Rightarrow> bool" where
  "between n f \<longleftrightarrow> (\<exists>v. f = Fin v \<and> 0 \<le> v \<and> v \<le> of_int n)"

lemma between_Fin [simp]: "between n (Fin v) \<longleftrightarrow> 0 \<le> v \<and> v \<le> of_int n"
  by (simp add: between_def)

lemma between_round: "0 \<le> q \<Longrightarrow> q \<le> of_int n \<Longrightarrow> n < 2 ^ 53 \<Longrightarrow> between n (round64 q)"
  using round64_between [of q n] by (auto simp: between_def)

lemma between_mono: "between m f \<Longrightarrow> m \<le> n \<Longrightarrow> between n f"
  by (auto simp: between_def intro: order_trans)

lemma between_fadd:
  assumes "between m f" and "between n g" and "m + n < 2 ^ 53"
  shows "between (m + n) (fadd f g)"
proof -
  obtain x y where "f = Fin x" "g = Fin y" "0 \<le> x" "x \<le> of_int m" "0 \<le> y" "y \<le> of_int n"
    using assms(1,2) by (auto simp: between_def)
  then show ?thesis
    using between_round [of "x + y" "m + n"] assms(3) by (simp add: fadd_def)
qed

text \<open>A product with a factor of at most one and a half.\<close>

lemma between_fmul:
  assumes "0 \<le> x" and "x \<le> 3 / 2" and "between (2 * n) f" and "3 * n < 2 ^ 53"
  shows "between (3 * n) (fmul (Fin x) f)"
proof -
  obtain y where y: "f = Fin y" "0 \<le> y" "y \<le> of_int (2 * n)"
    using assms(3) by (auto simp: between_def)
  have "x * y \<le> 3 / 2 * of_int (2 * n)"
    using assms(1,2) y by (intro mult_mono) simp_all
  then have "x * y \<le> of_int (3 * n)" by simp
  then show ?thesis
    using between_round [of "x * y" "3 * n"] assms y by (simp add: fmul_def)
qed

text \<open>The difference to a number that is not negative, cut off at 0.\<close>

lemma between_cut:
  assumes "between n f" and "fle (Fin 0) d" and "n < 2 ^ 53"
  shows "between n (py_max (Fin 0) (fsub f d))"
proof -
  obtain x where x: "f = Fin x" "0 \<le> x" "x \<le> of_int n"
    using assms(1) by (auto simp: between_def)
  have n: "0 \<le> n" using x by (metis of_int_0_le_iff order_trans)
  show ?thesis
  proof (cases d)
    case (Fin y)
    then have y: "0 \<le> y" using assms(2) by simp
    show ?thesis
    proof (cases "y \<le> x")
      case True
      then show ?thesis
        using between_round [of "x - y" n] x y Fin assms(3) n by (auto simp: py_max_def between_def)
    next
      case False
      then have "fle (round64 (x - y)) (Fin 0)" by (intro round64_neg) simp
      then show ?thesis using x Fin n by (auto simp: py_max_def flt_def)
    qed
  qed (use assms(2) x n in \<open>simp_all add: py_max_def flt_def\<close>)
qed

section \<open>The official rules\<close>

definition official :: "vfs_rules \<Rightarrow> bool" where
  "official u \<longleftrightarrow>
     vu_point_a_manual u = Fin 55 \<and> vu_point_a_autonomous u = Fin 65 \<and> vu_recovery_points u = Fin 30
     \<and> vu_autonomy_bonus u = Fin 15 \<and> vu_deduction_points u = Fin 25
     \<and> vu_time_bonuses u = map (\<lambda>(s, p). (s, Fin (of_int p))) expected_time
     \<and> vu_weight_multipliers u = expected_weight
     \<and> (\<forall>(k, n)\<in>set expected_targets. map_of (vu_target_points u) k = Some (Fin (of_int n)))"

lemma target_points_lookup:
  "map_of t (VStr k) = Some v \<Longrightarrow> num_value v = Some q \<Longrightarrow> map_of (target_points (VDict t)) k = Some (Fin q)"
  by (induction t) (auto simp: target_points_def split: if_splits option.splits)

lemma load_official:
  assumes "load_vfs_rules document checksum = Inr u"
  shows "official u"
proof -
  obtain d where d: "document = Inr (VDict d)"
    using assms by (cases document; cases "projr document") (simp_all add: load_vfs_rules_def)
  have ok: "points_expected (dict_get d ''points'')"
    using assms by (auto simp: d load_vfs_rules_def refuse_def)
  then obtain p where p: "dict_get d ''points'' = VDict p"
    by (cases "dict_get d ''points''") (simp_all add: points_expected_def)
  then obtain t where pt: "dict_get p ''BP_by_target'' = VDict t"
    and t: "list_all (\<lambda>(k, n). is_num (dict_get t k) (Fin (of_int n))) expected_targets"
    using ok by (cases "dict_get p ''BP_by_target''") (simp_all add: points_expected_def)
  have u: "vu_target_points u = target_points (VDict t)"
    and c: "vu_point_a_manual u = Fin 55" "vu_point_a_autonomous u = Fin 65" "vu_recovery_points u = Fin 30"
      "vu_autonomy_bonus u = Fin 15" "vu_deduction_points u = Fin 25"
      "vu_time_bonuses u = map (\<lambda>(s, p). (s, Fin (of_int p))) expected_time"
      "vu_weight_multipliers u = expected_weight"
    using assms by (auto simp: d p pt load_vfs_rules_def refuse_def)
  have "map_of (target_points (VDict t)) k = Some (Fin (of_int n))" if "(k, n) \<in> set expected_targets" for k n
  proof -
    have "is_num (dict_get t k) (Fin (of_int n))"
      using t that by (auto simp: list_all_iff)
    then show ?thesis
      by (auto simp: is_num_def dict_get_def intro: target_points_lookup split: option.splits)
  qed
  then show ?thesis using c u by (auto simp: official_def)
qed

definition modest :: "pyfloat \<Rightarrow> bool" where
  "modest m \<longleftrightarrow> (case m of Fin x \<Rightarrow> 1 \<le> x \<and> x \<le> 3 / 2 | _ \<Rightarrow> False)"

lemma modest_decimals:
  "modest (decimal 15 1)" "modest (decimal 14 1)" "modest (decimal 13 1)" "modest (decimal 12 1)"
  "modest (decimal 11 1)" "modest (decimal 105 2)"
  by (simp_all add: modest_def decimal_def rounding)

lemma expected_multipliers: "list_all (\<lambda>(_, m). modest m) expected_weight"
  by (simp add: expected_weight_def modest_decimals del: One_nat_def) (simp add: modest_def)

lemma multiplier_bounds:
  assumes "official u" and "multiplier u w = Inr m"
  shows "\<exists>x. m = Fin x \<and> 1 \<le> x \<and> x \<le> 3 / 2"
proof -
  have m: "m \<in> snd ` set expected_weight"
    using assms by (force simp: multiplier_def official_def find_Some_iff expected_weight_def
        split: option.splits if_splits)
  show ?thesis
    using expected_multipliers m by (auto simp: list_all_iff modest_def split: pyfloat.splits)
qed

lemma py_max_cases: "py_max a b = a \<or> py_max a b = b"
  by (simp add: py_max_def)

lemma foldl_py_max: "list_all P (x # xs) \<Longrightarrow> P (foldl py_max x xs)"
proof (induction xs arbitrary: x)
  case (Cons a xs)
  then have "P (py_max x a)" using py_max_cases [of x a] by auto
  with Cons show ?case by simp
qed simp

lemma time_bonus_bounds:
  assumes "official u" and "time_bonus u t = Inr p"
  shows "between 15 p"
proof -
  have "\<forall>q\<in>set (vu_time_bonuses u). between 15 (snd q)"
    using assms(1) by (simp add: official_def expected_time_def)
  then have all: "list_all (between 15) [points. (threshold, points) \<leftarrow> vu_time_bonuses u, P threshold]" for P
    by (auto simp: list_all_iff)
  obtain seconds where p: "(case [points. (threshold, points) \<leftarrow> vu_time_bonuses u, fle (Fin (of_int threshold)) seconds]
      of [] \<Rightarrow> Inr (Fin 0) | x # xs \<Rightarrow> Inr (foldl py_max x xs)) = (Inr p :: pyfloat result)"
    using assms(2) by (auto simp: time_bonus_def)
  show ?thesis
    using p all [of "\<lambda>t. fle (Fin (of_int t)) seconds"] foldl_py_max [of "between 15"]
    by (cases "[points. (threshold, points) \<leftarrow> vu_time_bonuses u, fle (Fin (of_int threshold)) seconds]") auto
qed

section \<open>The components\<close>

definition score_ok :: "vfs_scorer \<Rightarrow> bool" where
  "score_ok s \<longleftrightarrow>
     official (vk_rules s) \<and> valid_targets (vk_scenario s) \<and> dict_ok (vk_payloads s)
     \<and> vk_fm2_eligible_ids s \<subseteq> set VFS_PAYLOAD_IDS
     \<and> between 65 (vk_a s) \<and> between 90 (vk_bp s) \<and> between 90 (vk_cp s) \<and> between 15 (vk_ba s)
     \<and> between 15 (vk_ca s) \<and> between 15 (vk_t s) \<and> fle (Fin 0) (vk_deductions s)"

text \<open>A decision names configured payloads, each once.\<close>

definition proper_decision :: "vfs_scenario \<Rightarrow> judge_decision \<Rightarrow> bool" where
  "proper_decision sc d \<longleftrightarrow>
     distinct (de_eligible_aruco_ids d) \<and> set (de_eligible_aruco_ids d) \<subseteq> set (dict_keys (vs_targets sc))"

lemma points_of_bounds:
  assumes "official (vk_rules s)" and "valid_targets (vk_scenario s)" and "points_of s marker = Inr p"
  shows "\<exists>n. p = Fin (of_int n) \<and> 0 \<le> n \<and> n \<le> 30"
proof -
  obtain target where t: "map_of (vs_targets (vk_scenario s)) marker = Some target"
    and p: "map_of (vu_target_points (vk_rules s)) target = Some p"
    using assms(3) by (auto simp: points_of_def payload_targets_def split: option.splits)
  have "target \<in> {''A'', ''B'', ''C''}"
    using assms(2) map_of_SomeD [OF t] by (force simp: valid_targets_def)
  then have "\<exists>n\<in>{5, 10, 30}. p = Fin (of_int n)"
    using assms(1) p by (auto simp: official_def expected_targets_def)
  then show ?thesis by auto
qed

lemma points_sum_bounds:
  assumes "official (vk_rules s)" and "valid_targets (vk_scenario s)" and "each (points_of s) ids = Inr ps"
  shows "\<exists>ns. ps = map (\<lambda>n. Fin (of_int n)) ns \<and> length ns = length ids \<and> (\<forall>n\<in>set ns. 0 \<le> n \<and> n \<le> 30)"
  using assms(3)
proof (induction ids arbitrary: ps)
  case Nil
  then show ?case by simp
next
  case (Cons i js)
  then obtain p qs ns where "ps = p # qs" "points_of s i = Inr p"
    "qs = map (\<lambda>n. Fin (of_int n)) ns" "length ns = length js" "\<forall>n\<in>set ns. 0 \<le> n \<and> n \<le> 30"
    by fastforce
  then show ?case
    using points_of_bounds [OF assms(1,2), of i p] by (metis length_Cons list.simps(9) set_ConsD)
qed

lemma sum_list_le: "\<forall>n\<in>set ns. 0 \<le> n \<and> n \<le> k \<Longrightarrow> 0 \<le> sum_list ns \<and> sum_list ns \<le> k * int (length ns)" for k :: int
  by (induction ns) (auto simp: algebra_simps)

lemma three_ids:
  assumes "distinct ids" and "set ids \<subseteq> set VFS_PAYLOAD_IDS"
  shows "length ids \<le> 3"
  using card_mono [OF _ assms(2)] distinct_card [OF assms(1)] by (simp add: VFS_PAYLOAD_IDS_def)

lemma bp_bounds:
  assumes "score_ok s" and "distinct ids" and "set ids \<subseteq> set VFS_PAYLOAD_IDS" and "each (points_of s) ids = Inr ps"
  shows "between 90 (py_sum ps)"
proof -
  obtain ns where ns: "ps = map (\<lambda>n. Fin (of_int n)) ns" "length ns = length ids" "\<forall>n\<in>set ns. 0 \<le> n \<and> n \<le> 30"
    using points_sum_bounds [OF _ _ assms(4)] assms(1) by (auto simp: score_ok_def)
  have s: "0 \<le> sum_list ns" "sum_list ns \<le> 90"
    using sum_list_le [OF ns(3)] ns(2) three_ids [OF assms(2,3)] by auto
  have "map abs ns = ns"
    using ns(3) by (intro map_idI) simp
  then have "py_sum ps = Fin (of_int (sum_list ns))"
    unfolding ns(1) using s by (intro py_sum_int) simp
  then show ?thesis using s by simp
qed

lemma cp_bounds:
  assumes "score_ok s" and "keep (delivered_payload L s) (vk_payloads s) = Inr delivered"
  shows "between 90 (fmul (Fin (of_nat (length delivered))) (Fin 30))"
proof -
  let ?P = "\<lambda>x. delivered_payload L s x = Inr True"
  have d: "delivered = filter ?P (vk_payloads s)"
    using assms(2) by (rule keep_filter)
  have "distinct (map fst delivered)" "set (map fst delivered) \<subseteq> set VFS_PAYLOAD_IDS"
    using assms(1) by (auto simp: d score_ok_def delivered_payload_def distinct_map_filter split: if_splits)
  then have "length delivered \<le> 3"
    using three_ids [of "map fst delivered"] by simp
  then show ?thesis
    by (auto simp: fmul_def intro!: between_round)
qed

end
