(* ===== verification/Vfs_Config.thy ===== *)
theory Vfs_Config
  imports Vfs_Contract_Props Vfs_Score_Bounds Score_Examples
begin

text \<open>
  The configuration of the repository as the YAML and JSON readers give it:
  \<open>config/course-2027.yaml\<close>, \<open>config/scenario-2027.yaml\<close> and
  \<open>scorekeeper/rules/competition\_2027\_v1.json\<close>. The validation accepts the three documents.
\<close>

section \<open>Documents\<close>

definition num :: "int \<Rightarrow> nat \<Rightarrow> pyval" where
  "num n k = VFloat (decimal n k)"

definition object_of :: "(string \<times> pyval) list \<Rightarrow> pyval" where
  "object_of kvs = VDict (map (\<lambda>(k, v). (VStr k, v)) kvs)"

definition place :: "string \<Rightarrow> pyval \<Rightarrow> pyval \<Rightarrow> (string \<times> pyval) list \<Rightarrow> string \<Rightarrow> pyval \<times> pyval" where
  "place name x y extent role =
     (VStr name, object_of ([(''x'', x), (''y'', y)] @ extent @ [(''role'', VStr role)]))"

definition waypoint_documents :: "(pyval \<times> pyval) list" where
  "waypoint_documents =
     [place ''H'' (num 0 1) (num 0 1) [(''radius'', num 2286 3)] ''home'',
      place ''S'' (num 0 1) (num 0 1) [(''width'', num 1524 2), (''height'', num 19812 3)] ''source'',
      place ''D'' (num (- 9144) 2) (num 0 1) [(''width'', num 1524 2), (''height'', num 19812 3)] ''drop'',
      place ''L'' (num (- 3048) 2) (num 0 1) [(''width'', num 1524 2), (''height'', num 19812 3)] ''landing'',
      place ''A'' (num (- 86106) 3) (num 3048 3) [(''radius'', num 10668 4)] ''drop_target'',
      place ''B'' (num (- 86106) 3) (num 0 1) [(''radius'', num 762 3)] ''drop_target'',
      place ''C'' (num (- 86106) 3) (num (- 3048) 3) [(''radius'', num 4572 4)] ''drop_target'',
      place ''P2'' (num (- 30) 1) (num (- 30) 1) [] ''payload_initial'',
      place ''P3'' (num (- 30) 1) (num 0 1) [] ''payload_initial'',
      place ''P4'' (num (- 30) 1) (num 30 1) [] ''payload_initial'',
      place ''L2'' (num (- 3048) 2) (num (- 30) 1) [] ''payload_delivery'',
      place ''L3'' (num (- 3048) 2) (num 0 1) [] ''payload_delivery'',
      place ''L4'' (num (- 3048) 2) (num 30 1) [] ''payload_delivery'']"

definition attempt_document :: pyval where
  "attempt_document = object_of
     [(''duration_seconds'', VInt 600), (''acquisition_agl_m'', num 4572 3), (''transit_agl_m'', num 100 1),
      (''release_agl_m'', num 100 1), (''minimum_agl_m'', num 9144 3), (''inspection_timeout_s'', num 300 1),
      (''approval_timeout_s'', num 600 1), (''initial_wait_timeout_s'', num 300 1),
      (''recovery_timeout_s'', num 600 1), (''ground_contact_epsilon_m'', num 2 3),
      (''aircraft_radius_m'', num 45 2)]"

definition course_2027 :: pyval where
  "course_2027 = object_of
     [(''schema_version'', VInt 1), (''profile'', VStr ''competition_2027_v1''), (''units'', VStr ''meters''),
      (''origin'', VStr ''H''),
      (''waypoints'', VDict waypoint_documents), (''attempt'', attempt_document)]"

definition payload_2027 :: "int \<Rightarrow> string \<Rightarrow> string \<Rightarrow> string \<Rightarrow> pyval \<Rightarrow> pyval \<Rightarrow> pyval" where
  "payload_2027 marker color start target x y = object_of
     [(''aruco_id'', VInt marker), (''color'', VStr color), (''initial'', VStr start),
      (''delivery'', VStr target), (''release_offset_xy_m'', VList [x, y])]"

definition camera_document :: pyval where
  "camera_document = object_of
     [(''width_px'', VInt 640), (''height_px'', VInt 480), (''update_rate_hz'', VInt 20),
      (''horizontal_fov_rad'', num 60 2), (''body_position_m'', VList [num 0 1, num 0 1, num (- 10) 2])]"

definition interaction_document :: pyval where
  "interaction_document = object_of
     [(''pickup_max_center_error_m'', num 75 3), (''settle_position_tolerance_m'', num 1 2),
      (''settle_time_s'', num 10 1)]"

definition geometry_document :: pyval where
  "geometry_document = object_of
     [(''size_m'', VList [num 1524 4, num 1524 4, num 762 4]), (''water_mass_kg'', num 136077711 8),
      (''tare_mass_kg'', num 10 2), (''marker_size_m'', num 10 2)]"

definition payload_documents :: "pyval list" where
  "payload_documents =
     [payload_2027 2 ''red'' ''P2'' ''L2'' (num 0 1) (num 28 2),
      payload_2027 3 ''yellow'' ''P3'' ''L3'' (num (- 242) 3) (num (- 14) 2),
      payload_2027 4 ''blue'' ''P4'' ''L4'' (num 242 3) (num (- 14) 2)]"

definition target_documents :: "(pyval \<times> pyval) list" where
  "target_documents = [(VInt 2, VStr ''C''), (VInt 3, VStr ''C''), (VInt 4, VStr ''C'')]"

definition assumption_document :: pyval where
  "assumption_document = object_of
     [(''rigid_containers'', VBool True), (''liquid_and_breakage_simulated'', VBool False),
      (''failed_payloads_physically_removed'', VBool False), (''ground_mission_simulated'', VBool False)]"

definition scenario_2027 :: pyval where
  "scenario_2027 = object_of
     [(''schema_version'', VInt 1), (''profile'', VStr ''competition_2027_v1''), (''seed'', VInt 2027),
      (''vehicle'', object_of [(''payload_capacity'', VInt 1), (''aircraft_empty_mass_kg'', num 166001 5)]),
      (''camera'', camera_document), (''range_sensor'', object_of [(''update_rate_hz'', VInt 20)]),
      (''payload_interaction'', interaction_document), (''payload_geometry'', geometry_document),
      (''payloads'', VList payload_documents), (''mission'', object_of [(''targets'', VDict target_documents)]),
      (''assumptions'', assumption_document)]"

text \<open>A libm whose distance is the maximum norm, with the square root of 0 and 1.\<close>

definition square_libm :: libm where
  "square_libm = flight_libm\<lparr>lm_hypot := (\<lambda>x y. py_max (fabs x) (fabs y))\<rparr>"

section \<open>Its numbers\<close>

lemma decimals:
  "decimal (- 86106) 3 = Fin (- (378698192885121 / 4398046511104))"
  "decimal (- 9144) 2 = Fin (- (1608629491901399 / 17592186044416))"
  "decimal (- 3048) 2 = Fin (- (8579357290140795 / 281474976710656))"
  "decimal (- 3048) 3 = Fin (- (1715871458028159 / 562949953421312))"
  "decimal (- 242) 3 = Fin (- (272467777455915 / 1125899906842624))"
  "decimal (- 30) 1 = Fin (- 3)"
  "decimal (- 14) 2 = Fin (- (1261007895663739 / 9007199254740992))"
  "decimal (- 10) 2 = Fin (- (3602879701896397 / 36028797018963968))"
  "decimal 0 1 = Fin (0)"
  "decimal 1 1 = Fin (3602879701896397 / 36028797018963968)"
  "decimal 1 2 = Fin (5764607523034235 / 576460752303423488)"
  "decimal 1 9 = Fin (4835703278458517 / 4835703278458516698824704)"
  "decimal 1 12 = Fin (4951760157141521 / 4951760157141521099596496896)"
  "decimal 1 18 = Fin (1298074214633707 / 1298074214633706907132624082305024)"
  "decimal 2 3 = Fin (1152921504606847 / 576460752303423488)"
  "decimal 10 1 = Fin (1)"
  "decimal 10 2 = Fin (3602879701896397 / 36028797018963968)"
  "decimal 11 1 = Fin (2476979795053773 / 2251799813685248)"
  "decimal 12 1 = Fin (5404319552844595 / 4503599627370496)"
  "decimal 13 1 = Fin (5854679515581645 / 4503599627370496)"
  "decimal 14 1 = Fin (3152519739159347 / 2251799813685248)"
  "decimal 15 1 = Fin (3 / 2)"
  "decimal 28 2 = Fin (1261007895663739 / 4503599627370496)"
  "decimal 30 1 = Fin (3)"
  "decimal 45 2 = Fin (8106479329266893 / 18014398509481984)"
  "decimal 60 2 = Fin (5404319552844595 / 9007199254740992)"
  "decimal 75 3 = Fin (5404319552844595 / 72057594037927936)"
  "decimal 100 1 = Fin (10)"
  "decimal 105 2 = Fin (4728779608739021 / 4503599627370496)"
  "decimal 242 3 = Fin (272467777455915 / 1125899906842624)"
  "decimal 300 1 = Fin (30)"
  "decimal 600 1 = Fin (60)"
  "decimal 762 3 = Fin (1715871458028159 / 2251799813685248)"
  "decimal 762 4 = Fin (5490788665690109 / 72057594037927936)"
  "decimal 1524 2 = Fin (8579357290140795 / 562949953421312)"
  "decimal 1524 4 = Fin (5490788665690109 / 36028797018963968)"
  "decimal 2286 3 = Fin (5147614374084477 / 2251799813685248)"
  "decimal 3048 3 = Fin (1715871458028159 / 562949953421312)"
  "decimal 4572 3 = Fin (5147614374084477 / 1125899906842624)"
  "decimal 4572 4 = Fin (8236182998535163 / 18014398509481984)"
  "decimal 9144 3 = Fin (5147614374084477 / 562949953421312)"
  "decimal 10668 4 = Fin (4804440082478845 / 4503599627370496)"
  "decimal 12192 4 = Fin (5490788665690109 / 4503599627370496)"
  "decimal 19812 3 = Fin (5576582238591517 / 281474976710656)"
  "decimal 166001 5 = Fin (7476020417431297 / 4503599627370496)"
  "decimal 136077711 8 = Fin (1532098821382575 / 1125899906842624)"
  "decimal 3141592653589793 15 = Fin (884279719003555 / 281474976710656)"
  by (simp_all add: decimal_def rounding)

section \<open>The validated configuration\<close>

definition spot :: "string \<Rightarrow> pyfloat \<Rightarrow> pyfloat \<Rightarrow> string \<Rightarrow> vfs_waypoint" where
  "spot name x y role = \<lparr>wp_name = name, wp_x = x, wp_y = y, wp_role = role, wp_width = None, wp_height = None,
     wp_radius = None\<rparr>"

definition circle :: "string \<Rightarrow> pyfloat \<Rightarrow> pyfloat \<Rightarrow> pyfloat \<Rightarrow> string \<Rightarrow> vfs_waypoint" where
  "circle name x y r role = (spot name x y role)\<lparr>wp_radius := Some r\<rparr>"

definition zone :: "string \<Rightarrow> pyfloat \<Rightarrow> string \<Rightarrow> vfs_waypoint" where
  "zone name x role = (spot name x (Fin 0) role)\<lparr>wp_width := Some (decimal 1524 2), wp_height := Some (decimal 19812 3)\<rparr>"

definition waypoints :: "(string, vfs_waypoint) dict" where
  "waypoints = map (\<lambda>w. (wp_name w, w))
     [circle ''H'' (Fin 0) (Fin 0) (decimal 2286 3) ''home'', zone ''S'' (Fin 0) ''source'',
      zone ''D'' (decimal (- 9144) 2) ''drop'', zone ''L'' (decimal (- 3048) 2) ''landing'',
      circle ''A'' (decimal (- 86106) 3) (decimal 3048 3) (decimal 10668 4) ''drop_target'',
      circle ''B'' (decimal (- 86106) 3) (Fin 0) (decimal 762 3) ''drop_target'',
      circle ''C'' (decimal (- 86106) 3) (decimal (- 3048) 3) (decimal 4572 4) ''drop_target'',
      spot ''P2'' (Fin (- 3)) (Fin (- 3)) ''payload_initial'', spot ''P3'' (Fin (- 3)) (Fin 0) ''payload_initial'',
      spot ''P4'' (Fin (- 3)) (Fin 3) ''payload_initial'', spot ''L2'' (decimal (- 3048) 2) (Fin (- 3)) ''payload_delivery'',
      spot ''L3'' (decimal (- 3048) 2) (Fin 0) ''payload_delivery'',
      spot ''L4'' (decimal (- 3048) 2) (Fin 3) ''payload_delivery'']"

definition attempt_2027 :: vfs_attempt where
  "attempt_2027 = \<lparr>va_duration_seconds = Fin 600, va_acquisition_agl_m = decimal 4572 3, va_transit_agl_m = Fin 10,
     va_release_agl_m = Fin 10, va_minimum_agl_m = decimal 9144 3, va_inspection_timeout_s = Fin 30,
     va_approval_timeout_s = Fin 60, va_initial_wait_timeout_s = Fin 30, va_recovery_timeout_s = Fin 60,
     va_ground_contact_epsilon_m = decimal 2 3, va_aircraft_radius_m = decimal 45 2\<rparr>"

definition course :: vfs_course where
  "course = \<lparr>vc_waypoints = waypoints, vc_attempt = attempt_2027, vc_ground_z_m = Fin 0\<rparr>"

lemmas places = spot_def circle_def zone_def waypoints_def

lemma place_key [simp]: "fst (place name x y extent role) = VStr name"
  by (simp add: place_def)

lemma read_waypoints: "each read_waypoint waypoint_documents = Inr waypoints"
  by (simp add: waypoint_documents_def place_def num_def object_of_def read_waypoint_def nonempty_role_def
      vfs_number_def refuse_def optional_number_def entry_def Let_def decimals places insert_Diff_if
      del: One_nat_def)

text \<open>Whole numbers need no rounding.\<close>

lemma small [simp]: "round64 (numeral k) = Fin (numeral k)" if "(numeral k :: int) < 2 ^ 53"
  using round64_int [of "numeral k"] that by simp

lemma small_neg [simp]: "round64 (- numeral k) = Fin (- numeral k)" if "(numeral k :: int) < 2 ^ 53"
  using round64_int [of "- numeral k"] that by simp

lemma small01 [simp]: "round64 0 = Fin 0" "round64 1 = Fin 1" "round64 (- 1) = Fin (- 1)"
  using round64_int [of 0] round64_int [of 1] round64_int [of "- 1"] by simp_all

lemma waypoints_checked: "check_waypoints square_libm waypoints = Inr ()"
  by (simp add: check_waypoints_def waypoint_named_def refuse_def places center_xy_m_def radius_or_zero_def
      waypoint_contains_def Let_def decimals rounding square_libm_def py_max_def fadd_def del: One_nat_def)

lemma attempt_read: "read_attempt attempt_document = Inr attempt_2027"
  by (simp add: read_attempt_def attempt_document_def vfs_object_def object_of_def has_keys_def ATTEMPT_FIELDS_def
      vfs_numbers_def vfs_number_def refuse_def num_def decimals number_of_def attempt_2027_def float_of_int_def
      rounding py_min_def flt_def insert_commute Let_def del: One_nat_def)

lemma waypoint_names: "set (map VStr COURSE_WAYPOINTS) \<subseteq> set (dict_keys waypoint_documents)"
  by (simp add: COURSE_WAYPOINTS_def waypoint_documents_def)

lemma course_valid: "validate_vfs_course square_libm course_2027 = Inr course"
  using waypoint_names
  by (simp add: validate_vfs_course_def course_2027_def object_of_def vfs_object_def has_keys_def entry_def
      refuse_def VFS_PROFILE_def read_waypoints waypoints_checked attempt_read course_def insert_commute)

definition camera_2027 :: vfs_camera where
  "camera_2027 = \<lparr>vm_width_px = 640, vm_height_px = 480, vm_update_rate_hz = 20,
     vm_horizontal_fov_rad = decimal 60 2, vm_body_position_m = [Fin 0, Fin 0, decimal (- 10) 2]\<rparr>"

definition interaction_2027 :: vfs_payload_interaction where
  "interaction_2027 = \<lparr>vi_pickup_max_center_error_m = decimal 75 3, vi_settle_position_tolerance_m = decimal 1 2,
     vi_settle_time_s = Fin 1\<rparr>"

definition geometry_2027 :: vfs_payload_geometry where
  "geometry_2027 = \<lparr>vg_size_m = [decimal 1524 4, decimal 1524 4, decimal 762 4], vg_water_mass_kg = decimal 136077711 8,
     vg_tare_mass_kg = decimal 10 2, vg_marker_size_m = decimal 10 2\<rparr>"

definition payloads_2027 :: "vfs_payload list" where
  "payloads_2027 =
     [\<lparr>vp_aruco_id = 2, vp_color = ''red'', vp_initial = ''P2'', vp_delivery = ''L2'',
        vp_release_offset_xy_m = [Fin 0, decimal 28 2]\<rparr>,
      \<lparr>vp_aruco_id = 3, vp_color = ''yellow'', vp_initial = ''P3'', vp_delivery = ''L3'',
        vp_release_offset_xy_m = [decimal (- 242) 3, decimal (- 14) 2]\<rparr>,
      \<lparr>vp_aruco_id = 4, vp_color = ''blue'', vp_initial = ''P4'', vp_delivery = ''L4'',
        vp_release_offset_xy_m = [decimal 242 3, decimal (- 14) 2]\<rparr>]"

definition scenario :: vfs_scenario where
  "scenario = \<lparr>vs_seed = 2027, vs_aircraft_empty_mass_kg = decimal 166001 5, vs_camera = camera_2027,
     vs_range_update_rate_hz = 20, vs_payload_interaction = interaction_2027, vs_payload_geometry = geometry_2027,
     vs_payloads = payloads_2027, vs_targets = [(2, ''C''), (3, ''C''), (4, ''C'')], vs_assumptions = ASSUMPTIONS,
     vs_payload_capacity = 1\<rparr>"

lemmas readers = vfs_object_def object_of_def has_keys_def entry_def refuse_def vfs_vector_def vfs_number_def
  num_def decimals Let_def insert_commute

lemma scenario_parts:
  "read_camera camera_document = Inr camera_2027"
  "read_interaction interaction_document = Inr interaction_2027"
  "read_geometry geometry_document = Inr geometry_2027"
  "each read_payload payload_documents = Inr payloads_2027"
  "read_targets [] target_documents = Inr [(2, ''C''), (3, ''C''), (4, ''C'')]"
  "read_assumptions assumption_document = Inr ASSUMPTIONS"
  by (simp_all add: readers read_camera_def camera_document_def camera_2027_def read_interaction_def
      interaction_document_def interaction_2027_def INTERACTION_FIELDS_def vfs_numbers_def number_of_def
      read_geometry_def geometry_document_def geometry_2027_def py_max_def py_min_def flt_def read_payload_def
      payload_documents_def payload_2027_def payloads_2027_def VFS_PAYLOAD_IDS_def among_def nonempty_role_def
      target_documents_def target_key_def read_assumptions_def assumption_document_def ASSUMPTIONS_def
      del: One_nat_def)

lemma scenario_valid: "validate_vfs_scenario scenario_2027 = Inr scenario"
  by (simp add: readers validate_vfs_scenario_def scenario_2027_def scenario_parts VFS_PROFILE_def scenario_def
      VFS_PAYLOAD_IDS_def del: One_nat_def)
    (simp add: payload_documents_def payloads_2027_def)

lemma configuration_valid: "validate_vfs_configuration square_libm course scenario = Inr ()"
  by (simp add: validate_vfs_configuration_def course_def scenario_def geometry_2027_def payloads_2027_def
      check_payload_def places center_xy_m_def waypoint_contains_def waypoint_named_def payload_target_xy_def
      payload_of_def refuse_def Let_def decimals rounding square_libm_def py_max_def fadd_def flt_def del: One_nat_def)

section \<open>The rules\<close>

definition row :: "string \<Rightarrow> pyval \<Rightarrow> string \<Rightarrow> pyval \<Rightarrow> pyval" where
  "row a x b y = object_of [(a, x), (b, y)]"

definition points_document :: pyval where
  "points_document = object_of
     [(''A_manual'', VInt 55), (''A_autonomous'', VInt 65),
      (''BP_by_target'', object_of [(''A'', VInt 5), (''B'', VInt 10), (''C'', VInt 30)]),
      (''CP_per_payload'', VInt 30), (''autonomy_bonus'', VInt 15)]"

definition rules_2027 :: pyval where
  "rules_2027 = object_of
     [(''schema_version'', VInt 1), (''ruleset_id'', VStr ''competition_2027_v1''), (''points'', points_document),
      (''time_bonus'', VList (map (\<lambda>(s, p). row ''minimum_remaining_seconds'' (VInt s) ''points'' (VInt p)) expected_time)),
      (''weight_multiplier'', VList (map (\<lambda>(b, m). row ''upper_bound_lb'' b ''multiplier'' m)
         [(VInt 10, num 15 1), (VInt 12, num 14 1), (VInt 14, num 13 1), (VInt 16, num 12 1), (VInt 18, num 11 1),
          (VInt 20, num 105 2), (VFloat (round64 (10 ^ 300)), num 10 1)])),
      (''deduction_points'', VInt 25)]"

definition rules :: vfs_rules where
  "rules = \<lparr>vu_ruleset_id = ''competition_2027_v1'', vu_scoring_checksum = ''checksum'', vu_point_a_manual = Fin 55,
     vu_point_a_autonomous = Fin 65, vu_target_points = [(''A'', Fin 5), (''B'', Fin 10), (''C'', Fin 30)],
     vu_recovery_points = Fin 30, vu_autonomy_bonus = Fin 15,
     vu_time_bonuses = map (\<lambda>(s, p). (s, Fin (of_int p))) expected_time,
     vu_weight_multipliers = expected_weight, vu_deduction_points = Fin 25\<rparr>"

lemma ilog2_unique:
  assumes "2 ^ k \<le> n" and "n < 2 ^ Suc k"
  shows "ilog2 n = k"
proof -
  have "0 < n" by (rule less_le_trans [OF _ assms(1)]) simp
  note b = ilog2_bounds [OF this]
  have "(2 :: int) ^ k < 2 ^ Suc (ilog2 n)" "(2 :: int) ^ ilog2 n < 2 ^ Suc k"
    using assms b by linarith+
  then show ?thesis
    by (simp only: power_strict_increasing_iff)
qed

lemma huge_finite: "\<exists>q. round64 (10 ^ 300) = Fin q"
proof -
  have "ilog2 (10 ^ 300) = 996" by (rule ilog2_unique) simp_all
  then have "exponent (10 ^ 300) = 996"
    by (simp add: exponent_def)
  then have u: "pow2 (ulp_exponent (10 ^ 300)) = 2 ^ 944"
    by (simp add: ulp_exponent_def pow2_def)
  have "round_half_even (10 ^ 300 / 2 ^ 944) \<le> 2 ^ 53"
    by (rule round_half_even_le) simp
  then have "of_int (round_half_even (10 ^ 300 / 2 ^ 944)) * 2 ^ 944 \<le> (2 ^ 53 * 2 ^ 944 :: rat)"
    by simp
  then have "\<not> float_limit \<le> of_int (round_half_even (10 ^ 300 / 2 ^ 944)) * 2 ^ 944"
    by (simp add: float_limit_def)
  then show ?thesis
    unfolding round64_def Let_def abs_of_nonneg [OF zero_le_power [OF zero_le_numeral]] u by auto
qed

lemma is_num_simps [simp]:
  "is_num (VInt i) f \<longleftrightarrow> Fin (of_int i) = f" "is_num (VFloat (Fin q)) f \<longleftrightarrow> Fin q = f"
  by (auto simp: is_num_def)

lemma rules_valid: "load_vfs_rules (Inr rules_2027) ''checksum'' = Inr rules"
proof -
  obtain q where q: "round64 (10 ^ 300) = Fin q" using huge_finite by blast
  show ?thesis
    unfolding rules_2027_def load_vfs_rules_def expected_weight_def rules_def q
    by (simp add: object_of_def row_def refuse_def dict_get_def num_def table_rows_def table_is_def only_objects_def
        has_keys_def vfs_rule_keys_def points_expected_def points_document_def expected_targets_def
        expected_time_def target_points_def decimals insert_commute del: One_nat_def)
qed

end
