(* ===== verification/Vfs_Runtime.thy ===== *)
theory Vfs_Runtime
  imports Vfs_Scorer Score_Report
begin

text \<open>
  \<open>VfsScorekeeperRuntime\<close> of \<open>scorekeeper/vfs\_runtime.py\<close>: it collects the samples of an instant
  until they are complete, hands them to the judge and the scorer in order, and holds requests back
  until the instant they ask about. The two callbacks are actions in a log; \<open>env\<close> decides from the
  log so far whether the next one raises. The scorer and its finalizer are optional.
\<close>

section \<open>State\<close>

datatype scoring = NoScorer | BareScorer vfs_scorer | FinalizedScorer "vfs_scorer finalizer"

datatype announcement = DecisionOut judge_decision | AttemptOut attempt_status

type_synonym announce_env = "announcement list \<Rightarrow> announcement \<Rightarrow> exn option"

record vfs_runtime =
  vr_run_id :: string
  vr_judge :: vfs_judge
  vr_scoring :: scoring
  vr_log :: "announcement list"
  vr_ground_truth_timestamp_ns :: "int option"
  vr_vehicle_status_timestamp_ns :: "int option"
  vr_payload_timestamps_ns :: "(int, int option) dict"
  vr_ground_truth_buffer :: "(int, ground_truth_sample) dict"
  vr_vehicle_status_buffer :: "(int, vehicle_status_sample) dict"
  vr_payload_buffer :: "(int, (int, payload_sample) dict) dict"
  vr_status_grid_offset_ns :: "int option"
  vr_last_epoch_timestamp_ns :: "int option"
  vr_latest_observed_timestamp_ns :: int
  vr_latest_ground_truth_received_ns :: "int option"
  vr_latest_vehicle_status_received_ns :: "int option"
  vr_latest_payload_received_ns :: "(int, int) dict"
  vr_pending_checks :: "mission_event_sample list"

fun scorer_of :: "scoring \<Rightarrow> vfs_scorer option" where
  "scorer_of NoScorer = None"
| "scorer_of (BareScorer k) = Some k"
| "scorer_of (FinalizedScorer f) = Some (fi_scorer f)"

text \<open>The scorer is given together with the files when all that finalization needs is there.\<close>

definition VfsScorekeeperRuntime :: "string \<Rightarrow> vfs_judge \<Rightarrow> vfs_scorer option
    \<Rightarrow> (score_file \<Rightarrow> file_content option) option \<Rightarrow> vfs_runtime result" where
  "VfsScorekeeperRuntime run_id judge scorer files =
     rbind (refuse (vj_run_id judge \<noteq> run_id \<or> (case scorer of Some k \<Rightarrow> vk_run_id k \<noteq> run_id | None \<Rightarrow> False))
              ''judge and scorer must belong to the runtime run'') (\<lambda>_.
       Inr \<lparr>vr_run_id = run_id, vr_judge = judge,
         vr_scoring = (case (scorer, files) of
             (None, _) \<Rightarrow> NoScorer
           | (Some k, None) \<Rightarrow> BareScorer k
           | (Some k, Some f) \<Rightarrow> FinalizedScorer (ScoreFinalizer k f)),
         vr_log = [], vr_ground_truth_timestamp_ns = None, vr_vehicle_status_timestamp_ns = None,
         vr_payload_timestamps_ns = [(2, None), (3, None), (4, None)], vr_ground_truth_buffer = [],
         vr_vehicle_status_buffer = [], vr_payload_buffer = [], vr_status_grid_offset_ns = None,
         vr_last_epoch_timestamp_ns = None, vr_latest_observed_timestamp_ns = 0,
         vr_latest_ground_truth_received_ns = None, vr_latest_vehicle_status_received_ns = None,
         vr_latest_payload_received_ns = [], vr_pending_checks = []\<rparr>)"

definition vfs_result :: "vfs_runtime \<Rightarrow> score_result option" where
  "vfs_result s = (case vr_scoring s of FinalizedScorer f \<Rightarrow> fi_result f | _ \<Rightarrow> None)"

definition vfs_quiescent :: "vfs_runtime \<Rightarrow> bool" where
  "vfs_quiescent s = (case vr_scoring s of FinalizedScorer f \<Rightarrow> fi_quiescent f | _ \<Rightarrow> False)"

definition source_inputs_observed_through :: "int \<Rightarrow> vfs_runtime \<Rightarrow> bool" where
  "source_inputs_observed_through t s \<longleftrightarrow>
     (case vr_ground_truth_timestamp_ns s of Some g \<Rightarrow> t \<le> g | None \<Rightarrow> False)
     \<and> (case vr_vehicle_status_timestamp_ns s of Some v \<Rightarrow> fresh STATUS_FRESHNESS_NS t v | None \<Rightarrow> False)
     \<and> list_all (\<lambda>(_, p). case p of Some p \<Rightarrow> t \<le> p | None \<Rightarrow> False) (vr_payload_timestamps_ns s)"

section \<open>Calls\<close>

definition on_judge :: "(vfs_judge, 'a) io \<Rightarrow> (vfs_runtime, 'a) io" where
  "on_judge m = (\<lambda>s. case m (vr_judge s) of (r, j) \<Rightarrow> (r, s\<lparr>vr_judge := j\<rparr>))"

definition on_vfs_finalizer :: "(vfs_scorer finalizer, 'a) io \<Rightarrow> (vfs_runtime, 'a) io" where
  "on_vfs_finalizer m = (\<lambda>s.
     case vr_scoring s of
       FinalizedScorer f \<Rightarrow> (case m f of (r, f') \<Rightarrow> (r, s\<lparr>vr_scoring := FinalizedScorer f'\<rparr>))
     | _ \<Rightarrow> (Inl (RuntimeError ''runtime finalization is not configured''), s))"

text \<open>A call of the scorer, if there is one.\<close>

definition on_scorer :: "(vfs_scorer, unit) io \<Rightarrow> (vfs_runtime, unit) io" where
  "on_scorer m = (\<lambda>s.
     case vr_scoring s of
       NoScorer \<Rightarrow> (Inr (), s)
     | BareScorer k \<Rightarrow> (case m k of (r, k') \<Rightarrow> (r, s\<lparr>vr_scoring := BareScorer k'\<rparr>))
     | FinalizedScorer f \<Rightarrow>
         (case m (fi_scorer f) of (r, k') \<Rightarrow> (r, s\<lparr>vr_scoring := FinalizedScorer (f\<lparr>fi_scorer := k'\<rparr>)\<rparr>)))"

definition announce :: "announce_env \<Rightarrow> announcement \<Rightarrow> (vfs_runtime, unit) io" where
  "announce env a = (\<lambda>s.
     (case env (vr_log s) a of Some x \<Rightarrow> Inl x | None \<Rightarrow> Inr (), s\<lparr>vr_log := vr_log s @ [a]\<rparr>))"

fun for_each :: "('a \<Rightarrow> ('s, unit) io) \<Rightarrow> 'a list \<Rightarrow> ('s, unit) io" where
  "for_each f [] = ireturn ()"
| "for_each f (x # xs) = ibind (f x) (\<lambda>_. for_each f xs)"

section \<open>Requests\<close>

record vfs_env =
  ve_libm :: libm
  ve_decode :: "string \<Rightarrow> pyval option"
  ve_announce :: announce_env

definition accept_mission_event_now :: "vfs_env \<Rightarrow> bool \<Rightarrow> mission_event_sample \<Rightarrow> (vfs_runtime, unit) io" where
  "accept_mission_event_now E missing_evidence e =
     ibind (on_judge
       (if missing_evidence then reject_mission_event_missing_evidence (ve_decode E) e
        else judge_accept_mission_event (ve_libm E) (ve_decode E) e)) (\<lambda>decisions.
     ibind (on_scorer (imodify (scorer_accept_mission_event e))) (\<lambda>_.
       for_each (\<lambda>d.
         ibind (on_scorer (scorer_accept_judge_decision (ve_libm E) d)) (\<lambda>_.
           announce (ve_announce E) (DecisionOut d))) decisions))"

definition epoch_reached :: "int \<Rightarrow> vfs_runtime \<Rightarrow> bool" where
  "epoch_reached t s = (case vr_last_epoch_timestamp_ns s of Some l \<Rightarrow> t \<le> l | None \<Rightarrow> False)"

text \<open>The checks that stay pending.\<close>

fun resolve_checks :: "vfs_env \<Rightarrow> bool \<Rightarrow> mission_event_sample list
    \<Rightarrow> (vfs_runtime, mission_event_sample list) io" where
  "resolve_checks E force [] = ireturn []"
| "resolve_checks E force (e # es) =
     ibind (iget id) (\<lambda>s.
       if epoch_reached (me_sim_timestamp_ns e) s then
         ibind (accept_mission_event_now E False e) (\<lambda>_. resolve_checks E force es)
       else if force \<or> me_sim_timestamp_ns e + 500000000 < vr_latest_observed_timestamp_ns s then
         ibind (accept_mission_event_now E True e) (\<lambda>_. resolve_checks E force es)
       else ibind (resolve_checks E force es) (\<lambda>remaining. ireturn (e # remaining)))"

definition resolve_pending_checks :: "vfs_env \<Rightarrow> bool \<Rightarrow> (vfs_runtime, unit) io" where
  "resolve_pending_checks E force =
     ibind (iget vr_pending_checks) (\<lambda>pending.
     ibind (resolve_checks E force pending) (\<lambda>remaining.
       imodify (\<lambda>s. s\<lparr>vr_pending_checks := remaining\<rparr>)))"

definition vfs_accept_mission_event :: "vfs_env \<Rightarrow> mission_event_sample \<Rightarrow> (vfs_runtime, unit) io" where
  "vfs_accept_mission_event E e =
     (if me_state e \<noteq> ''CHECK_REQUESTED'' \<or> parse_request (ve_decode E (me_detail e)) = None then
        accept_mission_event_now E False e
      else
        ibind (iget id) (\<lambda>s.
          if e \<in> set (vr_pending_checks s) then ireturn ()
          else if epoch_reached (me_sim_timestamp_ns e) s then accept_mission_event_now E False e
          else
            ibind (imodify (\<lambda>s. s\<lparr>vr_pending_checks := vr_pending_checks s @ [e]\<rparr>)) (\<lambda>_.
              resolve_pending_checks E False)))"

section \<open>Instants\<close>

definition observe_timestamp :: "int \<Rightarrow> vfs_runtime \<Rightarrow> vfs_runtime" where
  "observe_timestamp t s = s\<lparr>vr_latest_observed_timestamp_ns := max (vr_latest_observed_timestamp_ns s) t\<rparr>"

definition epoch_complete :: "int \<Rightarrow> vfs_runtime \<Rightarrow> bool" where
  "epoch_complete t s \<longleftrightarrow>
     set (dict_keys (case map_of (vr_payload_buffer s) t of Some d \<Rightarrow> d | None \<Rightarrow> []))
       = set (dict_keys (vr_payload_timestamps_ns s))
     \<and> (case vr_status_grid_offset_ns s of
          None \<Rightarrow> False
        | Some grid \<Rightarrow> t mod 100000000 \<noteq> grid \<or> t \<in> set (dict_keys (vr_vehicle_status_buffer s)))"

text \<open>The instant that can be taken: the earliest one, complete and not behind a pending check.\<close>

definition next_epoch :: "vfs_runtime \<Rightarrow> int option" where
  "next_epoch s =
     (if vr_ground_truth_buffer s = [] then None
      else
        (let t = Min (set (dict_keys (vr_ground_truth_buffer s))) in
         if list_ex (\<lambda>e. me_sim_timestamp_ns e < t) (vr_pending_checks s) \<or> \<not> epoch_complete t s then None
         else Some t))"

definition take_payload :: "vfs_env \<Rightarrow> int \<Rightarrow> int \<times> payload_sample \<Rightarrow> (vfs_runtime, unit) io" where
  "take_payload E t = (\<lambda>(marker, p).
     ibind (on_judge (judge_accept_payload_state (ve_libm E) p)) (\<lambda>_.
     ibind (imodify (\<lambda>s. s\<lparr>vr_payload_timestamps_ns :=
         AList.update marker (Some t) (vr_payload_timestamps_ns s)\<rparr>)) (\<lambda>_.
       on_scorer (imodify (scorer_accept_payload_state p)))))"

definition take_status :: "vfs_env \<Rightarrow> int \<Rightarrow> (vfs_runtime, unit) io" where
  "take_status E t =
     ibind (iget (\<lambda>s. map_of (vr_vehicle_status_buffer s) t)) (\<lambda>status.
       case status of
         None \<Rightarrow> ireturn ()
       | Some v \<Rightarrow>
           ibind (imodify (\<lambda>s. s\<lparr>vr_vehicle_status_buffer := AList.delete t (vr_vehicle_status_buffer s)\<rparr>)) (\<lambda>_.
           ibind (on_judge (judge_accept_vehicle_status (ve_libm E) v)) (\<lambda>_.
           ibind (imodify (\<lambda>s. s\<lparr>vr_vehicle_status_timestamp_ns := Some t\<rparr>)) (\<lambda>_.
             on_scorer (imodify (scorer_accept_vehicle_status v))))))"

text \<open>The payloads of an instant, by their markers.\<close>

definition epoch_payloads :: "int \<Rightarrow> vfs_runtime \<Rightarrow> (int \<times> payload_sample) list" where
  "epoch_payloads t s =
     (case map_of (vr_payload_buffer s) t of
        None \<Rightarrow> []
      | Some d \<Rightarrow> map (\<lambda>marker. (marker, the (map_of d marker))) (sort (dict_keys d)))"

definition take_epoch :: "vfs_env \<Rightarrow> int \<Rightarrow> (vfs_runtime, unit) io" where
  "take_epoch E t =
     ibind (iget id) (\<lambda>s.
       case map_of (vr_ground_truth_buffer s) t of
         None \<Rightarrow> iraise KeyError
       | Some truth \<Rightarrow>
           ibind (imodify (\<lambda>s. s\<lparr>vr_ground_truth_buffer := AList.delete t (vr_ground_truth_buffer s),
                                 vr_payload_buffer := AList.delete t (vr_payload_buffer s)\<rparr>)) (\<lambda>_.
           ibind (on_judge (judge_accept_ground_truth (ve_libm E) truth)) (\<lambda>_.
           ibind (imodify (\<lambda>s. s\<lparr>vr_ground_truth_timestamp_ns := Some t\<rparr>)) (\<lambda>_.
           ibind (on_scorer (imodify (scorer_accept_ground_truth (ve_libm E) truth))) (\<lambda>_.
           ibind (for_each (take_payload E t) (epoch_payloads t s)) (\<lambda>_.
           ibind (take_status E t) (\<lambda>_.
           ibind (imodify (\<lambda>s. s\<lparr>vr_last_epoch_timestamp_ns := Some t\<rparr>)) (\<lambda>_.
           ibind (iget (\<lambda>s. attempt_status_of (vr_judge s))) (\<lambda>status.
           ibind (announce (ve_announce E) (AttemptOut status)) (\<lambda>_.
             resolve_pending_checks E False))))))))))"

text \<open>The loop over the instants. A round takes one position from the buffer, so their number is enough.\<close>

fun drain :: "vfs_env \<Rightarrow> nat \<Rightarrow> (vfs_runtime, unit) io" where
  "drain E 0 = ireturn ()"
| "drain E (Suc n) =
     ibind (iget next_epoch) (\<lambda>epoch.
       case epoch of None \<Rightarrow> ireturn () | Some t \<Rightarrow> ibind (take_epoch E t) (\<lambda>_. drain E n))"

definition buffered_timestamps :: "vfs_runtime \<Rightarrow> int set" where
  "buffered_timestamps s =
     set (dict_keys (vr_ground_truth_buffer s)) \<union> set (dict_keys (vr_vehicle_status_buffer s))
     \<union> set (dict_keys (vr_payload_buffer s))"

definition drain_physical_epochs :: "vfs_env \<Rightarrow> (vfs_runtime, unit) io" where
  "drain_physical_epochs E =
     ibind (iget (\<lambda>s. length (vr_ground_truth_buffer s))) (\<lambda>n.
     ibind (drain E n) (\<lambda>_.
     ibind (resolve_pending_checks E False) (\<lambda>_.
     ibind (iget id) (\<lambda>s.
       if buffered_timestamps s \<noteq> {}
          \<and> 500000000 < vr_latest_observed_timestamp_ns s - Min (buffered_timestamps s)
       then iraise (ValueError ''VFS physical epoch remained incomplete for over 500 ms'')
       else ireturn ()))))"

section \<open>Samples\<close>

definition not_later :: "int \<Rightarrow> int option \<Rightarrow> bool" where
  "not_later t latest = (case latest of Some l \<Rightarrow> t \<le> l | None \<Rightarrow> False)"

definition vfs_accept_ground_truth :: "vfs_env \<Rightarrow> ground_truth_sample \<Rightarrow> (vfs_runtime, unit) io" where
  "vfs_accept_ground_truth E x =
     (let t = gt_sim_timestamp_ns x in
      ibind (iget vr_latest_ground_truth_received_ns) (\<lambda>latest.
        if not_later t latest then iraise (ValueError ''ground truth receive timestamps must increase'')
        else
          ibind (imodify (\<lambda>s. observe_timestamp t
            (s\<lparr>vr_latest_ground_truth_received_ns := Some t,
               vr_ground_truth_buffer := AList.update t x (vr_ground_truth_buffer s)\<rparr>))) (\<lambda>_.
            drain_physical_epochs E)))"

definition vfs_accept_vehicle_status :: "vfs_env \<Rightarrow> vehicle_status_sample \<Rightarrow> (vfs_runtime, unit) io" where
  "vfs_accept_vehicle_status E v =
     (let t = vt_sim_timestamp_ns v in
      ibind (iget vr_latest_vehicle_status_received_ns) (\<lambda>latest.
        if not_later t latest then iraise (ValueError ''vehicle status receive timestamps must increase'')
        else
          ibind (imodify (\<lambda>s. observe_timestamp t
            (s\<lparr>vr_latest_vehicle_status_received_ns := Some t,
               vr_vehicle_status_buffer := AList.update t v (vr_vehicle_status_buffer s),
               vr_status_grid_offset_ns :=
                 (case vr_status_grid_offset_ns s of None \<Rightarrow> Some (t mod 100000000) | Some grid \<Rightarrow> Some grid)\<rparr>))) (\<lambda>_.
            drain_physical_epochs E)))"

definition vfs_accept_payload_state :: "vfs_env \<Rightarrow> payload_sample \<Rightarrow> (vfs_runtime, unit) io" where
  "vfs_accept_payload_state E p =
     (let t = ps_sim_timestamp_ns p; marker = ps_aruco_id p in
      ibind (iget (\<lambda>s. map_of (vr_latest_payload_received_ns s) marker)) (\<lambda>latest.
        if not_later t latest then iraise (ValueError ''payload receive timestamps must increase per marker'')
        else
          ibind (imodify (\<lambda>s. observe_timestamp t
            (s\<lparr>vr_latest_payload_received_ns := AList.update marker t (vr_latest_payload_received_ns s),
               vr_payload_buffer := AList.update t
                 (AList.update marker p (case map_of (vr_payload_buffer s) t of Some d \<Rightarrow> d | None \<Rightarrow> []))
                 (vr_payload_buffer s)\<rparr>))) (\<lambda>_.
            drain_physical_epochs E)))"

definition vfs_accept_payload_event :: "vfs_env \<Rightarrow> payload_event_sample \<Rightarrow> (vfs_runtime, unit) io" where
  "vfs_accept_payload_event E e =
     ibind (on_judge (judge_accept_payload_event e)) (\<lambda>_.
       on_scorer (scorer_accept_payload_event (ve_libm E) e))"

section \<open>Finalization\<close>

definition vfs_fail :: "pyval \<Rightarrow> (vfs_runtime, unit) io" where
  "vfs_fail reason = (\<lambda>s.
     case vr_scoring s of
       FinalizedScorer _ \<Rightarrow> on_vfs_finalizer (finalizer_fail vfs_ops reason) s
     | _ \<Rightarrow> on_scorer (scorer_fail reason) s)"

definition finalization_configured :: "(vfs_runtime, unit) io" where
  "finalization_configured = (\<lambda>s.
     case vr_scoring s of
       FinalizedScorer _ \<Rightarrow> (Inr (), s)
     | _ \<Rightarrow> (Inl (RuntimeError ''runtime finalization is not configured''), s))"

definition vfs_accept_source_finished :: "vfs_env \<Rightarrow> (pyval \<Rightarrow> string result) \<Rightarrow> score_env \<Rightarrow> int
    \<Rightarrow> (vfs_runtime, score_result) io" where
  "vfs_accept_source_finished E encode env t =
     ibind finalization_configured (\<lambda>_.
     ibind (resolve_pending_checks E True) (\<lambda>_.
       on_vfs_finalizer (finalizer_finalize vfs_ops encode env (Some t))))"

definition vfs_begin_finalization :: "(pyval \<Rightarrow> string result) \<Rightarrow> score_env \<Rightarrow> (vfs_runtime, unit) io" where
  "vfs_begin_finalization encode env =
     ibind finalization_configured (\<lambda>_. on_vfs_finalizer (finalizer_quiesce vfs_ops encode env))"

end
