(* ===== verification/Vfs_Judge_Inv.thy ===== *)
theory Vfs_Judge_Inv
  imports Vfs_Judge
begin

text \<open>
  Invariants of the judge: its clock, the book of answered requests, and the rest of the payloads.
  Each is shown for every operation, raising ones included, as a weakest precondition.
\<close>

section \<open>Operations\<close>

datatype judge_op =
    JTruth ground_truth_sample
  | JStatus vehicle_status_sample
  | JPayload payload_sample
  | JPayloadEvent payload_event_sample
  | JMission mission_event_sample
  | JMissing mission_event_sample

fun judge_call :: "libm \<Rightarrow> (string \<Rightarrow> pyval option) \<Rightarrow> judge_op \<Rightarrow> (vfs_judge, judge_decision list) io" where
  "judge_call L decode (JTruth x) = ibind (judge_accept_ground_truth L x) (\<lambda>_. ireturn [])"
| "judge_call L decode (JStatus v) = ibind (judge_accept_vehicle_status L v) (\<lambda>_. ireturn [])"
| "judge_call L decode (JPayload p) = ibind (judge_accept_payload_state L p) (\<lambda>_. ireturn [])"
| "judge_call L decode (JPayloadEvent e) = ibind (judge_accept_payload_event e) (\<lambda>_. ireturn [])"
| "judge_call L decode (JMission e) = judge_accept_mission_event L decode e"
| "judge_call L decode (JMissing e) = reject_mission_event_missing_evidence decode e"

abbreviation keeps :: "('s, 'a) io \<Rightarrow> ('s \<Rightarrow> bool) \<Rightarrow> 's \<Rightarrow> bool" where
  "keeps m P \<equiv> wp m (\<lambda>_. P) (\<lambda>_. P)"

lemma wp_same_run [simp]:
  "wp (same_run r) Q E s =
     (if r = vj_run_id s then Q () s else E (ValueError ''evidence belongs to another run'') s)"
  by (simp add: wp_def same_run_def)

lemma wp_let [simp]: "wp (let x = a in m x) Q E = (let x = a in wp (m x) Q E)"
  by (simp add: Let_def)

section \<open>The clock\<close>

text \<open>
  A running clock was started no later than the last position, and the active time is at least
  \<open>t\<close>. Kept for every \<open>t\<close>, it says that the active time never falls; for negative \<open>t\<close> it is kept
  without a condition.
\<close>

definition clock_shows :: "int \<Rightarrow> vfs_judge \<Rightarrow> bool" where
  "clock_shows t s \<longleftrightarrow>
     0 \<le> vj_active_accumulated_ns s \<and> t \<le> active_elapsed_ns s
     \<and> (\<forall>since. vj_active_since_ns s = Some since \<longrightarrow>
          vj_started_at_ns s \<noteq> None \<and> (t < 0 \<or> \<not> vj_paused s \<or> vj_finished s)
          \<and> (\<exists>x. vj_truth s = Some x \<and> since \<le> gt_sim_timestamp_ns x))"

text \<open>A pause that comes before the first take-off, which only an approval of payloads gives.\<close>

definition paused_early :: "vfs_judge \<Rightarrow> bool" where
  "paused_early s \<longleftrightarrow> vj_started_at_ns s = None \<and> vj_paused s \<and> \<not> vj_finished s"

lemmas clock_defs = clock_shows_def active_elapsed_ns_def

lemma clock_shows_simps [simp]:
  "clock_shows t (s\<lparr>vj_approval_ns := b\<rparr>) = clock_shows t s"
  "clock_shows t (s\<lparr>vj_fm2_approved := c\<rparr>) = clock_shows t s"
  "clock_shows t (s\<lparr>vj_fm2_eligible_ids := d\<rparr>) = clock_shows t s"
  "clock_shows t (s\<lparr>vj_terminal_failure_reason := g\<rparr>) = clock_shows t s"
  "clock_shows t (s\<lparr>vj_status_sequence := h\<rparr>) = clock_shows t s"
  "clock_shows t (s\<lparr>vj_status := i\<rparr>) = clock_shows t s"
  "clock_shows t (s\<lparr>vj_payloads := j\<rparr>) = clock_shows t s"
  "clock_shows t (s\<lparr>vj_payload_grounded_since := k\<rparr>) = clock_shows t s"
  "clock_shows t (s\<lparr>vj_decision_id := l\<rparr>) = clock_shows t s"
  "clock_shows t (s\<lparr>vj_requests := m\<rparr>) = clock_shows t s"
  "clock_shows t (s\<lparr>vj_phase := n\<rparr>) = clock_shows t s"
  "clock_shows t (s\<lparr>vj_fm2_airborne := q\<rparr>) = clock_shows t s"
  "clock_shows t (s\<lparr>vj_fm1_d_approved := r\<rparr>) = clock_shows t s"
  "clock_shows t (s\<lparr>vj_takeoff_count := u\<rparr>) = clock_shows t s"
  "clock_shows t (s\<lparr>vj_leg_peak_agl_m := v\<rparr>) = clock_shows t s"
  by (simp_all add: clock_defs cong: option.case_cong)

lemma stop_clock_simps [simp]:
  "vj_truth (stop_clock now s) = vj_truth s"
  "vj_finished (stop_clock now s) = vj_finished s"
  "vj_terminal_failure_reason (stop_clock now s) = vj_terminal_failure_reason s"
  "vj_requests (stop_clock now s) = vj_requests s"
  "vj_decision_id (stop_clock now s) = vj_decision_id s"
  "vj_active_since_ns (stop_clock now s) = None"
  by (simp_all add: stop_clock_def split: option.splits)

lemma clock_shows_finish: "clock_shows t s \<Longrightarrow> clock_shows t (s\<lparr>vj_finished := True\<rparr>)"
  by (auto simp: clock_defs cong: option.case_cong)

lemma clock_shows_stop:
  assumes "clock_shows t s" and "\<And>x. vj_truth s = Some x \<Longrightarrow> gt_sim_timestamp_ns x \<le> now"
  shows "clock_shows t (stop_clock now s)" and "clock_shows t ((stop_clock now s)\<lparr>vj_paused := True\<rparr>)"
  using assms by (fastforce simp: clock_defs stop_clock_def split: option.splits)+

lemma clock_shows_note:
  assumes "clock_shows t s" and "\<And>p. vj_truth s = Some p \<Longrightarrow> gt_sim_timestamp_ns p < gt_sim_timestamp_ns x"
  shows "clock_shows t (note_truth x s)"
  using assms by (fastforce simp: clock_defs note_truth_def split: option.splits)

lemma clock_shows_take_off:
  assumes "clock_shows t s" and "vj_truth s = Some x" and "t < 0 \<or> \<not> paused_early s"
  shows "clock_shows t (take_off x s)"
  using assms
  by (auto simp: clock_defs take_off_def Let_def paused_early_def cong: option.case_cong split: option.splits)

lemma note_truth_simps [simp]:
  "vj_truth (note_truth x s) = Some x"
  "vj_requests (note_truth x s) = vj_requests s"
  "vj_decision_id (note_truth x s) = vj_decision_id s"
  by (simp_all add: note_truth_def)

text \<open>Each step of a sample keeps the clock, once the sample is the last position.\<close>

definition clock_at :: "int \<Rightarrow> ground_truth_sample \<Rightarrow> vfs_judge \<Rightarrow> bool" where
  "clock_at t x s \<longleftrightarrow> clock_shows t s \<and> vj_truth s = Some x \<and> (t < 0 \<or> \<not> paused_early s)"

lemma clock_atD: "clock_at t x s \<Longrightarrow> clock_shows t s"
  by (simp add: clock_at_def)

lemma clock_shows_terminate: "clock_shows t s \<Longrightarrow> clock_shows t (terminate r s)"
  unfolding terminate_def clock_shows_simps by (rule clock_shows_finish)

lemma terminate_simps [simp]:
  "vj_truth (terminate r s) = vj_truth s"
  "vj_finished (terminate r s)"
  "\<not> paused_early (terminate r s)"
  by (simp_all add: terminate_def paused_early_def)

lemma note_truth_clock:
  assumes "clock_shows t s" and "t < 0 \<or> \<not> paused_early s"
    and "\<And>p. vj_truth s = Some p \<Longrightarrow> gt_sim_timestamp_ns p < gt_sim_timestamp_ns x"
  shows "clock_at t x (note_truth x s)"
  using clock_shows_note [OF assms(1,3)] assms(2) by (simp add: clock_at_def note_truth_def paused_early_def)

lemma approval_timeout_clock: "clock_at t x s \<Longrightarrow> keeps (check_approval_timeout now) (clock_at t x) s"
  by (auto simp: check_approval_timeout_def clock_at_def intro: clock_shows_terminate split: sum.splits)

lemma clock_at_stop:
  assumes "clock_at t x s" and "vj_active_since_ns s \<noteq> None"
  shows "clock_at t x ((stop_clock (gt_sim_timestamp_ns x) s)\<lparr>vj_paused := True\<rparr>)"
  using assms clock_shows_stop [of t s "gt_sim_timestamp_ns x"]
  by (auto simp: clock_at_def paused_early_def clock_shows_def stop_clock_def)

lemma touch_down_clock: "clock_at t x s \<Longrightarrow> keeps (touch_down L x) (clock_at t x) s"
  using clock_at_stop [of t x s] by (simp add: touch_down_def split: sum.splits)

lemma contact_change_clock:
  assumes "clock_at t x s"
  shows "keeps (contact_change L previous x) (clock_at t x) s"
proof -
  have "clock_at t x (take_off x s)"
    using assms clock_shows_take_off [of t s x]
    by (auto simp: clock_at_def take_off_def paused_early_def Let_def)
  then show ?thesis
    using assms touch_down_clock [OF assms, of L] by (simp add: contact_change_def split: option.splits)
qed

lemma deadline_clock:
  "clock_at t x s \<Longrightarrow> keeps (check_active_deadline (gt_sim_timestamp_ns x)) (clock_at t x) s"
  by (auto simp: check_active_deadline_def clock_at_def intro!: clock_shows_terminate clock_shows_stop split: sum.splits)

lemma ground_truth_clock:
  assumes "clock_shows t s" and "t < 0 \<or> \<not> paused_early s"
  shows "keeps (judge_accept_ground_truth L x) (clock_shows t) s"
proof -
  have "keeps (ibind (check_approval_timeout (gt_sim_timestamp_ns x)) (\<lambda>_.
         ibind (contact_change L previous x) (\<lambda>_.
         ibind (check_active_deadline (gt_sim_timestamp_ns x)) (\<lambda>_.
         ibind (imodify (\<lambda>s. s\<lparr>vj_status_sequence := vj_status_sequence s + 1\<rparr>)) (\<lambda>_.
           iget attempt_status_of))))) (clock_shows t) u"
    if u: "clock_at t x u" for previous u
    unfolding wp_ibind
    by (rule wp_mono [OF approval_timeout_clock [OF u]], rule wp_mono [OF contact_change_clock], assumption,
        rule wp_mono [OF deadline_clock]) (auto dest: clock_atD)
  then show ?thesis
    using assms note_truth_clock [OF assms, of x] unfolding judge_accept_ground_truth_def
    by (auto split: option.splits)
qed

lemma vehicle_status_clock: "clock_shows t s \<Longrightarrow> keeps (judge_accept_vehicle_status L v) (clock_shows t) s"
  by (auto simp: judge_accept_vehicle_status_def landed_fm2_def intro!: clock_shows_stop
      split: option.splits sum.splits if_splits)

lemma payload_state_clock: "clock_shows t s \<Longrightarrow> keeps (judge_accept_payload_state L p) (clock_shows t) s"
  by (auto simp: judge_accept_payload_state_def note_payload_def Let_def)

text \<open>A request changes the judge only through its verdict, the book and the next identity.\<close>

lemma error_decision_keeps:
  assumes "P s" and "\<And>u i. P u \<Longrightarrow> P (u\<lparr>vj_decision_id := i\<rparr>)"
  shows "keeps (error_decision e r c reason elapsed) P s"
  using assms by (simp add: error_decision_def next_decision_def)

lemma check_request_keeps:
  assumes "P s" and "\<And>u i. P u \<Longrightarrow> P (u\<lparr>vj_decision_id := i\<rparr>)"
    and "\<And>u b. P u \<Longrightarrow> P (u\<lparr>vj_requests := b\<rparr>)"
    and "\<And>c r. keeps (decide c r) P s"
  shows "keeps (check_request decode e decide) P s"
proof -
  have "keeps (ibind (decide c r) (\<lambda>decision.
      ibind (imodify (\<lambda>s. s\<lparr>vj_requests := AList.update r (me_phase e, c, decision) (vj_requests s)\<rparr>)) (\<lambda>_.
        ireturn [decision]))) P s" for c r
    unfolding wp_ibind by (rule wp_mono [OF assms(4) [of c r]]) (simp_all add: assms(3))
  then show ?thesis
    using assms(1) error_decision_keeps [of P s, OF assms(1,2)]
    by (auto simp: check_request_def answer_request_def split: option.splits)
qed

lemma vehicle_evidence_SomeD:
  "vehicle_evidence now s = Some (x, v) \<Longrightarrow>
     vj_truth s = Some x \<and> vj_status s = Some v \<and> fresh EVIDENCE_FRESHNESS_NS now (gt_sim_timestamp_ns x)
     \<and> fresh STATUS_FRESHNESS_NS now (vt_sim_timestamp_ns v)"
  by (auto simp: vehicle_evidence_def fresh_status_def split: option.splits if_splits)

lemma freeze_clock:
  assumes "clock_shows t s" and "vj_truth s = Some x" and "gt_sim_timestamp_ns x \<le> now"
  shows "clock_shows t (freeze_eligible now ids s)"
  using clock_shows_stop(2) [OF assms(1), of now] assms(2,3)
  by (auto simp: freeze_eligible_def clock_defs)

lemma check_verdict_clock:
  assumes "clock_shows t s"
  shows "keeps (check_verdict L e c) (clock_shows t) s"
proof (cases "vehicle_evidence (me_sim_timestamp_ns e) s")
  case None
  then show ?thesis using assms by (simp add: check_verdict_def Let_def)
next
  case (Some xv)
  obtain x v where xv: "xv = (x, v)" by (cases xv)
  have x: "vj_truth s = Some x" "gt_sim_timestamp_ns x \<le> me_sim_timestamp_ns e"
    using vehicle_evidence_SomeD [OF Some [unfolded xv]] by (auto simp: fresh_def)
  have "keeps (fm1_verdict L c refs x v) (clock_shows t) s" for refs
    using assms by (auto simp: fm1_verdict_def Let_def split: sum.splits)
  moreover have "keeps (fm2_verdict L (me_sim_timestamp_ns e) refs x v) (clock_shows t) s" for refs
    using assms freeze_clock [OF assms x] by (auto simp: fm2_verdict_def Let_def split: sum.splits)
  moreover have "keeps (fm3_verdict L (me_sim_timestamp_ns e) refs x v) (clock_shows t) s" for refs
    using assms by (auto simp: fm3_verdict_def Let_def intro: clock_shows_finish split: sum.splits option.splits)
  ultimately show ?thesis
    using assms Some xv by (simp add: check_verdict_def Let_def)
qed

lemma judge_decision_on_keeps:
  assumes "keeps (check_verdict L e c) P s" and "\<And>u i. P u \<Longrightarrow> P (u\<lparr>vj_decision_id := i\<rparr>)"
  shows "keeps (judge_decision_on L e r c) P s"
  unfolding judge_decision_on_def next_decision_def wp_ibind
  by (rule wp_mono [OF assms(1)]) (simp_all add: assms(2))

lemma start_phase_clock [simp]: "clock_shows t (start_phase p s) = clock_shows t s"
  by (simp add: start_phase_def Let_def)

lemma mission_clock: "clock_shows t s \<Longrightarrow> keeps (judge_accept_mission_event L decode e) (clock_shows t) s"
  using check_request_keeps [of "clock_shows t" s "\<lambda>c r. judge_decision_on L e r c" decode e]
    judge_decision_on_keeps [of L e _ "clock_shows t" s] check_verdict_clock [of t s L e]
  by (simp add: judge_accept_mission_event_def)

lemma missing_clock:
  "clock_shows t s \<Longrightarrow> keeps (reject_mission_event_missing_evidence decode e) (clock_shows t) s"
  by (auto simp: reject_mission_event_missing_evidence_def intro!: check_request_keeps error_decision_keeps)

lemma judge_call_clock:
  assumes "clock_shows t s" and "t < 0 \<or> \<not> paused_early s"
  shows "clock_shows t (snd (judge_call L decode op s))"
proof -
  have "keeps (judge_call L decode op) (clock_shows t) s"
    using assms ground_truth_clock vehicle_status_clock payload_state_clock mission_clock missing_clock
    by (cases op) (simp_all add: judge_accept_payload_event_def)
  then show ?thesis
    by (auto simp: wp_def split: prod.splits sum.splits)
qed

end
