(* ===== verification/Vfs_Judge_Book.thy ===== *)
theory Vfs_Judge_Book
  imports Vfs_Judge_Inv
begin

text \<open>
  The book of the judge: every decision it has given is known by its identity, a request has one
  answer, and the answers of the later checks rest on those of the earlier ones.
\<close>

section \<open>What the samples leave alone\<close>

definition ledger :: "vfs_judge \<Rightarrow> (string, string \<times> string \<times> judge_decision) dict \<times> int \<times> vfs_scenario" where
  "ledger s = (vj_requests s, vj_decision_id s, vj_scenario s)"

definition frozen :: "vfs_judge \<Rightarrow> bool \<times> int list" where
  "frozen s = (vj_fm2_approved s, vj_fm2_eligible_ids s)"

text \<open>The part of the state the answers depend on for their consistency.\<close>

definition judge_record :: "vfs_judge
    \<Rightarrow> ((string, string \<times> string \<times> judge_decision) dict \<times> int \<times> vfs_scenario) \<times> bool \<times> int list" where
  "judge_record s = (ledger s, frozen s)"

lemmas record_defs = judge_record_def ledger_def frozen_def

lemma record_stop [simp]: "judge_record (stop_clock t s) = judge_record s"
  by (simp add: record_defs stop_clock_def split: option.splits)

lemma record_note [simp]: "judge_record (note_truth x s) = judge_record s"
  by (simp add: record_defs note_truth_def)

lemma record_take_off [simp]: "judge_record (take_off x s) = judge_record s"
  by (simp add: record_defs take_off_def Let_def)

lemma record_terminate [simp]: "judge_record (terminate r s) = judge_record s"
  by (simp add: record_defs terminate_def)

lemma record_updates [simp]:
  "judge_record (s\<lparr>vj_paused := a\<rparr>) = judge_record s"
  "judge_record (s\<lparr>vj_finished := b\<rparr>) = judge_record s"
  "judge_record (s\<lparr>vj_status := c\<rparr>) = judge_record s"
  "judge_record (s\<lparr>vj_status_sequence := d\<rparr>) = judge_record s"
  "judge_record (s\<lparr>vj_fm1_d_approved := f\<rparr>) = judge_record s"
  by (simp_all add: record_defs)

lemma record_payload [simp]: "judge_record (note_payload L p s) = judge_record s"
  by (simp add: record_defs note_payload_def Let_def)

lemma record_phase [simp]: "judge_record (start_phase p s) = judge_record s"
  by (simp add: record_defs start_phase_def Let_def)

lemma keeps_steps:
  "keeps m P s \<Longrightarrow> (\<And>x u. P u \<Longrightarrow> keeps (f x) P u) \<Longrightarrow> keeps (ibind m f) P s"
  unfolding wp_ibind by (rule wp_mono)

lemma record_timeout: "judge_record s = r \<Longrightarrow> keeps (check_approval_timeout t) (\<lambda>u. judge_record u = r) s"
  by (auto simp: check_approval_timeout_def split: sum.splits)

lemma record_contact: "judge_record s = r \<Longrightarrow> keeps (contact_change L p x) (\<lambda>u. judge_record u = r) s"
  by (auto simp: contact_change_def touch_down_def split: option.splits sum.splits)

lemma record_deadline: "judge_record s = r \<Longrightarrow> keeps (check_active_deadline t) (\<lambda>u. judge_record u = r) s"
  by (auto simp: check_active_deadline_def split: sum.splits)

lemma record_truth: "judge_record s = r \<Longrightarrow> keeps (judge_accept_ground_truth L x) (\<lambda>u. judge_record u = r) s"
  unfolding judge_accept_ground_truth_def
  by (auto simp del: wp_ibind intro!: keeps_steps record_timeout record_contact record_deadline)

lemma record_status: "judge_record s = r \<Longrightarrow> keeps (judge_accept_vehicle_status L v) (\<lambda>u. judge_record u = r) s"
  by (auto simp: judge_accept_vehicle_status_def split: option.splits sum.splits)

lemma record_payload_state: "judge_record s = r \<Longrightarrow> keeps (judge_accept_payload_state L p) (\<lambda>u. judge_record u = r) s"
  by (simp add: judge_accept_payload_state_def)

section \<open>Verdicts\<close>

text \<open>What a verdict says of the judge before and after it.\<close>

definition verdict_fits :: "vfs_judge \<Rightarrow> mission_event_sample \<Rightarrow> verdict \<Rightarrow> vfs_judge \<Rightarrow> bool" where
  "verdict_fits s e d u \<longleftrightarrow>
     ledger u = ledger s
     \<and> (if me_phase e = ''FM2'' \<and> vd_outcome d = Approved then frozen u = (True, vd_eligible d)
        else frozen u = frozen s)
     \<and> (me_phase e = ''FM3'' \<and> vd_outcome d = Approved \<longrightarrow> vj_fm2_approved s)
     \<and> (\<exists>P. vd_eligible d = filter P (sort (dict_keys (payload_targets (vj_scenario s)))))"

lemma no_eligible [simp]: "\<exists>P. [] = filter P xs"
  by (rule exI [of _ "\<lambda>_. False"]) simp

lemmas verdict_defs = rejection_def evidence_error_def approval_def

lemma check_verdict_fits:
  "wp (check_verdict L e c) (\<lambda>d u. verdict_fits s e d u) (\<lambda>_ u. judge_record u = judge_record s) s"
proof (cases "vehicle_evidence (me_sim_timestamp_ns e) s")
  case None
  then show ?thesis by (simp add: check_verdict_def Let_def verdict_fits_def verdict_defs)
next
  case (Some xv)
  obtain x v where xv: "xv = (x, v)" by (cases xv)
  have 1: "wp (fm1_verdict L c refs x v) (\<lambda>d u. verdict_fits s e d u) (\<lambda>_ u. judge_record u = judge_record s) s"
    if "me_phase e = ''FM1''" for refs
    using that by (auto simp: fm1_verdict_def Let_def verdict_fits_def verdict_defs record_defs split: sum.splits)
  have 2: "wp (fm2_verdict L now refs x v) (\<lambda>d u. verdict_fits s e d u) (\<lambda>_ u. judge_record u = judge_record s) s"
    if "me_phase e = ''FM2''" for refs now
    using that
    by (auto simp: fm2_verdict_def Let_def verdict_fits_def verdict_defs freeze_eligible_def record_defs
        eligible_def stop_clock_def split: sum.splits option.splits dest!: keep_filter)
  have 3: "wp (fm3_verdict L now refs x v) (\<lambda>d u. verdict_fits s e d u) (\<lambda>_ u. judge_record u = judge_record s) s"
    if "me_phase e = ''FM3''" for refs now
    using that by (auto simp: fm3_verdict_def Let_def verdict_fits_def verdict_defs record_defs
        split: sum.splits option.splits)
  show ?thesis
    using Some xv 1 2 3 by (simp add: check_verdict_def Let_def verdict_fits_def verdict_defs)
qed

section \<open>The book\<close>

definition is_approved :: "string \<Rightarrow> judge_decision \<Rightarrow> bool" where
  "is_approved phase_name d \<longleftrightarrow> de_phase d = phase_name \<and> de_outcome d = Approved"

text \<open>
  The decisions \<open>D\<close> given so far and the state: identities are used once, the book holds the
  answer of every request it knows, every judgement on the merits is in the book, and an approval
  of the last phase comes after an approval of the second, which froze its payloads.
\<close>

definition identities :: "judge_decision set \<Rightarrow> vfs_judge \<Rightarrow> bool" where
  "identities D s \<longleftrightarrow> inj_on de_decision_id D \<and> (\<forall>d\<in>D. de_decision_id d < vj_decision_id s)"

definition answers :: "judge_decision set \<Rightarrow> vfs_judge \<Rightarrow> bool" where
  "answers D s \<longleftrightarrow>
     (\<forall>r p c d. map_of (vj_requests s) r = Some (p, c, d) \<longrightarrow> d \<in> D)
     \<and> (\<forall>d\<in>D. de_outcome d \<noteq> ErrorOutcome \<longrightarrow>
          map_of (vj_requests s) (de_request_id d) = Some (de_phase d, de_checkpoint d, d))"

definition phases :: "judge_decision set \<Rightarrow> vfs_judge \<Rightarrow> bool" where
  "phases D s \<longleftrightarrow>
     (vj_fm2_approved s \<longrightarrow>
        (\<exists>d\<in>D. is_approved ''FM2'' d \<and> de_eligible_aruco_ids d = vj_fm2_eligible_ids s))
     \<and> (\<forall>d\<in>D. is_approved ''FM3'' d \<longrightarrow>
          (\<exists>d'\<in>D. is_approved ''FM2'' d' \<and> de_decision_id d' < de_decision_id d))"

definition listed :: "judge_decision set \<Rightarrow> vfs_judge \<Rightarrow> bool" where
  "listed D s \<longleftrightarrow>
     (\<forall>d\<in>D. \<exists>P. de_eligible_aruco_ids d = filter P (sort (dict_keys (payload_targets (vj_scenario s)))))"

definition book :: "judge_decision set \<Rightarrow> vfs_judge \<Rightarrow> bool" where
  "book D s \<longleftrightarrow> identities D s \<and> answers D s \<and> phases D s \<and> listed D s"

lemmas book_defs = identities_def answers_def phases_def listed_def

lemma book_record: "judge_record u = judge_record s \<Longrightarrow> book D s \<Longrightarrow> book D u"
  by (simp add: book_def book_defs record_defs)

lemma identities_insert:
  assumes "identities D s" and "de_decision_id d = vj_decision_id s" and "vj_decision_id u = vj_decision_id s + 1"
  shows "identities (insert d D) u"
  using assms by (fastforce simp: identities_def)

lemma phases_insert:
  assumes "identities D s" and "phases D s" and "de_decision_id d = vj_decision_id s"
    and "is_approved ''FM3'' d \<Longrightarrow> vj_fm2_approved s"
    and "frozen u = (if is_approved ''FM2'' d then (True, de_eligible_aruco_ids d) else frozen s)"
  shows "phases (insert d D) u"
  using assms by (fastforce simp: identities_def phases_def frozen_def split: if_splits)

lemma listed_insert:
  assumes "listed D s" and "vj_scenario u = vj_scenario s"
    and "\<exists>P. de_eligible_aruco_ids d = filter P (sort (dict_keys (payload_targets (vj_scenario s))))"
  shows "listed (insert d D) u"
  using assms by (simp add: listed_def)

text \<open>An error takes an identity; it is not kept in the book, or answers a new request.\<close>

lemma book_error:
  assumes "book D s" and "vd_outcome d = ErrorOutcome" and "vd_eligible d = []"
  shows "book (insert (decision_of e r c d t s) D) (s\<lparr>vj_decision_id := vj_decision_id s + 1\<rparr>)"
proof -
  let ?d = "decision_of e r c d t s" and ?u = "s\<lparr>vj_decision_id := vj_decision_id s + 1\<rparr>"
  have "answers (insert ?d D) ?u"
    using assms by (auto simp: book_def answers_def decision_of_def)
  moreover have "phases (insert ?d D) ?u"
    using assms by (intro phases_insert [of D s]) (auto simp: book_def decision_of_def is_approved_def frozen_def)
  moreover have "identities (insert ?d D) ?u"
    using assms by (intro identities_insert [of D s]) (auto simp: book_def decision_of_def)
  moreover have "listed (insert ?d D) ?u"
    using assms by (intro listed_insert [of D s]) (auto simp: book_def decision_of_def)
  ultimately show ?thesis by (simp add: book_def)
qed

text \<open>The answer to a request the book does not know.\<close>

lemma book_answer:
  assumes b: "book D s" and new: "map_of (vj_requests s) r = None" and fits: "verdict_fits s e d u"
  shows "book (insert (decision_of e r c d t u) D)
    (u\<lparr>vj_decision_id := vj_decision_id u + 1,
       vj_requests := AList.update r (me_phase e, c, decision_of e r c d t u) (vj_requests u)\<rparr>)"
    (is "book (insert ?d D) ?u")
proof -
  have same: "vj_requests u = vj_requests s" "vj_decision_id u = vj_decision_id s" "vj_scenario u = vj_scenario s"
    using fits by (simp_all add: verdict_fits_def ledger_def)
  have "answers (insert ?d D) ?u"
    using b new same by (auto simp: book_def answers_def decision_of_def update_conv')
  moreover have "phases (insert ?d D) ?u"
    using b fits same by (intro phases_insert [of D s])
      (auto simp: book_def decision_of_def is_approved_def verdict_fits_def frozen_def)
  moreover have "identities (insert ?d D) ?u"
    using b same by (intro identities_insert [of D s]) (auto simp: book_def decision_of_def)
  moreover have "listed (insert ?d D) ?u"
    using b fits same by (intro listed_insert [of D s]) (auto simp: book_def decision_of_def verdict_fits_def)
  ultimately show ?thesis by (simp add: book_def)
qed

section \<open>The operations\<close>

abbreviation books :: "judge_decision set \<Rightarrow> (vfs_judge, judge_decision list) io \<Rightarrow> vfs_judge \<Rightarrow> bool" where
  "books D m \<equiv> wp m (\<lambda>ds u. book (D \<union> set ds) u) (\<lambda>_ u. book D u)"

lemma check_request_books:
  assumes b: "book D s"
    and decide: "\<And>c r. map_of (vj_requests s) r = None \<Longrightarrow>
       wp (decide c r) (\<lambda>d u. book (insert d D) (u\<lparr>vj_requests :=
           AList.update r (me_phase e, c, d) (vj_requests u)\<rparr>)) (\<lambda>_ u. book D u) s"
  shows "books D (check_request decode e decide) s"
proof -
  have err: "wp (error_decision e r c reason elapsed) (\<lambda>d u. book (insert d D) u) (\<lambda>_ u. book D u) s"
    for r c reason elapsed
    using b by (simp add: error_decision_def next_decision_def book_error evidence_error_def)
  have "books D (answer_request e c r (decide c r)) s" for c r
  proof (cases "map_of (vj_requests s) r")
    case None
    then show ?thesis
      using decide [OF None, of c] by (simp add: answer_request_def)
  next
    case (Some pcd)
    obtain p c' d where pcd: "pcd = (p, c', d)" by (cases pcd)
    have "d \<in> D" using b Some pcd by (auto simp: book_def answers_def)
    then show ?thesis
      using b Some pcd err by (simp add: answer_request_def insert_absorb)
  qed
  then show ?thesis
    using err by (auto simp: check_request_def split: option.splits)
qed

lemma decision_on_books:
  assumes "book D s" and "map_of (vj_requests s) r = None"
  shows "wp (judge_decision_on L e r c) (\<lambda>d u. book (insert d D) (u\<lparr>vj_requests :=
           AList.update r (me_phase e, c, d) (vj_requests u)\<rparr>)) (\<lambda>_ u. book D u) s"
  unfolding judge_decision_on_def next_decision_def wp_ibind wp_iget wp_imodify wp_ireturn
  by (rule wp_mono [OF check_verdict_fits])
    (use book_answer [OF assms] book_record [OF _ assms(1)] in simp_all)

lemma missing_books:
  assumes "book D s" and "map_of (vj_requests s) r = None"
  shows "wp (error_decision e r c reason elapsed) (\<lambda>d u. book (insert d D) (u\<lparr>vj_requests :=
           AList.update r (me_phase e, c, d) (vj_requests u)\<rparr>)) (\<lambda>_ u. book D u) s"
  using book_answer [OF assms, of e "evidence_error reason [''mission-events#'' @ str_int (me_event_id e)]" s c]
  by (simp add: error_decision_def next_decision_def verdict_fits_def evidence_error_def)

lemma judge_call_books:
  assumes "book D s"
  shows "books D (judge_call L decode op) s"
proof (cases op)
  case (JMission e)
  then show ?thesis
    using check_request_books [OF assms, of "\<lambda>c r. judge_decision_on L e r c"] decision_on_books [OF assms]
      book_record [OF _ assms, of "start_phase (me_phase e) s"] assms
    by (simp add: judge_accept_mission_event_def)
next
  case (JMissing e)
  then show ?thesis
    using check_request_books [OF assms, of "\<lambda>c r. error_decision e r c ''evidence_stale_or_missing''
        (active_elapsed_at (me_sim_timestamp_ns e))"] missing_books [OF assms] assms
    by (simp add: reject_mission_event_missing_evidence_def)
next
  case (JTruth x)
  have "wp (judge_accept_ground_truth L x) (\<lambda>_. book D) (\<lambda>_. book D) s"
    by (rule wp_mono [OF record_truth [OF refl]]) (rule book_record [OF _ assms], assumption)+
  then show ?thesis using JTruth by simp
next
  case (JStatus v)
  have "wp (judge_accept_vehicle_status L v) (\<lambda>_. book D) (\<lambda>_. book D) s"
    by (rule wp_mono [OF record_status [OF refl]]) (rule book_record [OF _ assms], assumption)+
  then show ?thesis using JStatus by simp
next
  case (JPayload p)
  have "wp (judge_accept_payload_state L p) (\<lambda>_. book D) (\<lambda>_. book D) s"
    by (rule wp_mono [OF record_payload_state [OF refl]]) (rule book_record [OF _ assms], assumption)+
  then show ?thesis using JPayload by simp
next
  case (JPayloadEvent e)
  then show ?thesis using assms by (simp add: judge_accept_payload_event_def)
qed

text \<open>The decisions of a run are booked.\<close>

lemma run_books:
  "book D s \<Longrightarrow>
   book (D \<union> set (returned (fst (run_ops (judge_call L decode) ops s)))) (snd (run_ops (judge_call L decode) ops s))"
proof (induction ops arbitrary: D s)
  case Nil
  then show ?case by simp
next
  case (Cons op ops)
  obtain r u where r: "judge_call L decode op s = (r, u)" by fastforce
  show ?case
  proof (cases r)
    case (Inl x)
    then have "book D u" using judge_call_books [OF Cons.prems, of L decode op] r by (simp add: wp_def)
    from Cons.IH [OF this] show ?thesis using r Inl by simp
  next
    case (Inr ds)
    then have "book (D \<union> set ds) u" using judge_call_books [OF Cons.prems, of L decode op] r by (simp add: wp_def)
    from Cons.IH [OF this] show ?thesis using r Inr by (simp add: Un_assoc)
  qed
qed

lemma book_fresh: "VfsJudge run_id course scenario = Inr s \<Longrightarrow> book {} s"
  by (auto simp: VfsJudge_def book_def book_defs)

end
