(* ===== verification/Vfs_Judge_Props.thy ===== *)
theory Vfs_Judge_Props
  imports Vfs_Judge_Book
begin

text \<open>
  What the decisions of the judge mean: the facts an approval rests on, and how the clock, the
  answers and the payloads behave over a run of its operations.
\<close>

section \<open>New decisions\<close>

text \<open>A decision that answers a new request carries a verdict reached in the state before it.\<close>

lemma new_decision:
  assumes "judge_accept_mission_event L decode e s = (Inr [d], s')"
    and "parse_request (decode (me_detail e)) = Some (c, r)" and "map_of (vj_requests s) r = None"
  obtains v u where "check_verdict L e c s = (Inr v, u)" and "d = decision_of e r c v (active_elapsed_ns u) u"
    and "s' = u\<lparr>vj_decision_id := vj_decision_id u + 1,
               vj_requests := AList.update r (me_phase e, c, d) (vj_requests u)\<rparr>"
proof -
  have "me_run_id e = vj_run_id s"
    using assms(1) by (auto simp: judge_accept_mission_event_def same_run_def ibind_def split: if_splits)
  then show ?thesis
    using assms that
    by (auto simp: judge_accept_mission_event_def same_run_def check_request_def answer_request_def
        judge_decision_on_def next_decision_def split: if_splits)
qed

text \<open>An approved verdict of the last phase, and one of the second.\<close>

definition home_parked :: "libm \<Rightarrow> int \<Rightarrow> vfs_judge \<Rightarrow> bool" where
  "home_parked L now s \<longleftrightarrow>
     (\<exists>x v h. vj_truth s = Some x \<and> fresh EVIDENCE_FRESHNESS_NS now (gt_sim_timestamp_ns x)
        \<and> vj_status s = Some v \<and> fresh STATUS_FRESHNESS_NS now (vt_sim_timestamp_ns v)
        \<and> gt_in_contact x \<and> \<not> vt_armed v \<and> map_of (vc_waypoints (vj_course s)) ''H'' = Some h
        \<and> zone_holds L h (gt_position_xyz x ! 0, gt_position_xyz x ! 1)
            (va_aircraft_radius_m (vc_attempt (vj_course s))))"

definition delivered_to :: "libm \<Rightarrow> int \<Rightarrow> vfs_judge \<Rightarrow> string \<Rightarrow> int \<Rightarrow> bool" where
  "delivered_to L now s name marker \<longleftrightarrow>
     (\<exists>p w. map_of (vj_payloads s) marker = Some p \<and> fresh EVIDENCE_FRESHNESS_NS now (ps_sim_timestamp_ns p)
        \<and> map_of (vc_waypoints (vj_course s)) name = Some w \<and> contained L s p w)"

lemma current_payload_eq_Some [simp]:
  "current_payload now s m = Some p \<longleftrightarrow>
     map_of (vj_payloads s) m = Some p \<and> fresh EVIDENCE_FRESHNESS_NS now (ps_sim_timestamp_ns p)"
  by (auto simp: current_payload_def split: option.splits)

lemma fm3_verdict_approved:
  assumes "fm3_verdict L now refs x v s = (Inr d, u)" and "vd_outcome d = Approved"
  shows "vj_terminal_failure_reason s = None \<and> vj_fm2_approved s \<and> vj_phase s = ''FM3''
    \<and> gt_in_contact x \<and> \<not> vt_armed v \<and> aircraft_inside L (vj_course s) ''H'' x = Inr True
    \<and> (\<forall>m\<in>set (vj_fm2_eligible_ids s). retrieved L now s m = Inr True) \<and> vj_finished u"
proof -
  let ?ms = "vj_fm2_eligible_ids s"
  let ?ev = "list_all (\<lambda>m. current_payload now s m \<noteq> None) ?ms"
  obtain i where i: "aircraft_inside L (vj_course s) ''H'' x = Inr i"
    using assms(1) by (auto simp: fm3_verdict_def Let_def)
  obtain a where a: "(if ?ev then all_hold (retrieved L now s) ?ms else Inr False) = Inr a"
    using assms(1) by (auto simp: fm3_verdict_def Let_def)
  have "?ev \<and> a \<and> i \<and> vj_terminal_failure_reason s = None \<and> vj_fm2_approved s \<and> vj_phase s = ''FM3''
    \<and> gt_in_contact x \<and> \<not> vt_armed v \<and> vj_finished u"
    using assms(1,2) unfolding fm3_verdict_def Let_def
    by (cases "vj_terminal_failure_reason s") (simp_all add: i a verdict_defs split: if_splits, insert a, auto)
  then show ?thesis using i a all_hold_True by force
qed

lemma retrieved_True:
  "retrieved L now s m = Inr True \<Longrightarrow>
     delivered_to L now s ''L'' m \<and> (\<exists>p. map_of (vj_payloads s) m = Some p \<and> ps_grounded p \<and> \<not> ps_attached p)"
  by (auto simp: retrieved_def delivered_to_def split: option.splits if_splits)

lemma fm2_verdict_approved:
  assumes "fm2_verdict L now refs x v s = (Inr d, u)" and "vd_outcome d = Approved"
  shows "gt_in_contact x \<and> \<not> vt_armed v \<and> aircraft_inside L (vj_course s) ''H'' x = Inr True
    \<and> eligible L now s = Inr (vd_eligible d) \<and> u = freeze_eligible now (vd_eligible d) s"
  using assms by (auto simp: fm2_verdict_def Let_def verdict_defs parked_def split: if_splits)

lemma check_verdict_approved:
  assumes "check_verdict L e c s = (Inr d, u)" and "vd_outcome d = Approved"
  obtains x v refs where "vj_truth s = Some x" and "vj_status s = Some v"
    and "fresh EVIDENCE_FRESHNESS_NS (me_sim_timestamp_ns e) (gt_sim_timestamp_ns x)"
    and "fresh STATUS_FRESHNESS_NS (me_sim_timestamp_ns e) (vt_sim_timestamp_ns v)"
    and "me_phase e = ''FM2'' \<Longrightarrow> fm2_verdict L (me_sim_timestamp_ns e) refs x v s = (Inr d, u)"
    and "me_phase e = ''FM3'' \<Longrightarrow> fm3_verdict L (me_sim_timestamp_ns e) refs x v s = (Inr d, u)"
  using assms
  by (auto simp: check_verdict_def Let_def verdict_defs dest!: vehicle_evidence_SomeD
      split: option.splits if_splits)

lemma inside_homeI:
  assumes "vj_truth s = Some x" and "vj_status s = Some v"
    and "fresh EVIDENCE_FRESHNESS_NS now (gt_sim_timestamp_ns x)"
    and "fresh STATUS_FRESHNESS_NS now (vt_sim_timestamp_ns v)" and "gt_in_contact x" and "\<not> vt_armed v"
    and "aircraft_inside L (vj_course s) ''H'' x = Inr True"
  shows "home_parked L now s"
  using assms by (auto simp: home_parked_def aircraft_inside_def)

text \<open>
  C5. A new approval of the last check rests on all of its facts: the vehicle stands disarmed
  inside H on fresh evidence, no timeout ended the attempt, the second check was approved, and
  every payload it froze is fresh evidence of a payload on the ground in L, let go. The attempt is
  finished from then on.
\<close>

theorem final_approval_sound:
  assumes "judge_accept_mission_event L decode e s = (Inr [d], s')"
    and "parse_request (decode (me_detail e)) = Some (c, r)" and "map_of (vj_requests s) r = None"
    and "is_approved ''FM3'' d"
  shows "home_parked L (me_sim_timestamp_ns e) s \<and> vj_terminal_failure_reason s = None
    \<and> vj_fm2_approved s \<and> vj_phase s = ''FM3'' \<and> vj_finished s'
    \<and> (\<forall>m\<in>set (vj_fm2_eligible_ids s). delivered_to L (me_sim_timestamp_ns e) s ''L'' m
         \<and> (\<exists>p. map_of (vj_payloads s) m = Some p \<and> ps_grounded p \<and> \<not> ps_attached p))"
proof -
  obtain v u where v: "check_verdict L e c s = (Inr v, u)"
    and d: "d = decision_of e r c v (active_elapsed_ns u) u"
    and s': "s' = u\<lparr>vj_decision_id := vj_decision_id u + 1,
               vj_requests := AList.update r (me_phase e, c, d) (vj_requests u)\<rparr>"
    using new_decision [OF assms(1-3)] by blast
  have ok: "vd_outcome v = Approved" "me_phase e = ''FM3''"
    using assms(4) d by (simp_all add: is_approved_def decision_of_def)
  from check_verdict_approved [OF v ok(1)] ok(2) obtain x w refs
    where xw: "vj_truth s = Some x" "vj_status s = Some w"
      "fresh EVIDENCE_FRESHNESS_NS (me_sim_timestamp_ns e) (gt_sim_timestamp_ns x)"
      "fresh STATUS_FRESHNESS_NS (me_sim_timestamp_ns e) (vt_sim_timestamp_ns w)"
    and f: "fm3_verdict L (me_sim_timestamp_ns e) refs x w s = (Inr v, u)"
    by metis
  from fm3_verdict_approved [OF f ok(1)] show ?thesis
    using inside_homeI [OF xw] s' retrieved_True by auto
qed

text \<open>What the second check finds eligible, and what its approval rests on.\<close>

lemma eligible_filter:
  assumes "eligible L now s = Inr ms"
  shows "\<exists>settle. nanoseconds (vi_settle_time_s (vs_payload_interaction (vj_scenario s))) = Inr settle
    \<and> ms = filter (\<lambda>m.
         (\<exists>p. map_of (vj_payloads s) m = Some p \<and> settle \<le> settled_for s m p)
         \<and> delivered_to L now s (the (map_of (vs_targets (vj_scenario s)) m)) m)
       (sort (dict_keys (vs_targets (vj_scenario s))))"
proof -
  obtain settle where t: "nanoseconds (vi_settle_time_s (vs_payload_interaction (vj_scenario s))) = Inr settle"
    and k: "keep (eligible_payload L now settle s) (sort (dict_keys (payload_targets (vj_scenario s)))) = Inr ms"
    using assms by (auto simp: eligible_def)
  have "eligible_payload L now settle s m = Inr True \<longleftrightarrow>
      (\<exists>p. map_of (vj_payloads s) m = Some p \<and> settle \<le> settled_for s m p)
      \<and> delivered_to L now s (the (map_of (vs_targets (vj_scenario s)) m)) m" for m
    by (auto simp: eligible_payload_def delivered_to_def payload_targets_def current_payload_def
        split: option.splits if_splits)
  then show ?thesis
    using t keep_filter [OF k] by (simp add: payload_targets_def)
qed

lemma second_approval:
  assumes "judge_accept_mission_event L decode e s = (Inr [d], s')"
    and "parse_request (decode (me_detail e)) = Some (c, r)" and "map_of (vj_requests s) r = None"
    and "is_approved ''FM2'' d"
  shows "eligible L (me_sim_timestamp_ns e) s = Inr (de_eligible_aruco_ids d)
    \<and> home_parked L (me_sim_timestamp_ns e) s
    \<and> (let u = freeze_eligible (me_sim_timestamp_ns e) (de_eligible_aruco_ids d) s in
        s' = u\<lparr>vj_decision_id := vj_decision_id u + 1,
               vj_requests := AList.update r (me_phase e, c, d) (vj_requests u)\<rparr>)"
proof -
  obtain v u where v: "check_verdict L e c s = (Inr v, u)"
    and d: "d = decision_of e r c v (active_elapsed_ns u) u"
    and s': "s' = u\<lparr>vj_decision_id := vj_decision_id u + 1,
               vj_requests := AList.update r (me_phase e, c, d) (vj_requests u)\<rparr>"
    using new_decision [OF assms(1-3)] by blast
  have ok: "vd_outcome v = Approved" "me_phase e = ''FM2''"
    using assms(4) d by (simp_all add: is_approved_def decision_of_def)
  from check_verdict_approved [OF v ok(1)] ok(2) obtain x w refs
    where xw: "vj_truth s = Some x" "vj_status s = Some w"
      "fresh EVIDENCE_FRESHNESS_NS (me_sim_timestamp_ns e) (gt_sim_timestamp_ns x)"
      "fresh STATUS_FRESHNESS_NS (me_sim_timestamp_ns e) (vt_sim_timestamp_ns w)"
    and f: "fm2_verdict L (me_sim_timestamp_ns e) refs x w s = (Inr v, u)"
    by metis
  have "de_eligible_aruco_ids d = vd_eligible v"
    by (simp add: d decision_of_def)
  then show ?thesis
    using fm2_verdict_approved [OF f ok(1)] inside_homeI [OF xw] s' by (simp add: Let_def)
qed

text \<open>
  C17. The payloads a new approval of the second check freezes are exactly those whose fresh state
  has been at rest for the settle time and lies in the zone of their target, in the order of their
  markers; the vehicle stands disarmed inside H, and the clock is paused at the time of the check.
\<close>

theorem second_approval_exact:
  assumes "judge_accept_mission_event L decode e s = (Inr [d], s')"
    and "parse_request (decode (me_detail e)) = Some (c, r)" and "map_of (vj_requests s) r = None"
    and "is_approved ''FM2'' d"
  shows "\<exists>settle. nanoseconds (vi_settle_time_s (vs_payload_interaction (vj_scenario s))) = Inr settle
    \<and> de_eligible_aruco_ids d = filter (\<lambda>m.
         (\<exists>p. map_of (vj_payloads s) m = Some p \<and> settle \<le> settled_for s m p)
         \<and> delivered_to L (me_sim_timestamp_ns e) s (the (map_of (vs_targets (vj_scenario s)) m)) m)
       (sort (dict_keys (vs_targets (vj_scenario s))))
    \<and> home_parked L (me_sim_timestamp_ns e) s
    \<and> vj_paused s' \<and> vj_active_since_ns s' = None \<and> vj_approval_ns s' = me_sim_timestamp_ns e
    \<and> vj_fm2_eligible_ids s' = de_eligible_aruco_ids d
    \<and> (de_eligible_aruco_ids d = [] \<longrightarrow> vj_finished s')"
  using second_approval [OF assms] eligible_filter [of L "me_sim_timestamp_ns e" s]
  by (auto simp: Let_def freeze_eligible_def)

section \<open>Runs\<close>

abbreviation judge_run :: "libm \<Rightarrow> (string \<Rightarrow> pyval option) \<Rightarrow> judge_op list \<Rightarrow> vfs_judge
    \<Rightarrow> judge_decision list result list \<times> vfs_judge" where
  "judge_run L decode \<equiv> run_ops (judge_call L decode)"

text \<open>
  C37. Over any run of a judge, raising calls included, a decision is known by its identity, and a
  request that was judged on the merits has one answer: another one with the same identity of
  request is an error.
\<close>

theorem one_answer_per_request:
  assumes "VfsJudge run_id course scenario = Inr s"
    and "d \<in> set (returned (fst (judge_run L decode ops s)))"
    and "d' \<in> set (returned (fst (judge_run L decode ops s)))"
  shows "(de_decision_id d = de_decision_id d' \<longrightarrow> d = d')
    \<and> (de_request_id d = de_request_id d' \<and> de_outcome d \<noteq> ErrorOutcome \<and> de_outcome d' \<noteq> ErrorOutcome
         \<longrightarrow> d = d')"
proof -
  let ?D = "set (returned (fst (judge_run L decode ops s)))" and ?u = "snd (judge_run L decode ops s)"
  have b: "inj_on de_decision_id ?D" "answers ?D ?u"
    using run_books [OF book_fresh [OF assms(1)], of L decode ops] by (simp_all add: book_def identities_def)
  have r: "map_of (vj_requests ?u) (de_request_id x) = Some (de_phase x, de_checkpoint x, x)"
    if "x \<in> ?D" "de_outcome x \<noteq> ErrorOutcome" for x
    using b(2) that by (simp add: answers_def)
  show ?thesis
  proof (intro conjI impI)
    show "d = d'" if "de_decision_id d = de_decision_id d'"
      by (rule inj_onD [OF b(1) that assms(2,3)])
    show "d = d'" if "de_request_id d = de_request_id d' \<and> de_outcome d \<noteq> ErrorOutcome \<and> de_outcome d' \<noteq> ErrorOutcome"
      using trans [OF sym [OF r [OF assms(2)]], of "Some (de_phase d', de_checkpoint d', d')"]
        r [OF assms(3)] that by (simp only: option.inject prod.inject) metis
  qed
qed

lemma judge_call_scenario: "vj_scenario (snd (judge_call L decode op s)) = vj_scenario s"
proof -
  let ?P = "\<lambda>u. vj_scenario u = vj_scenario s"
  have keep: "keeps m ?P s" if "keeps m (\<lambda>u. judge_record u = judge_record s) s" for m :: "(vfs_judge, 'x) io"
    using that by (rule wp_mono) (simp_all add: record_defs)
  have "keeps (check_verdict L e c) ?P s" for e c
    using check_verdict_fits [of L e c s] by (rule wp_mono) (simp_all add: verdict_fits_def record_defs)
  then have "keeps (check_request decode e (\<lambda>c r. judge_decision_on L e r c)) ?P s" for e
    by (intro check_request_keeps judge_decision_on_keeps) simp_all
  moreover have "keeps (check_request decode e (\<lambda>c r. error_decision e r c reason elapsed)) ?P s"
    for e reason elapsed
    by (intro check_request_keeps error_decision_keeps) simp_all
  ultimately have "keeps (judge_call L decode op) ?P s"
    using keep [OF record_truth [OF refl]] keep [OF record_status [OF refl]]
      keep [OF record_payload_state [OF refl]]
    by (cases op) (simp_all add: judge_accept_payload_event_def judge_accept_mission_event_def
        reject_mission_event_missing_evidence_def start_phase_def Let_def)
  then show ?thesis
    by (auto simp: wp_def split: prod.splits sum.splits)
qed

lemma run_scenario: "vj_scenario (snd (judge_run L decode ops s)) = vj_scenario s"
  by (induction ops arbitrary: s) (simp_all add: judge_call_scenario)

text \<open>
  C38. Over any run, an approval of the last check comes after an approval of the second, and the
  payloads a decision names are configured ones, each at most once when the configuration names
  each at most once.
\<close>

theorem final_after_second:
  assumes "VfsJudge run_id course scenario = Inr s" and "dict_ok (vs_targets scenario)"
    and "d \<in> set (returned (fst (judge_run L decode ops s)))"
  shows "(is_approved ''FM3'' d \<longrightarrow>
      (\<exists>d'\<in>set (returned (fst (judge_run L decode ops s))).
         is_approved ''FM2'' d' \<and> de_decision_id d' < de_decision_id d))
    \<and> distinct (de_eligible_aruco_ids d) \<and> set (de_eligible_aruco_ids d) \<subseteq> set (dict_keys (vs_targets scenario))"
proof -
  have "vj_scenario s = scenario"
    using assms(1) by (auto simp: VfsJudge_def)
  then show ?thesis
    using run_books [OF book_fresh [OF assms(1)], of L decode ops] assms(2,3) run_scenario [of L decode ops s]
    by (fastforce simp: book_def phases_def listed_def payload_targets_def)
qed

text \<open>Whether a state with a property is met in a run.\<close>

fun meets :: "('s \<Rightarrow> bool) \<Rightarrow> ('op \<Rightarrow> 's \<Rightarrow> 'a \<times> 's) \<Rightarrow> 'op list \<Rightarrow> 's \<Rightarrow> bool" where
  "meets P f [] s = P s"
| "meets P f (x # xs) s = (P s \<or> meets P f xs (snd (f x s)))"

lemma run_clock:
  "clock_shows t s \<Longrightarrow> t < 0 \<or> \<not> meets paused_early (judge_call L decode) ops s \<Longrightarrow>
   clock_shows t (snd (judge_run L decode ops s))"
  by (induction ops arbitrary: s) (auto intro: judge_call_clock)

lemma meets_start: "P s \<Longrightarrow> meets P f xs s"
  by (cases xs) simp_all

lemma meets_append: "meets P f (xs @ ys) s \<longleftrightarrow> meets P f xs s \<or> meets P f ys (snd (run_ops f xs s))"
  by (induction xs arbitrary: s) (auto simp: meets_start)

lemma clock_fresh: "VfsJudge run_id course scenario = Inr s \<Longrightarrow> clock_shows 0 s"
  by (auto simp: VfsJudge_def clock_defs)

lemma clock_showsD: "clock_shows 0 s \<Longrightarrow> clock_shows (active_elapsed_ns s) s"
  by (simp add: clock_shows_def)

text \<open>
  The active time of an attempt is never negative, and it never falls: a later state of a run
  shows at least the time of an earlier one, unless the clock was paused before the first take-off.
\<close>

theorem active_time_never_falls:
  assumes "VfsJudge run_id course scenario = Inr s"
    and "\<not> meets paused_early (judge_call L decode) (ops @ later) s"
  shows "0 \<le> active_elapsed_ns (snd (judge_run L decode ops s))
    \<and> active_elapsed_ns (snd (judge_run L decode ops s)) \<le> active_elapsed_ns (snd (judge_run L decode (ops @ later) s))"
proof -
  let ?m = "snd (judge_run L decode ops s)"
  have m: "clock_shows 0 ?m"
    using run_clock [OF clock_fresh [OF assms(1)]] assms(2) by (simp add: meets_append)
  have "clock_shows (active_elapsed_ns ?m) (snd (judge_run L decode later ?m))"
    using run_clock [OF clock_showsD [OF m]] assms(2) by (simp add: meets_append)
  with m show ?thesis by (simp add: clock_shows_def run_ops_append)
qed

end
