(* ===== verification/Vfs_Runtime_Judge.thy ===== *)
theory Vfs_Runtime_Judge
  imports Vfs_Runtime Vfs_Judge_Props
begin

text \<open>
  What the runtime relies on in its judge: an answer is timely, bears the identity of its request
  and names configured payloads; and how each call of the runtime's parts transforms its state.
\<close>

section \<open>Calls of the parts\<close>

lemma wp_on_judge [simp]:
  "wp (on_judge m) Q E s =
     wp m (\<lambda>x j. Q x (s\<lparr>vr_judge := j\<rparr>)) (\<lambda>e j. E e (s\<lparr>vr_judge := j\<rparr>)) (vr_judge s)"
  by (simp add: wp_def on_judge_def split: prod.splits sum.splits)

lemma wp_announce [simp]:
  "wp (announce env a) Q E s =
     (case env (vr_log s) a of
        Some x \<Rightarrow> E x (s\<lparr>vr_log := vr_log s @ [a]\<rparr>) | None \<Rightarrow> Q () (s\<lparr>vr_log := vr_log s @ [a]\<rparr>))"
  by (simp add: wp_def announce_def split: option.splits)

lemma wp_on_scorer:
  "wp (on_scorer m) Q E s =
     (case vr_scoring s of
        NoScorer \<Rightarrow> Q () s
      | BareScorer k \<Rightarrow> wp m (\<lambda>_ k. Q () (s\<lparr>vr_scoring := BareScorer k\<rparr>))
          (\<lambda>e k. E e (s\<lparr>vr_scoring := BareScorer k\<rparr>)) k
      | FinalizedScorer f \<Rightarrow> wp m (\<lambda>_ k. Q () (s\<lparr>vr_scoring := FinalizedScorer (f\<lparr>fi_scorer := k\<rparr>)\<rparr>))
          (\<lambda>e k. E e (s\<lparr>vr_scoring := FinalizedScorer (f\<lparr>fi_scorer := k\<rparr>)\<rparr>)) (fi_scorer f))"
  by (simp add: wp_def on_scorer_def split: scoring.splits prod.splits sum.splits)

lemma keeps_for_each:
  "P s \<Longrightarrow> (\<And>x u. x \<in> set xs \<Longrightarrow> P u \<Longrightarrow> keeps (f x) P u) \<Longrightarrow> keeps (for_each f xs) P s"
proof (induction xs arbitrary: s)
  case (Cons x xs)
  have "keeps (f x) P s" using Cons.prems by simp
  then show ?case
    unfolding for_each.simps by (rule keeps_steps) (use Cons in auto)
qed simp

section \<open>Judgements of one instant\<close>

text \<open>A judgement on the merits cites the position of the instant of its request.\<close>

definition timely :: "judge_decision \<Rightarrow> bool" where
  "timely d \<longleftrightarrow> de_outcome d = ErrorOutcome
     \<or> ''groundtruth#'' @ str_int (de_sim_timestamp_ns d) \<in> set (de_evidence_refs d)"

definition truth_from :: "int \<Rightarrow> vfs_judge \<Rightarrow> bool" where
  "truth_from t j \<longleftrightarrow> (\<exists>x. vj_truth j = Some x \<and> t \<le> gt_sim_timestamp_ns x)"

lemma verdict_refs:
  "wp (fm1_verdict L c refs x v) (\<lambda>d _. set refs \<subseteq> set (vd_refs d)) (\<lambda>_ _. True) s"
  "wp (fm2_verdict L now refs x v) (\<lambda>d _. set refs \<subseteq> set (vd_refs d)) (\<lambda>_ _. True) s"
  "wp (fm3_verdict L now refs x v) (\<lambda>d _. set refs \<subseteq> set (vd_refs d)) (\<lambda>_ _. True) s"
  by (simp_all add: fm1_verdict_def fm2_verdict_def fm3_verdict_def Let_def verdict_defs
      split: sum.splits option.splits)

lemma check_verdict_timely:
  assumes "truth_from (me_sim_timestamp_ns e) s"
  shows "wp (check_verdict L e c)
    (\<lambda>d _. vd_outcome d = ErrorOutcome \<or> ''groundtruth#'' @ str_int (me_sim_timestamp_ns e) \<in> set (vd_refs d))
    (\<lambda>_ _. True) s"
proof (cases "vehicle_evidence (me_sim_timestamp_ns e) s")
  case None
  then show ?thesis by (simp add: check_verdict_def Let_def verdict_defs)
next
  case (Some xv)
  obtain x v where xv: "xv = (x, v)" by (cases xv)
  have x: "vj_truth s = Some x" "gt_sim_timestamp_ns x = me_sim_timestamp_ns e"
    using vehicle_evidence_SomeD [OF Some [unfolded xv]] assms by (auto simp: fresh_def truth_from_def)
  have g: "''groundtruth#'' @ str_int (me_sim_timestamp_ns e) \<in> set (check_refs e s)"
    using x by (simp add: check_refs_def)
  have w: "wp m (\<lambda>d _. vd_outcome d = ErrorOutcome
      \<or> ''groundtruth#'' @ str_int (me_sim_timestamp_ns e) \<in> set (vd_refs d)) (\<lambda>_ _. True) s"
    if "wp m (\<lambda>d _. set (check_refs e s) \<subseteq> set (vd_refs d)) (\<lambda>_ _. True) s" for m
    using that by (rule wp_mono) (use g in auto)
  show ?thesis
    using Some xv w [OF verdict_refs(1)] w [OF verdict_refs(2)] w [OF verdict_refs(3)]
    by (simp add: check_verdict_def Let_def verdict_defs)
qed

lemma check_verdict_truth: "vj_truth s = t \<Longrightarrow> keeps (check_verdict L e c) (\<lambda>u. vj_truth u = t) s"
proof -
  assume t: "vj_truth s = t"
  have "keeps (fm1_verdict L c refs x v) (\<lambda>u. vj_truth u = t) s"
    "keeps (fm2_verdict L now refs x v) (\<lambda>u. vj_truth u = t) s"
    "keeps (fm3_verdict L now refs x v) (\<lambda>u. vj_truth u = t) s" for refs now x v
    using t by (simp_all add: fm1_verdict_def fm2_verdict_def fm3_verdict_def Let_def freeze_eligible_def
        split: sum.splits option.splits)
  then show ?thesis
    using t by (simp add: check_verdict_def Let_def split: option.splits prod.splits)
qed

text \<open>
  What the runtime needs of an answer to the request \<open>r\<close>: it is timely, bears the identity of the
  request and names configured payloads in order.
\<close>

definition sound_answer :: "vfs_scenario \<Rightarrow> string \<Rightarrow> judge_decision \<Rightarrow> bool" where
  "sound_answer sc r d \<longleftrightarrow> timely d \<and> de_request_id d = r
     \<and> (\<exists>P. de_eligible_aruco_ids d = filter P (sort (dict_keys (payload_targets sc))))"

definition sound_book :: "vfs_scenario \<Rightarrow> vfs_judge \<Rightarrow> bool" where
  "sound_book sc j \<longleftrightarrow> vj_scenario j = sc
     \<and> (\<forall>r p c d. map_of (vj_requests j) r = Some (p, c, d) \<longrightarrow> sound_answer sc r d)"

definition judge_sound :: "vfs_scenario \<Rightarrow> ground_truth_sample option \<Rightarrow> vfs_judge \<Rightarrow> bool" where
  "judge_sound sc t j \<longleftrightarrow> sound_book sc j \<and> vj_truth j = t"

lemma judge_sound_id [simp]: "judge_sound sc t (j\<lparr>vj_decision_id := i\<rparr>) = judge_sound sc t j"
  by (simp add: judge_sound_def sound_book_def)

definition is_request :: "(string \<Rightarrow> pyval option) \<Rightarrow> mission_event_sample \<Rightarrow> string \<Rightarrow> bool" where
  "is_request decode e r \<longleftrightarrow> me_state e = ''CHECK_REQUESTED''
     \<and> (\<exists>c. parse_request (decode (me_detail e)) = Some (c, r))"

text \<open>The answers of a call to an event: sound ones, and one of the request if it is one.\<close>

definition sound_answers :: "vfs_scenario \<Rightarrow> (string \<Rightarrow> pyval option) \<Rightarrow> mission_event_sample
    \<Rightarrow> judge_decision list \<Rightarrow> bool" where
  "sound_answers sc decode e ds \<longleftrightarrow>
     (\<forall>d\<in>set ds. \<exists>r. sound_answer sc r d)
     \<and> (\<forall>r. is_request decode e r \<longrightarrow> (\<exists>d\<in>set ds. de_request_id d = r))"

abbreviation answers_soundly :: "vfs_scenario \<Rightarrow> ground_truth_sample option \<Rightarrow> (string \<Rightarrow> pyval option)
    \<Rightarrow> mission_event_sample \<Rightarrow> (vfs_judge, judge_decision list) io \<Rightarrow> vfs_judge \<Rightarrow> bool" where
  "answers_soundly sc t decode e m \<equiv>
     wp m (\<lambda>ds u. judge_sound sc t u \<and> sound_answers sc decode e ds) (\<lambda>_. judge_sound sc t)"

lemma error_decision_sound:
  "judge_sound sc t s \<Longrightarrow>
   wp (error_decision e r c reason elapsed) (\<lambda>d u. judge_sound sc t u \<and> sound_answer sc r d) (\<lambda>_. judge_sound sc t) s"
  by (simp add: error_decision_def next_decision_def sound_answer_def timely_def decision_of_def evidence_error_def)

lemma check_request_sound:
  assumes s: "judge_sound sc t s"
    and decide: "\<And>c r. parse_request (decode (me_detail e)) = Some (c, r) \<Longrightarrow>
       wp (decide c r) (\<lambda>d u. judge_sound sc t u \<and> sound_answer sc r d) (\<lambda>_. judge_sound sc t) s"
  shows "answers_soundly sc t decode e (check_request decode e decide) s"
proof -
  have store: "judge_sound sc t (u\<lparr>vj_requests := AList.update r (p, c, d) (vj_requests u)\<rparr>)"
    if "judge_sound sc t u" "sound_answer sc r d" for u r p c d
    using that by (auto simp: judge_sound_def sound_book_def update_conv')
  have one: "sound_answers sc decode e [d]"
    if "sound_answer sc r d" "\<And>r'. is_request decode e r' \<Longrightarrow> r' = r" for d r
    using that by (auto simp: sound_answers_def sound_answer_def)
  have err: "answers_soundly sc t decode e (ibind (error_decision e r c reason elapsed) (\<lambda>d. ireturn [d])) s"
    if "\<And>r'. is_request decode e r' \<Longrightarrow> r' = r" for r c reason elapsed
    unfolding wp_ibind wp_ireturn by (rule wp_mono [OF error_decision_sound [OF s]]) (use one that in auto)
  have "answers_soundly sc t decode e (answer_request e c r (decide c r)) s"
    if p: "parse_request (decode (me_detail e)) = Some (c, r)" for c r
  proof -
    have r: "r' = r" if "is_request decode e r'" for r'
      using that p by (simp add: is_request_def)
    show ?thesis
    proof (cases "map_of (vj_requests s) r")
      case None
      then show ?thesis
        unfolding answer_request_def wp_ibind wp_iget
        by simp (rule wp_mono [OF decide [OF p]], auto intro: store one r)
    next
      case (Some pcd)
      obtain p' c' d where "pcd = (p', c', d)" by (cases pcd)
      moreover have "sound_answer sc r d"
        using s Some calculation by (simp add: judge_sound_def sound_book_def)
      then have "sound_answers sc decode e [d]"
        using r by (rule one)
      ultimately show ?thesis
        using s Some err [OF r] by (auto simp: answer_request_def)
    qed
  qed
  moreover have "is_request decode e r' \<Longrightarrow> r' = []" if "parse_request (decode (me_detail e)) = None" for r'
    using that by (simp add: is_request_def)
  ultimately show ?thesis
    using err by (auto simp: check_request_def split: option.splits)
qed

lemma mission_sound:
  assumes "judge_sound sc t s"
    and "me_state e \<noteq> ''CHECK_REQUESTED'' \<or> parse_request (decode (me_detail e)) = None
      \<or> truth_from (me_sim_timestamp_ns e) s"
  shows "answers_soundly sc t decode e (judge_accept_mission_event L decode e) s"
proof -
  have "wp (judge_decision_on L e r c) (\<lambda>d u. judge_sound sc t u \<and> sound_answer sc r d) (\<lambda>_. judge_sound sc t) s"
    if "truth_from (me_sim_timestamp_ns e) s" for c r
  proof -
    have "wp (check_verdict L e c) (\<lambda>d u. judge_sound sc t u \<and> (vd_outcome d = ErrorOutcome
        \<or> ''groundtruth#'' @ str_int (me_sim_timestamp_ns e) \<in> set (vd_refs d))
        \<and> (\<exists>P. vd_eligible d = filter P (sort (dict_keys (payload_targets sc))))) (\<lambda>_. judge_sound sc t) s"
      using wp_conj [OF check_verdict_timely [OF that, of L c]
          wp_conj [OF check_verdict_truth [where s = s and t = "vj_truth s" and L = L and e = e and c = c, OF refl]
            check_verdict_fits [of L e c s]]]
      by (rule wp_mono) (use assms(1) in \<open>auto simp: judge_sound_def sound_book_def verdict_fits_def
          judge_record_def ledger_def\<close>)
    then show ?thesis
      unfolding judge_decision_on_def next_decision_def wp_ibind
      by (rule wp_mono) (auto simp: timely_def sound_answer_def decision_of_def)
  qed
  then have "answers_soundly sc t decode e (check_request decode e (\<lambda>c r. judge_decision_on L e r c)) s"
    if "me_state e = ''CHECK_REQUESTED''"
    using that assms by (intro check_request_sound) auto
  then show ?thesis
    using assms(1) by (auto simp: judge_accept_mission_event_def judge_sound_def sound_book_def
        start_phase_def Let_def sound_answers_def is_request_def)
qed

lemma missing_sound:
  "judge_sound sc t s \<Longrightarrow> answers_soundly sc t decode e (reject_mission_event_missing_evidence decode e) s"
  using check_request_sound [of sc t s decode e] error_decision_sound [of sc t s]
  by (auto simp: reject_mission_event_missing_evidence_def sound_answers_def is_request_def)

section \<open>Samples of the judge\<close>

lemma noted_truth:
  assumes "vj_truth s = Some x"
  shows "keeps (ibind (check_approval_timeout t) (\<lambda>_. ibind (contact_change L previous x) (\<lambda>_.
      ibind (check_active_deadline t) (\<lambda>_.
      ibind (imodify (\<lambda>s. s\<lparr>vj_status_sequence := vj_status_sequence s + 1\<rparr>)) (\<lambda>_. iget attempt_status_of)))))
    (\<lambda>j. vj_truth j = Some x) s"
  using assms
  by (auto simp del: wp_ibind intro!: keeps_steps
      simp: check_approval_timeout_def contact_change_def touch_down_def check_active_deadline_def take_off_def Let_def
      split: option.splits sum.splits)

lemma ground_truth_noted:
  assumes "sound_book sc s"
  shows "wp (judge_accept_ground_truth L x)
    (\<lambda>_ j. sound_book sc j \<and> (\<forall>l. truth_from l s \<longrightarrow> truth_from l j) \<and> truth_from (gt_sim_timestamp_ns x) j)
    (\<lambda>_ j. sound_book sc j \<and> (\<forall>l. truth_from l s \<longrightarrow> truth_from l j)) s"
proof -
  have 1: "wp (judge_accept_ground_truth L x)
    (\<lambda>_ j. (\<forall>l. truth_from l s \<longrightarrow> truth_from l j) \<and> truth_from (gt_sim_timestamp_ns x) j)
    (\<lambda>_ j. \<forall>l. truth_from l s \<longrightarrow> truth_from l j) s"
  proof -
    have "wp (ibind (check_approval_timeout t) (\<lambda>_. ibind (contact_change L (vj_truth s) x) (\<lambda>_.
      ibind (check_active_deadline t) (\<lambda>_.
      ibind (imodify (\<lambda>s. s\<lparr>vj_status_sequence := vj_status_sequence s + 1\<rparr>)) (\<lambda>_. iget attempt_status_of)))))
      (\<lambda>_ j. (\<forall>l. truth_from l s \<longrightarrow> truth_from l j) \<and> truth_from (gt_sim_timestamp_ns x) j)
      (\<lambda>_ j. \<forall>l. truth_from l s \<longrightarrow> truth_from l j) (note_truth x s)"
      if "\<not> (case vj_truth s of Some p \<Rightarrow> gt_sim_timestamp_ns x \<le> gt_sim_timestamp_ns p | None \<Rightarrow> False)" for t
      using noted_truth [OF note_truth_simps(1)]
      by (rule wp_mono) (use that in \<open>auto simp: truth_from_def split: option.splits\<close>)
    then show ?thesis
      unfolding judge_accept_ground_truth_def
      by (subst wp_ibind, simp only: wp_same_run, subst wp_ibind, simp only: wp_iget wp_if wp_iraise)
        (simp only: wp_ibind [of "imodify (note_truth x)"] wp_imodify split: if_split, blast)
  qed
  have 2: "keeps (judge_accept_ground_truth L x) (sound_book sc) s"
    by (rule wp_mono [OF record_truth [OF refl]])
      (use assms in \<open>auto simp: sound_book_def judge_record_def ledger_def\<close>)
  show ?thesis
    by (rule wp_mono [OF wp_conj [OF 1 2]]) auto
qed

lemma payload_state_sound:
  "judge_sound sc t s \<Longrightarrow> keeps (judge_accept_payload_state L p) (judge_sound sc t) s"
  by (simp add: judge_accept_payload_state_def judge_sound_def sound_book_def note_payload_def Let_def)

lemma stop_clock_scenario [simp]: "vj_scenario (stop_clock t s) = vj_scenario s"
  by (simp add: stop_clock_def split: option.splits)

lemma vehicle_status_sound:
  "judge_sound sc t s \<Longrightarrow> keeps (judge_accept_vehicle_status L v) (judge_sound sc t) s"
  by (auto simp: judge_accept_vehicle_status_def judge_sound_def sound_book_def split: option.splits sum.splits)


end
