(* ===== verification/Vfs_Runtime_Inv.thy ===== *)
theory Vfs_Runtime_Inv
  imports Vfs_Runtime_Judge
begin

text \<open>
  The invariant of \<open>VfsScorekeeperRuntime\<close>. The locale \<open>scorer\_laws\<close> states what the runtime
  relies on in its scorer; under it the invariant holds after every operation, raising ones
  included: the answers of the judge are sound, the scorer keeps its own invariant, a result has the
  property that results have, and requests that were accepted are pending or answered.
\<close>

section \<open>Operations\<close>

datatype vfs_runtime_op =
    RtTruth ground_truth_sample
  | RtStatus vehicle_status_sample
  | RtPayload payload_sample
  | RtPayloadEvent payload_event_sample
  | RtMission mission_event_sample
  | RtFail pyval
  | RtSourceFinished int
  | RtBeginFinalization

text \<open>The outside of a runtime: what its requests and callbacks meet, and what its finalizer meets.\<close>

record vfs_world =
  vw_env :: vfs_env
  vw_encode :: "pyval \<Rightarrow> string result"
  vw_files :: score_env

fun vfs_runtime_call :: "vfs_world \<Rightarrow> vfs_runtime_op \<Rightarrow> (vfs_runtime, unit) io" where
  "vfs_runtime_call W (RtTruth x) = vfs_accept_ground_truth (vw_env W) x"
| "vfs_runtime_call W (RtStatus v) = vfs_accept_vehicle_status (vw_env W) v"
| "vfs_runtime_call W (RtPayload p) = vfs_accept_payload_state (vw_env W) p"
| "vfs_runtime_call W (RtPayloadEvent e) = vfs_accept_payload_event (vw_env W) e"
| "vfs_runtime_call W (RtMission e) = vfs_accept_mission_event (vw_env W) e"
| "vfs_runtime_call W (RtFail reason) = vfs_fail reason"
| "vfs_runtime_call W (RtSourceFinished t) =
     ibind (vfs_accept_source_finished (vw_env W) (vw_encode W) (vw_files W) t) (\<lambda>_. ireturn ())"
| "vfs_runtime_call W RtBeginFinalization = vfs_begin_finalization (vw_encode W) (vw_files W)"

abbreviation vfs_run :: "vfs_world \<Rightarrow> vfs_runtime_op list \<Rightarrow> vfs_runtime \<Rightarrow> unit result list \<times> vfs_runtime" where
  "vfs_run W \<equiv> run_ops (vfs_runtime_call W)"

section \<open>The invariant\<close>

definition scoring_fine :: "(vfs_scorer \<Rightarrow> bool) \<Rightarrow> (score_result \<Rightarrow> bool) \<Rightarrow> scoring \<Rightarrow> bool" where
  "scoring_fine fine award k \<longleftrightarrow>
     (case k of
        NoScorer \<Rightarrow> True
      | BareScorer k \<Rightarrow> fine k
      | FinalizedScorer f \<Rightarrow> fine (fi_scorer f) \<and> (\<forall>r. fi_result f = Some r \<longrightarrow> award r))"

definition replied :: "string \<Rightarrow> vfs_runtime \<Rightarrow> bool" where
  "replied r s \<longleftrightarrow> (\<exists>d. DecisionOut d \<in> set (vr_log s) \<and> de_request_id d = r)"

text \<open>
  The instant last taken is no later than the last position of the judge; the answers given and
  announced are sound; a buffered position is filed under its own instant; and the events of
  \<open>asked\<close> are pending or their requests answered.
\<close>

definition sound :: "(string \<Rightarrow> pyval option) \<Rightarrow> vfs_scenario \<Rightarrow> (vfs_scorer \<Rightarrow> bool) \<Rightarrow> (score_result \<Rightarrow> bool)
    \<Rightarrow> mission_event_sample set \<Rightarrow> vfs_runtime \<Rightarrow> bool" where
  "sound decode sc fine award asked s \<longleftrightarrow>
     sound_book sc (vr_judge s)
     \<and> (\<forall>l. vr_last_epoch_timestamp_ns s = Some l \<longrightarrow> truth_from l (vr_judge s))
     \<and> (\<forall>d. DecisionOut d \<in> set (vr_log s) \<longrightarrow> (\<exists>r. sound_answer sc r d))
     \<and> (\<forall>t x. map_of (vr_ground_truth_buffer s) t = Some x \<longrightarrow> gt_sim_timestamp_ns x = t)
     \<and> scoring_fine fine award (vr_scoring s)
     \<and> (\<forall>e\<in>asked. \<forall>r. is_request decode e r \<longrightarrow> e \<in> set (vr_pending_checks s) \<or> replied r s)"

lemma sound_simps [simp]:
  "sound dc sc fi aw as (s\<lparr>vr_ground_truth_timestamp_ns := c\<rparr>) = sound dc sc fi aw as s"
  "sound dc sc fi aw as (s\<lparr>vr_payload_timestamps_ns := d\<rparr>) = sound dc sc fi aw as s"
  "sound dc sc fi aw as (s\<lparr>vr_vehicle_status_timestamp_ns := e\<rparr>) = sound dc sc fi aw as s"
  "sound dc sc fi aw as (s\<lparr>vr_vehicle_status_buffer := f\<rparr>) = sound dc sc fi aw as s"
  "sound dc sc fi aw as (observe_timestamp t s) = sound dc sc fi aw as s"
  by (simp_all add: sound_def observe_timestamp_def replied_def)

lemma sound_log_attempt [simp]:
  "sound dc sc fi aw as (s\<lparr>vr_log := vr_log s @ [AttemptOut a]\<rparr>) = sound dc sc fi aw as s"
  by (simp add: sound_def replied_def)

lemma sound_log_decision:
  "sound dc sc fi aw as s \<Longrightarrow> sound_answer sc r d \<Longrightarrow> sound dc sc fi aw as (s\<lparr>vr_log := vr_log s @ [DecisionOut d]\<rparr>)"
  by (fastforce simp: sound_def replied_def)

lemma sound_pending_more:
  "sound dc sc fi aw as s \<Longrightarrow> sound dc sc fi aw (insert e as) (s\<lparr>vr_pending_checks := vr_pending_checks s @ [e]\<rparr>)"
  by (auto simp: sound_def replied_def)

lemma sound_asked:
  "sound dc sc fi aw as u \<Longrightarrow> (\<And>r. is_request dc e r \<Longrightarrow> replied r u) \<Longrightarrow> sound dc sc fi aw (insert e as) u"
  unfolding sound_def by blast

lemma sound_fewer: "sound dc sc fi aw (insert e as) u \<Longrightarrow> sound dc sc fi aw as u"
  unfolding sound_def by blast

lemma sound_judge:
  "sound dc sc fi aw as s \<Longrightarrow> judge_sound sc (vj_truth (vr_judge s)) j \<Longrightarrow> sound dc sc fi aw as (s\<lparr>vr_judge := j\<rparr>)"
  by (simp add: sound_def judge_sound_def truth_from_def replied_def)

lemma judge_sound_self: "sound dc sc fi aw as s \<Longrightarrow> judge_sound sc (vj_truth (vr_judge s)) (vr_judge s)"
  by (simp add: sound_def judge_sound_def)

lemma replied_simps [simp]:
  "replied r (s\<lparr>vr_judge := j\<rparr>) = replied r s" "replied r (s\<lparr>vr_scoring := k\<rparr>) = replied r s"
  "replied r (s\<lparr>vr_pending_checks := p\<rparr>) = replied r s"
  by (simp_all add: replied_def)

section \<open>The laws of a scorer\<close>

locale scorer_laws =
  fixes L :: libm and sc :: vfs_scenario and fine :: "vfs_scorer \<Rightarrow> bool" and award :: "score_result \<Rightarrow> bool"
  assumes fine_truth: "fine k \<Longrightarrow> fine (scorer_accept_ground_truth L x k)"
    and fine_status: "fine k \<Longrightarrow> fine (scorer_accept_vehicle_status v k)"
    and fine_payload: "fine k \<Longrightarrow> fine (scorer_accept_payload_state p k)"
    and fine_mission: "fine k \<Longrightarrow> fine (scorer_accept_mission_event e k)"
    and fine_payload_event: "fine k \<Longrightarrow> keeps (scorer_accept_payload_event L pe) fine k"
    and fine_decision: "fine k \<Longrightarrow> sound_answer sc r d \<Longrightarrow> keeps (scorer_accept_judge_decision L d) fine k"
    and fine_fail: "fine k \<Longrightarrow> fine (snd (scorer_fail reason k))"
    and fine_finalize: "fine k \<Longrightarrow> wp (vfs_finalize None) (\<lambda>r u. fine u \<and> award r) (\<lambda>_. fine) k"
begin

lemma scorer_keeps:
  assumes "sound dc sc fine award as s" and "\<And>k. fine k \<Longrightarrow> keeps m fine k"
  shows "keeps (on_scorer m) (\<lambda>u. sound dc sc fine award as u \<and> vr_judge u = vr_judge s
    \<and> vr_log u = vr_log s \<and> vr_pending_checks u = vr_pending_checks s) s"
proof -
  have k: "wp m (\<lambda>_. fine) (\<lambda>_. fine) k" if "fine k" for k
    by (rule assms(2) [OF that])
  show ?thesis
  proof (cases "vr_scoring s")
    case (BareScorer k)
    then have "fine k" using assms(1) by (simp add: sound_def scoring_fine_def)
    from k [OF this] show ?thesis
      unfolding wp_on_scorer BareScorer scoring.case
      by (rule wp_mono) (use assms(1) in \<open>simp_all add: sound_def scoring_fine_def\<close>)
  next
    case (FinalizedScorer f)
    then have "fine (fi_scorer f)" using assms(1) by (simp add: sound_def scoring_fine_def)
    from k [OF this] show ?thesis
      unfolding wp_on_scorer FinalizedScorer scoring.case
      by (rule wp_mono) (use assms(1) FinalizedScorer in \<open>simp_all add: sound_def scoring_fine_def\<close>)
  qed (use assms(1) in \<open>simp add: wp_on_scorer\<close>)
qed

lemma scorer_sound:
  "sound dc sc fine award as s \<Longrightarrow> (\<And>k. fine k \<Longrightarrow> keeps m fine k) \<Longrightarrow> keeps (on_scorer m) (sound dc sc fine award as) s"
  by (rule wp_mono [OF scorer_keeps]) auto

text \<open>Announcing the answers of a request.\<close>

lemma announce_sound:
  assumes "sound dc sc fine award as s" and "\<forall>d\<in>set ds. \<exists>r. sound_answer sc r d"
  shows "wp (for_each (\<lambda>d. ibind (on_scorer (scorer_accept_judge_decision L d)) (\<lambda>_. announce env (DecisionOut d))) ds)
    (\<lambda>_ u. sound dc sc fine award as u \<and> vr_pending_checks u = vr_pending_checks s
       \<and> (\<forall>r. replied r s \<or> (\<exists>d\<in>set ds. de_request_id d = r) \<longrightarrow> replied r u))
    (\<lambda>_. sound dc sc fine award as) s"
  using assms
proof (induction ds arbitrary: s)
  case Nil
  then show ?case unfolding for_each.simps wp_ireturn by simp
next
  case (Cons d ds)
  obtain r where r: "sound_answer sc r d" using Cons.prems(2) by auto
  have out: "wp (announce env (DecisionOut d))
      (\<lambda>_. wp (for_each (\<lambda>d. ibind (on_scorer (scorer_accept_judge_decision L d)) (\<lambda>_. announce env (DecisionOut d))) ds)
        (\<lambda>_ u. sound dc sc fine award as u \<and> vr_pending_checks u = vr_pending_checks s
          \<and> (\<forall>r. replied r s \<or> (\<exists>d\<in>set (d # ds). de_request_id d = r) \<longrightarrow> replied r u))
        (\<lambda>_. sound dc sc fine award as)) (\<lambda>_. sound dc sc fine award as) v"
    if v: "sound dc sc fine award as v" "vr_log v = vr_log s" "vr_pending_checks v = vr_pending_checks s" for v
  proof -
    let ?w = "v\<lparr>vr_log := vr_log v @ [DecisionOut d]\<rparr>"
    have w: "sound dc sc fine award as ?w" by (rule sound_log_decision [OF v(1) r])
    have "replied r' ?w" if "replied r' s \<or> de_request_id d = r'" for r'
      using that v(2) by (auto simp: replied_def)
    then have "wp (for_each (\<lambda>d. ibind (on_scorer (scorer_accept_judge_decision L d)) (\<lambda>_. announce env (DecisionOut d))) ds)
        (\<lambda>_ u. sound dc sc fine award as u \<and> vr_pending_checks u = vr_pending_checks s
          \<and> (\<forall>r. replied r s \<or> (\<exists>d\<in>set (d # ds). de_request_id d = r) \<longrightarrow> replied r u))
        (\<lambda>_. sound dc sc fine award as) ?w"
      by (intro wp_mono [OF Cons.IH [OF w]]) (use Cons.prems(2) v(3) in auto)
    then show ?thesis using w by (simp only: wp_announce split: option.split) simp
  qed
  have "keeps (on_scorer (scorer_accept_judge_decision L d)) (\<lambda>u. sound dc sc fine award as u \<and> vr_judge u = vr_judge s
      \<and> vr_log u = vr_log s \<and> vr_pending_checks u = vr_pending_checks s) s"
    by (rule scorer_keeps [OF Cons.prems(1)]) (rule fine_decision [OF _ r])
  then show ?case
    unfolding for_each.simps wp_ibind by (rule wp_mono) (use out in auto)
qed

text \<open>An event that is taken up, when its instant was reached or it is no request to be judged.\<close>

lemma event_sound:
  assumes L: "ve_libm E = L" and s: "sound (ve_decode E) sc fine award as s"
    and e: "missing \<or> me_state e \<noteq> ''CHECK_REQUESTED'' \<or> parse_request (ve_decode E (me_detail e)) = None
      \<or> epoch_reached (me_sim_timestamp_ns e) s"
  shows "wp (accept_mission_event_now E missing e)
    (\<lambda>_ u. sound (ve_decode E) sc fine award (insert e as) u \<and> vr_pending_checks u = vr_pending_checks s
       \<and> (\<forall>r. replied r s \<or> is_request (ve_decode E) e r \<longrightarrow> replied r u))
    (\<lambda>_. sound (ve_decode E) sc fine award as) s"
proof -
  let ?t = "vj_truth (vr_judge s)" and ?S = "sound (ve_decode E) sc fine award as"
  let ?Q = "\<lambda>u. sound (ve_decode E) sc fine award (insert e as) u \<and> vr_pending_checks u = vr_pending_checks s
       \<and> (\<forall>r. replied r s \<or> is_request (ve_decode E) e r \<longrightarrow> replied r u)"
  have from_epoch: "truth_from (me_sim_timestamp_ns e) (vr_judge s)" if "epoch_reached (me_sim_timestamp_ns e) s"
    using that s by (fastforce simp: epoch_reached_def sound_def truth_from_def split: option.splits)
  have "answers_soundly sc ?t (ve_decode E) e (if missing then reject_mission_event_missing_evidence (ve_decode E) e
      else judge_accept_mission_event (ve_libm E) (ve_decode E) e) (vr_judge s)"
    using missing_sound [OF judge_sound_self [OF s]] mission_sound [OF judge_sound_self [OF s]] e from_epoch by auto
  then have 1: "wp (on_judge (if missing then reject_mission_event_missing_evidence (ve_decode E) e
      else judge_accept_mission_event (ve_libm E) (ve_decode E) e))
      (\<lambda>ds u. ?S u \<and> vr_pending_checks u = vr_pending_checks s \<and> vr_log u = vr_log s
         \<and> sound_answers sc (ve_decode E) e ds) (\<lambda>_. ?S) s"
    unfolding wp_on_judge by (rule wp_mono) (use sound_judge [OF s] in auto)
  have 2: "wp (ibind (on_scorer (imodify (scorer_accept_mission_event e))) (\<lambda>_.
      for_each (\<lambda>d. ibind (on_scorer (scorer_accept_judge_decision (ve_libm E) d))
        (\<lambda>_. announce (ve_announce E) (DecisionOut d))) ds)) (\<lambda>_. ?Q) (\<lambda>_. ?S) u"
    if u: "?S u" "vr_pending_checks u = vr_pending_checks s" "vr_log u = vr_log s"
      and ds: "sound_answers sc (ve_decode E) e ds" for ds u
  proof -
    have "keeps (on_scorer (imodify (scorer_accept_mission_event e))) (\<lambda>v. ?S v \<and> vr_judge v = vr_judge u
        \<and> vr_log v = vr_log u \<and> vr_pending_checks v = vr_pending_checks u) u"
      by (rule scorer_keeps [OF u(1)]) (simp add: fine_mission)
    then show ?thesis
      unfolding wp_ibind
    proof (rule wp_mono)
      fix v assume v: "?S v \<and> vr_judge v = vr_judge u \<and> vr_log v = vr_log u \<and> vr_pending_checks v = vr_pending_checks u"
      have "\<forall>d\<in>set ds. \<exists>r. sound_answer sc r d" using ds by (simp add: sound_answers_def)
      from announce_sound [OF conjunct1 [OF v] this, of "ve_announce E"]
      show "wp (for_each (\<lambda>d. ibind (on_scorer (scorer_accept_judge_decision (ve_libm E) d))
        (\<lambda>_. announce (ve_announce E) (DecisionOut d))) ds) (\<lambda>_. ?Q) (\<lambda>_. ?S) v"
        unfolding L
      proof (rule wp_mono)
        fix w assume w: "?S w \<and> vr_pending_checks w = vr_pending_checks v
          \<and> (\<forall>r. replied r v \<or> (\<exists>d\<in>set ds. de_request_id d = r) \<longrightarrow> replied r w)"
        have "replied r v" if "replied r s" for r
          using that u(3) v by (simp add: replied_def)
        moreover have "\<exists>d\<in>set ds. de_request_id d = r" if "is_request (ve_decode E) e r" for r
          using that ds by (simp add: sound_answers_def)
        ultimately have "\<forall>r. replied r s \<or> is_request (ve_decode E) e r \<longrightarrow> replied r w"
          using w by blast
        then show "?Q w"
          using w v u(2) sound_asked by auto
      qed
    qed simp
  qed
  show ?thesis
    unfolding accept_mission_event_now_def
    by (subst wp_ibind, rule wp_mono [OF 1]) (use 2 in auto)
qed

text \<open>Resolving: a check that is not kept has been answered.\<close>

lemma resolve_sound:
  assumes L: "ve_libm E = L" and s: "sound (ve_decode E) sc fine award as s"
  shows "wp (resolve_checks E force es)
    (\<lambda>kept u. sound (ve_decode E) sc fine award as u \<and> vr_pending_checks u = vr_pending_checks s
       \<and> (\<forall>r. replied r s \<longrightarrow> replied r u) \<and> (force \<longrightarrow> kept = [])
       \<and> (\<forall>e\<in>set es. \<forall>r. is_request (ve_decode E) e r \<longrightarrow> e \<in> set kept \<or> replied r u))
    (\<lambda>_. sound (ve_decode E) sc fine award as) s"
  using s
proof (induction es arbitrary: s)
  case Nil
  then show ?case unfolding resolve_checks.simps wp_ireturn by simp
next
  case (Cons e es)
  let ?S = "sound (ve_decode E) sc fine award as"
  let ?Q = "\<lambda>kept u. ?S u \<and> vr_pending_checks u = vr_pending_checks s
       \<and> (\<forall>r. replied r s \<longrightarrow> replied r u) \<and> (force \<longrightarrow> kept = [])
       \<and> (\<forall>e\<in>set (e # es). \<forall>r. is_request (ve_decode E) e r \<longrightarrow> e \<in> set kept \<or> replied r u)"
  have now: "wp (ibind (accept_mission_event_now E b e) (\<lambda>_. resolve_checks E force es)) ?Q (\<lambda>_. ?S) s"
    if b: "b \<or> epoch_reached (me_sim_timestamp_ns e) s" for b
    unfolding wp_ibind
  proof (rule wp_mono [OF event_sound [OF L Cons.prems, of b e]])
    show "b \<or> me_state e \<noteq> ''CHECK_REQUESTED'' \<or> parse_request (ve_decode E (me_detail e)) = None
        \<or> epoch_reached (me_sim_timestamp_ns e) s"
      using b by auto
    fix u
    assume u: "sound (ve_decode E) sc fine award (insert e as) u \<and> vr_pending_checks u = vr_pending_checks s
       \<and> (\<forall>r. replied r s \<or> is_request (ve_decode E) e r \<longrightarrow> replied r u)"
    then have "?S u" using sound_fewer by blast
    from Cons.IH [OF this] show "wp (resolve_checks E force es) ?Q (\<lambda>_. ?S) u"
      by (rule wp_mono) (use u in auto)
  qed
  have later: "wp (ibind (resolve_checks E force es) (\<lambda>r. ireturn (e # r))) ?Q (\<lambda>_. ?S) s" if "\<not> force"
    unfolding wp_ibind wp_ireturn by (rule wp_mono [OF Cons.IH [OF Cons.prems]]) (use that in auto)
  show ?case
  proof (cases "epoch_reached (me_sim_timestamp_ns e) s")
    case True
    then show ?thesis
      unfolding resolve_checks.simps wp_ibind [of "iget id"] wp_iget id_apply if_P [OF True] by (intro now disjI2)
  next
    case False
    show ?thesis
      unfolding resolve_checks.simps wp_ibind [of "iget id"] wp_iget id_apply if_not_P [OF False]
      by (cases "force \<or> me_sim_timestamp_ns e + 500000000 < vr_latest_observed_timestamp_ns s")
        (simp only: if_True now simp_thms, simp only: if_False, rule later, blast)
  qed
qed

lemma resolve_pending_sound:
  assumes L: "ve_libm E = L" and s: "sound (ve_decode E) sc fine award as s"
  shows "wp (resolve_pending_checks E force)
    (\<lambda>_ u. sound (ve_decode E) sc fine award as u \<and> (force \<longrightarrow> vr_pending_checks u = []))
    (\<lambda>_. sound (ve_decode E) sc fine award as) s"
proof -
  have "sound (ve_decode E) sc fine award as (u\<lparr>vr_pending_checks := kept\<rparr>)"
    if "sound (ve_decode E) sc fine award as u" "vr_pending_checks u = vr_pending_checks s"
      "\<forall>e\<in>set (vr_pending_checks s). \<forall>r. is_request (ve_decode E) e r \<longrightarrow> e \<in> set kept \<or> replied r u" for u kept
    using that by (simp add: sound_def) blast
  then show ?thesis
    unfolding resolve_pending_checks_def wp_ibind [of "iget vr_pending_checks"] wp_iget
      wp_ibind [of "resolve_checks E force es" for es] wp_imodify
    by (intro wp_mono [OF resolve_sound [OF L s]]) auto
qed

lemma resolve_pending_keeps:
  "ve_libm E = L \<Longrightarrow> sound (ve_decode E) sc fine award as s \<Longrightarrow>
   keeps (resolve_pending_checks E force) (sound (ve_decode E) sc fine award as) s"
  by (rule wp_mono [OF resolve_pending_sound]) auto

text \<open>Taking an instant: once its position is the last of the judge, the rest of the round keeps that.\<close>

lemma sound_buffer_delete:
  "sound dc sc fine award as s \<Longrightarrow>
   sound dc sc fine award as (s\<lparr>vr_ground_truth_buffer := AList.delete t (vr_ground_truth_buffer s), vr_payload_buffer := b\<rparr>)"
  by (simp add: sound_def delete_conv' replied_def)

lemma judge_truth_sound:
  assumes "sound dc sc fine award as s" and "gt_sim_timestamp_ns x = t"
  shows "wp (on_judge (judge_accept_ground_truth L x))
    (\<lambda>_ u. sound dc sc fine award as u \<and> truth_from t (vr_judge u)) (\<lambda>_. sound dc sc fine award as) s"
proof -
  have "sound_book sc (vr_judge s)" using assms by (simp add: sound_def)
  then show ?thesis
    unfolding wp_on_judge
    by (rule wp_mono [OF ground_truth_noted]) (use assms in \<open>auto simp: sound_def replied_def\<close>)
qed

lemma judge_sound_keeps:
  assumes "sound dc sc fine award as s \<and> truth_from t (vr_judge s)"
    and "keeps m (judge_sound sc (vj_truth (vr_judge s))) (vr_judge s)"
  shows "keeps (on_judge m) (\<lambda>u. sound dc sc fine award as u \<and> truth_from t (vr_judge u)) s"
  unfolding wp_on_judge
  by (rule wp_mono [OF assms(2)])
    (use assms(1) sound_judge [of dc sc fine award as s] in \<open>auto simp: judge_sound_def truth_from_def\<close>)

lemma scorer_sound_at:
  assumes "sound dc sc fine award as s \<and> truth_from t (vr_judge s)" and "\<And>k. fine k \<Longrightarrow> keeps m fine k"
  shows "keeps (on_scorer m) (\<lambda>u. sound dc sc fine award as u \<and> truth_from t (vr_judge u)) s"
  by (rule wp_mono [OF scorer_keeps [OF conjunct1 [OF assms(1)] assms(2)]]) (use assms(1) in auto)

lemma take_payload_sound:
  assumes s: "sound dc sc fine award as s \<and> truth_from t (vr_judge s)" and L: "ve_libm E = L"
  shows "keeps (take_payload E t' mp) (\<lambda>u. sound dc sc fine award as u \<and> truth_from t (vr_judge u)) s"
proof (cases mp)
  case (Pair m p)
  note j = payload_state_sound [OF judge_sound_self [OF conjunct1 [OF s]], of L p]
  show ?thesis
    unfolding Pair take_payload_def prod.case L
    by (rule keeps_steps [OF judge_sound_keeps [OF s j]], rule keeps_steps, simp, rule scorer_sound_at, assumption)
      (simp add: fine_payload)
qed

lemma take_status_sound:
  assumes s: "sound dc sc fine award as s \<and> truth_from t (vr_judge s)" and L: "ve_libm E = L"
  shows "keeps (take_status E t') (\<lambda>u. sound dc sc fine award as u \<and> truth_from t (vr_judge u)) s"
proof (cases "map_of (vr_vehicle_status_buffer s) t'")
  case None
  then show ?thesis using s by (simp add: take_status_def)
next
  case (Some v)
  let ?u = "s\<lparr>vr_vehicle_status_buffer := AList.delete t' (vr_vehicle_status_buffer s)\<rparr>"
  have u: "sound dc sc fine award as ?u \<and> truth_from t (vr_judge ?u)" using s by simp
  note j = vehicle_status_sound [OF judge_sound_self [OF conjunct1 [OF u]], of L v]
  have "keeps (ibind (on_judge (judge_accept_vehicle_status L v)) (\<lambda>_.
      ibind (imodify (\<lambda>s. s\<lparr>vr_vehicle_status_timestamp_ns := Some t'\<rparr>)) (\<lambda>_.
        on_scorer (imodify (scorer_accept_vehicle_status v)))))
      (\<lambda>u. sound dc sc fine award as u \<and> truth_from t (vr_judge u)) ?u"
    by (rule keeps_steps [OF judge_sound_keeps [OF u j]], rule keeps_steps, simp, rule scorer_sound_at, assumption)
      (simp add: fine_status)
  then show ?thesis
    unfolding take_status_def L
    by (subst wp_ibind, subst wp_iget) (simp only: Some option.case wp_ibind [of "imodify f" for f] wp_imodify)
qed

lemma epoch_rest_sound:
  assumes s: "sound (ve_decode E) sc fine award as s \<and> truth_from t (vr_judge s)" and L: "ve_libm E = L"
  shows "keeps (ibind (imodify (\<lambda>s. s\<lparr>vr_ground_truth_timestamp_ns := Some t\<rparr>)) (\<lambda>_.
      ibind (on_scorer (imodify (scorer_accept_ground_truth (ve_libm E) truth))) (\<lambda>_.
      ibind (for_each (take_payload E t) ps) (\<lambda>_.
      ibind (take_status E t) (\<lambda>_.
      ibind (imodify (\<lambda>s. s\<lparr>vr_last_epoch_timestamp_ns := Some t\<rparr>)) (\<lambda>_.
      ibind (iget (\<lambda>s. attempt_status_of (vr_judge s))) (\<lambda>status.
      ibind (announce (ve_announce E) (AttemptOut status)) (\<lambda>_.
        resolve_pending_checks E False)))))))) (sound (ve_decode E) sc fine award as) s"
proof -
  let ?S = "sound (ve_decode E) sc fine award as"
  let ?A = "\<lambda>u. ?S u \<and> truth_from t (vr_judge u)"
  have announced: "keeps (announce (ve_announce E) (AttemptOut status)) ?S u" if "?S u" for u status
    using that by (simp split: option.splits)
  have last: "keeps (ibind (iget (\<lambda>s. attempt_status_of (vr_judge s))) (\<lambda>status.
      ibind (announce (ve_announce E) (AttemptOut status)) (\<lambda>_. resolve_pending_checks E False))) ?S u"
    if "?S u" for u
    by (rule keeps_steps, simp add: that, rule keeps_steps, erule announced, erule resolve_pending_keeps [OF L])
  have at: "?S (u\<lparr>vr_last_epoch_timestamp_ns := Some t\<rparr>)" if "?A u" for u
    using that by (simp add: sound_def replied_def)
  have status: "keeps (ibind (take_status E t) (\<lambda>_.
      ibind (imodify (\<lambda>s. s\<lparr>vr_last_epoch_timestamp_ns := Some t\<rparr>)) (\<lambda>_.
      ibind (iget (\<lambda>s. attempt_status_of (vr_judge s))) (\<lambda>status.
      ibind (announce (ve_announce E) (AttemptOut status)) (\<lambda>_. resolve_pending_checks E False))))) ?S u"
    if "?A u" for u
    unfolding wp_ibind [of "take_status E t"]
    by (rule wp_mono [OF take_status_sound [OF that L]])
      (simp only: wp_ibind [of "imodify f" for f] wp_imodify, rule last, erule at, erule conjunct1)
  have pays: "keeps (ibind (for_each (take_payload E t) ps) (\<lambda>_. ibind (take_status E t) (\<lambda>_.
      ibind (imodify (\<lambda>s. s\<lparr>vr_last_epoch_timestamp_ns := Some t\<rparr>)) (\<lambda>_.
      ibind (iget (\<lambda>s. attempt_status_of (vr_judge s))) (\<lambda>status.
      ibind (announce (ve_announce E) (AttemptOut status)) (\<lambda>_. resolve_pending_checks E False)))))) ?S u"
    if "?A u" for u
    unfolding wp_ibind [of "for_each (take_payload E t) ps"]
    by (rule wp_mono [OF keeps_for_each [where P = ?A, OF that take_payload_sound [OF _ L]]])
      (assumption, erule status, erule conjunct1)
  have "?A (s\<lparr>vr_ground_truth_timestamp_ns := Some t\<rparr>)"
    using s by simp
  from scorer_sound_at [OF this, of "imodify (scorer_accept_ground_truth L truth)"] show ?thesis
    unfolding wp_ibind [of "imodify f" for f] wp_imodify wp_ibind [of "on_scorer m" for m] L
    by (rule wp_mono) (simp add: fine_truth, erule pays, erule conjunct1)
qed

lemma take_epoch_sound:
  assumes s: "sound (ve_decode E) sc fine award as s" and L: "ve_libm E = L"
  shows "keeps (take_epoch E t) (sound (ve_decode E) sc fine award as) s"
proof (cases "map_of (vr_ground_truth_buffer s) t")
  case None
  then show ?thesis using s by (simp add: take_epoch_def)
next
  case (Some x)
  have x: "gt_sim_timestamp_ns x = t" using s Some by (simp add: sound_def)
  show ?thesis
    unfolding take_epoch_def
    by (subst wp_ibind, subst wp_iget)
      (simp only: id_apply Some option.case wp_ibind [of "imodify f" for f] wp_imodify
        wp_ibind [of "on_judge m" for m],
        subst L, rule wp_mono [OF judge_truth_sound [OF sound_buffer_delete [OF s] x]],
        use epoch_rest_sound [OF _ L, unfolded wp_ibind [of "imodify f" for f] wp_imodify] in blast, assumption)
qed

lemma drain_sound:
  assumes "ve_libm E = L"
  shows "sound (ve_decode E) sc fine award as s \<Longrightarrow> keeps (drain E n) (sound (ve_decode E) sc fine award as) s"
proof (induction n arbitrary: s)
  case 0
  then show ?case unfolding drain.simps wp_ireturn .
next
  case (Suc n)
  have "keeps (ibind (take_epoch E t) (\<lambda>_. drain E n)) (sound (ve_decode E) sc fine award as) s" for t
    by (rule keeps_steps [OF take_epoch_sound [OF Suc.prems assms] Suc.IH])
  then show ?case
    unfolding drain.simps by (subst wp_ibind, subst wp_iget) (use Suc.prems in \<open>auto split: option.splits\<close>)
qed

lemma drain_epochs_sound:
  assumes "ve_libm E = L" and "sound (ve_decode E) sc fine award as s"
  shows "keeps (drain_physical_epochs E) (sound (ve_decode E) sc fine award as) s"
  unfolding drain_physical_epochs_def
  by (rule keeps_steps, simp add: assms(2), rule keeps_steps, erule drain_sound [OF assms(1)], rule keeps_steps,
      erule resolve_pending_keeps [OF assms(1)]) auto

text \<open>The finalizer keeps the scorer fine, and its result, when it has one, is an award.\<close>

definition finalizer_fine :: "vfs_scorer finalizer \<Rightarrow> bool" where
  "finalizer_fine f \<longleftrightarrow> fine (fi_scorer f) \<and> (\<forall>r. fi_result f = Some r \<longrightarrow> award r)"

lemma act_fine: "finalizer_fine f \<Longrightarrow> keeps (act env a) finalizer_fine f"
  by (simp add: wp_act finalizer_fine_def split: option.splits)

lemma persist_fine: "finalizer_fine f \<Longrightarrow> keeps (persist_score_outputs encode env r) finalizer_fine f"
  by (rule wp_mono [OF persist_spec]) (auto simp: finalizer_fine_def later_sel)

lemma publish_fine: "finalizer_fine f \<Longrightarrow> keeps (publish_events env es) finalizer_fine f"
proof (induction es arbitrary: f)
  case Nil
  then show ?case unfolding publish_events.simps wp_ireturn .
next
  case (Cons e es)
  show ?case
    unfolding publish_events.simps by (rule keeps_steps [OF act_fine [OF Cons.prems] Cons.IH])
qed

lemma report_fine: "finalizer_fine f \<Longrightarrow> keeps (report so env r) finalizer_fine f"
  by (auto simp: report_def write_status_def wp_pure_call wp_act finalizer_fine_def split: option.splits sum.splits)

lemma fail_call_fine: "finalizer_fine f \<Longrightarrow> keeps (scorer_call (so_fail vfs_ops reason)) finalizer_fine f"
  using fine_fail [of "fi_scorer f" reason]
  by (cases "scorer_fail reason (fi_scorer f)"; cases "fst (scorer_fail reason (fi_scorer f))")
    (auto simp: scorer_call_def wp_def vfs_ops_def finalizer_fine_def)

lemma finalize_call_fine:
  "finalizer_fine f \<Longrightarrow> wp (scorer_call (so_finalize vfs_ops)) (\<lambda>r u. finalizer_fine u \<and> award r) (\<lambda>_. finalizer_fine) f"
  using fine_finalize [of "fi_scorer f"]
  by (cases "vfs_finalize None (fi_scorer f)"; cases "fst (vfs_finalize None (fi_scorer f))")
    (auto simp: scorer_call_def wp_def vfs_ops_def finalizer_fine_def)

lemma finalize_fine:
  assumes "finalizer_fine f"
  shows "keeps (finalizer_finalize vfs_ops encode env t) finalizer_fine f"
proof (cases "fi_result f")
  case (Some r)
  then show ?thesis using assms by (simp add: finalizer_finalize_def)
next
  case None
  have mismatch: "keeps (if b then scorer_call (so_fail vfs_ops reason) else ireturn ()) finalizer_fine f" for b reason
    using fail_call_fine [OF assms] assms by simp
  have after: "keeps (ibind (persist_score_outputs encode env r) (\<lambda>_.
      ibind (publish_events env (sr_events r)) (\<lambda>_. ibind (act env Flush) (\<lambda>_. ibind (report vfs_ops env r) (\<lambda>_.
      ibind (imodify (\<lambda>s. s\<lparr>fi_result := Some r\<rparr>)) (\<lambda>_. ireturn r)))))) finalizer_fine u"
    if "finalizer_fine u \<and> award r" for u r
    by (rule keeps_steps [OF persist_fine [OF conjunct1 [OF that]]], rule keeps_steps, erule publish_fine,
        rule keeps_steps, erule act_fine, rule keeps_steps, erule report_fine)
      (use that in \<open>simp add: finalizer_fine_def\<close>)
  have "keeps (ibind (scorer_call (so_finalize vfs_ops)) (\<lambda>r. ibind (persist_score_outputs encode env r) (\<lambda>_.
      ibind (publish_events env (sr_events r)) (\<lambda>_. ibind (act env Flush) (\<lambda>_. ibind (report vfs_ops env r) (\<lambda>_.
      ibind (imodify (\<lambda>s. s\<lparr>fi_result := Some r\<rparr>)) (\<lambda>_. ireturn r))))))) finalizer_fine u"
    if "finalizer_fine u" for u
    unfolding wp_ibind [of "scorer_call c" for c]
    by (rule wp_mono [OF finalize_call_fine [OF that]]) (rule after)
  then show ?thesis
    unfolding finalizer_finalize_def wp_ibind [of "iget g" for g] wp_iget None option.case
    by (intro keeps_steps [OF mismatch])
qed

lemma quiesce_fine:
  assumes "finalizer_fine f"
  shows "keeps (finalizer_quiesce vfs_ops encode env) finalizer_fine f"
proof -
  have "keeps (ibind (finalizer_finalize vfs_ops encode env None) (\<lambda>_.
      ibind (imodify (\<lambda>s. s\<lparr>fi_quiescent := True\<rparr>)) (\<lambda>_. act env (WriteQuiescence ''scorekeeper'')))) finalizer_fine f"
    by (rule keeps_steps [OF finalize_fine [OF assms]], rule keeps_steps, simp add: finalizer_fine_def, erule act_fine)
  then show ?thesis
    using assms unfolding finalizer_quiesce_def wp_ibind [of "iget g" for g] wp_iget by simp
qed

lemma fail_fine: "finalizer_fine f \<Longrightarrow> keeps (finalizer_fail vfs_ops reason) finalizer_fine f"
  using fail_call_fine [of f reason] by (simp add: finalizer_fail_def)

lemma on_finalizer_sound:
  assumes "sound dc sc fine award as s" and "\<And>f. finalizer_fine f \<Longrightarrow> keeps m finalizer_fine f"
  shows "keeps (on_vfs_finalizer m) (\<lambda>u. sound dc sc fine award as u \<and> vr_log u = vr_log s
    \<and> vr_pending_checks u = vr_pending_checks s) s"
proof (cases "vr_scoring s")
  case (FinalizedScorer f)
  have "finalizer_fine f"
    using assms(1) FinalizedScorer by (simp add: sound_def scoring_fine_def finalizer_fine_def)
  from assms(2) [OF this] show ?thesis
    using assms(1) FinalizedScorer
    by (auto simp: wp_def on_vfs_finalizer_def sound_def scoring_fine_def finalizer_fine_def
        split: prod.splits sum.splits)
qed (use assms(1) in \<open>simp_all add: wp_def on_vfs_finalizer_def\<close>)

lemma configured_sound: "sound dc sc fine award as s \<Longrightarrow> keeps finalization_configured (sound dc sc fine award as) s"
  by (simp add: wp_def finalization_configured_def split: scoring.splits)

text \<open>After a finalization that returns no check is pending.\<close>

lemma source_finished_sound:
  assumes s: "sound (ve_decode E) sc fine award as s" and L: "ve_libm E = L"
  shows "wp (vfs_accept_source_finished E encode env t)
    (\<lambda>_ u. sound (ve_decode E) sc fine award as u \<and> vr_pending_checks u = []) (\<lambda>_. sound (ve_decode E) sc fine award as) s"
proof -
  have "wp (ibind (resolve_pending_checks E True) (\<lambda>_. on_vfs_finalizer (finalizer_finalize vfs_ops encode env (Some t))))
    (\<lambda>_ u. sound (ve_decode E) sc fine award as u \<and> vr_pending_checks u = [])
    (\<lambda>_. sound (ve_decode E) sc fine award as) u" if "sound (ve_decode E) sc fine award as u" for u
    unfolding wp_ibind
    by (rule wp_mono [OF resolve_pending_sound [OF L that]],
        rule wp_mono [OF on_finalizer_sound [OF _ finalize_fine]]) auto
  then show ?thesis
    unfolding vfs_accept_source_finished_def wp_ibind [of finalization_configured]
    by (intro wp_mono [OF configured_sound [OF s]])
qed

section \<open>Every operation\<close>

lemma received_sound:
  assumes "ve_libm E = L" and "sound (ve_decode E) sc fine award as s"
    and "\<And>u. sound (ve_decode E) sc fine award as u \<Longrightarrow> sound (ve_decode E) sc fine award as (f u)"
  shows "keeps (if b then iraise z else ibind (imodify f) (\<lambda>_. drain_physical_epochs E))
    (sound (ve_decode E) sc fine award as) s"
proof -
  have "keeps (ibind (imodify f) (\<lambda>_. drain_physical_epochs E)) (sound (ve_decode E) sc fine award as) s"
    by (rule keeps_steps, simp add: assms, erule drain_epochs_sound [OF assms(1)])
  then show ?thesis using assms(2) by (simp only: wp_if wp_iraise split: if_split) blast
qed

lemma samples_sound:
  assumes L: "ve_libm E = L" and s: "sound (ve_decode E) sc fine award as s"
  shows "keeps (vfs_accept_ground_truth E x) (sound (ve_decode E) sc fine award as) s"
    and "keeps (vfs_accept_vehicle_status E v) (sound (ve_decode E) sc fine award as) s"
    and "keeps (vfs_accept_payload_state E p) (sound (ve_decode E) sc fine award as) s"
  unfolding vfs_accept_ground_truth_def vfs_accept_vehicle_status_def vfs_accept_payload_state_def
    Let_def wp_ibind [of "iget h" for h] wp_iget
  by (rule received_sound [OF L s]; simp add: sound_def observe_timestamp_def update_conv' replied_def)+

lemma mission_event_sound:
  assumes L: "ve_libm E = L" and s: "sound (ve_decode E) sc fine award as s"
  shows "wp (vfs_accept_mission_event E e) (\<lambda>_. sound (ve_decode E) sc fine award (insert e as))
    (\<lambda>_. sound (ve_decode E) sc fine award as) s"
proof -
  let ?S = "sound (ve_decode E) sc fine award"
  have now: "wp (accept_mission_event_now E False e) (\<lambda>_. ?S (insert e as)) (\<lambda>_. ?S as) s"
    if "me_state e \<noteq> ''CHECK_REQUESTED'' \<or> parse_request (ve_decode E (me_detail e)) = None
      \<or> epoch_reached (me_sim_timestamp_ns e) s"
    using event_sound [OF L s, of False e] that by (auto elim: wp_mono)
  have pend: "wp (ibind (imodify (\<lambda>s. s\<lparr>vr_pending_checks := vr_pending_checks s @ [e]\<rparr>)) (\<lambda>_.
      resolve_pending_checks E False)) (\<lambda>_. ?S (insert e as)) (\<lambda>_. ?S as) s"
    unfolding wp_ibind wp_imodify
    by (rule wp_mono [OF resolve_pending_sound [OF L sound_pending_more [OF s]]])
      (use sound_fewer in blast)+
  have known: "?S (insert e as) s" if "e \<in> set (vr_pending_checks s)"
    using s that by (simp add: sound_def)
  show ?thesis
    unfolding vfs_accept_mission_event_def
    using now pend known
    by (simp only: wp_if wp_ibind [of "iget id"] wp_iget id_apply wp_ireturn split: if_split) blast
qed

lemma call_sound:
  assumes L: "ve_libm (vw_env W) = L" and s: "sound (ve_decode (vw_env W)) sc fine award as s"
  shows "keeps (vfs_runtime_call W op) (sound (ve_decode (vw_env W)) sc fine award as) s"
proof (cases op)
  case (RtPayloadEvent e)
  have "keeps (on_judge (judge_accept_payload_event e)) (sound (ve_decode (vw_env W)) sc fine award as) s"
    using s by (simp add: judge_accept_payload_event_def)
  then show ?thesis
    unfolding RtPayloadEvent vfs_runtime_call.simps vfs_accept_payload_event_def L
    by (rule keeps_steps) (erule scorer_sound, erule fine_payload_event)
next
  case (RtMission e)
  show ?thesis
    unfolding RtMission vfs_runtime_call.simps
    by (rule wp_mono [OF mission_event_sound [OF L s]]) (blast dest: sound_fewer)+
next
  case (RtSourceFinished t)
  show ?thesis
    unfolding RtSourceFinished vfs_runtime_call.simps wp_ibind wp_ireturn
    by (rule wp_mono [OF source_finished_sound [OF s L]]) auto
next
  case RtBeginFinalization
  show ?thesis
    unfolding RtBeginFinalization vfs_runtime_call.simps vfs_begin_finalization_def
    by (rule keeps_steps [OF configured_sound [OF s]], rule wp_mono [OF on_finalizer_sound [OF _ quiesce_fine]]) auto
next
  case (RtFail reason)
  have "keeps (on_scorer (scorer_fail reason)) (sound (ve_decode (vw_env W)) sc fine award as) s"
    by (rule scorer_sound [OF s], drule fine_fail [of _ reason]) (auto simp: wp_def split: prod.splits sum.splits)
  moreover have "keeps (on_vfs_finalizer (finalizer_fail vfs_ops reason)) (sound (ve_decode (vw_env W)) sc fine award as) s"
    by (rule wp_mono [OF on_finalizer_sound [OF s fail_fine]]) auto
  ultimately show ?thesis
    unfolding RtFail vfs_runtime_call.simps by (simp add: vfs_fail_def wp_def split: scoring.splits)
qed (simp_all only: vfs_runtime_call.simps samples_sound [OF L s])

lemma run_sound:
  assumes "ve_libm (vw_env W) = L"
  shows "sound (ve_decode (vw_env W)) sc fine award as s \<Longrightarrow>
    sound (ve_decode (vw_env W)) sc fine award as (snd (vfs_run W ops s))"
proof (induction ops arbitrary: s)
  case (Cons op ops)
  have "sound (ve_decode (vw_env W)) sc fine award as (snd (vfs_runtime_call W op s))"
    using call_sound [OF assms Cons.prems, of op] by (auto simp: wp_def split: prod.splits sum.splits)
  then show ?case using Cons.IH by simp
qed simp

end

end
