(* ===== verification/Vfs_Scorer_Props.thy ===== *)
theory Vfs_Scorer_Props
  imports Vfs_Score_Bounds
begin

text \<open>
  The operations of \<open>VfsScorer\<close> over a run: the score stays within the official bounds, what a
  mistake costs stays lost, and the events of a result are its rows and penalties in order.
\<close>

section \<open>Operations\<close>

datatype vfs_scorer_op =
    STruth ground_truth_sample
  | SStatus vehicle_status_sample
  | SPayload payload_sample
  | SPayloadEvent payload_event_sample
  | SMission mission_event_sample
  | SDecision judge_decision
  | SFail pyval
  | SFinalize "int option"

fun vfs_scorer_call :: "libm \<Rightarrow> vfs_scorer_op \<Rightarrow> (vfs_scorer, score_result list) io" where
  "vfs_scorer_call L (STruth x) = ibind (imodify (scorer_accept_ground_truth L x)) (\<lambda>_. ireturn [])"
| "vfs_scorer_call L (SStatus v) = ibind (imodify (scorer_accept_vehicle_status v)) (\<lambda>_. ireturn [])"
| "vfs_scorer_call L (SPayload p) = ibind (imodify (scorer_accept_payload_state p)) (\<lambda>_. ireturn [])"
| "vfs_scorer_call L (SPayloadEvent e) = ibind (scorer_accept_payload_event L e) (\<lambda>_. ireturn [])"
| "vfs_scorer_call L (SMission e) = ibind (imodify (scorer_accept_mission_event e)) (\<lambda>_. ireturn [])"
| "vfs_scorer_call L (SDecision d) = ibind (scorer_accept_judge_decision L d) (\<lambda>_. ireturn [])"
| "vfs_scorer_call L (SFail r) = ibind (scorer_fail r) (\<lambda>_. ireturn [])"
| "vfs_scorer_call L (SFinalize t) = ibind (vfs_finalize t) (\<lambda>r. ireturn [r])"

abbreviation vfs_score_run :: "libm \<Rightarrow> vfs_scorer_op list \<Rightarrow> vfs_scorer \<Rightarrow> score_result list result list \<times> vfs_scorer" where
  "vfs_score_run L \<equiv> run_ops (vfs_scorer_call L)"

section \<open>Bounds\<close>

lemma fle_fadd_deduction: "fle (Fin 0) d \<Longrightarrow> fle (Fin 0) (fadd d (Fin 25))"
  by (cases d) (auto simp: fadd_def intro: round64_pos)

lemma score_ok_simps [simp]:
  "score_ok (set_ref n r s) = score_ok s"
  "score_ok (observe t s) = score_ok s"
  "score_ok (s\<lparr>vk_truth := a\<rparr>) = score_ok s"
  "score_ok (s\<lparr>vk_last_vehicle_status := b\<rparr>) = score_ok s"
  "score_ok (s\<lparr>vk_autonomous := c\<rparr>) = score_ok s"
  "score_ok (s\<lparr>vk_phase := p\<rparr>) = score_ok s"
  "score_ok (s\<lparr>vk_diagnostic := d\<rparr>) = score_ok s"
  "score_ok (s\<lparr>vk_active_ns := e, vk_home_before_deadline := h\<rparr>) = score_ok s"
  by (simp_all add: score_ok_def set_ref_def observe_def)

lemma score_ok_penalty [simp]: "score_ok s \<Longrightarrow> score_ok (add_penalty reason r s)"
  by (simp add: score_ok_def add_penalty_def set_ref_def official_def fle_fadd_deduction)

lemma score_ok_invalidate [simp]:
  "score_ok s \<Longrightarrow> score_ok (invalidate_bp reason r s)"
  "score_ok s \<Longrightarrow> score_ok (invalidate_cp reason r s)"
  by (simp_all add: score_ok_def invalidate_bp_def invalidate_cp_def set_ref_def)

lemma score_ok_touch_down: "score_ok s \<Longrightarrow> score_ok (judge_touch_down L x s)"
  by (simp add: judge_touch_down_def Let_def split: option.splits)

lemma score_ok_samples:
  assumes "score_ok s"
  shows "score_ok (scorer_accept_ground_truth L x s)" and "score_ok (scorer_accept_vehicle_status v s)"
    and "score_ok (scorer_accept_mission_event e s)" and "score_ok (scorer_accept_payload_state p s)"
proof -
  show "score_ok (scorer_accept_ground_truth L x s)"
    using assms score_ok_touch_down
    by (simp add: scorer_accept_ground_truth_def Let_def split: option.splits)
  show "score_ok (scorer_accept_vehicle_status v s)"
    using assms by (simp add: scorer_accept_vehicle_status_def Let_def)
  show "score_ok (scorer_accept_mission_event e s)"
    using assms by (simp add: scorer_accept_mission_event_def Let_def)
  show "score_ok (scorer_accept_payload_state p s)"
    using assms by (simp add: scorer_accept_payload_state_def score_ok_def observe_def)
qed

lemma score_ok_payload_event: "score_ok s \<Longrightarrow> wp (scorer_accept_payload_event L e) (\<lambda>_. score_ok) (\<lambda>_. score_ok) s"
  by (simp add: scorer_accept_payload_event_def judge_release_def split: option.splits sum.splits)

lemma score_ok_fm1: "score_ok s \<Longrightarrow> score_ok (record_fm1 a c r s)"
  by (simp add: score_ok_def record_fm1_def set_ref_def official_def)

lemma score_ok_fm2:
  assumes "score_ok s" and "distinct ids" and "set ids \<subseteq> set VFS_PAYLOAD_IDS"
  shows "wp (record_fm2 ids a r) (\<lambda>_. score_ok) (\<lambda>_. score_ok) s"
  using assms bp_bounds [OF assms]
  by (auto simp: record_fm2_def score_ok_def set_ref_def official_def split: sum.splits)

lemma score_ok_fm3:
  assumes "score_ok s" and "between 90 (fmul (Fin (of_nat (length ids))) (Fin 30))"
  shows "score_ok (record_fm3 ids a r s)"
  using assms by (auto simp: record_fm3_def score_ok_def set_ref_def official_def split: option.splits)

lemma score_ok_active_time: "score_ok s \<Longrightarrow> wp (record_active_time t h) (\<lambda>_. score_ok) (\<lambda>_. score_ok) s"
  by (simp add: record_active_time_def)

lemma score_ok_decision:
  assumes "score_ok s" and "proper_decision (vk_scenario s) d"
  shows "wp (scorer_accept_judge_decision L d) (\<lambda>_. score_ok) (\<lambda>_. score_ok) s"
proof -
  let ?r = "case de_evidence_refs d of [] \<Rightarrow> ''judge-decisions'' | x # _ \<Rightarrow> x"
  let ?u = "(observe (de_sim_timestamp_ns d) s)\<lparr>vk_fm2_eligible_ids := set (de_eligible_aruco_ids d)\<rparr>"
  have ids: "distinct (de_eligible_aruco_ids d)" "set (de_eligible_aruco_ids d) \<subseteq> set VFS_PAYLOAD_IDS"
    using assms by (auto simp: proper_decision_def score_ok_def valid_targets_def)
  have u: "score_ok ?u"
    using assms(1) ids(2) by (simp add: score_ok_def observe_def)
  have "wp (ibind (record_fm2 (de_eligible_aruco_ids d) a ?r) (\<lambda>_. record_active_time t h))
      (\<lambda>_. score_ok) (\<lambda>_. score_ok) ?u" for a t h
    unfolding wp_ibind by (rule wp_mono [OF score_ok_fm2 [OF u ids]]) (rule score_ok_active_time)
  moreover have "wp (ibind (ilift (keep (delivered_payload L s) (vk_payloads s))) (\<lambda>delivered.
      ibind (imodify (record_fm3 (map fst delivered) a ?r)) (\<lambda>_. record_active_time t h)))
      (\<lambda>_. score_ok) (\<lambda>_. score_ok) (observe (de_sim_timestamp_ns d) s)" for a t h
    using assms(1) cp_bounds [OF assms(1)]
    by (auto intro!: score_ok_active_time score_ok_fm3 split: sum.splits)
  ultimately show ?thesis
    using assms(1) by (simp add: scorer_accept_judge_decision_def Let_def score_ok_fm1)
qed

lemma achieved_bounds:
  assumes "score_ok s" and "m = Fin x" and "1 \<le> x" and "x \<le> 3 / 2"
  shows "between 380 (achieved_score m s)"
proof -
  have p: "between (2 * 90) (fadd (vk_bp s) (vk_cp s))"
    using between_fadd [of 90 "vk_bp s" 90 "vk_cp s"] assms(1) by (simp add: score_ok_def)
  have q: "between 270 (fmul m (fadd (vk_bp s) (vk_cp s)))"
    using between_fmul [OF _ assms(4) p] assms(2,3) by simp
  have "between 335 (fadd (vk_a s) (fmul m (fadd (vk_bp s) (vk_cp s))))"
    using between_fadd [OF _ q, of 65 "vk_a s"] assms(1) by (simp add: score_ok_def)
  then have "between 350 (fadd (fadd (vk_a s) (fmul m (fadd (vk_bp s) (vk_cp s)))) (vk_ba s))"
    using between_fadd [of 335 _ 15 "vk_ba s"] assms(1) by (simp add: score_ok_def)
  then have "between 365 (fadd (fadd (fadd (vk_a s) (fmul m (fadd (vk_bp s) (vk_cp s)))) (vk_ba s)) (vk_ca s))"
    using between_fadd [of 350 _ 15 "vk_ca s"] assms(1) by (simp add: score_ok_def)
  then have "between 380 (fadd (fadd (fadd (fadd (vk_a s) (fmul m (fadd (vk_bp s) (vk_cp s)))) (vk_ba s)) (vk_ca s)) (vk_t s))"
    using between_fadd [of 365 _ 15 "vk_t s"] assms(1) by (simp add: score_ok_def)
  then show ?thesis
    unfolding achieved_score_def using assms(1) by (intro between_cut) (simp_all add: score_ok_def)
qed

definition bounded_result :: "score_result \<Rightarrow> bool" where
  "bounded_result r \<longleftrightarrow> between 380 (sr_achieved_score r) \<and> sr_maximum_available_score r = Fin 380"

lemma score_ok_finalize:
  assumes "score_ok s"
  shows "wp (vfs_finalize t) (\<lambda>r u. score_ok u \<and> bounded_result r) (\<lambda>_. score_ok) s"
proof -
  have "score_ok (u\<lparr>vk_t := p\<rparr>)" if "score_ok u" "between 15 p" for u p
    using that by (simp add: score_ok_def)
  moreover have "official (vk_rules s)"
    using assms by (simp add: score_ok_def)
  moreover have "bounded_result (score_result_of m stamp u)"
    if "multiplier (vk_rules s) (vk_weight_lb s) = Inr m" "score_ok u" for m stamp u
    using multiplier_bounds [OF calculation(2) that(1)] achieved_bounds [OF that(2)]
    by (auto simp: bounded_result_def score_result_of_def Let_def maximum_available_score_def)
  ultimately show ?thesis
    using assms time_bonus_bounds
    by (auto simp: vfs_finalize_def split: sum.splits option.splits)
qed

fun proper_op :: "vfs_scenario \<Rightarrow> vfs_scorer_op \<Rightarrow> bool" where
  "proper_op sc (SDecision d) = proper_decision sc d"
| "proper_op sc _ = True"

section \<open>What never changes\<close>

definition setting :: "vfs_scorer \<Rightarrow> string \<times> vfs_rules \<times> vfs_course \<times> vfs_scenario \<times> pyfloat" where
  "setting s = (vk_run_id s, vk_rules s, vk_course s, vk_scenario s, vk_weight_lb s)"

text \<open>Points that were lost, and penalties counted, at the rate of the official rules.\<close>

definition accounted :: "vfs_scorer \<Rightarrow> bool" where
  "accounted s \<longleftrightarrow>
     (vk_bp_invalid s \<noteq> None \<longrightarrow> vk_bp s = Fin 0) \<and> (vk_cp_invalid s \<noteq> None \<longrightarrow> vk_cp s = Fin 0)
     \<and> (vu_deduction_points (vk_rules s) = Fin 25 \<and> 25 * length (vk_penalties s) < 2 ^ 53 \<longrightarrow>
          vk_deductions s = Fin (25 * of_nat (length (vk_penalties s))))"

text \<open>The mistakes found so far; none is ever forgotten.\<close>

definition mistakes_kept :: "vfs_scorer \<Rightarrow> vfs_scorer \<Rightarrow> bool" where
  "mistakes_kept s u \<longleftrightarrow>
     setting u = setting s \<and> accounted u
     \<and> (vk_bp_invalid s \<noteq> None \<longrightarrow> vk_bp_invalid u \<noteq> None) \<and> (vk_cp_invalid s \<noteq> None \<longrightarrow> vk_cp_invalid u \<noteq> None)
     \<and> (\<exists>later. vk_penalties u = vk_penalties s @ later)"

lemma mistakes_kept_trans: "mistakes_kept s u \<Longrightarrow> mistakes_kept u v \<Longrightarrow> mistakes_kept s v"
  by (auto simp: mistakes_kept_def)

lemma mistakes_kept_refl: "accounted s \<Longrightarrow> mistakes_kept s s"
  by (simp add: mistakes_kept_def)

lemmas mistakes_defs = mistakes_kept_def setting_def accounted_def set_ref_def

lemma mistakes_penalty:
  assumes "accounted s"
  shows "mistakes_kept s (add_penalty reason r s)"
proof -
  have d: "vk_deductions (add_penalty reason r s) = Fin (25 * of_nat (length (vk_penalties s) + 1))"
    if "vu_deduction_points (vk_rules s) = Fin 25" "25 * (length (vk_penalties s) + 1) < 2 ^ 53"
  proof -
    have "vk_deductions s = Fin (of_int (25 * int (length (vk_penalties s))))"
      using assms that by (simp add: accounted_def)
    moreover have "\<bar>25 * int (length (vk_penalties s)) + 25\<bar> < 2 ^ 53"
      using that(2) by simp
    ultimately show ?thesis
      using fadd_int [of "25 * int (length (vk_penalties s))" 25] that(1)
      by (simp add: add_penalty_def set_ref_def algebra_simps)
  qed
  show ?thesis
    using assms d by (auto simp: mistakes_defs add_penalty_def)
qed

lemma mistakes_invalidate:
  "accounted s \<Longrightarrow> mistakes_kept s (invalidate_bp reason r s)"
  "accounted s \<Longrightarrow> mistakes_kept s (invalidate_cp reason r s)"
  by (auto simp: mistakes_defs invalidate_bp_def invalidate_cp_def)

lemma accounted_kept: "mistakes_kept s u \<Longrightarrow> accounted u"
  by (simp add: mistakes_kept_def)

lemma mistakes_touch_down:
  assumes "accounted s"
  shows "mistakes_kept s (judge_touch_down L x s)"
proof -
  define s1 where "s1 = (if allowed_zone L (vk_course s) x then s
    else add_penalty ''off_course_contact'' (''ground-truth#'' @ str_int (gt_sim_timestamp_ns x)) s)"
  have "mistakes_kept s s1"
    using assms by (simp add: s1_def mistakes_penalty mistakes_kept_refl)
  moreover have "mistakes_kept s1 (case failsafe_status now s1 of
      None \<Rightarrow> s1 | Some v \<Rightarrow> add_penalty reason (f v) s1)" for now reason f
    using mistakes_penalty [OF accounted_kept [OF calculation]] mistakes_kept_refl [OF accounted_kept [OF calculation]]
    by (simp split: option.splits)
  then have "mistakes_kept s1 (judge_touch_down L x s)"
    unfolding judge_touch_down_def Let_def s1_def .
  ultimately show ?thesis by (rule mistakes_kept_trans)
qed

abbreviation loses_nothing :: "(vfs_scorer, 'a) io \<Rightarrow> vfs_scorer \<Rightarrow> bool" where
  "loses_nothing m s \<equiv> wp m (\<lambda>_ u. mistakes_kept s u) (\<lambda>_ u. mistakes_kept s u) s"

lemma mistakes_truth: "accounted s \<Longrightarrow> mistakes_kept s (scorer_accept_ground_truth L x s)"
proof -
  assume a: "accounted s"
  let ?u = "(observe (gt_sim_timestamp_ns x) s)\<lparr>vk_truth := Some x\<rparr>"
  have u: "mistakes_kept s ?u"
    using a by (auto simp: mistakes_defs observe_def)
  show ?thesis
    using u mistakes_kept_trans [OF u mistakes_touch_down [OF accounted_kept [OF u]]] a
    by (auto simp: scorer_accept_ground_truth_def Let_def mistakes_kept_refl split: option.splits)
qed

lemma mistakes_payload_event: "accounted s \<Longrightarrow> loses_nothing (scorer_accept_payload_event L e) s"
proof -
  assume a: "accounted s"
  have u: "mistakes_kept s (observe t s)" for t
    using a by (auto simp: mistakes_defs observe_def)
  show ?thesis
    using a u mistakes_kept_trans [OF u mistakes_invalidate(1) [OF accounted_kept [OF u]]]
      mistakes_kept_trans [OF u mistakes_invalidate(2) [OF accounted_kept [OF u]]] mistakes_kept_refl [OF a]
    by (simp add: scorer_accept_payload_event_def judge_release_def split: option.splits sum.splits)
qed

lemma mistakes_decision: "accounted s \<Longrightarrow> loses_nothing (scorer_accept_judge_decision L d) s"
  by (auto simp: scorer_accept_judge_decision_def record_fm1_def record_fm2_def record_fm3_def
      record_active_time_def Let_def mistakes_defs observe_def split: option.splits sum.splits)

lemma mistakes_finalize: "accounted s \<Longrightarrow> loses_nothing (vfs_finalize t) s"
proof -
  assume a: "accounted s"
  have "mistakes_kept s (u\<lparr>vk_t := p\<rparr>)" if "mistakes_kept s u" for u p
    using that by (auto simp: mistakes_defs)
  then show ?thesis
    using a mistakes_penalty [OF a] mistakes_kept_refl [OF a]
    by (auto simp: vfs_finalize_def split: sum.splits option.splits)
qed

lemma vfs_scorer_call_kept:
  assumes "accounted s"
  shows "mistakes_kept s (snd (vfs_scorer_call L op s))"
proof -
  have "loses_nothing (vfs_scorer_call L op) s"
  proof (cases op)
    case (SFail r)
    then show ?thesis
      using assms by (auto simp: scorer_fail_def wp_def ibind_def mistakes_defs split: option.splits)
  qed (use assms mistakes_truth mistakes_payload_event mistakes_decision mistakes_finalize in
      \<open>auto simp: scorer_accept_vehicle_status_def scorer_accept_payload_state_def scorer_accept_mission_event_def
        Let_def mistakes_kept_refl\<close>, auto simp: mistakes_defs observe_def)
  then show ?thesis
    by (auto simp: wp_def split: prod.splits sum.splits)
qed

lemma run_kept: "accounted s \<Longrightarrow> mistakes_kept s (snd (vfs_score_run L ops s))"
proof (induction ops arbitrary: s)
  case Nil
  then show ?case by (simp add: mistakes_kept_refl)
next
  case (Cons op ops)
  note k = vfs_scorer_call_kept [OF Cons.prems, of L op]
  show ?case using mistakes_kept_trans [OF k Cons.IH [OF accounted_kept [OF k]]] by simp
qed

lemma accounted_fresh: "VfsScorer run_id rules course scenario w = Inr s \<Longrightarrow> accounted s"
  by (auto simp: VfsScorer_def accounted_def)

section \<open>Runs\<close>

lemma score_ok_fresh:
  assumes "VfsScorer run_id rules course scenario w = Inr s" and "official rules" and "valid_targets scenario"
  shows "score_ok s"
  using assms by (auto simp: VfsScorer_def score_ok_def)

lemma vfs_scorer_call_ok:
  assumes "score_ok s" and "proper_op (vk_scenario s) op"
  shows "wp (vfs_scorer_call L op) (\<lambda>rs u. score_ok u \<and> (\<forall>r\<in>set rs. bounded_result r)) (\<lambda>_. score_ok) s"
proof (cases op)
  case (SPayloadEvent e)
  then show ?thesis
    using wp_mono [OF score_ok_payload_event [OF assms(1)]] by simp
next
  case (SDecision d)
  then show ?thesis
    using wp_mono [OF score_ok_decision [OF assms(1)]] assms(2) by simp
next
  case (SFail r)
  then show ?thesis
    using assms(1) by (auto simp: scorer_fail_def wp_def ibind_def split: option.splits)
next
  case (SFinalize t)
  then show ?thesis
    using wp_mono [OF score_ok_finalize [OF assms(1)]] by simp
qed (use assms score_ok_samples in simp_all)

lemma run_score_ok:
  assumes "score_ok s" and "accounted s" and "list_all (proper_op (vk_scenario s)) ops"
  shows "\<forall>r\<in>set (returned (fst (vfs_score_run L ops s))). bounded_result r"
  using assms
proof (induction ops arbitrary: s)
  case Nil
  then show ?case by simp
next
  case (Cons op ops)
  obtain r u where ru: "vfs_scorer_call L op s = (r, u)" by fastforce
  have call: "wp (vfs_scorer_call L op) (\<lambda>rs u. score_ok u \<and> (\<forall>r\<in>set rs. bounded_result r)) (\<lambda>_. score_ok) s"
    using vfs_scorer_call_ok [OF Cons.prems(1)] Cons.prems(3) by simp
  have "mistakes_kept s u"
    using vfs_scorer_call_kept [OF Cons.prems(2), of L op] ru by simp
  then have "accounted u" "vk_scenario u = vk_scenario s"
    by (simp_all add: mistakes_kept_def setting_def)
  moreover have "score_ok u"
    using call ru by (cases r) (simp_all add: wp_def)
  ultimately have "\<forall>r\<in>set (returned (fst (vfs_score_run L ops u))). bounded_result r"
    using Cons.IH Cons.prems(3) by simp
  then show ?case
    using call ru by (cases r) (auto simp: wp_def)
qed

text \<open>
  Under the official rules and a valid assignment of the targets, every score that any run of
  the scorer gives lies between 0 and 380 points, rounding included, for decisions that name
  configured payloads once.
\<close>

theorem score_within_official_bounds:
  assumes "load_vfs_rules document checksum = Inr rules" and "VfsScorer run_id rules course scenario w = Inr s"
    and "valid_targets scenario" and "list_all (proper_op scenario) ops"
    and "r \<in> set (returned (fst (vfs_score_run L ops s)))"
  shows "\<exists>v. sr_achieved_score r = Fin v \<and> 0 \<le> v \<and> v \<le> 380"
proof -
  have sc: "vk_scenario s = scenario"
    using assms(2) by (auto simp: VfsScorer_def)
  have "score_ok s"
    by (rule score_ok_fresh [OF assms(2) load_official [OF assms(1)] assms(3)])
  then have "bounded_result r"
    using run_score_ok [OF _ accounted_fresh [OF assms(2)]] assms(4,5) sc by simp
  then show ?thesis by (simp add: bounded_result_def between_def)
qed

text \<open>The result of a finalization, in the state it leaves.\<close>

lemma vfs_finalize_result:
  assumes "vfs_finalize t s = (Inr r, u)"
  obtains m stamp where "multiplier (vk_rules s) (vk_weight_lb s) = Inr m" and "r = score_result_of m stamp u"
  using assms by (auto simp: vfs_finalize_def split: if_splits)

lemma number_events_simps [simp]:
  "map ev_event_id (number_events run_id stamp es) = map int [0..<length es]"
  "map ev_event_type (number_events run_id stamp es) = map fst es"
  "map ev_value (number_events run_id stamp es) = map (fst \<circ> snd) es"
  by (rule nth_equalityI; simp add: number_events_def split: prod.splits)+

text \<open>
  C21. The events of a result are numbered from 0 without a gap: one for each of the eight rows with
  its value, one for each penalty, the weight, and last the score. Under the official rules the
  deductions are 25 points for each penalty, and a component that was lost counts nothing.
\<close>

theorem result_accounts_for_the_score:
  assumes "VfsScorer run_id rules course scenario w = Inr k" and "official rules"
    and "snd (vfs_score_run L ops k) = s" and "vfs_finalize t s = (Inr r, u)"
    and "25 * length (vk_penalties u) < 2 ^ 53"
  shows "map ev_event_id (sr_events r) = map int [0..<10 + length (vk_penalties u)]
    \<and> map ev_value (sr_events r) = map ru_awarded_points (sr_rule_results r)
        @ replicate (length (vk_penalties u)) (Fin (- 25)) @ [w, sr_achieved_score r]
    \<and> map ru_awarded_points (sr_rule_results r) ! 7 = Fin (25 * of_nat (length (vk_penalties u)))
    \<and> (vk_bp_invalid s \<noteq> None \<longrightarrow> map ru_awarded_points (sr_rule_results r) ! 1 = Fin 0)
    \<and> (vk_cp_invalid s \<noteq> None \<longrightarrow> map ru_awarded_points (sr_rule_results r) ! 2 = Fin 0)"
proof -
  obtain m stamp where r: "r = score_result_of m stamp u"
    using vfs_finalize_result [OF assms(4)] by blast
  have ks: "mistakes_kept k s"
    using run_kept [OF accounted_fresh [OF assms(1)], of L ops] assms(3) by simp
  have su: "mistakes_kept s u"
    using mistakes_finalize [OF accounted_kept [OF ks], of t] assms(4) by (simp add: wp_def)
  have st: "vk_rules u = rules" "vk_weight_lb u = w"
    using ks su assms(1) by (auto simp: mistakes_kept_def setting_def VfsScorer_def)
  have "accounted u" by (rule accounted_kept [OF su])
  then have d: "vk_deductions u = Fin (25 * of_nat (length (vk_penalties u)))"
    using assms(2,5) st by (simp add: accounted_def official_def)
  have z: "vk_bp_invalid s \<noteq> None \<Longrightarrow> vk_bp u = Fin 0" "vk_cp_invalid s \<noteq> None \<Longrightarrow> vk_cp u = Fin 0"
    using su by (auto simp: mistakes_kept_def accounted_def)
  have n: "length (unnumbered_events m u) = 10 + length (vk_penalties u)"
    by (simp add: unnumbered_events_def score_values_def)
  have "map ev_event_id (sr_events r) = map int [0..<10 + length (vk_penalties u)]"
    unfolding r score_result_of_def Let_def by (simp add: n)
  moreover have "map ev_value (sr_events r) = map ru_awarded_points (sr_rule_results r)
      @ replicate (length (vk_penalties u)) (Fin (- 25)) @ [w, sr_achieved_score r]"
    using st assms(2)
    by (auto simp: r score_result_of_def Let_def unnumbered_events_def score_values_def score_row_def
        official_def comp_def map_replicate_const case_prod_unfold)
  ultimately show ?thesis
    using d z
    by (auto simp: r score_result_of_def Let_def score_values_def score_row_def)
qed

end
