(* ===== verification/Vfs_Runtime_Props.thy ===== *)
theory Vfs_Runtime_Props
  imports Vfs_Runtime_Inv Vfs_Scorer_Props
begin

text \<open>
  Runs of \<open>VfsScorekeeperRuntime\<close>. The laws of \<open>scorer\_laws\<close> hold for any scorer with the
  invariant that says nothing, and for one with the official rules with the invariant of
  \<open>Vfs\_Scorer\_Props\<close>: from the first come the facts on requests, from the second the bounds on
  the score. Last the loop over the instants, which stops for want of an instant to take.
\<close>

section \<open>Scorers\<close>

lemma wp_True [simp]: "wp m (\<lambda>_ _. True) (\<lambda>_ _. True) s"
  by (simp add: wp_def split: prod.splits sum.splits)

interpretation vfs_any: scorer_laws L sc "\<lambda>_. True" "\<lambda>_. True" for L sc
  by unfold_locales simp_all

text \<open>What a scorer with the official rules keeps.\<close>

definition official_scorer :: "vfs_scenario \<Rightarrow> vfs_scorer \<Rightarrow> bool" where
  "official_scorer sc k \<longleftrightarrow> score_ok k \<and> accounted k \<and> vk_scenario k = sc"

lemma official_scorer_mistakes:
  "official_scorer sc k \<Longrightarrow> mistakes_kept k u \<Longrightarrow> score_ok u \<Longrightarrow> official_scorer sc u"
  by (simp add: official_scorer_def mistakes_kept_def setting_def)

lemma official_scorer_call:
  assumes "official_scorer sc k" and "loses_nothing m k"
    and "wp m Q (\<lambda>_. score_ok) k" and "\<And>x u. Q x u \<Longrightarrow> score_ok u"
  shows "wp m (\<lambda>x u. official_scorer sc u \<and> Q x u) (\<lambda>_. official_scorer sc) k"
  by (rule wp_mono [OF wp_conj [OF assms(2,3)]]) (use assms(1,4) official_scorer_mistakes in blast)+

lemma sound_answer_proper: "sound_answer sc r d \<Longrightarrow> valid_targets sc \<Longrightarrow> proper_decision sc d"
  by (auto simp: sound_answer_def proper_decision_def valid_targets_def payload_targets_def)

lemma official_scorer_decision:
  assumes "official_scorer sc k" and "sound_answer sc r d"
  shows "keeps (scorer_accept_judge_decision L d) (official_scorer sc) k"
proof -
  have k: "score_ok k" "accounted k" "vk_scenario k = sc" "valid_targets sc"
    using assms(1) by (auto simp: official_scorer_def score_ok_def)
  have "proper_decision (vk_scenario k) d"
    using sound_answer_proper [OF assms(2)] k by simp
  from official_scorer_call [OF assms(1) mistakes_decision [OF k(2)] score_ok_decision [OF k(1) this]]
  show ?thesis by (rule wp_mono) auto
qed

lemma official_scorer_payload_event:
  assumes "official_scorer sc k"
  shows "keeps (scorer_accept_payload_event L e) (official_scorer sc) k"
proof -
  have k: "score_ok k" "accounted k" using assms by (simp_all add: official_scorer_def)
  from official_scorer_call [OF assms mistakes_payload_event [OF k(2)] score_ok_payload_event [OF k(1)]]
  show ?thesis by (rule wp_mono) auto
qed

lemma official_scorer_finalize:
  assumes "official_scorer sc k"
  shows "wp (vfs_finalize t) (\<lambda>r u. official_scorer sc u \<and> bounded_result r) (\<lambda>_. official_scorer sc) k"
proof -
  have k: "score_ok k" "accounted k" using assms by (simp_all add: official_scorer_def)
  from official_scorer_call [OF assms mistakes_finalize [OF k(2)] score_ok_finalize [OF k(1)]]
  show ?thesis by (rule wp_mono) auto
qed

lemma official_scorer_samples:
  assumes "official_scorer sc k"
  shows "official_scorer sc (scorer_accept_ground_truth L x k)"
    and "official_scorer sc (scorer_accept_vehicle_status v k)"
    and "official_scorer sc (scorer_accept_payload_state p k)"
    and "official_scorer sc (scorer_accept_mission_event e k)"
    and "official_scorer sc (snd (scorer_fail reason k))"
proof -
  have k: "score_ok k" "accounted k" using assms by (simp_all add: official_scorer_def)
  have kept: "mistakes_kept k (snd (vfs_scorer_call L op k))" for op
    by (rule vfs_scorer_call_kept [OF k(2)])
  note step = official_scorer_mistakes [OF assms]
  show "official_scorer sc (scorer_accept_ground_truth L x k)"
    using step [OF kept [of "STruth x"]] score_ok_samples [OF k(1)] by simp
  show "official_scorer sc (scorer_accept_vehicle_status v k)"
    using step [OF kept [of "SStatus v"]] score_ok_samples [OF k(1)] by simp
  show "official_scorer sc (scorer_accept_payload_state p k)"
    using step [OF kept [of "SPayload p"]] score_ok_samples [OF k(1)] by simp
  show "official_scorer sc (scorer_accept_mission_event e k)"
    using step [OF kept [of "SMission e"]] score_ok_samples [OF k(1)] by simp
  show "official_scorer sc (snd (scorer_fail reason k))"
    using assms unfolding official_scorer_def score_ok_def accounted_def
    by (cases "nonempty_text reason"; cases "vk_diagnostic k") (clarsimp simp: scorer_fail_def)+
qed

interpretation vfs_official: scorer_laws L sc "official_scorer sc" bounded_result for L sc
  by unfold_locales
    (simp_all add: official_scorer_samples official_scorer_payload_event official_scorer_decision
      official_scorer_finalize)

section \<open>Runs\<close>

lemma sound_fresh:
  assumes "VfsJudge rid course scenario = Inr j" and "VfsScorekeeperRuntime run_id j scorer files = Inr s"
    and "\<And>k. scorer = Some k \<Longrightarrow> fine k"
  shows "sound decode scenario fine award {} s"
  using assms
  by (auto simp: VfsJudge_def VfsScorekeeperRuntime_def sound_def sound_book_def scoring_fine_def
      ScoreFinalizer_def split: option.splits)

text \<open>
  C6. Whatever a runtime receives and in whatever order, a decision it announces that is not an
  error rests on the vehicle position of exactly the instant of its request: it cites the position
  with its own timestamp. No request is judged on a later position, or on an older one.
\<close>

theorem judged_at_the_instant_of_the_request:
  assumes "VfsJudge rid course scenario = Inr j" and "VfsScorekeeperRuntime run_id j scorer files = Inr s"
    and "DecisionOut d \<in> set (vr_log (snd (vfs_run W ops s)))" and "de_outcome d \<noteq> ErrorOutcome"
  shows "''groundtruth#'' @ str_int (de_sim_timestamp_ns d) \<in> set (de_evidence_refs d)"
proof -
  have "sound (ve_decode (vw_env W)) scenario (\<lambda>_. True) (\<lambda>_. True) {} (snd (vfs_run W ops s))"
    by (rule vfs_any.run_sound [OF refl sound_fresh [OF assms(1,2)]]) simp
  then show ?thesis
    using assms(3,4) by (auto simp: sound_def sound_answer_def timely_def)
qed

text \<open>
  Every request that a runtime accepted, at any point of a run, has been answered when the end
  of the input was handled: a decision with its identity has been announced, at the latest an error
  for want of evidence. None is left pending.
\<close>

theorem no_request_unanswered:
  assumes "VfsJudge rid course scenario = Inr j" and "VfsScorekeeperRuntime run_id j scorer files = Inr s"
    and "vfs_accept_mission_event (vw_env W) e (snd (vfs_run W before s)) = (Inr (), s1)"
    and "is_request (ve_decode (vw_env W)) e r"
    and "vfs_accept_source_finished (vw_env W) (vw_encode W) (vw_files W) t (snd (vfs_run W rest s1)) = (Inr res, u)"
  shows "replied r u \<and> vr_pending_checks u = []"
proof -
  let ?S = "\<lambda>as. sound (ve_decode (vw_env W)) scenario (\<lambda>_. True) (\<lambda>_. True) as"
  have "?S {} (snd (vfs_run W before s))"
    by (rule vfs_any.run_sound [OF refl sound_fresh [OF assms(1,2)]]) simp
  from vfs_any.mission_event_sound [OF refl this, of e] have "?S {e} s1"
    using assms(3) by (simp add: wp_def)
  from vfs_any.run_sound [OF refl this] have "?S {e} (snd (vfs_run W rest s1))" .
  from wpD(1) [OF vfs_any.source_finished_sound [OF this refl] assms(5)] show ?thesis
    using assms(4) by (auto simp: sound_def)
qed

text \<open>
  C20. When judge and scorer share a scenario the validation accepted and the scorer has the loaded
  rules, the result a runtime holds after any run lies between 0 and 380 points: the decisions that
  reach the scorer are always such that its bounds apply.
\<close>

theorem runtime_score_within_bounds:
  assumes "validate_vfs_scenario scenario_document = Inr scenario"
    and "load_vfs_rules rules_document checksum = Inr rules"
    and "VfsJudge rid course scenario = Inr j" and "VfsScorer rid rules course' scenario weight = Inr k"
    and "VfsScorekeeperRuntime run_id j (Some k) files = Inr s"
    and "vfs_result (snd (vfs_run W ops s)) = Some r"
  shows "\<exists>v. sr_achieved_score r = Fin v \<and> 0 \<le> v \<and> v \<le> 380"
proof -
  have "score_ok k"
    by (rule score_ok_fresh [OF assms(4) load_official [OF assms(2)] validated_targets [OF assms(1)]])
  then have "official_scorer scenario k"
    using accounted_fresh [OF assms(4)] assms(4) by (auto simp: official_scorer_def VfsScorer_def)
  then have "sound (ve_decode (vw_env W)) scenario (official_scorer scenario) bounded_result {} (snd (vfs_run W ops s))"
    by (intro vfs_official.run_sound [OF refl] sound_fresh [OF assms(3,5)]) simp
  then have "bounded_result r"
    using assms(6) by (auto simp: sound_def scoring_fine_def vfs_result_def split: scoring.splits)
  then show ?thesis by (simp add: bounded_result_def between_def)
qed

section \<open>The loop over the instants\<close>

lemma buffer_on_judge: "vr_ground_truth_buffer s = b \<Longrightarrow> keeps (on_judge m) (\<lambda>u. vr_ground_truth_buffer u = b) s"
  by (simp add: wp_def on_judge_def split: prod.splits sum.splits)

lemma buffer_on_scorer: "vr_ground_truth_buffer s = b \<Longrightarrow> keeps (on_scorer m) (\<lambda>u. vr_ground_truth_buffer u = b) s"
  by (simp add: wp_def on_scorer_def split: scoring.splits prod.splits sum.splits)

lemma buffer_announce: "vr_ground_truth_buffer s = b \<Longrightarrow> keeps (announce env a) (\<lambda>u. vr_ground_truth_buffer u = b) s"
  by (simp add: wp_def announce_def split: option.splits)

lemma buffer_event:
  "vr_ground_truth_buffer s = b \<Longrightarrow> keeps (accept_mission_event_now E missing e) (\<lambda>u. vr_ground_truth_buffer u = b) s"
  unfolding accept_mission_event_now_def
  by (rule keeps_steps, erule buffer_on_judge, rule keeps_steps, erule buffer_on_scorer, erule keeps_for_each,
      rule keeps_steps, erule buffer_on_scorer, erule buffer_announce)

lemma buffer_resolve:
  "vr_ground_truth_buffer s = b \<Longrightarrow> keeps (resolve_checks E force es) (\<lambda>u. vr_ground_truth_buffer u = b) s"
proof (induction es arbitrary: s)
  case (Cons e es)
  have now: "keeps (ibind (accept_mission_event_now E missing e) (\<lambda>_. resolve_checks E force es))
      (\<lambda>u. vr_ground_truth_buffer u = b) s" for missing
    by (rule keeps_steps [OF buffer_event [OF Cons.prems] Cons.IH])
  have later: "keeps (ibind (resolve_checks E force es) (\<lambda>r. ireturn (e # r)))
      (\<lambda>u. vr_ground_truth_buffer u = b) s"
    by (rule keeps_steps [OF Cons.IH [OF Cons.prems]]) simp
  show ?case
    unfolding resolve_checks.simps wp_ibind [of "iget id"] wp_iget by (simp only: wp_if now later split: if_split) blast
qed simp

lemma buffer_resolve_pending:
  "vr_ground_truth_buffer s = b \<Longrightarrow> keeps (resolve_pending_checks E force) (\<lambda>u. vr_ground_truth_buffer u = b) s"
  unfolding resolve_pending_checks_def
  by (rule keeps_steps, simp, rule keeps_steps, erule buffer_resolve) simp

lemma buffer_payload:
  "vr_ground_truth_buffer s = b \<Longrightarrow> keeps (take_payload E t p) (\<lambda>u. vr_ground_truth_buffer u = b) s"
  unfolding take_payload_def
  by (cases p; simp only: prod.case, rule keeps_steps, erule buffer_on_judge, rule keeps_steps, simp, erule buffer_on_scorer)

lemma buffer_status:
  "vr_ground_truth_buffer s = b \<Longrightarrow> keeps (take_status E t) (\<lambda>u. vr_ground_truth_buffer u = b) s"
  unfolding take_status_def wp_ibind [of "iget g" for g] wp_iget
  by (cases "map_of (vr_vehicle_status_buffer s) t"; simp only: option.case)
    (simp, rule keeps_steps, simp, rule keeps_steps, erule buffer_on_judge, rule keeps_steps, simp, erule buffer_on_scorer)

text \<open>An instant that is taken leaves the buffer, and nothing is put there.\<close>

lemma take_epoch_shrinks:
  "keeps (take_epoch E t) (\<lambda>u. vr_ground_truth_buffer u = AList.delete t (vr_ground_truth_buffer s)
     \<or> map_of (vr_ground_truth_buffer s) t = None) s"
proof (cases "map_of (vr_ground_truth_buffer s) t")
  case (Some x)
  let ?b = "AList.delete t (vr_ground_truth_buffer s)"
  have "keeps (take_epoch E t) (\<lambda>u. vr_ground_truth_buffer u = ?b) s"
    unfolding take_epoch_def wp_ibind [of "iget id"] wp_iget id_apply Some option.case
    by (rule keeps_steps [where P = "\<lambda>u. vr_ground_truth_buffer u = ?b"], simp, rule keeps_steps, erule buffer_on_judge,
        rule keeps_steps, simp, rule keeps_steps, erule buffer_on_scorer, rule keeps_steps,
        erule keeps_for_each, erule buffer_payload, rule keeps_steps, erule buffer_status, rule keeps_steps, simp,
        rule keeps_steps, simp, rule keeps_steps, erule buffer_announce, erule buffer_resolve_pending)
  then show ?thesis by (rule wp_mono) auto
qed simp

lemma next_epoch_buffered: "next_epoch s = Some t \<Longrightarrow> map_of (vr_ground_truth_buffer s) t \<noteq> None"
proof -
  assume t: "next_epoch s = Some t"
  then have "t = Min (set (dict_keys (vr_ground_truth_buffer s)))" "vr_ground_truth_buffer s \<noteq> []"
    by (auto simp: next_epoch_def Let_def split: if_splits)
  then have "t \<in> set (dict_keys (vr_ground_truth_buffer s))"
    using Min_in [of "set (dict_keys (vr_ground_truth_buffer s))"] by simp
  then show ?thesis by (auto simp: map_of_eq_None_iff)
qed

lemma take_epoch_fewer:
  assumes "next_epoch s = Some t" and "take_epoch E t s = (Inr x, u)"
  shows "length (vr_ground_truth_buffer u) < length (vr_ground_truth_buffer s)"
proof -
  have "vr_ground_truth_buffer u = AList.delete t (vr_ground_truth_buffer s)"
    using wpD(1) [OF take_epoch_shrinks assms(2)] next_epoch_buffered [OF assms(1)] by simp
  moreover obtain y where "(t, y) \<in> set (vr_ground_truth_buffer s)"
    using next_epoch_buffered [OF assms(1)] by (auto dest: map_of_SomeD)
  ultimately show ?thesis
    by (auto simp: AList.delete_eq intro!: length_filter_less)
qed

lemma drain_fuel:
  "length (vr_ground_truth_buffer s) \<le> n \<Longrightarrow> length (vr_ground_truth_buffer s) \<le> m \<Longrightarrow> drain E n s = drain E m s"
proof (induction n arbitrary: m s)
  case 0
  then have "next_epoch s = None" by (simp add: next_epoch_def)
  then show ?case by (cases m) (simp_all add: ibind_def)
next
  case (Suc n)
  show ?case
  proof (cases "next_epoch s")
    case None
    then show ?thesis by (cases m) (simp_all add: ibind_def)
  next
    case (Some t)
    then obtain k where m: "m = Suc k"
      using Suc.prems by (cases m) (auto simp: next_epoch_def)
    obtain r u where ru: "take_epoch E t s = (r, u)" by fastforce
    show ?thesis
    proof (cases r)
      case (Inr x)
      have "length (vr_ground_truth_buffer u) < length (vr_ground_truth_buffer s)"
        using take_epoch_fewer [OF Some] ru Inr by blast
      then have "drain E n u = drain E k u"
        using Suc.prems m by (intro Suc.IH) auto
      then show ?thesis using Some ru Inr m by (simp add: ibind_def)
    qed (simp add: Some ru m ibind_def)
  qed
qed

lemma drain_exhausts:
  "length (vr_ground_truth_buffer s) \<le> n \<Longrightarrow> wp (drain E n) (\<lambda>_ u. next_epoch u = None) (\<lambda>_ _. True) s"
proof (induction n arbitrary: s)
  case 0
  then show ?case unfolding drain.simps wp_ireturn by (simp add: next_epoch_def)
next
  case (Suc n)
  show ?case
  proof (cases "next_epoch s")
    case (Some t)
    have "wp (take_epoch E t) (\<lambda>_ u. length (vr_ground_truth_buffer u) \<le> n) (\<lambda>_ _. True) s"
      using take_epoch_fewer [OF Some, of E] Suc.prems by (intro wpI) force+
    then have "wp (take_epoch E t) (\<lambda>_. wp (drain E n) (\<lambda>_ u. next_epoch u = None) (\<lambda>_ _. True)) (\<lambda>_ _. True) s"
      by (rule wp_mono) (use Suc.IH in auto)
    then show ?thesis
      unfolding drain.simps wp_ibind [of "iget next_epoch"] wp_iget Some option.case wp_ibind [of "take_epoch E t"] .
  next
    case None
    then show ?thesis unfolding drain.simps wp_ibind [of "iget next_epoch"] wp_iget by simp
  qed
qed

text \<open>
  C39. The loop over the buffered instants ends: the number of buffered positions bounds its rounds,
  more rounds change nothing, and when no call raised the loop stopped because no instant could be
  taken: the earliest is incomplete or waits behind a request.
\<close>

theorem drain_takes_all_it_can:
  "drain E (length (vr_ground_truth_buffer s) + extra) s = drain E (length (vr_ground_truth_buffer s)) s
    \<and> (case drain E (length (vr_ground_truth_buffer s)) s of
          (Inl e, u) \<Rightarrow> True
        | (Inr x, u) \<Rightarrow> next_epoch u = None)"
  using drain_fuel [of s "length (vr_ground_truth_buffer s) + extra" "length (vr_ground_truth_buffer s)" E]
    drain_exhausts [of s "length (vr_ground_truth_buffer s)" E]
  by (auto simp: wp_def split: prod.splits sum.splits)

end
