(* ===== verification/Vfs_Runtime_Live.thy ===== *)
theory Vfs_Runtime_Live
  imports Vfs_Runtime_Props Score_Runtime_Live
begin

text \<open>
  The end of an attempt without faults: the requests still pending are answered, and the score is
  finalized, stored and reported. Whatever a runtime was given before, its scorer is one that can be
  finalized, and every number of its result is finite, so the JSON encoder accepts the documents.
\<close>

section \<open>The scorer\<close>

text \<open>The instants of a scorer are not negative; every operation keeps this.\<close>

definition clocked :: "vfs_scorer \<Rightarrow> bool" where
  "clocked k \<longleftrightarrow> 0 \<le> vk_last_timestamp_ns k \<and> (\<forall>t. vk_active_ns k = Some t \<longrightarrow> 0 \<le> t)"

lemma clocked_simps [simp]:
  "clocked (set_ref n r k) = clocked k"
  "clocked (add_penalty reason r k) = clocked k"
  "clocked (invalidate_bp reason r k) = clocked k"
  "clocked (invalidate_cp reason r k) = clocked k"
  "clocked (record_fm1 a c r k) = clocked k"
  "clocked (record_fm3 ids a r k) = clocked k"
  "clocked (k\<lparr>vk_truth := x\<rparr>) = clocked k"
  "clocked (k\<lparr>vk_last_vehicle_status := v\<rparr>) = clocked k"
  "clocked (k\<lparr>vk_autonomous := modes\<rparr>) = clocked k"
  "clocked (k\<lparr>vk_phase := ph\<rparr>) = clocked k"
  "clocked (k\<lparr>vk_payloads := ps\<rparr>) = clocked k"
  "clocked (k\<lparr>vk_diagnostic := d\<rparr>) = clocked k"
  "clocked (k\<lparr>vk_t := t\<rparr>) = clocked k"
  "clocked (k\<lparr>vk_fm2_eligible_ids := ids'\<rparr>) = clocked k"
  by (simp_all add: clocked_def set_ref_def add_penalty_def invalidate_bp_def invalidate_cp_def record_fm1_def
      record_fm3_def split: option.split)

lemma clocked_observe [simp]: "clocked k \<Longrightarrow> clocked (observe t k)"
  by (simp add: clocked_def observe_def le_max_iff_disj)

lemma clocked_touch_down [simp]: "clocked (judge_touch_down L x k) = clocked k"
  by (simp add: judge_touch_down_def Let_def split: option.split)

lemma clocked_samples:
  assumes "clocked k"
  shows "clocked (scorer_accept_ground_truth L x k)" and "clocked (scorer_accept_vehicle_status v k)"
    and "clocked (scorer_accept_payload_state p k)" and "clocked (scorer_accept_mission_event e k)"
    and "clocked (snd (scorer_fail reason k))"
  using assms
  by (simp_all add: scorer_accept_ground_truth_def scorer_accept_vehicle_status_def scorer_accept_payload_state_def
      scorer_accept_mission_event_def scorer_fail_def Let_def split: option.split)

lemma clocked_payload_event: "clocked k \<Longrightarrow> keeps (scorer_accept_payload_event L e) clocked k"
  by (simp add: scorer_accept_payload_event_def judge_release_def split: option.splits sum.splits)

lemma clocked_time: "clocked k \<Longrightarrow> keeps (record_active_time t h) clocked k"
  by (simp add: record_active_time_def) (simp add: clocked_def)

lemma clocked_fm2: "clocked k \<Longrightarrow> keeps (record_fm2 ids a r) clocked k"
  by (simp add: record_fm2_def split: sum.split) (simp add: clocked_def)

lemma clocked_decision: "clocked k \<Longrightarrow> keeps (scorer_accept_judge_decision L d) clocked k"
  unfolding scorer_accept_judge_decision_def Let_def
  by (auto intro!: wp_mono [OF clocked_fm2] clocked_time split: sum.split)

lemma clocked_finalize: "clocked k \<Longrightarrow> keeps (vfs_finalize t) clocked k"
  by (auto simp: vfs_finalize_def split: sum.splits option.splits)

text \<open>
  What holds of the scorer of a runtime at any time: the invariant of the official rules, and the
  settings it was made with.
\<close>

definition kept_scorer :: "vfs_scenario \<Rightarrow> vfs_scorer \<Rightarrow> vfs_scorer \<Rightarrow> bool" where
  "kept_scorer sc made k \<longleftrightarrow> official_scorer sc k \<and> setting k = setting made \<and> clocked k"

lemma kept_scorer_step:
  assumes "kept_scorer sc made k" and "loses_nothing m k" and "keeps m (official_scorer sc) k" and "keeps m clocked k"
  shows "keeps m (kept_scorer sc made) k"
proof -
  have settings: "setting k = setting made"
    using assms(1) by (simp add: kept_scorer_def)
  show ?thesis
    by (rule wp_mono [OF wp_conj [OF assms(2) wp_conj [OF assms(3,4)]]])
      (auto simp: kept_scorer_def mistakes_kept_def settings)
qed

lemma kept_scorer_sample:
  assumes "kept_scorer sc made k" and "vfs_scorer_call L op k = (r, u)" and "official_scorer sc u" and "clocked u"
  shows "kept_scorer sc made u"
proof -
  have "mistakes_kept k u"
    using vfs_scorer_call_kept [of k L op] assms(1,2) by (simp add: kept_scorer_def official_scorer_def)
  then show ?thesis
    using assms(1,3,4) by (simp add: kept_scorer_def mistakes_kept_def)
qed

lemma kept_scorer_samples:
  assumes "kept_scorer sc made k"
  shows "kept_scorer sc made (scorer_accept_ground_truth L x k)"
    and "kept_scorer sc made (scorer_accept_vehicle_status v k)"
    and "kept_scorer sc made (scorer_accept_payload_state p k)"
    and "kept_scorer sc made (scorer_accept_mission_event e k)"
    and "kept_scorer sc made (snd (scorer_fail reason k))"
proof -
  have k: "official_scorer sc k" "clocked k"
    using assms by (simp_all add: kept_scorer_def)
  note step = kept_scorer_sample [OF assms, where L = L] and official = official_scorer_samples [OF k(1)]
    and clocked = clocked_samples [OF k(2)]
  show "kept_scorer sc made (scorer_accept_ground_truth L x k)"
    by (rule step [of "STruth x", OF _ official(1) clocked(1)]) simp
  show "kept_scorer sc made (scorer_accept_vehicle_status v k)"
    by (rule step [of "SStatus v", OF _ official(2) clocked(2)]) simp
  show "kept_scorer sc made (scorer_accept_payload_state p k)"
    by (rule step [of "SPayload p", OF _ official(3) clocked(3)]) simp
  show "kept_scorer sc made (scorer_accept_mission_event e k)"
    by (rule step [of "SMission e", OF _ official(4) clocked(4)]) simp
  show "kept_scorer sc made (snd (scorer_fail reason k))"
    using step [of "SFail reason" "map_sum id (\<lambda>_. []) (fst (scorer_fail reason k))", OF _ official(5) clocked(5)]
    by (simp add: ibind_def split: prod.split sum.split)
qed

lemma kept_scorer_calls:
  assumes "kept_scorer sc made k"
  shows "keeps (scorer_accept_payload_event L pe) (kept_scorer sc made) k"
    and "sound_answer sc r d \<Longrightarrow> keeps (scorer_accept_judge_decision L d) (kept_scorer sc made) k"
    and "wp (vfs_finalize None) (\<lambda>r u. kept_scorer sc made u \<and> bounded_result r) (\<lambda>_. kept_scorer sc made) k"
proof -
  have k: "official_scorer sc k" "clocked k" "accounted k"
    using assms by (simp_all add: kept_scorer_def official_scorer_def)
  note step = kept_scorer_step [OF assms]
  show "keeps (scorer_accept_payload_event L pe) (kept_scorer sc made) k"
    by (rule step [OF mistakes_payload_event [OF k(3)] official_scorer_payload_event [OF k(1)]
        clocked_payload_event [OF k(2)]])
  show "keeps (scorer_accept_judge_decision L d) (kept_scorer sc made) k" if "sound_answer sc r d"
    by (rule step [OF mistakes_decision [OF k(3)] official_scorer_decision [OF k(1) that] clocked_decision [OF k(2)]])
  have "keeps (vfs_finalize None) (official_scorer sc) k"
    by (rule wp_mono [OF official_scorer_finalize [OF k(1)]]) auto
  from step [OF mistakes_finalize [OF k(3)] this clocked_finalize [OF k(2)]]
  have kept: "keeps (vfs_finalize None) (kept_scorer sc made) k" .
  show "wp (vfs_finalize None) (\<lambda>r u. kept_scorer sc made u \<and> bounded_result r) (\<lambda>_. kept_scorer sc made) k"
    by (rule wp_mono [OF wp_conj [OF kept official_scorer_finalize [OF k(1)]]]) auto
qed

interpretation vfs_kept: scorer_laws L sc "kept_scorer sc made" bounded_result for L sc made
  by unfold_locales (simp_all add: kept_scorer_samples kept_scorer_calls)

lemma run_id_canonical: "canonical_run_id v = Inr rid \<Longrightarrow> canonical_uuid rid"
  by (auto simp: canonical_run_id_def status_error_def split: option.splits if_splits)

lemma kept_scorer_fresh:
  assumes "VfsScorer run_id rules course scenario w = Inr k" and "official rules" and "valid_targets scenario"
  shows "kept_scorer scenario k k"
  using score_ok_fresh [OF assms] accounted_fresh [OF assms(1)] assms(1)
  by (auto simp: kept_scorer_def official_scorer_def clocked_def VfsScorer_def)

text \<open>
  What finalization needs: also the official length of an attempt, a finite weight, and stamps and
  event numbers of 64 bits; the deductions are exact below the largest odd float.
\<close>

definition scorer_ready :: "vfs_scorer \<Rightarrow> bool" where
  "scorer_ready k \<longleftrightarrow>
     score_ok k \<and> accounted k \<and> clocked k \<and> va_duration_seconds (vc_attempt (vk_course k)) = Fin 600
     \<and> isfinite (vk_weight_lb k) \<and> canonical_uuid (vk_run_id k)
     \<and> vk_last_timestamp_ns k < 2 ^ 63 \<and> 25 * (length (vk_penalties k) + 1) < 2 ^ 53"

lemma duration_nanoseconds: "nanoseconds (Fin 600) = Inr 600000000000"
  using round64_int [of 600000000000] by (simp add: nanoseconds_def fmul_def)

lemma multiplier_total: "official u \<Longrightarrow> \<exists>m. multiplier u w = Inr m"
  by (auto simp: multiplier_def official_def expected_weight_def split: option.splits)

lemma time_bonus_total:
  assumes "0 \<le> t" and "t \<le> 600000000000"
  shows "\<exists>p. time_bonus u t = Inr p"
proof -
  have "(0 :: rat) \<le> of_int t" "(of_int t :: rat) \<le> 600000000000"
    using assms by linarith+
  then obtain v where "round64 (of_int t / of_int 1000000000) = Fin v"
    using round64_between [of "of_int t / of_int 1000000000" 600] by (auto simp: field_simps)
  then show ?thesis
    by (auto simp: time_bonus_def int_div_def split: list.splits)
qed

lemma number_events_last:
  "es \<noteq> [] \<Longrightarrow> number_events rid stamp es \<noteq> [] \<and> ev_sim_timestamp_ns (List.last (number_events rid stamp es)) = stamp"
  by (simp add: number_events_def last_map case_prod_unfold)

lemma result_events_last:
  "sr_events (score_result_of m t s) \<noteq> []
   \<and> ev_sim_timestamp_ns (List.last (sr_events (score_result_of m t s))) = t"
proof -
  have "unnumbered_events m s \<noteq> []"
    by (simp add: unnumbered_events_def)
  from number_events_last [OF this] show ?thesis
    by (simp add: score_result_of_def Let_def)
qed

text \<open>The numbers of a result are finite.\<close>

lemma between_finite: "between n f \<Longrightarrow> isfinite f"
  by (auto simp: between_def)

lemma number_events_range:
  "e \<in> set (number_events rid stamp es) \<Longrightarrow> ev_sim_timestamp_ns e = stamp
     \<and> ev_value e \<in> (fst \<circ> snd) ` set es \<and> 0 \<le> ev_event_id e \<and> ev_event_id e < int (length es)"
  by (force simp: number_events_def elim!: in_set_zipE)

lemma score_values_finite:
  assumes "score_ok s" "isfinite (vk_deductions s)" "isfinite m" "(name, v, a) \<in> set (score_values m s)"
  shows "isfinite v \<and> isfinite a"
proof -
  have "isfinite (decimal 15 1)"
    using modest_decimals(1) by (auto simp: modest_def split: pyfloat.splits)
  then show ?thesis
    using assms by (auto simp: score_values_def score_ok_def dest: between_finite)
qed

lemma result_json:
  assumes "score_ok s" "accounted s" "25 * length (vk_penalties s) < 2 ^ 53"
    and "multiplier (vk_rules s) (vk_weight_lb s) = Inr m" "isfinite (vk_weight_lb s)" "\<bar>t\<bar> < 2 ^ 63"
  shows "json_result (score_result_of m t s)"
proof -
  let ?r = "score_result_of m t s"
  have official: "official (vk_rules s)"
    using assms(1) by (simp add: score_ok_def)
  obtain x where m: "m = Fin x" "1 \<le> x" "x \<le> 3 / 2"
    using multiplier_bounds [OF official assms(4)] by blast
  have "vk_deductions s = Fin (25 * of_nat (length (vk_penalties s)))"
    using assms(2,3) official by (simp add: accounted_def official_def)
  then have numbers: "isfinite v \<and> isfinite a" if "(name, v, a) \<in> set (score_values m s)" for name v a
    using score_values_finite [OF assms(1) _ _ that] m(1) by simp
  have achieved: "isfinite (achieved_score m s)"
    using between_finite [OF achieved_bounds [OF assms(1) m]] .
  have "isfinite v" if "v \<in> (fst \<circ> snd) ` set (unnumbered_events m s)" for v
    using that numbers achieved assms(5) official
    by (auto simp: unnumbered_events_def score_row_def official_def)
  moreover have "int (length (unnumbered_events m s)) < 2 ^ 63"
    using assms(3) by (simp add: unnumbered_events_def score_values_def)
  ultimately have "isfinite (ev_value e) \<and> \<bar>ev_sim_timestamp_ns e\<bar> < 2 ^ 63 \<and> \<bar>ev_event_id e\<bar> < 2 ^ 63"
    if "e \<in> set (sr_events ?r)" for e
    using number_events_range [of e "vk_run_id s" t "unnumbered_events m s"] that assms(6)
    by (simp add: score_result_of_def Let_def)
  then show ?thesis
    using numbers achieved
    by (intro json_resultI) (auto simp: score_result_of_def Let_def maximum_available_score_def score_row_def)
qed

lemma vfs_finalize_returns:
  assumes "scorer_ready k"
  shows "wp (vfs_finalize None) (\<lambda>r u. \<exists>m. multiplier (vk_rules k) (vk_weight_lb k) = Inr m
      \<and> r = score_result_of m (vk_last_timestamp_ns k) u \<and> length (vk_penalties u) \<le> Suc (length (vk_penalties k)))
    (\<lambda>_ _. False) k"
proof -
  have k: "official (vk_rules k)" "nanoseconds (va_duration_seconds (vc_attempt (vk_course k))) = Inr 600000000000"
    "\<not> vk_last_timestamp_ns k < 0"
    using assms by (simp_all add: scorer_ready_def duration_nanoseconds score_ok_def clocked_def)
  obtain m where m: "multiplier (vk_rules k) (vk_weight_lb k) = Inr m"
    using multiplier_total [OF k(1)] by blast
  have bonus: "\<exists>p. time_bonus u t = Inr p" if "time_awarded 600000000000 s = Some t" "vk_active_ns s = vk_active_ns k" for s t u
    using that assms by (intro time_bonus_total)
      (auto simp: time_awarded_def scorer_ready_def clocked_def split: option.splits if_splits)
  have tail: "wp (case time_awarded 600000000000 k of
        None \<Rightarrow> ireturn ()
      | Some remaining \<Rightarrow> ibind (ilift (time_bonus (vk_rules k) remaining)) (\<lambda>t. imodify (\<lambda>s. s\<lparr>vk_t := t\<rparr>)))
      (\<lambda>_ s. length (vk_penalties s) \<le> Suc (length (vk_penalties k))) (\<lambda>_ _. False) u"
    if "length (vk_penalties u) \<le> Suc (length (vk_penalties k))" for u
    using that bonus [of k _ "vk_rules k"] by (cases "time_awarded 600000000000 k") (auto split: sum.splits)
  show ?thesis
    unfolding vfs_finalize_def wp_ibind [of "iget g" for g] wp_iget option.case id_apply
    using k m by (simp add: add_penalty_def set_ref_def tail)
qed

lemma vfs_finalize_total:
  assumes "scorer_ready k"
  shows "wp (vfs_finalize None) (\<lambda>r u. json_result r \<and> sr_events r \<noteq> []
      \<and> ev_sim_timestamp_ns (List.last (sr_events r)) = vk_last_timestamp_ns k \<and> vk_run_id u = vk_run_id k)
    (\<lambda>_ _. False) k"
proof (rule wp_mono [OF wp_conj [OF vfs_finalize_returns [OF assms]
    wp_conj [OF score_ok_finalize [of k None] mistakes_finalize [of k None]]]])
  show "score_ok k" "accounted k"
    using assms by (simp_all add: scorer_ready_def)
  fix r u
  assume u: "(\<exists>m. multiplier (vk_rules k) (vk_weight_lb k) = Inr m
      \<and> r = score_result_of m (vk_last_timestamp_ns k) u \<and> length (vk_penalties u) \<le> Suc (length (vk_penalties k)))
    \<and> (score_ok u \<and> bounded_result r) \<and> mistakes_kept k u"
  then obtain m where m: "multiplier (vk_rules k) (vk_weight_lb k) = Inr m"
      "r = score_result_of m (vk_last_timestamp_ns k) u" "length (vk_penalties u) \<le> Suc (length (vk_penalties k))"
    by blast
  have st: "vk_rules u = vk_rules k" "vk_weight_lb u = vk_weight_lb k" "vk_run_id u = vk_run_id k" "accounted u"
    using u by (simp_all add: mistakes_kept_def setting_def)
  have "25 * length (vk_penalties u) < 2 ^ 53" "\<bar>vk_last_timestamp_ns k\<bar> < 2 ^ 63"
    using assms m(3) by (auto simp: scorer_ready_def clocked_def)
  then have "json_result r"
    unfolding m(2) using u st m(1) assms by (intro result_json) (simp_all add: scorer_ready_def)
  then show "json_result r \<and> sr_events r \<noteq> []
      \<and> ev_sim_timestamp_ns (List.last (sr_events r)) = vk_last_timestamp_ns k \<and> vk_run_id u = vk_run_id k"
    using st(3) result_events_last by (simp add: m(2))
qed simp

lemma scorer_ready_kept:
  assumes "scorer_ready k" and "mistakes_kept k u" and "score_ok u" and "clocked u"
    and "vk_last_timestamp_ns u < 2 ^ 63" and "vk_penalties u = vk_penalties k"
  shows "scorer_ready u \<and> vk_run_id u = vk_run_id k"
  using assms by (simp add: scorer_ready_def mistakes_kept_def setting_def)

lemma scorer_fail_ready:
  assumes "scorer_ready k" and "nonempty_text reason \<noteq> None"
  shows "wp (scorer_fail reason) (\<lambda>_ u. scorer_ready u \<and> vk_run_id u = vk_run_id k) (\<lambda>_ _. False) k"
  using assms(2) scorer_ready_kept [OF assms(1), of "k\<lparr>vk_diagnostic := d\<rparr>" for d] assms(1)
  by (auto simp: scorer_fail_def wp_def scorer_ready_def mistakes_defs split: option.splits)

section \<open>The finalizer\<close>

text \<open>A finalizer that has reported nothing, and what its report shows.\<close>

definition reportable :: "score_action list \<Rightarrow> string \<Rightarrow> vfs_scorer finalizer \<Rightarrow> bool" where
  "reportable shown rid f \<longleftrightarrow>
     fi_result f = None \<and> \<not> fi_failure_written f \<and> fi_files f = (\<lambda>_. None) \<and> filter visible (fi_log f) = shown
     \<and> scorer_ready (fi_scorer f) \<and> vk_run_id (fi_scorer f) = rid"

lemma vfs_finalizer_total:
  assumes encode: "json_encoder encode" and f: "reportable shown rid f"
  shows "wp (finalizer_finalize vfs_ops encode calm t) (\<lambda>r u. fi_result u = Some r
      \<and> filter visible (fi_log u) = shown @ report_log rid r) (\<lambda>_ _. False) f"
proof -
  have mismatch: "wp (if b then scorer_call (so_fail vfs_ops (VStr ''source_finished_timestamp_mismatch'')) else ireturn ())
      (\<lambda>_. reportable shown rid) (\<lambda>_ _. False) f" for b
  proof -
    have "scorer_ready (fi_scorer f)" using f by (simp add: reportable_def)
    then obtain k where "scorer_fail (VStr ''source_finished_timestamp_mismatch'') (fi_scorer f) = (Inr (), k)"
        "scorer_ready k" "vk_run_id k = vk_run_id (fi_scorer f)"
      by (rule wp_returns [OF scorer_fail_ready]) (use that in \<open>auto simp: nonempty_text_def\<close>)
    then show ?thesis
      using f by (auto simp: scorer_call_def wp_def vfs_ops_def reportable_def)
  qed
  have rest: "wp (ibind (scorer_call (so_finalize vfs_ops)) (\<lambda>r. ibind (persist_score_outputs encode calm r) (\<lambda>_.
      ibind (publish_events calm (sr_events r)) (\<lambda>_. ibind (act calm Flush) (\<lambda>_. ibind (report vfs_ops calm r) (\<lambda>_.
      ibind (imodify (\<lambda>s. s\<lparr>fi_result := Some r\<rparr>)) (\<lambda>_. ireturn r)))))))
      (\<lambda>r u. fi_result u = Some r \<and> filter visible (fi_log u) = shown @ report_log rid r) (\<lambda>_ _. False) g"
    if g: "reportable shown rid g" for g
  proof -
    have k: "scorer_ready (fi_scorer g)" "canonical_uuid rid" "0 \<le> vk_last_timestamp_ns (fi_scorer g)"
      using g by (auto simp: reportable_def scorer_ready_def clocked_def)
    obtain r k where r: "vfs_finalize None (fi_scorer g) = (Inr r, k)" "json_result r" "sr_events r \<noteq> []"
      "0 \<le> ev_sim_timestamp_ns (List.last (sr_events r))" "vk_run_id k = rid"
      by (rule wp_returns [OF vfs_finalize_total [OF k(1)]]) (use k(3) g that in \<open>auto simp: reportable_def\<close>)
    have persist: "wp (persist_score_outputs encode calm r) (\<lambda>_. later (g\<lparr>fi_scorer := k\<rparr>)) (\<lambda>_ _. False) (g\<lparr>fi_scorer := k\<rparr>)"
      using encode r(2) g by (intro persist_calm) (simp_all add: reportable_def)
    have so: "so_finalize vfs_ops = vfs_finalize None" "so_run_id vfs_ops = vk_run_id"
      by (simp_all add: vfs_ops_def)
    show ?thesis
      using g r k
      by (auto simp: wp_scorer_call so later_sel report_log_def reportable_def
          intro!: wp_mono [OF persist] wp_mono [OF report_calm [where rid = rid]])
  qed
  have None: "fi_result f = None" using f by (simp add: reportable_def)
  show ?thesis
    unfolding finalizer_finalize_def wp_ibind [of "iget g" for g] wp_iget None option.case
      wp_ibind [of "if b then m else n" for b m n]
    by (rule wp_mono [OF mismatch]) (rule rest, assumption, simp)
qed

section \<open>Late requests\<close>

text \<open>
  An event of the run with a stamp of 64 bits, whose request was not judged on the merits before.
\<close>

definition awaits :: "(string \<Rightarrow> pyval option) \<Rightarrow> vfs_judge \<Rightarrow> mission_event_sample \<Rightarrow> bool" where
  "awaits decode j e \<longleftrightarrow> me_run_id e = vj_run_id j \<and> me_sim_timestamp_ns e < 2 ^ 63
     \<and> (\<forall>c r p c' d. parse_request (decode (me_detail e)) = Some (c, r)
          \<and> map_of (vj_requests j) r = Some (p, c', d) \<longrightarrow> de_outcome d = ErrorOutcome)"

text \<open>The judge answers with errors and keeps only errors.\<close>

definition only_errors :: "vfs_judge \<Rightarrow> vfs_judge \<Rightarrow> bool" where
  "only_errors j u \<longleftrightarrow> vj_run_id u = vj_run_id j
     \<and> (\<forall>r p c d. map_of (vj_requests u) r = Some (p, c, d)
          \<longrightarrow> de_outcome d = ErrorOutcome \<or> map_of (vj_requests j) r = Some (p, c, d))"

lemma awaits_only_errors: "awaits decode j e \<Longrightarrow> only_errors j u \<Longrightarrow> awaits decode u e"
  unfolding awaits_def only_errors_def by metis

lemma error_decision_total:
  "wp (error_decision e r c reason elapsed) (\<lambda>d u. de_outcome d = ErrorOutcome \<and> u = j\<lparr>vj_decision_id := vj_decision_id j + 1\<rparr>)
    (\<lambda>_ _. False) j"
  by (simp add: error_decision_def next_decision_def decision_of_def evidence_error_def)

lemma missing_total:
  assumes "awaits decode j e"
  shows "wp (reject_mission_event_missing_evidence decode e)
    (\<lambda>ds u. (\<forall>d\<in>set ds. de_outcome d = ErrorOutcome) \<and> only_errors j u) (\<lambda>_ _. False) j"
proof -
  note err = error_decision_total [of e _ _ _ _ j, THEN wp_mono]
  have "wp (answer_request e c r (error_decision e r c ''evidence_stale_or_missing''
      (active_elapsed_at (me_sim_timestamp_ns e))))
      (\<lambda>ds u. (\<forall>d\<in>set ds. de_outcome d = ErrorOutcome) \<and> only_errors j u) (\<lambda>_ _. False) j"
    if "parse_request (decode (me_detail e)) = Some (c, r)" for c r
    using that assms
    by (auto simp: answer_request_def awaits_def only_errors_def update_conv' intro!: err split: option.splits)
  then show ?thesis
    using assms
    by (auto simp: reject_mission_event_missing_evidence_def check_request_def awaits_def only_errors_def
        intro!: err split: option.splits)
qed

lemma only_errors_trans: "only_errors i j \<Longrightarrow> only_errors j u \<Longrightarrow> only_errors i u"
  unfolding only_errors_def by metis

definition unreported :: "score_action list \<Rightarrow> string \<Rightarrow> vfs_runtime \<Rightarrow> bool" where
  "unreported shown rid s \<longleftrightarrow> (\<exists>f. vr_scoring s = FinalizedScorer f \<and> reportable shown rid f)"

text \<open>What the answer to a late request leaves as it was.\<close>

definition late_step :: "score_action list \<Rightarrow> string \<Rightarrow> vfs_runtime \<Rightarrow> vfs_runtime \<Rightarrow> bool" where
  "late_step shown rid s u \<longleftrightarrow> unreported shown rid u \<and> only_errors (vr_judge s) (vr_judge u)
     \<and> vr_last_epoch_timestamp_ns u = vr_last_epoch_timestamp_ns s"

lemma late_step_trans: "late_step shown rid s u \<Longrightarrow> late_step shown rid u v \<Longrightarrow> late_step shown rid s v"
  unfolding late_step_def using only_errors_trans by metis

lemma late_step_refl: "unreported shown rid s \<Longrightarrow> late_step shown rid s s"
  by (simp add: late_step_def only_errors_def)

lemma mission_event_ready:
  assumes "scorer_ready k" and "me_sim_timestamp_ns e < 2 ^ 63"
  shows "scorer_ready (scorer_accept_mission_event e k) \<and> vk_run_id (scorer_accept_mission_event e k) = vk_run_id k"
proof (rule scorer_ready_kept [OF assms(1)])
  have k: "score_ok k" "accounted k" "clocked k" "vk_last_timestamp_ns k < 2 ^ 63"
    using assms(1) by (simp_all add: scorer_ready_def)
  show "mistakes_kept k (scorer_accept_mission_event e k)"
    using vfs_scorer_call_kept [OF k(2), of L "SMission e" for L] by simp
  show "vk_last_timestamp_ns (scorer_accept_mission_event e k) < 2 ^ 63"
    "vk_penalties (scorer_accept_mission_event e k) = vk_penalties k"
    using k(4) assms(2) by (simp_all add: scorer_accept_mission_event_def observe_def Let_def)
qed (use assms(1) score_ok_samples(3) clocked_samples(4) in \<open>simp_all add: scorer_ready_def\<close>)

lemma errors_ignored:
  assumes "unreported shown rid s" and "\<And>before a. ve_announce E before a = None"
    and "\<forall>d\<in>set ds. de_outcome d = ErrorOutcome"
  shows "wp (for_each (\<lambda>d. ibind (on_scorer (scorer_accept_judge_decision (ve_libm E) d))
      (\<lambda>_. announce (ve_announce E) (DecisionOut d))) ds) (\<lambda>_. late_step shown rid s) (\<lambda>_ _. False) s"
  using assms(1,3)
proof (induction ds arbitrary: s)
  case Nil
  then show ?case unfolding for_each.simps wp_ireturn by (simp add: late_step_refl)
next
  case (Cons d ds)
  let ?u = "s\<lparr>vr_log := vr_log s @ [DecisionOut d]\<rparr>"
  obtain f where f: "vr_scoring s = FinalizedScorer f" using Cons.prems(1) by (auto simp: unreported_def)
  have u: "unreported shown rid ?u" using Cons.prems(1) by (simp add: unreported_def)
  have said: "wp (announce (ve_announce E) a) Q X v = Q () (v\<lparr>vr_log := vr_log v @ [a]\<rparr>)" for a Q X v
    by (simp add: assms(2))
  have "wp (on_scorer (scorer_accept_judge_decision (ve_libm E) d)) (\<lambda>_ v. v = s) (\<lambda>_ _. False) s"
    using Cons.prems(2) by (simp add: wp_on_scorer f scorer_accept_judge_decision_def)
  then show ?case
    unfolding for_each.simps wp_ibind
  proof (rule wp_mono)
    fix v assume v: "v = s"
    show "wp (announce (ve_announce E) (DecisionOut d)) (\<lambda>_. wp (for_each (\<lambda>d. ibind (on_scorer
        (scorer_accept_judge_decision (ve_libm E) d)) (\<lambda>_. announce (ve_announce E) (DecisionOut d))) ds)
        (\<lambda>_. late_step shown rid s) (\<lambda>_ _. False)) (\<lambda>_ _. False) v"
      unfolding said v
      by (rule wp_mono [OF Cons.IH [OF u]]) (use Cons.prems(2) in \<open>simp_all add: late_step_def\<close>)
  qed
qed

lemma late_answered:
  assumes "unreported shown rid s" and "\<And>before a. ve_announce E before a = None"
    and "awaits (ve_decode E) (vr_judge s) e"
  shows "wp (accept_mission_event_now E True e) (\<lambda>_. late_step shown rid s) (\<lambda>_ _. False) s"
proof -
  have step: "late_step shown rid s v"
    if "late_step shown rid u v" "unreported shown rid u" "only_errors (vr_judge s) (vr_judge u)"
      "vr_last_epoch_timestamp_ns u = vr_last_epoch_timestamp_ns s" for u v
    using late_step_trans [of shown rid s u v] that by (simp add: late_step_def)
  have judged: "wp (on_judge (reject_mission_event_missing_evidence (ve_decode E) e))
      (\<lambda>ds u. (\<forall>d\<in>set ds. de_outcome d = ErrorOutcome) \<and> late_step shown rid s u) (\<lambda>_ _. False) s"
    unfolding wp_on_judge
    by (rule wp_mono [OF missing_total [OF assms(3)]])
      (use assms(1) in \<open>auto simp: late_step_def unreported_def\<close>)
  have noted: "wp (on_scorer (imodify (scorer_accept_mission_event e))) (\<lambda>_. late_step shown rid u) (\<lambda>_ _. False) u"
    if "unreported shown rid u" for u
    using that mission_event_ready [where e = e] assms(3)
    by (auto simp: wp_on_scorer unreported_def late_step_def only_errors_def reportable_def awaits_def)
  show ?thesis
    unfolding accept_mission_event_now_def if_True wp_ibind [of "on_judge m" for m] wp_ibind [of "on_scorer m" for m]
  proof (rule wp_mono [OF judged])
    fix ds :: "judge_decision list" and u
    assume u: "(\<forall>d\<in>set ds. de_outcome d = ErrorOutcome) \<and> late_step shown rid s u"
    then have r: "unreported shown rid u" by (simp add: late_step_def)
    show "wp (on_scorer (imodify (scorer_accept_mission_event e))) (\<lambda>_. wp (for_each (\<lambda>d. ibind (on_scorer
        (scorer_accept_judge_decision (ve_libm E) d)) (\<lambda>_. announce (ve_announce E) (DecisionOut d))) ds)
        (\<lambda>_. late_step shown rid s) (\<lambda>_ _. False)) (\<lambda>_ _. False) u"
    proof (rule wp_mono [OF noted [OF r]])
      fix x v assume v: "late_step shown rid u v"
      have "unreported shown rid v" using v by (simp add: late_step_def)
      from errors_ignored [OF this assms(2) conjunct1 [OF u]]
      show "wp (for_each (\<lambda>d. ibind (on_scorer (scorer_accept_judge_decision (ve_libm E) d))
          (\<lambda>_. announce (ve_announce E) (DecisionOut d))) ds) (\<lambda>_. late_step shown rid s) (\<lambda>_ _. False) v"
        by (rule wp_mono) (use u v late_step_trans in blast)+
    qed simp
  qed simp
qed

lemma late_resolved:
  assumes "unreported shown rid s" and "\<And>before a. ve_announce E before a = None"
    and "\<forall>e\<in>set es. awaits (ve_decode E) (vr_judge s) e \<and> \<not> epoch_reached (me_sim_timestamp_ns e) s"
  shows "wp (resolve_checks E True es) (\<lambda>_. late_step shown rid s) (\<lambda>_ _. False) s"
  using assms(1,3)
proof (induction es arbitrary: s)
  case Nil
  then show ?case unfolding resolve_checks.simps wp_ireturn by (simp add: late_step_refl)
next
  case (Cons e es)
  have e: "awaits (ve_decode E) (vr_judge s) e" and n: "\<not> epoch_reached (me_sim_timestamp_ns e) s"
    using Cons.prems by simp_all
  have rest: "wp (resolve_checks E True es) (\<lambda>_. late_step shown rid s) (\<lambda>_ _. False) u" if u: "late_step shown rid s u" for u
  proof -
    have "\<forall>e\<in>set es. awaits (ve_decode E) (vr_judge u) e \<and> \<not> epoch_reached (me_sim_timestamp_ns e) u"
      using Cons.prems(2) u awaits_only_errors by (auto simp: late_step_def epoch_reached_def)
    from Cons.IH [OF _ this] have "wp (resolve_checks E True es) (\<lambda>_. late_step shown rid u) (\<lambda>_ _. False) u"
      using u unfolding late_step_def [of shown rid s u] by blast
    then show ?thesis by (rule wp_mono) (use late_step_trans [OF u] in auto)
  qed
  show ?case
    unfolding resolve_checks.simps wp_ibind [of "iget id"] wp_iget id_apply if_not_P [OF n] simp_thms if_True
      wp_ibind [of "accept_mission_event_now E True e"]
    by (rule wp_mono [OF late_answered [OF Cons.prems(1) assms(2) e]]) (rule rest, assumption, simp)
qed

section \<open>Finalization\<close>

lemma finalization_total:
  assumes encode: "json_encoder encode" and s: "unreported shown rid s"
    and quiet: "\<And>before a. ve_announce E before a = None"
    and late: "\<forall>e\<in>set (vr_pending_checks s). awaits (ve_decode E) (vr_judge s) e \<and> \<not> epoch_reached (me_sim_timestamp_ns e) s"
  shows "wp (vfs_accept_source_finished E encode calm t)
    (\<lambda>r u. \<exists>f. vr_scoring u = FinalizedScorer f \<and> fi_result f = Some r
       \<and> filter visible (fi_log f) = shown @ report_log rid r) (\<lambda>_ _. False) s"
proof -
  obtain f where f: "vr_scoring s = FinalizedScorer f" using s by (auto simp: unreported_def)
  have configured: "wp finalization_configured (\<lambda>_ u. u = s) (\<lambda>_ _. False) s"
    by (simp add: finalization_configured_def wp_def f)
  have resolved: "wp (resolve_pending_checks E True) (\<lambda>_. unreported shown rid) (\<lambda>_ _. False) s"
    unfolding resolve_pending_checks_def wp_ibind [of "iget g" for g] wp_iget wp_ibind [of "resolve_checks E b es" for b es]
      wp_imodify
    by (rule wp_mono [OF late_resolved [OF s quiet late]]) (auto simp: late_step_def unreported_def)
  have finalized: "wp (on_vfs_finalizer (finalizer_finalize vfs_ops encode calm (Some t)))
    (\<lambda>r u. \<exists>f. vr_scoring u = FinalizedScorer f \<and> fi_result f = Some r
       \<and> filter visible (fi_log f) = shown @ report_log rid r) (\<lambda>_ _. False) u" if "unreported shown rid u" for u
  proof -
    obtain g where g: "vr_scoring u = FinalizedScorer g" "reportable shown rid g"
      using \<open>unreported shown rid u\<close> by (auto simp: unreported_def)
    from vfs_finalizer_total [OF encode g(2), of "Some t"] show ?thesis
      using g(1) by (auto simp: wp_def on_vfs_finalizer_def split: prod.splits sum.splits)
  qed
  show ?thesis
    unfolding vfs_accept_source_finished_def wp_ibind
    by (rule wp_mono [OF configured], simp, rule wp_mono [OF resolved], rule finalized) auto
qed

text \<open>A finalizer that has reported nothing; the run directory holds no score.\<close>

definition untouched :: "vfs_scorer finalizer \<Rightarrow> bool" where
  "untouched f \<longleftrightarrow> fi_result f = None \<and> \<not> fi_failure_written f \<and> fi_files f = (\<lambda>_. None)"

text \<open>A scorer that was made from the loaded rules and a validated course is ready after any run.\<close>

lemma run_unreported:
  assumes "validate_vfs_scenario scenario_document = Inr scenario"
    and "load_vfs_rules rules_document checksum = Inr rules"
    and "validate_vfs_course M course_document = Inr course'"
    and "VfsJudge rid course scenario = Inr j" and "VfsScorer rid' rules course' scenario weight = Inr k"
    and "VfsScorekeeperRuntime run_id j (Some k) files = Inr s0"
    and "snd (vfs_run W ops s0) = s" and "vr_scoring s = FinalizedScorer f" and "untouched f"
    and "vk_last_timestamp_ns (fi_scorer f) < 2 ^ 63" and "25 * (length (vk_penalties (fi_scorer f)) + 1) < 2 ^ 53"
  shows "unreported (filter visible (fi_log f)) run_id s"
proof -
  have made: "kept_scorer scenario k k"
    by (rule kept_scorer_fresh [OF assms(5) load_official [OF assms(2)] validated_targets [OF assms(1)]])
  have "sound (ve_decode (vw_env W)) scenario (kept_scorer scenario k) bounded_result {} s"
    unfolding assms(7) [symmetric]
    by (rule vfs_kept.run_sound [OF refl sound_fresh [OF assms(4,6)]]) (use made in simp)
  then have f: "kept_scorer scenario k (fi_scorer f)"
    by (simp add: sound_def scoring_fine_def assms(8))
  have k: "vk_run_id k = run_id" "canonical_uuid (vk_run_id k)" "isfinite (vk_weight_lb k)" "vk_course k = course'"
    using assms(5,6) by (auto simp: VfsScorer_def VfsScorekeeperRuntime_def refuse_def
        dest: run_id_canonical split: if_splits option.splits)
  have "va_duration_seconds (vc_attempt course') = Fin 600"
    using validated_course_well_formed [OF assms(3)] by blast
  then have "scorer_ready (fi_scorer f)" "vk_run_id (fi_scorer f) = run_id"
    using f k assms(10,11) by (simp_all add: scorer_ready_def kept_scorer_def official_scorer_def setting_def)
  then show ?thesis
    using assms(8,9) by (simp add: unreported_def reportable_def untouched_def)
qed

text \<open>
  C19. The end of the input, without faults outside. A runtime is made from a validated scenario and
  course and the loaded rules, its encoder is any that accepts the documents without NaN and
  infinite floats, and it was run on any input. If it has reported nothing yet and its run directory
  holds no score, stamps have 64 bits and fewer than 2^53 / 25 penalties were counted, and every
  request still pending is one of the run that waits for an instant that never came and was not
  judged on the merits before, then the call returns: every pending request has been
  answered, the score is final, its files are stored and its whole report is published.
\<close>

theorem attempt_ends_with_a_report:
  assumes "validate_vfs_scenario scenario_document = Inr scenario"
    and "load_vfs_rules rules_document checksum = Inr rules"
    and "validate_vfs_course M course_document = Inr course'"
    and "VfsJudge rid course scenario = Inr j" and "VfsScorer rid' rules course' scenario weight = Inr k"
    and "VfsScorekeeperRuntime run_id j (Some k) files = Inr s0"
    and "snd (vfs_run W ops s0) = s" and "vr_scoring s = FinalizedScorer f0" and "untouched f0"
    and "vk_last_timestamp_ns (fi_scorer f0) < 2 ^ 63" and "25 * (length (vk_penalties (fi_scorer f0)) + 1) < 2 ^ 53"
    and "json_encoder (vw_encode W)" and "\<forall>before a. ve_announce (vw_env W) before a = None"
    and "list_all (\<lambda>e. awaits (ve_decode (vw_env W)) (vr_judge s) e \<and> \<not> epoch_reached (me_sim_timestamp_ns e) s)
      (vr_pending_checks s)"
  shows "\<exists>r u f. vfs_accept_source_finished (vw_env W) (vw_encode W) calm t s = (Inr r, u)
    \<and> vr_scoring u = FinalizedScorer f \<and> fi_result f = Some r
    \<and> filter visible (fi_log f) = filter visible (fi_log f0) @ report_log run_id r
    \<and> vr_pending_checks u = []
    \<and> (\<forall>e\<in>set (vr_pending_checks s). \<forall>q. is_request (ve_decode (vw_env W)) e q \<longrightarrow> replied q u)"
proof -
  let ?S = "sound (ve_decode (vw_env W)) scenario (\<lambda>_. True) (\<lambda>_. True)"
  let ?shown = "filter visible (fi_log f0)"
  have "?S {} s"
    unfolding assms(7) [symmetric] by (rule vfs_any.run_sound [OF refl sound_fresh [OF assms(4,6)]]) simp
  then have "?S (set (vr_pending_checks s)) s"
    by (simp add: sound_def)
  from vfs_any.source_finished_sound [OF this refl, of "vw_encode W" calm t]
  have answered: "wp (vfs_accept_source_finished (vw_env W) (vw_encode W) calm t)
      (\<lambda>_ u. ?S (set (vr_pending_checks s)) u \<and> vr_pending_checks u = []) (\<lambda>_ _. True) s"
    by (rule wp_mono) auto
  have returns: "wp (vfs_accept_source_finished (vw_env W) (vw_encode W) calm t)
      (\<lambda>r u. \<exists>f. vr_scoring u = FinalizedScorer f \<and> fi_result f = Some r
         \<and> filter visible (fi_log f) = ?shown @ report_log run_id r) (\<lambda>_ _. False) s"
    using run_unreported [OF assms(1-11)] assms(12-14) by (intro finalization_total) (auto simp: list_all_iff)
  have "wp (vfs_accept_source_finished (vw_env W) (vw_encode W) calm t)
      (\<lambda>r u. (\<exists>f. vr_scoring u = FinalizedScorer f \<and> fi_result f = Some r
         \<and> filter visible (fi_log f) = ?shown @ report_log run_id r)
         \<and> ?S (set (vr_pending_checks s)) u \<and> vr_pending_checks u = []) (\<lambda>_ _. False) s"
    by (rule wp_mono [OF wp_conj [OF returns answered]]) auto
  then show ?thesis
    by (rule wp_returns) (auto simp: sound_def)
qed

end
