(* ===== verification/Vfs_Judge_Rest.thy ===== *)
theory Vfs_Judge_Rest
  imports Vfs_Judge_Props
begin

text \<open>
  The rest of the payloads: what the judge notes of a payload agrees with every state of it a run
  has accepted, so that a payload it counts for the second check did not move for the settle time.
\<close>

text \<open>The payload states a run accepts, in order.\<close>

fun accepted_payloads :: "judge_op list \<Rightarrow> 'a result list \<Rightarrow> payload_sample list" where
  "accepted_payloads (JPayload p # ops) (Inr _ # rs) = p # accepted_payloads ops rs"
| "accepted_payloads (_ # ops) (_ # rs) = accepted_payloads ops rs"
| "accepted_payloads _ _ = []"

text \<open>Only payload states change what the judge knows of the payloads.\<close>

definition cargo :: "vfs_judge \<Rightarrow> (int, payload_sample) dict \<times> (int, int) dict" where
  "cargo s = (vj_payloads s, vj_payload_grounded_since s)"

lemma cargo_simps [simp]:
  "cargo (stop_clock t s) = cargo s" "cargo (note_truth x s) = cargo s" "cargo (take_off x s) = cargo s"
  "cargo (terminate r s) = cargo s" "cargo (start_phase p s) = cargo s" "cargo (freeze_eligible t ids s) = cargo s"
  "cargo (s\<lparr>vj_paused := a\<rparr>) = cargo s" "cargo (s\<lparr>vj_finished := b\<rparr>) = cargo s"
  "cargo (s\<lparr>vj_status := c\<rparr>) = cargo s" "cargo (s\<lparr>vj_status_sequence := d\<rparr>) = cargo s"
  "cargo (s\<lparr>vj_fm1_d_approved := f\<rparr>) = cargo s" "cargo (s\<lparr>vj_decision_id := i\<rparr>) = cargo s"
  "cargo (s\<lparr>vj_requests := q\<rparr>) = cargo s"
  by (simp_all add: cargo_def stop_clock_def note_truth_def take_off_def terminate_def start_phase_def
      freeze_eligible_def Let_def split: option.splits)

lemma cargo_fm1: "cargo s = k \<Longrightarrow> keeps (fm1_verdict L c refs x v) (\<lambda>u. cargo u = k) s"
  by (simp add: fm1_verdict_def Let_def split: sum.splits)

lemma cargo_fm2: "cargo s = k \<Longrightarrow> keeps (fm2_verdict L now refs x v) (\<lambda>u. cargo u = k) s"
  by (simp add: fm2_verdict_def Let_def split: sum.splits)

lemma cargo_fm3: "cargo s = k \<Longrightarrow> keeps (fm3_verdict L now refs x v) (\<lambda>u. cargo u = k) s"
  by (simp add: fm3_verdict_def Let_def split: sum.splits option.splits)

lemma cargo_check_verdict: "cargo s = k \<Longrightarrow> keeps (check_verdict L e c) (\<lambda>u. cargo u = k) s"
  using cargo_fm1 [of s k] cargo_fm2 [of s k] cargo_fm3 [of s k]
  by (simp add: check_verdict_def Let_def split: option.splits prod.splits)

lemma judge_call_cargo:
  assumes "\<nexists>p. op = JPayload p"
  shows "cargo (snd (judge_call L decode op s)) = cargo s"
proof -
  let ?P = "\<lambda>u. cargo u = cargo s"
  have "keeps (check_request decode e (\<lambda>c r. judge_decision_on L e r c)) ?P u" if "?P u" for e u
    using that by (intro check_request_keeps judge_decision_on_keeps cargo_check_verdict) simp_all
  moreover have "keeps (check_request decode e (\<lambda>c r. error_decision e r c reason elapsed)) ?P s"
    for e reason elapsed
    by (intro check_request_keeps error_decision_keeps) simp_all
  moreover have "keeps (judge_accept_ground_truth L x) ?P s" for x
    unfolding judge_accept_ground_truth_def
    by (auto simp del: wp_ibind intro!: keeps_steps
        simp: check_approval_timeout_def contact_change_def touch_down_def check_active_deadline_def
        split: option.splits sum.splits)
  moreover have "keeps (judge_accept_vehicle_status L v) ?P s" for v
    by (auto simp: judge_accept_vehicle_status_def split: option.splits sum.splits)
  ultimately have "keeps (judge_call L decode op) ?P s"
    using assms by (cases op) (simp_all add: judge_accept_payload_event_def judge_accept_mission_event_def
        reject_mission_event_missing_evidence_def)
  then show ?thesis
    by (auto simp: wp_def split: prod.splits sum.splits)
qed

text \<open>
  The judge knows the latest state accepted of every payload, and has seen a payload at rest in
  every state since the time it notes for it.
\<close>

definition rested :: "libm \<Rightarrow> payload_sample list \<Rightarrow> vfs_judge \<Rightarrow> bool" where
  "rested L ps s \<longleftrightarrow>
     (\<forall>q\<in>set ps. \<exists>p\<in>set ps. map_of (vj_payloads s) (ps_aruco_id q) = Some p \<and> ps_aruco_id p = ps_aruco_id q
        \<and> ps_sim_timestamp_ns q \<le> ps_sim_timestamp_ns p)
     \<and> (\<forall>m p. map_of (vj_payloads s) m = Some p \<longrightarrow> p \<in> set ps \<and> ps_aruco_id p = m)
     \<and> (\<forall>m t. map_of (vj_payload_grounded_since s) m = Some t \<longrightarrow>
          (\<forall>q\<in>set ps. ps_aruco_id q = m \<and> t \<le> ps_sim_timestamp_ns q \<longrightarrow> payload_at_rest L q))"

lemma rested_cargo: "cargo u = cargo s \<Longrightarrow> rested L ps u = rested L ps s"
  by (simp add: rested_def cargo_def)

lemma rested_note:
  assumes r: "rested L ps s"
    and new: "\<And>q. map_of (vj_payloads s) (ps_aruco_id p) = Some q \<Longrightarrow> ps_sim_timestamp_ns q < ps_sim_timestamp_ns p"
  shows "rested L (ps @ [p]) (note_payload L p s)"
proof -
  have older: "ps_sim_timestamp_ns q < ps_sim_timestamp_ns p" if "q \<in> set ps" "ps_aruco_id q = ps_aruco_id p" for q
    using r new that by (fastforce simp: rested_def)
  have 1: "\<forall>q\<in>set (ps @ [p]). \<exists>p'\<in>set (ps @ [p]).
      map_of (vj_payloads (note_payload L p s)) (ps_aruco_id q) = Some p' \<and> ps_aruco_id p' = ps_aruco_id q
        \<and> ps_sim_timestamp_ns q \<le> ps_sim_timestamp_ns p'"
    using r older by (fastforce simp: rested_def note_payload_def Let_def update_conv')
  have 2: "map_of (vj_payloads (note_payload L p s)) m = Some q \<Longrightarrow> q \<in> set (ps @ [p]) \<and> ps_aruco_id q = m" for m q
    using r by (auto simp: rested_def note_payload_def Let_def update_conv' split: if_splits)
  have 3: "payload_at_rest L q"
    if t: "map_of (vj_payload_grounded_since (note_payload L p s)) m = Some t" "q \<in> set (ps @ [p])"
      "ps_aruco_id q = m \<and> t \<le> ps_sim_timestamp_ns q" for m t q
  proof (cases "m = ps_aruco_id p")
    case True
    then have "payload_at_rest L p"
      using t(1) by (auto simp: note_payload_def Let_def delete_conv' split: if_splits)
    then show ?thesis
      using t True older [of q] r by (auto simp: rested_def note_payload_def Let_def update_conv' split: if_splits)
  next
    case False
    then have "map_of (vj_payload_grounded_since s) m = Some t"
      using t(1) by (auto simp: note_payload_def Let_def update_conv' delete_conv' split: if_splits)
    then show ?thesis
      using t(2,3) False r by (auto simp: rested_def)
  qed
  show ?thesis using 1 2 3 by (auto simp: rested_def)
qed

lemma run_rested:
  "rested L ps s \<Longrightarrow>
   rested L (ps @ accepted_payloads ops (fst (judge_run L decode ops s))) (snd (judge_run L decode ops s))"
proof (induction ops arbitrary: ps s)
  case Nil
  then show ?case by simp
next
  case (Cons op ops)
  obtain r u where r: "judge_call L decode op s = (r, u)" by fastforce
  have "rested L (ps @ accepted_payloads [op] [r]) u"
  proof (cases "\<exists>p. op = JPayload p")
    case False
    then have "accepted_payloads [op] [r] = []" by (cases op; cases r) simp_all
    then show ?thesis
      using Cons.prems judge_call_cargo [of op L decode s] False r rested_cargo [of u s] by simp
  next
    case True
    then obtain p where p: "op = JPayload p" ..
    have "case r of Inl _ \<Rightarrow> u = s | Inr _ \<Rightarrow> rested L (ps @ [p]) u"
      using r p rested_note [OF Cons.prems, of p]
      by (auto simp: judge_accept_payload_state_def ibind_def same_run_def split: if_splits option.splits)
    then show ?thesis using p Cons.prems by (cases r) simp_all
  qed
  from Cons.IH [OF this] show ?case
    using r by (cases op; cases r) (simp_all del: judge_call.simps)
qed

lemma rested_fresh: "VfsJudge run_id course scenario = Inr s \<Longrightarrow> rested L [] s"
  by (auto simp: VfsJudge_def rested_def)

text \<open>
  C18. A payload a new approval of the second check freezes was at rest throughout the settle time:
  of the states of it the run accepted, the latest is fresh, and every one within the settle time
  before the latest was grounded and slow.
\<close>

theorem eligible_payloads_rested:
  assumes "VfsJudge run_id course scenario = Inr s" and "judge_run L decode ops s = (rs, u)"
    and "judge_accept_mission_event L decode e u = (Inr [d], u')"
    and "parse_request (decode (me_detail e)) = Some (c, r)" and "map_of (vj_requests u) r = None"
    and "is_approved ''FM2'' d" and "m \<in> set (de_eligible_aruco_ids d)"
    and "nanoseconds (vi_settle_time_s (vs_payload_interaction scenario)) = Inr settle" and "0 < settle"
  shows "\<exists>p\<in>set (accepted_payloads ops rs). ps_aruco_id p = m
    \<and> fresh EVIDENCE_FRESHNESS_NS (me_sim_timestamp_ns e) (ps_sim_timestamp_ns p)
    \<and> (\<forall>q\<in>set (accepted_payloads ops rs). ps_aruco_id q = m \<longrightarrow> ps_sim_timestamp_ns q \<le> ps_sim_timestamp_ns p
         \<and> (ps_sim_timestamp_ns p - settle \<le> ps_sim_timestamp_ns q \<longrightarrow> payload_at_rest L q))"
proof -
  have sc: "vj_scenario u = scenario"
    using run_scenario [of L decode ops s] assms(1,2) by (auto simp: VfsJudge_def)
  have rest: "rested L (accepted_payloads ops rs) u"
    using run_rested [OF rested_fresh [OF assms(1)], of L ops decode] assms(2) by simp
  obtain p where p: "map_of (vj_payloads u) m = Some p" "settle \<le> settled_for u m p"
    and f: "fresh EVIDENCE_FRESHNESS_NS (me_sim_timestamp_ns e) (ps_sim_timestamp_ns p)"
    using eligible_filter [of L "me_sim_timestamp_ns e" u] second_approval [OF assms(3-6)] assms(7,8) sc
    by (auto simp: delivered_to_def)
  obtain t where t: "map_of (vj_payload_grounded_since u) m = Some t" "t \<le> ps_sim_timestamp_ns p - settle"
    using p(2) assms(9) by (auto simp: settled_for_def split: option.splits)
  have known: "p \<in> set (accepted_payloads ops rs)" "ps_aruco_id p = m"
    using rest p(1) by (simp_all add: rested_def)
  have "ps_sim_timestamp_ns q \<le> ps_sim_timestamp_ns p
      \<and> (ps_sim_timestamp_ns p - settle \<le> ps_sim_timestamp_ns q \<longrightarrow> payload_at_rest L q)"
    if q: "q \<in> set (accepted_payloads ops rs)" "ps_aruco_id q = m" for q
  proof -
    have "ps_sim_timestamp_ns q \<le> ps_sim_timestamp_ns p"
      using rest q p(1) unfolding rested_def by fastforce
    moreover have "payload_at_rest L q" if "t \<le> ps_sim_timestamp_ns q"
      using rest q t(1) that unfolding rested_def by blast
    ultimately show ?thesis using t(2) by auto
  qed
  then show ?thesis using known f by blast
qed

end
