(* ===== verification/Vfs_Examples.thy ===== *)
theory Vfs_Examples
  imports Vfs_Config Vfs_Runtime_Live Vfs_Judge_Rest
begin

text \<open>
  A short attempt on the configuration of the repository: payload 2 is dropped on C and carried back
  to L, and the second and the last check are approved. The properties of the judge, the scorer and
  the runtime apply to it.
\<close>

section \<open>A field of integers\<close>

definition field_course :: vfs_course where
  "field_course =
     \<lparr>vc_waypoints = [(''H'', circle ''H'' (Fin 0) (Fin 0) (Fin 5) ''home''),
        (''C'', circle ''C'' (Fin 20) (Fin 0) (Fin 3) ''drop_target''),
        (''L'', (spot ''L'' (Fin (- 20)) (Fin 0) ''landing'')\<lparr>wp_width := Some (Fin 10), wp_height := Some (Fin 10)\<rparr>)],
      vc_attempt = attempt_2027\<lparr>va_aircraft_radius_m := Fin 1, va_ground_contact_epsilon_m := Fin 0\<rparr>,
      vc_ground_z_m = Fin 0\<rparr>"

definition field_scenario :: vfs_scenario where
  "field_scenario = scenario\<lparr>vs_payload_geometry := geometry_2027\<lparr>vg_size_m := [Fin 2, Fin 2, Fin 2]\<rparr>\<rparr>"

section \<open>Samples\<close>

definition vehicle :: "int \<Rightarrow> bool \<Rightarrow> ground_truth_sample" where
  "vehicle t ground =
     \<lparr>gt_run_id = sample_run_id, gt_sim_timestamp_ns = t,
      gt_position_xyz = [Fin 0, Fin 0, if ground then Fin 0 else Fin 10], gt_orientation_xyzw = upright,
      gt_linear_velocity_xyz = at_rest, gt_angular_velocity_xyz = at_rest, gt_in_contact = ground\<rparr>"

definition container :: "int \<Rightarrow> int \<Rightarrow> pyfloat \<Rightarrow> bool \<Rightarrow> payload_sample" where
  "container t m x ground =
     \<lparr>ps_run_id = sample_run_id, ps_sim_timestamp_ns = t, ps_aruco_id = m,
      ps_position_xyz = [x, Fin 0, Fin 1], ps_orientation_xyzw = upright,
      ps_linear_velocity_xyz = at_rest, ps_grounded = ground, ps_attached = False\<rparr>"

definition disarmed :: "int \<Rightarrow> int \<Rightarrow> vehicle_status_sample" where
  "disarmed t i =
     \<lparr>vt_run_id = sample_run_id, vt_sim_timestamp_ns = t, vt_sequence_id = i, vt_vehicle_id = ''uav'',
      vt_armed = False, vt_mode = ''LAND'', vt_failsafe_active = False, vt_failsafe_reason = ''''\<rparr>"

definition event :: "int \<Rightarrow> int \<Rightarrow> string \<Rightarrow> string \<Rightarrow> string \<Rightarrow> mission_event_sample" where
  "event t i phase_name st detail =
     \<lparr>me_run_id = sample_run_id, me_sim_timestamp_ns = t, me_event_id = i, me_phase = phase_name,
      me_state = st, me_detail = detail\<rparr>"

text \<open>The detail of a request is decoded to a request that bears it as its identity.\<close>

definition decode_request :: "string \<Rightarrow> pyval option" where
  "decode_request text = Some (VDict [(VStr ''checkpoint'', VStr []), (VStr ''request_id'', VStr text)])"

lemma parse_decode [simp]: "text \<noteq> [] \<Longrightarrow> parse_request (decode_request text) = Some ([], text)"
  by (simp add: parse_request_def decode_request_def has_keys_def entry_def)

definition second_check :: mission_event_sample where
  "second_check = event 1000000000 1 ''FM2'' ''CHECK_REQUESTED'' ''second''"

definition last_check :: mission_event_sample where
  "last_check = event 2000000000 3 ''FM3'' ''CHECK_REQUESTED'' ''last''"

definition drop_leg :: "judge_op list" where
  "drop_leg =
     [JTruth (vehicle 0 True), JMission (event 0 0 ''FM2'' ''STARTED'' ''''),
      JPayload (container 0 2 (Fin 20) True),
      JTruth (vehicle 500000000 False),
      JPayload (container 1000000000 2 (Fin 20) True),
      JPayload (container 1000000000 3 (Fin 0) False), JPayload (container 1000000000 4 (Fin 0) False),
      JTruth (vehicle 1000000000 True), JStatus (disarmed 1000000000 1)]"

definition return_leg :: "judge_op list" where
  "return_leg =
     [JMission (event 1000000001 2 ''FM3'' ''STARTED'' ''''), JTruth (vehicle 1500000000 False),
      JPayload (container 2000000000 2 (Fin (- 20)) True),
      JTruth (vehicle 2000000000 True), JStatus (disarmed 2000000000 2)]"

section \<open>Evaluation\<close>

lemma ibind_apply:
  "ibind m f s = (case m s of (Inl e, u) \<Rightarrow> (Inl e, u) | (Inr x, u) \<Rightarrow> f x u)"
  by (simp add: ibind_def)

lemma run_ops_steps:
  "run_ops f (x # xs) s = (case f x s of (r, u) \<Rightarrow> case run_ops f xs u of (rs, v) \<Rightarrow> (r # rs, v))"
  by (simp split: prod.splits)

lemmas samples = vehicle_def container_def disarmed_def event_def upright_def at_rest_def

lemma rotation_upright:
  "rotation (Fin 0) (Fin 0) (Fin 0) (Fin 1) = [(Fin 1, Fin 0, Fin 0), (Fin 0, Fin 1, Fin 0), (Fin 0, Fin 0, Fin 1)]"
  by (simp add: rotation_def Let_def fmul_def fadd_def)

lemma contact_corners:
  assumes "x = 20 \<or> x = - 20"
  shows "contact_points square_libm (container t m (Fin x) True) [Fin 2, Fin 2, Fin 2] (Fin 0) (Fin 0)
    = [(Fin (x - 1), Fin (- 1)), (Fin (x - 1), Fin 1), (Fin (x + 1), Fin (- 1)), (Fin (x + 1), Fin 1)]"
proof -
  have "fle (Fin 1) (decimal 1 12) = False"
    by (simp add: decimals del: One_nat_def)
  then show ?thesis
    using assms
    by (auto simp: contact_points_def container_def upright_def rotation_upright corners_def corner_at_def fadd_def
        fmul_def fquot_def min_of_def py_min_def flt_def square_libm_def flight_libm_def Let_def)
qed

text \<open>The zones of the field: the slack of a comparison is a positive number.\<close>

lemma nine: "decimal 1 9 = Fin (4835703278458517 / 4835703278458516698824704)"
  by (simp add: decimals del: One_nat_def)

lemma slack:
  "fadd (Fin 3) (decimal 1 9) = Fin (844424930413443 / 281474976710656)"
  "fadd (Fin 4) (decimal 1 9) = Fin (1125899907124099 / 281474976710656)"
  "fadd (Fin 5) (decimal 1 9) = Fin (1407374883834755 / 281474976710656)"
  by (simp_all add: nine fadd_def rounding)

lemma zones:
  "aircraft_inside square_libm field_course ''H'' (vehicle t g) = Inr True"
  "zone_holds square_libm (circle ''C'' (Fin 20) (Fin 0) (Fin 3) ''drop_target'') (Fin 19, Fin (- 1)) (Fin 0)"
  "zone_holds square_libm ((spot ''L'' (Fin (- 20)) (Fin 0) ''landing'')\<lparr>wp_width := Some (Fin 10), wp_height := Some (Fin 10)\<rparr>)
     (Fin (- 21), Fin (- 1)) (Fin 0)"
  by (simp_all add: aircraft_inside_def field_course_def waypoint_named_def zone_holds_def vehicle_def places slack
      square_libm_def py_max_def flt_def)

lemma hull:
  assumes "x = 20 \<or> x = - 20"
  shows "convex_hull [(Fin (x - 1), Fin (- 1)), (Fin (x - 1), Fin 1), (Fin (x + 1), Fin (- 1)), (Fin (x + 1), Fin 1)]
    = [(Fin (x - 1), Fin (- 1)), (Fin (x + 1), Fin (- 1)), (Fin (x + 1), Fin 1), (Fin (x - 1), Fin 1)]"
  using assms
  by (auto simp: convex_hull_def Let_def chain_def less_eq_prod_def less_prod_def less_eq_pyfloat_def less_pyfloat_def
      orientation_def fmul_def)

lemma contained_at:
  "contained square_libm s (container t m (Fin 20) True) (circle ''C'' (Fin 20) (Fin 0) (Fin 3) ''drop_target'')"
  "contained square_libm s (container t m (Fin (- 20)) True)
     ((spot ''L'' (Fin (- 20)) (Fin 0) ''landing'')\<lparr>wp_width := Some (Fin 10), wp_height := Some (Fin 10)\<rparr>)"
  if "vj_scenario s = field_scenario" and "vj_course s = field_course"
  using that zones(2,3) contact_corners [of 20] contact_corners [of "- 20"] hull [of 20] hull [of "- 20"]
  by (simp_all add: contained_def field_scenario_def field_course_def payload_contained_def)

definition judge0 :: vfs_judge where
  "judge0 = \<lparr>vj_run_id = sample_run_id, vj_course = field_course, vj_scenario = field_scenario, vj_truth = None,
     vj_status = None, vj_payloads = [], vj_requests = [], vj_decision_id = 0,
     vj_status_sequence = 0, vj_started_at_ns = None, vj_active_since_ns = None,
     vj_active_accumulated_ns = 0, vj_paused = False, vj_approval_ns = 0, vj_phase = [],
     vj_finished = False, vj_terminal_failure_reason = None, vj_payload_grounded_since = [],
     vj_takeoff_count = 0, vj_fm1_d_approved = False, vj_fm2_approved = False,
     vj_fm2_airborne = False, vj_fm2_eligible_ids = [], vj_leg_peak_agl_m = Fin 0\<rparr>"

lemma judge0_fresh: "VfsJudge (VStr sample_run_id) field_course field_scenario = Inr judge0"
  by (simp add: VfsJudge_def judge0_def canonical_run_id_def)

lemma limits:
  "nanoseconds (va_duration_seconds (vc_attempt field_course)) = Inr 600000000000"
  "nanoseconds (va_approval_timeout_s (vc_attempt field_course)) = Inr 60000000000"
  "nanoseconds (vi_settle_time_s (vs_payload_interaction field_scenario)) = Inr 1000000000"
  "vc_ground_z_m field_course = Fin 0"
  "va_minimum_agl_m (vc_attempt field_course) = decimal 9144 3"
  "payload_targets field_scenario = [(2, ''C''), (3, ''C''), (4, ''C'')]"
  by (simp_all add: nanoseconds_def field_course_def attempt_2027_def field_scenario_def scenario_def
      interaction_2027_def fmul_def payload_targets_def)

lemma lookups:
  "map_of (vc_waypoints field_course) ''C'' = Some (circle ''C'' (Fin 20) (Fin 0) (Fin 3) ''drop_target'')"
  "map_of (vc_waypoints field_course) ''L''
    = Some ((spot ''L'' (Fin (- 20)) (Fin 0) ''landing'')\<lparr>wp_width := Some (Fin 10), wp_height := Some (Fin 10)\<rparr>)"
  by (simp_all add: field_course_def)

lemma sample_simps [simp]:
  "gt_run_id (vehicle t g) = sample_run_id" "gt_sim_timestamp_ns (vehicle t g) = t" "gt_in_contact (vehicle t g) = g"
  "gt_position_xyz (vehicle t g) ! 2 = (if g then Fin 0 else Fin 10)"
  "ps_run_id (container t m x g) = sample_run_id" "ps_sim_timestamp_ns (container t m x g) = t"
  "ps_aruco_id (container t m x g) = m" "ps_grounded (container t m x g) = g" "\<not> ps_attached (container t m x g)"
  "payload_at_rest square_libm (container t m x g) = g"
  "vt_run_id (disarmed t i) = sample_run_id" "vt_sim_timestamp_ns (disarmed t i) = t"
  "vt_sequence_id (disarmed t i) = i" "\<not> vt_armed (disarmed t i)"
  "me_run_id (event t i p st d) = sample_run_id" "me_sim_timestamp_ns (event t i p st d) = t"
  "me_event_id (event t i p st d) = i" "me_phase (event t i p st d) = p" "me_state (event t i p st d) = st"
  "me_detail (event t i p st d) = d"
  by (simp_all add: samples payload_at_rest_def sum_squares_def fmul_def fadd_def square_libm_def flight_libm_def decimals del: One_nat_def)

lemmas judge_steps = ibind_apply judge_accept_ground_truth_def same_run_def note_truth_def
  check_approval_timeout_def contact_change_def take_off_def touch_down_def check_active_deadline_def ilift_def
  limits judge_accept_mission_event_def start_phase_def judge_accept_payload_state_def note_payload_def
  judge_accept_vehicle_status_def landed_fm2_def zones above_ground_def py_max_def flt_def active_elapsed_ns_def
  stop_clock_def STATUS_FRESHNESS_NS_def Let_def

definition judge1 :: vfs_judge where
  "judge1 = judge0\<lparr>vj_truth := Some (vehicle 1000000000 True), vj_status := Some (disarmed 1000000000 1),
     vj_payloads := [(2, container 1000000000 2 (Fin 20) True), (3, container 1000000000 3 (Fin 0) False),
       (4, container 1000000000 4 (Fin 0) False)],
     vj_status_sequence := 3, vj_started_at_ns := Some 500000000, vj_active_accumulated_ns := 500000000,
     vj_paused := True, vj_phase := ''FM2'', vj_payload_grounded_since := [(2, 0)], vj_takeoff_count := 1,
     vj_fm2_airborne := True, vj_leg_peak_agl_m := Fin 10\<rparr>"

lemma judge_drop:
  "run_ops (judge_call square_libm decode_request) drop_leg judge0 =
     ([Inr [], Inr [], Inr [], Inr [], Inr [], Inr [], Inr [], Inr [], Inr []], judge1)"
  by (simp only: drop_leg_def run_ops_steps judge_call.simps judge1_def)
    (simp add: judge_steps judge0_def)

text \<open>The second check freezes payload 2.\<close>

definition evidence :: "int \<Rightarrow> int \<Rightarrow> int \<Rightarrow> string list" where
  "evidence t e v = [''mission-events#'' @ str_int e, ''groundtruth#'' @ str_int t, ''vehicle-status#'' @ str_int v]"

definition second_decision :: judge_decision where
  "second_decision =
     \<lparr>de_run_id = sample_run_id, de_sim_timestamp_ns = 1000000000, de_decision_id = 0, de_request_id = ''second'',
      de_request_event_id = 1, de_phase = ''FM2'', de_checkpoint = [], de_outcome = Approved,
      de_eligible_aruco_ids = [2], de_active_elapsed_ns = 500000000, de_reason_code = ''eligible_payloads_frozen'',
      de_evidence_refs = evidence 1000000000 1 1
        @ map (\<lambda>m. ''payload-state#'' @ str_int m @ ''/'' @ str_int 1000000000) [2, 3, 4]\<rparr>"

definition judge2 :: vfs_judge where
  "judge2 = judge1\<lparr>vj_decision_id := 1, vj_approval_ns := 1000000000, vj_fm2_approved := True,
     vj_fm2_eligible_ids := [2], vj_requests := [(''second'', ''FM2'', [], second_decision)]\<rparr>"

lemmas check_steps = judge_accept_mission_event_def ibind_apply same_run_def check_request_def answer_request_def
  judge_decision_on_def check_verdict_def vehicle_evidence_def check_refs_def fresh_def fresh_status_def
  EVIDENCE_FRESHNESS_NS_def STATUS_FRESHNESS_NS_def fm2_verdict_def limits current_payload_def ilift_def parked_def
  zones eligible_def eligible_payload_def settled_for_def waypoint_named_def lookups contained_at freeze_eligible_def
  stop_clock_def approval_def next_decision_def decision_of_def active_elapsed_ns_def payload_refs_def
  fm3_verdict_def retrieved_def Let_def

lemma judge_second:
  "judge_accept_mission_event square_libm decode_request second_check judge1 = (Inr [second_decision], judge2)"
  by (simp add: second_check_def judge2_def judge1_def judge0_def second_decision_def evidence_def check_steps)

text \<open>The last check, once it is back.\<close>

definition judge3 :: vfs_judge where
  "judge3 = judge2\<lparr>vj_truth := Some (vehicle 2000000000 True), vj_status := Some (disarmed 2000000000 2),
     vj_payloads := [(2, container 2000000000 2 (Fin (- 20)) True), (3, container 1000000000 3 (Fin 0) False),
       (4, container 1000000000 4 (Fin 0) False)],
     vj_status_sequence := 5, vj_active_accumulated_ns := 1000000000, vj_approval_ns := 0, vj_phase := ''FM3'',
     vj_takeoff_count := 2\<rparr>"

lemma judge_return:
  "run_ops (judge_call square_libm decode_request) return_leg judge2 = ([Inr [], Inr [], Inr [], Inr [], Inr []], judge3)"
  by (simp only: return_leg_def run_ops_steps judge_call.simps judge3_def judge2_def judge1_def)
    (simp add: judge_steps judge0_def)

definition last_decision :: judge_decision where
  "last_decision =
     \<lparr>de_run_id = sample_run_id, de_sim_timestamp_ns = 2000000000, de_decision_id = 1, de_request_id = ''last'',
      de_request_event_id = 3, de_phase = ''FM3'', de_checkpoint = [], de_outcome = Approved,
      de_eligible_aruco_ids = [], de_active_elapsed_ns = 1000000000, de_reason_code = ''attempt_complete'',
      de_evidence_refs = evidence 2000000000 3 2 @ [''payload-state#'' @ str_int 2 @ ''/'' @ str_int 2000000000]\<rparr>"

definition judge4 :: vfs_judge where
  "judge4 = judge3\<lparr>vj_decision_id := 2, vj_finished := True,
     vj_requests := [(''second'', ''FM2'', [], second_decision), (''last'', ''FM3'', [], last_decision)]\<rparr>"

lemma judge_last:
  "judge_accept_mission_event square_libm decode_request last_check judge3 = (Inr [last_decision], judge4)"
  by (simp add: last_check_def judge4_def judge3_def judge2_def judge1_def judge0_def last_decision_def evidence_def
      check_steps)

definition attempt_ops :: "judge_op list" where
  "attempt_ops = drop_leg @ [JMission second_check] @ return_leg @ [JMission last_check]"

lemma judge_attempt:
  "judge_run square_libm decode_request attempt_ops judge0 =
    ([Inr [], Inr [], Inr [], Inr [], Inr [], Inr [], Inr [], Inr [], Inr [], Inr [second_decision], Inr [], Inr [],
      Inr [], Inr [], Inr [], Inr [last_decision]], judge4)"
  by (simp add: attempt_ops_def run_ops_append judge_drop judge_second judge_return judge_last)

section \<open>A runtime\<close>

definition world :: vfs_world where
  "world = \<lparr>vw_env = \<lparr>ve_libm = square_libm, ve_decode = decode_request, ve_announce = (\<lambda>_ _. None)\<rparr>,
     vw_encode = strict_line, vw_files = (\<lambda>_ _. None)\<rparr>"

definition watch :: vfs_runtime where
  "watch = \<lparr>vr_run_id = sample_run_id, vr_judge = judge0, vr_scoring = NoScorer,
     vr_log = [], vr_ground_truth_timestamp_ns = None, vr_vehicle_status_timestamp_ns = None,
     vr_payload_timestamps_ns = [(2, None), (3, None), (4, None)], vr_ground_truth_buffer = [],
     vr_vehicle_status_buffer = [], vr_payload_buffer = [], vr_status_grid_offset_ns = None,
     vr_last_epoch_timestamp_ns = None, vr_latest_observed_timestamp_ns = 0,
     vr_latest_ground_truth_received_ns = None, vr_latest_vehicle_status_received_ns = None,
     vr_latest_payload_received_ns = [], vr_pending_checks = []\<rparr>"

lemma watch_fresh: "VfsScorekeeperRuntime sample_run_id judge0 None None = Inr watch"
  by (simp add: VfsScorekeeperRuntime_def watch_def judge0_def refuse_def)

definition instant :: "vfs_runtime_op list" where
  "instant = [RtMission (event 0 0 ''FM3'' ''CHECK_REQUESTED'' ''early''), RtStatus (disarmed 0 0), RtTruth (vehicle 0 True),
     RtPayload (container 0 2 (Fin 0) False), RtPayload (container 0 3 (Fin 0) False), RtPayload (container 0 4 (Fin 0) False)]"

lemmas runtime_steps = vfs_accept_mission_event_def epoch_reached_def resolve_pending_checks_def
  vfs_accept_vehicle_status_def vfs_accept_ground_truth_def vfs_accept_payload_state_def not_later_def
  observe_timestamp_def drain_physical_epochs_def next_epoch_def epoch_complete_def buffered_timestamps_def
  take_epoch_def take_payload_def take_status_def epoch_payloads_def on_judge_def on_scorer_def announce_def
  accept_mission_event_now_def

definition early_decision :: judge_decision where
  "early_decision =
     \<lparr>de_run_id = sample_run_id, de_sim_timestamp_ns = 0, de_decision_id = 0, de_request_id = ''early'',
      de_request_event_id = 0, de_phase = ''FM3'', de_checkpoint = [], de_outcome = Rejected,
      de_eligible_aruco_ids = [], de_active_elapsed_ns = 0, de_reason_code = ''physical_requirements_not_met'',
      de_evidence_refs = evidence 0 0 0\<rparr>"

lemma watch_instant: "DecisionOut early_decision \<in> set (vr_log (snd (vfs_run world instant watch)))"
  by (simp only: instant_def run_ops_steps vfs_runtime_call.simps)
    (simp add: runtime_steps world_def watch_def judge0_def judge_steps check_steps early_decision_def evidence_def
      rejection_def Collect_disj_eq image_Un, auto)

section \<open>A runtime with a scorer\<close>

definition pilot :: vfs_judge where
  "pilot = judge0\<lparr>vj_course := course, vj_scenario := scenario\<rparr>"

lemma pilot_fresh: "VfsJudge (VStr sample_run_id) course scenario = Inr pilot"
  by (simp add: VfsJudge_def pilot_def judge0_def canonical_run_id_def)

definition scorer0 :: vfs_scorer where
  "scorer0 = \<lparr>vk_run_id = sample_run_id, vk_rules = rules, vk_course = course, vk_scenario = scenario,
     vk_weight_lb = Fin 9, vk_a = Fin 0, vk_bp = Fin 0, vk_cp = Fin 0, vk_ba = Fin 0,
     vk_ca = Fin 0, vk_t = Fin 0, vk_deductions = Fin 0, vk_active_ns = None,
     vk_home_before_deadline = False, vk_refs = [], vk_last_timestamp_ns = 0, vk_diagnostic = None,
     vk_phase = [], vk_truth = None, vk_payloads = [], vk_last_vehicle_status = None,
     vk_autonomous = [(''FM1'', True), (''FM2'', True), (''FM3'', True)], vk_bp_invalid = None,
     vk_cp_invalid = None, vk_penalties = [], vk_fm2_eligible_ids = {}\<rparr>"

lemma scorer0_fresh: "VfsScorer (VStr sample_run_id) rules course scenario (Fin 9) = Inr scorer0"
  by (simp add: VfsScorer_def scorer0_def canonical_run_id_def refuse_def flt_def)

definition desk :: vfs_runtime where
  "desk = watch\<lparr>vr_judge := pilot, vr_scoring := FinalizedScorer (ScoreFinalizer scorer0 (\<lambda>_. None))\<rparr>"

lemma desk_fresh: "VfsScorekeeperRuntime sample_run_id pilot (Some scorer0) (Some (\<lambda>_. None)) = Inr desk"
  by (simp add: VfsScorekeeperRuntime_def desk_def watch_def pilot_def judge0_def scorer0_def refuse_def)

definition request :: mission_event_sample where
  "request = event 5 0 ''FM2'' ''CHECK_REQUESTED'' ''late''"

definition waiting :: vfs_runtime where
  "waiting = desk\<lparr>vr_pending_checks := [request]\<rparr>"

lemma desk_request: "vfs_accept_mission_event (vw_env world) request desk = (Inr (), waiting)"
  by (simp add: request_def waiting_def desk_def watch_def world_def runtime_steps ibind_apply)

lemma desk_waits: "snd (vfs_run world [RtMission request] desk) = waiting"
  by (simp add: desk_request)

lemma rules_official: "official rules"
  by (simp add: official_def rules_def expected_targets_def)

lemma waiting_scoring: "vr_scoring waiting = FinalizedScorer (ScoreFinalizer scorer0 (\<lambda>_. None))"
  by (simp add: waiting_def desk_def)

lemma scorer0_untouched: "untouched (ScoreFinalizer scorer0 (\<lambda>_. None))"
  by (simp add: untouched_def ScoreFinalizer_def)

lemma scorer0_limits:
  "vk_last_timestamp_ns (fi_scorer (ScoreFinalizer scorer0 (\<lambda>_. None))) < 2 ^ 63"
  "25 * (length (vk_penalties (fi_scorer (ScoreFinalizer scorer0 (\<lambda>_. None)))) + 1) < 2 ^ 53"
  by (simp_all add: ScoreFinalizer_def scorer0_def)

lemma waiting_unreported: "unreported [] sample_run_id waiting"
  using run_unreported [OF scenario_valid rules_valid course_valid pilot_fresh scorer0_fresh desk_fresh desk_waits
      waiting_scoring scorer0_untouched scorer0_limits]
  by (simp add: ScoreFinalizer_def)

lemma world_encodes: "json_encoder (vw_encode world)"
  by (simp add: world_def strict_line_encodes)

lemma waiting_awaits: "awaits (ve_decode (vw_env world)) (vr_judge waiting) request
    \<and> \<not> epoch_reached (me_sim_timestamp_ns request) waiting"
  by (simp add: awaits_def waiting_def desk_def watch_def pilot_def judge0_def request_def epoch_reached_def)

lemma request_is: "is_request (ve_decode (vw_env world)) request ''late''"
  by (simp add: is_request_def request_def world_def)

lemma waiting_checks: "vr_pending_checks waiting = [request]"
  by (simp add: waiting_def)

lemma waiting_ends:
  obtains r u f where "vfs_accept_source_finished (vw_env world) (vw_encode world) calm t waiting = (Inr r, u)"
    "vr_scoring u = FinalizedScorer f" "fi_result f = Some r"
proof -
  have "wp (vfs_accept_source_finished (vw_env world) (vw_encode world) calm t)
    (\<lambda>r u. \<exists>f. vr_scoring u = FinalizedScorer f \<and> fi_result f = Some r
       \<and> filter visible (fi_log f) = [] @ report_log sample_run_id r) (\<lambda>_ _. False) waiting"
    by (rule finalization_total [OF world_encodes waiting_unreported])
      (use waiting_awaits in \<open>simp_all add: waiting_checks\<close>, simp_all add: world_def)
  then show ?thesis
    by (rule wp_returns) (use that in auto)
qed

section \<open>The properties there\<close>

lemma validated_scenario_well_formed_witness: "valid_targets scenario \<and> vs_payload_capacity scenario = 1"
  using validated_scenario_well_formed [OF scenario_valid] by blast

lemma validated_course_well_formed_witness: "is_circle course ''H'' \<and> is_rectangle course ''L''"
  using validated_course_well_formed [OF course_valid] by simp

lemma validated_payloads_placed_witness:
  "\<exists>p. payload_of scenario 2 = Inr p \<and> placed square_libm course scenario p"
  using validated_payloads_placed [OF scenario_valid configuration_valid, of 2] by (auto simp: VFS_PAYLOAD_IDS_def)

lemma final_approval_sound_witness:
  "home_parked square_libm 2000000000 judge3 \<and> vj_fm2_approved judge3 \<and> vj_finished judge4
    \<and> delivered_to square_libm 2000000000 judge3 ''L'' 2"
  using final_approval_sound [OF judge_last, of "[]" "''last''"]
  by (simp add: last_check_def judge3_def judge2_def judge1_def judge0_def is_approved_def last_decision_def)

lemma second_approval_exact_witness:
  "home_parked square_libm 1000000000 judge1 \<and> vj_paused judge2 \<and> vj_approval_ns judge2 = 1000000000"
  using second_approval_exact [OF judge_second, of "[]" "''second''"]
  by (auto simp: second_check_def judge1_def judge0_def is_approved_def second_decision_def)

lemma eligible_payloads_rested_witness:
  "\<exists>p\<in>set (accepted_payloads drop_leg
     [Inr [], Inr [], Inr [], Inr [], Inr [], Inr [], Inr [], Inr [], Inr ([] :: judge_decision list)]).
     ps_aruco_id p = 2 \<and> fresh EVIDENCE_FRESHNESS_NS 1000000000 (ps_sim_timestamp_ns p)"
proof -
  have f: "parse_request (decode_request (me_detail second_check)) = Some ([], ''second'')"
    "map_of (vj_requests judge1) ''second'' = None" "is_approved ''FM2'' second_decision"
    "2 \<in> set (de_eligible_aruco_ids second_decision)"
    by (simp_all add: second_check_def judge1_def judge0_def is_approved_def second_decision_def)
  have t: "me_sim_timestamp_ns second_check = 1000000000" "0 < (1000000000 :: int)"
    by (simp_all add: second_check_def)
  show ?thesis
    using eligible_payloads_rested [OF judge0_fresh judge_drop judge_second f limits(3) t(2)] unfolding t(1) by blast
qed

lemma attempt_decisions:
  "returned (fst (judge_run square_libm decode_request attempt_ops judge0)) = [second_decision, last_decision]"
  by (simp add: judge_attempt)

lemma one_answer_per_request_witness: "de_decision_id second_decision \<noteq> de_decision_id last_decision"
proof -
  have d: "second_decision \<in> set (returned (fst (judge_run square_libm decode_request attempt_ops judge0)))"
    "last_decision \<in> set (returned (fst (judge_run square_libm decode_request attempt_ops judge0)))"
    by (simp_all add: attempt_decisions)
  have "second_decision \<noteq> last_decision"
    by (simp add: second_decision_def last_decision_def)
  then show ?thesis
    using one_answer_per_request [OF judge0_fresh d] by blast
qed

lemma last_approved: "is_approved ''FM3'' last_decision"
  by (simp add: is_approved_def last_decision_def)

lemma field_targets: "dict_ok (vs_targets field_scenario)"
  by (simp add: field_scenario_def scenario_def)

lemma final_after_second_witness:
  "\<exists>d. is_approved ''FM2'' d \<and> de_decision_id d < de_decision_id last_decision"
  using final_after_second [OF judge0_fresh field_targets, of last_decision square_libm decode_request attempt_ops]
    last_approved
  unfolding attempt_decisions by (meson list.set_intros)

lemma active_time_never_falls_witness:
  "0 \<le> active_elapsed_ns (snd (judge_run square_libm decode_request
     [JTruth (vehicle 0 True), JTruth (vehicle 500000000 False), JTruth (vehicle 600000000 False)] judge0))"
proof -
  have "\<not> meets paused_early (judge_call square_libm decode_request)
      ([JTruth (vehicle 0 True), JTruth (vehicle 500000000 False), JTruth (vehicle 600000000 False)] @ []) judge0"
    by (simp add: paused_early_def judge_steps judge0_def)
  from active_time_never_falls [OF judge0_fresh this] show ?thesis by blast
qed

lemma judged_at_the_instant_of_the_request_witness:
  "''groundtruth#'' @ str_int 0 \<in> set (de_evidence_refs early_decision)"
  using judged_at_the_instant_of_the_request [OF judge0_fresh watch_fresh watch_instant]
  by (simp add: early_decision_def)

lemma no_request_unanswered_witness: "\<exists>u. replied ''late'' u \<and> vr_pending_checks u = []"
proof -
  obtain r u where "vfs_accept_source_finished (vw_env world) (vw_encode world) calm 5 waiting = (Inr r, u)"
    by (rule waiting_ends)
  moreover have "vw_files world = calm" by (simp add: world_def calm_def fun_eq_iff)
  ultimately show ?thesis
    using no_request_unanswered [OF pilot_fresh desk_fresh, of world request "[]" waiting "''late''" 5 "[]" r u]
    by (auto simp: desk_request request_is)
qed

lemma runtime_score_within_bounds_witness:
  "\<exists>(r :: score_result) v. sr_achieved_score r = Fin v \<and> 0 \<le> v \<and> v \<le> 380"
proof -
  obtain r u f where u: "vfs_accept_source_finished (vw_env world) (vw_encode world) calm 5 waiting = (Inr r, u)"
      "vr_scoring u = FinalizedScorer f" "fi_result f = Some r"
    by (rule waiting_ends)
  have "vw_files world = calm" by (simp add: world_def calm_def fun_eq_iff)
  then have "snd (vfs_run world [RtMission request, RtSourceFinished 5] desk) = u"
    using u(1) by (simp add: desk_request ibind_apply)
  then have "vfs_result (snd (vfs_run world [RtMission request, RtSourceFinished 5] desk)) = Some r"
    using u(2,3) by (simp add: vfs_result_def)
  from runtime_score_within_bounds [OF scenario_valid rules_valid pilot_fresh scorer0_fresh desk_fresh this]
  show ?thesis by blast
qed

lemma attempt_ends_with_a_report_witness:
  "\<exists>r u. vfs_accept_source_finished (vw_env world) (vw_encode world) calm 5 waiting = (Inr r, u) \<and> replied ''late'' u"
  using attempt_ends_with_a_report [OF scenario_valid rules_valid course_valid pilot_fresh scorer0_fresh desk_fresh
      desk_waits waiting_scoring scorer0_untouched scorer0_limits world_encodes, of 5] waiting_awaits request_is
  by (auto simp: waiting_checks, auto simp: world_def)

section \<open>A scored decision\<close>

definition scored :: "vfs_scorer_op list" where
  "scored = [SDecision second_decision, SFinalize None]"

definition scorer1 :: vfs_scorer where
  "scorer1 = scorer0\<lparr>vk_last_timestamp_ns := 1000000000, vk_fm2_eligible_ids := {2}, vk_bp := Fin 30, vk_ba := Fin 15,
     vk_refs := [(''BP'', ''mission-events#'' @ str_int 1), (''BA'', ''mission-events#'' @ str_int 1)], vk_active_ns := Some 500000000\<rparr>"

lemma scorer0_second: "scorer_accept_judge_decision square_libm second_decision scorer0 = (Inr (), scorer1)"
  by (simp add: scorer1_def scorer0_def second_decision_def scorer_accept_judge_decision_def ibind_apply observe_def
      record_fm2_def points_of_def payload_targets_def scenario_def rules_def ilift_def autonomous_in_def set_ref_def
      record_active_time_def evidence_def Let_def)


definition scorer_result :: score_result where
  "scorer_result = score_result_of (decimal 15 1) 1000000000 scorer1"

lemma scorer1_final: "vfs_finalize None scorer1 = (Inr scorer_result, scorer1)"
proof -
  have "multiplier (vk_rules scorer1) (vk_weight_lb scorer1) = Inr (decimal 15 1)"
    by (simp add: scorer1_def scorer0_def rules_def multiplier_def expected_weight_def flt_def)
  moreover have "nanoseconds (va_duration_seconds (vc_attempt (vk_course scorer1))) = Inr 600000000000"
    by (simp add: scorer1_def scorer0_def course_def attempt_2027_def nanoseconds_def fmul_def)
  moreover have "\<not> late_home 600000000000 scorer1" "time_awarded 600000000000 scorer1 = None"
    "vk_last_timestamp_ns scorer1 = 1000000000"
    by (simp_all add: late_home_def time_awarded_def scorer1_def scorer0_def flt_def)
  ultimately show ?thesis
    by (simp add: vfs_finalize_def ibind_apply ilift_def scorer_result_def)
qed

lemma scored_run: "vfs_score_run square_libm scored scorer0 = ([Inr [], Inr [scorer_result]], scorer1)"
  by (simp add: scored_def ibind_apply scorer0_second scorer1_final)

lemma score_within_official_bounds_witness: "\<exists>v. sr_achieved_score scorer_result = Fin v \<and> 0 \<le> v \<and> v \<le> 380"
proof -
  have "list_all (proper_op scenario) scored" "scorer_result \<in> set (returned (fst (vfs_score_run square_libm scored scorer0)))"
    unfolding scored_run by (simp_all add: scored_def proper_decision_def second_decision_def scenario_def)
  from score_within_official_bounds [OF rules_valid scorer0_fresh validated_targets [OF scenario_valid] this]
  show ?thesis .
qed

lemma result_accounts_for_the_score_witness:
  "map ru_awarded_points (sr_rule_results scorer_result) ! 7 = Fin 0"
proof -
  have "snd (vfs_score_run square_libm [SDecision second_decision] scorer0) = scorer1"
    by (simp add: ibind_apply scorer0_second)
  from result_accounts_for_the_score [OF scorer0_fresh rules_official this scorer1_final]
  show ?thesis by (simp add: scorer1_def scorer0_def)
qed

end
