(* ===== verification/Spec2Isabelle.thy ===== *)
theory Spec2Isabelle
  imports Run_Lifecycle Gz_Adapter_Inv Gz_Epoch Gz_Truth_Inv Gz_Support_Inv Gz_Tracker_Inv
    Status_Codec Gz_Runtime_Inv
    Em_Gateway_Props Em_Scenario Artifact_Session_Props Score_Runtime_Examples
    Vfs_Examples
begin

text \<open>
  A verification development of \<open>drone_sim\<close>, a simulation of a payload competition. One run is
  a set of containers that share a run directory: the host controller (\<open>src/orchestration\<close>)
  drives a lifecycle; \<open>src/gazebo\<close> adapts a warm Gazebo server to a public clock, camera frames,
  ground truth and payload states; \<open>src/electromagnet\<close> decides which payload requests become
  physical commands; \<open>src/scorekeeper\<close> judges the flight from what it observed; and
  \<open>src/artifacts\<close> validates the outputs and commits the run manifest. The modules talk in typed
  status files and in messages; every module fails closed.

  \<^bold>\<open>Conventions\<close> (\<open>Py_Prelude\<close>, \<open>Py_Float\<close>, \<open>Py_IO\<close>). A class is a record, its
  constructor a definition of its name that returns \<open>exn + record\<close>, a method a definition that
  takes and returns the record, with \<open>Inl\<close> for what it raises and the state it leaves then.
  Values whose type the source checks itself are \<open>pyval\<close>; integers are unbounded; strings are lists
  of code points up to U+00FF; dictionaries keep their insertion order. Floats are binary64, with
  rounding computed exactly on rationals. Statements that act on a shared state and may raise are
  \<open>io\<close> computations with weakest preconditions. The contracts several components share are
  locales, each interpreted on the components that keep it: \<open>invariant_machine\<close> and
  \<open>transition_invariant\<close> (an invariant of all runs), \<open>fault_sticky\<close> and \<open>fault_latch\<close>
  (a latched fault answers every later call), \<open>validator_contract\<close> (artifact validators),
  \<open>scorer_contract\<close> (what a finalizer needs of a scorer), \<open>scorer_laws\<close> (what the runtime of the
  figure flights needs of a scorer).

  \<^bold>\<open>Run lifecycle\<close> (\<open>Run_Lifecycle\<close>; \<open>orchestration/lifecycle.py\<close>). The eight states, the
  transition function, what every reachable lifecycle satisfies and which sequences complete.

  \<^bold>\<open>Public samples\<close> (\<open>Gz_Adapter_Model\<close>, \<open>Gz_Adapter_Inv\<close>; \<open>gazebo/ros_adapter/model.py\<close>).
  Frame and ground-truth validation and pairing. Frames are numbered without a gap on one 50 ms
  grid, the queues hold at most 20 entries, a fault is final, and a frozen model returns an exact
  summary.

  \<^bold>\<open>Output epoch\<close> (\<open>Gz_Epoch\<close>; \<open>epoch.py\<close>). The mapping from warm server time to run time:
  what is exposed, and that an armed gate latches its epoch.

  \<^bold>\<open>Truth and support\<close> (\<open>Gz_Aggregation\<close>, \<open>Gz_Truth_Inv\<close>, \<open>Gz_Support_Inv\<close>;
  \<open>aggregation.py\<close>) and \<^bold>\<open>payload tracking\<close> (\<open>Gz_Payload_Tracker\<close>, \<open>Gz_Tracker_Inv\<close>;
  \<open>payload.py\<close>). Joins of odometry, contacts, poses and joint states; each output is compared with
  the histories of its inputs.

  \<^bold>\<open>Gazebo runtime\<close> (\<open>Gz_Runtime_Model\<close>, \<open>Gz_Runtime_Inv\<close>; \<open>gazebo/runtime/model.py\<close>). The
  transition model of one run: every action is preceded by what it depends on, one-time actions
  happen once, and a nominal run completes.

  \<^bold>\<open>Statuses\<close> (\<open>Runtime_Status\<close>, \<open>Status_Codec\<close>; \<open>artifacts/runtime_status.py\<close>). The fifteen
  status classes, their checks and the round trip of their documents.

  \<^bold>\<open>Payload requests\<close> (\<open>Em_Payload\<close>, \<open>Em_Gateway\<close>, \<open>Em_Gateway_Inv\<close>, \<open>Em_Gateway_Props\<close>,
  \<open>Em_Scenario\<close>; \<open>electromagnet/payload.py\<close>, \<open>controller.py\<close>, \<open>scenario.py\<close>). The decision
  on facts about the world; the gateway as a step relation whose steps are the sections of an
  execution between two waits, interleaved with telemetry and result callbacks; commands once per
  id, acceptance only after physical confirmation and one event handed on, replay from the cache.

  \<^bold>\<open>Artifacts\<close> (\<open>Artifact_Validation\<close>, \<open>Artifact_Validation_Props\<close>,
  \<open>Artifact_Validation_Static\<close>; \<open>validation.py\<close>) model the filesystem validators over a
  filesystem that may answer differently at each call: a valid file was pinned by descriptors
  while it was read and its digest is that of what was read from them, and on a filesystem that
  stays as it is the result is a reference function of it.
  The loop over a tree has as fuel the number of directories that may be opened: each iteration opens
  one, so the limit on descriptors ends it. \<open>Manifest\<close> and \<open>Manifest_Commit\<close> (\<open>manifest.py\<close>) state
  which manifests are well formed and that the commit is write-once; \<open>Artifact_Session\<close> and
  \<open>Artifact_Session_Props\<close> (\<open>session.py\<close>) that finalization fails closed, and that only a failing
  \<open>fstat\<close> or the commit itself keeps a run from its manifest.

  \<^bold>\<open>Scoring\<close>. \<open>Score_Models\<close> (\<open>scorekeeper/models.py\<close>) has results, events and the vehicle
  sample; \<open>Score_Descent\<close> (\<open>descent.py\<close>) the descent policy; \<open>Score_Competition\<close> and
  \<open>Score_Evaluation\<close> (\<open>competition.py\<close>) the evidence a \<open>CompetitionScorer\<close> collects and its
  evaluation, method by method. \<open>Score_Awards\<close> shows that the awards form a chain and what a complete
  flight is; \<open>Score_Settle\<close> compares the settling loop with its specification and states the
  physical facts behind an award; \<open>Score_Evidence\<close> and \<open>Score_Capacity\<close> show what every reachable
  scorer holds and that the capacity check is exact on it. \<open>Score_Finalizer\<close>
  (\<open>_finalization.py\<close>, \<open>output.py\<close>) and \<open>Score_Runtime\<close> (\<open>competition_runtime.py\<close>, \<open>runtime.py\<close>)
  persist and report a score in an environment where any call may raise; \<open>Score_Report\<close>,
  \<open>Score_Runtime_Props\<close> and \<open>Score_Runtime_Live\<close> show that a score is reported once and in order,
  that it is reported when nothing raises, and that an interrupted report is lost.
  \<open>Score_Examples\<close> flies a complete mission of seventeen samples, on which the properties are
  applied.

  \<^bold>\<open>Figure flights\<close>. A course, a scenario and the official rules are three documents.
  \<open>Vfs_Contract\<close> (\<open>artifacts/vfs_contract.py\<close>) is their validation, over documents already read
  from YAML, and \<open>Vfs_Contract_Props\<close> what an accepted document guarantees. \<open>Vfs_Geometry\<close>,
  \<open>Vfs_Judge\<close> and \<open>Vfs_Scorer\<close> are the three parts of \<open>scorekeeper/vfs.py\<close>: the footprints of
  payloads and waypoints, the live judge that answers the checks of the flight, and the scorer with
  the rules it reads. \<open>Vfs_Judge_Inv\<close>, \<open>Vfs_Judge_Book\<close>, \<open>Vfs_Judge_Props\<close> and
  \<open>Vfs_Judge_Rest\<close> show of every reachable judge what its clock and its book of decisions hold,
  what an approval of the second and of the final check means, and that a payload found eligible
  was observed at rest for the whole settle time; \<open>Vfs_Score_Bounds\<close> and \<open>Vfs_Scorer_Props\<close> that
  a score is accounted for by its table and its penalties and stays within the official bounds.
  \<open>Vfs_Runtime\<close> (\<open>vfs_runtime.py\<close>) merges the streams by their timestamps: a position, a status and
  one state per payload make an instant, a check waits until the instant of its request was taken.
  \<open>Vfs_Runtime_Judge\<close>, \<open>Vfs_Runtime_Inv\<close>, \<open>Vfs_Runtime_Props\<close> and \<open>Vfs_Runtime_Live\<close> show that each
  check is judged on the samples of its instant whatever the order of arrival, that no request is
  left unanswered at a finalization, and that an attempt ends with a report. The loop over the
  instants has as fuel the number of buffered positions: each round takes one, and
  more fuel changes nothing. \<open>Vfs_Config\<close> holds the shipped
  course, scenario and rules, which validation accepts, and \<open>Vfs_Examples\<close> an attempt on them.

  \<^bold>\<open>Parameters\<close>. \<open>hypot\<close> and the other functions of \<open>math\<close> whose last bit the platform decides
  (the record \<open>libm\<close>), the JSON encoders and decoders, \<open>isoformat\<close>, SHA-256, zstd, and the
  answers of the filesystem, of publishers and of the run protocol. No theorem assumes more of them
  than it says; those that need a document to be encoded assume it of values without NaN and
  infinite floats only, as \<open>json.dumps\<close> with \<open>allow_nan=False\<close> encodes them.

  \<^bold>\<open>Not modelled\<close>. ROS nodes, process supervision, sockets, MAVLink, containers, ffmpeg and
  rosbag readers, and the atomic-file layer of \<open>protocol_files.py\<close>: they are calls to the outside
  around the modelled cores. The configuration loaders and the checks of finished bundles re-read
  JSON, YAML and recordings. The orchestration controller and the flight program under
  \<open>src/companion\<close> are not modelled.
\<close>

end
